(* ===== verification/Prelude.thy ===== *)
theory Prelude
  imports Main "HOL-Library.Word" "HOL-Library.AList" "HOL-Library.Char_ord"
    "HOL-Library.List_Lexorder" "HOL-Library.Multiset"
begin

text \<open>
  Shared vocabulary of the development: the machine integer types of the Rust code, clocks,
  the model of \<open>std::collections::HashMap\<close> where the code iterates over it, the string
  operations of \<open>str\<close> the code calls, and the generic lemmas on them.

  Conventions used by every component theory:
  \<^item> \<open>u8\<close>, \<open>u32\<close>, \<open>u64\<close> are words of that width; \<open>usize\<close> indices and lengths are \<open>nat\<close>;
  \<^item> an \<open>instant\<close> is a monotonic clock reading in nanoseconds; an operation that calls
    \<open>Instant::now()\<close> or \<open>SystemTime::now()\<close> takes the reading as an argument;
  \<^item> a \<open>string\<close> is the byte sequence of the Rust \<open>str\<close>;
  \<^item> a \<open>HashMap\<close> that is only looked up and updated is a map \<open>'k \<rightharpoonup> 'v\<close>; one that is
    iterated is an association list with distinct keys (\<open>hm_ok\<close>), whose order stands for
    the unspecified iteration order, so a statement proved for every such list holds for
    every order;
  \<^item> logging (\<open>tracing\<close>) and metrics calls change no state of the program and are left out.
\<close>

section \<open>Types\<close>

type_synonym u8 = "8 word"
type_synonym u32 = "32 word"
type_synonym u64 = "64 word"
type_synonym bytes = "8 word list"
type_synonym instant = nat

text \<open>Collections of facts: equations of the hash map model, and equations of the string
  operations.\<close>

named_theorems hm_simps
named_theorems str_simps

section \<open>Clock arithmetic\<close>

abbreviation nanos_per_sec :: nat where
  "nanos_per_sec \<equiv> 1000000000"

abbreviation nanos_per_milli :: nat where
  "nanos_per_milli \<equiv> 1000000"

text \<open>\<open>last.elapsed().as_secs()\<close>: the difference saturates at zero.\<close>

definition elapsed_secs :: "instant \<Rightarrow> instant \<Rightarrow> nat" where
  "elapsed_secs now last_at = (now - last_at) div nanos_per_sec"

definition add_secs :: "instant \<Rightarrow> u64 \<Rightarrow> instant" where
  "add_secs t s = t + unat s * nanos_per_sec"

text \<open>\<open>Instant + Duration::from_secs(s)\<close> panics when the seconds leave the range of \<open>i64\<close>.\<close>

definition checked_add_secs :: "instant \<Rightarrow> u64 \<Rightarrow> instant option" where
  "checked_add_secs t s =
     (if t div nanos_per_sec + unat s < 2 ^ 63 then Some (add_secs t s) else None)"

definition instant_overflow :: string where
  "instant_overflow = ''overflow when adding duration to instant''"

section \<open>Fixed-width arithmetic\<close>

definition u64_max :: u64 where
  "u64_max = - 1"

definition saturating_mul :: "u64 \<Rightarrow> u64 \<Rightarrow> u64" where
  "saturating_mul a b = (if unat a * unat b < 2 ^ 64 then a * b else u64_max)"

definition saturating_sub :: "u64 \<Rightarrow> u64 \<Rightarrow> u64" where
  "saturating_sub a b = (if b \<le> a then a - b else 0)"

definition checked_shl_one :: "u32 \<Rightarrow> u64 option" where
  "checked_shl_one n = (if unat n < 64 then Some (push_bit (unat n) 1) else None)"

section \<open>Hash maps that are iterated\<close>

type_synonym ('k, 'v) hashmap = "('k \<times> 'v) list"

definition hm_ok :: "('k, 'v) hashmap \<Rightarrow> bool" where
  "hm_ok m \<longleftrightarrow> distinct (map fst m)"

definition hm_get :: "('k, 'v) hashmap \<Rightarrow> 'k \<Rightarrow> 'v option" where
  "hm_get m k = map_of m k"

definition hm_insert :: "'k \<Rightarrow> 'v \<Rightarrow> ('k, 'v) hashmap \<Rightarrow> ('k, 'v) hashmap" where
  "hm_insert k v m = AList.update k v m"

definition hm_remove :: "'k \<Rightarrow> ('k, 'v) hashmap \<Rightarrow> ('k, 'v) hashmap" where
  "hm_remove k m = filter (\<lambda>(k', _). k' \<noteq> k) m"

definition hm_contains :: "('k, 'v) hashmap \<Rightarrow> 'k \<Rightarrow> bool" where
  "hm_contains m k \<longleftrightarrow> hm_get m k \<noteq> None"

definition hm_keys :: "('k, 'v) hashmap \<Rightarrow> 'k list" where
  "hm_keys m = map fst m"

definition hm_values :: "('k, 'v) hashmap \<Rightarrow> 'v list" where
  "hm_values m = map snd m"

section \<open>Strings\<close>

definition starts_with :: "string \<Rightarrow> string \<Rightarrow> bool" where
  "starts_with s p \<longleftrightarrow> take (length p) s = p"

definition strip_prefix :: "string \<Rightarrow> string \<Rightarrow> string option" where
  "strip_prefix s p = (if starts_with s p then Some (drop (length p) s) else None)"

text \<open>\<open>str::to_lowercase\<close> on ASCII text (bytes outside \<open>A..Z\<close> are kept).\<close>

definition lower_char :: "char \<Rightarrow> char" where
  "lower_char c = (if CHR ''A'' \<le> c \<and> c \<le> CHR ''Z'' then char_of (of_char c + 32 :: nat) else c)"

definition to_lowercase :: "string \<Rightarrow> string" where
  "to_lowercase s = map lower_char s"

fun join :: "string \<Rightarrow> string list \<Rightarrow> string" where
  "join sep [] = []"
| "join sep [x] = x"
| "join sep (x # y # zs) = x @ sep @ join sep (y # zs)"

definition quoted :: "string \<Rightarrow> string" where
  "quoted s = [CHR 0x27] @ s @ [CHR 0x27]"

text \<open>\<open>format!("{}", n)\<close> of an unsigned and of a signed integer.\<close>

definition digit_char :: "nat \<Rightarrow> char" where
  "digit_char d = char_of (48 + d)"

fun show_nat :: "nat \<Rightarrow> string" where
  "show_nat n = (if n < 10 then [digit_char n] else show_nat (n div 10) @ [digit_char (n mod 10)])"

declare show_nat.simps [simp del]

definition show_int :: "int \<Rightarrow> string" where
  "show_int i = (if i < 0 then CHR ''-'' # show_nat (nat (- i)) else show_nat (nat i))"

section \<open>Lemmas on fixed-width arithmetic\<close>

lemma unat_u64_max [simp]: "unat u64_max = 2 ^ 64 - 1"
  by (simp add: u64_max_def unsigned_minus_1_eq_mask mask_eq_exp_minus_1)

lemma unat_u64_less [simp]: "unat (x :: u64) < 18446744073709551616"
  using unsigned_less [of x, where ?'a = nat] by simp

lemma unat_u32_less [simp]: "unat (x :: u32) < 4294967296"
  using unsigned_less [of x, where ?'a = nat] by simp

lemma unat_u64_le [simp]: "unat (x :: u64) \<le> 18446744073709551615"
  using unat_u64_less [of x] by linarith

lemma unat_saturating_mul:
  "unat (saturating_mul a b) = min (unat a * unat b) (2 ^ 64 - 1)"
  by (auto simp: saturating_mul_def unat_word_ariths)

lemma unat_saturating_sub: "unat (saturating_sub a b) = unat a - unat b"
  by (auto simp: saturating_sub_def unat_sub word_le_nat_alt)

lemma unat_push_bit_one:
  assumes "n < 64"
  shows "unat (push_bit n 1 :: u64) = 2 ^ n"
proof -
  have "(2 :: nat) ^ n < 2 ^ 64" using assms by (intro power_strict_increasing) simp_all
  moreover have "(push_bit n 1 :: u64) = of_nat (2 ^ n)" by (simp add: push_bit_eq_mult)
  ultimately show ?thesis by (simp add: unat_of_nat del: of_nat_power)
qed

lemma unat_Suc_no_wrap:
  fixes x :: "'a :: len word"
  assumes "x < y"
  shows "unat (x + 1) = Suc (unat x)"
proof -
  have "unat x < unat y" using assms by (simp add: word_less_nat_alt)
  moreover have "unat y < 2 ^ LENGTH('a)" by (rule unsigned_less)
  ultimately have "Suc (unat x) < 2 ^ LENGTH('a)" by linarith
  then show ?thesis by (simp add: unat_word_ariths)
qed

section \<open>Lemmas on hash maps\<close>

lemma hm_get_Nil [simp, hm_simps]: "hm_get [] k = None"
  by (simp add: hm_get_def)

lemma hm_get_insert [simp, hm_simps]:
  "hm_get (hm_insert k v m) k' = (if k' = k then Some v else hm_get m k')"
  by (simp add: hm_get_def hm_insert_def update_conv')

lemma hm_get_remove [simp, hm_simps]:
  "hm_get (hm_remove k m) k' = (if k' = k then None else hm_get m k')"
  by (induction m) (auto simp: hm_get_def hm_remove_def)

lemma hm_ok_Nil [simp, hm_simps]: "hm_ok []"
  by (simp add: hm_ok_def)

lemma hm_ok_insert [simp, intro, hm_simps]: "hm_ok m \<Longrightarrow> hm_ok (hm_insert k v m)"
  by (simp add: hm_ok_def hm_insert_def distinct_update)

lemma hm_ok_remove [simp, intro, hm_simps]: "hm_ok m \<Longrightarrow> hm_ok (hm_remove k m)"
  by (simp add: hm_ok_def hm_remove_def distinct_map_filter)

lemma hm_get_Some_in: "hm_get m k = Some v \<Longrightarrow> (k, v) \<in> set m"
  by (simp add: hm_get_def map_of_SomeD)

lemma hm_get_iff: "hm_ok m \<Longrightarrow> hm_get m k = Some v \<longleftrightarrow> (k, v) \<in> set m"
  by (simp add: hm_get_def hm_ok_def)

lemma hm_insert_new:
  "hm_get m k = None \<Longrightarrow> hm_insert k v m = m @ [(k, v)]"
  by (induction m) (auto simp: hm_get_def hm_insert_def split: if_splits)

lemma set_hm_keys: "set (hm_keys m) = {k. hm_get m k \<noteq> None}"
  by (auto simp: hm_keys_def hm_get_def map_of_eq_None_iff)

section \<open>Lemmas on strings\<close>

lemma starts_with_append [simp, str_simps]: "starts_with (p @ s) p"
  by (simp add: starts_with_def)

lemma starts_with_iff: "starts_with s p \<longleftrightarrow> (\<exists>r. s = p @ r)"
  by (metis append_take_drop_id starts_with_append starts_with_def)

lemma strip_prefix_append [simp, str_simps]: "strip_prefix (p @ s) p = Some s"
  by (simp add: strip_prefix_def)

lemma strip_prefix_Some: "strip_prefix s p = Some r \<longleftrightarrow> s = p @ r"
  by (auto simp: strip_prefix_def starts_with_iff)

lemma length_to_lowercase [simp, str_simps]: "length (to_lowercase s) = length s"
  by (simp add: to_lowercase_def)

lemma of_char_lower_char:
  "(of_char (lower_char c) :: nat) =
     (if 65 \<le> (of_char c :: nat) \<and> of_char c \<le> (90 :: nat) then of_char c + 32 else of_char c)"
  by (simp add: lower_char_def less_eq_char_def take_bit_nat_eq_self)

lemma show_nat_not_Nil [simp, str_simps]: "show_nat n \<noteq> []"
  by (subst show_nat.simps) simp

end
