(* ===== verification/Errors.thy ===== *)
theory Errors
  imports Prelude
begin

text \<open>
  The error vocabulary of \<open>rinfra-core/src/error\<close> and the response envelope of
  \<open>rinfra-core/src/response/mod.rs\<close>: every error code with its wire name, HTTP status and
  translation key, the error value \<open>AppError\<close> with its \<open>Display\<close> form, the result type every
  fallible operation of the development returns, and \<open>ApiResponse\<close>.

  A result is \<open>fault + 'a\<close>: \<open>Inl (Fail e)\<close> is the code's \<open>Err(e)\<close>, \<open>Inl (Panic m)\<close> a panic
  of the thread that runs the operation, \<open>Inr v\<close> is \<open>Ok(v)\<close>. \<open>bind_res\<close> is the operator
  \<open>?\<close>. The wrapped source of an \<open>AppError\<close> is carried as its rendered text, which is all the
  code ever reads of it.
\<close>

section \<open>Error codes\<close>

datatype (plugins only: code size) error_code =
    PluginAlreadyRegistered | PluginNotFound | PluginInitFailed | PluginShutdownFailed
  | PluginShutdownTimeout | EventSendFailed | CodecEncodeFailed | CodecDecodeFailed
  | CodecNotFound | ConfigFileMissing | ConfigParseFailed | ConfigValidationFailed
  | LogInitFailed | ServerBindFailed | ServerStartFailed | StoreConnectionFailed
  | StoreQueryFailed | StoreMigrationFailed | StoreNotFound | CacheGetFailed
  | CacheSetFailed | CacheDeleteFailed | CacheConnectionFailed | RateLimitExceeded
  | CryptoEncryptFailed | CryptoDecryptFailed | CryptoKeyNotFound | MqPublishFailed
  | MqSubscribeFailed | WsUpgradeFailed | WsSendFailed | RpcServerFailed | RpcServiceError
  | ScriptExecFailed | ScriptLoadFailed | ScriptTimeout | ClusterNodeNotFound
  | ClusterRegisterFailed | ClusterMainUnreachable | ClusterHeartbeatFailed
  | ClusterAuthFailed | AuthTokenMissing | AuthTokenInvalid | AuthTokenExpired
  | TimerScheduleFailed | TimerTaskNotFound | TimerInvalidSchedule | FileNotFound
  | FileReadFailed | FileWriteFailed | FileDeleteFailed | HttpRequestFailed | HttpTimeout
  | LockAcquireFailed | LockConflict | ConfigReloadFailed | CircuitBreakerOpen
  | AuditLogFailed | I18nLoadFailed | Internal | InvalidArgument

primrec as_str :: "error_code \<Rightarrow> string" where
  "as_str PluginAlreadyRegistered = ''PLUGIN_ALREADY_REGISTERED''"
| "as_str PluginNotFound = ''PLUGIN_NOT_FOUND''"
| "as_str PluginInitFailed = ''PLUGIN_INIT_FAILED''"
| "as_str PluginShutdownFailed = ''PLUGIN_SHUTDOWN_FAILED''"
| "as_str PluginShutdownTimeout = ''PLUGIN_SHUTDOWN_TIMEOUT''"
| "as_str EventSendFailed = ''EVENT_SEND_FAILED''"
| "as_str CodecEncodeFailed = ''CODEC_ENCODE_FAILED''"
| "as_str CodecDecodeFailed = ''CODEC_DECODE_FAILED''"
| "as_str CodecNotFound = ''CODEC_NOT_FOUND''"
| "as_str ConfigFileMissing = ''CONFIG_FILE_MISSING''"
| "as_str ConfigParseFailed = ''CONFIG_PARSE_FAILED''"
| "as_str ConfigValidationFailed = ''CONFIG_VALIDATION_FAILED''"
| "as_str LogInitFailed = ''LOG_INIT_FAILED''"
| "as_str ServerBindFailed = ''SERVER_BIND_FAILED''"
| "as_str ServerStartFailed = ''SERVER_START_FAILED''"
| "as_str StoreConnectionFailed = ''STORE_CONNECTION_FAILED''"
| "as_str StoreQueryFailed = ''STORE_QUERY_FAILED''"
| "as_str StoreMigrationFailed = ''STORE_MIGRATION_FAILED''"
| "as_str StoreNotFound = ''STORE_NOT_FOUND''"
| "as_str CacheGetFailed = ''CACHE_GET_FAILED''"
| "as_str CacheSetFailed = ''CACHE_SET_FAILED''"
| "as_str CacheDeleteFailed = ''CACHE_DELETE_FAILED''"
| "as_str CacheConnectionFailed = ''CACHE_CONNECTION_FAILED''"
| "as_str RateLimitExceeded = ''RATE_LIMIT_EXCEEDED''"
| "as_str CryptoEncryptFailed = ''CRYPTO_ENCRYPT_FAILED''"
| "as_str CryptoDecryptFailed = ''CRYPTO_DECRYPT_FAILED''"
| "as_str CryptoKeyNotFound = ''CRYPTO_KEY_NOT_FOUND''"
| "as_str MqPublishFailed = ''MQ_PUBLISH_FAILED''"
| "as_str MqSubscribeFailed = ''MQ_SUBSCRIBE_FAILED''"
| "as_str WsUpgradeFailed = ''WS_UPGRADE_FAILED''"
| "as_str WsSendFailed = ''WS_SEND_FAILED''"
| "as_str RpcServerFailed = ''RPC_SERVER_FAILED''"
| "as_str RpcServiceError = ''RPC_SERVICE_ERROR''"
| "as_str ScriptExecFailed = ''SCRIPT_EXEC_FAILED''"
| "as_str ScriptLoadFailed = ''SCRIPT_LOAD_FAILED''"
| "as_str ScriptTimeout = ''SCRIPT_TIMEOUT''"
| "as_str ClusterNodeNotFound = ''CLUSTER_NODE_NOT_FOUND''"
| "as_str ClusterRegisterFailed = ''CLUSTER_REGISTER_FAILED''"
| "as_str ClusterMainUnreachable = ''CLUSTER_MAIN_UNREACHABLE''"
| "as_str ClusterHeartbeatFailed = ''CLUSTER_HEARTBEAT_FAILED''"
| "as_str ClusterAuthFailed = ''CLUSTER_AUTH_FAILED''"
| "as_str AuthTokenMissing = ''AUTH_TOKEN_MISSING''"
| "as_str AuthTokenInvalid = ''AUTH_TOKEN_INVALID''"
| "as_str AuthTokenExpired = ''AUTH_TOKEN_EXPIRED''"
| "as_str TimerScheduleFailed = ''TIMER_SCHEDULE_FAILED''"
| "as_str TimerTaskNotFound = ''TIMER_TASK_NOT_FOUND''"
| "as_str TimerInvalidSchedule = ''TIMER_INVALID_SCHEDULE''"
| "as_str FileNotFound = ''FILE_NOT_FOUND''"
| "as_str FileReadFailed = ''FILE_READ_FAILED''"
| "as_str FileWriteFailed = ''FILE_WRITE_FAILED''"
| "as_str FileDeleteFailed = ''FILE_DELETE_FAILED''"
| "as_str HttpRequestFailed = ''HTTP_REQUEST_FAILED''"
| "as_str HttpTimeout = ''HTTP_TIMEOUT''"
| "as_str LockAcquireFailed = ''LOCK_ACQUIRE_FAILED''"
| "as_str LockConflict = ''LOCK_CONFLICT''"
| "as_str ConfigReloadFailed = ''CONFIG_RELOAD_FAILED''"
| "as_str CircuitBreakerOpen = ''CIRCUIT_BREAKER_OPEN''"
| "as_str AuditLogFailed = ''AUDIT_LOG_FAILED''"
| "as_str I18nLoadFailed = ''I18N_LOAD_FAILED''"
| "as_str Internal = ''INTERNAL''"
| "as_str InvalidArgument = ''INVALID_ARGUMENT''"

primrec http_status :: "error_code \<Rightarrow> nat" where
  "http_status PluginAlreadyRegistered = 409"
| "http_status PluginNotFound = 404"
| "http_status PluginInitFailed = 500"
| "http_status PluginShutdownFailed = 500"
| "http_status PluginShutdownTimeout = 504"
| "http_status EventSendFailed = 500"
| "http_status CodecEncodeFailed = 500"
| "http_status CodecDecodeFailed = 400"
| "http_status CodecNotFound = 404"
| "http_status ConfigFileMissing = 404"
| "http_status ConfigParseFailed = 400"
| "http_status ConfigValidationFailed = 400"
| "http_status LogInitFailed = 500"
| "http_status ServerBindFailed = 500"
| "http_status ServerStartFailed = 500"
| "http_status StoreConnectionFailed = 500"
| "http_status StoreQueryFailed = 500"
| "http_status StoreMigrationFailed = 500"
| "http_status StoreNotFound = 404"
| "http_status CacheGetFailed = 500"
| "http_status CacheSetFailed = 500"
| "http_status CacheDeleteFailed = 500"
| "http_status CacheConnectionFailed = 500"
| "http_status RateLimitExceeded = 429"
| "http_status CryptoEncryptFailed = 500"
| "http_status CryptoDecryptFailed = 500"
| "http_status CryptoKeyNotFound = 404"
| "http_status MqPublishFailed = 500"
| "http_status MqSubscribeFailed = 500"
| "http_status WsUpgradeFailed = 400"
| "http_status WsSendFailed = 500"
| "http_status RpcServerFailed = 500"
| "http_status RpcServiceError = 500"
| "http_status ScriptExecFailed = 500"
| "http_status ScriptLoadFailed = 400"
| "http_status ScriptTimeout = 504"
| "http_status ClusterNodeNotFound = 404"
| "http_status ClusterRegisterFailed = 500"
| "http_status ClusterMainUnreachable = 503"
| "http_status ClusterHeartbeatFailed = 500"
| "http_status ClusterAuthFailed = 401"
| "http_status AuthTokenMissing = 401"
| "http_status AuthTokenInvalid = 401"
| "http_status AuthTokenExpired = 401"
| "http_status TimerScheduleFailed = 500"
| "http_status TimerTaskNotFound = 404"
| "http_status TimerInvalidSchedule = 400"
| "http_status FileNotFound = 404"
| "http_status FileReadFailed = 500"
| "http_status FileWriteFailed = 500"
| "http_status FileDeleteFailed = 500"
| "http_status HttpRequestFailed = 502"
| "http_status HttpTimeout = 504"
| "http_status LockAcquireFailed = 500"
| "http_status LockConflict = 409"
| "http_status ConfigReloadFailed = 500"
| "http_status CircuitBreakerOpen = 503"
| "http_status AuditLogFailed = 500"
| "http_status I18nLoadFailed = 500"
| "http_status Internal = 500"
| "http_status InvalidArgument = 400"

definition i18n_key :: "error_code \<Rightarrow> string" where
  "i18n_key c = ''error.'' @ to_lowercase (as_str c)"

text \<open>All codes in the order of the declaration.\<close>

definition all_error_codes :: "error_code list" where
  "all_error_codes = [
     PluginAlreadyRegistered, PluginNotFound, PluginInitFailed, PluginShutdownFailed,
     PluginShutdownTimeout, EventSendFailed, CodecEncodeFailed, CodecDecodeFailed,
     CodecNotFound, ConfigFileMissing, ConfigParseFailed, ConfigValidationFailed,
     LogInitFailed, ServerBindFailed, ServerStartFailed, StoreConnectionFailed,
     StoreQueryFailed, StoreMigrationFailed, StoreNotFound, CacheGetFailed, CacheSetFailed,
     CacheDeleteFailed, CacheConnectionFailed, RateLimitExceeded, CryptoEncryptFailed,
     CryptoDecryptFailed, CryptoKeyNotFound, MqPublishFailed, MqSubscribeFailed,
     WsUpgradeFailed, WsSendFailed, RpcServerFailed, RpcServiceError, ScriptExecFailed,
     ScriptLoadFailed, ScriptTimeout, ClusterNodeNotFound, ClusterRegisterFailed,
     ClusterMainUnreachable, ClusterHeartbeatFailed, ClusterAuthFailed, AuthTokenMissing,
     AuthTokenInvalid, AuthTokenExpired, TimerScheduleFailed, TimerTaskNotFound,
     TimerInvalidSchedule, FileNotFound, FileReadFailed, FileWriteFailed, FileDeleteFailed,
     HttpRequestFailed, HttpTimeout, LockAcquireFailed, LockConflict, ConfigReloadFailed,
     CircuitBreakerOpen, AuditLogFailed, I18nLoadFailed, Internal, InvalidArgument]"

section \<open>Error values and results\<close>

record app_error =
  ae_code :: error_code
  ae_message :: string
  ae_source :: "string option"

definition app_error_new :: "error_code \<Rightarrow> string \<Rightarrow> app_error" where
  "app_error_new c m = \<lparr>ae_code = c, ae_message = m, ae_source = None\<rparr>"

definition app_error_with_source :: "error_code \<Rightarrow> string \<Rightarrow> string \<Rightarrow> app_error" where
  "app_error_with_source c m src = \<lparr>ae_code = c, ae_message = m, ae_source = Some src\<rparr>"

definition app_error_display :: "app_error \<Rightarrow> string" where
  "app_error_display e = ''['' @ as_str (ae_code e) @ ''] '' @ ae_message e"

datatype fault = Fail app_error | Panic string

type_synonym 'a res = "fault + 'a"

abbreviation Err :: "error_code \<Rightarrow> string \<Rightarrow> 'a res" where
  "Err c m \<equiv> Inl (Fail (app_error_new c m))"

abbreviation Ok :: "'a \<Rightarrow> 'a res" where
  "Ok v \<equiv> Inr v"

definition bind_res :: "'a res \<Rightarrow> ('a \<Rightarrow> 'b res) \<Rightarrow> 'b res" where
  "bind_res r f = (case r of Inl e \<Rightarrow> Inl e | Inr v \<Rightarrow> f v)"

text \<open>\<open>result.map_err(f)\<close>: a panic is no value of the result and passes through.\<close>

definition map_err :: "(app_error \<Rightarrow> app_error) \<Rightarrow> 'a res \<Rightarrow> 'a res" where
  "map_err f r = (case r of Inl (Fail e) \<Rightarrow> Inl (Fail (f e)) | Inl (Panic m) \<Rightarrow> Inl (Panic m) | Inr v \<Rightarrow> Inr v)"

section \<open>Responses\<close>

record 'a api_response =
  ar_code :: string
  ar_data :: "'a option"
  ar_message :: string

definition api_success :: "'a \<Rightarrow> 'a api_response" where
  "api_success d = \<lparr>ar_code = ''OK'', ar_data = Some d, ar_message = ''ok''\<rparr>"

definition api_success_with_message :: "'a \<Rightarrow> string \<Rightarrow> 'a api_response" where
  "api_success_with_message d m = \<lparr>ar_code = ''OK'', ar_data = Some d, ar_message = m\<rparr>"

definition api_error :: "app_error \<Rightarrow> unit api_response" where
  "api_error e = \<lparr>ar_code = as_str (ae_code e), ar_data = None, ar_message = ae_message e\<rparr>"

definition from_error_code :: "error_code \<Rightarrow> string \<Rightarrow> unit api_response" where
  "from_error_code c m = \<lparr>ar_code = as_str c, ar_data = None, ar_message = m\<rparr>"

text \<open>The translator \<open>t\<close> is the method \<open>I18n::t\<close> of the provider the caller passes.\<close>

definition error_i18n :: "app_error \<Rightarrow> (string \<Rightarrow> string \<Rightarrow> string) \<Rightarrow> string \<Rightarrow> unit api_response" where
  "error_i18n e t locale =
     (let key = i18n_key (ae_code e); translated = t key locale
      in \<lparr>ar_code = as_str (ae_code e), ar_data = None,
          ar_message = (if translated = key then ae_message e else translated)\<rparr>)"

text \<open>\<open>StatusCode::from_u16\<close> accepts \<open>100..=999\<close>.\<close>

definition status_from_u16 :: "nat \<Rightarrow> nat option" where
  "status_from_u16 n = (if 100 \<le> n \<and> n < 1000 then Some n else None)"

definition error_into_response :: "app_error \<Rightarrow> nat \<times> unit api_response" where
  "error_into_response e =
     ((case status_from_u16 (http_status (ae_code e)) of Some s \<Rightarrow> s | None \<Rightarrow> 500), api_error e)"

section \<open>Lemmas\<close>

lemma bind_res_simps [simp]:
  "bind_res (Inl e) f = Inl e" "bind_res (Inr v) f = f v"
  by (simp_all add: bind_res_def)

lemma bind_res_Inr_iff: "bind_res r f = Inr w \<longleftrightarrow> (\<exists>v. r = Inr v \<and> f v = Inr w)"
  by (cases r) auto

lemma bind_res_assoc: "bind_res (bind_res r f) g = bind_res r (\<lambda>v. bind_res (f v) g)"
  by (cases r) auto

lemma map_err_Inr_iff [simp]: "map_err f r = Inr v \<longleftrightarrow> r = Inr v"
  by (auto simp: map_err_def split: sum.splits fault.splits)

lemma map_err_simps [simp]:
  "map_err f (Inr v) = Inr v" "map_err f (Inl (Fail e)) = Inl (Fail (f e))"
  "map_err f (Inl (Panic m)) = Inl (Panic m)"
  by (simp_all add: map_err_def)

lemma app_error_new_simps [simp]:
  "ae_code (app_error_new c m) = c" "ae_message (app_error_new c m) = m"
  "ae_source (app_error_new c m) = None"
  by (simp_all add: app_error_new_def)

lemma all_error_codes_complete: "c \<in> set all_error_codes"
  by (cases c) (simp_all add: all_error_codes_def)

lemma distinct_as_str_codes: "distinct (map as_str all_error_codes)"
  by (simp add: all_error_codes_def)

text \<open>Wire names use capital letters, digits and underscores only, and lowering is injective there.\<close>

definition wire_char :: "char \<Rightarrow> bool" where
  "wire_char c \<longleftrightarrow> of_char c = (95 :: nat) \<or> of_char c \<le> (90 :: nat)"

lemma as_str_wire: "list_all wire_char (as_str c)"
  by (cases c) (simp_all add: wire_char_def)

lemma lower_char_inj:
  assumes "wire_char a" "wire_char b" "lower_char a = lower_char b"
  shows "a = b"
proof -
  have arith: "x = y"
    if "x = 95 \<or> x \<le> 90" "y = 95 \<or> y \<le> 90"
      "(if 65 \<le> x \<and> x \<le> 90 then x + 32 else x) = (if 65 \<le> y \<and> y \<le> 90 then y + 32 else y)"
    for x y :: nat
    using that by presburger
  have "(of_char a :: nat) = of_char b"
    by (rule arith)
      (use assms in \<open>simp_all only: wire_char_def of_char_lower_char [symmetric]\<close>)
  then show ?thesis by simp
qed

lemma to_lowercase_inj:
  "list_all wire_char s \<Longrightarrow> list_all wire_char t \<Longrightarrow> to_lowercase s = to_lowercase t \<Longrightarrow> s = t"
proof (induction s arbitrary: t)
  case Nil
  then show ?case by (simp add: to_lowercase_def)
next
  case (Cons a s)
  then obtain b t' where t: "t = b # t'" by (cases t) (auto simp: to_lowercase_def)
  with Cons show ?case by (auto simp: to_lowercase_def intro: lower_char_inj)
qed

lemma inj_on_all_codes: "distinct (map f all_error_codes) \<Longrightarrow> inj f"
  by (simp add: distinct_map inj_on_def all_error_codes_complete)

lemma inj_as_str: "inj as_str"
  by (rule inj_on_all_codes [OF distinct_as_str_codes])

lemma inj_i18n_key: "inj i18n_key"
  by (rule injI) (auto simp: i18n_key_def dest: to_lowercase_inj [OF as_str_wire as_str_wire] injD [OF inj_as_str])

lemma http_status_range: "400 \<le> http_status c \<and> http_status c < 600"
  by (cases c) simp_all

section \<open>Properties\<close>

text \<open>
  A client can recover the error code from a rendered error. The HTTP response made
  for an error has the code's own status, which is a client or server error (never a
  success), carries no data, and two errors rendered with the same wire name or the same
  translation key have the same code.
\<close>

theorem error_response_faithful:
  "fst (error_into_response e) = http_status (ae_code e) \<and>
   400 \<le> fst (error_into_response e) \<and> fst (error_into_response e) < 600 \<and>
   ar_data (snd (error_into_response e)) = None \<and>
   (ar_code (snd (error_into_response e)) = ar_code (snd (error_into_response e')) \<longleftrightarrow>
      ae_code e = ae_code e') \<and>
   (i18n_key (ae_code e) = i18n_key (ae_code e') \<longleftrightarrow> ae_code e = ae_code e')"
  using http_status_range [of "ae_code e"]
  by (auto simp: error_into_response_def status_from_u16_def api_error_def
      inj_eq [OF inj_as_str] inj_eq [OF inj_i18n_key])

end
