(* ===== verification/Circuit_Breaker.thy ===== *)
theory Circuit_Breaker
  imports Errors
begin

text \<open>
  The circuit breaker of \<open>rinfra-core/src/resilience/circuit_breaker.rs\<close>: its configuration,
  the state under its mutex, and every operation. Each operation locks the mutex for its whole
  body, so an operation is one atomic step and a concurrent use of a breaker is a sequence of
  such steps (\<open>cb_apply\<close>, \<open>cb_reachable\<close>). Counters are 32-bit words as in the code: the
  invariant \<open>cb_inv\<close> shows that they never wrap.
\<close>

section \<open>State\<close>

datatype circuit_state = Closed | Open | HalfOpen

record cb_config =
  failure_threshold :: u32
  success_threshold :: u32
  open_duration_secs :: u64

definition cb_config_default :: cb_config where
  "cb_config_default = \<lparr>failure_threshold = 5, success_threshold = 2, open_duration_secs = 30\<rparr>"

record internal_state =
  status :: circuit_state
  failure_count :: u32
  success_count :: u32
  last_failure_at :: "instant option"

record circuit_breaker =
  cb_name :: string
  cb_cfg :: cb_config
  cb_inner :: internal_state

definition closed_state :: internal_state where
  "closed_state = \<lparr>status = Closed, failure_count = 0, success_count = 0, last_failure_at = None\<rparr>"

definition cb_new :: "string \<Rightarrow> cb_config \<Rightarrow> circuit_breaker" where
  "cb_new n cfg = \<lparr>cb_name = n, cb_cfg = cfg, cb_inner = closed_state\<rparr>"

section \<open>Operations\<close>

definition maybe_transition_half_open :: "cb_config \<Rightarrow> instant \<Rightarrow> internal_state \<Rightarrow> internal_state" where
  "maybe_transition_half_open cfg now s =
     (if status s = Open then
        (case last_failure_at s of
           Some last_at \<Rightarrow>
             if unat (open_duration_secs cfg) \<le> elapsed_secs now last_at
             then s\<lparr>status := HalfOpen, success_count := 0\<rparr> else s
         | None \<Rightarrow> s)
      else s)"

definition with_inner :: "circuit_breaker \<Rightarrow> (internal_state \<Rightarrow> internal_state) \<Rightarrow> circuit_breaker" where
  "with_inner cb f = cb\<lparr>cb_inner := f (cb_inner cb)\<rparr>"

definition cb_state :: "instant \<Rightarrow> circuit_breaker \<Rightarrow> circuit_state \<times> circuit_breaker" where
  "cb_state now cb =
     (let cb' = with_inner cb (maybe_transition_half_open (cb_cfg cb) now)
      in (status (cb_inner cb'), cb'))"

definition allow_request :: "instant \<Rightarrow> circuit_breaker \<Rightarrow> bool \<times> circuit_breaker" where
  "allow_request now cb =
     (let cb' = with_inner cb (maybe_transition_half_open (cb_cfg cb) now)
      in ((case status (cb_inner cb') of Closed \<Rightarrow> True | Open \<Rightarrow> False | HalfOpen \<Rightarrow> True), cb'))"

definition success_step :: "cb_config \<Rightarrow> internal_state \<Rightarrow> internal_state" where
  "success_step cfg s =
     (case status s of
        Closed \<Rightarrow> s\<lparr>failure_count := 0\<rparr>
      | HalfOpen \<Rightarrow>
          (let s' = s\<lparr>success_count := success_count s + 1\<rparr>
           in if success_threshold cfg \<le> success_count s'
              then s'\<lparr>status := Closed, failure_count := 0, success_count := 0, last_failure_at := None\<rparr>
              else s')
      | Open \<Rightarrow> s)"

definition failure_step :: "cb_config \<Rightarrow> instant \<Rightarrow> internal_state \<Rightarrow> internal_state" where
  "failure_step cfg now s0 =
     (let s = s0\<lparr>last_failure_at := Some now\<rparr>
      in case status s of
           Closed \<Rightarrow>
             (let s' = s\<lparr>failure_count := failure_count s + 1\<rparr>
              in if failure_threshold cfg \<le> failure_count s'
                 then s'\<lparr>status := Open, success_count := 0\<rparr> else s')
         | HalfOpen \<Rightarrow> s\<lparr>status := Open, success_count := 0\<rparr>
         | Open \<Rightarrow> s)"

definition record_success :: "circuit_breaker \<Rightarrow> circuit_breaker" where
  "record_success cb = with_inner cb (success_step (cb_cfg cb))"

definition record_failure :: "instant \<Rightarrow> circuit_breaker \<Rightarrow> circuit_breaker" where
  "record_failure now cb = with_inner cb (failure_step (cb_cfg cb) now)"

definition cb_reset :: "circuit_breaker \<Rightarrow> circuit_breaker" where
  "cb_reset cb = with_inner cb (\<lambda>_. closed_state)"

section \<open>Runs\<close>

datatype cb_event = QueryState instant | Allow instant | Success | Failure instant | Reset

primrec cb_apply :: "cb_event \<Rightarrow> circuit_breaker \<Rightarrow> circuit_breaker" where
  "cb_apply (QueryState t) cb = snd (cb_state t cb)"
| "cb_apply (Allow t) cb = snd (allow_request t cb)"
| "cb_apply Success cb = record_success cb"
| "cb_apply (Failure t) cb = record_failure t cb"
| "cb_apply Reset cb = cb_reset cb"

definition cb_run :: "cb_event list \<Rightarrow> circuit_breaker \<Rightarrow> circuit_breaker" where
  "cb_run es cb = fold cb_apply es cb"

inductive cb_reachable :: "circuit_breaker \<Rightarrow> bool" where
  cb_start: "cb_reachable (cb_new n cfg)"
| cb_next: "cb_reachable cb \<Longrightarrow> cb_reachable (cb_apply e cb)"

inductive_cases cb_reachable_elim: "cb_reachable cb"

section \<open>Invariant\<close>

definition inner_inv :: "cb_config \<Rightarrow> internal_state \<Rightarrow> bool" where
  "inner_inv cfg s \<longleftrightarrow>
     (case status s of
        Closed \<Rightarrow> (failure_count s = 0 \<or> failure_count s < failure_threshold cfg) \<and> success_count s = 0
      | Open \<Rightarrow> last_failure_at s \<noteq> None \<and> success_count s = 0
      | HalfOpen \<Rightarrow> last_failure_at s \<noteq> None \<and>
          (success_count s = 0 \<or> success_count s < success_threshold cfg))"

definition cb_inv :: "circuit_breaker \<Rightarrow> bool" where
  "cb_inv cb \<longleftrightarrow> inner_inv (cb_cfg cb) (cb_inner cb)"

lemmas cb_op_defs = cb_state_def allow_request_def record_success_def record_failure_def
  cb_reset_def with_inner_def Let_def

lemma inner_inv_transition:
  "inner_inv cfg s \<Longrightarrow> inner_inv cfg (maybe_transition_half_open cfg now s)"
  by (auto simp: inner_inv_def maybe_transition_half_open_def split: circuit_state.splits option.splits)

lemma inner_inv_success: "inner_inv cfg s \<Longrightarrow> inner_inv cfg (success_step cfg s)"
  by (auto simp: inner_inv_def success_step_def Let_def not_le split: circuit_state.splits)

lemma inner_inv_failure: "inner_inv cfg s \<Longrightarrow> inner_inv cfg (failure_step cfg now s)"
  by (auto simp: inner_inv_def failure_step_def Let_def not_le split: circuit_state.splits)

lemma inner_inv_closed [simp]: "inner_inv cfg closed_state"
  by (simp add: inner_inv_def closed_state_def)

lemma cb_inv_new [simp]: "cb_inv (cb_new n cfg)"
  by (simp add: cb_inv_def cb_new_def)

lemma cb_inv_ops [simp, intro]:
  assumes "cb_inv cb"
  shows "cb_inv (snd (cb_state now cb))" "cb_inv (snd (allow_request now cb))"
    "cb_inv (record_success cb)" "cb_inv (record_failure now cb)" "cb_inv (cb_reset cb)"
  using assms
  by (simp_all add: cb_inv_def cb_op_defs inner_inv_transition inner_inv_success inner_inv_failure)

lemma cb_inv_apply: "cb_inv cb \<Longrightarrow> cb_inv (cb_apply e cb)"
  by (cases e) auto

lemma cb_reachable_inv: "cb_reachable cb \<Longrightarrow> cb_inv cb"
  by (induction rule: cb_reachable.induct) (auto intro: cb_inv_apply)

lemma cb_apply_frame [simp]:
  "cb_cfg (cb_apply e cb) = cb_cfg cb" "cb_name (cb_apply e cb) = cb_name cb"
  by (cases e; simp add: cb_op_defs)+

lemma cb_run_Nil [simp]: "cb_run [] cb = cb"
  by (simp add: cb_run_def)

lemma cb_run_Cons [simp]: "cb_run (e # es) cb = cb_run es (cb_apply e cb)"
  by (simp add: cb_run_def)

lemma cb_run_append [simp]: "cb_run (es @ fs) cb = cb_run fs (cb_run es cb)"
  by (simp add: cb_run_def)

lemma cb_run_cfg [simp]: "cb_cfg (cb_run es cb) = cb_cfg cb"
  by (induction es arbitrary: cb) auto

lemma cb_reachable_run: "cb_reachable cb \<Longrightarrow> cb_reachable (cb_run es cb)"
  by (induction es arbitrary: cb) (auto intro: cb_reachable.intros)

section \<open>Tripping: consecutive failures\<close>

primrec is_failure :: "cb_event \<Rightarrow> bool" where
  "is_failure (QueryState t) = False"
| "is_failure (Allow t) = False"
| "is_failure Success = False"
| "is_failure (Failure t) = True"
| "is_failure Reset = False"

primrec is_outcome :: "cb_event \<Rightarrow> bool" where
  "is_outcome (QueryState t) = False"
| "is_outcome (Allow t) = False"
| "is_outcome Success = True"
| "is_outcome (Failure t) = True"
| "is_outcome Reset = False"

text \<open>The abstract view of a history of outcomes: how many failures it ends with, and whether
  it contains \<open>k\<close> failures in a row.\<close>

definition trailing_failures :: "cb_event list \<Rightarrow> nat" where
  "trailing_failures es = length (takeWhile is_failure (rev es))"

definition has_failure_run :: "nat \<Rightarrow> cb_event list \<Rightarrow> bool" where
  "has_failure_run k es \<longleftrightarrow>
     (\<exists>pre mid post. es = pre @ mid @ post \<and> length mid = k \<and> list_all is_failure mid)"

lemma le_length_takeWhile:
  "k \<le> length (takeWhile P xs) \<longleftrightarrow> k \<le> length xs \<and> list_all P (take k xs)"
proof (induction xs arbitrary: k)
  case Nil
  then show ?case by simp
next
  case (Cons x xs)
  then show ?case by (cases k) auto
qed

lemma list_all_take_rev:
  "k \<le> length xs \<Longrightarrow> list_all P (take k (rev xs)) \<longleftrightarrow> list_all P (drop (length xs - k) xs)"
  by (simp add: take_rev list_all_iff)

lemma has_failure_run_snoc:
  assumes "0 < k"
  shows "has_failure_run k (es @ [e]) \<longleftrightarrow> has_failure_run k es \<or> k \<le> trailing_failures (es @ [e])"
    (is "?L \<longleftrightarrow> ?R")
proof
  assume ?L
  then obtain pre mid post where *: "es @ [e] = pre @ mid @ post" "length mid = k" "list_all is_failure mid"
    by (auto simp: has_failure_run_def)
  show ?R
  proof (cases post rule: rev_cases)
    case Nil
    with * have "drop (length (es @ [e]) - k) (es @ [e]) = mid" by simp
    moreover from * Nil have "k \<le> length (es @ [e])" by (metis append_Nil2 le_add2 length_append)
    ultimately show ?thesis
      using *(3) by (simp add: trailing_failures_def le_length_takeWhile list_all_take_rev del: rev_append)
  next
    case (snoc post' x)
    with * have "es = pre @ mid @ post'" by simp
    with *(2,3) show ?thesis by (auto simp: has_failure_run_def)
  qed
next
  assume ?R
  then show ?L
  proof
    assume "has_failure_run k es"
    then show ?L unfolding has_failure_run_def by (metis append.assoc)
  next
    assume "k \<le> trailing_failures (es @ [e])"
    then have k: "k \<le> length (es @ [e])"
      and all: "list_all is_failure (drop (length (es @ [e]) - k) (es @ [e]))"
      by (auto simp: trailing_failures_def le_length_takeWhile list_all_take_rev simp del: rev_append append_assoc)
    have "es @ [e] = take (length (es @ [e]) - k) (es @ [e]) @ drop (length (es @ [e]) - k) (es @ [e]) @ []"
      by (simp only: append_Nil2 append_take_drop_id)
    moreover have "length (drop (length (es @ [e]) - k) (es @ [e])) = k" using k by simp
    ultimately show ?L using all unfolding has_failure_run_def by blast
  qed
qed

lemma trailing_failures_snoc:
  "trailing_failures (es @ [e]) = (if is_failure e then Suc (trailing_failures es) else 0)"
  by (simp add: trailing_failures_def)

text \<open>Every history of outcomes keeps this relation between the breaker and the abstract view.\<close>

definition tracks :: "cb_config \<Rightarrow> cb_event list \<Rightarrow> internal_state \<Rightarrow> bool" where
  "tracks cfg es s \<longleftrightarrow>
     (if has_failure_run (max 1 (unat (failure_threshold cfg))) es then status s = Open
      else status s = Closed \<and> unat (failure_count s) = trailing_failures es \<and>
           trailing_failures es < max 1 (unat (failure_threshold cfg)))"

lemma has_failure_run_Nil: "0 < k \<Longrightarrow> \<not> has_failure_run k []"
  by (auto simp: has_failure_run_def)

lemma tracks_success:
  "tracks cfg es s \<Longrightarrow> tracks cfg (es @ [Success]) (success_step cfg s)"
  by (auto simp: tracks_def has_failure_run_snoc trailing_failures_snoc success_step_def)

lemma tracks_failure:
  assumes "tracks cfg es s"
  shows "tracks cfg (es @ [Failure t]) (failure_step cfg t s)"
proof (cases "has_failure_run (max 1 (unat (failure_threshold cfg))) es")
  case True
  with assms show ?thesis
    by (simp add: tracks_def has_failure_run_snoc failure_step_def Let_def)
next
  case False
  with assms have s: "status s = Closed" "unat (failure_count s) = trailing_failures es"
    "trailing_failures es < max 1 (unat (failure_threshold cfg))"
    by (simp_all add: tracks_def)
  have "failure_count s < max 1 (failure_threshold cfg)"
    using s(2,3) by (auto simp: word_less_nat_alt max_def word_le_nat_alt split: if_splits)
  then have "unat (failure_count s + 1) = Suc (trailing_failures es)"
    using unat_Suc_no_wrap s(2) by metis
  with False s show ?thesis
    by (auto simp: tracks_def has_failure_run_snoc trailing_failures_snoc failure_step_def Let_def
        word_le_nat_alt max_def split: if_splits)
qed

lemma tracks_run:
  "list_all is_outcome es \<Longrightarrow> tracks cfg es (cb_inner (cb_run es (cb_new n cfg)))"
proof (induction es rule: rev_induct)
  case Nil
  then show ?case
    by (auto simp: tracks_def has_failure_run_Nil cb_new_def closed_state_def trailing_failures_def)
next
  case (snoc e es)
  then have IH: "tracks cfg es (cb_inner (cb_run es (cb_new n cfg)))" by simp
  have cfg: "cb_cfg (cb_run es (cb_new n cfg)) = cfg" by (simp add: cb_new_def)
  from snoc.prems show ?case
    using tracks_success [OF IH] tracks_failure [OF IH] cfg
    by (cases e) (simp_all add: cb_op_defs)
qed

section \<open>Recovery\<close>

lemma half_open_successes:
  assumes "status s = HalfOpen" "k + unat (success_count s) < unat (success_threshold cfg)"
  shows "(success_step cfg ^^ k) s = s\<lparr>success_count := success_count s + of_nat k\<rparr>"
  using assms(2)
proof (induction k)
  case 0
  then show ?case by simp
next
  case (Suc k)
  then have IH: "(success_step cfg ^^ k) s = s\<lparr>success_count := success_count s + of_nat k\<rparr>" by simp
  have "Suc k + unat (success_count s) < 4294967296"
    using Suc.prems unat_u32_less [of "success_threshold cfg"] by linarith
  then have "unat (success_count s + of_nat k + 1) = Suc k + unat (success_count s)"
    by (simp add: unat_word_ariths unat_of_nat)
  then have "success_count s + of_nat k + 1 < success_threshold cfg"
    using Suc.prems by (simp add: word_less_nat_alt)
  then have lt: "\<not> success_threshold cfg \<le> success_count s + of_nat k + 1" by (simp add: not_le)
  have "(success_step cfg ^^ Suc k) s = success_step cfg (s\<lparr>success_count := success_count s + of_nat k\<rparr>)"
    using IH by simp
  also have "\<dots> = s\<lparr>success_count := success_count s + of_nat (Suc k)\<rparr>"
    using assms(1) lt by (simp add: success_step_def Let_def ac_simps)
  finally show ?case .
qed

lemma half_open_closes:
  assumes "status s = HalfOpen" "success_count s = 0"
  shows "(success_step cfg ^^ max 1 (unat (success_threshold cfg))) s = closed_state"
proof (cases "unat (success_threshold cfg) \<le> 1")
  case True
  then have "success_threshold cfg \<le> 1" by (simp add: word_le_nat_alt)
  with True assms show ?thesis
    by (simp add: success_step_def Let_def closed_state_def max_def)
next
  case False
  define k where "k = unat (success_threshold cfg) - 1"
  with False have k: "max 1 (unat (success_threshold cfg)) = Suc k" "k < unat (success_threshold cfg)"
    by auto
  have "(of_nat k + 1 :: u32) = success_threshold cfg"
  proof -
    have "unat (success_threshold cfg) = Suc k" using k False by simp
    then have "(of_nat (Suc k) :: u32) = success_threshold cfg" by (metis of_nat_unat ucast_id)
    then show ?thesis by (simp add: add.commute)
  qed
  with half_open_successes [OF assms(1), of k cfg] k assms show ?thesis
    by (simp add: success_step_def Let_def closed_state_def)
qed

lemma cb_run_successes:
  "cb_inner (cb_run (replicate k Success) cb) = (success_step (cb_cfg cb) ^^ k) (cb_inner cb)"
  by (induction k arbitrary: cb) (simp_all add: record_success_def with_inner_def funpow_swap1)

section \<open>Properties\<close>

text \<open>
  C6: in every state a breaker can reach, under any interleaving of its operations, the
  32-bit counters do not wrap at their next increment, an open or half-open breaker has a
  recorded failure time (so it can leave the open state), and the success counter is zero
  outside the half-open state.
\<close>

theorem breaker_invariant:
  assumes "cb_reachable cb"
  shows "(status (cb_inner cb) = Closed \<longrightarrow>
            unat (failure_count (cb_inner cb) + 1) = Suc (unat (failure_count (cb_inner cb)))) \<and>
         (status (cb_inner cb) = HalfOpen \<longrightarrow>
            unat (success_count (cb_inner cb) + 1) = Suc (unat (success_count (cb_inner cb)))) \<and>
         (status (cb_inner cb) \<noteq> Closed \<longrightarrow> last_failure_at (cb_inner cb) \<noteq> None) \<and>
         (status (cb_inner cb) \<noteq> HalfOpen \<longrightarrow> success_count (cb_inner cb) = 0)"
  using cb_reachable_inv [OF assms]
  by (auto simp: cb_inv_def inner_inv_def unat_Suc_no_wrap split: circuit_state.splits)

theorem breaker_invariant_witness:
  "cb_reachable (cb_apply (Failure 7) (cb_new ''db'' cb_config_default)) \<and>
   unat (failure_count (cb_inner (cb_apply (Failure 7) (cb_new ''db'' cb_config_default))) + 1) = 2"
proof -
  have r: "cb_reachable (cb_apply (Failure 7) (cb_new ''db'' cb_config_default))"
    by (intro cb_reachable.intros)
  from breaker_invariant [OF r] r show ?thesis
    by (simp add: cb_op_defs failure_step_def cb_new_def closed_state_def cb_config_default_def)
qed

text \<open>
  C1: the breaker trips exactly on consecutive failures. After any history of recorded
  outcomes a new breaker is open if and only if the history contains
  \<open>failure_threshold\<close> failures in a row (one failure when the threshold is 0); otherwise
  it is closed and its counter is the number of failures the history ends with.
\<close>

theorem breaker_trips_on_consecutive_failures:
  assumes "list_all is_outcome es"
  shows "status (cb_inner (cb_run es (cb_new n cfg))) =
           (if has_failure_run (max 1 (unat (failure_threshold cfg))) es then Open else Closed) \<and>
         (\<not> has_failure_run (max 1 (unat (failure_threshold cfg))) es \<longrightarrow>
            unat (failure_count (cb_inner (cb_run es (cb_new n cfg)))) = trailing_failures es)"
  using tracks_run [OF assms, of cfg n] by (simp add: tracks_def)

theorem breaker_trips_on_consecutive_failures_witness:
  "status (cb_inner (cb_run [Failure 1, Success, Failure 2] (cb_new ''db'' cb_config_default))) = Closed"
proof -
  have len: "\<not> has_failure_run 5 [Failure 1, Success, Failure 2]"
    by (auto simp: has_failure_run_def dest: arg_cong [where f = length])
  show ?thesis
    using breaker_trips_on_consecutive_failures
      [of "[Failure 1, Success, Failure 2]" "''db''" cb_config_default] len
    by (simp add: cb_config_default_def)
qed

text \<open>
  C2: an open breaker rejects every request until \<open>open_duration_secs\<close> have passed since
  the last failure, then lets requests through as half-open, and from there
  \<open>success_threshold\<close> successes (at least one) bring it back to the state of a new breaker,
  while a single failure reopens it.
\<close>

theorem open_breaker_recovers:
  assumes "cb_reachable cb" "status (cb_inner cb) = Open" "last_failure_at (cb_inner cb) = Some t"
  shows "(fst (allow_request now cb) \<longleftrightarrow> unat (open_duration_secs (cb_cfg cb)) \<le> elapsed_secs now t) \<and>
         (fst (allow_request now cb) \<longrightarrow>
            cb_inner (cb_run (Allow now # replicate (max 1 (unat (success_threshold (cb_cfg cb)))) Success) cb)
              = closed_state \<and>
            status (cb_inner (cb_run [Allow now, Failure t'] cb)) = Open)"
proof -
  have allowed: "fst (allow_request now cb) \<longleftrightarrow> unat (open_duration_secs (cb_cfg cb)) \<le> elapsed_secs now t"
    using assms by (simp add: cb_op_defs maybe_transition_half_open_def)
  have "cb_inner (cb_run (Allow now # replicate (max 1 (unat (success_threshold (cb_cfg cb)))) Success) cb)
      = closed_state \<and> status (cb_inner (cb_run [Allow now, Failure t'] cb)) = Open"
    if "fst (allow_request now cb)"
  proof -
    from that allowed assms
    have inner: "cb_inner (cb_apply (Allow now) cb) = (cb_inner cb)\<lparr>status := HalfOpen, success_count := 0\<rparr>"
      by (simp add: cb_op_defs maybe_transition_half_open_def)
    then show ?thesis
      using half_open_closes [of "cb_inner (cb_apply (Allow now) cb)" "cb_cfg cb"]
      by (simp add: cb_run_successes record_failure_def with_inner_def failure_step_def Let_def
          del: cb_apply.simps(2))
  qed
  with allowed show ?thesis by blast
qed

theorem open_breaker_recovers_witness:
  "cb_inner (cb_run [Allow 30000000005, Success, Success]
     (cb_run (replicate 5 (Failure 5)) (cb_new ''db'' cb_config_default))) = closed_state"
proof -
  define cb where "cb = cb_run (replicate 5 (Failure 5)) (cb_new ''db'' cb_config_default)"
  have r: "cb_reachable cb" unfolding cb_def by (intro cb_reachable_run cb_reachable.intros)
  have st: "status (cb_inner cb) = Open" "last_failure_at (cb_inner cb) = Some 5"
    "cb_cfg cb = cb_config_default"
    by (simp_all add: cb_def numeral_eq_Suc cb_op_defs failure_step_def cb_new_def closed_state_def
        cb_config_default_def)
  have n: "replicate (max 1 (unat (success_threshold (cb_cfg cb)))) Success = [Success, Success]"
  proof -
    have "max 1 (unat (success_threshold (cb_cfg cb))) = Suc (Suc 0)"
      using st(3) by (simp add: cb_config_default_def)
    then show ?thesis by (simp only: replicate_Suc replicate_0)
  qed
  have d: "unat (open_duration_secs (cb_cfg cb)) \<le> elapsed_secs 30000000005 5"
    using st(3) by (simp add: cb_config_default_def elapsed_secs_def)
  show ?thesis
    using open_breaker_recovers [OF r st(1,2), of 30000000005 0] d
    unfolding n cb_def [symmetric] by blast
qed

end
