(* ===== verification/Resilience.thy ===== *)
theory Resilience
  imports Circuit_Breaker
begin

text \<open>
  Retry policies (\<open>rinfra-core/src/resilience/retry.rs\<close>) and the asynchronous wrappers of
  \<open>rinfra-plugins/src/resilience/mod.rs\<close>. The state outside the breaker is a type variable
  \<open>'w\<close>: an operation is a function \<open>'w \<Rightarrow> 'a res \<times> 'w\<close> from the world it starts in to its
  result and the world it leaves. The runtime (the clock and the timer of tokio) is a record of
  functions on that world, so a clock may advance between any two readings.
\<close>

section \<open>Retry policy\<close>

datatype retry_strategy =
    Fixed (delay_ms: u64)
  | Exponential (base_ms: u64) (max_ms: u64)

record retry_policy =
  max_attempts :: u32
  strategy :: retry_strategy

definition retry_policy_default :: retry_policy where
  "retry_policy_default = \<lparr>max_attempts = 3, strategy = Exponential 200 5000\<rparr>"

definition retry_fixed :: "u32 \<Rightarrow> u64 \<Rightarrow> retry_policy" where
  "retry_fixed n d = \<lparr>max_attempts = n, strategy = Fixed d\<rparr>"

definition retry_exponential :: "u32 \<Rightarrow> u64 \<Rightarrow> u64 \<Rightarrow> retry_policy" where
  "retry_exponential n b m = \<lparr>max_attempts = n, strategy = Exponential b m\<rparr>"

text \<open>The delay in milliseconds.\<close>

definition delay_for_attempt :: "retry_policy \<Rightarrow> u32 \<Rightarrow> u64" where
  "delay_for_attempt p attempt =
     (case strategy p of
        Fixed d \<Rightarrow> d
      | Exponential b m \<Rightarrow>
          (let multiplier = (case checked_shl_one attempt of Some x \<Rightarrow> x | None \<Rightarrow> u64_max);
               delay = saturating_mul b multiplier
           in min delay m))"

definition exhausted :: "retry_policy \<Rightarrow> u32 \<Rightarrow> bool" where
  "exhausted p attempt \<longleftrightarrow> max_attempts p \<le> attempt"

section \<open>The wrappers\<close>

record 'w runtime =
  rt_now :: "'w \<Rightarrow> instant \<times> 'w"
  rt_sleep :: "u64 \<Rightarrow> 'w \<Rightarrow> 'w"

definition with_circuit_breaker ::
  "'w runtime \<Rightarrow> ('w \<Rightarrow> 'a res \<times> 'w) \<Rightarrow> circuit_breaker \<Rightarrow> 'w \<Rightarrow> 'a res \<times> circuit_breaker \<times> 'w" where
  "with_circuit_breaker rt f cb w =
     (let (t0, w0) = rt_now rt w; (allowed, cb0) = allow_request t0 cb
      in if \<not> allowed
         then (Err CircuitBreakerOpen (''circuit breaker '' @ quoted (cb_name cb0) @ '' is open''), cb0, w0)
         else (case f w0 of
                 (Inr v, w1) \<Rightarrow> (Inr v, record_success cb0, w1)
               | (Inl (Fail e), w1) \<Rightarrow>
                   (let (t1, w2) = rt_now rt w1; (prev_state, cb1) = cb_state t1 cb0;
                        (t2, w3) = rt_now rt w2; cb2 = record_failure t2 cb1;
                        (t3, w4) = rt_now rt w3; (new_state, cb3) = cb_state t3 cb2
                    in (Inl (Fail e), cb3, w4))
               | (Inl (Panic m), w1) \<Rightarrow> (Inl (Panic m), cb0, w1)))"

text \<open>The loop \<open>for attempt in 1..=max_attempts\<close> over the list of attempt numbers still to do.\<close>

fun retry_loop ::
  "'w runtime \<Rightarrow> retry_policy \<Rightarrow> ('w \<Rightarrow> 'a res \<times> 'w) \<Rightarrow> u32 list \<Rightarrow> app_error option \<Rightarrow> 'w \<Rightarrow> 'a res \<times> 'w" where
  "retry_loop rt p f [] last_err w =
     (Inl (Fail (case last_err of Some e \<Rightarrow> e
                 | None \<Rightarrow> app_error_new Internal ''retry policy exhausted'')), w)"
| "retry_loop rt p f (attempt # rest) last_err w =
     (case f w of
        (Inr v, w1) \<Rightarrow> (Inr v, w1)
      | (Inl (Fail e), w1) \<Rightarrow>
          (if exhausted p attempt then (Inl (Fail e), w1)
           else retry_loop rt p f rest (Some e) (rt_sleep rt (delay_for_attempt p (attempt - 1)) w1))
      | (Inl (Panic m), w1) \<Rightarrow> (Inl (Panic m), w1))"

definition attempt_numbers :: "u32 \<Rightarrow> u32 list" where
  "attempt_numbers n = map of_nat [1..<Suc (unat n)]"

definition with_retry ::
  "'w runtime \<Rightarrow> retry_policy \<Rightarrow> ('w \<Rightarrow> 'a res \<times> 'w) \<Rightarrow> 'w \<Rightarrow> 'a res \<times> 'w" where
  "with_retry rt p f w = retry_loop rt p f (attempt_numbers (max_attempts p)) None w"

text \<open>The breaker lives in the world of the retry loop. The closure \<open>f\<close> is called before the
  breaker is asked (it builds the future \<open>fut\<close>); the future is awaited only behind it.\<close>

definition lift_runtime :: "'w runtime \<Rightarrow> (circuit_breaker \<times> 'w) runtime" where
  "lift_runtime rt =
     \<lparr>rt_now = (\<lambda>(cb, w). let (t, w') = rt_now rt w in (t, (cb, w'))),
      rt_sleep = (\<lambda>d (cb, w). (cb, rt_sleep rt d w))\<rparr>"

definition guarded_attempt ::
  "'w runtime \<Rightarrow> ('w \<Rightarrow> ('w \<Rightarrow> 'a res \<times> 'w) \<times> 'w) \<Rightarrow> circuit_breaker \<times> 'w \<Rightarrow> 'a res \<times> circuit_breaker \<times> 'w" where
  "guarded_attempt rt f s = (let (fut, w1) = f (snd s) in with_circuit_breaker rt fut (fst s) w1)"

definition with_retry_and_breaker ::
  "'w runtime \<Rightarrow> retry_policy \<Rightarrow> ('w \<Rightarrow> ('w \<Rightarrow> 'a res \<times> 'w) \<times> 'w) \<Rightarrow> circuit_breaker \<Rightarrow> 'w \<Rightarrow>
     'a res \<times> circuit_breaker \<times> 'w" where
  "with_retry_and_breaker rt p f cb w = with_retry (lift_runtime rt) p (guarded_attempt rt f) (cb, w)"

section \<open>Delays\<close>

lemma exponential_multiplier:
  "unat (saturating_mul b (case checked_shl_one n of Some x \<Rightarrow> x | None \<Rightarrow> u64_max)) =
     min (unat b * 2 ^ unat n) (2 ^ 64 - 1)"
proof (cases "unat n < 64")
  case True
  then show ?thesis by (simp add: checked_shl_one_def unat_saturating_mul unat_push_bit_one [simplified])
next
  case False
  then have big: "(2 :: nat) ^ 64 \<le> 2 ^ unat n" by (intro power_increasing) simp_all
  show ?thesis
  proof (cases "unat b = 0")
    case True
    then show ?thesis by (simp add: unat_saturating_mul)
  next
    case nz: False
    then have "2 ^ 64 - 1 \<le> unat b * (2 ^ 64 - 1)" "2 ^ 64 \<le> unat b * 2 ^ unat n"
      using big by (cases "unat b"; simp)+
    with False show ?thesis by (simp add: checked_shl_one_def unat_saturating_mul)
  qed
qed

section \<open>The retry loop\<close>

definition conclusive :: "'a res \<Rightarrow> bool" where
  "conclusive r \<longleftrightarrow> (case r of Inl (Fail _) \<Rightarrow> False | _ \<Rightarrow> True)"

text \<open>The world before attempt \<open>k\<close> (from 0) when every earlier attempt failed.\<close>

primrec retry_world :: "'w runtime \<Rightarrow> retry_policy \<Rightarrow> ('w \<Rightarrow> 'a res \<times> 'w) \<Rightarrow> nat \<Rightarrow> 'w \<Rightarrow> 'w" where
  "retry_world rt p f 0 w = w"
| "retry_world rt p f (Suc k) w =
     rt_sleep rt (delay_for_attempt p (of_nat k)) (snd (f (retry_world rt p f k w)))"

lemma attempt_numbers_conv: "attempt_numbers n = map (\<lambda>k. of_nat (Suc k)) [0..<unat n]"
  by (simp add: attempt_numbers_def map_Suc_upt [symmetric] del: upt_Suc)

lemma retry_loop_from:
  assumes "k < n" "n = unat (max_attempts p)"
  shows "retry_loop rt p f (map (\<lambda>k. of_nat (Suc k)) [k..<n]) e (retry_world rt p f k w) =
     f (retry_world rt p f (LEAST j. k \<le> j \<and> (n - 1 \<le> j \<or> conclusive (fst (f (retry_world rt p f j w))))) w)"
  using assms(1)
proof (induction "n - k" arbitrary: k e)
  case 0
  then show ?case by simp
next
  case (Suc m)
  let ?stop = "\<lambda>k j. k \<le> j \<and> (n - 1 \<le> j \<or> conclusive (fst (f (retry_world rt p f j w))))"
  let ?w = "retry_world rt p f k w"
  have upt: "[k..<n] = k # [Suc k..<n]" using Suc.prems by (simp add: upt_conv_Cons)
  have n32: "n < 2 ^ 32" using assms(2) unsigned_less [of "max_attempts p", where ?'a = nat] by simp
  then have "unat (of_nat (Suc k) :: u32) = Suc k"
    using Suc.prems by (simp add: unat_of_nat del: of_nat_Suc)
  then have exh: "exhausted p (of_nat (Suc k)) \<longleftrightarrow> n - 1 \<le> k"
    using Suc.prems assms(2) by (auto simp: exhausted_def word_le_nat_alt simp del: of_nat_Suc)
  show ?case
  proof (cases "?stop k k")
    case True
    then have "(LEAST j. ?stop k j) = k" by (intro Least_equality) auto
    with True exh show ?thesis
      by (auto simp: upt conclusive_def simp del: of_nat_Suc split: prod.splits sum.splits fault.splits)
  next
    case False
    then have lt: "Suc k < n" and nc: "\<not> conclusive (fst (f ?w))" by auto
    have "?stop k = ?stop (Suc k)" using False by (auto simp: fun_eq_iff Suc_le_eq le_less)
    moreover obtain e' w' where fw: "f ?w = (Inl (Fail e'), w')"
      using nc by (cases "f ?w") (auto simp: conclusive_def split: sum.splits fault.splits)
    moreover have "m = n - Suc k" using Suc.hyps(2) by simp
    ultimately show ?thesis
      using Suc.hyps(1) [of "Suc k" "Some e'"] lt exh False by (simp add: upt)
  qed
qed

section \<open>Failing calls behind a breaker\<close>

primrec guarded_calls ::
  "'w runtime \<Rightarrow> ('w \<Rightarrow> 'a res \<times> 'w) \<Rightarrow> nat \<Rightarrow> circuit_breaker \<Rightarrow> 'w \<Rightarrow> circuit_breaker \<times> 'w" where
  "guarded_calls rt f 0 cb w = (cb, w)"
| "guarded_calls rt f (Suc n) cb w =
     (let (cb', w') = guarded_calls rt f n cb w; (r, cb'', w'') = with_circuit_breaker rt f cb' w'
      in (cb'', w''))"

definition in_window :: "'w runtime \<Rightarrow> instant \<Rightarrow> nat \<Rightarrow> bool" where
  "in_window rt t0 secs \<longleftrightarrow> (\<forall>w. t0 \<le> fst (rt_now rt w) \<and> fst (rt_now rt w) < t0 + secs * nanos_per_sec)"

text \<open>The breaker after \<open>j\<close> failures in the window.\<close>

definition failing_state :: "instant \<Rightarrow> nat \<Rightarrow> internal_state \<Rightarrow> nat \<Rightarrow> bool" where
  "failing_state t0 thr s j \<longleftrightarrow>
     (if j < thr then status s = Closed \<and> unat (failure_count s) = j
      else status s = Open \<and> (\<exists>t. last_failure_at s = Some t \<and> t0 \<le> t))"

lemma no_transition:
  assumes "failing_state t0 thr s j" "t0 \<le> t" "t < t0 + unat (open_duration_secs cfg) * nanos_per_sec"
  shows "maybe_transition_half_open cfg t s = s"
proof -
  have "\<not> unat (open_duration_secs cfg) \<le> elapsed_secs t u" if "t0 \<le> u" for u
  proof -
    have "t - u < unat (open_duration_secs cfg) * nanos_per_sec" using assms(2,3) that by linarith
    then show ?thesis unfolding elapsed_secs_def not_le by (rule less_mult_imp_div_less)
  qed
  with assms(1) show ?thesis
    by (auto simp: maybe_transition_half_open_def failing_state_def split: if_splits option.splits)
qed

lemma failing_state_step:
  assumes "failing_state t0 (max 1 (unat (failure_threshold cfg))) s j"
    "j < max 1 (unat (failure_threshold cfg))" "t0 \<le> t"
  shows "failing_state t0 (max 1 (unat (failure_threshold cfg))) (failure_step cfg t s) (Suc j)"
proof -
  from assms have s: "status s = Closed" "unat (failure_count s) = j" by (simp_all add: failing_state_def)
  have "failure_count s < max 1 (failure_threshold cfg)"
    using s(2) assms(2) by (auto simp: word_less_nat_alt max_def word_le_nat_alt split: if_splits)
  then have "unat (failure_count s + 1) = Suc j"
    using unat_Suc_no_wrap s(2) by metis
  with s assms(2,3) show ?thesis
    by (auto simp: failing_state_def failure_step_def Let_def word_le_nat_alt max_def split: if_splits)
qed

text \<open>One failing call: it runs \<open>f\<close> exactly while the breaker is closed.\<close>

lemma failing_call:
  assumes win: "in_window rt t0 (unat (open_duration_secs (cb_cfg cb)))"
    and fails: "\<And>w. \<exists>e. fst (f w) = Inl (Fail e)"
    and cnt: "\<And>w. cnt (snd (f w)) = Suc (cnt w)" "\<And>w. cnt (snd (rt_now rt w)) = cnt w"
    and st: "failing_state t0 (max 1 (unat (failure_threshold (cb_cfg cb)))) (cb_inner cb) j"
    and j: "j \<le> max 1 (unat (failure_threshold (cb_cfg cb)))"
    and res: "with_circuit_breaker rt f cb w = (r, cb', w')"
  shows "cb_cfg cb' = cb_cfg cb \<and> cnt w' + j = cnt w + min (Suc j) (max 1 (unat (failure_threshold (cb_cfg cb)))) \<and>
    failing_state t0 (max 1 (unat (failure_threshold (cb_cfg cb)))) (cb_inner cb')
      (min (Suc j) (max 1 (unat (failure_threshold (cb_cfg cb)))))"
proof -
  let ?thr = "max 1 (unat (failure_threshold (cb_cfg cb)))"
  have now: "t0 \<le> fst (rt_now rt v)" "fst (rt_now rt v) < t0 + unat (open_duration_secs (cb_cfg cb)) * nanos_per_sec" for v
    using win by (simp_all add: in_window_def)
  have stay: "maybe_transition_half_open (cb_cfg cb) (fst (rt_now rt v)) s = s" if "failing_state t0 ?thr s i" for v s i
    by (rule no_transition [OF that]) (rule now)+
  have same: "allow_request (fst (rt_now rt w)) cb = (status (cb_inner cb) \<noteq> Open, cb)"
    using stay [OF st] by (simp add: cb_op_defs) (cases "status (cb_inner cb)"; simp)
  show ?thesis
  proof (cases "j < ?thr")
    case False
    then have "status (cb_inner cb) = Open" using st by (simp add: failing_state_def)
    with res same False j st cnt show ?thesis
      by (auto simp: with_circuit_breaker_def case_prod_beta Let_def min_def)
  next
    case True
    then have "status (cb_inner cb) = Closed" using st by (simp add: failing_state_def)
    moreover obtain e where e: "fst (f (snd (rt_now rt w))) = Inl (Fail e)" using fails by blast
    moreover have st2: "failing_state t0 ?thr (failure_step (cb_cfg cb) (fst (rt_now rt v)) (cb_inner cb)) (Suc j)" for v
      by (rule failing_state_step [OF st True]) (rule now)
    ultimately have "cb_inner cb' = failure_step (cb_cfg cb) (fst (rt_now rt (snd (rt_now rt (snd (f (snd (rt_now rt w)))))))) (cb_inner cb)
        \<and> cb_cfg cb' = cb_cfg cb \<and> cnt w' = Suc (cnt w)"
      using res same stay [OF st] stay [OF st2] cnt cnt(1) [of "snd (rt_now rt w)"]
      by (cases "f (snd (rt_now rt w))")
        (auto simp: with_circuit_breaker_def case_prod_beta Let_def cb_state_def record_failure_def with_inner_def)
    with st2 True show ?thesis by (simp add: min_def)
  qed
qed

lemma failing_calls:
  assumes "in_window rt t0 (unat (open_duration_secs cfg))"
    "\<And>w. \<exists>e. fst (f w) = Inl (Fail e)"
    "\<And>w. cnt (snd (f w)) = Suc (cnt w)" "\<And>w. cnt (snd (rt_now rt w)) = cnt w"
  shows "cb_cfg (fst (guarded_calls rt f n (cb_new nm cfg) w)) = cfg \<and>
    cnt (snd (guarded_calls rt f n (cb_new nm cfg) w)) = cnt w + min n (max 1 (unat (failure_threshold cfg))) \<and>
    failing_state t0 (max 1 (unat (failure_threshold cfg)))
      (cb_inner (fst (guarded_calls rt f n (cb_new nm cfg) w))) (min n (max 1 (unat (failure_threshold cfg))))"
proof (induction n)
  case 0
  then show ?case by (simp add: cb_new_def closed_state_def failing_state_def)
next
  case (Suc n)
  obtain cb' w' where g: "guarded_calls rt f n (cb_new nm cfg) w = (cb', w')" by fastforce
  obtain r cb'' w'' where c: "with_circuit_breaker rt f cb' w' = (r, cb'', w'')" by (metis prod_cases3)
  from Suc g have IH: "cb_cfg cb' = cfg" "cnt w' = cnt w + min n (max 1 (unat (failure_threshold cfg)))"
    "failing_state t0 (max 1 (unat (failure_threshold cfg))) (cb_inner cb') (min n (max 1 (unat (failure_threshold cfg))))"
    by simp_all
  show ?case
    using failing_call [of rt t0 cb' f cnt "min n (max 1 (unat (failure_threshold cfg)))" w' r cb'' w''] assms IH g c
    by (auto simp: min_def split: if_splits)
qed

section \<open>Properties\<close>

text \<open>
  The exponential delay before retry \<open>n\<close> is exactly \<open>base * 2^n\<close> milliseconds capped at
  the maximum, over the integers: neither the shift nor the multiplication of 64-bit words
  loses a bit at any attempt number.
\<close>

theorem exponential_delay_exact:
  "unat (delay_for_attempt (retry_exponential k b m) n) = min (unat b * 2 ^ unat n) (unat m)"
proof -
  have "unat (min x y) = min (unat x) (unat y)" for x y :: u64
    by (simp add: min_def word_le_nat_alt)
  moreover have "unat m \<le> 2 ^ 64 - 1" by simp
  ultimately show ?thesis
    by (simp only: delay_for_attempt_def retry_exponential_def retry_policy.simps retry_strategy.case
        Let_def exponential_multiplier)
qed

text \<open>
  C4: \<open>with_retry\<close> runs the operation up to \<open>max_attempts\<close> times, sleeping the policy's delay
  between attempts, and returns what the first conclusive attempt (a success or a panic) or
  else the last attempt returned, leaving the world that attempt left: no attempt follows a
  success. With a budget of zero it runs nothing and reports an internal error.
\<close>

theorem with_retry_first_conclusive:
  "with_retry rt p f w =
     (if max_attempts p = 0 then (Err Internal ''retry policy exhausted'', w)
      else f (retry_world rt p f
                (LEAST j. unat (max_attempts p) - 1 \<le> j \<or> conclusive (fst (f (retry_world rt p f j w)))) w))"
proof (cases "max_attempts p = 0")
  case True
  then show ?thesis by (simp add: with_retry_def attempt_numbers_def)
next
  case False
  then have "0 < unat (max_attempts p)" by (simp add: unat_gt_0)
  from retry_loop_from [OF this refl, of rt f None w] False show ?thesis
    by (simp add: with_retry_def attempt_numbers_conv)
qed



end
