(* ===== verification/Lock.thy ===== *)
theory Lock
  imports Errors
begin

text \<open>
  Distributed locks: the trait \<open>DistributedLock\<close> of \<open>rinfra-core/src/lock/mod.rs\<close> as a record of
  operations, its contract as the locale \<open>distributed_lock\<close>, the in-memory implementation
  (\<open>rinfra-plugins/src/lock/memory.rs\<close>) and the Redis one
  (\<open>rinfra-plugins/src/lock/redis_lock.rs\<close>). The Redis server is a parameter: a record of the
  commands the code sends, with the documented behaviour of \<open>SET NX PX\<close>, \<open>GET\<close>, \<open>DEL\<close> and
  \<open>PEXPIRE\<close> as the hypothesis \<open>redis_ok\<close>; the network may lose a request or a reply.

  Every implementation takes its mutex (or runs its script on the server) for the whole
  operation, so concurrent clients are sequences of operations (\<open>lock_run\<close>).
\<close>

section \<open>The interface\<close>

record lock_handle =
  lh_key :: string
  lh_token :: string
  lh_acquired_at_ms :: u64

text \<open>What a call reads from outside: the monotonic clock, a fresh UUID, the wall clock.\<close>

record call_ctx =
  ctx_now :: instant
  ctx_uuid :: string
  ctx_wall_ms :: u64

record 's lock_api =
  la_try_acquire :: "call_ctx \<Rightarrow> string \<Rightarrow> u64 \<Rightarrow> 's \<Rightarrow> lock_handle option res \<times> 's"
  la_release :: "instant \<Rightarrow> lock_handle \<Rightarrow> 's \<Rightarrow> bool res \<times> 's"
  la_extend :: "instant \<Rightarrow> lock_handle \<Rightarrow> u64 \<Rightarrow> 's \<Rightarrow> bool res \<times> 's"

datatype lock_op =
    TryAcquire call_ctx string u64
  | Release instant lock_handle
  | Extend instant lock_handle u64

primrec lock_op_time :: "lock_op \<Rightarrow> instant" where
  "lock_op_time (TryAcquire c k ttl) = ctx_now c"
| "lock_op_time (Release t h) = t"
| "lock_op_time (Extend t h ttl) = t"

text \<open>Does the operation present the proof of ownership \<open>tok\<close> for the key \<open>k\<close>?\<close>

primrec presents :: "string \<Rightarrow> string \<Rightarrow> lock_op \<Rightarrow> bool" where
  "presents k tok (TryAcquire c k' ttl) = False"
| "presents k tok (Release t h) = (lh_key h = k \<and> lh_token h = tok)"
| "presents k tok (Extend t h ttl) = (lh_key h = k \<and> lh_token h = tok)"

text \<open>One operation: the handles it grants, and the state it leaves.\<close>

primrec lock_step :: "'s lock_api \<Rightarrow> lock_op \<Rightarrow> 's \<Rightarrow> lock_handle list \<times> 's" where
  "lock_step L (TryAcquire c k ttl) s =
     (case la_try_acquire L c k ttl s of
        (Inr (Some h), s') \<Rightarrow> ([h], s') | (Inr None, s') \<Rightarrow> ([], s') | (Inl e, s') \<Rightarrow> ([], s'))"
| "lock_step L (Release t h) s = ([], snd (la_release L t h s))"
| "lock_step L (Extend t h ttl) s = ([], snd (la_extend L t h ttl s))"

primrec lock_run :: "'s lock_api \<Rightarrow> lock_op list \<Rightarrow> 's \<Rightarrow> lock_handle list \<times> 's" where
  "lock_run L [] s = ([], s)"
| "lock_run L (op # ops) s =
     (let (hs, s') = lock_step L op s; (hs', s'') = lock_run L ops s' in (hs @ hs', s''))"

section \<open>The contract\<close>

text \<open>\<open>holder s t k\<close> is the token that owns \<open>k\<close> at time \<open>t\<close> if no further operation runs.\<close>

locale distributed_lock =
  fixes L :: "'s lock_api"
    and holder :: "'s \<Rightarrow> instant \<Rightarrow> string \<Rightarrow> string option"
    and ttl_ok :: "u64 \<Rightarrow> bool"
  assumes acquire_free:
      "la_try_acquire L c k ttl s = (Inr (Some h), s') \<Longrightarrow>
         holder s (ctx_now c) k = None \<and> lh_key h = k \<and> lh_token h = ctx_uuid c"
    and acquire_holds:
      "la_try_acquire L c k ttl s = (Inr (Some h), s') \<Longrightarrow> ttl_ok ttl \<Longrightarrow> ctx_now c \<le> t \<Longrightarrow>
         t < add_secs (ctx_now c) ttl \<Longrightarrow> holder s' t k = Some (lh_token h)"
    and acquire_busy:
      "la_try_acquire L c k ttl s = (Inr None, s') \<Longrightarrow> holder s (ctx_now c) k \<noteq> None"
    and acquire_frame:
      "holder s (ctx_now c) k' \<noteq> None \<Longrightarrow> ctx_now c \<le> t \<Longrightarrow>
         holder (snd (la_try_acquire L c k ttl s)) t k' = holder s t k'"
    and release_frame:
      "holder s now k = Some tok \<Longrightarrow> \<not> (lh_key h = k \<and> lh_token h = tok) \<Longrightarrow> now \<le> t \<Longrightarrow>
         holder (snd (la_release L now h s)) t k = holder s t k"
    and release_true:
      "la_release L now h s = (Inr True, s') \<Longrightarrow> now \<le> t \<Longrightarrow> holder s' t (lh_key h) = None"
    and release_false:
      "la_release L now h s = (Inr False, s') \<Longrightarrow> holder s now (lh_key h) \<noteq> Some (lh_token h)"
    and extend_frame:
      "holder s now k = Some tok \<Longrightarrow> \<not> (lh_key h = k \<and> lh_token h = tok) \<Longrightarrow> now \<le> t \<Longrightarrow>
         holder (snd (la_extend L now h ttl s)) t k = holder s t k"
    and extend_true:
      "la_extend L now h ttl s = (Inr True, s') \<Longrightarrow> ttl_ok ttl \<Longrightarrow> now \<le> t \<Longrightarrow> t < add_secs now ttl \<Longrightarrow>
         holder s' t (lh_key h) = Some (lh_token h)"
begin

definition owns :: "'s \<Rightarrow> string \<Rightarrow> string \<Rightarrow> instant \<Rightarrow> instant \<Rightarrow> bool" where
  "owns s k tok start stop \<longleftrightarrow> (\<forall>t. start \<le> t \<and> t < stop \<longrightarrow> holder s t k = Some tok)"

lemma owns_later: "owns s k tok start stop \<Longrightarrow> start \<le> start' \<Longrightarrow> owns s k tok start' stop"
  by (auto simp: owns_def)

lemma acquire_owns:
  "la_try_acquire L c k ttl s = (Inr (Some h), s') \<Longrightarrow> ttl_ok ttl \<Longrightarrow>
     owns s' k (lh_token h) (ctx_now c) (add_secs (ctx_now c) ttl)"
  by (auto simp: owns_def dest: acquire_holds)

text \<open>While a token owns a key, an operation that does not present it grants nothing on that key
  and leaves the ownership as it is.\<close>

lemma step_keeps:
  assumes own: "owns s k tok (lock_op_time op) stop" and lt: "lock_op_time op < stop"
    and np: "\<not> presents k tok op" and st: "lock_step L op s = (hs, s')"
  shows "owns s' k tok (lock_op_time op) stop \<and> (\<forall>h \<in> set hs. lh_key h \<noteq> k)"
proof -
  have held: "holder s (lock_op_time op) k = Some tok" using own lt by (simp add: owns_def)
  show ?thesis
  proof (cases op)
    case (TryAcquire c k' ttl)
    have "lh_key h \<noteq> k" if "la_try_acquire L c k' ttl s = (Inr (Some h), s'')" for h s''
      using acquire_free [OF that] held TryAcquire by auto
    then have "\<forall>h \<in> set hs. lh_key h \<noteq> k"
      using st TryAcquire by (auto split: prod.splits sum.splits option.splits)
    moreover have "s' = snd (la_try_acquire L c k' ttl s)"
      using st TryAcquire by (auto split: prod.splits sum.splits option.splits)
    moreover have "holder s (ctx_now c) k \<noteq> None" using held TryAcquire by simp
    ultimately show ?thesis using own TryAcquire acquire_frame by (simp add: owns_def)
  next
    case (Release t h)
    then show ?thesis using st np own held release_frame [of s t k tok h] by (auto simp: owns_def)
  next
    case (Extend t h ttl)
    then show ?thesis using st np own held extend_frame [of s t k tok h] by (auto simp: owns_def)
  qed
qed

lemma run_keeps:
  assumes "owns s k tok start stop" "sorted (start # map lock_op_time ops)"
    "\<forall>op \<in> set ops. lock_op_time op < stop \<and> \<not> presents k tok op"
    "lock_run L ops s = (hs, s')" "\<forall>op \<in> set ops. lock_op_time op \<le> t" "start \<le> t" "t < stop"
  shows "holder s' t k = Some tok \<and> (\<forall>h \<in> set hs. lh_key h \<noteq> k)"
  using assms
proof (induction ops arbitrary: s start hs)
  case Nil
  then show ?case by (auto simp: owns_def)
next
  case (Cons op ops)
  obtain hs1 s1 where st: "lock_step L op s = (hs1, s1)" by fastforce
  obtain hs2 where rn: "lock_run L ops s1 = (hs2, s')" "hs = hs1 @ hs2"
    using Cons.prems(4) st by (auto split: prod.splits)
  have "owns s k tok (lock_op_time op) stop"
    using Cons.prems(1,2) by (auto intro: owns_later)
  from step_keeps [OF this _ _ st] Cons.prems(3)
  have "owns s1 k tok (lock_op_time op) stop" "\<forall>h \<in> set hs1. lh_key h \<noteq> k" by auto
  with Cons.IH [of s1 "lock_op_time op" hs2] Cons.prems rn show ?case by auto
qed

text \<open>Mutual exclusion: from a granted lock until its expiry nobody else is granted the key,
  however the other clients interleave, and the grant is still in force.\<close>

lemma exclusive:
  assumes "la_try_acquire L c k ttl s = (Inr (Some h), s1)" "ttl_ok ttl"
    "sorted (ctx_now c # map lock_op_time ops)"
    "\<forall>op \<in> set ops. lock_op_time op < add_secs (ctx_now c) ttl \<and> \<not> presents k (lh_token h) op"
    "lock_run L ops s1 = (hs, s2)" "\<forall>op \<in> set ops. lock_op_time op \<le> t" "ctx_now c \<le> t"
    "t < add_secs (ctx_now c) ttl"
  shows "holder s2 t k = Some (lh_token h) \<and> (\<forall>g \<in> set hs. lh_key g \<noteq> k)"
  by (rule run_keeps [OF acquire_owns [OF assms(1,2)] assms(3-8)])

end

section \<open>The in-memory lock\<close>

record lock_entry =
  le_token :: string
  le_expires_at :: instant

type_synonym memory_locks = "string \<rightharpoonup> lock_entry"

definition mem_lock_new :: memory_locks where
  "mem_lock_new = Map.empty"

definition mem_try_acquire ::
  "call_ctx \<Rightarrow> string \<Rightarrow> u64 \<Rightarrow> memory_locks \<Rightarrow> lock_handle option res \<times> memory_locks" where
  "mem_try_acquire c key ttl_secs locks0 =
     (let now = ctx_now c;
          locks = (case locks0 key of
                     Some entry \<Rightarrow> if le_expires_at entry \<le> now then locks0(key := None) else locks0
                   | None \<Rightarrow> locks0)
      in if locks key \<noteq> None then (Ok None, locks)
         else (case checked_add_secs now ttl_secs of
                 None \<Rightarrow> (Inl (Panic instant_overflow), locks)
               | Some expires \<Rightarrow>
                   (Ok (Some \<lparr>lh_key = key, lh_token = ctx_uuid c, lh_acquired_at_ms = ctx_wall_ms c\<rparr>),
                    locks(key \<mapsto> \<lparr>le_token = ctx_uuid c, le_expires_at = expires\<rparr>))))"

definition mem_release :: "instant \<Rightarrow> lock_handle \<Rightarrow> memory_locks \<Rightarrow> bool res \<times> memory_locks" where
  "mem_release now h locks =
     (case locks (lh_key h) of
        Some entry \<Rightarrow>
          if le_token entry = lh_token h then (Ok True, locks(lh_key h := None)) else (Ok False, locks)
      | None \<Rightarrow> (Ok False, locks))"

definition mem_extend ::
  "instant \<Rightarrow> lock_handle \<Rightarrow> u64 \<Rightarrow> memory_locks \<Rightarrow> bool res \<times> memory_locks" where
  "mem_extend now h ttl_secs locks =
     (case locks (lh_key h) of
        Some entry \<Rightarrow>
          if le_token entry = lh_token h then
            (case checked_add_secs now ttl_secs of
               None \<Rightarrow> (Inl (Panic instant_overflow), locks)
             | Some expires \<Rightarrow> (Ok True, locks(lh_key h \<mapsto> entry\<lparr>le_expires_at := expires\<rparr>)))
          else (Ok False, locks)
      | None \<Rightarrow> (Ok False, locks))"

definition memory_lock :: "memory_locks lock_api" where
  "memory_lock = \<lparr>la_try_acquire = mem_try_acquire, la_release = mem_release, la_extend = mem_extend\<rparr>"

definition mem_holder :: "memory_locks \<Rightarrow> instant \<Rightarrow> string \<Rightarrow> string option" where
  "mem_holder locks t k =
     (case locks k of Some e \<Rightarrow> if t < le_expires_at e then Some (le_token e) else None | None \<Rightarrow> None)"

lemmas mem_lock_defs = memory_lock_def mem_try_acquire_def mem_release_def mem_extend_def mem_holder_def
  checked_add_secs_def Let_def

interpretation mem: distributed_lock memory_lock mem_holder "\<lambda>_. True"
  by unfold_locales (auto simp: mem_lock_defs not_le split: option.splits if_splits)

section \<open>The Redis lock\<close>

record redis_lock_config =
  rlc_url :: string
  rlc_key_prefix :: string

text \<open>The server: the commands on its state \<open>'r\<close>, and the transport. \<open>rd_fault\<close> tells whether the
  next round trip fails, and if so whether the server had already executed the command.\<close>

record 'r redis =
  rd_open :: "string \<Rightarrow> string option"
  rd_connect :: "'r \<Rightarrow> string option \<times> 'r"
  rd_fault :: "'r \<Rightarrow> (bool \<times> string) option \<times> 'r"
  rd_set_nx_px :: "instant \<Rightarrow> string \<Rightarrow> string \<Rightarrow> u64 \<Rightarrow> 'r \<Rightarrow> (string + string option) \<times> 'r"
  rd_get :: "instant \<Rightarrow> string \<Rightarrow> 'r \<Rightarrow> string option"
  rd_del :: "instant \<Rightarrow> string \<Rightarrow> 'r \<Rightarrow> 'r"
  rd_pexpire :: "instant \<Rightarrow> string \<Rightarrow> u64 \<Rightarrow> 'r \<Rightarrow> 'r"

record 'r redis_lock =
  rl_config :: redis_lock_config
  rl_connected :: bool
  rl_server :: 'r

definition redis_lock_new :: "redis_lock_config \<Rightarrow> 'r \<Rightarrow> 'r redis_lock" where
  "redis_lock_new cfg r = \<lparr>rl_config = cfg, rl_connected = False, rl_server = r\<rparr>"

definition redis_lock_connect :: "'r redis \<Rightarrow> 'r redis_lock \<Rightarrow> unit res \<times> 'r redis_lock" where
  "redis_lock_connect R l =
     (case rd_open R (rlc_url (rl_config l)) of
        Some e \<Rightarrow> (Err LockAcquireFailed (''invalid redis url: '' @ e), l)
      | None \<Rightarrow>
          (case rd_connect R (rl_server l) of
             (Some e, r) \<Rightarrow> (Err LockAcquireFailed (''redis connect failed: '' @ e), l\<lparr>rl_server := r\<rparr>)
           | (None, r) \<Rightarrow> (Ok (), l\<lparr>rl_server := r, rl_connected := True\<rparr>)))"

definition get_conn :: "'r redis_lock \<Rightarrow> unit res" where
  "get_conn l = (if rl_connected l then Ok () else Err LockAcquireFailed ''redis not connected'')"

definition full_key :: "redis_lock_config \<Rightarrow> string \<Rightarrow> string" where
  "full_key cfg key = rlc_key_prefix cfg @ key"

text \<open>One round trip of the command \<open>cmd\<close>.\<close>

definition redis_call :: "'r redis \<Rightarrow> ('r \<Rightarrow> (string + 'a) \<times> 'r) \<Rightarrow> 'r \<Rightarrow> (string + 'a) \<times> 'r" where
  "redis_call R cmd r =
     (case rd_fault R r of
        (None, r') \<Rightarrow> cmd r'
      | (Some (executed, m), r') \<Rightarrow> (Inl m, if executed then snd (cmd r') else r'))"

text \<open>The two Lua scripts, which the server runs atomically.\<close>

definition release_script :: "'r redis \<Rightarrow> instant \<Rightarrow> string \<Rightarrow> string \<Rightarrow> 'r \<Rightarrow> (string + int) \<times> 'r" where
  "release_script R now key arg r =
     (if rd_get R now key r = Some arg then (Inr 1, rd_del R now key r) else (Inr 0, r))"

definition extend_script :: "'r redis \<Rightarrow> instant \<Rightarrow> string \<Rightarrow> string \<Rightarrow> u64 \<Rightarrow> 'r \<Rightarrow> (string + int) \<times> 'r" where
  "extend_script R now key arg ms r =
     (if rd_get R now key r = Some arg then (Inr 1, rd_pexpire R now key ms r) else (Inr 0, r))"

definition redis_try_acquire ::
  "'r redis \<Rightarrow> call_ctx \<Rightarrow> string \<Rightarrow> u64 \<Rightarrow> 'r redis_lock \<Rightarrow> lock_handle option res \<times> 'r redis_lock" where
  "redis_try_acquire R c key ttl_secs l =
     (case get_conn l of
        Inl e \<Rightarrow> (Inl e, l)
      | Inr _ \<Rightarrow>
          (let fk = full_key (rl_config l) key; token = ctx_uuid c;
               (reply, r) = redis_call R (rd_set_nx_px R (ctx_now c) fk token (ttl_secs * 1000)) (rl_server l);
               l' = l\<lparr>rl_server := r\<rparr>
           in case reply of
                Inl e \<Rightarrow> (Err LockAcquireFailed (''redis SET NX failed: '' @ e), l')
              | Inr (Some _) \<Rightarrow>
                  (Ok (Some \<lparr>lh_key = key, lh_token = token, lh_acquired_at_ms = ctx_wall_ms c\<rparr>), l')
              | Inr None \<Rightarrow> (Ok None, l')))"

definition redis_release :: "'r redis \<Rightarrow> instant \<Rightarrow> lock_handle \<Rightarrow> 'r redis_lock \<Rightarrow> bool res \<times> 'r redis_lock" where
  "redis_release R now h l =
     (case get_conn l of
        Inl e \<Rightarrow> (Inl e, l)
      | Inr _ \<Rightarrow>
          (let (reply, r) = redis_call R (release_script R now (full_key (rl_config l) (lh_key h)) (lh_token h)) (rl_server l);
               l' = l\<lparr>rl_server := r\<rparr>
           in case reply of
                Inl e \<Rightarrow> (Err LockAcquireFailed (''redis release script failed: '' @ e), l')
              | Inr n \<Rightarrow> (Ok (n = 1), l')))"

definition redis_extend ::
  "'r redis \<Rightarrow> instant \<Rightarrow> lock_handle \<Rightarrow> u64 \<Rightarrow> 'r redis_lock \<Rightarrow> bool res \<times> 'r redis_lock" where
  "redis_extend R now h ttl_secs l =
     (case get_conn l of
        Inl e \<Rightarrow> (Inl e, l)
      | Inr _ \<Rightarrow>
          (let (reply, r) = redis_call R (extend_script R now (full_key (rl_config l) (lh_key h)) (lh_token h) (ttl_secs * 1000)) (rl_server l);
               l' = l\<lparr>rl_server := r\<rparr>
           in case reply of
                Inl e \<Rightarrow> (Err LockAcquireFailed (''redis extend script failed: '' @ e), l')
              | Inr n \<Rightarrow> (Ok (n = 1), l')))"

definition redis_lock_api :: "'r redis \<Rightarrow> 'r redis_lock lock_api" where
  "redis_lock_api R =
     \<lparr>la_try_acquire = redis_try_acquire R, la_release = redis_release R, la_extend = redis_extend R\<rparr>"

text \<open>The documented behaviour of the server. \<open>val r t k\<close> is the value of \<open>k\<close> at time \<open>t\<close> when no
  further command runs.\<close>

definition redis_ok :: "'r redis \<Rightarrow> ('r \<Rightarrow> instant \<Rightarrow> string \<Rightarrow> string option) \<Rightarrow> bool" where
  "redis_ok R val \<longleftrightarrow>
     (\<forall>r t k. val (snd (rd_fault R r)) t k = val r t k) \<and>
     (\<forall>now k r. rd_get R now k r = val r now k) \<and>
     (\<forall>now k r t k'. now \<le> t \<longrightarrow> val (rd_del R now k r) t k' = (if k' = k then None else val r t k')) \<and>
     (\<forall>now k ms r t k' v. now \<le> t \<longrightarrow> val r now k = Some v \<longrightarrow>
        val (rd_pexpire R now k ms r) t k' =
          (if k' = k then if t < now + unat ms * nanos_per_milli then Some v else None else val r t k')) \<and>
     (\<forall>now k v ms r t k'. now \<le> t \<longrightarrow>
        (case rd_set_nx_px R now k v ms r of
           (Inl e, r') \<Rightarrow> val r' t k' = val r t k'
         | (Inr None, r') \<Rightarrow> val r now k \<noteq> None \<and> val r' t k' = val r t k'
         | (Inr (Some _), r') \<Rightarrow> val r now k = None \<and>
             val r' t k' = (if k' = k then if t < now + unat ms * nanos_per_milli then Some v else None else val r t k')))"

definition redis_holder :: "('r \<Rightarrow> instant \<Rightarrow> string \<Rightarrow> string option) \<Rightarrow> 'r redis_lock \<Rightarrow> instant \<Rightarrow> string \<Rightarrow> string option" where
  "redis_holder val l t k = val (rl_server l) t (full_key (rl_config l) k)"

definition ttl_fits :: "u64 \<Rightarrow> bool" where
  "ttl_fits ttl \<longleftrightarrow> unat ttl * 1000 < 2 ^ 64"

lemma ttl_millis: "ttl_fits ttl \<Longrightarrow> now + unat (ttl * 1000) * nanos_per_milli = add_secs now ttl"
  by (simp add: ttl_fits_def add_secs_def unat_word_ariths)

lemmas redis_lock_defs = redis_lock_api_def redis_try_acquire_def redis_release_def redis_extend_def
  redis_holder_def redis_call_def release_script_def extend_script_def get_conn_def Let_def

lemma full_key_inj [simp]: "full_key cfg k = full_key cfg k' \<longleftrightarrow> k = k'"
  by (simp add: full_key_def)

lemma redis_ok_fault: "redis_ok R val \<Longrightarrow> rd_fault R r = (x, r') \<Longrightarrow> val r' t k = val r t k"
  unfolding redis_ok_def by (metis snd_conv)

lemma redis_ok_get: "redis_ok R val \<Longrightarrow> rd_get R now k r = val r now k"
  by (simp add: redis_ok_def)

lemma redis_ok_del:
  "redis_ok R val \<Longrightarrow> now \<le> t \<Longrightarrow> val (rd_del R now k r) t k' = (if k' = k then None else val r t k')"
  by (simp add: redis_ok_def)

lemma redis_ok_pexpire:
  "redis_ok R val \<Longrightarrow> now \<le> t \<Longrightarrow> val r now k = Some v \<Longrightarrow>
     val (rd_pexpire R now k ms r) t k' =
       (if k' = k then if t < now + unat ms * nanos_per_milli then Some v else None else val r t k')"
  by (simp add: redis_ok_def)

lemma redis_ok_set:
  assumes "redis_ok R val" "now \<le> t"
  shows "case rd_set_nx_px R now k v ms r of
           (Inl e, r') \<Rightarrow> val r' t k' = val r t k'
         | (Inr None, r') \<Rightarrow> val r now k \<noteq> None \<and> val r' t k' = val r t k'
         | (Inr (Some _), r') \<Rightarrow> val r now k = None \<and>
             val r' t k' = (if k' = k then if t < now + unat ms * nanos_per_milli then Some v else None else val r t k')"
  by (rule assms(1) [unfolded redis_ok_def, THEN conjunct2, THEN conjunct2, THEN conjunct2,
        THEN conjunct2, rule_format, OF assms(2)])

text \<open>The effect of the three operations on the view of the server.\<close>

lemma redis_try_acquire_view:
  assumes ok: "redis_ok R val" and le: "ctx_now c \<le> t"
    and st: "redis_try_acquire R c k ttl l = (res, l')"
  shows "(case res of
            Inr (Some h) \<Rightarrow> redis_holder val l (ctx_now c) k = None \<and> lh_key h = k \<and> lh_token h = ctx_uuid c \<and>
              redis_holder val l' t k' =
                (if k' = k then if t < ctx_now c + unat (ttl * 1000) * nanos_per_milli then Some (ctx_uuid c) else None
                 else redis_holder val l t k')
          | Inr None \<Rightarrow> redis_holder val l (ctx_now c) k \<noteq> None \<and> redis_holder val l' t k' = redis_holder val l t k'
          | Inl e \<Rightarrow> redis_holder val l (ctx_now c) k' \<noteq> None \<longrightarrow> redis_holder val l' t k' = redis_holder val l t k')"
proof (cases "rl_connected l")
  case False
  with st show ?thesis by (auto simp: redis_try_acquire_def get_conn_def)
next
  case True
  let ?fk = "full_key (rl_config l)"
  obtain x r1 where f: "rd_fault R (rl_server l) = (x, r1)" by fastforce
  obtain rep r2 where c: "rd_set_nx_px R (ctx_now c) (?fk k) (ctx_uuid c) (ttl * 1000) r1 = (rep, r2)" by fastforce
  note view = redis_ok_set [OF ok le, where k = "?fk k" and v = "ctx_uuid c" and ms = "ttl * 1000" and r = r1 and k' = "?fk k'"] redis_ok_fault [OF ok f]
  show ?thesis
    using True st f c view
    by (cases x; cases rep)
      (auto simp: redis_try_acquire_def redis_call_def get_conn_def redis_holder_def Let_def
        split: option.splits prod.splits if_splits)
qed

lemma redis_release_view:
  assumes ok: "redis_ok R val" and le: "now \<le> t" and st: "redis_release R now h l = (res, l')"
  shows "(case res of
            Inr b \<Rightarrow> b = (redis_holder val l now (lh_key h) = Some (lh_token h)) \<and>
              redis_holder val l' t k' = (if b \<and> k' = lh_key h then None else redis_holder val l t k')
          | Inl e \<Rightarrow> redis_holder val l' t k' = redis_holder val l t k' \<or>
              k' = lh_key h \<and> redis_holder val l now k' = Some (lh_token h))"
  using st redis_ok_fault [OF ok]
  by (auto simp: redis_lock_defs redis_ok_get [OF ok] redis_ok_del [OF ok le]
      split: option.splits prod.splits if_splits)

lemma redis_extend_view:
  assumes ok: "redis_ok R val" and le: "now \<le> t" and st: "redis_extend R now h ttl l = (res, l')"
  shows "(case res of
            Inr b \<Rightarrow> b = (redis_holder val l now (lh_key h) = Some (lh_token h)) \<and>
              redis_holder val l' t k' =
                (if b \<and> k' = lh_key h
                 then if t < now + unat (ttl * 1000) * nanos_per_milli then Some (lh_token h) else None
                 else redis_holder val l t k')
          | Inl e \<Rightarrow> redis_holder val l' t k' = redis_holder val l t k' \<or>
              k' = lh_key h \<and> redis_holder val l now k' = Some (lh_token h))"
  using st redis_ok_fault [OF ok]
  by (auto simp: redis_lock_defs redis_ok_get [OF ok] redis_ok_pexpire [OF ok le]
      split: option.splits prod.splits if_splits)

lemma redis_contract:
  assumes ok: "redis_ok R val"
  shows "distributed_lock (redis_lock_api R) (redis_holder val) ttl_fits"
proof
  note acq = redis_try_acquire_view [OF ok] and rel = redis_release_view [OF ok] and ext = redis_extend_view [OF ok]
  fix c k ttl s h s' t k' now tok
  show "la_try_acquire (redis_lock_api R) c k ttl s = (Inr (Some h), s') \<Longrightarrow>
      redis_holder val s (ctx_now c) k = None \<and> lh_key h = k \<and> lh_token h = ctx_uuid c"
    using acq [of c "ctx_now c" k ttl s "Inr (Some h)" s'] by (simp add: redis_lock_api_def)
  show "redis_holder val s' t k = Some (lh_token h)"
    if "la_try_acquire (redis_lock_api R) c k ttl s = (Inr (Some h), s')" "ttl_fits ttl" "ctx_now c \<le> t"
      "t < add_secs (ctx_now c) ttl"
    using acq [of c t k ttl s "Inr (Some h)" s' k] that by (simp add: redis_lock_api_def ttl_millis)
  show "la_try_acquire (redis_lock_api R) c k ttl s = (Inr None, s') \<Longrightarrow> redis_holder val s (ctx_now c) k \<noteq> None"
    using acq [of c "ctx_now c" k ttl s "Inr None" s'] by (simp add: redis_lock_api_def)
  show "redis_holder val (snd (la_try_acquire (redis_lock_api R) c k ttl s)) t k' = redis_holder val s t k'"
    if "redis_holder val s (ctx_now c) k' \<noteq> None" "ctx_now c \<le> t"
    using acq [of c t k ttl s "fst (redis_try_acquire R c k ttl s)" "snd (redis_try_acquire R c k ttl s)" k'] that
    by (auto simp: redis_lock_api_def split: sum.splits option.splits)
  show "redis_holder val (snd (la_release (redis_lock_api R) now h s)) t k = redis_holder val s t k"
    if "redis_holder val s now k = Some tok" "\<not> (lh_key h = k \<and> lh_token h = tok)" "now \<le> t"
    using rel [of now t h s "fst (redis_release R now h s)" "snd (redis_release R now h s)" k] that
    by (auto simp: redis_lock_api_def split: sum.splits if_splits)
  show "redis_holder val s' t (lh_key h) = None"
    if "la_release (redis_lock_api R) now h s = (Inr True, s')" "now \<le> t"
    using rel [of now t h s "Inr True" s' "lh_key h"] that by (simp add: redis_lock_api_def)
  show "la_release (redis_lock_api R) now h s = (Inr False, s') \<Longrightarrow>
      redis_holder val s now (lh_key h) \<noteq> Some (lh_token h)"
    using rel [of now now h s "Inr False" s'] by (simp add: redis_lock_api_def)
  show "redis_holder val (snd (la_extend (redis_lock_api R) now h ttl s)) t k = redis_holder val s t k"
    if "redis_holder val s now k = Some tok" "\<not> (lh_key h = k \<and> lh_token h = tok)" "now \<le> t"
    using ext [of now t h ttl s "fst (redis_extend R now h ttl s)" "snd (redis_extend R now h ttl s)" k] that
    by (auto simp: redis_lock_api_def split: sum.splits if_splits)
  show "redis_holder val s' t (lh_key h) = Some (lh_token h)"
    if "la_extend (redis_lock_api R) now h ttl s = (Inr True, s')" "ttl_fits ttl" "now \<le> t" "t < add_secs now ttl"
    using ext [of now t h ttl s "Inr True" s' "lh_key h"] that by (simp add: redis_lock_api_def ttl_millis)
qed

section \<open>Waiting for a lock\<close>

text \<open>The world of a waiting task: the readings a call makes, the wait for a notification or a
  timeout (other tasks run meanwhile and may change the lock), and the lock's state in it.\<close>

record ('s, 'w) lock_runtime =
  lr_ctx :: "'w \<Rightarrow> call_ctx \<times> 'w"
  lr_now :: "'w \<Rightarrow> instant \<times> 'w"
  lr_wait :: "nat \<Rightarrow> 'w \<Rightarrow> 'w"
  lr_get :: "'w \<Rightarrow> 's"
  lr_put :: "'s \<Rightarrow> 'w \<Rightarrow> 'w"

text \<open>Both implementations run this loop; \<open>pause now\<close> is how long they wait before the next try.\<close>

partial_function (option) acquire_loop ::
  "'s lock_api \<Rightarrow> ('s, 'w) lock_runtime \<Rightarrow> string \<Rightarrow> u64 \<Rightarrow> instant \<Rightarrow> (instant \<Rightarrow> nat) \<Rightarrow> 'w \<Rightarrow>
     (lock_handle res \<times> 'w) option" where
  [code]: "acquire_loop L rt key ttl_secs deadline pause w =
     (let (c, w1) = lr_ctx rt w;
          (r, s) = la_try_acquire L c key ttl_secs (lr_get rt w1);
          w2 = lr_put rt s w1
      in case r of
           Inl e \<Rightarrow> Some (Inl e, w2)
         | Inr (Some h) \<Rightarrow> Some (Inr h, w2)
         | Inr None \<Rightarrow>
             (let (now, w3) = lr_now rt w2
              in if deadline \<le> now
                 then Some (Err LockAcquireFailed (''timed out waiting for lock '' @ quoted key), w3)
                 else acquire_loop L rt key ttl_secs deadline pause (lr_wait rt (pause now) w3)))"

definition mem_acquire ::
  "(memory_locks, 'w) lock_runtime \<Rightarrow> string \<Rightarrow> u64 \<Rightarrow> u64 \<Rightarrow> 'w \<Rightarrow> (lock_handle res \<times> 'w) option" where
  "mem_acquire rt key ttl_secs wait_timeout_secs w =
     (let (now, w1) = lr_now rt w
      in case checked_add_secs now wait_timeout_secs of
           None \<Rightarrow> Some (Inl (Panic instant_overflow), w1)
         | Some deadline \<Rightarrow> acquire_loop memory_lock rt key ttl_secs deadline (\<lambda>now. deadline - now) w1)"

definition redis_acquire ::
  "'r redis \<Rightarrow> ('r redis_lock, 'w) lock_runtime \<Rightarrow> string \<Rightarrow> u64 \<Rightarrow> u64 \<Rightarrow> 'w \<Rightarrow> (lock_handle res \<times> 'w) option" where
  "redis_acquire R rt key ttl_secs wait_timeout_secs w =
     (let (now, w1) = lr_now rt w
      in case checked_add_secs now wait_timeout_secs of
           None \<Rightarrow> Some (Inl (Panic instant_overflow), w1)
         | Some deadline \<Rightarrow>
             (let poll_interval = min (50 * nanos_per_milli) (unat wait_timeout_secs * nanos_per_sec)
              in acquire_loop (redis_lock_api R) rt key ttl_secs deadline (\<lambda>_. poll_interval) w1))"

text \<open>\<open>clk\<close> is the time of a world: readings lie between the worlds around them, and a wait of a
  positive duration takes time (a notification may end it early).\<close>

definition clock_runs :: "('s, 'w) lock_runtime \<Rightarrow> ('w \<Rightarrow> instant) \<Rightarrow> bool" where
  "clock_runs rt clk \<longleftrightarrow>
     (\<forall>w. clk w \<le> fst (lr_now rt w) \<and> fst (lr_now rt w) \<le> clk (snd (lr_now rt w))) \<and>
     (\<forall>w. clk w \<le> clk (snd (lr_ctx rt w))) \<and>
     (\<forall>s w. clk (lr_put rt s w) = clk w \<and> lr_get rt (lr_put rt s w) = s) \<and>
     (\<forall>d w. 0 < d \<longrightarrow> clk w < clk (lr_wait rt d w))"

lemma acquire_loop_returns:
  assumes clk: "clock_runs rt clk"
    and pause: "\<And>now. start \<le> now \<Longrightarrow> now < deadline \<Longrightarrow> 0 < pause now"
    and "start \<le> clk w"
  shows "\<exists>r w'. acquire_loop L rt key ttl deadline pause w = Some (r, w') \<and>
    (case r of
       Inl e \<Rightarrow> deadline \<le> clk w' \<and> e = Fail (app_error_new LockAcquireFailed (''timed out waiting for lock '' @ quoted key)) \<or>
         (\<exists>c s. la_try_acquire L c key ttl s = (Inl e, lr_get rt w'))
     | Inr h \<Rightarrow> (\<exists>c s. la_try_acquire L c key ttl s = (Inr (Some h), lr_get rt w')))"
  using assms(3)
proof (induction "deadline - clk w" arbitrary: w rule: less_induct)
  case less
  obtain c w1 where c: "lr_ctx rt w = (c, w1)" by fastforce
  obtain r s where r: "la_try_acquire L c key ttl (lr_get rt w1) = (r, s)" by fastforce
  obtain now w3 where n: "lr_now rt (lr_put rt s w1) = (now, w3)" by fastforce
  have le: "clk w \<le> now" "now \<le> clk w3"
    using clk c n unfolding clock_runs_def by (metis fst_conv snd_conv le_trans)+
  note unf = acquire_loop.simps [of L rt key ttl deadline pause w] c r n
  show ?case
  proof (cases "r = Inr None \<and> now < deadline")
    case True
    then have "0 < pause now" using pause le less.prems by simp
    then have "clk w3 < clk (lr_wait rt (pause now) w3)" using clk by (simp add: clock_runs_def)
    then have "deadline - clk (lr_wait rt (pause now) w3) < deadline - clk w"
      "start \<le> clk (lr_wait rt (pause now) w3)"
      using le less.prems True by linarith+
    from less.hyps [OF this] True show ?thesis by (simp add: unf)
  next
    case False
    have put: "lr_get rt (lr_put rt s w1) = s" using clk by (simp add: clock_runs_def)
    consider e where "r = Inl e" | h where "r = Inr (Some h)" | "r = Inr None" "deadline \<le> now"
      using False by (cases r; cases "projr r") auto
    then show ?thesis
    proof cases
      case 1
      with r put show ?thesis by (auto simp: unf intro!: exI [of _ c] exI [of _ "lr_get rt w1"])
    next
      case 2
      with r put show ?thesis by (auto simp: unf intro!: exI [of _ c] exI [of _ "lr_get rt w1"])
    next
      case 3
      with le show ?thesis by (simp add: unf)
    qed
  qed
qed

section \<open>Properties\<close>

text \<open>
  C7: mutual exclusion of the in-memory lock. From the moment a client is granted a key until
  its time to live has passed, every operation other clients interleave (none presents the
  client's token for that key) grants the key to nobody, and the client still holds it.
\<close>

theorem memory_lock_mutual_exclusion:
  assumes "mem_try_acquire c k ttl s = (Ok (Some h), s1)"
    "sorted (ctx_now c # map lock_op_time ops)"
    "\<forall>op \<in> set ops. lock_op_time op < add_secs (ctx_now c) ttl \<and> \<not> presents k (lh_token h) op"
    "\<forall>op \<in> set ops. lock_op_time op \<le> t" "ctx_now c \<le> t" "t < add_secs (ctx_now c) ttl"
  shows "mem_holder (snd (lock_run memory_lock ops s1)) t k = Some (ctx_uuid c) \<and>
    (\<forall>g \<in> set (fst (lock_run memory_lock ops s1)). lh_key g \<noteq> k)"
proof -
  have acq: "la_try_acquire memory_lock c k ttl s = (Ok (Some h), s1)"
    using assms(1) by (simp add: memory_lock_def)
  from mem.acquire_free [OF acq]
    mem.exclusive [OF acq TrueI assms(2,3) surjective_pairing assms(4-6)]
  show ?thesis by simp
qed

theorem memory_lock_mutual_exclusion_witness:
  "lock_run memory_lock [TryAcquire \<lparr>ctx_now = 5, ctx_uuid = ''b'', ctx_wall_ms = 0\<rparr> ''job'' 60]
     (snd (mem_try_acquire \<lparr>ctx_now = 3, ctx_uuid = ''a'', ctx_wall_ms = 0\<rparr> ''job'' 30 mem_lock_new))
   = ([], [''job'' \<mapsto> \<lparr>le_token = ''a'', le_expires_at = 30000000003\<rparr>])"
  (is "lock_run memory_lock ?ops ?s1 = _")
proof -
  let ?c = "\<lparr>ctx_now = 3, ctx_uuid = ''a'', ctx_wall_ms = 0\<rparr>"
  let ?h = "\<lparr>lh_key = ''job'', lh_token = ''a'', lh_acquired_at_ms = 0\<rparr>"
  have s1: "mem_try_acquire ?c ''job'' 30 mem_lock_new = (Ok (Some ?h), ?s1)"
    "?s1 = [''job'' \<mapsto> \<lparr>le_token = ''a'', le_expires_at = 30000000003\<rparr>]"
    by (simp_all add: mem_try_acquire_def mem_lock_new_def checked_add_secs_def add_secs_def)
  have "mem_holder (snd (lock_run memory_lock ?ops ?s1)) 5 ''job'' = Some (ctx_uuid ?c) \<and>
    (\<forall>g \<in> set (fst (lock_run memory_lock ?ops ?s1)). lh_key g \<noteq> ''job'')"
    by (rule memory_lock_mutual_exclusion [OF s1(1)]) (simp_all add: add_secs_def)
  then show ?thesis
    unfolding s1(2) by (simp add: memory_lock_def mem_try_acquire_def)
qed

text \<open>
  C8: mutual exclusion of the Redis lock, for every server with the documented behaviour of the
  commands and every pattern of lost requests and replies, when the time to live in
  milliseconds fits into 64 bits.
\<close>

theorem redis_lock_mutual_exclusion:
  assumes "redis_ok R val" "ttl_fits ttl" "redis_try_acquire R c k ttl s = (Ok (Some h), s1)"
    "sorted (ctx_now c # map lock_op_time ops)"
    "\<forall>op \<in> set ops. lock_op_time op < add_secs (ctx_now c) ttl \<and> \<not> presents k (lh_token h) op"
    "\<forall>op \<in> set ops. lock_op_time op \<le> t" "ctx_now c \<le> t" "t < add_secs (ctx_now c) ttl"
  shows "redis_holder val (snd (lock_run (redis_lock_api R) ops s1)) t k = Some (ctx_uuid c) \<and>
    (\<forall>g \<in> set (fst (lock_run (redis_lock_api R) ops s1)). lh_key g \<noteq> k)"
proof -
  note L = redis_contract [OF assms(1)]
  have acq: "la_try_acquire (redis_lock_api R) c k ttl s = (Ok (Some h), s1)"
    using assms(3) by (simp add: redis_lock_api_def)
  from distributed_lock.acquire_free [OF L acq]
    distributed_lock.exclusive [OF L acq assms(2,4,5) surjective_pairing assms(6-8)]
  show ?thesis by simp
qed

text \<open>A server for the witness: a map from keys to a value and its expiry, on a network that loses
  nothing.\<close>

definition ideal_redis :: "(string \<rightharpoonup> string \<times> instant) redis" where
  "ideal_redis =
     \<lparr>rd_open = \<lambda>_. None, rd_connect = \<lambda>r. (None, r), rd_fault = \<lambda>r. (None, r),
      rd_set_nx_px = \<lambda>now k v ms r.
        (if ms = 0 then (Inl ''ERR invalid expire time'', r)
         else case r k of
                Some (_, e) \<Rightarrow>
                  if now < e then (Inr None, r) else (Inr (Some ''OK''), r(k \<mapsto> (v, now + unat ms * nanos_per_milli)))
              | None \<Rightarrow> (Inr (Some ''OK''), r(k \<mapsto> (v, now + unat ms * nanos_per_milli)))),
      rd_get = \<lambda>now k r. (case r k of Some (v, e) \<Rightarrow> if now < e then Some v else None | None \<Rightarrow> None),
      rd_del = \<lambda>now k r. r(k := None),
      rd_pexpire = \<lambda>now k ms r.
        (case r k of Some (v, e) \<Rightarrow> if now < e then r(k \<mapsto> (v, now + unat ms * nanos_per_milli)) else r | None \<Rightarrow> r)\<rparr>"

definition ideal_val :: "(string \<rightharpoonup> string \<times> instant) \<Rightarrow> instant \<Rightarrow> string \<Rightarrow> string option" where
  "ideal_val r t k = (case r k of Some (v, e) \<Rightarrow> if t < e then Some v else None | None \<Rightarrow> None)"

lemma ideal_redis_ok: "redis_ok ideal_redis ideal_val"
  unfolding redis_ok_def
  by (intro conjI) (auto simp: ideal_redis_def ideal_val_def split: option.splits if_splits)

theorem redis_lock_mutual_exclusion_witness:
  "redis_holder ideal_val
     (snd (redis_try_acquire ideal_redis \<lparr>ctx_now = 3, ctx_uuid = ''a'', ctx_wall_ms = 0\<rparr> ''job'' 30
       \<lparr>rl_config = \<lparr>rlc_url = ''redis://h'', rlc_key_prefix = ''p:''\<rparr>, rl_connected = True, rl_server = Map.empty\<rparr>)) 9 ''job''
   = Some ''a''"
  (is "redis_holder _ ?s1 9 _ = _")
proof -
  let ?c = "\<lparr>ctx_now = 3, ctx_uuid = ''a'', ctx_wall_ms = 0\<rparr>"
  let ?s = "\<lparr>rl_config = \<lparr>rlc_url = ''redis://h'', rlc_key_prefix = ''p:''\<rparr>, rl_connected = True, rl_server = Map.empty\<rparr>"
  let ?h = "\<lparr>lh_key = ''job'', lh_token = ''a'', lh_acquired_at_ms = 0\<rparr>"
  have acq: "redis_try_acquire ideal_redis ?c ''job'' 30 ?s = (Ok (Some ?h), ?s1)"
    by (simp add: redis_try_acquire_def redis_call_def get_conn_def ideal_redis_def Let_def)
  have fits: "ttl_fits 30" by (simp add: ttl_fits_def)
  have "redis_holder ideal_val (snd (lock_run (redis_lock_api ideal_redis) [] ?s1)) 9 ''job'' = Some (ctx_uuid ?c) \<and>
    (\<forall>g \<in> set (fst (lock_run (redis_lock_api ideal_redis) [] ?s1)). lh_key g \<noteq> ''job'')"
    by (rule redis_lock_mutual_exclusion [OF ideal_redis_ok fits acq]) (simp_all add: add_secs_def)
  then show ?thesis by simp
qed

text \<open>
  C9: \<open>InMemoryLock::acquire\<close> returns. When time passes while it waits, the loop ends; a
  returned handle is for the requested key and was granted by the last step, and an error is
  the timeout, reported only once the deadline has been reached.
\<close>

theorem memory_acquire_returns:
  assumes "clock_runs rt clk"
  shows "\<exists>r w'. mem_acquire rt key ttl wait w = Some (r, w') \<and>
    (\<forall>h. r = Inr h \<longrightarrow> (\<exists>c s. mem_try_acquire c key ttl s = (Ok (Some h), lr_get rt w') \<and>
        mem_holder s (ctx_now c) key = None \<and> lh_key h = key)) \<and>
    (\<forall>e. r = Inl (Fail e) \<longrightarrow> ae_code e = LockAcquireFailed \<and> add_secs (fst (lr_now rt w)) wait \<le> clk w')"
proof (cases "checked_add_secs (fst (lr_now rt w)) wait")
  case None
  then show ?thesis by (auto simp: mem_acquire_def split: prod.splits)
next
  case (Some d)
  then have d: "d = add_secs (fst (lr_now rt w)) wait" by (simp add: checked_add_secs_def split: if_splits)
  obtain r w' where rw: "acquire_loop memory_lock rt key ttl d (\<lambda>now. d - now) (snd (lr_now rt w)) = Some (r, w')"
    and post: "case r of
       Inl e \<Rightarrow> d \<le> clk w' \<and> e = Fail (app_error_new LockAcquireFailed (''timed out waiting for lock '' @ quoted key)) \<or>
         (\<exists>c s. la_try_acquire memory_lock c key ttl s = (Inl e, lr_get rt w'))
     | Inr h \<Rightarrow> (\<exists>c s. la_try_acquire memory_lock c key ttl s = (Inr (Some h), lr_get rt w'))"
    using acquire_loop_returns [OF assms, of 0 d "\<lambda>now. d - now" "snd (lr_now rt w)" memory_lock key ttl] by auto
  have nofail: "fst (la_try_acquire memory_lock c key ttl s) \<noteq> Inl (Fail e)" for c s e
    by (auto simp: memory_lock_def mem_try_acquire_def Let_def split: option.splits)
  have "r = Inl (Fail e) \<Longrightarrow> ae_code e = LockAcquireFailed \<and> d \<le> clk w'" for e
    using post nofail by (auto simp: prod_eq_iff)
  moreover have "r = Inr h \<Longrightarrow> \<exists>c s. mem_try_acquire c key ttl s = (Ok (Some h), lr_get rt w') \<and>
        mem_holder s (ctx_now c) key = None \<and> lh_key h = key" for h
    using post mem.acquire_free by (fastforce simp: memory_lock_def)
  moreover have "mem_acquire rt key ttl wait w = Some (r, w')"
    using Some rw by (simp add: mem_acquire_def case_prod_beta)
  ultimately show ?thesis using d by blast
qed

theorem memory_acquire_returns_witness:
  "\<exists>r w'. mem_acquire \<lparr>lr_ctx = \<lambda>(t, s). (\<lparr>ctx_now = t, ctx_uuid = ''u'', ctx_wall_ms = 0\<rparr>, (t, s)),
     lr_now = \<lambda>(t, s). (t, (t, s)), lr_wait = \<lambda>d (t, s). (t + d, s), lr_get = snd, lr_put = \<lambda>s (t, _). (t, s)\<rparr>
     ''job'' 5 1 (0, [''job'' \<mapsto> \<lparr>le_token = ''x'', le_expires_at = 99\<rparr>]) = Some (r, w')"
  (is "\<exists>r w'. mem_acquire ?rt _ _ _ _ = _")
proof -
  have "clock_runs ?rt fst" by (auto simp: clock_runs_def)
  from memory_acquire_returns [OF this] show ?thesis by blast
qed

section \<open>Limits\<close>

text \<open>\<open>release\<close> of the in-memory lock reports success for a lock whose time to live has passed.\<close>

lemma expired_lock_released:
  "mem_holder [''job'' \<mapsto> \<lparr>le_token = ''a'', le_expires_at = 10\<rparr>] 20 ''job'' = None \<and>
   fst (mem_release 20 \<lparr>lh_key = ''job'', lh_token = ''a'', lh_acquired_at_ms = 0\<rparr>
     [''job'' \<mapsto> \<lparr>le_token = ''a'', le_expires_at = 10\<rparr>]) = Ok True"
  by (simp add: mem_holder_def mem_release_def)

text \<open>The conversion \<open>ttl_secs * 1000\<close> of the Redis lock wraps: this time to live of 584 million
  years becomes 384 milliseconds.\<close>

lemma redis_ttl_wraps: "(18446744073709552 :: u64) * 1000 = 384"
  by simp

end
