(* ===== verification/Timer.thy ===== *)
theory Timer
  imports Lock
begin

text \<open>
  The timer: the data of \<open>rinfra-core/src/timer/mod.rs\<close> and the engine of
  \<open>rinfra-plugins/src/timer/simple.rs\<close>. One iteration of the loop that \<open>spawn_timer_loop\<close> spawns is
  \<open>timer_step\<close>, a function on the world \<open>'w\<close> of the node it runs on, which reaches the lock only
  through the operations of the trait; the loop itself is \<open>timer_loop\<close>. The engine's map of
  tasks and the loops the async runtime keeps alive are \<open>timer_engine\<close>. Parsing a cron expression is
  a parameter: \<open>cron e\<close> is an error text or the function from a time to the next fire time.
  Wall clock times and durations are in nanoseconds.
\<close>

section \<open>Data\<close>

datatype timer_schedule =
    Cron string
  | Interval u64
  | Delay u64
  | Once u64

datatype timer_scope = Node | Cluster

definition timer_scope_default :: timer_scope where
  "timer_scope_default = Node"

record timer_task =
  tt_id :: string
  tt_name :: string
  tt_schedule :: timer_schedule
  tt_scope :: timer_scope
  tt_lock_ttl_secs :: "u64 option"
  tt_payload :: bytes

definition timer_task_new :: "string \<Rightarrow> string \<Rightarrow> timer_schedule \<Rightarrow> bytes \<Rightarrow> timer_task" where
  "timer_task_new uuid n sched pl =
     \<lparr>tt_id = uuid, tt_name = n, tt_schedule = sched, tt_scope = timer_scope_default,
      tt_lock_ttl_secs = None, tt_payload = pl\<rparr>"

definition timer_task_scope :: "timer_scope \<Rightarrow> timer_task \<Rightarrow> timer_task" where
  "timer_task_scope sc t = t\<lparr>tt_scope := sc\<rparr>"

definition timer_task_lock_ttl :: "u64 \<Rightarrow> timer_task \<Rightarrow> timer_task" where
  "timer_task_lock_ttl secs t = t\<lparr>tt_lock_ttl_secs := Some secs\<rparr>"

definition effective_lock_ttl :: "timer_task \<Rightarrow> u64" where
  "effective_lock_ttl t = (case tt_lock_ttl_secs t of Some s \<Rightarrow> s | None \<Rightarrow> 300)"

datatype timer_task_status = Scheduled | Running | Completed | Failed | Cancelled

record task_state =
  ts_status :: timer_task_status
  ts_last_run :: "u64 option"
  ts_next_run :: "u64 option"
  ts_run_count :: u64

record timer_task_info =
  ti_id :: string
  ti_name :: string
  ti_schedule :: timer_schedule
  ti_scope :: timer_scope
  ti_status :: timer_task_status
  ti_last_run :: "u64 option"
  ti_next_run :: "u64 option"
  ti_run_count :: u64

section \<open>Fire times\<close>

type_synonym cron_parser = "string \<Rightarrow> string + (nat \<Rightarrow> nat option)"

definition wall_ms :: "nat \<Rightarrow> u64" where
  "wall_ms wall = of_nat (wall div nanos_per_milli)"

definition as_millis :: "nat \<Rightarrow> u64" where
  "as_millis d = of_nat (d div nanos_per_milli)"

text \<open>The two times are the reading inside \<open>upcoming(Utc)\<close> (or \<open>now_ms\<close>) and the one after it.\<close>

definition compute_next_fire :: "cron_parser \<Rightarrow> nat \<Rightarrow> nat \<Rightarrow> timer_schedule \<Rightarrow> nat option res" where
  "compute_next_fire cron wall1 wall2 sched =
     (case sched of
        Cron expr \<Rightarrow>
          (case cron expr of
             Inl e \<Rightarrow> Err TimerInvalidSchedule (''invalid cron expression '' @ quoted expr @ '': '' @ e)
           | Inr upcoming \<Rightarrow>
               (case upcoming wall1 of
                  None \<Rightarrow> Err TimerInvalidSchedule (''cron expression '' @ quoted expr @ '' has no upcoming fire time'')
                | Some next_at \<Rightarrow>
                    Ok (Some (if wall2 \<le> next_at then next_at - wall2 else 100 * nanos_per_milli))))
      | Interval secs \<Rightarrow> Ok (Some (unat secs * nanos_per_sec))
      | Delay secs \<Rightarrow> Ok (Some (unat secs * nanos_per_sec))
      | Once at_unix_ms \<Rightarrow>
          (let now = wall_ms wall1
           in if at_unix_ms \<le> now then Ok (Some 0)
              else Ok (Some (unat (at_unix_ms - now) * nanos_per_milli))))"

section \<open>The loop of a task\<close>

text \<open>What the loop does to its node besides the lock: read the wall clock, sleep, take and give back
  a permit of the semaphore (\<open>None\<close> when it is closed).\<close>

record ('s, 'w) timer_env =
  te_lock :: "('s, 'w) lock_runtime"
  te_wall :: "'w \<Rightarrow> nat \<times> 'w"
  te_sleep :: "nat \<Rightarrow> 'w \<Rightarrow> 'w"
  te_acquire :: "'w \<Rightarrow> bool \<times> 'w"
  te_drop_permit :: "'w \<Rightarrow> 'w"

primrec recurring :: "timer_schedule \<Rightarrow> bool" where
  "recurring (Cron e) = True"
| "recurring (Interval s) = True"
| "recurring (Delay s) = False"
| "recurring (Once t) = False"

definition timer_lock_key :: "timer_task \<Rightarrow> string" where
  "timer_lock_key t = ''timer:'' @ tt_id t"

datatype lock_outcome = Unlocked | Held lock_handle | Skip | LockPanic string

definition timer_take_lock ::
  "('s, 'w) timer_env \<Rightarrow> 's lock_api option \<Rightarrow> timer_task \<Rightarrow> 'w \<Rightarrow> lock_outcome \<times> 'w" where
  "timer_take_lock env lk task w =
     (case lk of
        None \<Rightarrow> (Unlocked, w)
      | Some dlock \<Rightarrow>
          if tt_scope task = Cluster then
            (let (c, w1) = lr_ctx (te_lock env) w;
                 (r, s) = la_try_acquire dlock c (timer_lock_key task) (effective_lock_ttl task) (lr_get (te_lock env) w1);
                 w2 = lr_put (te_lock env) s w1
             in case r of
                  Inr (Some h) \<Rightarrow> (Held h, w2)
                | Inr None \<Rightarrow> (Skip, w2)
                | Inl (Fail e) \<Rightarrow> (Unlocked, w2)
                | Inl (Panic m) \<Rightarrow> (LockPanic m, w2))
          else (Unlocked, w))"

text \<open>A panic inside \<open>release\<close> unwinds the loop; an error is only logged.\<close>

definition timer_release_lock ::
  "('s, 'w) timer_env \<Rightarrow> 's lock_api option \<Rightarrow> lock_outcome \<Rightarrow> 'w \<Rightarrow> string option \<times> 'w" where
  "timer_release_lock env lk outcome w =
     (case (lk, outcome) of
        (Some dlock, Held h) \<Rightarrow>
          (let (t, w1) = lr_now (te_lock env) w;
               (r, s) = la_release dlock t h (lr_get (te_lock env) w1)
           in ((case r of Inl (Panic m) \<Rightarrow> Some m | _ \<Rightarrow> None), lr_put (te_lock env) s w1))
      | _ \<Rightarrow> (None, w))"

definition after_run :: "bool \<Rightarrow> u64 \<Rightarrow> bool \<Rightarrow> task_state \<Rightarrow> task_state" where
  "after_run rec now ok st =
     st\<lparr>ts_run_count := ts_run_count st + 1, ts_last_run := Some now,
        ts_status := (if rec then Scheduled else if ok then Completed else Failed)\<rparr>"

text \<open>One iteration: whether the loop goes on, whether the handler ran, the task's state, the world.\<close>

definition timer_step ::
  "('s, 'w) timer_env \<Rightarrow> 's lock_api option \<Rightarrow> cron_parser \<Rightarrow> timer_task \<Rightarrow>
     (timer_task \<Rightarrow> 'w \<Rightarrow> unit res \<times> 'w) \<Rightarrow> task_state \<Rightarrow> 'w \<Rightarrow> (bool \<times> bool) \<times> task_state \<times> 'w" where
  "timer_step env lk cron task handler st w =
     (let (wall1, w1) = te_wall env w; (wall2, w2) = te_wall env w1
      in case compute_next_fire cron wall1 wall2 (tt_schedule task) of
           Inl e \<Rightarrow> ((False, False), st\<lparr>ts_status := Failed\<rparr>, w2)
         | Inr None \<Rightarrow> ((False, False), st, w2)
         | Inr (Some delay) \<Rightarrow>
             (let (wall3, w3) = te_wall env w2;
                  st1 = st\<lparr>ts_next_run := Some (wall_ms wall3 + as_millis delay), ts_status := Scheduled\<rparr>;
                  w4 = te_sleep env delay w3;
                  (permit, w5) = te_acquire env w4
              in if \<not> permit then ((False, False), st1, w5)
                 else
                   (let (outcome, w6) = timer_take_lock env lk task w5
                    in case outcome of
                         Skip \<Rightarrow> ((recurring (tt_schedule task), False), st1, te_drop_permit env w6)
                       | LockPanic m \<Rightarrow> ((False, False), st1, te_drop_permit env w6)
                       | _ \<Rightarrow>
                           (let st2 = st1\<lparr>ts_status := Running\<rparr>
                            in case handler task w6 of
                                 (Inl (Panic m), w7) \<Rightarrow> ((False, True), st2, te_drop_permit env w7)
                               | (r, w7) \<Rightarrow>
                                   (case timer_release_lock env lk outcome w7 of
                                      (Some m, w8) \<Rightarrow> ((False, True), st2, te_drop_permit env w8)
                                    | (None, w8) \<Rightarrow>
                                        (let (wall4, w9) = te_wall env w8
                                         in ((recurring (tt_schedule task), True),
                                             after_run (recurring (tt_schedule task)) (wall_ms wall4) (case r of Inr _ \<Rightarrow> True | Inl _ \<Rightarrow> False) st2,
                                             te_drop_permit env w9)))))))"

text \<open>The first \<open>n\<close> iterations: how often the handler ran, and whether the loop is still going.\<close>

primrec timer_loop ::
  "nat \<Rightarrow> ('s, 'w) timer_env \<Rightarrow> 's lock_api option \<Rightarrow> cron_parser \<Rightarrow> timer_task \<Rightarrow>
     (timer_task \<Rightarrow> 'w \<Rightarrow> unit res \<times> 'w) \<Rightarrow> task_state \<Rightarrow> 'w \<Rightarrow> (bool \<times> nat) \<times> task_state \<times> 'w" where
  "timer_loop 0 env lk cron task handler st w = ((True, 0), st, w)"
| "timer_loop (Suc n) env lk cron task handler st w =
     (let ((go, fired), st', w') = timer_step env lk cron task handler st w
      in if go then
           (let ((go', k), st'', w'') = timer_loop n env lk cron task handler st' w'
            in ((go', (if fired then Suc k else k)), st'', w''))
         else ((False, if fired then 1 else 0), st', w'))"

section \<open>The engine\<close>

text \<open>A spawned loop is known by a number; \<open>tn_live\<close> are the loops the async runtime still runs, and
  \<open>tn_state\<close> holds the state each shares with the engine's entry.\<close>

record task_entry =
  en_task :: timer_task
  en_loop :: nat

record timer_engine =
  tn_tasks :: "(string, task_entry) hashmap"
  tn_max_concurrent :: nat
  tn_has_lock :: bool
  tn_next :: nat
  tn_live :: "nat list"
  tn_state :: "nat \<Rightarrow> task_state"

definition initial_task_state :: task_state where
  "initial_task_state = \<lparr>ts_status = Scheduled, ts_last_run = None, ts_next_run = None, ts_run_count = 0\<rparr>"

definition timer_engine_new :: "nat \<Rightarrow> timer_engine" where
  "timer_engine_new max_concurrent =
     \<lparr>tn_tasks = [], tn_max_concurrent = max_concurrent, tn_has_lock = False, tn_next = 0, tn_live = [],
      tn_state = (\<lambda>_. initial_task_state)\<rparr>"

definition timer_with_lock :: "timer_engine \<Rightarrow> timer_engine" where
  "timer_with_lock e = e\<lparr>tn_has_lock := True\<rparr>"

definition timer_schedule_task ::
  "cron_parser \<Rightarrow> nat \<Rightarrow> nat \<Rightarrow> nat \<Rightarrow> timer_task \<Rightarrow> timer_engine \<Rightarrow> unit res \<times> timer_engine" where
  "timer_schedule_task cron wall1 wall2 wall3 task e =
     (case compute_next_fire cron wall1 wall2 (tt_schedule task) of
        Inl err \<Rightarrow> (Inl err, e)
      | Inr initial_next \<Rightarrow>
          (let st = initial_task_state\<lparr>ts_next_run := map_option (\<lambda>d. wall_ms wall3 + as_millis d) initial_next\<rparr>;
               n = tn_next e
           in (Ok (),
               e\<lparr>tn_next := Suc n, tn_live := n # tn_live e, tn_state := (tn_state e)(n := st),
                 tn_tasks := hm_insert (tt_id task) \<lparr>en_task = task, en_loop = n\<rparr> (tn_tasks e)\<rparr>)))"

definition abort_loop :: "nat \<Rightarrow> timer_engine \<Rightarrow> timer_engine" where
  "abort_loop n e = e\<lparr>tn_live := filter (\<lambda>m. m \<noteq> n) (tn_live e)\<rparr>"

definition timer_cancel :: "string \<Rightarrow> timer_engine \<Rightarrow> bool res \<times> timer_engine" where
  "timer_cancel task_id e =
     (case hm_get (tn_tasks e) task_id of
        Some entry \<Rightarrow>
          (let e1 = abort_loop (en_loop entry) (e\<lparr>tn_tasks := hm_remove task_id (tn_tasks e)\<rparr>);
               st = tn_state e1 (en_loop entry)
           in (Ok True, e1\<lparr>tn_state := (tn_state e1)(en_loop entry := st\<lparr>ts_status := Cancelled\<rparr>)\<rparr>))
      | None \<Rightarrow> (Ok False, e))"

definition task_info :: "timer_task \<Rightarrow> task_state \<Rightarrow> timer_task_info" where
  "task_info t st =
     \<lparr>ti_id = tt_id t, ti_name = tt_name t, ti_schedule = tt_schedule t, ti_scope = tt_scope t,
      ti_status = ts_status st, ti_last_run = ts_last_run st, ti_next_run = ts_next_run st,
      ti_run_count = ts_run_count st\<rparr>"

definition timer_list_tasks :: "timer_engine \<Rightarrow> timer_task_info list" where
  "timer_list_tasks e = map (\<lambda>en. task_info (en_task en) (tn_state e (en_loop en))) (hm_values (tn_tasks e))"

definition timer_shutdown :: "timer_engine \<Rightarrow> unit res \<times> timer_engine" where
  "timer_shutdown e =
     (Ok (), (fold (\<lambda>en. abort_loop (en_loop en)) (hm_values (tn_tasks e)) e)\<lparr>tn_tasks := []\<rparr>)"

section \<open>Lemmas on the loop\<close>

lemma one_shot_stops: "\<not> recurring (tt_schedule task) \<Longrightarrow> \<not> fst (fst (timer_step env lk cron task handler st w))"
  by (auto simp: timer_step_def Let_def split: prod.splits sum.splits option.splits lock_outcome.splits fault.splits)

text \<open>Facts about the lock that hold for every implementation of the contract.\<close>

context distributed_lock
begin

lemma busy_not_held:
  assumes "tt_scope task = Cluster" "lr_ctx (te_lock env) w = (c, w1)"
    "holder (lr_get (te_lock env) w1) (ctx_now c) (timer_lock_key task) \<noteq> None"
  shows "fst (timer_take_lock env (Some L) task w) \<noteq> Held h"
proof
  assume "fst (timer_take_lock env (Some L) task w) = Held h"
  then obtain s where "la_try_acquire L c (timer_lock_key task) (effective_lock_ttl task) (lr_get (te_lock env) w1) = (Inr (Some h), s)"
    using assms(1,2) by (auto simp: timer_take_lock_def Let_def split: prod.splits sum.splits option.splits fault.splits)
  from acquire_free [OF this] assms(3) show False by simp
qed

text \<open>While a grant of the task's lock is in force and its holder has not given it back, another attempt
  skips, unless it fails with an error: then the task runs without the lock.\<close>

lemma granted_excludes:
  assumes scope: "tt_scope task = Cluster" and ttl: "ttl_ok (effective_lock_ttl task)"
    and A: "timer_take_lock envA (Some L) task wA = (Held h, wA')" "lr_ctx (te_lock envA) wA = (cA, wA1)"
    and put: "\<And>s w. lr_get (te_lock envA) (lr_put (te_lock envA) s w) = s"
    and ops: "sorted (ctx_now cA # map lock_op_time ops)"
      "\<forall>op\<in>set ops. lock_op_time op < add_secs (ctx_now cA) (effective_lock_ttl task) \<and>
        \<not> presents (timer_lock_key task) (lh_token h) op"
    and B: "lr_ctx (te_lock envB) wB = (cB, wB1)"
      "snd (lock_run L ops (lr_get (te_lock envA) wA')) = lr_get (te_lock envB) wB1"
    and times: "\<forall>op\<in>set ops. lock_op_time op \<le> ctx_now cB" "ctx_now cA \<le> ctx_now cB"
      "ctx_now cB < add_secs (ctx_now cA) (effective_lock_ttl task)"
  shows "fst (timer_take_lock envB (Some L) task wB) = Skip \<or>
    (\<exists>e. fst (la_try_acquire L cB (timer_lock_key task) (effective_lock_ttl task) (lr_get (te_lock envB) wB1)) = Inl e)"
proof -
  let ?k = "timer_lock_key task" and ?ttl = "effective_lock_ttl task"
  obtain sA where acq: "la_try_acquire L cA ?k ?ttl (lr_get (te_lock envA) wA1) = (Inr (Some h), sA)"
    and wA': "lr_get (te_lock envA) wA' = sA"
    using A scope put by (auto simp: timer_take_lock_def Let_def split: prod.splits sum.splits option.splits fault.splits)
  have held: "holder (lr_get (te_lock envB) wB1) (ctx_now cB) ?k = Some (lh_token h)"
    using exclusive [OF acq ttl ops surjective_pairing times] B(2) wA' by simp
  obtain r s where try_lock: "la_try_acquire L cB ?k ?ttl (lr_get (te_lock envB) wB1) = (r, s)" by force
  have "r \<noteq> Inr (Some g)" for g using acquire_free [of cB ?k ?ttl _ g s] try_lock held by auto
  then have "r = Inr None \<or> (\<exists>e. r = Inl e)" by (cases r) auto
  then show ?thesis using B(1) scope try_lock by (auto simp: timer_take_lock_def Let_def)
qed

lemma held_is_own:
  assumes "tt_scope task = Cluster" "fst (timer_take_lock env (Some L) task w) = Held h"
  shows "lh_key h = timer_lock_key task \<and>
    holder (lr_get (te_lock env) (snd (lr_ctx (te_lock env) w))) (ctx_now (fst (lr_ctx (te_lock env) w))) (timer_lock_key task) = None"
proof -
  obtain s where "la_try_acquire L (fst (lr_ctx (te_lock env) w)) (timer_lock_key task) (effective_lock_ttl task)
      (lr_get (te_lock env) (snd (lr_ctx (te_lock env) w))) = (Inr (Some h), s)"
    using assms by (auto simp: timer_take_lock_def Let_def split: prod.splits sum.splits option.splits fault.splits)
  from acquire_free [OF this] show ?thesis by simp
qed

end

definition busy_for :: "(memory_locks, 'w) timer_env \<Rightarrow> timer_task \<Rightarrow> 'w \<Rightarrow> bool" where
  "busy_for env task w \<longleftrightarrow>
     mem_holder (lr_get (te_lock env) (snd (lr_ctx (te_lock env) w)))
       (ctx_now (fst (lr_ctx (te_lock env) w))) (timer_lock_key task) \<noteq> None"

lemma mem_busy_skips:
  assumes "tt_scope task = Cluster" "busy_for env task w"
  shows "fst (timer_take_lock env (Some memory_lock) task w) = Skip"
  using assms
  by (auto simp: timer_take_lock_def busy_for_def mem_holder_def memory_lock_def mem_try_acquire_def Let_def
      not_le split: prod.splits option.splits if_splits)

lemma busy_step:
  assumes "tt_scope task = Cluster" "\<And>v. busy_for env task v"
    "timer_step env (Some memory_lock) cron task handler st w = ((go, fired), st', w')"
  shows "\<not> fired \<and> ts_run_count st' = ts_run_count st \<and> ts_status st' \<noteq> Running"
proof -
  have skip: "fst (timer_take_lock env (Some memory_lock) task v) = Skip" for v
    using mem_busy_skips [OF assms(1,2)] .
  have "fst (timer_take_lock env (Some memory_lock) task v) = Skip \<Longrightarrow>
    \<exists>v'. timer_take_lock env (Some memory_lock) task v = (Skip, v')" for v
    by (metis surjective_pairing)
  with skip have "\<exists>v'. timer_take_lock env (Some memory_lock) task v = (Skip, v')" for v by blast
  then obtain f where f: "\<And>v. timer_take_lock env (Some memory_lock) task v = (Skip, f v)" by metis
  have "compute_next_fire cron a b sc \<noteq> Inr None" for a b sc
    by (auto simp: compute_next_fire_def Let_def split: timer_schedule.splits sum.splits option.splits)
  with assms(3) f show ?thesis
    by (auto simp: timer_step_def Let_def split: prod.splits sum.splits option.splits if_splits)
qed

text \<open>The world in which an iteration tries the lock, when it gets that far.\<close>

definition before_lock :: "('s, 'w) timer_env \<Rightarrow> cron_parser \<Rightarrow> timer_task \<Rightarrow> 'w \<Rightarrow> 'w option" where
  "before_lock env cron task w =
     (let (wall1, w1) = te_wall env w; (wall2, w2) = te_wall env w1
      in case compute_next_fire cron wall1 wall2 (tt_schedule task) of
           Inr (Some delay) \<Rightarrow>
             (let (wall3, w3) = te_wall env w2; (permit, w5) = te_acquire env (te_sleep env delay w3)
              in if permit then Some w5 else None)
         | _ \<Rightarrow> None)"

lemma skip_does_not_run:
  assumes "before_lock env cron task w = Some wl" and "fst (timer_take_lock env lk task wl) = Skip"
  shows "\<not> snd (fst (timer_step env lk cron task handler st w)) \<and>
    ts_run_count (fst (snd (timer_step env lk cron task handler st w))) = ts_run_count st"
proof -
  obtain wl' where "timer_take_lock env lk task wl = (Skip, wl')" using assms(2) by (metis prod.collapse)
  with assms(1) show ?thesis
    by (auto simp: before_lock_def timer_step_def Let_def split: prod.splits sum.splits option.splits if_splits)
qed

section \<open>Lemmas on the engine\<close>

datatype timer_op =
    ScheduleOp nat nat nat timer_task
  | CancelOp string
  | LoopEnds nat task_state

text \<open>\<open>LoopEnds n st\<close>: the loop \<open>n\<close> leaves its last state and ends by itself.\<close>

primrec timer_apply :: "cron_parser \<Rightarrow> timer_op \<Rightarrow> timer_engine \<Rightarrow> timer_engine" where
  "timer_apply cron (ScheduleOp a b c task) e = snd (timer_schedule_task cron a b c task e)"
| "timer_apply cron (CancelOp tid) e = snd (timer_cancel tid e)"
| "timer_apply cron (LoopEnds n st) e = (abort_loop n e)\<lparr>tn_state := (tn_state e)(n := st)\<rparr>"

text \<open>Runs in which no task is scheduled under the id of a registered one.\<close>

inductive timer_run :: "cron_parser \<Rightarrow> nat \<Rightarrow> timer_engine \<Rightarrow> bool" for cron max_concurrent where
  timer_start: "timer_run cron max_concurrent (timer_engine_new max_concurrent)"
| timer_sched: "timer_run cron max_concurrent e \<Longrightarrow> hm_get (tn_tasks e) (tt_id task) = None \<Longrightarrow>
    timer_run cron max_concurrent (timer_apply cron (ScheduleOp a b c task) e)"
| timer_canc: "timer_run cron max_concurrent e \<Longrightarrow> timer_run cron max_concurrent (timer_apply cron (CancelOp tid) e)"
| timer_ends: "timer_run cron max_concurrent e \<Longrightarrow> timer_run cron max_concurrent (timer_apply cron (LoopEnds n st) e)"

definition engine_inv :: "timer_engine \<Rightarrow> bool" where
  "engine_inv e \<longleftrightarrow>
     hm_ok (tn_tasks e) \<and>
     (\<forall>tid en. hm_get (tn_tasks e) tid = Some en \<longrightarrow> tt_id (en_task en) = tid \<and> en_loop en < tn_next e) \<and>
     (\<forall>tid tid' en en'. hm_get (tn_tasks e) tid = Some en \<longrightarrow> hm_get (tn_tasks e) tid' = Some en' \<longrightarrow>
        en_loop en = en_loop en' \<longrightarrow> tid = tid') \<and>
     (\<forall>n \<in> set (tn_live e). \<exists>tid en. hm_get (tn_tasks e) tid = Some en \<and> en_loop en = n)"

lemma set_hm_values: "hm_ok m \<Longrightarrow> v \<in> set (hm_values m) \<longleftrightarrow> (\<exists>k. hm_get m k = Some v)"
  by (force simp: hm_values_def hm_get_iff)

lemma engine_inv_new: "engine_inv (timer_engine_new n)"
  by (simp add: engine_inv_def timer_engine_new_def)

lemma engine_inv_add:
  assumes inv: "engine_inv e" and fresh: "hm_get (tn_tasks e) tid = None" and tid: "tt_id (en_task en) = tid"
    and n: "en_loop en = tn_next e"
  shows "engine_inv (e\<lparr>tn_next := Suc (tn_next e), tn_live := tn_next e # tn_live e, tn_state := st,
    tn_tasks := hm_insert tid en (tn_tasks e)\<rparr>)"
proof -
  have lt: "en_loop x < tn_next e" if "hm_get (tn_tasks e) k = Some x" for k x
    using inv that by (auto simp: engine_inv_def)
  have live: "\<exists>k x. hm_get (hm_insert tid en (tn_tasks e)) k = Some x \<and> en_loop x = m"
    if "m \<in> set (tn_next e # tn_live e)" for m
  proof (cases "m = tn_next e")
    case True
    then show ?thesis using n by (intro exI [of _ tid] exI [of _ en]) simp
  next
    case False
    then obtain k x where "hm_get (tn_tasks e) k = Some x" "en_loop x = m"
      using inv \<open>m \<in> set (tn_next e # tn_live e)\<close> by (auto simp: engine_inv_def)
    with fresh show ?thesis by (intro exI [of _ k] exI [of _ x]) auto
  qed
  have "k = k'" if "hm_get (hm_insert tid en (tn_tasks e)) k = Some x"
      "hm_get (hm_insert tid en (tn_tasks e)) k' = Some x'" "en_loop x = en_loop x'" for k k' x x'
    using that inv n by (auto simp: engine_inv_def split: if_splits dest: lt)
  moreover have "tt_id (en_task x) = k \<and> en_loop x < Suc (tn_next e)"
    if "hm_get (hm_insert tid en (tn_tasks e)) k = Some x" for k x
    using that inv n tid by (auto simp: engine_inv_def less_Suc_eq split: if_splits)
  moreover have "hm_ok (hm_insert tid en (tn_tasks e))" using inv by (simp add: engine_inv_def)
  ultimately show ?thesis using live unfolding engine_inv_def by (simp del: hm_get_insert)
qed

lemma engine_inv_schedule:
  "engine_inv e \<Longrightarrow> hm_get (tn_tasks e) (tt_id task) = None \<Longrightarrow> engine_inv (timer_apply cron (ScheduleOp a b c task) e)"
  by (auto simp: timer_schedule_task_def Let_def engine_inv_add split: sum.splits)

lemma engine_inv_cancel:
  assumes inv: "engine_inv e"
  shows "engine_inv (timer_apply cron (CancelOp tid) e)"
proof (cases "hm_get (tn_tasks e) tid")
  case None
  with inv show ?thesis by (simp add: timer_cancel_def)
next
  case (Some en)
  have "\<exists>t' e'. t' \<noteq> tid \<and> hm_get (tn_tasks e) t' = Some e' \<and> en_loop e' = n"
    if "n \<in> set (tn_live e)" "n \<noteq> en_loop en" for n
  proof -
    obtain t' e' where "hm_get (tn_tasks e) t' = Some e'" "en_loop e' = n"
      using inv \<open>n \<in> set (tn_live e)\<close> by (auto simp: engine_inv_def)
    with Some \<open>n \<noteq> en_loop en\<close> show ?thesis by (cases "t' = tid") auto
  qed
  with inv Some show ?thesis
    by (simp add: engine_inv_def timer_cancel_def abort_loop_def Let_def) blast
qed

lemma engine_inv_ends: "engine_inv e \<Longrightarrow> engine_inv (timer_apply cron (LoopEnds n st) e)"
  unfolding engine_inv_def by (auto simp: abort_loop_def)

lemma timer_run_inv: "timer_run cron m e \<Longrightarrow> engine_inv e"
  by (induction rule: timer_run.induct)
    (auto intro: engine_inv_new engine_inv_schedule engine_inv_cancel engine_inv_ends simp del: timer_apply.simps)

lemma fold_abort_live:
  "tn_live (fold (\<lambda>en. abort_loop (en_loop en)) ens e) = filter (\<lambda>n. n \<notin> en_loop ` set ens) (tn_live e)"
  by (induction ens arbitrary: e) (auto simp: abort_loop_def intro: filter_cong)

section \<open>Properties\<close>

text \<open>
  A one-shot task (a delay or a fixed time) fires at most once: whatever the lock, the
  clock, the handler and the number of iterations allowed, its loop is over after the first
  iteration and its handler has run at most once.
\<close>

theorem one_shot_runs_once:
  assumes "\<not> recurring (tt_schedule task)" "0 < n"
  shows "\<not> fst (fst (timer_loop n env lk cron task handler st w)) \<and>
    snd (fst (timer_loop n env lk cron task handler st w)) \<le> 1"
proof -
  obtain m where n: "n = Suc m" using assms(2) by (cases n) auto
  have "\<not> fst (fst (timer_step env lk cron task handler st w))" by (rule one_shot_stops [OF assms(1)])
  then show ?thesis by (simp add: n case_prod_beta)
qed

theorem one_shot_runs_once_witness:
  "\<not> recurring (tt_schedule (timer_task_new ''id'' ''n'' (Delay 5) [])) \<and>
   (let r = timer_loop 3 \<lparr>te_lock = \<lparr>lr_ctx = \<lambda>w. (\<lparr>ctx_now = 0, ctx_uuid = [], ctx_wall_ms = 0\<rparr>, w),
      lr_now = \<lambda>w. (0, w), lr_wait = \<lambda>_ w. w, lr_get = \<lambda>_. (), lr_put = \<lambda>_ w. w\<rparr>, te_wall = \<lambda>w. (0, w), te_sleep = \<lambda>_ w. w,
      te_acquire = \<lambda>w. (True, w), te_drop_permit = \<lambda>w. w\<rparr> None
      (\<lambda>_. Inl ''no cron'') (timer_task_new ''id'' ''n'' (Delay 5) []) (\<lambda>_ w. (Ok (), Suc w)) initial_task_state (0 :: nat)
    in \<not> fst (fst r) \<and> snd (fst r) \<le> 1)"
proof -
  have "\<not> recurring (tt_schedule (timer_task_new ''id'' ''n'' (Delay 5) []))" by (simp add: timer_task_new_def)
  from conjI [OF this one_shot_runs_once [OF this zero_less_numeral]] show ?thesis unfolding Let_def by this
qed

text \<open>
  A cluster task does not run on a node while another holder has its lock. If the
  in-memory lock for the task's key is held each time the node tries it, then after any number
  of iterations the handler has not run and the run counter has not moved.
\<close>

theorem cluster_task_excluded:
  assumes "tt_scope task = Cluster" "\<And>v. busy_for env task v"
  shows "snd (fst (timer_loop n env (Some memory_lock) cron task handler st w)) = 0 \<and>
    ts_run_count (fst (snd (timer_loop n env (Some memory_lock) cron task handler st w))) = ts_run_count st"
proof (induction n arbitrary: st w)
  case 0
  then show ?case by simp
next
  case (Suc n)
  obtain go fired st' w' where st: "timer_step env (Some memory_lock) cron task handler st w = ((go, fired), st', w')"
    by (metis surjective_pairing)
  from busy_step [OF assms st] Suc [of st' w'] st show ?case by (simp add: case_prod_beta)
qed

theorem cluster_task_excluded_witness:
  "snd (fst (timer_loop 100 \<lparr>te_lock = \<lparr>lr_ctx = \<lambda>w. (\<lparr>ctx_now = 5, ctx_uuid = ''u'', ctx_wall_ms = 0\<rparr>, w),
       lr_now = \<lambda>w. (5, w), lr_wait = \<lambda>_ w. w,
       lr_get = \<lambda>_. [''timer:id'' \<mapsto> \<lparr>le_token = ''other'', le_expires_at = 9\<rparr>], lr_put = \<lambda>_ w. w\<rparr>,
     te_wall = \<lambda>w. (0, w), te_sleep = \<lambda>_ w. w, te_acquire = \<lambda>w. (True, w), te_drop_permit = \<lambda>w. w\<rparr>
     (Some memory_lock) (\<lambda>_. Inl ''no cron'') (timer_task_scope Cluster (timer_task_new ''id'' ''n'' (Interval 5) []))
     (\<lambda>_ w. (Ok (), w)) initial_task_state ())) = 0"
  (is "snd (fst (timer_loop 100 ?env _ ?cron ?task ?handler _ _)) = 0")
proof -
  have "tt_scope ?task = Cluster" by (simp add: timer_task_scope_def)
  moreover have "busy_for ?env ?task v" for v
    by (simp add: busy_for_def mem_holder_def timer_lock_key_def timer_task_scope_def timer_task_new_def)
  ultimately show ?thesis using cluster_task_excluded [of ?task ?env 100] by blast
qed

text \<open>
  C16: A cluster task runs on one node at a time. Once a node has the task's lock on Redis, then until the
  lock's time to live is over or the node gives the lock back, an iteration of the task's loop on
  any other node does not run the handler, whatever other clients do with locks meanwhile and
  whatever requests and replies are lost, unless its own attempt at the lock fails with an error.
\<close>

theorem cluster_task_on_one_node:
  assumes "redis_ok R val" and "tt_scope task = Cluster" and "ttl_fits (effective_lock_ttl task)"
    and "timer_take_lock envA (Some (redis_lock_api R)) task wA = (Held h, wA')"
    and "lr_ctx (te_lock envA) wA = (cA, wA1)"
    and "\<And>s w. lr_get (te_lock envA) (lr_put (te_lock envA) s w) = s"
    and "sorted (ctx_now cA # map lock_op_time ops)"
    and "\<forall>op\<in>set ops. lock_op_time op < add_secs (ctx_now cA) (effective_lock_ttl task) \<and>
        \<not> presents (timer_lock_key task) (lh_token h) op"
    and "before_lock envB cron task w = Some wB" and "lr_ctx (te_lock envB) wB = (cB, wB1)"
    and "snd (lock_run (redis_lock_api R) ops (lr_get (te_lock envA) wA')) = lr_get (te_lock envB) wB1"
    and "\<forall>op\<in>set ops. lock_op_time op \<le> ctx_now cB" and "ctx_now cA \<le> ctx_now cB"
    and "ctx_now cB < add_secs (ctx_now cA) (effective_lock_ttl task)"
    and "\<forall>e. fst (redis_try_acquire R cB (timer_lock_key task) (effective_lock_ttl task) (lr_get (te_lock envB) wB1)) \<noteq> Inl e"
  shows "\<not> snd (fst (timer_step envB (Some (redis_lock_api R)) cron task handler st w)) \<and>
    ts_run_count (fst (snd (timer_step envB (Some (redis_lock_api R)) cron task handler st w))) = ts_run_count st"
proof -
  have "fst (timer_take_lock envB (Some (redis_lock_api R)) task wB) = Skip"
    using distributed_lock.granted_excludes [OF redis_contract [OF assms(1)] assms(2-8,10-14)] assms(15)
    by (simp add: redis_lock_api_def)
  with assms(9) show ?thesis by (rule skip_does_not_run)
qed

text \<open>Two nodes for the witness: the world is the clock, the Redis lock and the number of runs.\<close>

definition node_env :: "string \<Rightarrow> ('s, nat \<times> 's \<times> nat) timer_env" where
  "node_env uuid =
     \<lparr>te_lock = \<lparr>lr_ctx = \<lambda>(t, s, n). (\<lparr>ctx_now = t, ctx_uuid = uuid, ctx_wall_ms = 0\<rparr>, (t, s, n)),
        lr_now = \<lambda>(t, s, n). (t, (t, s, n)), lr_wait = \<lambda>d (t, s, n). (t + d, s, n),
        lr_get = \<lambda>(t, s, n). s, lr_put = \<lambda>s (t, _, n). (t, s, n)\<rparr>,
      te_wall = \<lambda>(t, s, n). (t, (t, s, n)), te_sleep = \<lambda>d (t, s, n). (t + d, s, n),
      te_acquire = \<lambda>w. (True, w), te_drop_permit = \<lambda>w. w\<rparr>"

definition nightly :: timer_task where
  "nightly = timer_task_scope Cluster (timer_task_new ''t'' ''nightly'' (Once 1000) [])"

definition count_run :: "timer_task \<Rightarrow> nat \<times> 's \<times> nat \<Rightarrow> unit res \<times> nat \<times> 's \<times> nat" where
  "count_run task = (\<lambda>(t, s, n). (Ok (), (t, s, Suc n)))"

lemmas node_defs = node_env_def nightly_def count_run_def timer_task_scope_def timer_task_new_def timer_lock_key_def
  effective_lock_ttl_def compute_next_fire_def wall_ms_def

theorem cluster_task_on_one_node_witness:
  "\<not> snd (fst (timer_step (node_env ''b'') (Some (redis_lock_api ideal_redis)) (\<lambda>_. Inl ''no cron'') nightly count_run initial_task_state
     (0, \<lparr>rl_config = \<lparr>rlc_url = ''redis://h'', rlc_key_prefix = ''p:''\<rparr>, rl_connected = True,
          rl_server = [''p:timer:t'' \<mapsto> (''a'', 301000000000)]\<rparr>, 1)))"
  (is "\<not> snd (fst (timer_step ?envB _ ?cron _ _ _ (0, ?s1, 1)))")
proof -
  let ?s = "\<lparr>rl_config = \<lparr>rlc_url = ''redis://h'', rlc_key_prefix = ''p:''\<rparr>, rl_connected = True, rl_server = Map.empty\<rparr>"
  let ?envA = "node_env ''a'' :: ((string \<rightharpoonup> string \<times> instant) redis_lock, nat \<times> (string \<rightharpoonup> string \<times> instant) redis_lock \<times> nat) timer_env"
  let ?h = "\<lparr>lh_key = ''timer:t'', lh_token = ''a'', lh_acquired_at_ms = 0\<rparr>"
  let ?cB = "\<lparr>ctx_now = 1000000000, ctx_uuid = ''b'', ctx_wall_ms = 0\<rparr>"
  have fits: "ttl_fits (effective_lock_ttl nightly)" by (simp add: node_defs ttl_fits_def)
  have A: "timer_take_lock ?envA (Some (redis_lock_api ideal_redis)) nightly (1000000000, ?s, 0) = (Held ?h, (1000000000, ?s1, 0))"
    by (simp add: timer_take_lock_def node_defs redis_lock_api_def redis_try_acquire_def redis_call_def get_conn_def
        full_key_def ideal_redis_def Let_def)
  have B: "before_lock ?envB ?cron nightly (0, ?s1, 1) = Some (1000000000, ?s1, 1)"
    by (simp add: before_lock_def node_defs Let_def)
  have "fst (redis_try_acquire ideal_redis ?cB (timer_lock_key nightly) (effective_lock_ttl nightly) ?s1) = Ok None"
    by (simp add: node_defs redis_try_acquire_def redis_call_def get_conn_def full_key_def ideal_redis_def Let_def)
  moreover have "lr_get (te_lock ?envA) (lr_put (te_lock ?envA) s w) = s" for s w
    by (cases w) (simp add: node_env_def)
  ultimately show ?thesis
    using cluster_task_on_one_node [OF ideal_redis_ok _ fits A, of "\<lparr>ctx_now = 1000000000, ctx_uuid = ''a'', ctx_wall_ms = 0\<rparr>"
        "(1000000000, ?s, 0)" "[]" ?envB ?cron "(0, ?s1, 1)" "(1000000000, ?s1, 1)" ?cB "(1000000000, ?s1, 1)"
        count_run initial_task_state] B
    by (simp add: node_defs add_secs_def)
qed

text \<open>
  C17: shutting the engine down stops every loop it spawned. In every state reached by
  scheduling tasks under ids that are not registered at that moment, cancelling tasks and loops
  ending by themselves, \<open>shutdown\<close> leaves no loop alive and no task registered.
\<close>

theorem shutdown_stops_all_loops:
  assumes "timer_run cron max_concurrent e"
  shows "tn_live (snd (timer_shutdown e)) = [] \<and> timer_list_tasks (snd (timer_shutdown e)) = []"
proof -
  have inv: "engine_inv e" by (rule timer_run_inv [OF assms])
  then have "n \<in> en_loop ` set (hm_values (tn_tasks e))" if "n \<in> set (tn_live e)" for n
    using that unfolding engine_inv_def by (metis image_eqI set_hm_values)
  then show ?thesis
    by (auto simp: timer_shutdown_def fold_abort_live timer_list_tasks_def hm_values_def filter_empty_conv)
qed

theorem shutdown_stops_all_loops_witness:
  "tn_live (timer_apply (\<lambda>_. Inl ''no cron'') (ScheduleOp 0 0 0 (timer_task_new ''id'' ''n'' (Interval 5) []))
     (timer_engine_new 4)) = [0] \<and>
   tn_live (snd (timer_shutdown (timer_apply (\<lambda>_. Inl ''no cron'') (ScheduleOp 0 0 0 (timer_task_new ''id'' ''n'' (Interval 5) []))
     (timer_engine_new 4)))) = []"
  (is "tn_live ?e = _ \<and> _")
proof -
  have "timer_run (\<lambda>_. Inl ''no cron'') 4 ?e"
    by (intro timer_run.intros) (simp add: timer_engine_new_def)
  from shutdown_stops_all_loops [OF this] show ?thesis
    by (simp add: timer_schedule_task_def compute_next_fire_def timer_task_new_def timer_engine_new_def)
qed

section \<open>Limits\<close>

text \<open>A trigger is not handled once per cluster: the lock is given back when the handler ends, so that a
  node that comes to the same trigger a moment later finds it free and runs the task again.\<close>

lemma trigger_handled_twice:
  "let (r1, st1, w1) = timer_step (node_env ''a'') (Some memory_lock) cron nightly count_run initial_task_state (0, Map.empty, 0);
       (r2, st2, w2) = timer_step (node_env ''b'') (Some memory_lock) cron nightly count_run initial_task_state w1
   in snd r1 \<and> snd r2 \<and> snd (snd w2) = 2 \<and> fst w1 = fst w2"
  by (simp add: timer_step_def timer_take_lock_def timer_release_lock_def node_defs mem_lock_defs add_secs_def)


text \<open>Scheduling a task under a registered id replaces its entry but not its loop: the first loop
  stays alive after \<open>cancel\<close> and after \<open>shutdown\<close>.\<close>

definition rescheduled :: timer_engine where
  "rescheduled =
     (let op = ScheduleOp 0 0 0 (timer_task_new ''id'' ''n'' (Interval 5) [])
      in timer_apply (\<lambda>_. Inl ''no cron'') op (timer_apply (\<lambda>_. Inl ''no cron'') op (timer_engine_new 4)))"

lemma reschedule_leaks_loop:
  "tn_live (snd (timer_cancel ''id'' rescheduled)) = [0] \<and> tn_live (snd (timer_shutdown rescheduled)) = [0] \<and>
   timer_list_tasks (snd (timer_cancel ''id'' rescheduled)) = []"
  by (simp add: rescheduled_def timer_schedule_task_def compute_next_fire_def timer_task_new_def
      timer_engine_new_def timer_cancel_def timer_shutdown_def abort_loop_def timer_list_tasks_def
      hm_values_def hm_insert_def hm_remove_def hm_get_def)

end
