(* ===== verification/F64.thy ===== *)
theory F64
  imports Complex_Main Prelude "HOL-Library.Log_Nat"
begin

text \<open>
  The part of Rust's \<open>f64\<close> the code computes with: a finite number is a rational, and every
  arithmetic operation is the exact operation followed by \<open>f64_round\<close>, rounding to the nearest number
  with a 53-bit significand, ties to even. The exponent range is not bounded: the magnitudes the
  code forms (token counts, seconds, rates up to \<open>2^64\<close>) stay far inside it. \<open>f64_to_u64\<close> is the
  saturating cast \<open>as u64\<close>.
\<close>

section \<open>Definitions\<close>

text \<open>Nearest integer, ties to even.\<close>

definition rne :: "rat \<Rightarrow> int" where
  "rne q =
     (let f = \<lfloor>q\<rfloor>; d = q - of_int f
      in if d < 1 / 2 then f else if 1 / 2 < d then f + 1 else if even f then f else f + 1)"

text \<open>The exponent of a positive number: the integer part of its binary logarithm.\<close>

definition flog2 :: "rat \<Rightarrow> int" where
  "flog2 x = (let (a, b) = quotient_of x; k = bitlen a - bitlen b in if 2 powi k \<le> x then k else k - 1)"

definition ulp :: "rat \<Rightarrow> rat" where
  "ulp x = 2 powi (flog2 x - 52)"

definition f64_round :: "rat \<Rightarrow> rat" where
  "f64_round x =
     (if x = 0 then 0
      else if 0 < x then of_int (rne (x / ulp x)) * ulp x
      else - (of_int (rne (- x / ulp (- x))) * ulp (- x)))"

definition f64_to_u64 :: "rat \<Rightarrow> u64" where
  "f64_to_u64 x = (if x \<le> 0 then 0 else if 2 ^ 64 \<le> x then u64_max else of_int \<lfloor>x\<rfloor>)"

definition f64_of_u64 :: "u64 \<Rightarrow> rat" where
  "f64_of_u64 n = f64_round (of_nat (unat n))"

definition f64_ceil :: "rat \<Rightarrow> rat" where
  "f64_ceil x = of_int \<lceil>x\<rceil>"

text \<open>\<open>Duration::as_secs_f64\<close> of a duration in nanoseconds.\<close>

definition as_secs_f64 :: "nat \<Rightarrow> rat" where
  "as_secs_f64 d =
     f64_round (f64_round (of_nat (d div nanos_per_sec)) + f64_round (of_nat (d mod nanos_per_sec) / of_nat nanos_per_sec))"

section \<open>Rounding to an integer\<close>

lemma rne_of_int [simp]: "rne (of_int i) = i"
  by (simp add: rne_def)

lemma rne_bounds: "\<lfloor>q\<rfloor> \<le> rne q" "rne q \<le> \<lfloor>q\<rfloor> + 1"
  by (simp_all add: rne_def Let_def)

lemma rne_mono: "p \<le> q \<Longrightarrow> rne p \<le> rne q"
proof (cases "\<lfloor>p\<rfloor> = \<lfloor>q\<rfloor>")
  case True
  moreover assume "p \<le> q"
  ultimately show ?thesis by (simp add: rne_def Let_def)
next
  case False
  moreover assume "p \<le> q"
  ultimately have "\<lfloor>p\<rfloor> + 1 \<le> \<lfloor>q\<rfloor>" using floor_mono [of p q] by linarith
  with rne_bounds(2) [of p] rne_bounds(1) [of q] show ?thesis by linarith
qed

lemma rne_half: "of_int (rne q) \<le> q + 1 / 2"
  by (auto simp: rne_def Let_def) linarith+

lemma rne_ge: "of_int i \<le> q \<Longrightarrow> i \<le> rne q"
  using rne_mono [of "of_int i" q] by simp

lemma rne_le: "q \<le> of_int i \<Longrightarrow> rne q \<le> i"
  using rne_mono [of q "of_int i"] by simp

section \<open>The exponent\<close>

lemma bitlen_powi:
  assumes "0 < a"
  shows "2 powi (bitlen a - 1) \<le> (of_int a :: rat)" "(of_int a :: rat) < 2 powi bitlen a"
proof -
  have A: "1 \<le> bitlen a" using assms by (simp add: bitlen_alt_def)
  have "(2 :: int) ^ nat (bitlen a - 1) \<le> a" "a < 2 ^ nat (bitlen a)" using bitlen_bounds [OF assms] by auto
  then have "of_int (2 ^ nat (bitlen a - 1)) \<le> (of_int a :: rat)" "(of_int a :: rat) < of_int (2 ^ nat (bitlen a))"
    by (simp_all only: of_int_le_iff of_int_less_iff)
  with A show "2 powi (bitlen a - 1) \<le> (of_int a :: rat)" "(of_int a :: rat) < 2 powi bitlen a"
    by (simp_all add: power_int_nonneg_exp)
qed

lemma flog2_bounds:
  assumes "0 < x"
  shows "2 powi flog2 x \<le> x" "x < 2 powi (flog2 x + 1)"
proof -
  obtain a b where q: "quotient_of x = (a, b)" by fastforce
  have b: "0 < b" and x: "x = of_int a / of_int b"
    using quotient_of_denom_pos [OF q] quotient_of_div [OF q] by auto
  then have a: "0 < a" using assms by (simp add: zero_less_divide_iff)
  define k where "k = bitlen a - bitlen b"
  have "2 powi (k - 1) < x"
  proof -
    have "2 powi (k - 1) * of_int b < 2 powi (k - 1) * (2 powi bitlen b :: rat)"
      using bitlen_powi(2) [OF b] by simp
    also have "\<dots> = 2 powi (bitlen a - 1)" by (simp add: k_def flip: power_int_add)
    also have "\<dots> \<le> of_int a" by (rule bitlen_powi(1) [OF a])
    finally show ?thesis using b by (simp add: x pos_less_divide_eq)
  qed
  moreover have "x < 2 powi (k + 1)"
  proof -
    have "of_int a < (2 powi bitlen a :: rat)" by (rule bitlen_powi(2) [OF a])
    also have "\<dots> = 2 powi (k + 1) * 2 powi (bitlen b - 1)" by (simp add: k_def flip: power_int_add)
    also have "\<dots> \<le> 2 powi (k + 1) * of_int b" using bitlen_powi(1) [OF b] by simp
    finally show ?thesis using b by (simp add: x pos_divide_less_eq)
  qed
  ultimately have "2 powi flog2 x \<le> x \<and> x < 2 powi (flog2 x + 1)"
    by (auto simp: flog2_def q k_def [symmetric] Let_def)
  then show "2 powi flog2 x \<le> x" "x < 2 powi (flog2 x + 1)" by auto
qed

lemma powi_2_less_iff [simp]: "(2 powi i :: rat) < 2 powi j \<longleftrightarrow> i < j"
  by (metis not_less power_int_increasing power_int_strict_increasing one_le_numeral one_less_numeral_iff semiring_norm(76))

lemma powi_2_le_iff [simp]: "(2 powi i :: rat) \<le> 2 powi j \<longleftrightarrow> i \<le> j"
  by (simp flip: not_less)

lemma flog2_unique:
  assumes "2 powi k \<le> x" "x < 2 powi (k + 1)"
  shows "flog2 x = k"
proof -
  have "(0 :: rat) < 2 powi k" by simp
  then have x: "0 < x" using assms(1) by linarith
  have "(2 powi k :: rat) < 2 powi (flog2 x + 1)" "(2 powi flog2 x :: rat) < 2 powi (k + 1)"
    using assms flog2_bounds [OF x] by linarith+
  then show ?thesis unfolding powi_2_less_iff by linarith
qed

lemma flog2_mono:
  assumes "0 < x" "x \<le> y"
  shows "flog2 x \<le> flog2 y"
proof -
  have "(2 powi flog2 x :: rat) < 2 powi (flog2 y + 1)"
    using flog2_bounds(1) [of x] flog2_bounds(2) [of y] assms by linarith
  then show ?thesis unfolding powi_2_less_iff by linarith
qed

section \<open>Rounding\<close>

lemma ulp_pos [simp]: "0 < ulp x"
  by (simp add: ulp_def)

lemma powi_ulp: "2 powi flog2 x = of_int (2 ^ 52) * ulp x" "2 powi (flog2 x + 1) = of_int (2 ^ 53) * ulp x"
  by (simp_all add: ulp_def power_int_diff power_int_add)

lemma scaled_bounds:
  assumes "0 < x"
  shows "of_int (2 ^ 52) \<le> x / ulp x" "x / ulp x < of_int (2 ^ 53)"
  using flog2_bounds [OF assms] unfolding powi_ulp
  by (simp_all only: pos_le_divide_eq [OF ulp_pos] pos_divide_less_eq [OF ulp_pos])

lemma f64_round_pos_bounds:
  assumes "0 < x"
  shows "2 powi flog2 x \<le> f64_round x" "f64_round x \<le> 2 powi (flog2 x + 1)"
proof -
  have "2 ^ 52 \<le> rne (x / ulp x)" "rne (x / ulp x) \<le> 2 ^ 53"
    using scaled_bounds [OF assms] by (auto intro: rne_ge rne_le simp del: of_int_power)
  then have "(of_int (2 ^ 52) :: rat) \<le> of_int (rne (x / ulp x))" "(of_int (rne (x / ulp x)) :: rat) \<le> of_int (2 ^ 53)"
    by (simp_all only: of_int_le_iff)
  with assms show "2 powi flog2 x \<le> f64_round x" "f64_round x \<le> 2 powi (flog2 x + 1)"
    unfolding powi_ulp f64_round_def by (auto intro: mult_right_mono simp del: of_int_power)
qed

lemma f64_round_0 [simp]: "f64_round 0 = 0"
  by (simp add: f64_round_def)

lemma f64_round_nonneg: "0 \<le> x \<Longrightarrow> 0 \<le> f64_round x"
proof (cases "x = 0")
  case False
  moreover assume "0 \<le> x"
  ultimately have "0 < x" by simp
  moreover have "(0 :: rat) < 2 powi flog2 x" by simp
  ultimately show ?thesis using f64_round_pos_bounds(1) [of x] by linarith
qed simp

lemma f64_round_mono:
  assumes "0 \<le> x" "x \<le> y"
  shows "f64_round x \<le> f64_round y"
proof (cases "x = 0")
  case True
  then show ?thesis using assms by (simp add: f64_round_nonneg)
next
  case False
  then have x: "0 < x" and y: "0 < y" using assms by auto
  show ?thesis
  proof (cases "flog2 x = flog2 y")
    case True
    then have "ulp x = ulp y" by (simp add: ulp_def)
    with x y assms(2) show ?thesis
      by (simp add: f64_round_def rne_mono divide_right_mono mult_right_mono less_imp_le)
  next
    case False
    then have "flog2 x + 1 \<le> flog2 y" using flog2_mono [OF x assms(2)] by linarith
    then have "(2 powi (flog2 x + 1) :: rat) \<le> 2 powi flog2 y" by simp
    with f64_round_pos_bounds(2) [OF x] f64_round_pos_bounds(1) [OF y] show ?thesis by linarith
  qed
qed

text \<open>The relative error of an operation.\<close>

definition eps :: rat where
  "eps = 1 / 2 ^ 53"

lemma f64_round_le:
  assumes "0 \<le> x"
  shows "f64_round x \<le> x * (1 + eps)"
proof (cases "x = 0")
  case False
  with assms have x: "0 < x" by simp
  have "f64_round x \<le> (x / ulp x + 1 / 2) * ulp x"
    using x rne_half [of "x / ulp x"] by (simp add: f64_round_def mult_right_mono less_imp_le)
  also have "\<dots> = x + ulp x / 2"
    using less_imp_neq [OF ulp_pos [of x]] by (simp add: field_simps)
  also have "ulp x \<le> x / 2 ^ 52" using flog2_bounds(1) [OF x] unfolding powi_ulp by (simp add: field_simps)
  finally show ?thesis by (simp add: eps_def field_simps)
qed simp

lemma f64_round_exact:
  assumes "0 < x" "x = of_int m * ulp x"
  shows "f64_round x = x"
proof -
  have "x / ulp x = of_int m" using assms(2) by (metis ulp_pos less_irrefl nonzero_mult_div_cancel_right)
  with assms show ?thesis by (simp add: f64_round_def)
qed

lemma f64_round_idem:
  assumes "0 \<le> x"
  shows "f64_round (f64_round x) = f64_round x"
proof (cases "x = 0")
  case False
  with assms have x: "0 < x" by simp
  define m where "m = rne (x / ulp x)"
  have r: "f64_round x = of_int m * ulp x" using x by (simp add: f64_round_def m_def)
  have pos: "0 < f64_round x"
    using f64_round_pos_bounds(1) [OF x] by (rule less_le_trans [rotated]) simp
  consider "f64_round x = 2 powi (flog2 x + 1)" | "f64_round x < 2 powi (flog2 x + 1)"
    using f64_round_pos_bounds(2) [OF x] by linarith
  then show ?thesis
  proof cases
    case 1
    then have "flog2 (f64_round x) = flog2 x + 1" by (intro flog2_unique) simp_all
    then have "2 powi flog2 (f64_round x) = f64_round x" using 1 by simp
    then show ?thesis
      using f64_round_exact [OF pos] powi_ulp(1) [of "f64_round x"] by metis
  next
    case 2
    then have "flog2 (f64_round x) = flog2 x" using f64_round_pos_bounds(1) [OF x] by (intro flog2_unique)
    then have "ulp (f64_round x) = ulp x" by (simp add: ulp_def)
    then show ?thesis using f64_round_exact [OF pos] r by metis
  qed
qed simp

lemma f64_round_of_nat [simp]:
  assumes "n \<le> 2 ^ 53"
  shows "f64_round (of_nat n) = of_nat n"
proof (cases "n = 0")
  case False
  then have x: "(0 :: rat) < of_nat n" by simp
  have "(of_nat n :: rat) \<le> of_nat (2 ^ 53)" using assms by (simp only: of_nat_le_iff)
  then have "(2 powi flog2 (of_nat n) :: rat) \<le> 2 powi 53" using flog2_bounds(1) [OF x] by simp
  then have le: "flog2 (of_nat n :: rat) \<le> 53" unfolding powi_2_le_iff .
  show ?thesis
  proof (cases "n = 2 ^ 53")
    case True
    have "flog2 (of_nat n :: rat) = 53" by (rule flog2_unique) (simp_all add: True)
    then show ?thesis
      by (intro f64_round_exact [OF x, of "2 ^ 52"]) (simp add: ulp_def True)
  next
    case False
    with assms have "(of_nat n :: rat) < of_nat (2 ^ 53)" by (simp only: of_nat_less_iff)
    then have "(2 powi flog2 (of_nat n) :: rat) < 2 powi 53" using flog2_bounds(1) [OF x] by simp
    then have lt: "flog2 (of_nat n :: rat) < 53" unfolding powi_2_less_iff .
    have "(1 :: rat) = 2 powi (52 - flog2 (of_nat n :: rat)) * ulp (of_nat n)"
      by (simp add: ulp_def flip: power_int_add)
    also have "2 powi (52 - flog2 (of_nat n :: rat)) = (of_int (2 ^ nat (52 - flog2 (of_nat n :: rat))) :: rat)"
      using lt by (simp add: power_int_nonneg_exp)
    finally have "(of_nat n :: rat) = of_int (int n * 2 ^ nat (52 - flog2 (of_nat n :: rat))) * ulp (of_nat n)"
      by simp
    then show ?thesis by (rule f64_round_exact [OF x])
  qed
qed simp

lemma f64_of_u64_nonneg [simp]: "0 \<le> f64_of_u64 n"
  by (simp only: f64_of_u64_def f64_round_nonneg of_nat_0_le_iff)

lemma f64_of_u64_small: "unat n \<le> 2 ^ 53 \<Longrightarrow> f64_of_u64 n = of_nat (unat n)"
  by (simp only: f64_of_u64_def f64_round_of_nat)

lemma f64_of_u64_rep [simp]: "f64_round (f64_of_u64 n) = f64_of_u64 n"
  by (simp only: f64_of_u64_def f64_round_idem of_nat_0_le_iff)

lemma as_secs_f64_0 [simp]: "as_secs_f64 0 = 0"
  by (simp add: as_secs_f64_def)

lemma as_secs_f64_nonneg [simp]: "0 \<le> as_secs_f64 d"
  by (simp add: as_secs_f64_def f64_round_nonneg)

end
