(* ===== verification/Rate_Limit.thy ===== *)
theory Rate_Limit
  imports Errors F64
begin

text \<open>
  Rate limiting: the token buckets of \<open>rinfra-plugins/src/ratelimit/mod.rs\<close>, in the floating point
  arithmetic of \<open>F64\<close>, and the fixed-window counter of \<open>rinfra-plugins/src/ratelimit/redis_limiter.rs\<close>
  over the commands of a Redis server given as a parameter. The trait \<open>RateLimiter\<close>
  (\<open>rinfra-core/src/ratelimit/mod.rs\<close>) is the record \<open>rate_limiter\<close>; its clients are in the theory of
  the HTTP middleware. The map of buckets is locked for a whole check, so concurrent checks are a
  sequence of checks.
\<close>

section \<open>The interface\<close>

record rate_limit_result =
  rr_allowed :: bool
  rr_remaining :: u64
  rr_retry_after_ms :: "u64 option"

record 's rate_limiter =
  rl_check :: "instant \<Rightarrow> string \<Rightarrow> 's \<Rightarrow> rate_limit_result res \<times> 's"
  rl_reset :: "instant \<Rightarrow> string \<Rightarrow> 's \<Rightarrow> unit res \<times> 's"

section \<open>Token buckets\<close>

record token_bucket =
  tokens :: rat
  last_refill :: instant
  max_tokens :: rat
  refill_rate :: rat

definition bucket_new :: "instant \<Rightarrow> u64 \<Rightarrow> u64 \<Rightarrow> token_bucket" where
  "bucket_new now mx rate =
     \<lparr>tokens = f64_of_u64 mx, last_refill = now, max_tokens = f64_of_u64 mx, refill_rate = f64_of_u64 rate\<rparr>"

definition refill :: "instant \<Rightarrow> token_bucket \<Rightarrow> token_bucket" where
  "refill now b =
     (let elapsed = as_secs_f64 (now - last_refill b)
      in b\<lparr>tokens := min (f64_round (tokens b + f64_round (elapsed * refill_rate b))) (max_tokens b),
           last_refill := now\<rparr>)"

text \<open>\<open>((1.0 - tokens) / refill_rate * 1000.0) as u64\<close>: a division by zero gives infinity, which the
  cast saturates.\<close>

definition retry_after :: "token_bucket \<Rightarrow> u64" where
  "retry_after b =
     (if refill_rate b = 0 then u64_max
      else f64_to_u64 (f64_round (f64_round (f64_round (1 - tokens b) / refill_rate b) * 1000)))"

definition try_consume :: "instant \<Rightarrow> token_bucket \<Rightarrow> rate_limit_result \<times> token_bucket" where
  "try_consume now b0 =
     (let b = refill now b0
      in if 1 \<le> tokens b
         then (let b' = b\<lparr>tokens := f64_round (tokens b - 1)\<rparr>
               in (\<lparr>rr_allowed = True, rr_remaining = f64_to_u64 (tokens b'), rr_retry_after_ms = None\<rparr>, b'))
         else (\<lparr>rr_allowed = False, rr_remaining = 0, rr_retry_after_ms = Some (retry_after b)\<rparr>, b))"

record memory_rate_limiter =
  buckets :: "string \<rightharpoonup> token_bucket"
  burst_size :: u64
  rps :: u64

definition mem_limiter_new :: "u64 \<Rightarrow> u64 \<Rightarrow> memory_rate_limiter" where
  "mem_limiter_new requests_per_second burst =
     \<lparr>buckets = Map.empty, burst_size = burst, rps = requests_per_second\<rparr>"

definition mem_check :: "instant \<Rightarrow> string \<Rightarrow> memory_rate_limiter \<Rightarrow> rate_limit_result res \<times> memory_rate_limiter" where
  "mem_check now key m =
     (let bucket = (case buckets m key of Some b \<Rightarrow> b | None \<Rightarrow> bucket_new now (burst_size m) (rps m));
          (r, b') = try_consume now bucket
      in (Ok r, m\<lparr>buckets := (buckets m)(key \<mapsto> b')\<rparr>))"

definition mem_reset :: "instant \<Rightarrow> string \<Rightarrow> memory_rate_limiter \<Rightarrow> unit res \<times> memory_rate_limiter" where
  "mem_reset now key m = (Ok (), m\<lparr>buckets := (buckets m)(key := None)\<rparr>)"

definition memory_limiter :: "memory_rate_limiter rate_limiter" where
  "memory_limiter = \<lparr>rl_check = mem_check, rl_reset = mem_reset\<rparr>"

section \<open>Fixed windows on Redis\<close>

record redis_limit_config =
  rlim_enabled :: bool
  rlim_url :: string
  rlim_requests_per_second :: u64
  rlim_window_secs :: u64

text \<open>The server, as far as the limiter uses it. A failed command is an error text.\<close>

record 'r counter_server =
  cs_open :: "string \<Rightarrow> string option"
  cs_connect :: "'r \<Rightarrow> string option \<times> 'r"
  cs_incr :: "instant \<Rightarrow> string \<Rightarrow> 'r \<Rightarrow> (string + u64) \<times> 'r"
  cs_expire :: "instant \<Rightarrow> string \<Rightarrow> 64 word \<Rightarrow> 'r \<Rightarrow> 'r"
  cs_del :: "instant \<Rightarrow> string \<Rightarrow> 'r \<Rightarrow> (string + unit) \<times> 'r"

record 'r redis_rate_limiter =
  rrl_config :: redis_limit_config
  rrl_connected :: bool
  rrl_server :: 'r

definition redis_limiter_new :: "redis_limit_config \<Rightarrow> 'r \<Rightarrow> 'r redis_rate_limiter" where
  "redis_limiter_new cfg r = \<lparr>rrl_config = cfg, rrl_connected = False, rrl_server = r\<rparr>"

definition redis_limiter_connect :: "'r counter_server \<Rightarrow> 'r redis_rate_limiter \<Rightarrow> unit res \<times> 'r redis_rate_limiter" where
  "redis_limiter_connect R l =
     (if \<not> rlim_enabled (rrl_config l) then (Ok (), l)
      else case cs_open R (rlim_url (rrl_config l)) of
             Some e \<Rightarrow> (Err CacheConnectionFailed (''invalid redis url: '' @ e), l)
           | None \<Rightarrow>
               (case cs_connect R (rrl_server l) of
                  (Some e, r) \<Rightarrow> (Err CacheConnectionFailed (''redis connect failed: '' @ e), l\<lparr>rrl_server := r\<rparr>)
                | (None, r) \<Rightarrow> (Ok (), l\<lparr>rrl_server := r, rrl_connected := True\<rparr>)))"

definition redis_limiter_close :: "'r redis_rate_limiter \<Rightarrow> 'r redis_rate_limiter" where
  "redis_limiter_close l = l\<lparr>rrl_connected := False\<rparr>"

definition limiter_conn :: "'r redis_rate_limiter \<Rightarrow> unit res" where
  "limiter_conn l = (if rrl_connected l then Ok () else Err CacheConnectionFailed ''redis not connected'')"

text \<open>The clock is the wall clock here, in nanoseconds since the epoch.\<close>

definition rate_key :: "redis_limit_config \<Rightarrow> nat \<Rightarrow> string \<Rightarrow> string" where
  "rate_key cfg wall key =
     (let window = wall div nanos_per_sec div unat (max (rlim_window_secs cfg) 1)
      in ''rinfra:rl:'' @ key @ '':'' @ show_nat window)"

definition redis_check :: "'r counter_server \<Rightarrow> nat \<Rightarrow> string \<Rightarrow> 'r redis_rate_limiter \<Rightarrow>
    rate_limit_result res \<times> 'r redis_rate_limiter" where
  "redis_check R wall key l =
     (let cfg = rrl_config l
      in if \<not> rlim_enabled cfg then (Err RateLimitExceeded ''redis rate limiter not enabled'', l)
         else case limiter_conn l of
                Inl e \<Rightarrow> (Inl e, l)
              | Inr _ \<Rightarrow>
                  (let rk = rate_key cfg wall key;
                       (reply, r1) = cs_incr R wall rk (rrl_server l)
                   in case reply of
                        Inl e \<Rightarrow> (Err Internal (''redis INCR failed: '' @ e), l\<lparr>rrl_server := r1\<rparr>)
                      | Inr hits \<Rightarrow>
                          (let r2 = (if hits = 1 then cs_expire R wall rk (max (rlim_window_secs cfg) 1 + 1) r1 else r1);
                               limit = rlim_requests_per_second cfg * max (rlim_window_secs cfg) 1;
                               l' = l\<lparr>rrl_server := r2\<rparr>
                           in if hits \<le> limit
                              then (Ok \<lparr>rr_allowed = True, rr_remaining = saturating_sub limit hits, rr_retry_after_ms = None\<rparr>, l')
                              else (Ok \<lparr>rr_allowed = False, rr_remaining = 0,
                                       rr_retry_after_ms = Some (max (rlim_window_secs cfg) 1 * 1000)\<rparr>, l'))))"

definition redis_reset :: "'r counter_server \<Rightarrow> nat \<Rightarrow> string \<Rightarrow> 'r redis_rate_limiter \<Rightarrow> unit res \<times> 'r redis_rate_limiter" where
  "redis_reset R wall key l =
     (if \<not> rlim_enabled (rrl_config l) then (Err RateLimitExceeded ''redis rate limiter not enabled'', l)
      else case limiter_conn l of
             Inl e \<Rightarrow> (Inl e, l)
           | Inr _ \<Rightarrow>
               (case cs_del R wall (rate_key (rrl_config l) wall key) (rrl_server l) of
                  (Inl e, r) \<Rightarrow> (Err Internal (''redis DEL failed: '' @ e), l\<lparr>rrl_server := r\<rparr>)
                | (Inr _, r) \<Rightarrow> (Ok (), l\<lparr>rrl_server := r\<rparr>)))"

definition redis_limiter :: "'r counter_server \<Rightarrow> 'r redis_rate_limiter rate_limiter" where
  "redis_limiter R = \<lparr>rl_check = redis_check R, rl_reset = redis_reset R\<rparr>"

section \<open>Bucket invariant\<close>

definition bucket_ok :: "token_bucket \<Rightarrow> bool" where
  "bucket_ok b \<longleftrightarrow> 0 \<le> tokens b \<and> tokens b \<le> max_tokens b \<and> 0 \<le> refill_rate b \<and>
     f64_round (tokens b) = tokens b \<and> f64_round (max_tokens b) = max_tokens b"

lemma bucket_ok_new [simp]: "bucket_ok (bucket_new now mx rate)"
  by (simp add: bucket_ok_def bucket_new_def)

lemma refill_nonneg:
  "0 \<le> tokens b \<Longrightarrow> 0 \<le> refill_rate b \<Longrightarrow> 0 \<le> tokens b + f64_round (as_secs_f64 d * refill_rate b)"
  by (simp add: f64_round_nonneg)

lemma bucket_ok_refill: "bucket_ok b \<Longrightarrow> bucket_ok (refill now b)"
  by (auto simp: bucket_ok_def refill_def Let_def min_def f64_round_nonneg f64_round_idem)

lemma bucket_ok_consume:
  assumes "bucket_ok b"
  shows "bucket_ok (snd (try_consume now b))"
proof -
  define b' where "b' = refill now b"
  have ok: "bucket_ok b'" unfolding b'_def by (rule bucket_ok_refill [OF assms])
  have "f64_round (tokens b' - 1) \<le> max_tokens b'" if "1 \<le> tokens b'"
    using f64_round_mono [of "tokens b' - 1" "tokens b'"] that ok by (simp add: bucket_ok_def)
  with ok show ?thesis
    by (auto simp: try_consume_def b'_def [symmetric] Let_def bucket_ok_def f64_round_nonneg f64_round_idem)
qed

lemma refill_frame [simp]: "max_tokens (refill now b) = max_tokens b" "refill_rate (refill now b) = refill_rate b"
  "last_refill (refill now b) = now"
  by (simp_all add: refill_def Let_def)

lemma consume_frame [simp]:
  "max_tokens (snd (try_consume now b)) = max_tokens b" "refill_rate (snd (try_consume now b)) = refill_rate b"
  "last_refill (snd (try_consume now b)) = now"
  by (simp_all add: try_consume_def Let_def)

definition limiter_ok :: "memory_rate_limiter \<Rightarrow> bool" where
  "limiter_ok m \<longleftrightarrow> (\<forall>k b. buckets m k = Some b \<longrightarrow>
     bucket_ok b \<and> max_tokens b = f64_of_u64 (burst_size m) \<and> refill_rate b = f64_of_u64 (rps m))"

datatype limit_op = Check instant string | ResetKey instant string

primrec limit_apply :: "limit_op \<Rightarrow> memory_rate_limiter \<Rightarrow> memory_rate_limiter" where
  "limit_apply (Check t k) m = snd (mem_check t k m)"
| "limit_apply (ResetKey t k) m = snd (mem_reset t k m)"

lemma limiter_ok_apply: "limiter_ok m \<Longrightarrow> limiter_ok (limit_apply op m)"
  by (cases op)
    (auto simp: limiter_ok_def mem_check_def mem_reset_def Let_def case_prod_beta bucket_ok_consume
      bucket_new_def [THEN arg_cong [where f = max_tokens]] bucket_new_def [THEN arg_cong [where f = refill_rate]]
      split: option.splits if_splits)

lemma limiter_ok_new [simp]: "limiter_ok (mem_limiter_new r b)"
  by (simp add: limiter_ok_def mem_limiter_new_def)

lemma limit_apply_frame [simp]: "burst_size (limit_apply op m) = burst_size m" "rps (limit_apply op m) = rps m"
  by (cases op; simp add: mem_check_def mem_reset_def case_prod_beta Let_def)+

lemma limiter_ok_fold: "limiter_ok m \<Longrightarrow> limiter_ok (fold limit_apply ops m)"
  by (induction ops arbitrary: m) (simp_all add: limiter_ok_apply del: limit_apply.simps)

lemma fold_frame [simp]: "burst_size (fold limit_apply ops m) = burst_size m" "rps (fold limit_apply ops m) = rps m"
  by (induction ops arbitrary: m) simp_all

section \<open>Admissions\<close>

text \<open>How many checks of the key \<open>k\<close> a sequence of checks (a time and a key each) admits; and the
  same for the times at which one bucket is asked.\<close>

primrec admits :: "string \<Rightarrow> (instant \<times> string) list \<Rightarrow> memory_rate_limiter \<Rightarrow> nat" where
  "admits k [] m = 0"
| "admits k (op # ops) m =
     (let (r, m') = mem_check (fst op) (snd op) m
      in (if snd op = k \<and> (case r of Inr x \<Rightarrow> rr_allowed x | Inl _ \<Rightarrow> False) then 1 else 0) + admits k ops m')"

primrec bucket_admits :: "instant list \<Rightarrow> token_bucket \<Rightarrow> nat" where
  "bucket_admits [] b = 0"
| "bucket_admits (t # ts) b =
     (let (r, b') = try_consume t b in (if rr_allowed r then 1 else 0) + bucket_admits ts b')"

definition times_of :: "string \<Rightarrow> (instant \<times> string) list \<Rightarrow> instant list" where
  "times_of k ops = map fst (filter (\<lambda>op. snd op = k) ops)"

lemma times_of_simps [simp]:
  "times_of k [] = []" "times_of k (op # ops) = (if snd op = k then fst op # times_of k ops else times_of k ops)"
  by (simp_all add: times_of_def)

lemma admits_known: "buckets m k = Some b \<Longrightarrow> admits k ops m = bucket_admits (times_of k ops) b"
proof (induction ops arbitrary: m b)
  case Nil
  then show ?case by simp
next
  case (Cons op ops)
  show ?case
  proof (cases "snd op = k")
    case True
    with Cons show ?thesis by (simp add: mem_check_def case_prod_beta Let_def)
  next
    case False
    with Cons show ?thesis by (simp add: mem_check_def case_prod_beta Let_def)
  qed
qed

lemma admits_fresh:
  "buckets m k = None \<Longrightarrow> times_of k ops = t # ts \<Longrightarrow>
     admits k ops m = bucket_admits (t # ts) (bucket_new t (burst_size m) (rps m))"
proof (induction ops arbitrary: m)
  case Nil
  then show ?case by simp
next
  case (Cons op ops)
  show ?case
  proof (cases "snd op = k")
    case True
    with Cons.prems have "fst op = t" "times_of k ops = ts" by auto
    with True Cons.prems(1) show ?thesis
      by (simp add: mem_check_def case_prod_beta Let_def admits_known)
  next
    case False
    with Cons show ?thesis by (simp add: mem_check_def case_prod_beta Let_def)
  qed
qed

text \<open>A burst: all checks of the key at one instant.\<close>

lemma consume_integer:
  assumes "tokens b = of_nat n" "n \<le> 2 ^ 53" "tokens b \<le> max_tokens b" "last_refill b = t"
  shows "rr_allowed (fst (try_consume t b)) = (0 < n)" "tokens (snd (try_consume t b)) = of_nat (n - 1)"
proof -
  have tok: "tokens (refill t b) = of_nat n" using assms by (simp add: refill_def)
  have "f64_round (of_nat n - 1) = of_nat (n - 1)" if "0 < n"
    using f64_round_of_nat [of "n - 1"] assms(2) that by (simp add: of_nat_diff)
  with tok show "rr_allowed (fst (try_consume t b)) = (0 < n)" "tokens (snd (try_consume t b)) = of_nat (n - 1)"
    by (auto simp: try_consume_def Let_def)
qed

lemma burst_admits:
  assumes "tokens b = of_nat n" "n \<le> 2 ^ 53" "of_nat n \<le> max_tokens b" "last_refill b = t" "\<forall>u \<in> set ts. u = t"
  shows "bucket_admits ts b = min (length ts) n"
  using assms
proof (induction ts arbitrary: b n)
  case Nil
  then show ?case by simp
next
  case (Cons u ts)
  then have u: "u = t" by simp
  note step = consume_integer [of b n t, OF Cons.prems(1,2) _ Cons.prems(4)]
  have le: "tokens b \<le> max_tokens b" using Cons.prems by simp
  have "of_nat (n - 1) \<le> max_tokens (snd (try_consume t b))"
    using Cons.prems(3) order_trans [of "of_nat (n - 1)" "of_nat n" "max_tokens b"] by simp
  then have "bucket_admits ts (snd (try_consume t b)) = min (length ts) (n - 1)"
    using Cons.IH [of "snd (try_consume t b)" "n - 1"] step(2) [OF le] Cons.prems by simp
  with u step(1) [OF le] show ?case by (auto simp: case_prod_beta min_def)
qed

section \<open>Throughput\<close>

abbreviation secs :: "nat \<Rightarrow> rat" where
  "secs d \<equiv> of_nat d / of_nat nanos_per_sec"

lemma eps_pos [simp]: "0 < eps" "0 \<le> eps"
  by (simp_all add: eps_def)

lemma as_secs_f64_le: "as_secs_f64 d \<le> secs d * (1 + eps) ^ 2"
proof -
  let ?s = "of_nat (d div nanos_per_sec) :: rat" and ?f = "of_nat (d mod nanos_per_sec) / of_nat nanos_per_sec :: rat"
  have "(of_nat d :: rat) = of_nat (d div nanos_per_sec) * of_nat nanos_per_sec + of_nat (d mod nanos_per_sec)"
    by (simp only: of_nat_mult [symmetric] of_nat_add [symmetric] div_mult_mod_eq)
  then have d: "secs d = ?s + ?f" by (simp add: add_divide_distrib)
  have "as_secs_f64 d \<le> (f64_round ?s + f64_round ?f) * (1 + eps)"
    unfolding as_secs_f64_def by (rule f64_round_le) (simp add: f64_round_nonneg)
  also have "\<dots> \<le> (?s * (1 + eps) + ?f * (1 + eps)) * (1 + eps)"
    by (intro mult_right_mono add_mono f64_round_le) simp_all
  also have "\<dots> = secs d * (1 + eps) ^ 2" unfolding d by (simp add: power2_eq_square algebra_simps)
  finally show ?thesis .
qed

lemma refill_le:
  assumes "bucket_ok b"
  shows "tokens (refill t b) \<le> tokens b + secs (t - last_refill b) * refill_rate b * (1 + eps) ^ 3 + eps * max_tokens b"
proof -
  define inc where "inc = f64_round (as_secs_f64 (t - last_refill b) * refill_rate b)"
  have r: "0 \<le> refill_rate b" "0 \<le> tokens b" "0 \<le> max_tokens b" using assms by (auto simp: bucket_ok_def)
  have "inc \<le> as_secs_f64 (t - last_refill b) * refill_rate b * (1 + eps)"
    unfolding inc_def using r by (intro f64_round_le) simp
  also have "\<dots> \<le> secs (t - last_refill b) * (1 + eps) ^ 2 * refill_rate b * (1 + eps)"
    using r as_secs_f64_le by (intro mult_right_mono) simp_all
  finally have inc: "inc \<le> secs (t - last_refill b) * refill_rate b * (1 + eps) ^ 3"
    by (simp add: power3_eq_cube power2_eq_square algebra_simps)
  have nn: "0 \<le> tokens b + inc" using r by (simp add: inc_def f64_round_nonneg)
  have "min (f64_round (tokens b + inc)) (max_tokens b) \<le> tokens b + inc + eps * max_tokens b"
  proof (cases "tokens b + inc \<le> max_tokens b")
    case True
    then have "(tokens b + inc) * eps \<le> max_tokens b * eps" by (intro mult_right_mono) simp_all
    moreover have "f64_round (tokens b + inc) \<le> (tokens b + inc) * (1 + eps)" by (rule f64_round_le [OF nn])
    ultimately show ?thesis by (simp add: algebra_simps min_def)
  next
    case False
    moreover have "0 \<le> eps * max_tokens b" using r by simp
    ultimately show ?thesis by (simp add: min_def)
  qed
  with inc show ?thesis by (simp add: refill_def inc_def [symmetric] Let_def)
qed

lemma consume_le:
  assumes "bucket_ok b"
  shows "tokens (snd (try_consume t b)) + (if rr_allowed (fst (try_consume t b)) then 1 else 0)
    \<le> tokens b + secs (t - last_refill b) * refill_rate b * (1 + eps) ^ 3 + 2 * eps * max_tokens b"
proof -
  define b' where "b' = refill t b"
  have ok: "bucket_ok b'" unfolding b'_def by (rule bucket_ok_refill [OF assms])
  have ref: "tokens b' \<le> tokens b + secs (t - last_refill b) * refill_rate b * (1 + eps) ^ 3 + eps * max_tokens b"
    unfolding b'_def by (rule refill_le [OF assms])
  have m: "max_tokens b' = max_tokens b" "0 \<le> eps * max_tokens b"
    using ok by (auto simp: b'_def bucket_ok_def)
  have "f64_round (tokens b' - 1) \<le> tokens b' - 1 + eps * max_tokens b" if "1 \<le> tokens b'"
  proof -
    have "f64_round (tokens b' - 1) \<le> (tokens b' - 1) * (1 + eps)" using that by (intro f64_round_le) simp
    moreover have "(tokens b' - 1) * eps \<le> max_tokens b * eps"
      using ok m by (intro mult_right_mono) (simp_all add: bucket_ok_def)
    ultimately show ?thesis by (simp add: algebra_simps)
  qed
  with ref m show ?thesis by (auto simp: try_consume_def b'_def [symmetric] Let_def)
qed

lemma bucket_admits_le:
  assumes "bucket_ok b" "sorted (last_refill b # ts)"
  shows "of_nat (bucket_admits ts b) \<le>
    tokens b + secs (last (last_refill b # ts) - last_refill b) * refill_rate b * (1 + eps) ^ 3
      + of_nat (length ts) * (2 * eps * max_tokens b)"
  using assms
proof (induction ts arbitrary: b)
  case Nil
  then show ?case by (simp add: bucket_ok_def)
next
  case (Cons t ts)
  let ?b = "snd (try_consume t b)"
  have t: "last_refill b \<le> t" "t \<le> last (t # ts)" using Cons.prems(2) by auto
  have ok: "bucket_ok ?b" by (rule bucket_ok_consume [OF Cons.prems(1)])
  have "of_nat (bucket_admits ts ?b) \<le> tokens ?b + secs (last (t # ts) - t) * refill_rate b * (1 + eps) ^ 3
      + of_nat (length ts) * (2 * eps * max_tokens b)"
    using Cons.IH [OF ok] Cons.prems(2) by simp
  moreover have "secs (last (t # ts) - t) + secs (t - last_refill b) = secs (last (t # ts) - last_refill b)"
    using t by (simp add: add_divide_distrib [symmetric] of_nat_add [symmetric] del: of_nat_add last.simps)
  then have "secs (last (t # ts) - t) * refill_rate b * (1 + eps) ^ 3 + secs (t - last_refill b) * refill_rate b * (1 + eps) ^ 3
      = secs (last (t # ts) - last_refill b) * refill_rate b * (1 + eps) ^ 3"
    by (metis distrib_right)
  moreover note consume_le [OF Cons.prems(1), of t]
  moreover have "of_nat (bucket_admits (t # ts) b) =
      (if rr_allowed (fst (try_consume t b)) then 1 else 0) + (of_nat (bucket_admits ts ?b) :: rat)"
    by (simp add: case_prod_beta)
  moreover have "of_nat (length (t # ts)) * (2 * eps * max_tokens b) =
      of_nat (length ts) * (2 * eps * max_tokens b) + 2 * eps * max_tokens b"
    by (simp add: distrib_right)
  moreover have "last (last_refill b # t # ts) = last (t # ts)" by simp
  ultimately show ?case by (simp only:)
qed

section \<open>Properties\<close>

text \<open>
  C15: the token bucket law, in floating point. For a key without a bucket, and checks of any
  keys at non-decreasing times, the number of admitted checks of the key is at most the burst
  size plus the refill rate times the time since its first check, up to the rounding error:
  a factor \<open>(1 + 2^-53)^3\<close> on the refill and \<open>2^-52\<close> of the burst size per check.
\<close>

theorem throughput_bounded:
  assumes "buckets m k = None" "times_of k ops = t # ts" "sorted (t # ts)"
  shows "of_nat (admits k ops m) \<le>
    f64_of_u64 (burst_size m) + secs (last (t # ts) - t) * f64_of_u64 (rps m) * (1 + eps) ^ 3
      + of_nat (length (t # ts)) * (2 * eps * f64_of_u64 (burst_size m))"
proof -
  let ?b = "bucket_new t (burst_size m) (rps m)"
  have b: "tokens ?b = f64_of_u64 (burst_size m)" "max_tokens ?b = f64_of_u64 (burst_size m)"
    "refill_rate ?b = f64_of_u64 (rps m)" "last_refill ?b = t"
    by (simp_all add: bucket_new_def)
  have "sorted (last_refill ?b # t # ts)" "last (last_refill ?b # t # ts) = last (t # ts)"
    using assms(3) by (simp_all add: b)
  with bucket_admits_le [OF bucket_ok_new, of t "burst_size m" "rps m" "t # ts"]
  show ?thesis unfolding admits_fresh [OF assms(1,2)] b by (simp only: b)
qed

theorem throughput_bounded_witness:
  "of_nat (admits ''k'' [(0, ''k''), (0, ''other''), (5, ''k'')] (mem_limiter_new 10 20)) \<le>
    f64_of_u64 20 + secs 5 * f64_of_u64 10 * (1 + eps) ^ 3 + 2 * (2 * eps * f64_of_u64 20)"
proof -
  have "times_of ''k'' [(0, ''k''), (0, ''other''), (5, ''k'')] = 0 # [5]" by simp
  from throughput_bounded [OF _ this, of "mem_limiter_new 10 20"] show ?thesis
    by (simp add: mem_limiter_new_def del: admits.simps)
qed

text \<open>
  A burst is admitted exactly up to the burst size. When all checks happen at one instant,
  interleaved in any way with checks of other keys, a key without a bucket gets the smaller of
  its number of checks and the burst size (for burst sizes up to \<open>2^53\<close>, which are exact in
  floating point).
\<close>

theorem burst_exact:
  assumes "buckets m k = None" "unat (burst_size m) \<le> 2 ^ 53" "\<forall>op \<in> set ops. fst op = t"
  shows "admits k ops m = min (length (times_of k ops)) (unat (burst_size m))"
proof (cases "times_of k ops")
  case Nil
  then have "\<forall>op \<in> set ops. snd op \<noteq> k" by (auto simp: times_of_def filter_empty_conv)
  then have "admits k ops m = 0" by (induction ops arbitrary: m) (auto simp: case_prod_beta)
  with Nil show ?thesis by simp
next
  case (Cons u us)
  have all: "\<forall>v \<in> set (times_of k ops). v = t" using assms(3) by (auto simp: times_of_def)
  then have u: "u = t" using Cons by simp
  let ?b = "bucket_new t (burst_size m) (rps m)"
  have tok: "tokens ?b = of_nat (unat (burst_size m))" "of_nat (unat (burst_size m)) \<le> max_tokens ?b"
    "last_refill ?b = t"
    using f64_of_u64_small [OF assms(2)] by (simp_all only: bucket_new_def token_bucket.simps order_refl)
  have "bucket_admits (u # us) ?b = min (length (u # us)) (unat (burst_size m))"
    by (rule burst_admits [OF tok(1) assms(2) tok(2,3)]) (use all Cons in simp)
  with admits_fresh [OF assms(1) Cons] u Cons show ?thesis by simp
qed

theorem burst_exact_witness:
  "admits ''k'' (replicate 7 (4, ''k'') @ [(4, ''j'')]) (mem_limiter_new 10 5) = 5"
proof -
  have "admits ''k'' (replicate 7 (4, ''k'') @ [(4, ''j'')]) (mem_limiter_new 10 5) =
    min (length (times_of ''k'' (replicate 7 (4, ''k'') @ [(4, ''j'')]))) (unat (burst_size (mem_limiter_new 10 5)))"
    by (rule burst_exact) (auto simp: mem_limiter_new_def)
  then show ?thesis by (simp add: mem_limiter_new_def times_of_def)
qed

text \<open>
  Whatever sequence of checks and resets has run, every bucket holds between zero and the
  burst size of tokens, at the configured capacity and rate.
\<close>

theorem buckets_bounded:
  assumes "buckets (fold limit_apply ops (mem_limiter_new rate burst)) k = Some b"
  shows "0 \<le> tokens b \<and> tokens b \<le> f64_of_u64 burst \<and> max_tokens b = f64_of_u64 burst \<and>
    refill_rate b = f64_of_u64 rate"
proof -
  have "bucket_ok b \<and> max_tokens b = f64_of_u64 burst \<and> refill_rate b = f64_of_u64 rate"
    using limiter_ok_fold [OF limiter_ok_new, of ops rate burst] assms
    by (simp add: limiter_ok_def) (simp add: mem_limiter_new_def)
  then show ?thesis by (simp add: bucket_ok_def)
qed

theorem buckets_bounded_witness:
  "\<exists>b. buckets (fold limit_apply [Check 4 ''k''] (mem_limiter_new 10 5)) ''k'' = Some b \<and> tokens b \<le> f64_of_u64 5"
proof -
  obtain b where b: "buckets (fold limit_apply [Check 4 ''k''] (mem_limiter_new 10 5)) ''k'' = Some b"
    by (simp add: mem_check_def case_prod_beta Let_def)
  with buckets_bounded [OF b] show ?thesis by blast
qed

end
