(* ===== verification/Json.thy ===== *)
theory Json
  imports F64
begin

text \<open>
  The document type \<open>serde_json::Value\<close> and the conversions of the primitive types and containers
  the configuration uses. An object is an association list; a number is an integer or a
  floating point number. A failed conversion is \<open>None\<close>.
\<close>

datatype (plugins only: code size) json =
    JNull
  | JBool bool
  | JInt int
  | JFloat rat
  | JStr string
  | JArr "json list"
  | JObj "(string \<times> json) list"

section \<open>Decoding\<close>

definition dec_bool :: "json \<Rightarrow> bool option" where
  "dec_bool v = (case v of JBool b \<Rightarrow> Some b | _ \<Rightarrow> None)"

definition dec_string :: "json \<Rightarrow> string option" where
  "dec_string v = (case v of JStr s \<Rightarrow> Some s | _ \<Rightarrow> None)"

definition dec_u64 :: "json \<Rightarrow> u64 option" where
  "dec_u64 v = (case v of JInt i \<Rightarrow> (if 0 \<le> i \<and> i < 2 ^ 64 then Some (of_int i) else None) | _ \<Rightarrow> None)"

definition dec_u32 :: "json \<Rightarrow> u32 option" where
  "dec_u32 v = (case v of JInt i \<Rightarrow> (if 0 \<le> i \<and> i < 2 ^ 32 then Some (of_int i) else None) | _ \<Rightarrow> None)"

definition dec_f64 :: "json \<Rightarrow> rat option" where
  "dec_f64 v = (case v of JFloat r \<Rightarrow> Some r | JInt i \<Rightarrow> Some (f64_round (of_int i)) | _ \<Rightarrow> None)"

definition dec_opt :: "(json \<Rightarrow> 'a option) \<Rightarrow> json \<Rightarrow> 'a option option" where
  "dec_opt d v = (case v of JNull \<Rightarrow> Some None | _ \<Rightarrow> map_option Some (d v))"

definition dec_list :: "(json \<Rightarrow> 'a option) \<Rightarrow> json \<Rightarrow> 'a list option" where
  "dec_list d v = (case v of JArr vs \<Rightarrow> those (map d vs) | _ \<Rightarrow> None)"

text \<open>A field of a struct: its default when it is missing (\<open>None\<close> for a required field).\<close>

definition field :: "(string \<times> json) list \<Rightarrow> string \<Rightarrow> 'a option \<Rightarrow> (json \<Rightarrow> 'a option) \<Rightarrow> 'a option" where
  "field ob f dflt d = (case map_of ob f of None \<Rightarrow> dflt | Some v \<Rightarrow> d v)"

section \<open>Encoding\<close>

definition enc_u64 :: "u64 \<Rightarrow> json" where
  "enc_u64 n = JInt (uint n)"

definition enc_u32 :: "u32 \<Rightarrow> json" where
  "enc_u32 n = JInt (uint n)"

definition enc_opt :: "('a \<Rightarrow> json) \<Rightarrow> 'a option \<Rightarrow> json" where
  "enc_opt e x = (case x of None \<Rightarrow> JNull | Some v \<Rightarrow> e v)"

definition enc_list :: "('a \<Rightarrow> json) \<Rightarrow> 'a list \<Rightarrow> json" where
  "enc_list e xs = JArr (map e xs)"

section \<open>Round trips\<close>

lemma uint_bounds: "uint (n :: u64) < 18446744073709551616" "uint (m :: u32) < 4294967296"
  using unsigned_less [of n, where ?'a = int] unsigned_less [of m, where ?'a = int] by simp_all

lemma dec_list_enc: "(\<And>x. d (e x) = Some x) \<Longrightarrow> dec_list d (enc_list e xs) = Some xs"
  by (induction xs) (simp_all add: dec_list_def enc_list_def)

lemma dec_opt_enc:
  assumes "\<And>x. d (e x) = Some x" "\<And>x. e x \<noteq> JNull"
  shows "dec_opt d (enc_opt e x) = Some x"
proof (cases x)
  case None
  then show ?thesis by (simp add: dec_opt_def enc_opt_def)
next
  case (Some a)
  with assms(1) [of a] assms(2) [of a] show ?thesis
    by (cases "e a") (simp_all add: dec_opt_def enc_opt_def)
qed

lemma dec_basic_rt:
  "dec_bool (JBool b) = Some b" "dec_string (JStr s) = Some s" "dec_u64 (enc_u64 n) = Some n"
  "dec_u32 (enc_u32 m) = Some m" "dec_f64 (JFloat r) = Some r"
  "dec_list dec_string (enc_list JStr ss) = Some ss"
  "dec_opt dec_string (enc_opt JStr os) = Some os" "dec_opt dec_u64 (enc_opt enc_u64 on) = Some on"
  using uint_bounds
  by (simp_all add: dec_bool_def dec_string_def dec_u64_def enc_u64_def dec_u32_def enc_u32_def dec_f64_def
      dec_list_enc dec_opt_enc)

lemma field_Nil [simp]: "field [] f d dec = d"
  by (simp add: field_def)

lemma field_Cons [simp]: "field ((k, v) # ob) f d dec = (if f = k then dec v else field ob f d dec)"
  by (simp add: field_def)

end
