(* ===== verification/Decimal.thy ===== *)
theory Decimal
  imports Prelude
begin

text \<open>
  Decimal numbers in text, shared by the components that print and read them: \<open>u64::from_str\<close> of the
  standard library, and that it reads what \<open>format!("{}", n)\<close> (\<open>show_nat\<close>) prints.
\<close>

section \<open>Reading digits\<close>

definition digit_val :: "char \<Rightarrow> nat option" where
  "digit_val c = (let n = of_char c in if 48 \<le> n \<and> n \<le> 57 then Some (n - 48) else None)"

fun digits_acc :: "nat \<Rightarrow> string \<Rightarrow> nat option" where
  "digits_acc acc [] = Some acc"
| "digits_acc acc (c # cs) = (case digit_val c of None \<Rightarrow> None | Some d \<Rightarrow> digits_acc (10 * acc + d) cs)"

definition parse_u64 :: "string \<Rightarrow> u64 option" where
  "parse_u64 s =
     (let ds = (case s of c # cs \<Rightarrow> if c = CHR ''+'' then cs else s | [] \<Rightarrow> [])
      in if ds = [] then None
         else case digits_acc 0 ds of
                None \<Rightarrow> None
              | Some n \<Rightarrow> if n < 2 ^ 64 then Some (of_nat n) else None)"

text \<open>The longest prefix of digits, and the rest.\<close>

definition span_digits :: "string \<Rightarrow> string \<times> string" where
  "span_digits s = (takeWhile (\<lambda>c. digit_val c \<noteq> None) s, dropWhile (\<lambda>c. digit_val c \<noteq> None) s)"

section \<open>Numbers read back\<close>

lemma digit_val_digit_char: "d < 10 \<Longrightarrow> digit_val (digit_char d) = Some d"
  by (simp add: digit_val_def digit_char_def Let_def take_bit_nat_eq_self)

lemma digits_acc_append:
  "digits_acc a (xs @ ys) = Option.bind (digits_acc a xs) (\<lambda>b. digits_acc b ys)"
  by (induction xs arbitrary: a) (auto split: option.splits)

lemma digits_acc_show_nat: "digits_acc 0 (show_nat n) = Some n"
proof (induction n rule: show_nat.induct)
  case (1 n)
  show ?case
  proof (cases "n < 10")
    case True
    then show ?thesis by (simp add: show_nat.simps [of n] digit_val_digit_char)
  next
    case False
    with 1 show ?thesis
      by (simp add: show_nat.simps [of n] digits_acc_append digit_val_digit_char)
  qed
qed

lemma show_nat_digits: "c \<in> set (show_nat n) \<Longrightarrow> \<exists>d<10. c = digit_char d"
proof (induction n rule: show_nat.induct)
  case (1 n)
  show ?case
  proof (cases "n < 10")
    case True
    with 1 show ?thesis by (auto simp: show_nat.simps [of n])
  next
    case False
    with 1(2) have "c \<in> set (show_nat (n div 10)) \<or> c = digit_char (n mod 10)"
      by (simp add: show_nat.simps [of n]) blast
    with 1(1) [OF False] show ?thesis by (auto intro: exI [of _ "n mod 10"])
  qed
qed

lemma of_char_digit: "d < 10 \<Longrightarrow> (of_char (digit_char d) :: nat) = 48 + d"
  by (simp add: digit_char_def take_bit_nat_eq_self)

lemma show_nat_hd: "\<exists>d cs. d < 10 \<and> show_nat n = digit_char d # cs"
proof -
  obtain c cs where "show_nat n = c # cs" by (cases "show_nat n") auto
  with show_nat_digits [of c n] show ?thesis by auto
qed

lemma to_lowercase_show_nat: "to_lowercase (show_nat n) = show_nat n"
proof -
  have "lower_char c = c" if "c \<in> set (show_nat n)" for c
  proof -
    from show_nat_digits [OF that] obtain d where d: "d < 10" "c = digit_char d" by auto
    then have "(of_char (lower_char c) :: nat) = of_char c" by (simp add: of_char_lower_char of_char_digit)
    then show ?thesis by simp
  qed
  then show ?thesis by (simp add: to_lowercase_def map_idI)
qed

lemma digit_not: "d < 10 \<Longrightarrow> 58 \<le> (of_char c :: nat) \<or> (of_char c :: nat) < 48 \<Longrightarrow> digit_char d \<noteq> c"
  using of_char_digit [of d] by auto

lemma parse_u64_show_nat: "n < 2 ^ 64 \<Longrightarrow> parse_u64 (show_nat n) = Some (of_nat n)"
proof -
  assume "n < 2 ^ 64"
  moreover obtain d cs where "d < 10" "show_nat n = digit_char d # cs" using show_nat_hd by blast
  moreover from \<open>d < 10\<close> have "digit_char d \<noteq> CHR ''+''" by (rule digit_not) simp
  ultimately show ?thesis
    using digits_acc_show_nat [of n] by (simp add: parse_u64_def Let_def)
qed

end
