(* ===== verification/Config_Env.thy ===== *)
theory Config_Env
  imports Config_Model Decimal "HOL-Library.Sublist"
begin

text \<open>
  Loading the configuration and overriding it from the environment
  (\<open>rinfra-plugins/src/config/mod.rs\<close>). The YAML parser is a parameter (\<open>yaml\<close>: a text to an error
  text or a document), and so is the text of a deserialization error. The environment is the list of
  variables in the order the operating system gives them. \<open>parse_env_value\<close> models the number
  parsers of the standard library: \<open>u64::from_str\<close> (theory Decimal) and \<open>f64::from_str\<close>.
\<close>

section \<open>Numbers\<close>

definition parse_sign :: "string \<Rightarrow> bool \<times> string" where
  "parse_sign s = (case s of
     c # cs \<Rightarrow> if c = CHR ''-'' then (True, cs) else if c = CHR ''+'' then (False, cs) else (False, s)
   | [] \<Rightarrow> (False, []))"

definition parse_exponent :: "string \<Rightarrow> int option" where
  "parse_exponent s = (case s of
     [] \<Rightarrow> Some 0
   | c # cs \<Rightarrow>
       if c = CHR ''e'' \<or> c = CHR ''E'' then
         (let (neg, ds) = parse_sign cs
          in if ds = [] then None
             else map_option (\<lambda>n. if neg then - int n else int n) (digits_acc 0 ds))
       else None)"

text \<open>The decimal number a text denotes, before rounding; \<open>inf\<close> and \<open>nan\<close> are not finite and give
  \<open>None\<close>, which is all the code distinguishes.\<close>

definition parse_decimal :: "string \<Rightarrow> rat option" where
  "parse_decimal s =
     (let (neg, s1) = parse_sign s;
          (whole, s2) = span_digits s1;
          (frac, s3) = (case s2 of c # cs \<Rightarrow> if c = CHR ''.'' then span_digits cs else ([], s2) | [] \<Rightarrow> ([], []))
      in if whole @ frac = [] then None
         else case (digits_acc 0 (whole @ frac), parse_exponent s3) of
                (Some m, Some e) \<Rightarrow>
                  (let x = of_nat m * 10 powi (e - int (length frac)) in Some (if neg then - x else x))
              | _ \<Rightarrow> None)"

text \<open>Rounding with the exponent range of \<open>f64\<close>: overflow is not finite, small numbers are multiples
  of \<open>2^-1074\<close>.\<close>

definition to_f64 :: "rat \<Rightarrow> rat option" where
  "to_f64 x =
     (if 2 powi 1024 \<le> \<bar>f64_round x\<bar> then None
      else if \<bar>x\<bar> < 2 powi (-1022)
           then Some (sgn x * (of_int (rne (\<bar>x\<bar> / 2 powi (-1074))) * 2 powi (-1074)))
           else Some (f64_round x))"

definition parse_env_value :: "string \<Rightarrow> json" where
  "parse_env_value raw =
     (if to_lowercase raw = ''true'' then JBool True
      else if to_lowercase raw = ''false'' then JBool False
      else case parse_u64 raw of
             Some n \<Rightarrow> JInt (uint n)
           | None \<Rightarrow>
               (case Option.bind (parse_decimal raw) to_f64 of
                  Some r \<Rightarrow> JFloat r
                | None \<Rightarrow> JStr raw))"

section \<open>Merging the environment\<close>

text \<open>\<open>stripped.split("__")\<close>.\<close>

fun split_dunder :: "string \<Rightarrow> string list" where
  "split_dunder [] = [[]]"
| "split_dunder [c] = [[c]]"
| "split_dunder (c # d # s) =
     (if c = CHR ''_'' \<and> d = CHR ''_'' then [] # split_dunder s
      else (case split_dunder (d # s) of x # xs \<Rightarrow> (c # x) # xs | [] \<Rightarrow> [[c]]))"

fun set_nested :: "json \<Rightarrow> string list \<Rightarrow> string \<Rightarrow> json" where
  "set_nested node [] raw = node"
| "set_nested node [p] raw =
     (case node of JObj m \<Rightarrow> JObj (hm_insert p (parse_env_value raw) m) | _ \<Rightarrow> node)"
| "set_nested node (p # q # ps) raw =
     (case node of
        JObj m \<Rightarrow>
          (let child = (case hm_get m p of Some c \<Rightarrow> c | None \<Rightarrow> JObj [])
           in JObj (hm_insert p (set_nested child (q # ps) raw) m))
      | _ \<Rightarrow> node)"

definition env_path :: "string \<Rightarrow> string list option" where
  "env_path key =
     (case strip_prefix key ''RINFRA_'' of
        None \<Rightarrow> None
      | Some stripped \<Rightarrow> if stripped = [] then None else Some (map to_lowercase (split_dunder stripped)))"

fun merge_env_into_value :: "(string \<times> string) list \<Rightarrow> json \<Rightarrow> nat \<times> json" where
  "merge_env_into_value [] value = (0, value)"
| "merge_env_into_value ((key, val) # vars) value =
     (case env_path key of
        None \<Rightarrow> merge_env_into_value vars value
      | Some segments \<Rightarrow>
          (let (n, v) = merge_env_into_value vars (set_nested value segments val) in (Suc n, v)))"

section \<open>Loading\<close>

definition load_from_str ::
  "string \<Rightarrow> (string \<Rightarrow> string + json) \<Rightarrow> (json \<Rightarrow> string) \<Rightarrow> string \<Rightarrow> rinfra_config res" where
  "load_from_str host yaml serde_error text =
     (case yaml text of
        Inl e \<Rightarrow> Err ConfigParseFailed (''failed to parse YAML config: '' @ e)
      | Inr v \<Rightarrow>
          (case dec_rinfra_config host v of
             None \<Rightarrow> Err ConfigParseFailed (''failed to parse YAML config: '' @ serde_error v)
           | Some c \<Rightarrow> Ok c))"

text \<open>\<open>file\<close> is what reading the file gives: an error text or its content.\<close>

definition load_from_file ::
  "string \<Rightarrow> (string \<Rightarrow> string + json) \<Rightarrow> (json \<Rightarrow> string) \<Rightarrow> string \<Rightarrow> string + string \<Rightarrow> rinfra_config res" where
  "load_from_file host yaml serde_error path file =
     (case file of
        Inl e \<Rightarrow> Err ConfigFileMissing (''config file '' @ quoted path @ '' not found: '' @ e)
      | Inr content \<Rightarrow> load_from_str host yaml serde_error content)"

definition apply_env_overrides :: "string \<Rightarrow> (string \<times> string) list \<Rightarrow> rinfra_config \<Rightarrow> rinfra_config" where
  "apply_env_overrides host vars config =
     (let (n, value) = merge_env_into_value vars (enc_rinfra_config config)
      in if 0 < n then (case dec_rinfra_config host value of Some updated \<Rightarrow> updated | None \<Rightarrow> config)
         else config)"

definition load_with_env ::
  "string \<Rightarrow> (string \<Rightarrow> string + json) \<Rightarrow> (json \<Rightarrow> string) \<Rightarrow> (string \<times> string) list \<Rightarrow> string \<Rightarrow> string + string \<Rightarrow>
     rinfra_config res" where
  "load_with_env host yaml serde_error vars path file =
     (case file of
        Inl e \<Rightarrow> Err ConfigFileMissing (''config file '' @ quoted path @ '' not found: '' @ e)
      | Inr content \<Rightarrow>
          (case yaml content of
             Inl e \<Rightarrow> Err ConfigParseFailed (''failed to parse YAML config: '' @ e)
           | Inr doc \<Rightarrow>
               (let (n, value) = merge_env_into_value vars doc
                in case dec_rinfra_config host value of
                     None \<Rightarrow> Err ConfigParseFailed
                               (''config deserialization failed after env override: '' @ serde_error value)
                   | Some c \<Rightarrow> Ok c)))"

section \<open>Paths of a document\<close>

fun lookup :: "json \<Rightarrow> string list \<Rightarrow> json option" where
  "lookup v [] = Some v"
| "lookup v (p # ps) = (case v of JObj m \<Rightarrow> Option.bind (hm_get m p) (\<lambda>c. lookup c ps) | _ \<Rightarrow> None)"

text \<open>Every node on the way that exists is an object.\<close>

fun settable :: "json \<Rightarrow> string list \<Rightarrow> bool" where
  "settable v [] = True"
| "settable v (p # ps) =
     (case v of
        JObj m \<Rightarrow> ps = [] \<or> (case hm_get m p of Some c \<Rightarrow> settable c ps | None \<Rightarrow> True)
      | _ \<Rightarrow> False)"

lemma settable_empty [simp]: "settable (JObj []) ps"
  by (cases ps) simp_all

lemma lookup_set_nested:
  "ps \<noteq> [] \<Longrightarrow> settable v ps \<Longrightarrow> lookup (set_nested v ps raw) ps = Some (parse_env_value raw)"
proof (induction v ps raw rule: set_nested.induct)
  case (1 node raw)
  then show ?case by simp
next
  case (2 node p raw)
  then show ?case by (cases node) simp_all
next
  case (3 node p q ps raw)
  then obtain m where m: "node = JObj m" by (cases node) simp_all
  have "settable (case hm_get m p of Some c \<Rightarrow> c | None \<Rightarrow> JObj []) (q # ps)"
    using "3.prems"(2) m by (cases "hm_get m p") (auto simp del: settable.simps(2) simp: settable.simps(2) [of "JObj m" p])
  with "3.IH" [OF m refl] show ?case by (simp add: m Let_def del: set_nested.simps(2))
qed

lemma lookup_set_nested_other:
  "\<not> prefix ps qs \<Longrightarrow> \<not> prefix qs ps \<Longrightarrow> lookup (set_nested v ps raw) qs = lookup v qs"
proof (induction v ps raw arbitrary: qs rule: set_nested.induct)
  case (1 node raw)
  then show ?case by simp
next
  case (2 node p raw)
  then show ?case by (cases qs) (auto split: json.splits)
next
  case (3 node p q ps raw)
  show ?case
  proof (cases qs)
    case Nil
    with 3 show ?thesis by simp
  next
    case (Cons a as)
    show ?thesis
    proof (cases "node")
      case (JObj m)
      show ?thesis
      proof (cases "a = p")
        case True
        with 3 Cons have np: "\<not> prefix (q # ps) as" "\<not> prefix as (q # ps)" by auto
        then have "as \<noteq> []" by auto
        with 3(1) [OF JObj refl np] True JObj Cons show ?thesis
          by (cases "hm_get m p"; cases as) auto
      qed (simp add: JObj Cons Let_def)
    qed (simp_all add: Cons)
  qed
qed

lemma hm_insert_same: "hm_get m k = Some v \<Longrightarrow> hm_insert k v m = m"
  by (induction m) (auto simp: hm_get_def hm_insert_def split: if_splits)

lemma not_settable: "\<not> settable v ps \<Longrightarrow> set_nested v ps raw = v"
proof (induction v ps raw rule: set_nested.induct)
  case (1 node raw)
  then show ?case by simp
next
  case (2 node p raw)
  then show ?case by (cases node) auto
next
  case (3 node p q ps raw)
  show ?case
  proof (cases node)
    case (JObj m)
    with "3.prems" obtain c where c: "hm_get m p = Some c" "\<not> settable c (q # ps)"
      by (auto split: option.splits simp del: settable.simps(2) simp: settable.simps(2) [of "JObj m" p])
    with "3.IH" [OF JObj, of c] JObj show ?thesis by (simp add: Let_def hm_insert_same)
  qed simp_all
qed

section \<open>Properties\<close>

text \<open>
  C18: the serde defaults and the \<open>Default\<close> implementations agree, and the round trip through a
  document that environment overrides make loses nothing: an empty document deserializes to
  \<open>RinfraConfig::default()\<close>, and deserializing what any configuration serializes to gives it back,
  except that the skipped field \<open>config_path\<close> is cleared.
\<close>

theorem config_defaults_and_roundtrip:
  "dec_rinfra_config host (JObj []) = Some (rinfra_config_default host) \<and>
   dec_rinfra_config host (enc_rinfra_config c) = Some (c\<lparr>rinfra_config_path := []\<rparr>)"
  by (simp add: dec_empty_rinfra_config dec_enc_rinfra_config)

text \<open>
  C19: an environment variable overrides the field its name spells and nothing else. When every
  existing node on the path is an object, the path holds the value of the variable afterwards;
  every path that neither extends it nor is extended by it is unchanged; and when some node
  on the way is not an object, the variable has no effect.
\<close>

theorem env_override_is_local:
  assumes "env_path key = Some ps"
  shows "(settable v ps \<longrightarrow> lookup (snd (merge_env_into_value [(key, val)] v)) ps = Some (parse_env_value val)) \<and>
    (\<forall>qs. \<not> prefix ps qs \<longrightarrow> \<not> prefix qs ps \<longrightarrow> lookup (snd (merge_env_into_value [(key, val)] v)) qs = lookup v qs) \<and>
    (\<not> settable v ps \<longrightarrow> snd (merge_env_into_value [(key, val)] v) = v)"
proof -
  have "split_dunder s \<noteq> []" for s
    by (cases s rule: split_dunder.cases) (auto split: list.splits)
  then have "ps \<noteq> []"
    using assms by (auto simp: env_path_def split: option.splits if_splits)
  then show ?thesis
    using assms by (simp add: lookup_set_nested lookup_set_nested_other not_settable)
qed

theorem env_override_is_local_witness:
  "lookup (snd (merge_env_into_value [(''RINFRA_app'', ''on'')] (JObj [(''b'', JNull)]))) [''b''] = Some JNull"
proof -
  have "env_path ''RINFRA_app'' = Some [''app'']"
    by (simp add: env_path_def strip_prefix_def starts_with_def to_lowercase_def lower_char_def less_eq_char_def)
  from env_override_is_local [OF this]
  have "\<not> prefix [''app''] [''b''] \<longrightarrow> \<not> prefix [''b''] [''app''] \<longrightarrow>
    lookup (snd (merge_env_into_value [(''RINFRA_app'', ''on'')] (JObj [(''b'', JNull)]))) [''b''] =
      lookup (JObj [(''b'', JNull)]) [''b'']"
    by blast
  then show ?thesis by (simp add: hm_get_def del: merge_env_into_value.simps)
qed

text \<open>
  Numbers survive the environment. The decimal text of any 64-bit unsigned integer is read
  as that integer, with either case of \<open>true\<close> and \<open>false\<close> read as booleans.
\<close>

theorem env_value_roundtrip:
  "parse_env_value (show_nat (unat (n :: u64))) = JInt (uint n) \<and> parse_env_value ''TRUE'' = JBool True \<and>
   parse_env_value ''False'' = JBool False"
proof -
  have ne: "show_nat (unat n) \<noteq> ''true''" "show_nat (unat n) \<noteq> ''false''"
    using show_nat_hd [of "unat n"] digit_not [of _ "CHR ''t''"] digit_not [of _ "CHR ''f''"] by fastforce+
  have "parse_u64 (show_nat (unat n)) = Some n"
    using parse_u64_show_nat [of "unat n"] by simp
  with ne have "parse_env_value (show_nat (unat n)) = JInt (uint n)"
    by (simp add: parse_env_value_def to_lowercase_show_nat)
  moreover have "to_lowercase ''TRUE'' = ''true''" "to_lowercase ''False'' = ''false''"
    by (simp_all add: to_lowercase_def lower_char_def less_eq_char_def char_of_def bit_simps)
  ultimately show ?thesis by (simp add: parse_env_value_def)
qed

section \<open>Limits\<close>

text \<open>A text field cannot be overridden by a value that reads as a number: a cluster token of digits in
  the environment makes loading fail.\<close>

lemma numeric_token_rejected:
  "\<exists>e. load_with_env host (\<lambda>_. Inr (JObj [])) serde_error
     [(''RINFRA_plugins__cluster__cluster_token'', ''12345'')] path (Inr []) = Inl (Fail e)"
proof -
  have path: "env_path ''RINFRA_plugins__cluster__cluster_token'' = Some [''plugins'', ''cluster'', ''cluster_token'']"
    by (simp add: env_path_def strip_prefix_def starts_with_def to_lowercase_def lower_char_def less_eq_char_def)
  have "show_nat 12345 = ''12345''" by (simp add: show_nat.simps digit_char_def char_of_def bit_simps)
  then have val: "parse_env_value ''12345'' = JInt 12345"
    using parse_u64_show_nat [of 12345]
    by (simp add: parse_env_value_def to_lowercase_def lower_char_def less_eq_char_def)
  have "dec_rinfra_config host (JObj [(''plugins'', JObj [(''cluster'', JObj [(''cluster_token'', JInt 12345)])])]) = None"
    by (simp add: dec_rinfra_config_def dec_plugin_configs_def dec_cluster_plugin_configs_def dec_string_def config_empty)
  then show ?thesis
    by (simp add: load_with_env_def path val hm_insert_def)
qed

end
