(* ===== verification/Registries.thy ===== *)
theory Registries
  imports Errors
begin

text \<open>
  The registries of named components in \<open>rinfra-core\<close>: byte transforms (\<open>net/transform.rs\<close>),
  HTTP middleware (\<open>net/middleware.rs\<close>), TCP middleware (\<open>net/tcp.rs\<close>), compressors
  (\<open>compress/mod.rs\<close>), script engines (\<open>script/registry.rs\<close>) and timer engines
  (\<open>timer/registry.rs\<close>) are hash maps from the component's name; codecs (\<open>codec/registry.rs\<close>) are a
  vector with two index maps. Their common contract is the locale \<open>named_registry\<close>. The
  middleware registries also sort what they hold by the order each middleware declares.
\<close>

section \<open>The components\<close>

text \<open>Traits as records of functions; only what the registries and their clients call.\<close>

record byte_transform =
  bt_name :: string
  bt_decode :: "bytes \<Rightarrow> bytes res"
  bt_encode :: "bytes \<Rightarrow> bytes res"

record compressor =
  cp_name :: string
  cp_compress :: "bytes \<Rightarrow> bytes res"
  cp_decompress :: "bytes \<Rightarrow> bytes res"

definition compressor_transform :: "compressor \<Rightarrow> byte_transform" where
  "compressor_transform c = \<lparr>bt_name = cp_name c, bt_decode = cp_decompress c, bt_encode = cp_compress c\<rparr>"

record 'r http_middleware =
  hmw_name :: string
  hmw_order :: int
  hmw_apply :: "'r \<Rightarrow> 'r res"

record script_output =
  so_stdout :: string
  so_result :: bytes
  so_exit_code :: int

record script_engine =
  se_name :: string
  se_execute :: "bytes \<Rightarrow> bytes \<Rightarrow> script_output res"

record 'd codec =
  cd_name :: string
  cd_content_type :: string
  cd_encode :: "'d \<Rightarrow> bytes res"
  cd_decode :: "bytes \<Rightarrow> 'd res"

section \<open>Hash map registries\<close>

text \<open>The body all of them share; \<open>msg\<close> is the text of the error.\<close>

definition register_named ::
  "('a \<Rightarrow> string) \<Rightarrow> (string \<Rightarrow> string) \<Rightarrow> 'a \<Rightarrow> (string, 'a) hashmap \<Rightarrow> unit res \<times> (string, 'a) hashmap" where
  "register_named name_of msg a m =
     (let n = name_of a
      in if hm_contains m n then (Err PluginAlreadyRegistered (msg n), m) else (Ok (), hm_insert n a m))"

definition transform_register ::
  "byte_transform \<Rightarrow> (string, byte_transform) hashmap \<Rightarrow> unit res \<times> (string, byte_transform) hashmap" where
  "transform_register = register_named bt_name (\<lambda>n. ''transform '' @ quoted n @ '' already registered'')"

definition compressor_register ::
  "compressor \<Rightarrow> (string, compressor) hashmap \<Rightarrow> unit res \<times> (string, compressor) hashmap" where
  "compressor_register = register_named cp_name (\<lambda>n. ''compressor '' @ quoted n @ '' already registered'')"

definition http_mw_register ::
  "'r http_middleware \<Rightarrow> (string, 'r http_middleware) hashmap \<Rightarrow> unit res \<times> (string, 'r http_middleware) hashmap" where
  "http_mw_register = register_named hmw_name (\<lambda>n. ''http middleware '' @ quoted n @ '' already registered'')"

definition script_register ::
  "script_engine \<Rightarrow> (string, script_engine) hashmap \<Rightarrow> unit res \<times> (string, script_engine) hashmap" where
  "script_register = register_named se_name (\<lambda>n. ''script engine '' @ quoted n @ '' is already registered'')"

text \<open>A timer engine, as far as its registry uses it: its name and its shutdown, on a world \<open>'w\<close>.\<close>

record 'w timer_engine_obj =
  teo_name :: string
  teo_shutdown :: "'w \<Rightarrow> unit res \<times> 'w"

definition timer_register ::
  "'w timer_engine_obj \<Rightarrow> (string, 'w timer_engine_obj) hashmap \<Rightarrow> unit res \<times> (string, 'w timer_engine_obj) hashmap" where
  "timer_register = register_named teo_name (\<lambda>n. ''timer engine '' @ quoted n @ '' is already registered'')"

text \<open>Every engine is shut down in turn; an error is logged and the next one follows.\<close>

fun timer_shutdown_engines :: "'w timer_engine_obj list \<Rightarrow> 'w \<Rightarrow> string option \<times> 'w" where
  "timer_shutdown_engines [] w = (None, w)"
| "timer_shutdown_engines (e # es) w =
     (case teo_shutdown e w of
        (Inl (Panic m), w') \<Rightarrow> (Some m, w')
      | (_, w') \<Rightarrow> timer_shutdown_engines es w')"

definition timer_shutdown_all :: "(string, 'w timer_engine_obj) hashmap \<Rightarrow> 'w \<Rightarrow> string option \<times> 'w" where
  "timer_shutdown_all m w = timer_shutdown_engines (hm_values m) w"

section \<open>Middleware order\<close>

definition http_mw_sorted :: "(string, 'r http_middleware) hashmap \<Rightarrow> 'r http_middleware list" where
  "http_mw_sorted m = sort_key hmw_order (hm_values m)"

fun apply_chain :: "'r http_middleware list \<Rightarrow> 'r \<Rightarrow> 'r res" where
  "apply_chain [] router = Ok router"
| "apply_chain (mw # mws) router = bind_res (hmw_apply mw router) (apply_chain mws)"

definition http_mw_apply_all :: "(string, 'r http_middleware) hashmap \<Rightarrow> 'r \<Rightarrow> 'r res" where
  "http_mw_apply_all m router = apply_chain (http_mw_sorted m) router"

text \<open>TCP middleware runs on the state \<open>'w\<close> of the process; \<open>'c\<close> is the connection's context.\<close>

record ('c, 'w) tcp_middleware =
  tmw_name :: string
  tmw_order :: int
  tmw_on_connect :: "'c \<Rightarrow> 'w \<Rightarrow> unit res \<times> 'w"
  tmw_on_inbound :: "'c \<Rightarrow> bytes \<Rightarrow> 'w \<Rightarrow> bytes option res \<times> 'w"
  tmw_on_outbound :: "'c \<Rightarrow> bytes \<Rightarrow> 'w \<Rightarrow> bytes option res \<times> 'w"
  tmw_on_disconnect :: "'c \<Rightarrow> 'w \<Rightarrow> 'w"

definition tcp_mw_register ::
  "('c, 'w) tcp_middleware \<Rightarrow> (string, ('c, 'w) tcp_middleware) hashmap \<Rightarrow>
     unit res \<times> (string, ('c, 'w) tcp_middleware) hashmap" where
  "tcp_mw_register = register_named tmw_name (\<lambda>n. ''tcp middleware '' @ quoted n @ '' already registered'')"

definition tcp_mw_sorted :: "(string, ('c, 'w) tcp_middleware) hashmap \<Rightarrow> ('c, 'w) tcp_middleware list" where
  "tcp_mw_sorted m = sort_key tmw_order (hm_values m)"

definition tcp_mw_sorted_rev :: "(string, ('c, 'w) tcp_middleware) hashmap \<Rightarrow> ('c, 'w) tcp_middleware list" where
  "tcp_mw_sorted_rev m = sort_key (\<lambda>mw. - tmw_order mw) (hm_values m)"

section \<open>Codecs\<close>

record 'd codec_registry =
  cr_codecs :: "'d codec list"
  cr_name_index :: "string \<rightharpoonup> nat"
  cr_content_type_index :: "string \<rightharpoonup> nat"

definition codec_registry_new :: "'d codec_registry" where
  "codec_registry_new = \<lparr>cr_codecs = [], cr_name_index = Map.empty, cr_content_type_index = Map.empty\<rparr>"

definition codec_register :: "'d codec \<Rightarrow> 'd codec_registry \<Rightarrow> unit res \<times> 'd codec_registry" where
  "codec_register c r =
     (if cr_name_index r (cd_name c) \<noteq> None
      then (Err PluginAlreadyRegistered (''codec '' @ quoted (cd_name c) @ '' is already registered''), r)
      else (let idx = length (cr_codecs r)
            in (Ok (), r\<lparr>cr_name_index := (cr_name_index r)(cd_name c \<mapsto> idx),
                         cr_content_type_index := (cr_content_type_index r)(cd_content_type c \<mapsto> idx),
                         cr_codecs := cr_codecs r @ [c]\<rparr>)))"

text \<open>\<open>self.codecs[idx]\<close> panics when the index is out of bounds.\<close>

definition codec_at :: "'d codec_registry \<Rightarrow> nat option \<Rightarrow> 'd codec option res" where
  "codec_at r i =
     (case i of None \<Rightarrow> Ok None
      | Some idx \<Rightarrow> if idx < length (cr_codecs r) then Ok (Some (cr_codecs r ! idx))
                   else Inl (Panic ''index out of bounds''))"

definition codec_get_by_name :: "'d codec_registry \<Rightarrow> string \<Rightarrow> 'd codec option res" where
  "codec_get_by_name r n = codec_at r (cr_name_index r n)"

definition codec_get_by_content_type :: "'d codec_registry \<Rightarrow> string \<Rightarrow> 'd codec option res" where
  "codec_get_by_content_type r ct = codec_at r (cr_content_type_index r ct)"

definition codec_list_names :: "'d codec_registry \<Rightarrow> string list" where
  "codec_list_names r = map cd_name (cr_codecs r)"

section \<open>The contract\<close>

locale named_registry =
  fixes empty :: 'r
    and register :: "'a \<Rightarrow> 'r \<Rightarrow> unit res \<times> 'r"
    and lookup :: "'r \<Rightarrow> string \<Rightarrow> 'a option"
    and name_of :: "'a \<Rightarrow> string"
    and inv :: "'r \<Rightarrow> bool"
  assumes inv_empty: "inv empty"
    and inv_register: "inv r \<Longrightarrow> inv (snd (register a r))"
    and lookup_empty: "lookup empty k = None"
    and register_new:
      "inv r \<Longrightarrow> lookup r (name_of a) = None \<Longrightarrow>
         fst (register a r) = Ok () \<and>
         (\<forall>k. lookup (snd (register a r)) k = (if k = name_of a then Some a else lookup r k))"
    and register_dup:
      "inv r \<Longrightarrow> lookup r (name_of a) \<noteq> None \<Longrightarrow>
         (\<exists>m. fst (register a r) = Err PluginAlreadyRegistered m) \<and> snd (register a r) = r"
begin

definition register_all :: "'a list \<Rightarrow> 'r \<Rightarrow> 'r" where
  "register_all xs r = fold (\<lambda>a r. snd (register a r)) xs r"

lemma inv_register_all: "inv r \<Longrightarrow> inv (register_all xs r)"
  by (induction xs arbitrary: r) (simp_all add: register_all_def inv_register)

lemma lookup_register:
  "inv r \<Longrightarrow> lookup (snd (register a r)) k =
     (if k = name_of a \<and> lookup r k = None then Some a else lookup r k)"
  using register_new [of r a] register_dup [of r a] by (cases "lookup r (name_of a)") auto

lemma lookup_register_all:
  "inv r \<Longrightarrow> lookup (register_all xs r) k =
     (case lookup r k of Some a \<Rightarrow> Some a | None \<Rightarrow> find (\<lambda>a. name_of a = k) xs)"
proof (induction xs arbitrary: r)
  case Nil
  then show ?case by (simp add: register_all_def split: option.splits)
next
  case (Cons x xs)
  then show ?case
    using Cons.IH [OF inv_register [OF Cons.prems, of x]]
    by (auto simp: register_all_def lookup_register [OF Cons.prems] split: option.splits)
qed

text \<open>The first registration of a name wins, and it is the only one that succeeds.\<close>

lemma first_wins:
  "lookup (register_all xs empty) k = find (\<lambda>a. name_of a = k) xs"
  using lookup_register_all [OF inv_empty] by (simp add: lookup_empty)

lemma register_succeeds_iff:
  "fst (register a (register_all xs empty)) = Ok () \<longleftrightarrow> name_of a \<notin> name_of ` set xs"
proof -
  have inv: "inv (register_all xs empty)" by (rule inv_register_all [OF inv_empty])
  have "lookup (register_all xs empty) (name_of a) = None \<longleftrightarrow> name_of a \<notin> name_of ` set xs"
    by (auto simp: first_wins find_None_iff image_iff)
  then show ?thesis
    using register_new [OF inv, of a] register_dup [OF inv, of a] by fastforce
qed

end

lemma named_registry_hashmap: "named_registry [] (register_named nm msg) hm_get nm (\<lambda>_. True)"
  by unfold_locales (auto simp: register_named_def hm_contains_def Let_def)

interpretation transforms: named_registry "[]" transform_register hm_get bt_name "\<lambda>_. True"
  unfolding transform_register_def by (rule named_registry_hashmap)

interpretation compressors: named_registry "[]" compressor_register hm_get cp_name "\<lambda>_. True"
  unfolding compressor_register_def by (rule named_registry_hashmap)

interpretation http_mws: named_registry "[]" http_mw_register hm_get hmw_name "\<lambda>_. True"
  unfolding http_mw_register_def by (rule named_registry_hashmap)

interpretation tcp_mws: named_registry "[]" tcp_mw_register hm_get tmw_name "\<lambda>_. True"
  unfolding tcp_mw_register_def by (rule named_registry_hashmap)

interpretation scripts: named_registry "[]" script_register hm_get se_name "\<lambda>_. True"
  unfolding script_register_def by (rule named_registry_hashmap)

interpretation timers: named_registry "[]" timer_register hm_get teo_name "\<lambda>_. True"
  unfolding timer_register_def by (rule named_registry_hashmap)

definition codec_inv :: "'d codec_registry \<Rightarrow> bool" where
  "codec_inv r \<longleftrightarrow>
     (\<forall>n i. cr_name_index r n = Some i \<longrightarrow> i < length (cr_codecs r) \<and> cd_name (cr_codecs r ! i) = n) \<and>
     (\<forall>c i. cr_content_type_index r c = Some i \<longrightarrow> i < length (cr_codecs r) \<and> cd_content_type (cr_codecs r ! i) = c)"

definition codec_lookup :: "'d codec_registry \<Rightarrow> string \<Rightarrow> 'd codec option" where
  "codec_lookup r n = map_option (\<lambda>i. cr_codecs r ! i) (cr_name_index r n)"

lemma codec_inv_new: "codec_inv codec_registry_new"
  by (simp add: codec_inv_def codec_registry_new_def)

lemma codec_inv_register:
  assumes "codec_inv r"
  shows "codec_inv (snd (codec_register a r))"
proof -
  have "i < Suc (length (cr_codecs r)) \<and> cd_name ((cr_codecs r @ [a]) ! i) = n"
    if "((cr_name_index r)(cd_name a \<mapsto> length (cr_codecs r))) n = Some i" for n i
    using that assms by (auto simp: codec_inv_def nth_append less_Suc_eq split: if_splits)
  moreover have "i < Suc (length (cr_codecs r)) \<and> cd_content_type ((cr_codecs r @ [a]) ! i) = c"
    if "((cr_content_type_index r)(cd_content_type a \<mapsto> length (cr_codecs r))) c = Some i" for c i
    using that assms by (auto simp: codec_inv_def nth_append less_Suc_eq split: if_splits)
  ultimately show ?thesis
    using assms unfolding codec_register_def by (simp add: Let_def codec_inv_def del: fun_upd_apply)
qed

lemma codec_register_new:
  assumes "codec_inv r" "codec_lookup r (cd_name a) = None"
  shows "fst (codec_register a r) = Ok () \<and>
    (\<forall>k. codec_lookup (snd (codec_register a r)) k = (if k = cd_name a then Some a else codec_lookup r k))"
proof -
  have none: "cr_name_index r (cd_name a) = None" using assms(2) by (simp add: codec_lookup_def)
  have "codec_lookup (snd (codec_register a r)) k = (if k = cd_name a then Some a else codec_lookup r k)" for k
    using assms(1) none
    by (cases "cr_name_index r k") (auto simp: codec_register_def codec_lookup_def codec_inv_def Let_def nth_append)
  with none show ?thesis by (simp add: codec_register_def Let_def)
qed

interpretation codecs: named_registry codec_registry_new codec_register codec_lookup cd_name codec_inv
proof unfold_locales
  show "codec_lookup codec_registry_new k = None" for k
    by (simp add: codec_lookup_def codec_registry_new_def)
  show "(\<exists>m. fst (codec_register a r) = Err PluginAlreadyRegistered m) \<and> snd (codec_register a r) = r"
    if "codec_inv r" "codec_lookup r (cd_name a) \<noteq> None" for r and a
    using that by (auto simp: codec_register_def codec_lookup_def)
qed (rule codec_inv_new codec_inv_register codec_register_new; assumption?)+

lemma codec_get_by_name_ok: "codec_inv r \<Longrightarrow> codec_get_by_name r n = Ok (codec_lookup r n)"
  by (auto simp: codec_get_by_name_def codec_at_def codec_lookup_def codec_inv_def split: option.splits)

section \<open>Lemmas on the middleware order\<close>

lemma sort_key_unique:
  assumes "mset xs = mset ys" "distinct (map f xs)"
  shows "sort_key f xs = sort_key f ys"
proof (rule sort_key_inj_key_eq)
  show "mset xs = mset (sort_key f ys)" using assms(1) by simp
  show "inj_on f (set xs)" using assms(2) by (simp add: distinct_map)
  show "sorted (map f (sort_key f ys))" by simp
qed

lemma sort_key_neg_rev:
  assumes "distinct (map f xs)"
  shows "sort_key (\<lambda>x. - f x :: int) xs = rev (sort_key f xs)"
proof -
  have d: "distinct (map f (sort_key f xs))"
    using assms by (metis mset_eq_imp_distinct_iff mset_map mset_sort)
  have "sorted (map (\<lambda>x. - f x) (rev (sort_key f xs)))"
  proof -
    have "sorted_wrt (\<lambda>x y. f x \<le> f y) (sort_key f xs)"
      using sorted_sort_key [of f xs] by (simp add: sorted_map)
    then have "sorted_wrt (\<lambda>x y. f y \<le> f x) (rev (sort_key f xs))" by (simp add: sorted_wrt_rev)
    then show ?thesis by (simp add: sorted_map)
  qed
  then have "sort_key (\<lambda>x. - f x) (rev (sort_key f xs)) = rev (sort_key f xs)"
    by (simp add: sorted_sort_id sort_key_id_if_sorted)
  moreover have "sort_key (\<lambda>x. - f x) xs = sort_key (\<lambda>x. - f x) (rev (sort_key f xs))"
  proof (rule sort_key_unique)
    show "mset xs = mset (rev (sort_key f xs))" by simp
    have "map (\<lambda>x. - f x) xs = map uminus (map f xs)" by simp
    then show "distinct (map (\<lambda>x. - f x) xs)"
      using assms by (simp add: distinct_map inj_on_def)
  qed
  ultimately show ?thesis by simp
qed

section \<open>Properties\<close>

text \<open>
  In every registry the first registration of a name wins. After any sequence of
  registrations into an empty registry, looking a name up gives the first component registered
  under it; for codecs the lookup through the index never goes out of bounds.
\<close>

theorem registries_first_wins:
  "hm_get (fold (\<lambda>a r. snd (transform_register a r)) ts []) k = find (\<lambda>a. bt_name a = k) ts \<and>
   hm_get (fold (\<lambda>a r. snd (compressor_register a r)) cs []) k = find (\<lambda>a. cp_name a = k) cs \<and>
   hm_get (fold (\<lambda>a r. snd (http_mw_register a r)) hs []) k = find (\<lambda>a. hmw_name a = k) hs \<and>
   hm_get (fold (\<lambda>a r. snd (tcp_mw_register a r)) ms []) k = find (\<lambda>a. tmw_name a = k) ms \<and>
   hm_get (fold (\<lambda>a r. snd (script_register a r)) ss []) k = find (\<lambda>a. se_name a = k) ss \<and>
   hm_get (fold (\<lambda>a r. snd (timer_register a r)) es []) k = find (\<lambda>a. teo_name a = k) es \<and>
   codec_get_by_name (fold (\<lambda>a r. snd (codec_register a r)) ds codec_registry_new) k
     = Ok (find (\<lambda>a. cd_name a = k) ds)"
proof -
  have "codec_inv (fold (\<lambda>a r. snd (codec_register a r)) ds codec_registry_new)"
    using codecs.inv_register_all [OF codec_inv_new, of ds] by (simp add: codecs.register_all_def)
  then show ?thesis
    using transforms.first_wins [of ts k] compressors.first_wins [of cs k] http_mws.first_wins [of hs k]
      tcp_mws.first_wins [of ms k] scripts.first_wins [of ss k] timers.first_wins [of es k]
      codecs.first_wins [of ds k]
    by (simp add: transforms.register_all_def compressors.register_all_def http_mws.register_all_def
        tcp_mws.register_all_def scripts.register_all_def timers.register_all_def codecs.register_all_def
        codec_get_by_name_ok)
qed

text \<open>
  The order of middleware does not depend on the iteration order of the hash map. When the
  declared orders differ, two enumerations of the same registry give the same chain, applied in
  ascending order; and the TCP registry's descending list is the reverse of its ascending one.
\<close>

theorem middleware_order_deterministic:
  assumes "mset m = mset m'" "distinct (map hmw_order (hm_values m))"
    "mset n = mset n'" "distinct (map tmw_order (hm_values n))"
  shows "http_mw_apply_all m router = http_mw_apply_all m' router \<and>
    sorted (map hmw_order (http_mw_sorted m)) \<and>
    tcp_mw_sorted n = tcp_mw_sorted n' \<and> tcp_mw_sorted_rev n = rev (tcp_mw_sorted n')"
proof -
  have ms: "mset (hm_values m) = mset (hm_values m')" "mset (hm_values n) = mset (hm_values n')"
    using assms(1,3) by (simp_all add: hm_values_def)
  have "http_mw_sorted m = http_mw_sorted m'" "tcp_mw_sorted n = tcp_mw_sorted n'"
    unfolding http_mw_sorted_def tcp_mw_sorted_def
    using sort_key_unique [OF ms(1) assms(2)] sort_key_unique [OF ms(2) assms(4)] by auto
  moreover have "tcp_mw_sorted_rev n = rev (tcp_mw_sorted n)"
    unfolding tcp_mw_sorted_rev_def tcp_mw_sorted_def by (rule sort_key_neg_rev [OF assms(4)])
  ultimately show ?thesis by (simp add: http_mw_apply_all_def http_mw_sorted_def)
qed

theorem middleware_order_deterministic_witness:
  "http_mw_apply_all [(''b'', \<lparr>hmw_name = ''b'', hmw_order = 20, hmw_apply = \<lambda>r. Ok (r @ [2])\<rparr>),
      (''a'', \<lparr>hmw_name = ''a'', hmw_order = 10, hmw_apply = \<lambda>r. Ok (r @ [1])\<rparr>)] [] = Ok [1 :: nat, 2]"
proof -
  let ?a = "\<lparr>hmw_name = ''a'', hmw_order = 10, hmw_apply = \<lambda>r. Ok (r @ [1 :: nat])\<rparr>"
  let ?b = "\<lparr>hmw_name = ''b'', hmw_order = 20, hmw_apply = \<lambda>r. Ok (r @ [2 :: nat])\<rparr>"
  have "http_mw_apply_all [(''b'', ?b), (''a'', ?a)] [] = http_mw_apply_all [(''a'', ?a), (''b'', ?b)] []"
    by (rule middleware_order_deterministic [of _ _ "[] :: (string, (unit, unit) tcp_middleware) hashmap" "[]", THEN conjunct1])
      (simp_all add: hm_values_def)
  then show ?thesis by (simp add: http_mw_apply_all_def http_mw_sorted_def hm_values_def)
qed

section \<open>Limits\<close>

text \<open>Middleware of equal order keeps the iteration order of the hash map in both directions, so the
  descending list is then not the reverse of the ascending one.\<close>

definition idle_mw :: "string \<Rightarrow> int \<Rightarrow> (unit, unit) tcp_middleware" where
  "idle_mw n ord =
     \<lparr>tmw_name = n, tmw_order = ord, tmw_on_connect = \<lambda>_ w. (Ok (), w), tmw_on_inbound = \<lambda>_ d w. (Ok (Some d), w),
      tmw_on_outbound = \<lambda>_ d w. (Ok (Some d), w), tmw_on_disconnect = \<lambda>_ w. w\<rparr>"

lemma equal_orders_not_reversed:
  "map tmw_name (tcp_mw_sorted [(''a'', idle_mw ''a'' 5), (''b'', idle_mw ''b'' 5)]) = [''a'', ''b''] \<and>
   map tmw_name (tcp_mw_sorted_rev [(''a'', idle_mw ''a'' 5), (''b'', idle_mw ''b'' 5)]) = [''a'', ''b'']"
  by (simp add: tcp_mw_sorted_def tcp_mw_sorted_rev_def hm_values_def idle_mw_def)

end
