(* ===== verification/Tcp.thy ===== *)
theory Tcp
  imports Registries
begin

text \<open>
  The TCP server of \<open>rinfra-plugins/src/net/tcp.rs\<close>: the transform pipeline and the handling of one
  connection, with the middleware chains around the handler (the traits of
  \<open>rinfra-core/src/net/tcp.rs\<close>). What the frame decoder and the shutdown signal deliver is a list of
  events, in the order the biased \<open>select!\<close> takes them; the length-delimited codec itself is the
  library \<open>tokio_util\<close> and only appears as these events and as \<open>send\<close>. The world \<open>'w\<close> is the state of
  middleware, handler and socket. A panic ends the task where it happens (\<open>Crash\<close>). The gauge of
  active connections is the process-wide \<open>TCP_CONNECTIONS_ACTIVE\<close>.
\<close>

section \<open>The server\<close>

record ('c, 'w) tcp_handler =
  th_on_connect :: "'c \<Rightarrow> 'w \<Rightarrow> unit res \<times> 'w"
  th_on_message :: "'c \<Rightarrow> bytes \<Rightarrow> 'w \<Rightarrow> bytes option res \<times> 'w"
  th_on_disconnect :: "'c \<Rightarrow> 'w \<Rightarrow> unit res \<times> 'w"

record tcp_context =
  tc_peer :: string
  tc_listener_name :: string

record 'w tcp_server =
  ts_bind_addr :: string
  ts_listener_name :: string
  ts_handler :: "(tcp_context, 'w) tcp_handler"
  ts_max_frame_size :: nat
  ts_pipeline :: "byte_transform list"
  ts_middlewares :: "(tcp_context, 'w) tcp_middleware list"

definition tcp_server_new :: "string \<Rightarrow> string \<Rightarrow> (tcp_context, 'w) tcp_handler \<Rightarrow> 'w tcp_server" where
  "tcp_server_new addr listener h =
     \<lparr>ts_bind_addr = addr, ts_listener_name = listener, ts_handler = h, ts_max_frame_size = 65536,
      ts_pipeline = [], ts_middlewares = []\<rparr>"

definition with_max_frame_size :: "nat \<Rightarrow> 'w tcp_server \<Rightarrow> 'w tcp_server" where
  "with_max_frame_size n s = s\<lparr>ts_max_frame_size := n\<rparr>"

definition with_pipeline :: "byte_transform list \<Rightarrow> 'w tcp_server \<Rightarrow> 'w tcp_server" where
  "with_pipeline p s = s\<lparr>ts_pipeline := p\<rparr>"

definition with_middlewares :: "(tcp_context, 'w) tcp_middleware list \<Rightarrow> 'w tcp_server \<Rightarrow> 'w tcp_server" where
  "with_middlewares mws s = s\<lparr>ts_middlewares := sort_key tmw_order mws\<rparr>"

section \<open>The pipeline\<close>

fun decode_pipeline :: "byte_transform list \<Rightarrow> bytes \<Rightarrow> bytes res" where
  "decode_pipeline [] d = Ok d"
| "decode_pipeline (t # ts) d = bind_res (bt_decode t d) (decode_pipeline ts)"

text \<open>The transforms are applied from the last to the first.\<close>

fun encode_steps :: "byte_transform list \<Rightarrow> bytes \<Rightarrow> bytes res" where
  "encode_steps [] d = Ok d"
| "encode_steps (t # ts) d = bind_res (bt_encode t d) (encode_steps ts)"

definition encode_pipeline :: "byte_transform list \<Rightarrow> bytes \<Rightarrow> bytes res" where
  "encode_pipeline p d = encode_steps (rev p) d"

section \<open>Middleware chains\<close>

text \<open>An error of a middleware drops the message; only a panic leaves the chain as a fault.\<close>

fun inbound_chain :: "'c \<Rightarrow> ('c, 'w) tcp_middleware list \<Rightarrow> bytes \<Rightarrow> 'w \<Rightarrow> (string + bytes option) \<times> 'w" where
  "inbound_chain ctx [] d w = (Inr (Some d), w)"
| "inbound_chain ctx (mw # mws) d w =
     (case tmw_on_inbound mw ctx d w of
        (Inr (Some d'), w') \<Rightarrow> inbound_chain ctx mws d' w'
      | (Inr None, w') \<Rightarrow> (Inr None, w')
      | (Inl (Fail e), w') \<Rightarrow> (Inr None, w')
      | (Inl (Panic m), w') \<Rightarrow> (Inl m, w'))"

fun outbound_steps :: "'c \<Rightarrow> ('c, 'w) tcp_middleware list \<Rightarrow> bytes \<Rightarrow> 'w \<Rightarrow> (string + bytes option) \<times> 'w" where
  "outbound_steps ctx [] d w = (Inr (Some d), w)"
| "outbound_steps ctx (mw # mws) d w =
     (case tmw_on_outbound mw ctx d w of
        (Inr (Some d'), w') \<Rightarrow> outbound_steps ctx mws d' w'
      | (Inr None, w') \<Rightarrow> (Inr None, w')
      | (Inl (Fail e), w') \<Rightarrow> (Inr None, w')
      | (Inl (Panic m), w') \<Rightarrow> (Inl m, w'))"

definition outbound_chain :: "'c \<Rightarrow> ('c, 'w) tcp_middleware list \<Rightarrow> bytes \<Rightarrow> 'w \<Rightarrow> (string + bytes option) \<times> 'w" where
  "outbound_chain ctx mws d w = outbound_steps ctx (rev mws) d w"

fun connect_chain :: "'c \<Rightarrow> ('c, 'w) tcp_middleware list \<Rightarrow> 'w \<Rightarrow> unit res \<times> 'w" where
  "connect_chain ctx [] w = (Ok (), w)"
| "connect_chain ctx (mw # mws) w =
     (case tmw_on_connect mw ctx w of
        (Inr _, w') \<Rightarrow> connect_chain ctx mws w'
      | (Inl e, w') \<Rightarrow> (Inl e, w'))"

definition disconnect_chain :: "'c \<Rightarrow> ('c, 'w) tcp_middleware list \<Rightarrow> 'w \<Rightarrow> 'w" where
  "disconnect_chain ctx mws w = fold (\<lambda>mw. tmw_on_disconnect mw ctx) (rev mws) w"

section \<open>A connection\<close>

datatype tcp_event = ShutdownSignal | Frame bytes | FrameError string | EndOfStream

datatype flow = Continue | Break | Crash string

definition handle_frame ::
  "'w tcp_server \<Rightarrow> (bytes \<Rightarrow> 'w \<Rightarrow> bool \<times> 'w) \<Rightarrow> tcp_context \<Rightarrow> bytes \<Rightarrow> 'w \<Rightarrow> flow \<times> 'w" where
  "handle_frame s send ctx raw w =
     (case decode_pipeline (ts_pipeline s) raw of
        Inl (Panic m) \<Rightarrow> (Crash m, w)
      | Inl (Fail e) \<Rightarrow> (Break, w)
      | Inr d \<Rightarrow>
          (case inbound_chain ctx (ts_middlewares s) d w of
             (Inl m, w1) \<Rightarrow> (Crash m, w1)
           | (Inr None, w1) \<Rightarrow> (Continue, w1)
           | (Inr (Some data), w1) \<Rightarrow>
               (case th_on_message (ts_handler s) ctx data w1 of
                  (Inl (Panic m), w2) \<Rightarrow> (Crash m, w2)
                | (Inl (Fail e), w2) \<Rightarrow> (Break, w2)
                | (Inr None, w2) \<Rightarrow> (Continue, w2)
                | (Inr (Some reply), w2) \<Rightarrow>
                    (case outbound_chain ctx (ts_middlewares s) reply w2 of
                       (Inl m, w3) \<Rightarrow> (Crash m, w3)
                     | (Inr None, w3) \<Rightarrow> (Continue, w3)
                     | (Inr (Some final_reply), w3) \<Rightarrow>
                         (case encode_pipeline (ts_pipeline s) final_reply of
                            Inl (Panic m) \<Rightarrow> (Crash m, w3)
                          | Inl (Fail e) \<Rightarrow> (Break, w3)
                          | Inr out \<Rightarrow>
                              (case send out w3 of (sent, w4) \<Rightarrow> (if sent then Continue else Break, w4)))))))"

text \<open>The loop over the events; no further event is the end of the stream.\<close>

fun tcp_loop ::
  "'w tcp_server \<Rightarrow> (bytes \<Rightarrow> 'w \<Rightarrow> bool \<times> 'w) \<Rightarrow> tcp_context \<Rightarrow> tcp_event list \<Rightarrow> 'w \<Rightarrow> string option \<times> 'w" where
  "tcp_loop s send ctx [] w = (None, w)"
| "tcp_loop s send ctx (ev # evs) w =
     (case ev of
        ShutdownSignal \<Rightarrow> (None, w)
      | FrameError e \<Rightarrow> (None, w)
      | EndOfStream \<Rightarrow> (None, w)
      | Frame raw \<Rightarrow>
          (case handle_frame s send ctx raw w of
             (Continue, w') \<Rightarrow> tcp_loop s send ctx evs w'
           | (Break, w') \<Rightarrow> (None, w')
           | (Crash m, w') \<Rightarrow> (Some m, w')))"

text \<open>The result: the panic that ended the task, the gauge, the world.\<close>

definition handle_tcp_connection ::
  "'w tcp_server \<Rightarrow> (bytes \<Rightarrow> 'w \<Rightarrow> bool \<times> 'w) \<Rightarrow> string \<Rightarrow> tcp_event list \<Rightarrow> int \<times> 'w \<Rightarrow> string option \<times> int \<times> 'w" where
  "handle_tcp_connection s send peer evs st =
     (let ctx = \<lparr>tc_peer = peer, tc_listener_name = ts_listener_name s\<rparr>;
          active = fst st + 1
      in case connect_chain ctx (ts_middlewares s) (snd st) of
           (Inl (Panic m), w1) \<Rightarrow> (Some m, active, w1)
         | (Inl (Fail e), w1) \<Rightarrow> (None, active - 1, w1)
         | (Inr _, w1) \<Rightarrow>
             (case th_on_connect (ts_handler s) ctx w1 of
                (Inl (Panic m), w2) \<Rightarrow> (Some m, active, w2)
              | (Inl (Fail e), w2) \<Rightarrow> (None, active - 1, w2)
              | (Inr _, w2) \<Rightarrow>
                  (case tcp_loop s send ctx evs w2 of
                     (Some m, w3) \<Rightarrow> (Some m, active, w3)
                   | (None, w3) \<Rightarrow>
                       (case th_on_disconnect (ts_handler s) ctx (disconnect_chain ctx (ts_middlewares s) w3) of
                          (Inl (Panic m), w4) \<Rightarrow> (Some m, active, w4)
                        | (_, w4) \<Rightarrow> (None, active - 1, w4)))))"

section \<open>Lemmas\<close>

lemma encode_steps_append: "encode_steps (xs @ ys) d = bind_res (encode_steps xs d) (encode_steps ys)"
  by (induction xs arbitrary: d) (simp_all add: bind_res_def split: sum.splits)

definition lossless :: "byte_transform \<Rightarrow> bool" where
  "lossless t \<longleftrightarrow> (\<forall>d e. bt_encode t d = Ok e \<longrightarrow> bt_decode t e = Ok d)"

lemma pipeline_inverse:
  "list_all lossless p \<Longrightarrow> encode_pipeline p d = Ok e \<Longrightarrow> decode_pipeline p e = Ok d"
proof (induction p arbitrary: d e)
  case Nil
  then show ?case by (simp add: encode_pipeline_def)
next
  case (Cons t p)
  from Cons.prems obtain x where x: "encode_pipeline p d = Ok x" "bt_encode t x = Ok e"
    by (auto simp: encode_pipeline_def encode_steps_append bind_res_Inr_iff)
  with Cons.prems(1) have "bt_decode t e = Ok x" by (auto simp: lossless_def)
  with Cons x show ?case by simp
qed

section \<open>Properties\<close>

text \<open>
  The pipeline is its own inverse across the wire. If every transform decodes what it
  encodes, then whatever a server's pipeline encodes, the same pipeline decodes to the original
  message: the transforms are undone in the opposite order.
\<close>

theorem pipeline_roundtrip:
  assumes "list_all lossless p" "encode_pipeline p d = Ok e"
  shows "decode_pipeline p e = Ok d"
  by (rule pipeline_inverse [OF assms])

theorem pipeline_roundtrip_witness:
  "decode_pipeline [\<lparr>bt_name = ''swap'', bt_decode = \<lambda>d. Ok (rev d), bt_encode = \<lambda>d. Ok (rev d)\<rparr>,
     \<lparr>bt_name = ''tag'', bt_decode = \<lambda>d. Ok (tl d), bt_encode = \<lambda>d. Ok (7 # d)\<rparr>] [3, 2, 7] = Ok [2, 3]"
proof -
  let ?p = "[\<lparr>bt_name = ''swap'', bt_decode = \<lambda>d. Ok (rev d), bt_encode = \<lambda>d. Ok (rev d)\<rparr>,
     \<lparr>bt_name = ''tag'', bt_decode = \<lambda>d. Ok (tl d), bt_encode = \<lambda>d. Ok (7 # d)\<rparr>]"
  have "list_all lossless ?p" by (auto simp: lossless_def)
  then show ?thesis by (rule pipeline_roundtrip) (simp add: encode_pipeline_def)
qed

text \<open>
  The gauge of active connections is balanced. Whatever the middleware, the handler, the
  frames and the socket do, a connection whose task does not panic leaves the gauge as it
  found it, also when the connection is rejected.
\<close>

theorem active_connections_balanced:
  assumes "fst (handle_tcp_connection s send peer evs (active, w)) = None"
  shows "fst (snd (handle_tcp_connection s send peer evs (active, w))) = active"
  using assms
  by (auto simp: handle_tcp_connection_def Let_def split: prod.splits sum.splits fault.splits option.splits)

definition echo_server :: "bytes list tcp_server" where
  "echo_server = tcp_server_new ''0.0.0.0:9'' ''echo''
     \<lparr>th_on_connect = \<lambda>_ w. (Ok (), w), th_on_message = \<lambda>_ d w. (Ok (Some d), w), th_on_disconnect = \<lambda>_ w. (Ok (), w)\<rparr>"

theorem active_connections_balanced_witness:
  "handle_tcp_connection echo_server (\<lambda>d w. (True, w @ [d])) ''peer'' [Frame [1], Frame [2], EndOfStream] (4, [])
   = (None, 4, [[1], [2]])"
proof -
  let ?r = "handle_tcp_connection echo_server (\<lambda>d w. (True, w @ [d])) ''peer'' [Frame [1], Frame [2], EndOfStream] (4, [])"
  have r: "fst ?r = None \<and> snd (snd ?r) = [[1], [2]]"
    by (simp add: handle_tcp_connection_def echo_server_def tcp_server_new_def handle_frame_def Let_def
        outbound_chain_def encode_pipeline_def disconnect_chain_def)
  with active_connections_balanced [of echo_server "\<lambda>d w. (True, w @ [d])" "''peer''" "[Frame [1], Frame [2], EndOfStream]" 4 "[]"]
  show ?thesis by (simp add: prod_eq_iff)
qed

section \<open>Limits\<close>

text \<open>A middleware that accepted a connection is not told when a later one, or the handler, rejects it:
  here the first middleware counts connections in the world, and its count stays up.\<close>

lemma rejected_connection_not_disconnected:
  "handle_tcp_connection
     (with_middlewares
        [\<lparr>tmw_name = ''count'', tmw_order = 1, tmw_on_connect = \<lambda>_ w. (Ok (), w + 1), tmw_on_inbound = \<lambda>_ d w. (Ok (Some d), w),
          tmw_on_outbound = \<lambda>_ d w. (Ok (Some d), w), tmw_on_disconnect = \<lambda>_ w. w - 1\<rparr>]
        (tcp_server_new ''a'' ''l''
           \<lparr>th_on_connect = \<lambda>_ w. (Err Internal ''full'', w), th_on_message = \<lambda>_ d w. (Ok None, w),
            th_on_disconnect = \<lambda>_ w. (Ok (), w)\<rparr>))
     (\<lambda>_ w. (True, w)) ''peer'' [] (0, 0 :: int) = (None, 0, 1)"
  by (simp add: handle_tcp_connection_def with_middlewares_def tcp_server_new_def)

end
