(* ===== verification/Message_Bus.thy ===== *)
theory Message_Bus
  imports Errors
begin

text \<open>
  The in-memory message bus: messages (\<open>rinfra-core/src/mq/mod.rs\<close>), the bus with its round robin
  (\<open>rinfra-plugins/src/mq/memory.rs\<close>) and the receiver (\<open>rinfra-plugins/src/mq/receiver.rs\<close>). A bounded
  channel of tokio is a queue with a flag that its receiver was dropped; channels are known by
  numbers. \<open>do_publish\<close> holds the bus's mutexes to its end, so a publish is one atomic step; when the
  chosen channel is full it waits inside, which is the result \<open>None\<close>. Ids and times are arguments.
\<close>

section \<open>Messages\<close>

record message =
  msg_id :: string
  msg_topic :: string
  msg_payload :: bytes
  msg_headers :: "(string \<times> string) list"
  msg_created_at :: u64

definition message_new :: "string \<Rightarrow> u64 \<Rightarrow> string \<Rightarrow> bytes \<Rightarrow> message" where
  "message_new uuid now_ms topic payload =
     \<lparr>msg_id = uuid, msg_topic = topic, msg_payload = payload, msg_headers = [], msg_created_at = now_ms\<rparr>"

definition message_with_headers :: "string \<Rightarrow> u64 \<Rightarrow> string \<Rightarrow> bytes \<Rightarrow> (string \<times> string) list \<Rightarrow> message" where
  "message_with_headers uuid now_ms topic payload headers =
     (message_new uuid now_ms topic payload)\<lparr>msg_headers := headers\<rparr>"

section \<open>The bus\<close>

record channel =
  ch_queue :: "message list"
  ch_closed :: bool

record memory_bus =
  mb_senders :: "string \<rightharpoonup> nat list"
  mb_capacity :: nat
  mb_round_robin :: "string \<rightharpoonup> nat"
  mb_channels :: "nat \<Rightarrow> channel"
  mb_next :: nat

definition bus_new :: "nat \<Rightarrow> memory_bus" where
  "bus_new capacity =
     \<lparr>mb_senders = Map.empty, mb_capacity = capacity, mb_round_robin = Map.empty,
      mb_channels = (\<lambda>_. \<lparr>ch_queue = [], ch_closed = True\<rparr>), mb_next = 0\<rparr>"

definition push_message :: "nat \<Rightarrow> message \<Rightarrow> memory_bus \<Rightarrow> memory_bus" where
  "push_message c m b =
     b\<lparr>mb_channels := (mb_channels b)(c := (mb_channels b c)\<lparr>ch_queue := ch_queue (mb_channels b c) @ [m]\<rparr>)\<rparr>"

definition do_publish :: "message \<Rightarrow> memory_bus \<Rightarrow> unit res option \<times> memory_bus" where
  "do_publish m b =
     (case mb_senders b (msg_topic m) of
        None \<Rightarrow> (Some (Ok ()), b)
      | Some senders \<Rightarrow>
          (let open_senders = filter (\<lambda>c. \<not> ch_closed (mb_channels b c)) senders;
               b1 = b\<lparr>mb_senders := (mb_senders b)(msg_topic m \<mapsto> open_senders)\<rparr>
           in if open_senders = [] then (Some (Ok ()), b1)
              else (let idx = (case mb_round_robin b1 (msg_topic m) of Some i \<Rightarrow> i | None \<Rightarrow> 0) mod length open_senders;
                        b2 = b1\<lparr>mb_round_robin := (mb_round_robin b1)(msg_topic m \<mapsto> idx)\<rparr>;
                        c = open_senders ! idx
                    in if mb_capacity b2 \<le> length (ch_queue (mb_channels b2 c)) then (None, b2)
                       else (let b3 = push_message c m b2
                             in (Some (Ok ()),
                                 b3\<lparr>mb_round_robin := (mb_round_robin b3)(msg_topic m \<mapsto> (idx + 1) mod length open_senders)\<rparr>)))))"

definition publish :: "string \<Rightarrow> u64 \<Rightarrow> string \<Rightarrow> bytes \<Rightarrow> memory_bus \<Rightarrow> unit res option \<times> memory_bus" where
  "publish uuid now_ms topic payload b = do_publish (message_new uuid now_ms topic payload) b"

definition publish_with_headers ::
  "string \<Rightarrow> u64 \<Rightarrow> string \<Rightarrow> bytes \<Rightarrow> (string \<times> string) list \<Rightarrow> memory_bus \<Rightarrow> unit res option \<times> memory_bus" where
  "publish_with_headers uuid now_ms topic payload headers b =
     do_publish (message_with_headers uuid now_ms topic payload headers) b"

text \<open>\<open>mpsc::channel\<close> panics on a capacity of zero. The result is the receiver's channel.\<close>

definition subscribe :: "string \<Rightarrow> memory_bus \<Rightarrow> nat res \<times> memory_bus" where
  "subscribe topic b =
     (if mb_capacity b = 0 then (Inl (Panic ''mpsc bounded channel requires buffer > 0''), b)
      else (let c = mb_next b;
                senders = (case mb_senders b topic of Some cs \<Rightarrow> cs | None \<Rightarrow> [])
            in (Ok c,
                b\<lparr>mb_next := Suc c, mb_channels := (mb_channels b)(c := \<lparr>ch_queue = [], ch_closed = False\<rparr>),
                  mb_senders := (mb_senders b)(topic \<mapsto> senders @ [c])\<rparr>)))"

text \<open>\<open>recv\<close> on a channel that has a message; with none it waits (\<open>None\<close>).\<close>

definition recv :: "nat \<Rightarrow> memory_bus \<Rightarrow> message option \<times> memory_bus" where
  "recv c b =
     (case ch_queue (mb_channels b c) of
        [] \<Rightarrow> (None, b)
      | m # ms \<Rightarrow> (Some m, b\<lparr>mb_channels := (mb_channels b)(c := (mb_channels b c)\<lparr>ch_queue := ms\<rparr>)\<rparr>))"

definition drop_receiver :: "nat \<Rightarrow> memory_bus \<Rightarrow> memory_bus" where
  "drop_receiver c b =
     b\<lparr>mb_channels := (mb_channels b)(c := (mb_channels b c)\<lparr>ch_closed := True\<rparr>)\<rparr>"

text \<open>What the trait gives to buses that do not say otherwise, as the one in memory for the last three:
  headers are dropped, and there is nothing to acknowledge, probe or close.\<close>

definition default_publish_with_headers ::
  "(string \<Rightarrow> bytes \<Rightarrow> 's \<Rightarrow> 'r \<times> 's) \<Rightarrow> string \<Rightarrow> bytes \<Rightarrow> (string \<times> string) list \<Rightarrow> 's \<Rightarrow> 'r \<times> 's" where
  "default_publish_with_headers pub topic payload headers = pub topic payload"

definition default_ack :: "string \<Rightarrow> string \<Rightarrow> unit res" where
  "default_ack topic mid = Ok ()"

definition default_bus_health :: "bool res" where
  "default_bus_health = Ok True"

definition default_bus_close :: "unit res" where
  "default_bus_close = Ok ()"

section \<open>Round robin\<close>

definition publish_all :: "message list \<Rightarrow> memory_bus \<Rightarrow> memory_bus" where
  "publish_all ms b = fold (\<lambda>m b. snd (do_publish m b)) ms b"

lemma publish_all_snoc: "publish_all (ms @ [m]) b = snd (do_publish m (publish_all ms b))"
  by (simp add: publish_all_def)

text \<open>The messages a round robin over \<open>k\<close> receivers gives to receiver \<open>j\<close>.\<close>

definition share :: "nat \<Rightarrow> nat \<Rightarrow> 'a list \<Rightarrow> 'a list" where
  "share k j xs = map (\<lambda>i. xs ! i) (filter (\<lambda>i. i mod k = j) [0..<length xs])"

lemma share_snoc: "share k j (xs @ [x]) = share k j xs @ (if length xs mod k = j then [x] else [])"
proof -
  have "map (\<lambda>i. (xs @ [x]) ! i) (filter (\<lambda>i. i mod k = j) [0..<length xs]) =
    map (\<lambda>i. xs ! i) (filter (\<lambda>i. i mod k = j) [0..<length xs])"
    by (auto simp: nth_append)
  then show ?thesis by (simp add: share_def)
qed

lemma share_length_le: "length (share k j xs) \<le> length xs"
  using length_filter_le [of "\<lambda>i. i mod k = j" "[0..<length xs]"] by (simp add: share_def)

lemma round_robin_run:
  assumes b: "mb_senders b topic = Some cs" "distinct cs" "cs \<noteq> []" "mb_round_robin b topic = None"
    and chans: "\<And>c. c \<in> set cs \<Longrightarrow> mb_channels b c = \<lparr>ch_queue = [], ch_closed = False\<rparr>"
    and top: "\<And>m. m \<in> set ms \<Longrightarrow> msg_topic m = topic" and cap: "length ms \<le> mb_capacity b"
  shows "mb_senders (publish_all ms b) topic = Some cs \<and> mb_capacity (publish_all ms b) = mb_capacity b \<and>
    (case mb_round_robin (publish_all ms b) topic of Some i \<Rightarrow> i | None \<Rightarrow> 0) = length ms mod length cs \<and>
    (\<forall>j < length cs. mb_channels (publish_all ms b) (cs ! j) = \<lparr>ch_queue = share (length cs) j ms, ch_closed = False\<rparr>)"
  using top cap
proof (induction ms rule: rev_induct)
  case Nil
  then show ?case using b chans by (simp add: publish_all_def share_def)
next
  case (snoc m ms)
  let ?b = "publish_all ms b" and ?k = "length cs"
  from snoc have IH: "mb_senders ?b topic = Some cs" "mb_capacity ?b = mb_capacity b"
    "(case mb_round_robin ?b topic of Some i \<Rightarrow> i | None \<Rightarrow> 0) = length ms mod ?k"
    "\<And>j. j < ?k \<Longrightarrow> mb_channels ?b (cs ! j) = \<lparr>ch_queue = share ?k j ms, ch_closed = False\<rparr>"
    by auto
  have k: "0 < ?k" using b(3) by simp
  let ?i = "length ms mod ?k"
  have i: "?i < ?k" using k by simp
  have open_all: "filter (\<lambda>c. \<not> ch_closed (mb_channels ?b c)) cs = cs"
    using IH(4) by (metis (no_types, lifting) channel.select_convs(2) filter_True in_set_conv_nth)
  have room: "length (share ?k ?i ms) < mb_capacity b"
    using share_length_le [of ?k ?i ms] snoc.prems(2) by simp
  have topic: "msg_topic m = topic" using snoc.prems(1) by simp
  have pub: "snd (do_publish m ?b) =
      (push_message (cs ! ?i) m (?b\<lparr>mb_senders := (mb_senders ?b)(topic \<mapsto> cs),
         mb_round_robin := (mb_round_robin ?b)(topic \<mapsto> ?i)\<rparr>))
        \<lparr>mb_round_robin := (mb_round_robin ?b)(topic \<mapsto> (?i + 1) mod ?k)\<rparr>"
    using IH room b(3) i by (simp add: do_publish_def topic open_all Let_def push_message_def)
  have "(?i + 1) mod ?k = length (ms @ [m]) mod ?k" by (simp add: mod_Suc_eq)
  moreover have "mb_channels (snd (do_publish m ?b)) (cs ! j) =
      \<lparr>ch_queue = share ?k j (ms @ [m]), ch_closed = False\<rparr>" if "j < ?k" for j
    using IH(4) [OF that] IH(4) [OF i] nth_eq_iff_index_eq [OF b(2) that i]
    by (auto simp: pub push_message_def share_snoc)
  ultimately show ?case
    using IH(1,2) by (simp add: publish_all_snoc pub push_message_def)
qed

lemma share_partition:
  assumes "0 < k"
  shows "mset xs = (\<Sum>j \<in> {..<k}. mset (share k j xs))"
proof (induction xs rule: rev_induct)
  case Nil
  then show ?case by (simp add: share_def)
next
  case (snoc x xs)
  have "(\<Sum>j \<in> {..<k}. mset (share k j (xs @ [x]))) =
      (\<Sum>j \<in> {..<k}. mset (share k j xs)) + (\<Sum>j \<in> {..<k}. if length xs mod k = j then {#x#} else {#})"
  proof -
    have "mset (share k j (xs @ [x])) = mset (share k j xs) + (if length xs mod k = j then {#x#} else {#})" for j
      by (simp add: share_snoc)
    then show ?thesis by (simp only: sum.distrib)
  qed
  also have "(\<Sum>j \<in> {..<k}. if length xs mod k = j then {#x#} else {#}) = {#x#}"
    using assms by simp
  finally show ?case using snoc by simp
qed

section \<open>Properties\<close>

text \<open>
  C20: point-to-point delivery in turn. When a topic has \<open>k\<close> open, empty subscribers and the
  channels have room, publishing \<open>n\<close> messages gives subscriber \<open>j\<close> exactly the messages
  \<open>j, j + k, j + 2k, \<dots>\<close> in the order they were published; so every message reaches exactly one
  subscriber.
\<close>

theorem round_robin_delivery:
  assumes "mb_senders b topic = Some cs" "distinct cs" "cs \<noteq> []" "mb_round_robin b topic = None"
    "\<And>c. c \<in> set cs \<Longrightarrow> mb_channels b c = \<lparr>ch_queue = [], ch_closed = False\<rparr>"
    "\<And>m. m \<in> set ms \<Longrightarrow> msg_topic m = topic" "length ms \<le> mb_capacity b"
  shows "(\<forall>j < length cs. ch_queue (mb_channels (publish_all ms b) (cs ! j)) = share (length cs) j ms) \<and>
    mset ms = (\<Sum>j \<in> {..<length cs}. mset (ch_queue (mb_channels (publish_all ms b) (cs ! j))))"
proof -
  have q: "ch_queue (mb_channels (publish_all ms b) (cs ! j)) = share (length cs) j ms" if "j < length cs" for j
    using round_robin_run [OF assms] that by simp
  have "0 < length cs" using assms(3) by simp
  then show ?thesis using q share_partition [of "length cs" ms] by simp
qed

theorem round_robin_delivery_witness:
  "ch_queue (mb_channels (publish_all [message_new ''1'' 0 ''t'' [1], message_new ''2'' 0 ''t'' [2], message_new ''3'' 0 ''t'' [3]]
      (snd (subscribe ''t'' (snd (subscribe ''t'' (bus_new 8)))))) 0)
   = [message_new ''1'' 0 ''t'' [1], message_new ''3'' 0 ''t'' [3]]"
  (is "ch_queue (mb_channels (publish_all ?ms ?b) 0) = _")
proof -
  have b: "mb_senders ?b ''t'' = Some [0, 1]" "mb_round_robin ?b ''t'' = None" "mb_capacity ?b = 8"
    "\<And>c. c \<in> set [0, 1 :: nat] \<Longrightarrow> mb_channels ?b c = \<lparr>ch_queue = [], ch_closed = False\<rparr>"
    by (auto simp: subscribe_def bus_new_def Let_def)
  have t: "msg_topic m = ''t''" if "m \<in> set ?ms" for m using that by (auto simp: message_new_def)
  have c: "distinct [0, 1 :: nat]" "[0, 1 :: nat] \<noteq> []" "length ?ms \<le> mb_capacity ?b" using b(3) by simp_all
  have "0 < length [0, 1 :: nat]" by simp
  with round_robin_delivery [OF b(1) c(1,2) b(2) b(4) t c(3)]
  have "ch_queue (mb_channels (publish_all ?ms ?b) ([0, 1 :: nat] ! 0)) = share (length [0, 1 :: nat]) 0 ?ms"
    by blast
  then show ?thesis by (simp add: share_def upt_rec)
qed

text \<open>
  Closed subscribers never receive. A publish leaves all channels as they are, or appends its
  message to the queue of exactly one channel, which is open and subscribed to the topic.
\<close>

theorem publish_reaches_one_open_channel:
  "mb_channels (snd (do_publish m b)) \<in> insert (mb_channels b)
     {(mb_channels b)(c := \<lparr>ch_queue = ch_queue (mb_channels b c) @ [m], ch_closed = False\<rparr>) | c cs.
        mb_senders b (msg_topic m) = Some cs \<and> c \<in> set cs \<and> ch_closed (mb_channels b c) = False}"
proof (cases "mb_senders b (msg_topic m)")
  case None
  then show ?thesis by (simp add: do_publish_def)
next
  case (Some cs)
  define os where "os = filter (\<lambda>c. \<not> ch_closed (mb_channels b c)) cs"
  define i where "i = (case mb_round_robin b (msg_topic m) of Some i \<Rightarrow> i | None \<Rightarrow> 0) mod length os"
  show ?thesis
  proof (cases "os = []")
    case True
    then show ?thesis by (simp add: do_publish_def Some os_def [symmetric])
  next
    case False
    then have "i < length os" by (simp add: i_def)
    then have "os ! i \<in> set os" by (rule nth_mem)
    then have mem: "os ! i \<in> set cs" "ch_closed (mb_channels b (os ! i)) = False" by (auto simp: os_def)
    have "mb_channels (snd (do_publish m b)) = mb_channels b \<or>
      mb_channels (snd (do_publish m b)) = (mb_channels b)
        (os ! i := (mb_channels b (os ! i))\<lparr>ch_queue := ch_queue (mb_channels b (os ! i)) @ [m]\<rparr>)"
      using False Some
      by (simp add: do_publish_def os_def [symmetric] i_def [symmetric] Let_def push_message_def)
    moreover have "(mb_channels b (os ! i))\<lparr>ch_queue := ch_queue (mb_channels b (os ! i)) @ [m]\<rparr> =
        \<lparr>ch_queue = ch_queue (mb_channels b (os ! i)) @ [m], ch_closed = False\<rparr>"
      by (rule channel.equality) (simp_all add: mem)
    ultimately show ?thesis using mem Some by auto
  qed
qed

section \<open>Limits\<close>

text \<open>A full channel blocks the publisher, which holds the lock of the whole bus while it waits: the
  second publish to a topic whose only subscriber has a channel of one message and does not read.\<close>

lemma full_channel_blocks:
  "fst (do_publish (message_new ''2'' 0 ''t'' [])
     (snd (do_publish (message_new ''1'' 0 ''t'' []) (snd (subscribe ''t'' (bus_new 1)))))) = None"
  by (simp add: subscribe_def bus_new_def do_publish_def push_message_def message_new_def Let_def)

end
