(* ===== verification/Cluster.thy ===== *)
theory Cluster
  imports Errors
begin

text \<open>
  The cluster: the protocol messages (\<open>rinfra-core/src/cluster/mod.rs\<close>), the main node's registry
  (\<open>rinfra-plugins/src/cluster/registry.rs\<close>), its handling of a worker's connection
  (\<open>server.rs\<close>) as a state machine over all connections, and the worker's side with its
  reconnect loop (\<open>connection.rs\<close>). The framed JSON codec is a library; what it delivers are the
  events. Each event is handled while no other connection touches the registry (every access
  locks it and the handlers do one access per event), so a run is a sequence of events of
  numbered connections. Trace contexts only feed telemetry.
\<close>

section \<open>Messages\<close>

datatype cluster_mode = Standalone | ClusterMode

datatype node_role = MainNode | WorkerNode

datatype node_status = Online | Offline | Draining

record endpoint =
  ep_protocol :: string
  ep_address :: string

type_synonym metadata = "(string \<times> string) list"

record node_info =
  ni_id :: string
  ni_role :: node_role
  ni_endpoints :: "endpoint list"
  ni_metadata :: metadata
  ni_status :: node_status

datatype cluster_message =
    Register string node_role "endpoint list" metadata string "metadata option"
  | RegisterAck bool "string option"
  | Deregister string "metadata option"
  | ListNodes
  | NodeList "node_info list"
  | Ping
  | Pong

section \<open>The registry\<close>

type_synonym connected_registry = "(string, node_info) hashmap"

definition registry_register ::
  "string \<Rightarrow> node_role \<Rightarrow> endpoint list \<Rightarrow> metadata \<Rightarrow> connected_registry \<Rightarrow> connected_registry" where
  "registry_register node_id role eps md r =
     hm_insert node_id
       \<lparr>ni_id = node_id, ni_role = role, ni_endpoints = eps, ni_metadata = md, ni_status = Online\<rparr> r"

definition registry_unregister :: "string \<Rightarrow> connected_registry \<Rightarrow> connected_registry" where
  "registry_unregister node_id r = hm_remove node_id r"

definition registry_set_status :: "string \<Rightarrow> node_status \<Rightarrow> connected_registry \<Rightarrow> connected_registry" where
  "registry_set_status node_id st r =
     (case hm_get r node_id of Some n \<Rightarrow> hm_insert node_id (n\<lparr>ni_status := st\<rparr>) r | None \<Rightarrow> r)"

definition registry_get_node :: "string \<Rightarrow> connected_registry \<Rightarrow> node_info option res" where
  "registry_get_node node_id r = Ok (hm_get r node_id)"

definition registry_list_nodes :: "connected_registry \<Rightarrow> node_info list res" where
  "registry_list_nodes r = Ok (hm_values r)"

section \<open>The main node's side of a connection\<close>

record register_info =
  ri_node_id :: string
  ri_role :: node_role
  ri_endpoints :: "endpoint list"
  ri_metadata :: metadata

text \<open>The decision on the first message, and the messages sent in answer.\<close>

definition handle_register :: "string \<Rightarrow> cluster_message \<Rightarrow> register_info option \<times> cluster_message list" where
  "handle_register expected_token msg =
     (case msg of
        Register node_id role eps md token trace \<Rightarrow>
          if expected_token \<noteq> [] \<and> token \<noteq> expected_token
          then (None, [RegisterAck False (Some ''invalid token'')])
          else (Some \<lparr>ri_node_id = node_id, ri_role = role, ri_endpoints = eps, ri_metadata = md\<rparr>,
                [RegisterAck True None])
      | _ \<Rightarrow> (None, []))"

datatype conn_state = AwaitRegister | Active string u32 | Gone

text \<open>\<open>PingTick ok\<close>: the ping timer fires, and \<open>ok\<close> tells whether a ping can be sent.\<close>

datatype conn_event = Recv cluster_message | RecvError | Eof | RegisterTimeout | PingTick bool | ShutdownEv

definition leave :: "string \<Rightarrow> connected_registry \<Rightarrow> conn_state \<times> connected_registry \<times> cluster_message list" where
  "leave node_id r = (Gone, registry_set_status node_id Offline r, [])"

definition await_step ::
  "string \<Rightarrow> conn_event \<Rightarrow> connected_registry \<Rightarrow> conn_state \<times> connected_registry \<times> cluster_message list" where
  "await_step expected_token ev r =
     (case ev of
        Recv msg \<Rightarrow>
          (case handle_register expected_token msg of
             (Some i, out) \<Rightarrow>
               (Active (ri_node_id i) 0,
                registry_register (ri_node_id i) (ri_role i) (ri_endpoints i) (ri_metadata i) r, out)
           | (None, out) \<Rightarrow> (Gone, r, out))
      | RecvError \<Rightarrow> (Gone, r, [])
      | Eof \<Rightarrow> (Gone, r, [])
      | RegisterTimeout \<Rightarrow> (Gone, r, [])
      | PingTick ok \<Rightarrow> (AwaitRegister, r, [])
      | ShutdownEv \<Rightarrow> (AwaitRegister, r, []))"

definition active_step ::
  "string \<Rightarrow> u32 \<Rightarrow> conn_event \<Rightarrow> connected_registry \<Rightarrow> conn_state \<times> connected_registry \<times> cluster_message list" where
  "active_step node_id missed_pongs ev r =
     (case ev of
        ShutdownEv \<Rightarrow> leave node_id r
      | PingTick ok \<Rightarrow>
          if 3 \<le> missed_pongs then leave node_id r
          else if \<not> ok then leave node_id r
          else (Active node_id (missed_pongs + 1), r, [Ping])
      | Recv msg \<Rightarrow>
          (case msg of
             Pong \<Rightarrow> (Active node_id 0, r, [])
           | Deregister n tc \<Rightarrow> (Gone, registry_unregister node_id r, [])
           | Ping \<Rightarrow> (Active node_id missed_pongs, r, [Pong])
           | ListNodes \<Rightarrow> (Active node_id missed_pongs, r, [NodeList (hm_values r)])
           | _ \<Rightarrow> (Active node_id missed_pongs, r, []))
      | RecvError \<Rightarrow> leave node_id r
      | Eof \<Rightarrow> leave node_id r
      | RegisterTimeout \<Rightarrow> (Active node_id missed_pongs, r, []))"

primrec conn_step ::
  "string \<Rightarrow> conn_state \<Rightarrow> conn_event \<Rightarrow> connected_registry \<Rightarrow> conn_state \<times> connected_registry \<times> cluster_message list" where
  "conn_step tok AwaitRegister ev r = await_step tok ev r"
| "conn_step tok (Active node_id missed) ev r = active_step node_id missed ev r"
| "conn_step tok Gone ev r = (Gone, r, [])"

text \<open>One connection on its own, with what it sends.\<close>

primrec conn_run ::
  "string \<Rightarrow> conn_event list \<Rightarrow> conn_state \<Rightarrow> connected_registry \<Rightarrow> conn_state \<times> connected_registry \<times> cluster_message list" where
  "conn_run tok [] st r = (st, r, [])"
| "conn_run tok (ev # evs) st r =
     (let (st1, r1, out1) = conn_step tok st ev r; (st2, r2, out2) = conn_run tok evs st1 r1
      in (st2, r2, out1 @ out2))"

text \<open>All connections of the server.\<close>

record cluster_server =
  cl_token :: string
  cl_registry :: connected_registry
  cl_conns :: "nat \<Rightarrow> conn_state"

definition cluster_server_new :: "string \<Rightarrow> cluster_server" where
  "cluster_server_new token = \<lparr>cl_token = token, cl_registry = [], cl_conns = \<lambda>_. AwaitRegister\<rparr>"

definition server_step :: "nat \<times> conn_event \<Rightarrow> cluster_server \<Rightarrow> cluster_server" where
  "server_step ev s =
     (let (st, r, out) = conn_step (cl_token s) (cl_conns s (fst ev)) (snd ev) (cl_registry s)
      in s\<lparr>cl_registry := r, cl_conns := (cl_conns s)(fst ev := st)\<rparr>)"

definition server_run :: "(nat \<times> conn_event) list \<Rightarrow> cluster_server \<Rightarrow> cluster_server" where
  "server_run evs s = fold server_step evs s"

section \<open>The worker's side\<close>

datatype connection_state = Connected | Disconnected | Reconnecting

definition connection_state_of :: "u8 \<Rightarrow> connection_state" where
  "connection_state_of v = (if v = 0 then Connected else if v = 1 then Disconnected else Reconnecting)"

record cluster_connection =
  cc_node_id :: string
  cc_main_address :: string
  cc_token :: string
  cc_endpoints :: "endpoint list"
  cc_metadata :: metadata
  cc_ping_interval_secs :: u64
  cc_node_list :: "node_info list"

definition cluster_connection_new ::
  "string \<Rightarrow> string \<Rightarrow> string \<Rightarrow> string \<Rightarrow> u64 \<Rightarrow> endpoint list \<Rightarrow> metadata \<Rightarrow> cluster_connection" where
  "cluster_connection_new uuid node_id main_address token ping eps md =
     \<lparr>cc_node_id = (if node_id = [] then uuid else node_id), cc_main_address = main_address, cc_token = token,
      cc_endpoints = eps, cc_metadata = md, cc_ping_interval_secs = ping, cc_node_list = []\<rparr>"

definition register_message :: "metadata option \<Rightarrow> cluster_connection \<Rightarrow> cluster_message" where
  "register_message trace c =
     Register (cc_node_id c) WorkerNode (cc_endpoints c) (cc_metadata c) (cc_token c) trace"

text \<open>What waiting for the acknowledgement gives.\<close>

datatype ack_event = AckTimeout | AckClosed | AckError string | Ack cluster_message

definition do_register :: "string option \<Rightarrow> ack_event \<Rightarrow> unit res" where
  "do_register send_error ack =
     (case send_error of
        Some e \<Rightarrow> Err ClusterRegisterFailed (''send register: '' @ e)
      | None \<Rightarrow>
          (case ack of
             AckTimeout \<Rightarrow> Err ClusterRegisterFailed ''register ack timeout''
           | AckClosed \<Rightarrow> Err ClusterRegisterFailed ''connection closed before ack''
           | AckError e \<Rightarrow> Err ClusterRegisterFailed (''read ack: '' @ e)
           | Ack msg \<Rightarrow>
               (case msg of
                  RegisterAck success err \<Rightarrow>
                    if success then Ok ()
                    else Err ClusterAuthFailed (case err of Some m \<Rightarrow> m | None \<Rightarrow> ''register rejected'')
                | _ \<Rightarrow> Err ClusterRegisterFailed ''unexpected response'')))"

definition tcp_connect :: "cluster_connection \<Rightarrow> string option \<Rightarrow> unit res" where
  "tcp_connect c conn_error =
     (case conn_error of
        Some e \<Rightarrow> Err ClusterMainUnreachable (''tcp connect to '' @ cc_main_address c @ '' failed: '' @ e)
      | None \<Rightarrow> Ok ())"

definition connect_once :: "cluster_connection \<Rightarrow> string option \<Rightarrow> string option \<Rightarrow> ack_event \<Rightarrow> unit res" where
  "connect_once c conn_error send_error ack = bind_res (tcp_connect c conn_error) (\<lambda>_. do_register send_error ack)"

text \<open>The message loop: \<open>True\<close> for a lost connection, \<open>False\<close> for a shutdown; an event that sends
  carries whether the send succeeds.\<close>

datatype worker_event =
    WShutdown
  | WPingTick bool
  | WSyncTick bool
  | WFrame cluster_message bool
  | WReadError
  | WEof

fun message_loop :: "worker_event list \<Rightarrow> cluster_connection \<Rightarrow> bool \<times> cluster_connection \<times> cluster_message list" where
  "message_loop [] c = (True, c, [])"
| "message_loop (ev # evs) c =
     (case ev of
        WShutdown \<Rightarrow> (False, c, [Deregister (cc_node_id c) None])
      | WPingTick ok \<Rightarrow>
          if \<not> ok then (True, c, []) else (case message_loop evs c of (b, c', out) \<Rightarrow> (b, c', Ping # out))
      | WSyncTick ok \<Rightarrow>
          if \<not> ok then (True, c, []) else (case message_loop evs c of (b, c', out) \<Rightarrow> (b, c', ListNodes # out))
      | WFrame msg ok \<Rightarrow>
          (case msg of
             Ping \<Rightarrow>
               if \<not> ok then (True, c, []) else (case message_loop evs c of (b, c', out) \<Rightarrow> (b, c', Pong # out))
           | NodeList nodes \<Rightarrow> message_loop evs (c\<lparr>cc_node_list := nodes\<rparr>)
           | _ \<Rightarrow> message_loop evs c)
      | WReadError \<Rightarrow> (True, c, [])
      | WEof \<Rightarrow> (True, c, []))"

text \<open>The reconnect loop over the outcomes of its attempts: the delays it sleeps (in seconds), and the
  state it leaves. \<open>Refused True\<close> is a failed connect or registration whose sleep was cut short by
  the shutdown.\<close>

datatype attempt = Refused bool | Session bool

fun run_loop :: "nat \<Rightarrow> attempt list \<Rightarrow> connection_state \<Rightarrow> nat list \<times> connection_state" where
  "run_loop backoff [] st = ([], st)"
| "run_loop backoff (a # as) st =
     (case a of
        Refused cancelled \<Rightarrow>
          if cancelled then ([backoff], Reconnecting)
          else (case run_loop (min (backoff * 2) 30) as Reconnecting of (ds, st') \<Rightarrow> (backoff # ds, st'))
      | Session disconnected \<Rightarrow>
          if \<not> disconnected then ([], Connected) else run_loop 3 as Reconnecting)"

section \<open>Lemmas\<close>

lemma hm_get_set_status [simp]:
  "hm_get (registry_set_status n st r) k =
     (if k = n then map_option (\<lambda>i. i\<lparr>ni_status := st\<rparr>) (hm_get r n) else hm_get r k)"
  by (simp add: registry_set_status_def split: option.splits)

lemma hm_get_register [simp]:
  "hm_get (registry_register n role eps md r) k =
     (if k = n then Some \<lparr>ni_id = n, ni_role = role, ni_endpoints = eps, ni_metadata = md, ni_status = Online\<rparr>
      else hm_get r k)"
  by (simp add: registry_register_def)

lemma hm_get_unregister [simp]: "hm_get (registry_unregister n r) k = (if k = n then None else hm_get r k)"
  by (simp add: registry_unregister_def)

lemma server_run_snoc: "server_run (evs @ [ev]) s = server_step ev (server_run evs s)"
  by (simp add: server_run_def)

text \<open>A step either registers the node its message names, with an accepted token, or adds no node.\<close>

lemma conn_step_registers:
  assumes "conn_step tok st ev r = (st', r', out)" "hm_get r' n \<noteq> None" "hm_get r n = None"
  shows "\<exists>role eps md t tr. ev = Recv (Register n role eps md t tr) \<and> (tok \<noteq> [] \<longrightarrow> t = tok)"
proof (cases st)
  case AwaitRegister
  with assms show ?thesis
    by (auto simp: await_step_def handle_register_def split: conn_event.splits cluster_message.splits if_splits)
next
  case (Active i m)
  with assms show ?thesis
    by (auto simp: active_step_def leave_def split: conn_event.splits cluster_message.splits if_splits)
qed (use assms in simp)

lemma server_run_token [simp]: "cl_token (server_run evs s) = cl_token s"
  by (induction evs arbitrary: s) (simp_all add: server_run_def server_step_def case_prod_beta Let_def)

lemma registered_with_token:
  assumes "tok \<noteq> []"
  shows "hm_get (cl_registry (server_run evs (cluster_server_new tok))) n \<noteq> None \<Longrightarrow>
    \<exists>c role eps md tr. (c, Recv (Register n role eps md tok tr)) \<in> set evs"
proof (induction evs rule: rev_induct)
  case Nil
  then show ?case by (simp add: server_run_def cluster_server_new_def)
next
  case (snoc ev evs)
  let ?s = "server_run evs (cluster_server_new tok)"
  show ?case
  proof (cases "hm_get (cl_registry ?s) n")
    case (Some i)
    with snoc.IH show ?thesis by (metis UnI1 option.distinct(1) set_append)
  next
    case None
    obtain st r out where st: "conn_step (cl_token ?s) (cl_conns ?s (fst ev)) (snd ev) (cl_registry ?s) = (st, r, out)"
      by (metis prod_cases3)
    have "hm_get r n \<noteq> None"
      using snoc.prems st by (simp add: server_run_snoc server_step_def)
    from conn_step_registers [OF st this None] assms
    obtain role eps md tr where "snd ev = Recv (Register n role eps md tok tr)"
      by (auto simp: cluster_server_new_def)
    then have "ev = (fst ev, Recv (Register n role eps md tok tr))" by (simp add: prod_eq_iff)
    then show ?thesis by (metis in_set_conv_decomp)
  qed
qed

section \<open>The life of a connection\<close>

text \<open>A connection's life goes one way: it waits for a registration, is active for one node and is gone.\<close>

instantiation conn_state :: preorder
begin

definition less_eq_conn_state :: "conn_state \<Rightarrow> conn_state \<Rightarrow> bool" where
  "st \<le> st' \<longleftrightarrow>
     (case (st, st') of
        (AwaitRegister, _) \<Rightarrow> True
      | (_, Gone) \<Rightarrow> True
      | (Active n m, Active n' m') \<Rightarrow> n = n'
      | _ \<Rightarrow> False)"

definition less_conn_state :: "conn_state \<Rightarrow> conn_state \<Rightarrow> bool" where
  "st < st' \<longleftrightarrow> st \<le> st' \<and> \<not> st' \<le> (st :: conn_state)"

instance
  by standard (auto simp: less_eq_conn_state_def less_conn_state_def split: conn_state.splits)

end

lemma conn_state_le_simps [simp]:
  "AwaitRegister \<le> st" "st \<le> Gone" "Active n m \<le> Active n' m' \<longleftrightarrow> n = n'" "\<not> Active n m \<le> AwaitRegister" "Gone \<le> st \<longleftrightarrow> st = Gone"
  by (auto simp: less_eq_conn_state_def split: conn_state.splits)

lemma conn_step_forward: "st \<le> fst (conn_step tok st ev r)"
  by (cases st) (auto simp: active_step_def leave_def split: conn_event.splits cluster_message.splits)

lemma server_step_forward: "cl_conns s c \<le> cl_conns (server_step ev s) c"
  using conn_step_forward [of "cl_conns s c" "cl_token s" "snd ev" "cl_registry s"]
  by (auto simp: server_step_def case_prod_beta Let_def)

text \<open>So whatever happens on any connections, a connection never changes its node and never returns.\<close>

lemma server_run_forward: "cl_conns s c \<le> cl_conns (server_run evs s) c"
proof (induction evs rule: rev_induct)
  case (snoc ev evs)
  then show ?case unfolding server_run_snoc using server_step_forward order_trans by blast
qed (simp add: server_run_def)

lemma connection_keeps_node:
  assumes "cl_conns s c = Active n m" and "cl_conns (server_run evs s) c = Active n' m'"
  shows "n' = n"
  using server_run_forward [of s c evs] assms by simp

section \<open>Presence\<close>

text \<open>Runs in which a node registers again only after its previous connection has gone.\<close>

definition registers :: "string \<Rightarrow> conn_event \<Rightarrow> string \<Rightarrow> bool" where
  "registers tok ev n \<longleftrightarrow>
     (case ev of Recv msg \<Rightarrow> (case fst (handle_register tok msg) of Some i \<Rightarrow> ri_node_id i = n | None \<Rightarrow> False) | _ \<Rightarrow> False)"

inductive cluster_run :: "string \<Rightarrow> cluster_server \<Rightarrow> bool" for tok where
  cluster_start: "cluster_run tok (cluster_server_new tok)"
| cluster_next: "cluster_run tok s \<Longrightarrow>
    (\<And>n. cl_conns s c = AwaitRegister \<Longrightarrow> registers tok ev n \<Longrightarrow> (\<forall>c' m. cl_conns s c' \<noteq> Active n m)) \<Longrightarrow>
    cluster_run tok (server_step (c, ev) s)"

definition node_online :: "connected_registry \<Rightarrow> string \<Rightarrow> bool" where
  "node_online r n \<longleftrightarrow> (\<exists>i. hm_get r n = Some i \<and> ni_status i = Online)"

definition presence_inv :: "cluster_server \<Rightarrow> bool" where
  "presence_inv s \<longleftrightarrow>
     (\<forall>n. node_online (cl_registry s) n \<longleftrightarrow> (\<exists>c m. cl_conns s c = Active n m)) \<and>
     (\<forall>c c' n m m'. cl_conns s c = Active n m \<longrightarrow> cl_conns s c' = Active n m' \<longrightarrow> c = c')"

lemma node_online_simps [simp]:
  "node_online (registry_register n role eps md r) k \<longleftrightarrow> k = n \<or> node_online r k"
  "node_online (registry_set_status n Offline r) k \<longleftrightarrow> k \<noteq> n \<and> node_online r k"
  "node_online (registry_unregister n r) k \<longleftrightarrow> k \<noteq> n \<and> node_online r k"
  by (auto simp: node_online_def)

lemma active_upd:
  "(\<exists>d j. (f(c := v)) d = Active k j) \<longleftrightarrow> (\<exists>j. v = Active k j) \<or> (\<exists>d j. d \<noteq> c \<and> f d = Active k j)"
  by auto

lemma active_split:
  "(\<exists>d j. f d = Active k j) \<longleftrightarrow> (\<exists>j. f c = Active k j) \<or> (\<exists>d j. d \<noteq> c \<and> f d = Active k j)"
  by auto

lemma presence_invI:
  assumes "\<And>n. node_online r n \<longleftrightarrow> (\<exists>c m. f c = Active n m)"
    "\<And>a b n m m'. f a = Active n m \<Longrightarrow> f b = Active n m' \<Longrightarrow> a = b"
  shows "presence_inv (s\<lparr>cl_registry := r, cl_conns := f\<rparr>)"
  using assms unfolding presence_inv_def by simp

text \<open>What a step of a connection does to the nodes that are online.\<close>

lemma await_online:
  assumes "await_step tok ev r = (st', r', out)"
  shows "(st' = Gone \<or> st' = AwaitRegister) \<and> r' = r \<or>
    (\<exists>n m. registers tok ev n \<and> st' = Active n m \<and> (\<forall>k. node_online r' k \<longleftrightarrow> k = n \<or> node_online r k))"
proof (cases "\<exists>msg i out'. ev = Recv msg \<and> handle_register tok msg = (Some i, out')")
  case True
  with assms show ?thesis by (auto simp: await_step_def registers_def)
next
  case False
  have "handle_register tok msg = (fst (handle_register tok msg), snd (handle_register tok msg))" for msg by simp
  with assms False show ?thesis
    by (cases ev) (auto simp: await_step_def split: prod.splits option.splits)
qed

lemma active_online:
  assumes "active_step n m ev r = (st', r', out)"
  shows "(\<exists>m'. st' = Active n m' \<and> r' = r) \<or>
    (st' = Gone \<and> (\<forall>k. node_online r' k \<longleftrightarrow> k \<noteq> n \<and> node_online r k))"
  using assms
  by (auto simp: active_step_def leave_def split: conn_event.splits cluster_message.splits if_splits)

lemma presence_step:
  assumes inv: "presence_inv s" and tok: "cl_token s = tok"
    and fresh: "\<And>n. cl_conns s c = AwaitRegister \<Longrightarrow> registers tok ev n \<Longrightarrow> (\<forall>c' m. cl_conns s c' \<noteq> Active n m)"
  shows "presence_inv (server_step (c, ev) s)"
proof -
  obtain st' r' out where st: "conn_step tok (cl_conns s c) ev (cl_registry s) = (st', r', out)"
    by (metis prod_cases3)
  have srv: "server_step (c, ev) s = s\<lparr>cl_registry := r', cl_conns := (cl_conns s)(c := st')\<rparr>"
    using st tok by (simp add: server_step_def)
  have on: "node_online (cl_registry s) n \<longleftrightarrow> (\<exists>c m. cl_conns s c = Active n m)" for n
    using inv by (simp add: presence_inv_def)
  have uniq: "cl_conns s a = Active n m \<Longrightarrow> cl_conns s b = Active n m' \<Longrightarrow> a = b" for a b n m m'
    using inv by (auto simp: presence_inv_def)
  let ?f = "(cl_conns s)(c := st')"
  have goal: "presence_inv (server_step (c, ev) s)"
    if "\<And>k. node_online r' k \<longleftrightarrow> (\<exists>j. st' = Active k j) \<or> (\<exists>d j. d \<noteq> c \<and> cl_conns s d = Active k j)"
      "\<And>k j j' d. st' = Active k j \<Longrightarrow> cl_conns s d = Active k j' \<Longrightarrow> d = c"
  proof -
    note online = that(1) and single = that(2)
    have "node_online r' k \<longleftrightarrow> (\<exists>d j. ?f d = Active k j)" for k
      unfolding active_upd by (rule online)
    moreover have "a = b" if ab: "?f a = Active k j" "?f b = Active k j'" for a b k j j'
    proof (cases "a = c \<or> b = c")
      case True
      with ab single [of k] show ?thesis by (cases "a = c"; cases "b = c") auto
    next
      case False
      with ab uniq show ?thesis by simp
    qed
    ultimately show ?thesis unfolding srv by (rule presence_invI)
  qed
  note split = active_split [of "cl_conns s" _ c]
  show ?thesis
  proof (cases "cl_conns s c")
    case AwaitRegister
    with st have "await_step tok ev (cl_registry s) = (st', r', out)" by simp
    from await_online [OF this] show ?thesis
    proof
      assume "(st' = Gone \<or> st' = AwaitRegister) \<and> r' = cl_registry s"
      then show ?thesis using AwaitRegister on by (intro goal) (auto simp: split)
    next
      assume "\<exists>n m. registers tok ev n \<and> st' = Active n m \<and>
        (\<forall>k. node_online r' k \<longleftrightarrow> k = n \<or> node_online (cl_registry s) k)"
      then obtain n m where n: "registers tok ev n" "st' = Active n m"
        "\<And>k. node_online r' k \<longleftrightarrow> k = n \<or> node_online (cl_registry s) k" by blast
      from fresh [OF AwaitRegister n(1)] have "cl_conns s d \<noteq> Active n k" for d k by blast
      then show ?thesis using AwaitRegister on n(2,3) by (intro goal) (auto simp: split)
    qed
  next
    case (Active n m)
    have own: "cl_conns s d = Active n j \<Longrightarrow> d = c" for d j using uniq [OF _ Active] .
    from Active st have "active_step n m ev (cl_registry s) = (st', r', out)" by simp
    from active_online [OF this] show ?thesis
    proof
      assume "\<exists>m'. st' = Active n m' \<and> r' = cl_registry s"
      then obtain m' where st': "st' = Active n m'" "r' = cl_registry s" by blast
      show ?thesis
      proof (rule goal)
        show "node_online r' k \<longleftrightarrow> (\<exists>j. st' = Active k j) \<or> (\<exists>d j. d \<noteq> c \<and> cl_conns s d = Active k j)" for k
          unfolding st' on split using Active by auto
        show "d = c" if "st' = Active k j" "cl_conns s d = Active k j'" for k j j' d
          using that st' own by auto
      qed
    next
      assume st': "st' = Gone \<and> (\<forall>k. node_online r' k \<longleftrightarrow> k \<noteq> n \<and> node_online (cl_registry s) k)"
      show ?thesis
      proof (rule goal)
        show "node_online r' k \<longleftrightarrow> (\<exists>j. st' = Active k j) \<or> (\<exists>d j. d \<noteq> c \<and> cl_conns s d = Active k j)" for k
        proof -
          have "node_online r' k \<longleftrightarrow> k \<noteq> n \<and> node_online (cl_registry s) k" using st' by blast
          then have "node_online r' k \<longleftrightarrow> k \<noteq> n \<and> ((\<exists>j. cl_conns s c = Active k j) \<or> (\<exists>d j. d \<noteq> c \<and> cl_conns s d = Active k j))"
            unfolding on split .
          moreover have "(\<exists>j. cl_conns s c = Active k j) \<longleftrightarrow> k = n" using Active by auto
          moreover have "k = n \<Longrightarrow> \<not> (\<exists>d j. d \<noteq> c \<and> cl_conns s d = Active k j)" using own by blast
          moreover have "\<not> (\<exists>j. st' = Active k j)" using st' by simp
          ultimately show ?thesis by blast
        qed
        show "d = c" if "st' = Active k j" "cl_conns s d = Active k j'" for k j j' d
          using that st' by simp
      qed
    qed
  next
    case Gone
    with st have "st' = Gone" "r' = cl_registry s" by simp_all
    with Gone show ?thesis by (intro goal) (simp_all add: on split)
  qed
qed

lemma cluster_run_inv: "cluster_run tok s \<Longrightarrow> presence_inv s \<and> cl_token s = tok"
proof (induction rule: cluster_run.induct)
  case cluster_start
  then show ?case by (simp add: presence_inv_def cluster_server_new_def node_online_def)
next
  case (cluster_next s c ev)
  then show ?case
    using presence_step [of s tok c ev]
    by (auto simp: server_step_def case_prod_beta Let_def)
qed

section \<open>Heartbeat and reconnection\<close>

lemma ping_ticks:
  assumes "k \<le> 3"
  shows "conn_run tok (replicate k (PingTick True)) (Active n 0) r = (Active n (of_nat k), r, replicate k Ping)"
proof -
  have "conn_run tok (replicate j (PingTick True)) (Active n (of_nat i)) r = (Active n (of_nat (i + j)), r, replicate j Ping)"
    if "i + j \<le> 3" for i j
    using that
  proof (induction j arbitrary: i)
    case (Suc j)
    then have "\<not> (3 :: u32) \<le> of_nat i" by (simp add: word_le_nat_alt unat_of_nat)
    with Suc.IH [of "Suc i"] Suc.prems show ?case by (simp add: active_step_def add.commute)
  qed simp
  from this [of 0 k] assms show ?thesis by simp
qed

lemma gone_run: "conn_run tok evs Gone r = (Gone, r, [])"
  by (induction evs) simp_all

lemma conn_run_append:
  "conn_run tok (xs @ ys) st r =
     (let (st1, r1, out1) = conn_run tok xs st r; (st2, r2, out2) = conn_run tok ys st1 r1 in (st2, r2, out1 @ out2))"
  by (induction xs arbitrary: st r) (simp_all add: case_prod_beta Let_def)

lemma run_loop_refused:
  "b = min (3 * 2 ^ k) 30 \<Longrightarrow>
     run_loop b (replicate n (Refused False)) st = (map (\<lambda>i. min (3 * 2 ^ (k + i)) 30) [0..<n], if n = 0 then st else Reconnecting)"
proof (induction n arbitrary: k b st)
  case (Suc n)
  have "min (b * 2) 30 = min (3 * 2 ^ Suc k) 30" using Suc.prems by (simp add: min_def)
  from Suc.IH [OF this, of Reconnecting] Suc.prems show ?case
    by (simp add: map_upt_Suc del: upt_Suc)
qed simp

section \<open>Properties\<close>

text \<open>
  C11: only workers that know the cluster token get into the registry. With a token configured,
  whatever messages any number of connections send in any order, a node is registered only if
  some connection sent a registration for it with exactly that token.
\<close>

theorem cluster_authenticated:
  assumes "tok \<noteq> []" "hm_get (cl_registry (server_run evs (cluster_server_new tok))) n \<noteq> None"
  shows "\<exists>c role eps md tr. (c, Recv (Register n role eps md tok tr)) \<in> set evs"
  by (rule registered_with_token [OF assms])

theorem cluster_authenticated_witness:
  "hm_get (cl_registry (server_run [(0, Recv (Register ''n1'' WorkerNode [] [] ''bad'' None)),
     (1, Recv (Register ''n2'' WorkerNode [] [] ''good'' None))] (cluster_server_new ''good''))) ''n1'' = None"
  (is "hm_get (cl_registry (server_run ?evs _)) _ = None")
proof (rule ccontr)
  assume "hm_get (cl_registry (server_run ?evs (cluster_server_new ''good''))) ''n1'' \<noteq> None"
  from cluster_authenticated [OF _ this] show False by simp
qed



text \<open>
  A silent worker is dropped. A connection on which nothing arrives is closed at its fourth
  ping, after exactly three unanswered ones, and its node is marked offline; and a pong starts
  the count again.
\<close>

theorem silent_worker_dropped:
  assumes "4 \<le> k"
  shows "conn_run tok (replicate k (PingTick True)) (Active n 0) r = (Gone, registry_set_status n Offline r, [Ping, Ping, Ping]) \<and>
    conn_run tok (replicate 3 (PingTick True) @ [Recv Pong]) (Active n 0) r = (Active n 0, r, [Ping, Ping, Ping])"
proof -
  have three: "conn_run tok (replicate 3 (PingTick True)) (Active n 0) r = (Active n 3, r, [Ping, Ping, Ping])"
    using ping_ticks [of 3 tok n r] by (simp add: numeral_3_eq_3)
  obtain j where "k = 4 + j" using le_Suc_ex [OF assms] by blast
  then have "k = 3 + Suc j" by simp
  then have k: "replicate k (PingTick True) = replicate 3 (PingTick True) @ PingTick True # replicate j (PingTick True)"
    by (simp only: replicate_add replicate_Suc)
  show ?thesis
    by (simp only: k conn_run_append three) (simp add: active_step_def leave_def gone_run)
qed

theorem silent_worker_dropped_witness:
  "fst (conn_run ''t'' (replicate 9 (PingTick True)) (Active ''n'' 0) []) = Gone"
proof -
  have "(4 :: nat) \<le> 9" by simp
  from silent_worker_dropped [OF this, of "''t''" "''n''" "[]"] show ?thesis by simp
qed

text \<open>
  The registration handshake decides by the token alone. A worker's registration is
  accepted, and its \<open>do_register\<close> succeeds on the main node's answer, exactly when the main node
  has no token or the worker has the same one; otherwise the worker reports an authentication
  failure.
\<close>

theorem register_handshake:
  "do_register None (Ack (hd (snd (handle_register tok (register_message tr c))))) =
     (if tok = [] \<or> cc_token c = tok then Ok () else Err ClusterAuthFailed ''invalid token'') \<and>
   (fst (handle_register tok (register_message tr c)) \<noteq> None) = (tok = [] \<or> cc_token c = tok)"
  by (simp add: handle_register_def register_message_def do_register_def)

text \<open>
  Reconnection backs off. The delays of consecutive failed attempts, from a fresh or a lost
  connection, are 3, 6, 12, 24 and then 30 seconds: \<open>min (3 * 2^i) 30\<close> for the attempt \<open>i\<close>.
\<close>

theorem reconnect_backoff:
  "run_loop 3 (replicate n (Refused False)) st =
     (map (\<lambda>i. min (3 * 2 ^ i) 30) [0..<n], if n = 0 then st else Reconnecting) \<and>
   fst (run_loop 3 (Session True # replicate n (Refused False)) st) = map (\<lambda>i. min (3 * 2 ^ i) 30) [0..<n]"
  using run_loop_refused [of 3 0 n] by simp

section \<open>Limits\<close>

text \<open>When a worker reconnects before the main node has noticed that the old connection is gone, the
  end of the old connection marks the node offline although the new one is active.\<close>

lemma reconnect_marked_offline:
  "let reg = Recv (Register ''n'' WorkerNode [] [] ''t'' None);
       s = server_run [(0, reg), (1, reg), (0, Eof)] (cluster_server_new ''t'')
   in cl_conns s 1 = Active ''n'' 0 \<and> map_option ni_status (hm_get (cl_registry s) ''n'') = Some Offline"
  by (simp add: Let_def server_run_def server_step_def cluster_server_new_def await_step_def active_step_def
      handle_register_def leave_def)

end
