(* ===== verification/Store.thy ===== *)
theory Store
  imports Errors Decimal F64
begin

text \<open>
  The database abstraction of \<open>rinfra-core/src/store/\<close>: values and their conversions (\<open>value.rs\<close>),
  rows (\<open>mod.rs\<close>), query specifications that produce a numbered WHERE clause (\<open>spec.rs\<close>) and the
  registry of named connections (\<open>registry.rs\<close>). A \<open>dyn Specification\<close> is the function
  \<open>to_where_clause\<close>, so that a specification of an application is any function of that type; \<open>cond\<close> is
  the reference syntax of those built from the combinators. \<open>dbg\<close> is the derived \<open>Debug\<close> text of a
  value, which only error messages show.
\<close>

section \<open>Values\<close>

type_synonym i64 = "64 word"
type_synonym i32 = "32 word"

datatype (plugins only: code size) db_value =
    DbNull
  | DbBool bool
  | DbInt i64
  | DbFloat rat
  | DbText string
  | DbBytes bytes

definition is_null :: "db_value \<Rightarrow> bool" where
  "is_null v = (case v of DbNull \<Rightarrow> True | _ \<Rightarrow> False)"

definition type_error :: "(db_value \<Rightarrow> string) \<Rightarrow> string \<Rightarrow> db_value \<Rightarrow> 'a res" where
  "type_error dbg expected got = Err StoreQueryFailed (''expected '' @ expected @ '', got '' @ dbg got)"

definition bool_from_db :: "(db_value \<Rightarrow> string) \<Rightarrow> db_value \<Rightarrow> bool res" where
  "bool_from_db dbg v =
     (case v of DbBool b \<Rightarrow> Ok b | DbInt i \<Rightarrow> Ok (i \<noteq> 0) | _ \<Rightarrow> type_error dbg ''bool'' v)"

definition i32_from_db :: "(db_value \<Rightarrow> string) \<Rightarrow> db_value \<Rightarrow> i32 res" where
  "i32_from_db dbg v = (case v of DbInt i \<Rightarrow> Ok (ucast i) | _ \<Rightarrow> type_error dbg ''i32'' v)"

definition i64_from_db :: "(db_value \<Rightarrow> string) \<Rightarrow> db_value \<Rightarrow> i64 res" where
  "i64_from_db dbg v = (case v of DbInt i \<Rightarrow> Ok i | _ \<Rightarrow> type_error dbg ''i64'' v)"

definition f64_from_db :: "(db_value \<Rightarrow> string) \<Rightarrow> db_value \<Rightarrow> rat res" where
  "f64_from_db dbg v =
     (case v of DbFloat x \<Rightarrow> Ok x | DbInt i \<Rightarrow> Ok (f64_round (of_int (sint i))) | _ \<Rightarrow> type_error dbg ''f64'' v)"

definition string_from_db :: "(db_value \<Rightarrow> string) \<Rightarrow> db_value \<Rightarrow> string res" where
  "string_from_db dbg v = (case v of DbText s \<Rightarrow> Ok s | _ \<Rightarrow> type_error dbg ''String'' v)"

definition bytes_from_db :: "(db_value \<Rightarrow> string) \<Rightarrow> db_value \<Rightarrow> bytes res" where
  "bytes_from_db dbg v = (case v of DbBytes b \<Rightarrow> Ok b | _ \<Rightarrow> type_error dbg ''Vec<u8>'' v)"

definition option_from_db :: "(db_value \<Rightarrow> 'a res) \<Rightarrow> db_value \<Rightarrow> 'a option res" where
  "option_from_db from_db v = (if is_null v then Ok None else bind_res (from_db v) (\<lambda>x. Ok (Some x)))"

definition bool_into_db :: "bool \<Rightarrow> db_value" where "bool_into_db b = DbBool b"
definition i32_into_db :: "i32 \<Rightarrow> db_value" where "i32_into_db i = DbInt (scast i)"
definition i64_into_db :: "i64 \<Rightarrow> db_value" where "i64_into_db i = DbInt i"
definition f64_into_db :: "rat \<Rightarrow> db_value" where "f64_into_db x = DbFloat x"
definition string_into_db :: "string \<Rightarrow> db_value" where "string_into_db s = DbText s"
definition bytes_into_db :: "bytes \<Rightarrow> db_value" where "bytes_into_db b = DbBytes b"

definition option_into_db :: "('a \<Rightarrow> db_value) \<Rightarrow> 'a option \<Rightarrow> db_value" where
  "option_into_db into_db x = (case x of Some v \<Rightarrow> into_db v | None \<Rightarrow> DbNull)"

section \<open>Rows\<close>

record db_row =
  row_columns :: "string list"
  row_values :: "db_value list"

text \<open>\<open>iter().position(..)\<close>.\<close>

fun position :: "('a \<Rightarrow> bool) \<Rightarrow> 'a list \<Rightarrow> nat option" where
  "position p [] = None"
| "position p (x # xs) = (if p x then Some 0 else map_option Suc (position p xs))"

definition row_get :: "(db_value \<Rightarrow> 'a res) \<Rightarrow> db_row \<Rightarrow> string \<Rightarrow> 'a res" where
  "row_get from_db r column =
     (case position (\<lambda>c. c = column) (row_columns r) of
        None \<Rightarrow> Err StoreQueryFailed (''column '' @ quoted column @ '' not found in row'')
      | Some idx \<Rightarrow>
          if idx < length (row_values r) then from_db (row_values r ! idx)
          else Inl (Panic ''index out of bounds''))"

section \<open>Specifications\<close>

type_synonym where_spec = "nat \<Rightarrow> string \<times> db_value list"

definition and_spec :: "where_spec \<Rightarrow> where_spec \<Rightarrow> where_spec" where
  "and_spec left_spec right_spec offset =
     (let (l_clause, l_params) = left_spec offset;
          (r_clause, r_params) = right_spec (offset + length l_params)
      in (''('' @ l_clause @ '') AND ('' @ r_clause @ '')'', l_params @ r_params))"

definition or_spec :: "where_spec \<Rightarrow> where_spec \<Rightarrow> where_spec" where
  "or_spec left_spec right_spec offset =
     (let (l_clause, l_params) = left_spec offset;
          (r_clause, r_params) = right_spec (offset + length l_params)
      in (''('' @ l_clause @ '') OR ('' @ r_clause @ '')'', l_params @ r_params))"

text \<open>The text \<open>$N\<close>.\<close>

definition placeholder :: "nat \<Rightarrow> string" where
  "placeholder n = CHR ''$'' # show_nat n"

definition eq_spec :: "string \<Rightarrow> db_value \<Rightarrow> where_spec" where
  "eq_spec fld v offset = (fld @ '' = '' @ placeholder offset, [v])"

definition like_spec :: "string \<Rightarrow> string \<Rightarrow> where_spec" where
  "like_spec fld pat offset = (fld @ '' LIKE '' @ placeholder offset, [DbText pat])"

definition in_spec :: "string \<Rightarrow> db_value list \<Rightarrow> where_spec" where
  "in_spec fld vs offset =
     (fld @ '' IN ('' @ join '', '' (map (\<lambda>i. placeholder (offset + i)) [0..<length vs]) @ '')'', vs)"

definition between_spec :: "string \<Rightarrow> db_value \<Rightarrow> db_value \<Rightarrow> where_spec" where
  "between_spec fld low high offset =
     (fld @ '' BETWEEN '' @ placeholder offset @ '' AND '' @ placeholder (offset + 1), [low, high])"

section \<open>The registry of connections\<close>

record 'c store_registry =
  sr_stores :: "(string, 'c) hashmap"
  sr_default_name :: string

definition store_registry_new :: "'c store_registry" where
  "store_registry_new = \<lparr>sr_stores = [], sr_default_name = ''default''\<rparr>"

definition store_register :: "string \<Rightarrow> 'c \<Rightarrow> 'c store_registry \<Rightarrow> 'c store_registry" where
  "store_register n db r =
     (let r1 = (if sr_stores r = [] then r\<lparr>sr_default_name := n\<rparr> else r)
      in r1\<lparr>sr_stores := hm_insert n db (sr_stores r1)\<rparr>)"

definition store_get :: "'c store_registry \<Rightarrow> string \<Rightarrow> 'c option" where
  "store_get r n = hm_get (sr_stores r) n"

definition store_default :: "'c store_registry \<Rightarrow> 'c option" where
  "store_default r = hm_get (sr_stores r) (sr_default_name r)"

definition store_set_default :: "string \<Rightarrow> 'c store_registry \<Rightarrow> unit res \<times> 'c store_registry" where
  "store_set_default n r =
     (if \<not> hm_contains (sr_stores r) n
      then (Err StoreConnectionFailed (''store '' @ quoted n @ '' not found in registry''), r)
      else (Ok (), r\<lparr>sr_default_name := n\<rparr>))"

definition store_list_names :: "'c store_registry \<Rightarrow> string list" where
  "store_list_names r = hm_keys (sr_stores r)"

definition store_len :: "'c store_registry \<Rightarrow> nat" where
  "store_len r = length (sr_stores r)"

definition store_is_empty :: "'c store_registry \<Rightarrow> bool" where
  "store_is_empty r \<longleftrightarrow> sr_stores r = []"

section \<open>Conversions round trip\<close>

text \<open>
  What an entity stores is what it reads back: every Rust type the store supports is recovered
  from the database value it was converted to, also under \<open>Option\<close>, and \<open>None\<close> is stored as NULL.
\<close>

theorem db_value_roundtrip:
  "bool_from_db dbg (bool_into_db b) = Ok b \<and>
   i32_from_db dbg (i32_into_db i) = Ok i \<and>
   i64_from_db dbg (i64_into_db j) = Ok j \<and>
   f64_from_db dbg (f64_into_db x) = Ok x \<and>
   string_from_db dbg (string_into_db s) = Ok s \<and>
   bytes_from_db dbg (bytes_into_db bs) = Ok bs \<and>
   option_from_db (i32_from_db dbg) (option_into_db i32_into_db oi) = Ok oi \<and>
   option_from_db (string_from_db dbg) (option_into_db string_into_db os) = Ok os \<and>
   option_into_db bytes_into_db None = DbNull"
proof -
  have conv: "ucast (scast k :: i64) = k" for k :: i32
    by (rule bit_word_eqI) (auto simp: bit_simps)
  show ?thesis
    by (cases oi; cases os)
      (simp_all add: bool_from_db_def bool_into_db_def i32_from_db_def i32_into_db_def i64_from_db_def
        i64_into_db_def f64_from_db_def f64_into_db_def string_from_db_def string_into_db_def
        bytes_from_db_def bytes_into_db_def option_from_db_def option_into_db_def is_null_def
        bind_res_def conv)
qed

text \<open>The narrowing to \<open>i32\<close> does not check the range: a stored integer of more than 32 bits is read
  back as its low half.\<close>

lemma i32_from_db_truncates: "i32_from_db dbg (DbInt (2 ^ 32 + 5)) = Ok 5"
  by (simp add: i32_from_db_def)

section \<open>What a numbered clause means\<close>

text \<open>The meaning of a statement with parameters, as the PostgreSQL protocol defines it: \<open>$N\<close> stands for
  the \<open>N\<close>-th parameter. \<open>bind_text f s\<close> writes \<open>f N\<close> for each \<open>$N\<close> of \<open>s\<close>.\<close>

function bind_text :: "(nat \<Rightarrow> string) \<Rightarrow> string \<Rightarrow> string" where
  "bind_text f [] = []"
| "bind_text f (c # s) =
     (if c = CHR ''$''
      then (case digits_acc 0 (fst (span_digits s)) of
              Some n \<Rightarrow> if fst (span_digits s) = [] then c # bind_text f s else f n @ bind_text f (snd (span_digits s))
            | None \<Rightarrow> c # bind_text f s)
      else c # bind_text f s)"
  by pat_completeness auto

termination
  by (relation "measure (\<lambda>(_, s). length s)")
    (auto simp: span_digits_def le_imp_less_Suc length_dropWhile_le)

definition no_digit :: "string \<Rightarrow> bool" where
  "no_digit s = (case s of [] \<Rightarrow> True | c # _ \<Rightarrow> digit_val c = None)"

definition plain :: "string \<Rightarrow> bool" where
  "plain s \<longleftrightarrow> CHR ''$'' \<notin> set s"

text \<open>The statement with every parameter written out in place, \<open>sh\<close> printing a value.\<close>

definition bound_sql :: "(db_value \<Rightarrow> string) \<Rightarrow> string \<Rightarrow> db_value list \<Rightarrow> string" where
  "bound_sql sh sql params = bind_text (\<lambda>n. sh (params ! (n - 1))) sql"

named_theorems sql_simps

lemma bind_text_plain [sql_simps]: "plain p \<Longrightarrow> bind_text f (p @ s) = p @ bind_text f s"
  by (induction p) (auto simp: plain_def)

lemma bind_text_plain_all: "plain p \<Longrightarrow> bind_text f p = p"
  using bind_text_plain [of p f "[]"] by simp

lemma span_show_nat: "no_digit s \<Longrightarrow> span_digits (show_nat n @ s) = (show_nat n, s)"
proof -
  assume s: "no_digit s"
  have d: "digit_val c \<noteq> None" if "c \<in> set (show_nat n)" for c
    using show_nat_digits [OF that] by (auto simp: digit_val_digit_char)
  have "takeWhile (\<lambda>c. digit_val c \<noteq> None) s = [] \<and> dropWhile (\<lambda>c. digit_val c \<noteq> None) s = s"
    using s by (cases s) (simp_all add: no_digit_def)
  with d show ?thesis
    by (simp add: span_digits_def takeWhile_append2 dropWhile_append2)
qed

lemma bind_text_placeholder [sql_simps]:
  "no_digit s \<Longrightarrow> bind_text f (placeholder n @ s) = f n @ bind_text f s"
  by (simp add: placeholder_def span_show_nat digits_acc_show_nat)

lemma bind_text_placeholder_end [sql_simps]: "bind_text f (placeholder n) = f n"
  using bind_text_placeholder [of "[]" f n] by (simp add: no_digit_def)

lemma plain_append [simp]: "plain (a @ b) \<longleftrightarrow> plain a \<and> plain b"
  by (auto simp: plain_def)

lemma plain_Nil [simp]: "plain []"
  by (simp add: plain_def)

lemma plain_Cons [simp]: "plain (c # s) \<longleftrightarrow> c \<noteq> CHR ''$'' \<and> plain s"
  by (auto simp: plain_def)

lemma no_digit_Nil [simp]: "no_digit []"
  by (simp add: no_digit_def)

lemma no_digit_Cons [simp]: "no_digit (c # s) \<longleftrightarrow> digit_val c = None"
  by (simp add: no_digit_def)

text \<open>A separated list of texts that each end in a placeholder.\<close>

lemma bind_text_join:
  assumes "no_digit sep" and "sep \<noteq> []" and "plain sep" and "no_digit s"
    and "\<forall>(p, n) \<in> set ps. plain p"
  shows "bind_text f (join sep (map (\<lambda>(p, n). p @ placeholder n) ps) @ s) =
    join sep (map (\<lambda>(p, n). p @ f n) ps) @ bind_text f s"
  using assms(5)
proof (induction ps rule: induct_list012)
  case (3 x y zs)
  have "no_digit (sep @ t)" for t using assms(1,2) by (cases sep) simp_all
  with 3 assms(3) show ?case by (auto simp: sql_simps split: prod.splits)
qed (use assms(4) in \<open>auto simp: sql_simps\<close>)

section \<open>Conditions\<close>

datatype (plugins only: code size) cond =
    CEq string db_value
  | CLike string string
  | CIn string "db_value list"
  | CBetween string db_value db_value
  | CAnd cond cond
  | COr cond cond

text \<open>The specification the code builds for a condition, the condition's values in order, and its text
  with the values written out.\<close>

primrec spec_of :: "cond \<Rightarrow> where_spec" where
  "spec_of (CEq fld v) = eq_spec fld v"
| "spec_of (CLike fld pat) = like_spec fld pat"
| "spec_of (CIn fld vs) = in_spec fld vs"
| "spec_of (CBetween fld low high) = between_spec fld low high"
| "spec_of (CAnd a b) = and_spec (spec_of a) (spec_of b)"
| "spec_of (COr a b) = or_spec (spec_of a) (spec_of b)"

primrec cond_values :: "cond \<Rightarrow> db_value list" where
  "cond_values (CEq fld v) = [v]"
| "cond_values (CLike fld pat) = [DbText pat]"
| "cond_values (CIn fld vs) = vs"
| "cond_values (CBetween fld low high) = [low, high]"
| "cond_values (CAnd a b) = cond_values a @ cond_values b"
| "cond_values (COr a b) = cond_values a @ cond_values b"

primrec cond_sql :: "(db_value \<Rightarrow> string) \<Rightarrow> cond \<Rightarrow> string" where
  "cond_sql sh (CEq fld v) = fld @ '' = '' @ sh v"
| "cond_sql sh (CLike fld pat) = fld @ '' LIKE '' @ sh (DbText pat)"
| "cond_sql sh (CIn fld vs) = fld @ '' IN ('' @ join '', '' (map sh vs) @ '')''"
| "cond_sql sh (CBetween fld low high) = fld @ '' BETWEEN '' @ sh low @ '' AND '' @ sh high"
| "cond_sql sh (CAnd a b) = ''('' @ cond_sql sh a @ '') AND ('' @ cond_sql sh b @ '')''"
| "cond_sql sh (COr a b) = ''('' @ cond_sql sh a @ '') OR ('' @ cond_sql sh b @ '')''"

primrec cond_plain :: "cond \<Rightarrow> bool" where
  "cond_plain (CEq fld v) = plain fld"
| "cond_plain (CLike fld pat) = plain fld"
| "cond_plain (CIn fld vs) = plain fld"
| "cond_plain (CBetween fld low high) = plain fld"
| "cond_plain (CAnd a b) = (cond_plain a \<and> cond_plain b)"
| "cond_plain (COr a b) = (cond_plain a \<and> cond_plain b)"

lemma spec_of_params: "snd (spec_of c off) = cond_values c"
  by (induction c arbitrary: off)
    (simp_all add: eq_spec_def like_spec_def in_spec_def between_spec_def and_spec_def or_spec_def
      split_beta Let_def)

lemma digit_val_punct:
  "digit_val CHR '' '' = None" "digit_val CHR '')'' = None" "digit_val CHR '','' = None"
  by (simp_all add: digit_val_def Let_def)

text \<open>The clause of a condition in front of any text that does not start with a digit: \<open>f\<close> puts each
  value back at its own placeholder.\<close>

lemma spec_of_clause:
  assumes "cond_plain c" and "no_digit s"
    and "\<And>i. i < length (cond_values c) \<Longrightarrow> f (off + i) = sh (cond_values c ! i)"
  shows "bind_text f (fst (spec_of c off) @ s) = cond_sql sh c @ bind_text f s"
  using assms
proof (induction c arbitrary: off s)
  case (CIn fld vs)
  have "map (\<lambda>i. placeholder (off + i)) [0..<length vs] =
      map (\<lambda>(p, n). p @ placeholder n) (map (\<lambda>i. ([], off + i)) [0..<length vs])" by simp
  moreover have "map (\<lambda>(p, n). p @ f n) (map (\<lambda>i. ([], off + i)) [0..<length vs]) = map sh vs"
    using CIn by (intro nth_equalityI) simp_all
  moreover have "no_digit ('')'' @ s)" by (simp add: digit_val_punct)
  ultimately show ?case
    using CIn bind_text_join [of "'', ''" "'')'' @ s" "map (\<lambda>i. ([], off + i)) [0..<length vs]" f]
    by (simp add: in_spec_def sql_simps digit_val_punct comp_def)
next
  case (CAnd a b)
  have "f (off + length (cond_values a) + i) = sh (cond_values b ! i)" if "i < length (cond_values b)" for i
    using CAnd.prems(3) [of "length (cond_values a) + i"] that by (simp add: nth_append add.assoc)
  moreover have "f (off + i) = sh (cond_values a ! i)" if "i < length (cond_values a)" for i
    using CAnd.prems(3) [of i] that by (simp add: nth_append)
  ultimately show ?case
    using CAnd.IH CAnd.prems(1,2)
    by (simp add: and_spec_def split_beta Let_def spec_of_params digit_val_punct)
next
  case (COr a b)
  have "f (off + length (cond_values a) + i) = sh (cond_values b ! i)" if "i < length (cond_values b)" for i
    using COr.prems(3) [of "length (cond_values a) + i"] that by (simp add: nth_append add.assoc)
  moreover have "f (off + i) = sh (cond_values a ! i)" if "i < length (cond_values a)" for i
    using COr.prems(3) [of i] that by (simp add: nth_append)
  ultimately show ?case
    using COr.IH COr.prems(1,2)
    by (simp add: or_spec_def split_beta Let_def spec_of_params digit_val_punct)
next
  case (CEq fld v)
  then show ?case using CEq.prems(3) [of 0] by (simp add: eq_spec_def sql_simps)
next
  case (CLike fld pat)
  then show ?case using CLike.prems(3) [of 0] by (simp add: like_spec_def sql_simps)
next
  case (CBetween fld low high)
  then show ?case using CBetween.prems(3) [of 0] CBetween.prems(3) [of 1]
    by (simp add: between_spec_def sql_simps digit_val_punct)
qed

section \<open>Properties of the specifications and the registry\<close>

text \<open>
  C24: a specification built from the combinators, however deeply nested, means its condition: with
  the numbering started at 1, every placeholder of the clause stands for its own value, so writing
  the parameters into the clause gives the condition with its values, and the parameters are the
  condition's values in order. Field names contain no dollar sign.
\<close>

theorem specification_binds_values:
  assumes "cond_plain c"
  shows "bound_sql sh (fst (spec_of c 1)) (snd (spec_of c 1)) = cond_sql sh c \<and>
    snd (spec_of c 1) = cond_values c"
  using spec_of_clause [OF assms, of "[]" "\<lambda>n. sh (cond_values c ! (n - 1))" 1 sh]
  by (simp add: bound_sql_def spec_of_params)

theorem specification_binds_values_witness:
  "bound_sql (\<lambda>v. case v of DbText s \<Rightarrow> quoted s | _ \<Rightarrow> ''?'')
     (fst (spec_of (COr (CEq ''a'' (DbText ''x$1'')) (CAnd (CIn ''b'' [DbText ''y'', DbText ''z'']) (CLike ''c'' ''w%''))) 1))
     (snd (spec_of (COr (CEq ''a'' (DbText ''x$1'')) (CAnd (CIn ''b'' [DbText ''y'', DbText ''z'']) (CLike ''c'' ''w%''))) 1)) =
   ''(a = '' @ quoted ''x$1'' @ '') OR ((b IN ('' @ quoted ''y'' @ '', '' @ quoted ''z'' @ '')) AND (c LIKE '' @ quoted ''w%'' @ ''))''"
  by (rule trans [OF conjunct1 [OF specification_binds_values
    [of "COr (CEq ''a'' (DbText ''x$1'')) (CAnd (CIn ''b'' [DbText ''y'', DbText ''z'']) (CLike ''c'' ''w%''))"]]])
    simp_all

text \<open>An IN condition over no values is no SQL: its clause has an empty list.\<close>

lemma in_spec_empty: "in_spec fld [] off = (fld @ '' IN ()'', [])"
  by (simp add: in_spec_def)

text \<open>The operations on the registry of connections, as one datatype.\<close>

datatype 'c store_op = StoreRegister string 'c | StoreSetDefault string

fun store_run :: "'c store_op \<Rightarrow> 'c store_registry \<Rightarrow> 'c store_registry" where
  "store_run (StoreRegister n db) r = store_register n db r"
| "store_run (StoreSetDefault n) r = snd (store_set_default n r)"

definition store_ok :: "'c store_registry \<Rightarrow> bool" where
  "store_ok r \<longleftrightarrow> hm_ok (sr_stores r) \<and> (sr_stores r = [] \<or> hm_contains (sr_stores r) (sr_default_name r))"

lemma hm_contains_insert: "hm_contains (hm_insert k v m) k' \<longleftrightarrow> k' = k \<or> hm_contains m k'"
  by (simp add: hm_contains_def)

lemma hm_insert_not_Nil [simp]: "hm_insert k v m \<noteq> []"
  by (cases m) (simp_all add: hm_insert_def split: prod.splits)

lemma store_run_ok: "store_ok r \<Longrightarrow> store_ok (store_run op r)"
  by (cases op)
    (auto simp: store_ok_def store_register_def store_set_default_def Let_def hm_contains_insert)

lemma fold_register:
  "sr_stores r \<noteq> [] \<Longrightarrow> sr_default_name r = m \<Longrightarrow>
     sr_default_name (fold (\<lambda>(n, db). store_register n db) regs r) = m \<and>
     hm_get (sr_stores (fold (\<lambda>(n, db). store_register n db) regs r)) m =
       (case map_of (rev regs) m of Some d \<Rightarrow> Some d | None \<Rightarrow> hm_get (sr_stores r) m)"
proof (induction regs arbitrary: r)
  case (Cons reg regs)
  obtain n db where reg: "reg = (n, db)" by force
  have "sr_stores (store_register n db r) = hm_insert n db (sr_stores r)"
    "sr_default_name (store_register n db r) = m"
    using Cons.prems by (simp_all add: store_register_def Let_def)
  with Cons.IH [of "store_register n db r"] show ?case
    by (auto simp: reg map_add_def split: option.splits)
qed simp

lemma register_first:
  "sr_stores (store_register n c store_registry_new) = [(n, c)]"
  "sr_default_name (store_register n c store_registry_new) = n"
  by (simp_all add: store_register_def store_registry_new_def Let_def hm_insert_new)

text \<open>
  Once a connection is registered there is a default connection, whatever is registered and
  selected afterwards; the first registered name is the default until another is selected, and
  registering never changes which connection another name stands for.
\<close>

theorem store_registry_default:
  "(store_default (fold store_run ops store_registry_new) = None) =
     store_is_empty (fold store_run ops store_registry_new) \<and>
   store_default (fold (\<lambda>(n, db). store_register n db) ((m, c) # regs) store_registry_new) =
     map_of (rev ((m, c) # regs)) m \<and>
   store_get (store_register n db r) m = (if m = n then Some db else store_get r m)"
proof (intro conjI)
  have "store_ok (fold store_run ops r)" if "store_ok r" for r
    using that by (induction ops arbitrary: r) (simp_all add: store_run_ok)
  then have "store_ok (fold store_run ops store_registry_new)"
    by (simp add: store_ok_def store_registry_new_def)
  then show "(store_default (fold store_run ops store_registry_new) = None) =
      store_is_empty (fold store_run ops store_registry_new)"
    by (auto simp: store_ok_def store_default_def store_is_empty_def hm_contains_def)
  have "store_default (fold (\<lambda>(n, db). store_register n db) regs (store_register m c store_registry_new)) =
      (case map_of (rev regs) m of Some d \<Rightarrow> Some d | None \<Rightarrow> Some c)"
    using fold_register [of "store_register m c store_registry_new" m regs]
    by (simp add: store_default_def register_first hm_get_def [of "[(m, c)]"] cong: option.case_cong)
  then show "store_default (fold (\<lambda>(n, db). store_register n db) ((m, c) # regs) store_registry_new) =
      map_of (rev ((m, c) # regs)) m"
    by (simp add: map_add_def split: option.splits)
  show "store_get (store_register n db r) m = (if m = n then Some db else store_get r m)"
    by (simp add: store_register_def store_get_def Let_def)
qed

end
