(* ===== verification/Repository.thy ===== *)
theory Repository
  imports Store Config_Model
begin

text \<open>
  The generic repository (\<open>rinfra-plugins/src/store/generic_repo.rs\<close>) and the lifecycle of the SQL
  stores behind it (\<open>store/mod.rs\<close>, \<open>executor.rs\<close>, \<open>transaction.rs\<close>, \<open>sqlite.rs\<close>, \<open>mysql.rs\<close>). The
  repository is modelled over any executor: a record of the three operations of \<open>DbExecutor\<close>, which
  act on the state of the database. The \<open>sqlx\<close> pools and drivers are parameters: the result of
  connecting, of a ping, of running a statement and of decoding a column.
\<close>

section \<open>Executors, entities and query options\<close>

record 'db executor =
  ex_execute :: "string \<Rightarrow> db_value list \<Rightarrow> 'db \<Rightarrow> u64 res \<times> 'db"
  ex_query :: "string \<Rightarrow> db_value list \<Rightarrow> 'db \<Rightarrow> db_row list res \<times> 'db"
  ex_query_one :: "string \<Rightarrow> db_value list \<Rightarrow> 'db \<Rightarrow> db_row option res \<times> 'db"

record 'e entity_map =
  em_table_name :: string
  em_id_column :: string
  em_to_params :: "'e \<Rightarrow> (string \<times> db_value) list"
  em_id :: "'e \<Rightarrow> i64"
  em_from_row :: "db_row \<Rightarrow> 'e res"

datatype sort_direction = Asc | Desc

record order_by =
  ob_field :: string
  ob_direction :: sort_direction

record query_options =
  qo_limit :: i64
  qo_offset :: i64
  qo_order_by :: "order_by list"

definition query_options_default :: query_options where
  "query_options_default = \<lparr>qo_limit = 100, qo_offset = 0, qo_order_by = []\<rparr>"

text \<open>\<open>db.executor().await?\<close>: the connection hands out an executor or fails.\<close>

definition with_executor ::
  "('db \<Rightarrow> 'db executor res) \<Rightarrow> ('db executor \<Rightarrow> 'db \<Rightarrow> 'a res \<times> 'db) \<Rightarrow> 'db \<Rightarrow> 'a res \<times> 'db" where
  "with_executor conn k db = (case conn db of Inl e \<Rightarrow> (Inl e, db) | Inr ex \<Rightarrow> k ex db)"

text \<open>\<open>collect()\<close> into a \<open>Result\<close>: the first error is the result.\<close>

primrec collect_res :: "'a res list \<Rightarrow> 'a list res" where
  "collect_res [] = Ok []"
| "collect_res (r # rs) = bind_res r (\<lambda>x. bind_res (collect_res rs) (\<lambda>xs. Ok (x # xs)))"

section \<open>The generic repository\<close>

definition find_by_id ::
  "'e entity_map \<Rightarrow> ('db \<Rightarrow> 'db executor res) \<Rightarrow> i64 \<Rightarrow> 'db \<Rightarrow> 'e option res \<times> 'db" where
  "find_by_id em conn i =
     (let sql = ''SELECT * FROM '' @ em_table_name em @ '' WHERE '' @ em_id_column em @ '' = $1''
      in with_executor conn (\<lambda>ex db.
           let (row, db1) = ex_query_one ex sql [DbInt i] db
           in (bind_res row (\<lambda>row. case row of
                  Some r \<Rightarrow> bind_res (em_from_row em r) (\<lambda>e. Ok (Some e))
                | None \<Rightarrow> Ok None), db1)))"

definition order_clause :: "query_options \<Rightarrow> string" where
  "order_clause opts =
     (if qo_order_by opts = [] then []
      else '' ORDER BY '' @ join '', '' (map (\<lambda>ob. ob_field ob @ '' '' @
             (case ob_direction ob of Asc \<Rightarrow> ''ASC'' | Desc \<Rightarrow> ''DESC'')) (qo_order_by opts)))"

definition page_clause :: "query_options \<Rightarrow> string" where
  "page_clause opts = '' LIMIT '' @ show_int (sint (qo_limit opts)) @ '' OFFSET '' @ show_int (sint (qo_offset opts))"

definition find_all ::
  "'e entity_map \<Rightarrow> ('db \<Rightarrow> 'db executor res) \<Rightarrow> query_options \<Rightarrow> 'db \<Rightarrow> 'e list res \<times> 'db" where
  "find_all em conn opts =
     (let sql = ''SELECT * FROM '' @ em_table_name em @ order_clause opts @ page_clause opts
      in with_executor conn (\<lambda>ex db.
           let (rows, db1) = ex_query ex sql [] db
           in (bind_res rows (\<lambda>rs. collect_res (map (em_from_row em) rs)), db1)))"

text \<open>\<open>r.get("cnt")? as u64\<close>.\<close>

definition row_count :: "(db_value \<Rightarrow> string) \<Rightarrow> db_row option res \<Rightarrow> u64 res" where
  "row_count dbg row =
     bind_res row (\<lambda>row. case row of
       Some r \<Rightarrow> row_get (i64_from_db dbg) r ''cnt''
     | None \<Rightarrow> Ok 0)"

definition count_all ::
  "(db_value \<Rightarrow> string) \<Rightarrow> 'e entity_map \<Rightarrow> ('db \<Rightarrow> 'db executor res) \<Rightarrow> 'db \<Rightarrow> u64 res \<times> 'db" where
  "count_all dbg em conn =
     (let sql = ''SELECT count(*) AS cnt FROM '' @ em_table_name em
      in with_executor conn (\<lambda>ex db. let (row, db1) = ex_query_one ex sql [] db in (row_count dbg row, db1)))"

definition insert_statement :: "'e entity_map \<Rightarrow> 'e \<Rightarrow> string \<times> db_value list" where
  "insert_statement em e =
     (let params = em_to_params em e;
          cols = map fst params;
          placeholders = map placeholder [1..<Suc (length cols)]
      in (''INSERT INTO '' @ em_table_name em @ '' ('' @ join '', '' cols @ '') VALUES ('' @
            join '', '' placeholders @ '') RETURNING *'', map snd params))"

definition create ::
  "'e entity_map \<Rightarrow> ('db \<Rightarrow> 'db executor res) \<Rightarrow> 'e \<Rightarrow> 'db \<Rightarrow> 'e res \<times> 'db" where
  "create em conn e =
     (let (sql, vals) = insert_statement em e
      in with_executor conn (\<lambda>ex db.
           let (row, db1) = ex_query_one ex sql vals db
           in (bind_res row (\<lambda>row. case row of
                  Some r \<Rightarrow> em_from_row em r
                | None \<Rightarrow> Err StoreQueryFailed ''INSERT RETURNING returned no rows''), db1)))"

definition update_statement :: "'e entity_map \<Rightarrow> 'e \<Rightarrow> string \<times> db_value list" where
  "update_statement em e =
     (let params = em_to_params em e;
          set_clauses = map (\<lambda>(i, col, _). col @ '' = '' @ placeholder (i + 1)) (zip [0..<length params] params);
          vals = map snd params;
          id_param_idx = length vals + 1
      in (''UPDATE '' @ em_table_name em @ '' SET '' @ join '', '' set_clauses @ '' WHERE '' @ em_id_column em @
            '' = '' @ placeholder id_param_idx @ '' RETURNING *'', vals @ [DbInt (em_id em e)]))"

definition update ::
  "'e entity_map \<Rightarrow> ('db \<Rightarrow> 'db executor res) \<Rightarrow> 'e \<Rightarrow> 'db \<Rightarrow> 'e res \<times> 'db" where
  "update em conn e =
     (let (sql, vals) = update_statement em e
      in with_executor conn (\<lambda>ex db.
           let (row, db1) = ex_query_one ex sql vals db
           in (bind_res row (\<lambda>row. case row of
                  Some r \<Rightarrow> em_from_row em r
                | None \<Rightarrow> Err StoreQueryFailed ''UPDATE RETURNING returned no rows''), db1)))"

definition delete ::
  "'e entity_map \<Rightarrow> ('db \<Rightarrow> 'db executor res) \<Rightarrow> i64 \<Rightarrow> 'db \<Rightarrow> bool res \<times> 'db" where
  "delete em conn i =
     (let sql = ''DELETE FROM '' @ em_table_name em @ '' WHERE '' @ em_id_column em @ '' = $1''
      in with_executor conn (\<lambda>ex db.
           let (affected, db1) = ex_execute ex sql [DbInt i] db
           in (bind_res affected (\<lambda>n. Ok (0 < n)), db1)))"

definition exists ::
  "'e entity_map \<Rightarrow> ('db \<Rightarrow> 'db executor res) \<Rightarrow> i64 \<Rightarrow> 'db \<Rightarrow> bool res \<times> 'db" where
  "exists em conn i =
     (let sql = ''SELECT 1 FROM '' @ em_table_name em @ '' WHERE '' @ em_id_column em @ '' = $1 LIMIT 1''
      in with_executor conn (\<lambda>ex db.
           let (row, db1) = ex_query_one ex sql [DbInt i] db
           in (bind_res row (\<lambda>row. Ok (row \<noteq> None)), db1)))"

definition find_by ::
  "'e entity_map \<Rightarrow> ('db \<Rightarrow> 'db executor res) \<Rightarrow> where_spec \<Rightarrow> query_options \<Rightarrow> 'db \<Rightarrow> 'e list res \<times> 'db" where
  "find_by em conn spec opts =
     (let (where_clause, params) = spec 1;
          sql = ''SELECT * FROM '' @ em_table_name em @ '' WHERE '' @ where_clause @ order_clause opts @ page_clause opts
      in with_executor conn (\<lambda>ex db.
           let (rows, db1) = ex_query ex sql params db
           in (bind_res rows (\<lambda>rs. collect_res (map (em_from_row em) rs)), db1)))"

definition count_by ::
  "(db_value \<Rightarrow> string) \<Rightarrow> 'e entity_map \<Rightarrow> ('db \<Rightarrow> 'db executor res) \<Rightarrow> where_spec \<Rightarrow> 'db \<Rightarrow> u64 res \<times> 'db" where
  "count_by dbg em conn spec =
     (let (where_clause, params) = spec 1;
          sql = ''SELECT count(*) AS cnt FROM '' @ em_table_name em @ '' WHERE '' @ where_clause
      in with_executor conn (\<lambda>ex db. let (row, db1) = ex_query_one ex sql params db in (row_count dbg row, db1)))"

definition delete_by ::
  "'e entity_map \<Rightarrow> ('db \<Rightarrow> 'db executor res) \<Rightarrow> where_spec \<Rightarrow> 'db \<Rightarrow> u64 res \<times> 'db" where
  "delete_by em conn spec =
     (let (where_clause, params) = spec 1;
          sql = ''DELETE FROM '' @ em_table_name em @ '' WHERE '' @ where_clause
      in with_executor conn (\<lambda>ex db. ex_execute ex sql params db))"

section \<open>What the statements mean\<close>

text \<open>A database that sees each statement with its parameters written in place, which is what \<open>$N\<close> means
  to PostgreSQL and SQLite; \<open>sh\<close> is the literal of a value.\<close>

record 'db server =
  sv_execute :: "string \<Rightarrow> 'db \<Rightarrow> u64 res \<times> 'db"
  sv_query :: "string \<Rightarrow> 'db \<Rightarrow> db_row list res \<times> 'db"
  sv_query_one :: "string \<Rightarrow> 'db \<Rightarrow> db_row option res \<times> 'db"

definition literal_executor :: "(db_value \<Rightarrow> string) \<Rightarrow> 'db server \<Rightarrow> 'db executor" where
  "literal_executor sh sv =
     \<lparr>ex_execute = (\<lambda>sql ps. sv_execute sv (bound_sql sh sql ps)),
      ex_query = (\<lambda>sql ps. sv_query sv (bound_sql sh sql ps)),
      ex_query_one = (\<lambda>sql ps. sv_query_one sv (bound_sql sh sql ps))\<rparr>"

definition entity_plain :: "'e entity_map \<Rightarrow> 'e \<Rightarrow> bool" where
  "entity_plain em e \<longleftrightarrow> plain (em_table_name em) \<and> plain (em_id_column em) \<and>
     (\<forall>(c, v) \<in> set (em_to_params em e). plain c)"

definition insert_sql :: "(db_value \<Rightarrow> string) \<Rightarrow> 'e entity_map \<Rightarrow> 'e \<Rightarrow> string" where
  "insert_sql sh em e =
     ''INSERT INTO '' @ em_table_name em @ '' ('' @ join '', '' (map fst (em_to_params em e)) @ '') VALUES ('' @
       join '', '' (map (\<lambda>(c, v). sh v) (em_to_params em e)) @ '') RETURNING *''"

definition update_sql :: "(db_value \<Rightarrow> string) \<Rightarrow> 'e entity_map \<Rightarrow> 'e \<Rightarrow> string" where
  "update_sql sh em e =
     ''UPDATE '' @ em_table_name em @ '' SET '' @
       join '', '' (map (\<lambda>(c, v). c @ '' = '' @ sh v) (em_to_params em e)) @
       '' WHERE '' @ em_id_column em @ '' = '' @ sh (DbInt (em_id em e)) @ '' RETURNING *''"

lemma plain_join: "plain sep \<Longrightarrow> (\<forall>x\<in>set xs. plain x) \<Longrightarrow> plain (join sep xs)"
  by (induction xs rule: induct_list012) auto

lemma plain_show_nat: "plain (show_nat n)"
proof -
  have "digit_char d \<noteq> CHR ''$''" if "d < 10" for d
    using that by (rule digit_not) simp
  then show ?thesis using show_nat_digits [of "CHR ''$''" n] unfolding plain_def by metis
qed

lemma plain_page: "plain (page_clause opts)"
  by (simp add: page_clause_def show_int_def plain_show_nat)

lemma plain_order: "\<forall>ob\<in>set (qo_order_by opts). plain (ob_field ob) \<Longrightarrow> plain (order_clause opts)"
  by (auto simp: order_clause_def intro!: plain_join split: sort_direction.splits)

lemma no_digit_tail: "no_digit (order_clause opts @ page_clause opts)"
  by (simp add: order_clause_def page_clause_def digit_val_punct)

lemma bind_insert:
  assumes "entity_plain em e"
  shows "bound_sql sh (fst (insert_statement em e)) (snd (insert_statement em e)) = insert_sql sh em e"
proof -
  let ?ps = "em_to_params em e"
  let ?f = "\<lambda>n. sh (map snd ?ps ! (n - 1))"
  have cols: "plain (join '', '' (map fst ?ps))"
    using assms by (intro plain_join) (auto simp: entity_plain_def)
  have ph: "map placeholder [1..<Suc (length ?ps)] =
      map (\<lambda>(p, n). p @ placeholder n) (map (Pair []) [1..<Suc (length ?ps)])"
    by (simp add: comp_def)
  have vals: "map (\<lambda>(p, n). p @ ?f n) (map (Pair []) [1..<Suc (length ?ps)]) = map (\<lambda>(c, v). sh v) ?ps"
    by (rule nth_equalityI) (simp_all add: nth_upt split_beta del: upt_Suc)
  have "bind_text ?f (join '', '' (map placeholder [1..<Suc (length ?ps)]) @ '') RETURNING *'') =
      join '', '' (map (\<lambda>(c, v). sh v) ?ps) @ bind_text ?f '') RETURNING *''"
    unfolding ph vals [symmetric] by (rule bind_text_join) (auto simp: digit_val_punct)
  then show ?thesis
    using assms cols
    by (simp add: bound_sql_def insert_statement_def insert_sql_def Let_def entity_plain_def bind_text_plain
        del: upt_Suc)
qed

lemma bind_update:
  assumes "entity_plain em e"
  shows "bound_sql sh (fst (update_statement em e)) (snd (update_statement em e)) = update_sql sh em e"
proof -
  let ?ps = "em_to_params em e"
  let ?vals = "map snd ?ps @ [DbInt (em_id em e)]"
  let ?f = "\<lambda>n. sh (?vals ! (n - 1))"
  let ?xs = "map (\<lambda>(i, col, _). (col @ '' = '', i + 1)) (zip [0..<length ?ps] ?ps)"
  let ?t = "'' WHERE '' @ em_id_column em @ '' = '' @ placeholder (length ?ps + 1) @ '' RETURNING *''"
  have sets: "map (\<lambda>(i, col, _). col @ '' = '' @ placeholder (i + 1)) (zip [0..<length ?ps] ?ps) =
      map (\<lambda>(p, n). p @ placeholder n) ?xs" by auto
  have vals: "map (\<lambda>(p, n). p @ ?f n) ?xs = map (\<lambda>(c, v). c @ '' = '' @ sh v) ?ps"
    by (rule nth_equalityI) (simp_all add: split_beta nth_append)
  have "\<forall>(p, n)\<in>set ?xs. plain p"
    using assms by (auto simp: entity_plain_def dest!: set_zip_rightD)
  then have "bind_text ?f (join '', '' (map (\<lambda>(i, col, _). col @ '' = '' @ placeholder (i + 1))
        (zip [0..<length ?ps] ?ps)) @ ?t) =
      join '', '' (map (\<lambda>(c, v). c @ '' = '' @ sh v) ?ps) @ bind_text ?f ?t"
    unfolding sets vals [symmetric] by (intro bind_text_join) (auto simp: digit_val_punct)
  moreover have "bind_text ?f ?t =
      '' WHERE '' @ em_id_column em @ '' = '' @ sh (DbInt (em_id em e)) @ '' RETURNING *''"
    using assms by (simp add: bind_text_plain bind_text_placeholder entity_plain_def digit_val_punct nth_append)
  ultimately show ?thesis
    using assms
    by (simp add: bound_sql_def update_statement_def update_sql_def Let_def entity_plain_def bind_text_plain
        del: upt_Suc)
qed

section \<open>Properties\<close>

text \<open>A small entity and a database that answers every statement and keeps the texts, for the witnesses.\<close>

definition users :: "(i64 \<times> string) entity_map" where
  "users = \<lparr>em_table_name = ''users'', em_id_column = ''id'', em_to_params = (\<lambda>(_, n). [(''name'', DbText n)]),
     em_id = fst, em_from_row = (\<lambda>_. Ok (7, ''kim''))\<rparr>"

definition log_server :: "string list server" where
  "log_server = \<lparr>sv_execute = (\<lambda>s db. (Ok 1, s # db)), sv_query = (\<lambda>s db. (Ok [], s # db)),
     sv_query_one = (\<lambda>s db. (Ok (Some \<lparr>row_columns = [], row_values = []\<rparr>), s # db))\<rparr>"

definition literal :: "db_value \<Rightarrow> string" where
  "literal v = (case v of DbText s \<Rightarrow> quoted s | DbInt i \<Rightarrow> show_int (sint i) | _ \<Rightarrow> ''NULL'')"

text \<open>
  C22: the statements that write an entity bind every column to its own value and address the row by
  its own id, for any number of columns: on a database that understands numbered placeholders,
  \<open>create\<close>, \<open>update\<close> and \<open>delete\<close> run exactly the statement with the entity's values in place.
  Table and column names contain no dollar sign.
\<close>

theorem repository_writes_own_values:
  assumes "entity_plain em e"
  shows "create em (\<lambda>_. Ok (literal_executor sh sv)) e db =
      (let (row, db1) = sv_query_one sv (insert_sql sh em e) db
       in (bind_res row (\<lambda>row. case row of Some r \<Rightarrow> em_from_row em r
             | None \<Rightarrow> Err StoreQueryFailed ''INSERT RETURNING returned no rows''), db1)) \<and>
    update em (\<lambda>_. Ok (literal_executor sh sv)) e db =
      (let (row, db1) = sv_query_one sv (update_sql sh em e) db
       in (bind_res row (\<lambda>row. case row of Some r \<Rightarrow> em_from_row em r
             | None \<Rightarrow> Err StoreQueryFailed ''UPDATE RETURNING returned no rows''), db1)) \<and>
    delete em (\<lambda>_. Ok (literal_executor sh sv)) (em_id em e) db =
      (let (affected, db1) = sv_execute sv (''DELETE FROM '' @ em_table_name em @ '' WHERE '' @
            em_id_column em @ '' = '' @ sh (DbInt (em_id em e))) db
       in (bind_res affected (\<lambda>n. Ok (0 < n)), db1))"
proof (intro conjI)
  show "create em (\<lambda>_. Ok (literal_executor sh sv)) e db =
      (let (row, db1) = sv_query_one sv (insert_sql sh em e) db
       in (bind_res row (\<lambda>row. case row of Some r \<Rightarrow> em_from_row em r
             | None \<Rightarrow> Err StoreQueryFailed ''INSERT RETURNING returned no rows''), db1))"
    using bind_insert [OF assms, of sh]
    by (simp add: create_def with_executor_def literal_executor_def split_beta Let_def)
  show "update em (\<lambda>_. Ok (literal_executor sh sv)) e db =
      (let (row, db1) = sv_query_one sv (update_sql sh em e) db
       in (bind_res row (\<lambda>row. case row of Some r \<Rightarrow> em_from_row em r
             | None \<Rightarrow> Err StoreQueryFailed ''UPDATE RETURNING returned no rows''), db1))"
    using bind_update [OF assms, of sh]
    by (simp add: update_def with_executor_def literal_executor_def split_beta Let_def)
  have "bound_sql sh (''DELETE FROM '' @ em_table_name em @ '' WHERE '' @ em_id_column em @ '' = '' @ placeholder 1)
      [DbInt (em_id em e)] =
      ''DELETE FROM '' @ em_table_name em @ '' WHERE '' @ em_id_column em @ '' = '' @ sh (DbInt (em_id em e))"
    using assms by (simp add: bound_sql_def bind_text_plain bind_text_placeholder_end entity_plain_def)
  moreover have "placeholder 1 = ''$1''"
    by (simp add: placeholder_def show_nat.simps digit_char_def char_of_def bit_simps)
  ultimately show "delete em (\<lambda>_. Ok (literal_executor sh sv)) (em_id em e) db =
      (let (affected, db1) = sv_execute sv (''DELETE FROM '' @ em_table_name em @ '' WHERE '' @
            em_id_column em @ '' = '' @ sh (DbInt (em_id em e))) db
       in (bind_res affected (\<lambda>n. Ok (0 < n)), db1))"
    by (simp add: delete_def with_executor_def literal_executor_def split_beta Let_def)
qed

theorem repository_writes_own_values_witness:
  "update users (\<lambda>_. Ok (literal_executor literal log_server)) (7, ''kim'') [] =
     (Ok (7, ''kim''), [''UPDATE users SET name = '' @ quoted ''kim'' @ '' WHERE id = '' @ literal (DbInt 7) @ '' RETURNING *''])"
  by (rule trans [OF conjunct1 [OF conjunct2 [OF repository_writes_own_values]]])
    (simp_all add: users_def log_server_def entity_plain_def update_sql_def bind_res_def literal_def)

text \<open>
  Filtered queries select by their condition: on a database that understands numbered
  placeholders, \<open>find_by\<close> and \<open>delete_by\<close> with the specification of a condition run the statement
  with the condition's own values in place, in front of the ordering and the page.
\<close>

theorem repository_filters_by_condition:
  assumes "plain (em_table_name em)" and "cond_plain c"
    and "\<forall>ob\<in>set (qo_order_by opts). plain (ob_field ob)"
  shows "find_by em (\<lambda>_. Ok (literal_executor sh sv)) (spec_of c) opts db =
      (let (rows, db1) = sv_query sv (''SELECT * FROM '' @ em_table_name em @ '' WHERE '' @ cond_sql sh c @
            order_clause opts @ page_clause opts) db
       in (bind_res rows (\<lambda>rs. collect_res (map (em_from_row em) rs)), db1)) \<and>
    delete_by em (\<lambda>_. Ok (literal_executor sh sv)) (spec_of c) db =
      sv_execute sv (''DELETE FROM '' @ em_table_name em @ '' WHERE '' @ cond_sql sh c) db"
proof -
  have clause: "bound_sql sh (p @ fst (spec_of c 1) @ s) (snd (spec_of c 1)) = p @ cond_sql sh c @ s"
    if "plain p" "plain s" "no_digit s" for p s
    using that spec_of_clause [OF assms(2) that(3), of "\<lambda>n. sh (cond_values c ! (n - 1))" 1 sh]
    by (simp add: bound_sql_def bind_text_plain bind_text_plain_all spec_of_params)
  have "plain (''SELECT * FROM '' @ em_table_name em @ '' WHERE '')"
    "plain (''DELETE FROM '' @ em_table_name em @ '' WHERE '')"
    using assms(1) by simp_all
  moreover have "plain (order_clause opts @ page_clause opts)"
    using plain_order [OF assms(3)] plain_page by simp
  ultimately show ?thesis
    using clause [of "''SELECT * FROM '' @ em_table_name em @ '' WHERE ''" "order_clause opts @ page_clause opts"]
      clause [of "''DELETE FROM '' @ em_table_name em @ '' WHERE ''" "[]"] no_digit_tail [of opts]
    by (simp add: find_by_def delete_by_def with_executor_def literal_executor_def split_beta Let_def)
qed

theorem repository_filters_by_condition_witness:
  "delete_by users (\<lambda>_. Ok (literal_executor literal log_server))
     (spec_of (COr (CEq ''name'' (DbText ''kim'')) (CLike ''name'' ''$1%''))) [] =
   (Ok 1, [''DELETE FROM users WHERE (name = '' @ quoted ''kim'' @ '') OR (name LIKE '' @ quoted ''$1%'' @ '')''])"
  by (rule trans [OF conjunct2 [OF repository_filters_by_condition [of _ _ query_options_default]]])
    (simp_all add: users_def log_server_def literal_def query_options_default_def)

end
