(* ===== verification/Sql_Stores.thy ===== *)
theory Sql_Stores
  imports Repository
begin

text \<open>
  The PostgreSQL, SQLite and MySQL stores (\<open>rinfra-plugins/src/store/mod.rs\<close>, \<open>executor.rs\<close>,
  \<open>transaction.rs\<close>, \<open>sqlite.rs\<close>, \<open>mysql.rs\<close>): the pool kept between \<open>connect\<close> and \<open>disconnect\<close>, the
  executors and transactions, and the decoding of rows by column type. What \<open>sqlx\<close> returns is a
  parameter: a pool or the text of an error, the result of a statement on the state of the database,
  and per column what \<open>try_get\<close> yields for each Rust type (\<open>None\<close> when the column is NULL or \<open>sqlx\<close>
  does not decode its type as that Rust type). Logging of slow queries is left out.
\<close>

section \<open>Rows of the driver\<close>

record raw_column =
  rc_name :: string
  rc_type :: string
  rc_bool :: "bool option"
  rc_i64 :: "i64 option"
  rc_f64 :: "rat option"
  rc_bytes :: "bytes option"
  rc_string :: "string option"

definition or_null :: "('a \<Rightarrow> db_value) \<Rightarrow> 'a option \<Rightarrow> db_value" where
  "or_null f v = (case v of Some x \<Rightarrow> f x | None \<Rightarrow> DbNull)"

definition pg_column_value :: "raw_column \<Rightarrow> db_value" where
  "pg_column_value c =
     (if rc_type c = ''BOOL'' then or_null DbBool (rc_bool c)
      else if rc_type c \<in> {''INT2'', ''INT4'', ''INT8''} then or_null DbInt (rc_i64 c)
      else if rc_type c \<in> {''FLOAT4'', ''FLOAT8'', ''NUMERIC''} then or_null DbFloat (rc_f64 c)
      else if rc_type c = ''BYTEA'' then or_null DbBytes (rc_bytes c)
      else or_null DbText (rc_string c))"

definition pg_row_to_db_row :: "raw_column list \<Rightarrow> db_row" where
  "pg_row_to_db_row r = \<lparr>row_columns = map rc_name r, row_values = map pg_column_value r\<rparr>"

definition sqlite_column_value :: "raw_column \<Rightarrow> db_value" where
  "sqlite_column_value c =
     (if rc_type c = ''BOOLEAN'' then or_null DbBool (rc_bool c)
      else if rc_type c = ''INTEGER'' then or_null DbInt (rc_i64 c)
      else if rc_type c = ''REAL'' then or_null DbFloat (rc_f64 c)
      else if rc_type c = ''BLOB'' then or_null DbBytes (rc_bytes c)
      else or_null DbText (rc_string c))"

definition sqlite_row_to_db_row :: "raw_column list \<Rightarrow> db_row" where
  "sqlite_row_to_db_row r = \<lparr>row_columns = map rc_name r, row_values = map sqlite_column_value r\<rparr>"

definition mysql_column_value :: "raw_column \<Rightarrow> db_value" where
  "mysql_column_value c =
     (if rc_type c \<in> {''BOOLEAN'', ''TINYINT(1)''} then or_null DbBool (rc_bool c)
      else if rc_type c \<in> {''TINYINT'', ''SMALLINT'', ''INT'', ''BIGINT''} then or_null DbInt (rc_i64 c)
      else if rc_type c \<in> {''FLOAT'', ''DOUBLE'', ''DECIMAL''} then or_null DbFloat (rc_f64 c)
      else if rc_type c \<in> {''BLOB'', ''BINARY'', ''VARBINARY''} then or_null DbBytes (rc_bytes c)
      else or_null DbText (rc_string c))"

definition mysql_row_to_db_row :: "raw_column list \<Rightarrow> db_row" where
  "mysql_row_to_db_row r = \<lparr>row_columns = map rc_name r, row_values = map mysql_column_value r\<rparr>"

section \<open>Executors\<close>

text \<open>Running a statement through \<open>sqlx\<close>, for an executor on the pool and for a transaction.\<close>

record 'db driver =
  dr_execute :: "string \<Rightarrow> db_value list \<Rightarrow> 'db \<Rightarrow> (string + u64) \<times> 'db"
  dr_fetch_all :: "string \<Rightarrow> db_value list \<Rightarrow> 'db \<Rightarrow> (string + raw_column list list) \<times> 'db"
  dr_fetch_optional :: "string \<Rightarrow> db_value list \<Rightarrow> 'db \<Rightarrow> (string + raw_column list option) \<times> 'db"

definition query_failed :: "string \<Rightarrow> string + 'a \<Rightarrow> 'a res" where
  "query_failed msg r = (case r of Inl e \<Rightarrow> Err StoreQueryFailed (msg @ e) | Inr v \<Rightarrow> Ok v)"

definition pg_executor :: "'db driver \<Rightarrow> 'db executor" where
  "pg_executor dr =
     \<lparr>ex_execute = (\<lambda>sql ps db. let (r, db1) = dr_execute dr sql ps db in (query_failed ''execute failed: '' r, db1)),
      ex_query = (\<lambda>sql ps db. let (r, db1) = dr_fetch_all dr sql ps db
        in (bind_res (query_failed ''query failed: '' r) (\<lambda>rs. Ok (map pg_row_to_db_row rs)), db1)),
      ex_query_one = (\<lambda>sql ps db. let (r, db1) = dr_fetch_optional dr sql ps db
        in (bind_res (query_failed ''query_one failed: '' r) (\<lambda>r. Ok (map_option pg_row_to_db_row r)), db1))\<rparr>"

definition sqlite_executor :: "'db driver \<Rightarrow> 'db executor" where
  "sqlite_executor dr =
     \<lparr>ex_execute = (\<lambda>sql ps db. let (r, db1) = dr_execute dr sql ps db in (query_failed ''sqlite execute failed: '' r, db1)),
      ex_query = (\<lambda>sql ps db. let (r, db1) = dr_fetch_all dr sql ps db
        in (bind_res (query_failed ''sqlite query failed: '' r) (\<lambda>rs. Ok (map sqlite_row_to_db_row rs)), db1)),
      ex_query_one = (\<lambda>sql ps db. let (r, db1) = dr_fetch_optional dr sql ps db
        in (bind_res (query_failed ''sqlite query_one failed: '' r) (\<lambda>r. Ok (map_option sqlite_row_to_db_row r)), db1))\<rparr>"

definition mysql_executor :: "'db driver \<Rightarrow> 'db executor" where
  "mysql_executor dr =
     \<lparr>ex_execute = (\<lambda>sql ps db. let (r, db1) = dr_execute dr sql ps db in (query_failed ''mysql execute failed: '' r, db1)),
      ex_query = (\<lambda>sql ps db. let (r, db1) = dr_fetch_all dr sql ps db
        in (bind_res (query_failed ''mysql query failed: '' r) (\<lambda>rs. Ok (map mysql_row_to_db_row rs)), db1)),
      ex_query_one = (\<lambda>sql ps db. let (r, db1) = dr_fetch_optional dr sql ps db
        in (bind_res (query_failed ''mysql query_one failed: '' r) (\<lambda>r. Ok (map_option mysql_row_to_db_row r)), db1))\<rparr>"

section \<open>Transactions\<close>

text \<open>The transaction of \<open>sqlx\<close>, or \<open>None\<close> once it is consumed, is the state; \<open>pre\<close> is the empty
  text for PostgreSQL, \<open>sqlite \<close> or \<open>mysql \<close>.\<close>

definition with_tx :: "string \<Rightarrow> ('tx \<Rightarrow> 'a res \<times> 'tx) \<Rightarrow> 'tx option \<Rightarrow> 'a res \<times> 'tx option" where
  "with_tx pre f guard =
     (case guard of
        None \<Rightarrow> (Err StoreQueryFailed (pre @ ''transaction already consumed''), None)
      | Some tx \<Rightarrow> let (r, tx1) = f tx in (r, Some tx1))"

definition tx_executor :: "string \<Rightarrow> (raw_column list \<Rightarrow> db_row) \<Rightarrow> 'tx driver \<Rightarrow> 'tx option executor" where
  "tx_executor pre row_to_db_row dr =
     \<lparr>ex_execute = (\<lambda>sql ps. with_tx pre (\<lambda>tx. let (r, tx1) = dr_execute dr sql ps tx
        in (query_failed (pre @ ''tx execute failed: '') r, tx1))),
      ex_query = (\<lambda>sql ps. with_tx pre (\<lambda>tx. let (r, tx1) = dr_fetch_all dr sql ps tx
        in (bind_res (query_failed (pre @ ''tx query failed: '') r) (\<lambda>rs. Ok (map row_to_db_row rs)), tx1))),
      ex_query_one = (\<lambda>sql ps. with_tx pre (\<lambda>tx. let (r, tx1) = dr_fetch_optional dr sql ps tx
        in (bind_res (query_failed (pre @ ''tx query_one failed: '') r) (\<lambda>r. Ok (map_option row_to_db_row r)), tx1)))\<rparr>"

definition pg_transaction :: "'tx driver \<Rightarrow> 'tx option executor" where
  "pg_transaction = tx_executor '''' pg_row_to_db_row"

definition sqlite_transaction :: "'tx driver \<Rightarrow> 'tx option executor" where
  "sqlite_transaction = tx_executor ''sqlite '' sqlite_row_to_db_row"

definition mysql_transaction :: "'tx driver \<Rightarrow> 'tx option executor" where
  "mysql_transaction = tx_executor ''mysql '' mysql_row_to_db_row"

text \<open>\<open>commit\<close> and \<open>rollback\<close> take the transaction out; \<open>finish\<close> is what \<open>sqlx\<close> returns.\<close>

definition tx_finish :: "string \<Rightarrow> string \<Rightarrow> ('tx \<Rightarrow> string + unit) \<Rightarrow> 'tx option \<Rightarrow> unit res \<times> 'tx option" where
  "tx_finish pre what finish guard =
     (case guard of
        None \<Rightarrow> (Err StoreQueryFailed (pre @ ''transaction already consumed''), None)
      | Some tx \<Rightarrow> (query_failed (pre @ what @ '' failed: '') (finish tx), None))"

definition pg_commit :: "('tx \<Rightarrow> string + unit) \<Rightarrow> 'tx option \<Rightarrow> unit res \<times> 'tx option" where
  "pg_commit = tx_finish '''' ''commit''"

definition pg_rollback :: "('tx \<Rightarrow> string + unit) \<Rightarrow> 'tx option \<Rightarrow> unit res \<times> 'tx option" where
  "pg_rollback = tx_finish '''' ''rollback''"

section \<open>The lifecycle of a store\<close>

definition pg_connect ::
  "(postgres_config \<Rightarrow> string + 'pool) \<Rightarrow> (string \<Rightarrow> string + 'mig) \<Rightarrow> ('mig \<Rightarrow> 'pool \<Rightarrow> string + unit) \<Rightarrow>
    postgres_config \<Rightarrow> 'pool option \<Rightarrow> unit res \<times> 'pool option" where
  "pg_connect open_pool load_migrations run_migrations cfg pool =
     (if \<not> postgres_enabled cfg then (Ok (), pool)
      else case open_pool cfg of
        Inl e \<Rightarrow> (Err StoreConnectionFailed (''postgres connect failed: '' @ e), pool)
      | Inr pg_pool \<Rightarrow>
          (case postgres_migrations_path cfg of
             None \<Rightarrow> (Ok (), Some pg_pool)
           | Some path \<Rightarrow>
               (case load_migrations path of
                  Inl e \<Rightarrow> (Err Internal (''failed to load migrations from '' @ quoted path @ '': '' @ e), pool)
                | Inr migrator \<Rightarrow>
                    (case run_migrations migrator pg_pool of
                       Inl e \<Rightarrow> (Err Internal (''migration failed: '' @ e), pool)
                     | Inr _ \<Rightarrow> (Ok (), Some pg_pool)))))"

definition sqlite_connect ::
  "(string \<Rightarrow> u32 \<Rightarrow> string + 'pool) \<Rightarrow> sqlite_config \<Rightarrow> 'pool option \<Rightarrow> unit res \<times> 'pool option" where
  "sqlite_connect open_pool cfg pool =
     (if \<not> sqlite_enabled cfg then (Ok (), pool)
      else case open_pool (''sqlite:'' @ sqlite_path cfg) (sqlite_max_connections cfg) of
        Inl e \<Rightarrow> (Err StoreConnectionFailed (''sqlite connect failed: '' @ e), pool)
      | Inr p \<Rightarrow> (Ok (), Some p))"

definition mysql_connect ::
  "(mysql_config \<Rightarrow> string + 'pool) \<Rightarrow> mysql_config \<Rightarrow> 'pool option \<Rightarrow> unit res \<times> 'pool option" where
  "mysql_connect open_pool cfg pool =
     (if \<not> mysql_enabled cfg then (Ok (), pool)
      else case open_pool cfg of
        Inl e \<Rightarrow> (Err StoreConnectionFailed (''mysql connect failed: '' @ e), pool)
      | Inr p \<Rightarrow> (Ok (), Some p))"

definition store_disconnect :: "'pool option \<Rightarrow> unit res \<times> 'pool option" where
  "store_disconnect pool = (Ok (), None)"

definition store_health_check :: "bool \<Rightarrow> ('pool \<Rightarrow> bool) \<Rightarrow> 'pool option \<Rightarrow> bool res" where
  "store_health_check enabled ping pool =
     (case pool of None \<Rightarrow> Ok (\<not> enabled) | Some p \<Rightarrow> Ok (ping p))"

definition store_pool :: "string \<Rightarrow> 'pool option \<Rightarrow> 'pool res" where
  "store_pool backend pool =
     (case pool of None \<Rightarrow> Err StoreConnectionFailed (backend @ '' store not connected'') | Some p \<Rightarrow> Ok p)"

definition store_executor :: "string \<Rightarrow> ('pool \<Rightarrow> 'db executor) \<Rightarrow> 'pool option \<Rightarrow> 'db executor res" where
  "store_executor backend on_pool pool = bind_res (store_pool backend pool) (\<lambda>p. Ok (on_pool p))"

definition pg_begin :: "('pool \<Rightarrow> string + 'tx) \<Rightarrow> 'pool option \<Rightarrow> 'tx option res" where
  "pg_begin begin_tx pool =
     bind_res (store_pool ''postgres'' pool) (\<lambda>p.
       bind_res (query_failed ''failed to begin transaction: '' (begin_tx p)) (\<lambda>tx. Ok (Some tx)))"

definition pool_stats :: "('pool \<Rightarrow> u32) \<Rightarrow> ('pool \<Rightarrow> u64) \<Rightarrow> 'pool option \<Rightarrow> (u32 \<times> u32 \<times> u32) option" where
  "pool_stats pool_size num_idle pool = map_option (\<lambda>p. (pool_size p, ucast (num_idle p), pool_size p)) pool"

section \<open>Lemmas\<close>

lemma position_find:
  "position p xs = None \<longleftrightarrow> find p xs = None"
  "position p xs = Some i \<Longrightarrow> i < length xs \<and> find p xs = Some (xs ! i)"
  by (induction xs arbitrary: i) auto

lemma position_map: "position p (map f xs) = position (\<lambda>x. p (f x)) xs"
  by (induction xs) auto

lemma row_get_map:
  "row_get from_db \<lparr>row_columns = map rc_name r, row_values = map value_of r\<rparr> c =
     (case find (\<lambda>k. rc_name k = c) r of
        None \<Rightarrow> Err StoreQueryFailed (''column '' @ quoted c @ '' not found in row'')
      | Some k \<Rightarrow> from_db (value_of k))"
proof (cases "position (\<lambda>k. rc_name k = c) r")
  case None
  moreover from this have "find (\<lambda>k. rc_name k = c) r = None" by (simp only: position_find(1))
  ultimately show ?thesis by (simp add: row_get_def position_map)
next
  case (Some i)
  then show ?thesis using position_find(2) [OF Some] by (simp add: row_get_def position_map)
qed

section \<open>Properties\<close>

text \<open>
  Reading a column never fails on a row of a driver but for its own reason: on the rows that the
  PostgreSQL, SQLite and MySQL executors build, \<open>DbRow::get\<close> converts the value of the first column
  of that name, reports a missing column, and never indexes out of bounds.
\<close>

theorem driver_rows_get:
  "row_get from_db (pg_row_to_db_row r) c =
     (case find (\<lambda>k. rc_name k = c) r of
        None \<Rightarrow> Err StoreQueryFailed (''column '' @ quoted c @ '' not found in row'')
      | Some k \<Rightarrow> from_db (pg_column_value k)) \<and>
   row_get from_db (sqlite_row_to_db_row r) c =
     (case find (\<lambda>k. rc_name k = c) r of
        None \<Rightarrow> Err StoreQueryFailed (''column '' @ quoted c @ '' not found in row'')
      | Some k \<Rightarrow> from_db (sqlite_column_value k)) \<and>
   row_get from_db (mysql_row_to_db_row r) c =
     (case find (\<lambda>k. rc_name k = c) r of
        None \<Rightarrow> Err StoreQueryFailed (''column '' @ quoted c @ '' not found in row'')
      | Some k \<Rightarrow> from_db (mysql_column_value k))"
  by (simp add: pg_row_to_db_row_def sqlite_row_to_db_row_def mysql_row_to_db_row_def row_get_map)

text \<open>A store that is not connected hands out no executor and no transaction, is healthy exactly when it
  is disabled, and disconnecting brings it back to that state.\<close>

lemma store_not_connected:
  "store_executor backend on_pool (snd (store_disconnect pool)) =
     Err StoreConnectionFailed (backend @ '' store not connected'')"
  "pg_begin begin_tx (snd (store_disconnect pool)) = Err StoreConnectionFailed ''postgres store not connected''"
  "store_health_check enabled ping (snd (store_disconnect pool)) = Ok (\<not> enabled)"
  by (simp_all add: store_executor_def store_pool_def store_disconnect_def pg_begin_def bind_res_def
      store_health_check_def)

text \<open>A failed connect, a migration that fails included, keeps the pool that was there.\<close>

lemma pg_connect_failure:
  "fst (pg_connect op load run cfg pool) \<noteq> Ok () \<Longrightarrow> snd (pg_connect op load run cfg pool) = pool"
  by (auto simp: pg_connect_def split: sum.splits option.splits)

text \<open>Once a transaction is committed or rolled back every further operation on it is an error.\<close>

lemma finished_transaction:
  "fst (ex_execute (pg_transaction dr) sql ps (snd (pg_commit fin guard))) =
     Err StoreQueryFailed ''transaction already consumed''"
  "fst (pg_rollback fin2 (snd (pg_commit fin guard))) = Err StoreQueryFailed ''transaction already consumed''"
  by (simp_all add: pg_transaction_def tx_executor_def with_tx_def pg_commit_def pg_rollback_def tx_finish_def
      split: option.splits)

section \<open>Limits\<close>

text \<open>A value \<open>sqlx\<close> does not decode as the one Rust type asked for becomes NULL, without an error:
  \<open>sqlx\<close> decodes an \<open>INT4\<close> column as \<open>i32\<close> only, so its value is lost.\<close>

lemma undecodable_is_null:
  "pg_column_value \<lparr>rc_name = ''age'', rc_type = ''INT4'', rc_bool = None, rc_i64 = None, rc_f64 = None,
     rc_bytes = None, rc_string = None\<rparr> = DbNull"
  by (simp add: pg_column_value_def or_null_def)

end
