(* ===== verification/Store_Backends.thy ===== *)
theory Store_Backends
  imports Sql_Stores
begin

text \<open>
  The SQLite and MySQL stores as whole connections (\<open>rinfra-plugins/src/store/sqlite.rs\<close>,
  \<open>mysql.rs\<close>): what their lifecycle, executors and transactions add to the parts of
  \<open>Sql_Stores\<close>, the binding of parameters, the check for slow statements, and the default bodies
  of the \<open>Repository\<close> trait (\<open>rinfra-core/src/store/mod.rs\<close>). A store is its configuration and the pool
  it keeps; \<open>'pool\<close> is the pool of the library sqlx with the database behind it.
\<close>

section \<open>Parameters and slow statements\<close>

text \<open>The argument a value is bound as; NULL is bound as an absent text.\<close>

datatype sql_argument =
    ArgText "string option" | ArgBool bool | ArgInt i64 | ArgFloat rat | ArgBytes bytes

definition pg_bind_param :: "db_value \<Rightarrow> sql_argument" where
  "pg_bind_param v =
     (case v of DbNull \<Rightarrow> ArgText None | DbBool b \<Rightarrow> ArgBool b | DbInt i \<Rightarrow> ArgInt i | DbFloat x \<Rightarrow> ArgFloat x
      | DbText s \<Rightarrow> ArgText (Some s) | DbBytes b \<Rightarrow> ArgBytes b)"

definition pg_tx_bind_param :: "db_value \<Rightarrow> sql_argument" where
  "pg_tx_bind_param v =
     (case v of DbNull \<Rightarrow> ArgText None | DbBool b \<Rightarrow> ArgBool b | DbInt i \<Rightarrow> ArgInt i | DbFloat x \<Rightarrow> ArgFloat x
      | DbText s \<Rightarrow> ArgText (Some s) | DbBytes b \<Rightarrow> ArgBytes b)"

text \<open>Rows read in a transaction are decoded by a copy of the executor's function.\<close>

definition pg_tx_column_value :: "raw_column \<Rightarrow> db_value" where
  "pg_tx_column_value c =
     (if rc_type c = ''BOOL'' then or_null DbBool (rc_bool c)
      else if rc_type c \<in> {''INT2'', ''INT4'', ''INT8''} then or_null DbInt (rc_i64 c)
      else if rc_type c \<in> {''FLOAT4'', ''FLOAT8'', ''NUMERIC''} then or_null DbFloat (rc_f64 c)
      else if rc_type c = ''BYTEA'' then or_null DbBytes (rc_bytes c)
      else or_null DbText (rc_string c))"

definition pg_tx_row_to_db_row :: "raw_column list \<Rightarrow> db_row" where
  "pg_tx_row_to_db_row r = \<lparr>row_columns = map rc_name r, row_values = map pg_tx_column_value r\<rparr>"

definition sqlite_bind :: "db_value \<Rightarrow> sql_argument" where
  "sqlite_bind v =
     (case v of DbNull \<Rightarrow> ArgText None | DbBool b \<Rightarrow> ArgBool b | DbInt i \<Rightarrow> ArgInt i | DbFloat x \<Rightarrow> ArgFloat x
      | DbText s \<Rightarrow> ArgText (Some s) | DbBytes b \<Rightarrow> ArgBytes b)"

definition mysql_bind :: "db_value \<Rightarrow> sql_argument" where
  "mysql_bind v =
     (case v of DbNull \<Rightarrow> ArgText None | DbBool b \<Rightarrow> ArgBool b | DbInt i \<Rightarrow> ArgInt i | DbFloat x \<Rightarrow> ArgFloat x
      | DbText s \<Rightarrow> ArgText (Some s) | DbBytes b \<Rightarrow> ArgBytes b)"

text \<open>Whether a statement that took so many nanoseconds is reported; \<open>as_millis() as u64\<close>.\<close>

definition is_slow :: "u64 \<Rightarrow> nat \<Rightarrow> bool" where
  "is_slow threshold_ms elapsed =
     (let ms = of_nat (elapsed div nanos_per_milli) :: u64 in 0 < threshold_ms \<and> threshold_ms \<le> ms)"

record 'pool pg_exec =
  pge_pool :: 'pool
  pge_slow_threshold_ms :: u64

definition pg_executor_new :: "'pool \<Rightarrow> 'pool pg_exec" where
  "pg_executor_new pool = \<lparr>pge_pool = pool, pge_slow_threshold_ms = 200\<rparr>"

definition with_slow_threshold_ms :: "u64 \<Rightarrow> 'pool pg_exec \<Rightarrow> 'pool pg_exec" where
  "with_slow_threshold_ms ms ex = ex\<lparr>pge_slow_threshold_ms := ms\<rparr>"

definition pg_check_slow :: "'pool pg_exec \<Rightarrow> nat \<Rightarrow> bool" where
  "pg_check_slow ex elapsed = is_slow (pge_slow_threshold_ms ex) elapsed"

section \<open>SQLite\<close>

record 'pool sqlite_store =
  sls_config :: sqlite_config
  sls_pool :: "'pool option"

definition sqlite_store_new :: "sqlite_config \<Rightarrow> 'pool sqlite_store" where
  "sqlite_store_new cfg = \<lparr>sls_config = cfg, sls_pool = None\<rparr>"

definition sqlite_pool :: "'pool sqlite_store \<Rightarrow> 'pool res" where
  "sqlite_pool s =
     (case sls_pool s of None \<Rightarrow> Err StoreConnectionFailed ''sqlite store not connected'' | Some p \<Rightarrow> Ok p)"

definition sqlite_store_connect ::
  "(string \<Rightarrow> u32 \<Rightarrow> string + 'pool) \<Rightarrow> 'pool sqlite_store \<Rightarrow> unit res \<times> 'pool sqlite_store" where
  "sqlite_store_connect open_pool s =
     (let (r, p) = sqlite_connect open_pool (sls_config s) (sls_pool s) in (r, s\<lparr>sls_pool := p\<rparr>))"

definition sqlite_disconnect :: "'pool sqlite_store \<Rightarrow> unit res \<times> 'pool sqlite_store" where
  "sqlite_disconnect s = (Ok (), s\<lparr>sls_pool := None\<rparr>)"

definition sqlite_health_check :: "('pool \<Rightarrow> string + unit) \<Rightarrow> 'pool sqlite_store \<Rightarrow> bool res" where
  "sqlite_health_check select_one s =
     (case sls_pool s of
        None \<Rightarrow> if \<not> sqlite_enabled (sls_config s) then Ok True else Ok False
      | Some p \<Rightarrow> (case select_one p of Inr _ \<Rightarrow> Ok True | Inl e \<Rightarrow> Ok False))"

record 'pool sqlite_exec =
  sle_pool :: 'pool
  sle_slow_threshold_ms :: u64

definition sqlite_check_slow :: "'pool sqlite_exec \<Rightarrow> nat \<Rightarrow> bool" where
  "sqlite_check_slow ex elapsed = is_slow (sle_slow_threshold_ms ex) elapsed"

definition sqlite_store_executor :: "'pool sqlite_store \<Rightarrow> 'pool sqlite_exec res" where
  "sqlite_store_executor s =
     bind_res (sqlite_pool s) (\<lambda>p.
       Ok \<lparr>sle_pool = p, sle_slow_threshold_ms = sqlite_slow_query_threshold_ms (sls_config s)\<rparr>)"

definition sqlite_begin :: "('pool \<Rightarrow> string + 'tx) \<Rightarrow> 'pool sqlite_store \<Rightarrow> 'tx option res" where
  "sqlite_begin begin_tx s =
     bind_res (sqlite_pool s) (\<lambda>p.
       case begin_tx p of
         Inl e \<Rightarrow> Err StoreQueryFailed (''sqlite begin failed: '' @ e)
       | Inr tx \<Rightarrow> Ok (Some tx))"

definition sqlite_commit :: "('tx \<Rightarrow> string + unit) \<Rightarrow> 'tx option \<Rightarrow> unit res \<times> 'tx option" where
  "sqlite_commit = tx_finish ''sqlite '' ''commit''"

definition sqlite_rollback :: "('tx \<Rightarrow> string + unit) \<Rightarrow> 'tx option \<Rightarrow> unit res \<times> 'tx option" where
  "sqlite_rollback = tx_finish ''sqlite '' ''rollback''"

section \<open>MySQL\<close>

record 'pool mysql_store =
  mys_config :: mysql_config
  mys_pool :: "'pool option"

definition mysql_store_new :: "mysql_config \<Rightarrow> 'pool mysql_store" where
  "mysql_store_new cfg = \<lparr>mys_config = cfg, mys_pool = None\<rparr>"

definition mysql_pool :: "'pool mysql_store \<Rightarrow> 'pool res" where
  "mysql_pool s =
     (case mys_pool s of None \<Rightarrow> Err StoreConnectionFailed ''mysql store not connected'' | Some p \<Rightarrow> Ok p)"

definition mysql_store_connect ::
  "(mysql_config \<Rightarrow> string + 'pool) \<Rightarrow> 'pool mysql_store \<Rightarrow> unit res \<times> 'pool mysql_store" where
  "mysql_store_connect open_pool s =
     (let (r, p) = mysql_connect open_pool (mys_config s) (mys_pool s) in (r, s\<lparr>mys_pool := p\<rparr>))"

definition mysql_disconnect :: "'pool mysql_store \<Rightarrow> unit res \<times> 'pool mysql_store" where
  "mysql_disconnect s = (Ok (), s\<lparr>mys_pool := None\<rparr>)"

definition mysql_health_check :: "('pool \<Rightarrow> string + unit) \<Rightarrow> 'pool mysql_store \<Rightarrow> bool res" where
  "mysql_health_check select_one s =
     (case mys_pool s of
        None \<Rightarrow> if \<not> mysql_enabled (mys_config s) then Ok True else Ok False
      | Some p \<Rightarrow> (case select_one p of Inr _ \<Rightarrow> Ok True | Inl e \<Rightarrow> Ok False))"

record 'pool mysql_exec =
  mye_pool :: 'pool
  mye_slow_threshold_ms :: u64

definition mysql_check_slow :: "'pool mysql_exec \<Rightarrow> nat \<Rightarrow> bool" where
  "mysql_check_slow ex elapsed = is_slow (mye_slow_threshold_ms ex) elapsed"

definition mysql_store_executor :: "'pool mysql_store \<Rightarrow> 'pool mysql_exec res" where
  "mysql_store_executor s =
     bind_res (mysql_pool s) (\<lambda>p.
       Ok \<lparr>mye_pool = p, mye_slow_threshold_ms = mysql_slow_query_threshold_ms (mys_config s)\<rparr>)"

definition mysql_begin :: "('pool \<Rightarrow> string + 'tx) \<Rightarrow> 'pool mysql_store \<Rightarrow> 'tx option res" where
  "mysql_begin begin_tx s =
     bind_res (mysql_pool s) (\<lambda>p.
       case begin_tx p of
         Inl e \<Rightarrow> Err StoreQueryFailed (''mysql begin failed: '' @ e)
       | Inr tx \<Rightarrow> Ok (Some tx))"

definition mysql_commit :: "('tx \<Rightarrow> string + unit) \<Rightarrow> 'tx option \<Rightarrow> unit res \<times> 'tx option" where
  "mysql_commit = tx_finish ''mysql '' ''commit''"

definition mysql_rollback :: "('tx \<Rightarrow> string + unit) \<Rightarrow> 'tx option \<Rightarrow> unit res \<times> 'tx option" where
  "mysql_rollback = tx_finish ''mysql '' ''rollback''"

section \<open>Default bodies\<close>

definition default_find_by :: "where_spec \<Rightarrow> query_options \<Rightarrow> 'e list res" where
  "default_find_by w opts = Err Internal ''find_by not implemented''"

definition default_count_by :: "where_spec \<Rightarrow> u64 res" where
  "default_count_by w = Err Internal ''count_by not implemented''"

definition default_delete_by :: "where_spec \<Rightarrow> u64 res" where
  "default_delete_by w = Err Internal ''delete_by not implemented''"

definition row_new :: "string list \<Rightarrow> db_value list \<Rightarrow> db_row" where
  "row_new cs vs = \<lparr>row_columns = cs, row_values = vs\<rparr>"

text \<open>Entities with time stamps and soft deletion; \<open>unix_ns\<close> is the system time in nanoseconds since 1970,
  and a time before is taken for 1970.\<close>

definition is_deleted :: "('e \<Rightarrow> int option) \<Rightarrow> 'e \<Rightarrow> bool" where
  "is_deleted deleted_at e \<longleftrightarrow> deleted_at e \<noteq> None"

definition now_unix_secs :: "int \<Rightarrow> 64 word" where
  "now_unix_secs unix_ns = (if unix_ns < 0 then 0 else word_of_int (unix_ns div 10 ^ 9))"

section \<open>The contract of a connection\<close>

text \<open>What a connection promises, over the three backends: nothing works before a pool is there, a
  failed or disabled \<open>connect\<close> keeps what was there, \<open>disconnect\<close> takes the pool away, and health
  follows the pool.\<close>

locale connection =
  fixes connect :: "'s \<Rightarrow> unit res \<times> 's"
    and disconnect :: "'s \<Rightarrow> unit res \<times> 's"
    and connected :: "'s \<Rightarrow> bool"
    and usable :: "'s \<Rightarrow> bool"
  assumes usable_iff: "usable s \<longleftrightarrow> connected s"
    and connect_failed: "fst (connect s) \<noteq> Ok () \<Longrightarrow> snd (connect s) = s"
    and disconnect_ok: "fst (disconnect s) = Ok () \<and> \<not> connected (snd (disconnect s))"
begin

fun run_lifecycle :: "bool list \<Rightarrow> 's \<Rightarrow> 's" where
  "run_lifecycle [] s = s"
| "run_lifecycle (up # ups) s = run_lifecycle ups (snd (if up then connect s else disconnect s))"

lemma usable_after_disconnect: "\<not> usable (run_lifecycle (ups @ [False]) s)"
  by (induction ups arbitrary: s) (simp_all add: usable_iff disconnect_ok)

lemma failed_connect_keeps: "fst (connect s) \<noteq> Ok () \<Longrightarrow> usable (snd (connect s)) = usable s"
  by (simp add: connect_failed)

end

definition is_ok :: "'a res \<Rightarrow> bool" where
  "is_ok r \<longleftrightarrow> (case r of Inr _ \<Rightarrow> True | Inl _ \<Rightarrow> False)"

interpretation sqlite: connection "sqlite_store_connect open_pool" sqlite_disconnect
    "\<lambda>s. sls_pool s \<noteq> None" "\<lambda>s. is_ok (sqlite_store_executor s)" for open_pool
  by unfold_locales
    (auto simp: is_ok_def sqlite_store_executor_def sqlite_pool_def sqlite_store_connect_def sqlite_connect_def
      sqlite_disconnect_def bind_res_def split: option.splits sum.splits)

interpretation mysql: connection "mysql_store_connect open_pool" mysql_disconnect
    "\<lambda>s. mys_pool s \<noteq> None" "\<lambda>s. is_ok (mysql_store_executor s)" for open_pool
  by unfold_locales
    (auto simp: is_ok_def mysql_store_executor_def mysql_pool_def mysql_store_connect_def mysql_connect_def
      mysql_disconnect_def bind_res_def split: option.splits sum.splits)

interpretation postgres: connection "pg_connect open_pool load run cfg" store_disconnect
    "\<lambda>p. p \<noteq> None" "\<lambda>p. is_ok (store_executor ''postgres'' on_pool p)" for open_pool load run cfg on_pool
  by unfold_locales (auto simp: is_ok_def store_executor_def store_pool_def store_disconnect_def bind_res_def
      pg_connect_failure split: option.splits)

section \<open>Properties\<close>

text \<open>After any history that ends with a disconnect no store hands out an executor, whatever connecting
  gave before.\<close>

lemma disconnected_stores_refuse:
  "\<not> is_ok (sqlite_store_executor (sqlite.run_lifecycle open_sqlite (ups @ [False]) s)) \<and>
   \<not> is_ok (mysql_store_executor (mysql.run_lifecycle open_mysql (ups @ [False]) t)) \<and>
   \<not> is_ok (store_executor ''postgres'' on_pool (connection.run_lifecycle (pg_connect open_pg load run cfg) store_disconnect (ups @ [False]) p))"
  using sqlite.usable_after_disconnect [of open_sqlite ups s] mysql.usable_after_disconnect [of open_mysql ups t]
    postgres.usable_after_disconnect
  by blast

text \<open>A transaction ends once: after a commit or a rollback every statement and every other end on it is
  refused, whatever the database answered.\<close>

lemma transactions_end_once:
  "fst (ex_execute (sqlite_transaction dr) sql ps (snd (sqlite_commit fin guard))) =
     Err StoreQueryFailed ''sqlite transaction already consumed''"
  "fst (ex_execute (mysql_transaction dr) sql ps (snd (mysql_rollback fin guard))) =
     Err StoreQueryFailed ''mysql transaction already consumed''"
  "fst (sqlite_rollback fin2 (snd (sqlite_commit fin guard))) =
     Err StoreQueryFailed ''sqlite transaction already consumed''"
  "fst (mysql_commit fin2 (snd (mysql_rollback fin guard))) =
     Err StoreQueryFailed ''mysql transaction already consumed''"
  by (simp_all add: sqlite_transaction_def mysql_transaction_def tx_executor_def with_tx_def sqlite_commit_def
      sqlite_rollback_def mysql_commit_def mysql_rollback_def tx_finish_def split: option.splits)

text \<open>The backends bind every value alike, and a threshold of zero reports nothing.\<close>

lemma backends_bind_alike: "sqlite_bind v = pg_bind_param v \<and> mysql_bind v = pg_bind_param v \<and> pg_tx_bind_param v = pg_bind_param v"
  by (simp add: sqlite_bind_def mysql_bind_def pg_bind_param_def pg_tx_bind_param_def)

lemma zero_threshold_is_silent: "\<not> is_slow 0 elapsed"
  by (simp add: is_slow_def)

text \<open>Inside and outside of a transaction the same row reads the same.\<close>

lemma transaction_reads_alike: "pg_tx_row_to_db_row = pg_row_to_db_row"
  by (intro ext) (simp add: pg_tx_row_to_db_row_def pg_row_to_db_row_def pg_tx_column_value_def pg_column_value_def)

end
