(* ===== verification/Derive.thy ===== *)
theory Derive
  imports Repository
begin

text \<open>
  The derive macros of \<open>rinfra-derive/src/lib.rs\<close>, which write the row mapping of an application's
  structs at compile time. A macro is a function from the description of a struct (its fields with
  their attributes) to the meaning of the implementation it generates; a panic of a macro is an
  error of compilation. The values of a struct are the list of the values of its fields, in order,
  over the types that convert to and from database values.
\<close>

section \<open>Structs\<close>

datatype field_type = TBool | TI32 | TI64 | TF64 | TString | TBytes | TOption field_type

datatype field_value =
    VBool bool | VI32 i32 | VI64 i64 | VF64 rat | VString string | VBytes bytes
  | VNone | VSome field_value

primrec typed :: "field_type \<Rightarrow> field_value \<Rightarrow> bool" where
  "typed TBool v = (case v of VBool _ \<Rightarrow> True | _ \<Rightarrow> False)"
| "typed TI32 v = (case v of VI32 _ \<Rightarrow> True | _ \<Rightarrow> False)"
| "typed TI64 v = (case v of VI64 _ \<Rightarrow> True | _ \<Rightarrow> False)"
| "typed TF64 v = (case v of VF64 _ \<Rightarrow> True | _ \<Rightarrow> False)"
| "typed TString v = (case v of VString _ \<Rightarrow> True | _ \<Rightarrow> False)"
| "typed TBytes v = (case v of VBytes _ \<Rightarrow> True | _ \<Rightarrow> False)"
| "typed (TOption t) v = (case v of VNone \<Rightarrow> True | VSome w \<Rightarrow> typed t w | _ \<Rightarrow> False)"

text \<open>The instances of \<open>IntoDbValue\<close> and \<open>FromDbValue\<close> a type selects.\<close>

primrec into_db :: "field_value \<Rightarrow> db_value" where
  "into_db (VBool b) = bool_into_db b"
| "into_db (VI32 i) = i32_into_db i"
| "into_db (VI64 i) = i64_into_db i"
| "into_db (VF64 x) = f64_into_db x"
| "into_db (VString s) = string_into_db s"
| "into_db (VBytes b) = bytes_into_db b"
| "into_db VNone = option_into_db id None"
| "into_db (VSome v) = option_into_db id (Some (into_db v))"

definition map_res :: "('a \<Rightarrow> 'b) \<Rightarrow> 'a res \<Rightarrow> 'b res" where
  "map_res f r = bind_res r (\<lambda>v. Ok (f v))"

primrec from_db :: "(db_value \<Rightarrow> string) \<Rightarrow> field_type \<Rightarrow> db_value \<Rightarrow> field_value res" where
  "from_db dbg TBool v = map_res VBool (bool_from_db dbg v)"
| "from_db dbg TI32 v = map_res VI32 (i32_from_db dbg v)"
| "from_db dbg TI64 v = map_res VI64 (i64_from_db dbg v)"
| "from_db dbg TF64 v = map_res VF64 (f64_from_db dbg v)"
| "from_db dbg TString v = map_res VString (string_from_db dbg v)"
| "from_db dbg TBytes v = map_res VBytes (bytes_from_db dbg v)"
| "from_db dbg (TOption t) v =
     map_res (\<lambda>x. case x of None \<Rightarrow> VNone | Some w \<Rightarrow> VSome w) (option_from_db (from_db dbg t) v)"

text \<open>An attribute is its path and, for \<open>#[path(tokens)]\<close>, the text of its tokens.\<close>

record attribute =
  at_path :: string
  at_tokens :: "string option"

record rust_field =
  rf_ident :: string
  rf_type :: field_type
  rf_attrs :: "attribute list"

datatype struct_data = NamedFields "rust_field list" | OtherFields | NotAStruct

record derive_input =
  di_attrs :: "attribute list"
  di_data :: struct_data

section \<open>The macros\<close>

definition trim_matches :: "char \<Rightarrow> string \<Rightarrow> string" where
  "trim_matches c s = rev (dropWhile (\<lambda>x. x = c) (rev (dropWhile (\<lambda>x. x = c) s)))"

definition double_quote :: char where
  "double_quote = CHR 0x22"

fun find_map :: "('a \<Rightarrow> 'b option) \<Rightarrow> 'a list \<Rightarrow> 'b option" where
  "find_map f [] = None"
| "find_map f (x # xs) = (case f x of None \<Rightarrow> find_map f xs | Some y \<Rightarrow> Some y)"

definition attribute_text :: "string \<Rightarrow> attribute \<Rightarrow> string option" where
  "attribute_text path a =
     (if at_path a = path then map_option (trim_matches double_quote) (at_tokens a) else None)"

definition get_column_name :: "rust_field \<Rightarrow> string" where
  "get_column_name f =
     (case find_map (attribute_text ''column'') (rf_attrs f) of Some c \<Rightarrow> c | None \<Rightarrow> rf_ident f)"

definition is_id :: "rust_field \<Rightarrow> bool" where
  "is_id f \<longleftrightarrow> (\<exists>a \<in> set (rf_attrs f). at_path a = ''id'')"

definition named_fields :: "string \<Rightarrow> derive_input \<Rightarrow> rust_field list res" where
  "named_fields macro inp =
     (case di_data inp of
        NamedFields fs \<Rightarrow> Ok fs
      | OtherFields \<Rightarrow> Inl (Panic (macro @ '' derive only supports named fields''))
      | NotAStruct \<Rightarrow> Inl (Panic (macro @ '' derive only supports structs'')))"

text \<open>\<open>Entity\<close>: which of the struct's values \<open>id()\<close> returns.\<close>

definition derive_entity :: "derive_input \<Rightarrow> nat res" where
  "derive_entity inp =
     bind_res (named_fields ''Entity'' inp) (\<lambda>fs.
       case position is_id fs of
         None \<Rightarrow> Inl (Panic ''Entity requires exactly one field annotated with #[id]'')
       | Some i \<Rightarrow> Ok i)"

text \<open>\<open>FromRow\<close>: the fields are read one after the other.\<close>

fun read_fields :: "(db_value \<Rightarrow> string) \<Rightarrow> rust_field list \<Rightarrow> db_row \<Rightarrow> field_value list res" where
  "read_fields dbg [] r = Ok []"
| "read_fields dbg (f # fs) r =
     bind_res (row_get (from_db dbg (rf_type f)) r (get_column_name f)) (\<lambda>v.
     bind_res (read_fields dbg fs r) (\<lambda>vs. Ok (v # vs)))"

definition derive_from_row ::
  "(db_value \<Rightarrow> string) \<Rightarrow> derive_input \<Rightarrow> (db_row \<Rightarrow> field_value list res) res" where
  "derive_from_row dbg inp =
     bind_res (named_fields ''FromRow'' inp) (\<lambda>fs. Ok (read_fields dbg fs))"

text \<open>\<open>ToRow\<close>.\<close>

record to_row =
  tw_table_name :: string
  tw_columns :: "string list"
  tw_id_column :: string
  tw_to_params :: "field_value list \<Rightarrow> (string \<times> db_value) list"

definition derive_to_row :: "derive_input \<Rightarrow> to_row res" where
  "derive_to_row inp =
     (case find_map (attribute_text ''table'') (di_attrs inp) of
        None \<Rightarrow> Inl (Panic ''ToRow requires #[table(\"table_name\")] attribute on the struct'')
      | Some table \<Rightarrow>
          bind_res (named_fields ''ToRow'' inp) (\<lambda>fs.
            Ok \<lparr>tw_table_name = table,
                tw_columns = map get_column_name (filter (Not \<circ> is_id) fs),
                tw_id_column = (case find is_id fs of Some f \<Rightarrow> get_column_name f | None \<Rightarrow> ''id''),
                tw_to_params = (\<lambda>vs. map (\<lambda>(f, v). (get_column_name f, into_db v))
                  (filter (\<lambda>(f, v). \<not> is_id f) (zip fs vs)))\<rparr>))"

text \<open>The repository works with entities whose id is an \<open>i64\<close>.\<close>

definition derived_map ::
  "(db_value \<Rightarrow> string) \<Rightarrow> derive_input \<Rightarrow> field_value list entity_map res" where
  "derived_map dbg inp =
     bind_res (derive_entity inp) (\<lambda>i.
     bind_res (derive_from_row dbg inp) (\<lambda>from_row.
     bind_res (derive_to_row inp) (\<lambda>tw.
       Ok \<lparr>em_table_name = tw_table_name tw, em_id_column = tw_id_column tw,
           em_to_params = tw_to_params tw, em_id = (\<lambda>vs. case vs ! i of VI64 n \<Rightarrow> n | _ \<Rightarrow> 0),
           em_from_row = from_row\<rparr>)))"

section \<open>Lemmas\<close>

text \<open>Options of options cannot tell their two ways of being absent apart.\<close>

primrec flat_type :: "field_type \<Rightarrow> bool" where
  "flat_type TBool = True"
| "flat_type TI32 = True"
| "flat_type TI64 = True"
| "flat_type TF64 = True"
| "flat_type TString = True"
| "flat_type TBytes = True"
| "flat_type (TOption t) = (case t of TOption _ \<Rightarrow> False | _ \<Rightarrow> True)"

lemma i32_through_i64 [simp]: "ucast (scast k :: i64) = (k :: i32)"
  by (rule bit_word_eqI) (simp add: bit_ucast_iff bit_signed_iff)

lemma from_into_db:
  assumes "typed t v" "flat_type t"
  shows "from_db dbg t (into_db v) = Ok v"
proof (cases t)
  case (TOption u)
  show ?thesis
  proof (cases v)
    case (VSome w)
    then have "from_db dbg u (into_db w) = Ok w \<and> into_db w \<noteq> DbNull"
      using assms TOption
      by (cases u; cases w)
        (simp_all add: map_res_def bind_res_def bool_from_db_def bool_into_db_def i32_from_db_def i32_into_db_def
          i64_from_db_def i64_into_db_def f64_from_db_def f64_into_db_def string_from_db_def string_into_db_def
          bytes_from_db_def bytes_into_db_def)
    then show ?thesis using TOption VSome
      by (cases "into_db w") (simp_all add: map_res_def bind_res_def option_from_db_def option_into_db_def is_null_def)
  qed (use assms TOption in \<open>simp_all add: map_res_def bind_res_def option_from_db_def option_into_db_def is_null_def\<close>)
qed (use assms in \<open>cases v; simp add: map_res_def bind_res_def bool_from_db_def bool_into_db_def i32_from_db_def
    i32_into_db_def i64_from_db_def i64_into_db_def f64_from_db_def f64_into_db_def string_from_db_def
    string_into_db_def bytes_from_db_def bytes_into_db_def\<close>)+

text \<open>The value a row has under a column.\<close>

definition cell :: "db_row \<Rightarrow> string \<Rightarrow> db_value option" where
  "cell r c =
     (case position (\<lambda>x. x = c) (row_columns r) of
        None \<Rightarrow> None
      | Some i \<Rightarrow> if i < length (row_values r) then Some (row_values r ! i) else None)"

lemma row_get_cell: "cell r c = Some v \<Longrightarrow> row_get from_value r c = from_value v"
  by (auto simp: cell_def row_get_def split: option.splits if_splits)

lemma read_fields_cells:
  "list_all2 (\<lambda>f v. typed (rf_type f) v \<and> flat_type (rf_type f) \<and> cell r (get_column_name f) = Some (into_db v)) fs vs \<Longrightarrow>
     read_fields dbg fs r = Ok vs"
  by (induction rule: list_all2_induct) (simp_all add: row_get_cell from_into_db bind_res_def)

lemma cell_Cons:
  "cell \<lparr>row_columns = c # cs, row_values = v # vs\<rparr> k =
     (if k = c then Some v else cell \<lparr>row_columns = cs, row_values = vs\<rparr> k)"
  by (auto simp: cell_def split: option.splits)

lemma cell_distinct:
  "distinct (map fst kvs) \<Longrightarrow> (k, v) \<in> set kvs \<Longrightarrow>
     cell \<lparr>row_columns = map fst kvs, row_values = map snd kvs\<rparr> k = Some v"
  by (induction kvs) (auto simp: cell_Cons, force)

section \<open>Properties\<close>

text \<open>The columns a repository inserts are the ones the macro lists, and none of them is that of the id.\<close>

lemma params_match_columns:
  assumes "derive_to_row inp = Ok tw" "named_fields m inp = Ok fs" "length fs = length vs"
  shows "map fst (tw_to_params tw vs) = tw_columns tw"
proof -
  have "map get_column_name (map fst (filter (\<lambda>(f, v). \<not> is_id f) (zip fs vs))) =
      map get_column_name (filter (Not \<circ> is_id) fs)"
    using assms(3) by (induction fs vs rule: list_induct2) auto
  then show ?thesis using assms(1,2)
    by (auto simp: derive_to_row_def named_fields_def bind_res_def comp_def case_prod_unfold
        split: option.splits struct_data.splits)
qed

text \<open>
  C23: What the derived \<open>ToRow\<close> writes, the derived \<open>FromRow\<close> reads: the row that holds the id of a value
  under the id column and its other fields under their columns is read back as the same value, for
  any struct with one id field, distinct columns and field types that are not options of options.
\<close>

theorem derived_row_roundtrip:
  assumes fs: "di_data inp = NamedFields fs" "length (filter is_id fs) = 1"
      "distinct (map get_column_name fs)" "list_all (\<lambda>f. flat_type (rf_type f)) fs"
    and derived: "derive_entity inp = Ok i" "derive_from_row dbg inp = Ok from_row" "derive_to_row inp = Ok tw"
    and vs: "list_all2 (\<lambda>f v. typed (rf_type f) v) fs vs"
  shows "from_row \<lparr>row_columns = tw_id_column tw # tw_columns tw,
      row_values = into_db (vs ! i) # map snd (tw_to_params tw vs)\<rparr> = Ok vs"
proof -
  have len: "length fs = length vs" using vs by (rule list_all2_lengthD)
  have from_row: "from_row = read_fields dbg fs"
    using derived(2) fs(1) by (simp add: derive_from_row_def named_fields_def bind_res_def)
  have pos: "position is_id fs = Some i"
    using derived(1) fs(1) by (auto simp: derive_entity_def named_fields_def bind_res_def split: option.splits)
  have at: "i < length fs \<and> is_id (fs ! i) \<and> find is_id fs = Some (fs ! i)"
    using pos
  proof (induction fs arbitrary: i)
    case (Cons f fs)
    then show ?case by (cases "is_id f") auto
  qed simp
  let ?kvs = "map (\<lambda>(f, v). (get_column_name f, into_db v)) (zip fs vs)"
  let ?params = "tw_to_params tw vs"
  have params: "?params = map (\<lambda>(f, v). (get_column_name f, into_db v)) (filter (\<lambda>(f, v). \<not> is_id f) (zip fs vs))"
    and idc: "tw_id_column tw = get_column_name (fs ! i)"
    using derived(3) fs(1) at
    by (auto simp: derive_to_row_def named_fields_def bind_res_def split: option.splits)
  have cols: "map fst ?params = tw_columns tw"
    using params_match_columns [OF derived(3), of "''ToRow''" fs vs] fs(1) len by (simp add: named_fields_def)
  have only: "is_id (fs ! j) \<longleftrightarrow> j = i" if "j < length fs" for j
  proof -
    have "card {j. j < length fs \<and> is_id (fs ! j)} = 1"
      using fs(2) by (simp add: length_filter_conv_card)
    then obtain k where "{j. j < length fs \<and> is_id (fs ! j)} = {k}" by (auto simp: card_1_singleton_iff)
    then have "j = k \<longleftrightarrow> is_id (fs ! j)" "i = k" using at that by auto
    then show ?thesis by simp
  qed
  have keys: "distinct (map fst ((tw_id_column tw, into_db (vs ! i)) # ?params))"
  proof -
    have "distinct (map get_column_name (filter (Not \<circ> is_id) fs))"
      using fs(3) by (simp add: distinct_map inj_on_def)
    moreover have "tw_columns tw = map get_column_name (filter (Not \<circ> is_id) fs)"
      using derived(3) fs(1) by (auto simp: derive_to_row_def named_fields_def bind_res_def split: option.splits)
    moreover have "get_column_name (fs ! i) \<notin> set (map get_column_name (filter (Not \<circ> is_id) fs))"
      using fs(3) at by (auto simp: distinct_map inj_on_def)
    ultimately show ?thesis by (simp add: cols idc)
  qed
  have cells: "cell \<lparr>row_columns = map fst ((tw_id_column tw, into_db (vs ! i)) # ?params),
      row_values = map snd ((tw_id_column tw, into_db (vs ! i)) # ?params)\<rparr> (get_column_name (fs ! j)) = Some (into_db (vs ! j))"
    if j: "j < length fs" for j
  proof (rule cell_distinct [OF keys])
    show "(get_column_name (fs ! j), into_db (vs ! j)) \<in> set ((tw_id_column tw, into_db (vs ! i)) # ?params)"
    proof (cases "j = i")
      case False
      then have "(fs ! j, vs ! j) \<in> set (filter (\<lambda>(f, v). \<not> is_id f) (zip fs vs))"
        using only [OF j] j len by (auto simp: set_zip)
      then show ?thesis by (force simp: params)
    qed (simp add: idc)
  qed
  have "read_fields dbg fs \<lparr>row_columns = map fst ((tw_id_column tw, into_db (vs ! i)) # ?params),
      row_values = map snd ((tw_id_column tw, into_db (vs ! i)) # ?params)\<rparr> = Ok vs"
    using vs fs(4) cells len by (intro read_fields_cells) (auto simp: list_all2_conv_all_nth list_all_length)
  then show ?thesis by (simp add: from_row cols)
qed

definition user_struct :: derive_input where
  "user_struct =
     \<lparr>di_attrs = [\<lparr>at_path = ''table'', at_tokens = Some [double_quote, CHR ''u'', double_quote]\<rparr>],
      di_data = NamedFields
        [\<lparr>rf_ident = ''name'', rf_type = TOption TString, rf_attrs = []\<rparr>,
         \<lparr>rf_ident = ''key'', rf_type = TI64, rf_attrs = [\<lparr>at_path = ''id'', at_tokens = None\<rparr>]\<rparr>,
         \<lparr>rf_ident = ''age'', rf_type = TI32,
          rf_attrs = [\<lparr>at_path = ''column'', at_tokens = Some [double_quote, CHR ''a'', double_quote]\<rparr>]\<rparr>]\<rparr>"

theorem derived_row_roundtrip_witness:
  "\<exists>from_row. derive_from_row (\<lambda>_. []) user_struct = Ok from_row \<and>
     from_row \<lparr>row_columns = [''key'', ''name'', ''a''], row_values = [DbInt 7, DbText ''ann'', DbInt 41]\<rparr> =
       Ok [VSome (VString ''ann''), VI64 7, VI32 41]"
proof -
  let ?vs = "[VSome (VString ''ann''), VI64 7, VI32 41]"
  obtain fs where fs: "di_data user_struct = NamedFields fs" by (simp add: user_struct_def)
  have hyps: "length (filter is_id fs) = 1" "distinct (map get_column_name fs)"
      "list_all (\<lambda>f. flat_type (rf_type f)) fs" "list_all2 (\<lambda>f v. typed (rf_type f) v) fs ?vs"
    using fs by (auto simp: user_struct_def is_id_def get_column_name_def attribute_text_def trim_matches_def double_quote_def)
  obtain from_row where fr: "derive_from_row (\<lambda>_. []) user_struct = Ok from_row"
    by (simp add: derive_from_row_def named_fields_def bind_res_def user_struct_def)
  obtain tw where tw: "derive_to_row user_struct = Ok tw" "tw_id_column tw = ''key''" "tw_columns tw = [''name'', ''a'']"
      "map snd (tw_to_params tw ?vs) = [DbText ''ann'', DbInt 41]"
    by (simp add: derive_to_row_def named_fields_def bind_res_def user_struct_def is_id_def get_column_name_def
        attribute_text_def trim_matches_def double_quote_def option_into_db_def string_into_db_def i32_into_db_def)
  have ent: "derive_entity user_struct = Ok 1"
    by (simp add: derive_entity_def named_fields_def bind_res_def user_struct_def is_id_def)
  from derived_row_roundtrip [OF fs hyps(1-3) ent fr tw(1) hyps(4)] show ?thesis
    using fr by (simp add: tw i64_into_db_def)
qed

text \<open>The macro says it requires exactly one id field but takes the first of several; the others are
  left out of what is written, so that their columns are never set.\<close>

lemma second_id_is_never_written:
  "let inp = \<lparr>di_attrs = [\<lparr>at_path = ''table'', at_tokens = Some ''t''\<rparr>],
        di_data = NamedFields
          [\<lparr>rf_ident = ''a'', rf_type = TI64, rf_attrs = [\<lparr>at_path = ''id'', at_tokens = None\<rparr>]\<rparr>,
           \<lparr>rf_ident = ''b'', rf_type = TI64, rf_attrs = [\<lparr>at_path = ''id'', at_tokens = None\<rparr>]\<rparr>,
           \<lparr>rf_ident = ''c'', rf_type = TI64, rf_attrs = []\<rparr>]\<rparr>
   in derive_entity inp = Ok 0 \<and> map_res tw_id_column (derive_to_row inp) = Ok ''a'' \<and>
      map_res tw_columns (derive_to_row inp) = Ok [''c'']"
  by code_simp

end
