(* ===== verification/Cache.thy ===== *)
theory Cache
  imports Errors Config_Model
begin

text \<open>
  The caches: the trait (\<open>rinfra-core/src/cache/mod.rs\<close>), the in-memory cache over \<open>moka\<close>
  (\<open>rinfra-plugins/src/cache/memory.rs\<close>), the Redis cache (\<open>redis_cache.rs\<close>) and the two-level cache
  (\<open>multilevel.rs\<close>). A \<open>dyn Cache\<close> is the record of its operations on its state. \<open>moka\<close> and the
  Redis connection are parameters; the contract of a cache says what the code relies on: an entry may
  disappear at any time, but a value that is returned is the one last written. Durations are
  nanoseconds.
\<close>

section \<open>The trait\<close>

record 's cache =
  c_get :: "string \<Rightarrow> 's \<Rightarrow> bytes option res \<times> 's"
  c_set :: "string \<Rightarrow> bytes \<Rightarrow> 's \<Rightarrow> unit res \<times> 's"
  c_set_with_ttl :: "string \<Rightarrow> bytes \<Rightarrow> nat \<Rightarrow> 's \<Rightarrow> unit res \<times> 's"
  c_delete :: "string \<Rightarrow> 's \<Rightarrow> unit res \<times> 's"
  c_exists :: "string \<Rightarrow> 's \<Rightarrow> bool res \<times> 's"

section \<open>The in-memory cache\<close>

record 'm moka =
  mk_get :: "string \<Rightarrow> 'm \<Rightarrow> bytes option \<times> 'm"
  mk_insert :: "string \<Rightarrow> bytes \<Rightarrow> 'm \<Rightarrow> 'm"
  mk_invalidate :: "string \<Rightarrow> 'm \<Rightarrow> 'm"

definition memory_get :: "'m moka \<Rightarrow> string \<Rightarrow> 'm \<Rightarrow> bytes option res \<times> 'm" where
  "memory_get mk k m = (let (r, m1) = mk_get mk k m in (Ok r, m1))"

definition memory_set :: "'m moka \<Rightarrow> string \<Rightarrow> bytes \<Rightarrow> 'm \<Rightarrow> unit res \<times> 'm" where
  "memory_set mk k v m = (Ok (), mk_insert mk k v m)"

text \<open>The time to live of the entry is ignored.\<close>

definition memory_set_with_ttl :: "'m moka \<Rightarrow> string \<Rightarrow> bytes \<Rightarrow> nat \<Rightarrow> 'm \<Rightarrow> unit res \<times> 'm" where
  "memory_set_with_ttl mk k v ttl m = (Ok (), mk_insert mk k v m)"

definition memory_delete :: "'m moka \<Rightarrow> string \<Rightarrow> 'm \<Rightarrow> unit res \<times> 'm" where
  "memory_delete mk k m = (Ok (), mk_invalidate mk k m)"

definition memory_exists :: "'m moka \<Rightarrow> string \<Rightarrow> 'm \<Rightarrow> bool res \<times> 'm" where
  "memory_exists mk k m = (let (r, m1) = mk_get mk k m in (Ok (r \<noteq> None), m1))"

definition memory_cache :: "'m moka \<Rightarrow> 'm cache" where
  "memory_cache mk =
     \<lparr>c_get = memory_get mk, c_set = memory_set mk, c_set_with_ttl = memory_set_with_ttl mk,
      c_delete = memory_delete mk, c_exists = memory_exists mk\<rparr>"

section \<open>The Redis cache\<close>

text \<open>The commands of the server, each with its result or the text of an error; the state is the server
  and the connection, \<open>None\<close> before \<open>connect\<close> and after \<open>close\<close>.\<close>

record 'r redis_commands =
  rs_get :: "string \<Rightarrow> 'r \<Rightarrow> (string + bytes option) \<times> 'r"
  rs_set :: "string \<Rightarrow> bytes \<Rightarrow> 'r \<Rightarrow> (string + unit) \<times> 'r"
  rs_set_ex :: "string \<Rightarrow> bytes \<Rightarrow> u64 \<Rightarrow> 'r \<Rightarrow> (string + unit) \<times> 'r"
  rs_del :: "string \<Rightarrow> 'r \<Rightarrow> (string + unit) \<times> 'r"
  rs_exists :: "string \<Rightarrow> 'r \<Rightarrow> (string + bool) \<times> 'r"

record 'r redis_cache =
  rc_conn :: bool
  rc_server :: 'r

definition redis_connect ::
  "redis_cache_config \<Rightarrow> string + unit \<Rightarrow> string + unit \<Rightarrow> 'r redis_cache \<Rightarrow> unit res \<times> 'r redis_cache" where
  "redis_connect cfg open_client open_connection s =
     (if \<not> redis_cache_enabled cfg then (Ok (), s)
      else case open_client of
        Inl e \<Rightarrow> (Err CacheConnectionFailed (''invalid redis url: '' @ e), s)
      | Inr _ \<Rightarrow>
          (case open_connection of
             Inl e \<Rightarrow> (Err CacheConnectionFailed (''redis connect failed: '' @ e), s)
           | Inr _ \<Rightarrow> (Ok (), s\<lparr>rc_conn := True\<rparr>)))"

definition redis_close :: "'r redis_cache \<Rightarrow> 'r redis_cache" where
  "redis_close s = s\<lparr>rc_conn := False\<rparr>"

text \<open>\<open>get_conn().await?\<close> followed by a command.\<close>

definition redis_command ::
  "error_code \<Rightarrow> string \<Rightarrow> ('r \<Rightarrow> (string + 'a) \<times> 'r) \<Rightarrow> 'r redis_cache \<Rightarrow> 'a res \<times> 'r redis_cache" where
  "redis_command code what run s =
     (if \<not> rc_conn s then (Err CacheConnectionFailed ''redis not connected'', s)
      else (let (r, srv) = run (rc_server s)
            in ((case r of Inl e \<Rightarrow> Err code (''redis '' @ what @ '' failed: '' @ e) | Inr v \<Rightarrow> Ok v),
                s\<lparr>rc_server := srv\<rparr>)))"

definition redis_get :: "'r redis_commands \<Rightarrow> string \<Rightarrow> 'r redis_cache \<Rightarrow> bytes option res \<times> 'r redis_cache" where
  "redis_get cmds k = redis_command CacheGetFailed ''GET'' (rs_get cmds k)"

definition redis_set :: "'r redis_commands \<Rightarrow> string \<Rightarrow> bytes \<Rightarrow> 'r redis_cache \<Rightarrow> unit res \<times> 'r redis_cache" where
  "redis_set cmds k v = redis_command CacheSetFailed ''SET'' (rs_set cmds k v)"

definition redis_set_with_ttl ::
  "'r redis_commands \<Rightarrow> string \<Rightarrow> bytes \<Rightarrow> nat \<Rightarrow> 'r redis_cache \<Rightarrow> unit res \<times> 'r redis_cache" where
  "redis_set_with_ttl cmds k v ttl =
     (let ttl_secs = max (of_nat (ttl div nanos_per_sec)) 1
      in redis_command CacheSetFailed ''SETEX'' (rs_set_ex cmds k v ttl_secs))"

definition redis_delete :: "'r redis_commands \<Rightarrow> string \<Rightarrow> 'r redis_cache \<Rightarrow> unit res \<times> 'r redis_cache" where
  "redis_delete cmds k = redis_command CacheDeleteFailed ''DEL'' (rs_del cmds k)"

definition redis_exists :: "'r redis_commands \<Rightarrow> string \<Rightarrow> 'r redis_cache \<Rightarrow> bool res \<times> 'r redis_cache" where
  "redis_exists cmds k = redis_command CacheGetFailed ''EXISTS'' (rs_exists cmds k)"

definition redis_cache_ops :: "'r redis_commands \<Rightarrow> 'r redis_cache cache" where
  "redis_cache_ops cmds =
     \<lparr>c_get = redis_get cmds, c_set = redis_set cmds, c_set_with_ttl = redis_set_with_ttl cmds,
      c_delete = redis_delete cmds, c_exists = redis_exists cmds\<rparr>"

section \<open>The two-level cache\<close>

definition multilevel_get :: "'a cache \<Rightarrow> 'b cache \<Rightarrow> string \<Rightarrow> 'a \<times> 'b \<Rightarrow> bytes option res \<times> 'a \<times> 'b" where
  "multilevel_get l1 l2 k = (\<lambda>(s1, s2).
     (case c_get l1 k s1 of
        (Inl e, s1') \<Rightarrow> (Inl e, s1', s2)
      | (Inr (Some v), s1') \<Rightarrow> (Ok (Some v), s1', s2)
      | (Inr None, s1') \<Rightarrow>
          (case c_get l2 k s2 of
             (Inl e, s2') \<Rightarrow> (Inl e, s1', s2')
           | (Inr (Some v), s2') \<Rightarrow> (Ok (Some v), snd (c_set l1 k v s1'), s2')
           | (Inr None, s2') \<Rightarrow> (Ok None, s1', s2'))))"

text \<open>\<open>l1.op(..).await?; l2.op(..).await?; Ok(())\<close>.\<close>

definition both :: "('a \<Rightarrow> unit res \<times> 'a) \<Rightarrow> ('b \<Rightarrow> unit res \<times> 'b) \<Rightarrow> 'a \<times> 'b \<Rightarrow> unit res \<times> 'a \<times> 'b" where
  "both f1 f2 = (\<lambda>(s1, s2).
     (case f1 s1 of
        (Inl e, s1') \<Rightarrow> (Inl e, s1', s2)
      | (Inr _, s1') \<Rightarrow>
          (case f2 s2 of
             (Inl e, s2') \<Rightarrow> (Inl e, s1', s2')
           | (Inr _, s2') \<Rightarrow> (Ok (), s1', s2'))))"

definition multilevel_set :: "'a cache \<Rightarrow> 'b cache \<Rightarrow> string \<Rightarrow> bytes \<Rightarrow> 'a \<times> 'b \<Rightarrow> unit res \<times> 'a \<times> 'b" where
  "multilevel_set l1 l2 k v = both (c_set l1 k v) (c_set l2 k v)"

definition multilevel_set_with_ttl ::
  "'a cache \<Rightarrow> 'b cache \<Rightarrow> string \<Rightarrow> bytes \<Rightarrow> nat \<Rightarrow> 'a \<times> 'b \<Rightarrow> unit res \<times> 'a \<times> 'b" where
  "multilevel_set_with_ttl l1 l2 k v ttl = both (c_set_with_ttl l1 k v ttl) (c_set_with_ttl l2 k v ttl)"

definition multilevel_delete :: "'a cache \<Rightarrow> 'b cache \<Rightarrow> string \<Rightarrow> 'a \<times> 'b \<Rightarrow> unit res \<times> 'a \<times> 'b" where
  "multilevel_delete l1 l2 k = both (c_delete l1 k) (c_delete l2 k)"

definition multilevel_exists :: "'a cache \<Rightarrow> 'b cache \<Rightarrow> string \<Rightarrow> 'a \<times> 'b \<Rightarrow> bool res \<times> 'a \<times> 'b" where
  "multilevel_exists l1 l2 k = (\<lambda>(s1, s2).
     (case c_exists l1 k s1 of
        (Inl e, s1') \<Rightarrow> (Inl e, s1', s2)
      | (Inr True, s1') \<Rightarrow> (Ok True, s1', s2)
      | (Inr False, s1') \<Rightarrow> (case c_exists l2 k s2 of (r, s2') \<Rightarrow> (r, s1', s2'))))"

definition multilevel_cache :: "'a cache \<Rightarrow> 'b cache \<Rightarrow> ('a \<times> 'b) cache" where
  "multilevel_cache l1 l2 =
     \<lparr>c_get = multilevel_get l1 l2, c_set = multilevel_set l1 l2,
      c_set_with_ttl = multilevel_set_with_ttl l1 l2, c_delete = multilevel_delete l1 l2,
      c_exists = multilevel_exists l1 l2\<rparr>"

section \<open>What a cache promises\<close>

text \<open>\<open>view s k\<close> is the value the cache may still return for \<open>k\<close>. A read loses at most entries and returns
  only what is in view; a write that succeeds puts its value in view and nothing else; a write that
  fails may or may not have happened.\<close>

locale cache_spec =
  fixes c :: "'s cache" and view :: "'s \<Rightarrow> string \<rightharpoonup> bytes"
  assumes get_view: "c_get c k s = (r, s') \<Longrightarrow> view s' \<subseteq>\<^sub>m view s"
    and get_value: "c_get c k s = (Ok (Some v), s') \<Longrightarrow> view s k = Some v"
    and set_view: "c_set c k v s = (Ok (), s') \<Longrightarrow> view s' \<subseteq>\<^sub>m (view s)(k \<mapsto> v)"
    and set_failed: "c_set c k v s = (Inl e, s') \<Longrightarrow> view s' \<subseteq>\<^sub>m view s \<or> view s' \<subseteq>\<^sub>m (view s)(k \<mapsto> v)"
    and set_ttl_view: "c_set_with_ttl c k v ttl s = (Ok (), s') \<Longrightarrow> view s' \<subseteq>\<^sub>m (view s)(k \<mapsto> v)"
    and delete_view: "c_delete c k s = (Ok (), s') \<Longrightarrow> view s' \<subseteq>\<^sub>m (view s)(k := None)"
    and exists_view: "c_exists c k s = (b, s') \<Longrightarrow> view s' \<subseteq>\<^sub>m view s"
begin

lemma view_get: "view s \<subseteq>\<^sub>m W \<Longrightarrow> c_get c k s = (r, s') \<Longrightarrow> view s' \<subseteq>\<^sub>m W"
  using get_view map_le_trans by blast

lemma value_get: "view s \<subseteq>\<^sub>m W \<Longrightarrow> c_get c k s = (Ok (Some v), s') \<Longrightarrow> W k = Some v"
  using get_value [of k s v s'] by (force simp: map_le_def)

lemma view_exists: "view s \<subseteq>\<^sub>m W \<Longrightarrow> c_exists c k s = (r, s') \<Longrightarrow> view s' \<subseteq>\<^sub>m W"
  using exists_view map_le_trans by blast

lemma view_set: "view s \<subseteq>\<^sub>m W \<Longrightarrow> c_set c k v s = (Ok (), s') \<Longrightarrow> view s' \<subseteq>\<^sub>m W(k \<mapsto> v)"
  by (rule map_le_trans [OF set_view map_le_upd])

lemma view_set_ttl: "view s \<subseteq>\<^sub>m W \<Longrightarrow> c_set_with_ttl c k v ttl s = (Ok (), s') \<Longrightarrow> view s' \<subseteq>\<^sub>m W(k \<mapsto> v)"
  by (rule map_le_trans [OF set_ttl_view map_le_upd])

lemma view_delete: "view s \<subseteq>\<^sub>m W \<Longrightarrow> c_delete c k s = (Ok (), s') \<Longrightarrow> view s' \<subseteq>\<^sub>m W(k := None)"
  by (rule map_le_trans [OF delete_view map_le_upd])

text \<open>Writing back the value that is current changes nothing, whether the write succeeds or not.\<close>

lemma view_backfill:
  assumes "view s \<subseteq>\<^sub>m W" and "W k = Some v"
  shows "view (snd (c_set c k v s)) \<subseteq>\<^sub>m W"
proof -
  have "(view s)(k \<mapsto> v) \<subseteq>\<^sub>m W" using assms by (auto simp: map_le_def)
  moreover obtain r s' where "c_set c k v s = (r, s')" by force
  ultimately show ?thesis
    using set_view [of k v s s'] set_failed [of k v s _ s'] assms(1) by (cases r) (auto intro: map_le_trans)
qed

end

section \<open>Histories\<close>

datatype cache_op =
    CacheGet string
  | CacheSet string bytes
  | CacheSetTtl string bytes nat
  | CacheDelete string
  | CacheExists string

text \<open>Running operations, up to the first write that fails: the final state, or \<open>None\<close>.\<close>

fun cache_run :: "'s cache \<Rightarrow> cache_op list \<Rightarrow> 's \<Rightarrow> 's option" where
  "cache_run c [] s = Some s"
| "cache_run c (CacheGet k # ops) s = cache_run c ops (snd (c_get c k s))"
| "cache_run c (CacheSet k v # ops) s =
     (case c_set c k v s of (Inl _, _) \<Rightarrow> None | (Inr _, s') \<Rightarrow> cache_run c ops s')"
| "cache_run c (CacheSetTtl k v ttl # ops) s =
     (case c_set_with_ttl c k v ttl s of (Inl _, _) \<Rightarrow> None | (Inr _, s') \<Rightarrow> cache_run c ops s')"
| "cache_run c (CacheDelete k # ops) s =
     (case c_delete c k s of (Inl _, _) \<Rightarrow> None | (Inr _, s') \<Rightarrow> cache_run c ops s')"
| "cache_run c (CacheExists k # ops) s = cache_run c ops (snd (c_exists c k s))"

text \<open>The value last written under each key.\<close>

fun written :: "cache_op list \<Rightarrow> (string \<rightharpoonup> bytes) \<Rightarrow> (string \<rightharpoonup> bytes)" where
  "written [] W = W"
| "written (CacheSet k v # ops) W = written ops (W(k \<mapsto> v))"
| "written (CacheSetTtl k v ttl # ops) W = written ops (W(k \<mapsto> v))"
| "written (CacheDelete k # ops) W = written ops (W(k := None))"
| "written (_ # ops) W = written ops W"

section \<open>What histories need of a cache\<close>

text \<open>A weaker contract, in terms of what may be known of a state: \<open>below s W\<close> says that nothing the cache
  still holds contradicts \<open>W\<close>. It is what the histories are proved from, and it holds of one cache as
  of two levels of them.\<close>

locale bounded_cache =
  fixes c :: "'s cache" and below :: "'s \<Rightarrow> (string \<rightharpoonup> bytes) \<Rightarrow> bool"
  assumes get_below: "below s W \<Longrightarrow> c_get c k s = (r, s') \<Longrightarrow> below s' W \<and> (\<forall>v. r = Ok (Some v) \<longrightarrow> W k = Some v)"
    and set_below: "below s W \<Longrightarrow> c_set c k v s = (Ok (), s') \<Longrightarrow> below s' (W(k \<mapsto> v))"
    and set_ttl_below: "below s W \<Longrightarrow> c_set_with_ttl c k v ttl s = (Ok (), s') \<Longrightarrow> below s' (W(k \<mapsto> v))"
    and delete_below: "below s W \<Longrightarrow> c_delete c k s = (Ok (), s') \<Longrightarrow> below s' (W(k := None))"
    and exists_below: "below s W \<Longrightarrow> c_exists c k s = (b, s') \<Longrightarrow> below s' W"
begin

lemma run_below: "below s W \<Longrightarrow> cache_run c ops s = Some s' \<Longrightarrow> below s' (written ops W)"
proof (induction ops arbitrary: s W)
  case (Cons op ops)
  show ?case
  proof (cases op)
    case (CacheGet k)
    with Cons.prems get_below [OF Cons.prems(1), of k] show ?thesis
      by (cases "c_get c k s") (auto intro: Cons.IH)
  next
    case (CacheSet k v)
    with Cons.prems set_below [OF Cons.prems(1), of k v] show ?thesis
      by (auto split: prod.splits sum.splits intro: Cons.IH)
  next
    case (CacheSetTtl k v ttl)
    with Cons.prems set_ttl_below [OF Cons.prems(1), of k v ttl] show ?thesis
      by (auto split: prod.splits sum.splits intro: Cons.IH)
  next
    case (CacheDelete k)
    with Cons.prems delete_below [OF Cons.prems(1), of k] show ?thesis
      by (auto split: prod.splits sum.splits intro: Cons.IH)
  next
    case (CacheExists k)
    with Cons.prems exists_below [OF Cons.prems(1), of k] show ?thesis
      by (cases "c_exists c k s") (auto intro: Cons.IH)
  qed
qed simp

lemma no_stale_value:
  assumes "below s W" and "cache_run c ops s = Some s1" and "c_get c k s1 = (Ok (Some v), s2)"
  shows "written ops W k = Some v"
  using get_below [OF run_below [OF assms(1,2)] assms(3)] by simp

end

sublocale cache_spec \<subseteq> single: bounded_cache c "\<lambda>s W. view s \<subseteq>\<^sub>m W"
proof
  show "view s' \<subseteq>\<^sub>m W \<and> (\<forall>v. r = Ok (Some v) \<longrightarrow> W k = Some v)"
    if "view s \<subseteq>\<^sub>m W" "c_get c k s = (r, s')" for s W k r s'
    using view_get [OF that] value_get [OF that(1)] that(2) by blast
qed (rule view_set view_set_ttl view_delete view_exists; assumption)+

context cache_spec
begin

lemmas bounded = single.bounded_cache_axioms

end

section \<open>The two levels together\<close>

locale two_level = l1: cache_spec l1 view1 + l2: cache_spec l2 view2
  for l1 :: "'a cache" and view1 and l2 :: "'b cache" and view2
begin

definition below :: "'a \<times> 'b \<Rightarrow> (string \<rightharpoonup> bytes) \<Rightarrow> bool" where
  "below s W \<longleftrightarrow> view1 (fst s) \<subseteq>\<^sub>m W \<and> view2 (snd s) \<subseteq>\<^sub>m W"

lemma below_get:
  assumes "below s W" and "multilevel_get l1 l2 k s = (r, s')"
  shows "below s' W \<and> (\<forall>v. r = Ok (Some v) \<longrightarrow> W k = Some v)"
proof -
  obtain s1 s2 where s: "s = (s1, s2)" by force
  obtain r1 t1 where g1: "c_get l1 k s1 = (r1, t1)" by force
  obtain r2 t2 where g2: "c_get l2 k s2 = (r2, t2)" by force
  have v: "view1 s1 \<subseteq>\<^sub>m W" "view2 s2 \<subseteq>\<^sub>m W" using assms(1) by (simp_all add: below_def s)
  note t = l1.view_get [OF v(1) g1] l2.view_get [OF v(2) g2]
  have hit1: "W k = Some x" if "r1 = Ok (Some x)" for x
    using l1.value_get [OF v(1)] g1 that by blast
  have hit2: "W k = Some x" if "r2 = Ok (Some x)" for x
    using l2.value_get [OF v(2)] g2 that by blast
  have wb: "view1 (snd (c_set l1 k x t1)) \<subseteq>\<^sub>m W" if "r2 = Ok (Some x)" for x
    by (rule l1.view_backfill [OF t(1) hit2 [OF that]])
  show ?thesis
    using assms(2) g1 g2 t v hit1 hit2 wb
    by (auto simp: multilevel_get_def s below_def split: sum.splits option.splits)
qed

lemma below_set:
  assumes "below s W" and "multilevel_set l1 l2 k v s = (Ok (), s')"
  shows "below s' (W(k \<mapsto> v))"
  using assms l1.view_set [of "fst s" W k v "fst s'"] l2.view_set [of "snd s" W k v "snd s'"]
  by (auto simp: multilevel_set_def both_def below_def split: prod.splits sum.splits)

lemma below_set_ttl:
  assumes "below s W" and "multilevel_set_with_ttl l1 l2 k v ttl s = (Ok (), s')"
  shows "below s' (W(k \<mapsto> v))"
  using assms l1.view_set_ttl [of "fst s" W k v ttl "fst s'"] l2.view_set_ttl [of "snd s" W k v ttl "snd s'"]
  by (auto simp: multilevel_set_with_ttl_def both_def below_def split: prod.splits sum.splits)

lemma below_delete:
  assumes "below s W" and "multilevel_delete l1 l2 k s = (Ok (), s')"
  shows "below s' (W(k := None))"
  using assms l1.view_delete [of "fst s" W k "fst s'"] l2.view_delete [of "snd s" W k "snd s'"]
  by (auto simp: multilevel_delete_def both_def below_def split: prod.splits sum.splits)

lemma below_exists:
  assumes "below s W"
  shows "below (snd (multilevel_exists l1 l2 k s)) W"
proof -
  obtain s1 s2 where s: "s = (s1, s2)" by force
  obtain r1 t1 where g1: "c_exists l1 k s1 = (r1, t1)" by force
  obtain r2 t2 where g2: "c_exists l2 k s2 = (r2, t2)" by force
  have v: "view1 s1 \<subseteq>\<^sub>m W" "view2 s2 \<subseteq>\<^sub>m W" using assms(1) by (simp_all add: below_def s)
  show ?thesis
    using v l1.view_exists [OF v(1) g1] l2.view_exists [OF v(2) g2]
    by (auto simp: multilevel_exists_def s g1 g2 below_def split: sum.splits bool.splits)
qed

end

sublocale two_level \<subseteq> both: bounded_cache "multilevel_cache l1 l2" below
proof
  show "below s' W \<and> (\<forall>v. r = Ok (Some v) \<longrightarrow> W k = Some v)"
    if "below s W" "c_get (multilevel_cache l1 l2) k s = (r, s')" for s W k r s'
    using below_get [OF that(1)] that(2) by (simp add: multilevel_cache_def)
  show "below s' (W(k \<mapsto> v))" if "below s W" "c_set (multilevel_cache l1 l2) k v s = (Ok (), s')" for s W k v s'
    using below_set [OF that(1)] that(2) by (simp add: multilevel_cache_def)
  show "below s' (W(k \<mapsto> v))"
    if "below s W" "c_set_with_ttl (multilevel_cache l1 l2) k v ttl s = (Ok (), s')" for s W k v ttl s'
    using below_set_ttl [OF that(1)] that(2) by (simp add: multilevel_cache_def)
  show "below s' (W(k := None))" if "below s W" "c_delete (multilevel_cache l1 l2) k s = (Ok (), s')" for s W k s'
    using below_delete [OF that(1)] that(2) by (simp add: multilevel_cache_def)
  show "below s' W" if "below s W" "c_exists (multilevel_cache l1 l2) k s = (b, s')" for s W k b s'
    using below_exists [OF that(1), of k] that(2) by (simp add: multilevel_cache_def)
qed

context two_level
begin

lemmas bounded = both.bounded_cache_axioms

end

section \<open>The caches of the library keep the promise\<close>

text \<open>What \<open>moka\<close> documents: an entry may be evicted or expire at any operation, an insert replaces the
  value of its key only.\<close>

definition moka_ok :: "'m moka \<Rightarrow> ('m \<Rightarrow> string \<rightharpoonup> bytes) \<Rightarrow> bool" where
  "moka_ok mk view \<longleftrightarrow>
     (\<forall>k m. view (snd (mk_get mk k m)) \<subseteq>\<^sub>m view m \<and> (\<forall>v. fst (mk_get mk k m) = Some v \<longrightarrow> view m k = Some v)) \<and>
     (\<forall>k v m. view (mk_insert mk k v m) \<subseteq>\<^sub>m (view m)(k \<mapsto> v)) \<and>
     (\<forall>k m. view (mk_invalidate mk k m) \<subseteq>\<^sub>m (view m)(k := None))"

lemma memory_cache_spec: "moka_ok mk view \<Longrightarrow> cache_spec (memory_cache mk) view"
  by unfold_locales
    (auto simp: moka_ok_def memory_cache_def memory_get_def memory_set_def memory_set_with_ttl_def
      memory_delete_def memory_exists_def Let_def split_beta)

text \<open>What the Redis commands do: a command that fails changed nothing or was carried out before its
  reply was lost.\<close>

definition redis_ok :: "'r redis_commands \<Rightarrow> ('r \<Rightarrow> string \<rightharpoonup> bytes) \<Rightarrow> bool" where
  "redis_ok cmds view \<longleftrightarrow>
     (\<forall>k r. view (snd (rs_get cmds k r)) \<subseteq>\<^sub>m view r \<and> (\<forall>v. fst (rs_get cmds k r) = Inr (Some v) \<longrightarrow> view r k = Some v)) \<and>
     (\<forall>k v r. view (snd (rs_set cmds k v r)) \<subseteq>\<^sub>m (view r)(k \<mapsto> v) \<or>
        (\<exists>e. fst (rs_set cmds k v r) = Inl e) \<and> view (snd (rs_set cmds k v r)) \<subseteq>\<^sub>m view r) \<and>
     (\<forall>k v ttl r. fst (rs_set_ex cmds k v ttl r) = Inr () \<longrightarrow> view (snd (rs_set_ex cmds k v ttl r)) \<subseteq>\<^sub>m (view r)(k \<mapsto> v)) \<and>
     (\<forall>k r. fst (rs_del cmds k r) = Inr () \<longrightarrow> view (snd (rs_del cmds k r)) \<subseteq>\<^sub>m (view r)(k := None)) \<and>
     (\<forall>k r. view (snd (rs_exists cmds k r)) \<subseteq>\<^sub>m view r)"

lemma redis_command_cases:
  assumes "redis_command code what run s = (r, s')"
  obtains e where "s' = s" "r = Inl e"
  | e where "fst (run (rc_server s)) = Inl e" "rc_server s' = snd (run (rc_server s))"
      "r = Err code (''redis '' @ what @ '' failed: '' @ e)"
  | v where "fst (run (rc_server s)) = Inr v" "rc_server s' = snd (run (rc_server s))" "r = Ok v"
proof (cases "rc_conn s")
  case False
  with assms show ?thesis by (intro that(1)) (auto simp: redis_command_def)
next
  case True
  then have r: "r = (case fst (run (rc_server s)) of
      Inl e \<Rightarrow> Err code (''redis '' @ what @ '' failed: '' @ e) | Inr v \<Rightarrow> Ok v)"
    "rc_server s' = snd (run (rc_server s))"
    using assms by (auto simp: redis_command_def Let_def split_beta)
  show ?thesis
  proof (cases "fst (run (rc_server s))")
    case (Inl e)
    with r show ?thesis by (intro that(2)) simp_all
  next
    case (Inr v)
    with r show ?thesis by (intro that(3)) simp_all
  qed
qed

lemma redis_cache_spec:
  assumes "redis_ok cmds view"
  shows "cache_spec (redis_cache_ops cmds) (\<lambda>s. view (rc_server s))"
proof
  have set_law: "view (snd (rs_set cmds k v r)) \<subseteq>\<^sub>m (view r)(k \<mapsto> v) \<or>
      (\<exists>e. fst (rs_set cmds k v r) = Inl e) \<and> view (snd (rs_set cmds k v r)) \<subseteq>\<^sub>m view r" for k v r
    using assms by (simp add: redis_ok_def)
  fix k v ttl s s' r b e
  show "view (rc_server s') \<subseteq>\<^sub>m view (rc_server s)" if "c_get (redis_cache_ops cmds) k s = (r, s')"
    using that assms by (auto simp: redis_cache_ops_def redis_get_def redis_ok_def elim!: redis_command_cases)
  show "view (rc_server s) k = Some v" if "c_get (redis_cache_ops cmds) k s = (Ok (Some v), s')"
    using that assms by (auto simp: redis_cache_ops_def redis_get_def redis_ok_def elim!: redis_command_cases)
  show "view (rc_server s') \<subseteq>\<^sub>m (view (rc_server s))(k \<mapsto> v)" if "c_set (redis_cache_ops cmds) k v s = (Ok (), s')"
    using that set_law [of k v "rc_server s"]
    by (auto simp: redis_cache_ops_def redis_set_def elim!: redis_command_cases)
  show "view (rc_server s') \<subseteq>\<^sub>m view (rc_server s) \<or> view (rc_server s') \<subseteq>\<^sub>m (view (rc_server s))(k \<mapsto> v)"
    if "c_set (redis_cache_ops cmds) k v s = (Inl e, s')"
    using that set_law [of k v "rc_server s"]
    by (auto simp: redis_cache_ops_def redis_set_def elim!: redis_command_cases)
  show "view (rc_server s') \<subseteq>\<^sub>m (view (rc_server s))(k \<mapsto> v)"
    if "c_set_with_ttl (redis_cache_ops cmds) k v ttl s = (Ok (), s')"
    using that assms
    by (auto simp: redis_cache_ops_def redis_set_with_ttl_def Let_def redis_ok_def elim!: redis_command_cases)
  show "view (rc_server s') \<subseteq>\<^sub>m (view (rc_server s))(k := None)" if "c_delete (redis_cache_ops cmds) k s = (Ok (), s')"
    using that assms by (auto simp: redis_cache_ops_def redis_delete_def redis_ok_def elim!: redis_command_cases)
  show "view (rc_server s') \<subseteq>\<^sub>m view (rc_server s)" if "c_exists (redis_cache_ops cmds) k s = (b, s')"
    using that assms by (auto simp: redis_cache_ops_def redis_exists_def redis_ok_def elim!: redis_command_cases)
qed

text \<open>A \<open>moka\<close> cache that evicts nothing and a reliable server, both maps.\<close>

definition map_moka :: "(string \<rightharpoonup> bytes) moka" where
  "map_moka = \<lparr>mk_get = (\<lambda>k m. (m k, m)), mk_insert = (\<lambda>k v m. m(k \<mapsto> v)), mk_invalidate = (\<lambda>k m. m(k := None))\<rparr>"

definition map_redis :: "(string \<rightharpoonup> bytes) redis_commands" where
  "map_redis =
     \<lparr>rs_get = (\<lambda>k r. (Inr (r k), r)), rs_set = (\<lambda>k v r. (Inr (), r(k \<mapsto> v))),
      rs_set_ex = (\<lambda>k v ttl r. (Inr (), r(k \<mapsto> v))), rs_del = (\<lambda>k r. (Inr (), r(k := None))),
      rs_exists = (\<lambda>k r. (Inr (r k \<noteq> None), r))\<rparr>"

lemma map_moka_ok: "moka_ok map_moka (\<lambda>m. m)"
  by (simp add: moka_ok_def map_moka_def)

lemma map_redis_ok: "redis_ok map_redis (\<lambda>m. m)"
  by (simp add: redis_ok_def map_redis_def)

interpretation memory: cache_spec "memory_cache map_moka" "\<lambda>m. m"
  by (rule memory_cache_spec [OF map_moka_ok])

interpretation levels: two_level "memory_cache map_moka" "\<lambda>m. m" "redis_cache_ops map_redis" rc_server
  unfolding two_level_def using memory_cache_spec [OF map_moka_ok] redis_cache_spec [OF map_redis_ok] by simp

lemma two_level_contract:
  "moka_ok mk view1 \<Longrightarrow> redis_ok cmds view2 \<Longrightarrow>
     two_level (memory_cache mk) view1 (redis_cache_ops cmds) (\<lambda>s. view2 (rc_server s))"
  by (simp add: two_level_def memory_cache_spec redis_cache_spec)

section \<open>Properties\<close>

text \<open>
  C26: the two-level cache returns no stale value: over every \<open>moka\<close> that only evicts and expires, and
  every Redis server with the documented commands, after operations on empty caches whose writes
  succeeded (reads may fail), a value it returns is the one last written under the key, and a key
  that was deleted last gives none.
\<close>

theorem two_level_no_stale_value:
  assumes "moka_ok mk view1" and "redis_ok cmds view2"
    and "view1 m = Map.empty" and "view2 (rc_server r) = Map.empty"
    and "cache_run (multilevel_cache (memory_cache mk) (redis_cache_ops cmds)) ops (m, r) = Some s"
    and "multilevel_get (memory_cache mk) (redis_cache_ops cmds) k s = (Ok (Some v), s')"
  shows "written ops Map.empty k = Some v"
proof -
  note L = two_level_contract [OF assms(1,2)]
  have "two_level.below view1 (\<lambda>s. view2 (rc_server s)) (m, r) Map.empty"
    using assms(3,4) by (simp add: two_level.below_def [OF L])
  from bounded_cache.no_stale_value [OF two_level.bounded [OF L] this assms(5)] assms(6)
  show ?thesis by (simp add: multilevel_cache_def)
qed

text \<open>The same holds of either level alone.\<close>

lemma memory_no_stale_value:
  "moka_ok mk view \<Longrightarrow> view m = Map.empty \<Longrightarrow> cache_run (memory_cache mk) ops m = Some s \<Longrightarrow>
     memory_get mk k s = (Ok (Some v), s') \<Longrightarrow> written ops Map.empty k = Some v"
  by (rule bounded_cache.no_stale_value [OF cache_spec.bounded [OF memory_cache_spec]])
    (auto simp: memory_cache_def)

lemma redis_no_stale_value:
  "redis_ok cmds view \<Longrightarrow> view (rc_server r) = Map.empty \<Longrightarrow> cache_run (redis_cache_ops cmds) ops r = Some s \<Longrightarrow>
     redis_get cmds k s = (Ok (Some v), s') \<Longrightarrow> written ops Map.empty k = Some v"
  by (rule bounded_cache.no_stale_value [OF cache_spec.bounded [OF redis_cache_spec]])
    (auto simp: redis_cache_ops_def)

theorem two_level_no_stale_value_witness:
  "written [CacheSet ''a'' [1], CacheGet ''a'', CacheSetTtl ''a'' [2] 5, CacheExists ''b''] Map.empty ''a'' = Some [2]"
proof -
  let ?ops = "[CacheSet ''a'' [1], CacheGet ''a'', CacheSetTtl ''a'' [2] 5, CacheExists ''b'']"
  let ?s = "\<lparr>rc_conn = True, rc_server = Map.empty(''a'' \<mapsto> [2])\<rparr>"
  have run: "cache_run (multilevel_cache (memory_cache map_moka) (redis_cache_ops map_redis)) ?ops
      (Map.empty, \<lparr>rc_conn = True, rc_server = Map.empty\<rparr>) = Some (Map.empty(''a'' \<mapsto> [2]), ?s)"
    by (simp add: multilevel_cache_def multilevel_get_def multilevel_set_def multilevel_set_with_ttl_def
        multilevel_exists_def both_def memory_cache_def memory_get_def memory_set_def memory_set_with_ttl_def
        memory_exists_def redis_cache_ops_def redis_set_def redis_set_with_ttl_def redis_exists_def
        redis_command_def map_moka_def map_redis_def Let_def)
  have get: "multilevel_get (memory_cache map_moka) (redis_cache_ops map_redis) ''a''
      (Map.empty(''a'' \<mapsto> [2]), ?s) = (Ok (Some [2]), Map.empty(''a'' \<mapsto> [2]), ?s)"
    by (simp add: multilevel_get_def memory_cache_def memory_get_def map_moka_def Let_def)
  show ?thesis
    by (rule two_level_no_stale_value [OF map_moka_ok map_redis_ok _ _ run get]) simp_all
qed

section \<open>Limits\<close>

text \<open>A write that fails at the second level has already replaced the value at the first: without a
  connection to Redis, \<open>set\<close> reports an error and the value is read all the same.\<close>

lemma failed_set_is_visible:
  "let c = multilevel_cache (memory_cache map_moka) (redis_cache_ops map_redis);
       (r, s) = c_set c ''a'' [1] (Map.empty, \<lparr>rc_conn = False, rc_server = Map.empty\<rparr>)
   in r = Err CacheConnectionFailed ''redis not connected'' \<and> fst (c_get c ''a'' s) = Ok (Some [1])"
  by (simp add: multilevel_cache_def multilevel_get_def multilevel_set_def both_def memory_cache_def memory_get_def
      memory_set_def redis_cache_ops_def redis_set_def redis_command_def map_moka_def Let_def)

text \<open>The backfill of a read is not atomic with the read: a delete that runs between the lookup at the
  second level and the backfill is undone at the first level.\<close>

lemma delete_during_backfill_is_lost:
  "let l1 = memory_cache map_moka; l2 = redis_cache_ops map_redis;
       s = (Map.empty, \<lparr>rc_conn = True, rc_server = Map.empty(''a'' \<mapsto> [1])\<rparr>);
       (looked_up, r1) = c_get l2 ''a'' (snd s);
       (deleted, m2, r2) = multilevel_delete l1 l2 ''a'' (fst s, r1);
       m3 = snd (c_set l1 ''a'' [1] m2)
   in looked_up = Ok (Some [1]) \<and> deleted = Ok () \<and>
      fst (multilevel_get l1 l2 ''a'' (m3, r2)) = Ok (Some [1])"
  by (simp add: multilevel_get_def multilevel_delete_def both_def memory_cache_def memory_get_def
      memory_set_def memory_delete_def redis_cache_ops_def redis_get_def redis_delete_def redis_command_def
      map_moka_def map_redis_def Let_def)

end
