(* ===== verification/Crypto.thy ===== *)
theory Crypto
  imports Errors Config_Model
begin

text \<open>
  Encryption and keys: AES-GCM framing (\<open>rinfra-plugins/src/crypto/aesgcm.rs\<close>), the rotating key
  provider (\<open>rotating_provider.rs\<close>) and the environment and file providers
  (\<open>env_key_provider.rs\<close>, \<open>file_provider.rs\<close>). The cipher of the \<open>aes-gcm\<close> crate is a parameter, and so
  are the random bytes and the clock.
\<close>

section \<open>AES-GCM\<close>

record aead =
  aead_encrypt :: "bytes \<Rightarrow> bytes \<Rightarrow> bytes \<Rightarrow> string + bytes"
  aead_decrypt :: "bytes \<Rightarrow> bytes \<Rightarrow> bytes \<Rightarrow> string + bytes"
  aead_key_error :: string

definition aesgcm_new :: "bytes \<Rightarrow> bytes res" where
  "aesgcm_new k =
     (if length k \<noteq> 32
      then Err CryptoEncryptFailed (''AES-256 requires 32-byte key, got '' @ show_nat (length k))
      else Ok k)"

text \<open>\<open>Aes256Gcm::new_from_slice\<close> fails when the key is not 32 bytes long.\<close>

definition crypto_failed :: "error_code \<Rightarrow> string + 'a \<Rightarrow> 'a res" where
  "crypto_failed code r = (case r of Inl e \<Rightarrow> Err code e | Inr v \<Rightarrow> Ok v)"

definition aesgcm_encrypt :: "aead \<Rightarrow> bytes \<Rightarrow> bytes \<Rightarrow> bytes \<Rightarrow> bytes res" where
  "aesgcm_encrypt a k nonce_bytes plaintext =
     (if length k \<noteq> 32 then Err CryptoEncryptFailed (aead_key_error a)
      else bind_res (crypto_failed CryptoEncryptFailed (aead_encrypt a k nonce_bytes plaintext))
             (\<lambda>ciphertext. Ok (nonce_bytes @ ciphertext)))"

definition aesgcm_decrypt :: "aead \<Rightarrow> bytes \<Rightarrow> bytes \<Rightarrow> bytes res" where
  "aesgcm_decrypt a k ciphertext =
     (if length ciphertext < 12 then Err CryptoDecryptFailed ''ciphertext too short (missing nonce)''
      else if length k \<noteq> 32 then Err CryptoDecryptFailed (aead_key_error a)
      else (let nonce_bytes = take 12 ciphertext; encrypted = drop 12 ciphertext
            in crypto_failed CryptoDecryptFailed (aead_decrypt a k nonce_bytes encrypted)))"

section \<open>The rotating key provider\<close>

record versioned_key =
  vk_version :: u32
  vk_key :: bytes
  vk_created_at :: u64

record key_store =
  ks_versions :: "versioned_key list"
  ks_active_version :: u32

record key_version =
  kv_version :: u32
  kv_created_at :: u64
  kv_is_active :: bool

record rotating_key_provider =
  rk_keys :: "string \<rightharpoonup> key_store"
  rk_config :: rotating_key_config

definition rotating_new :: "rotating_key_config \<Rightarrow> rotating_key_provider" where
  "rotating_new cfg = \<lparr>rk_keys = Map.empty, rk_config = cfg\<rparr>"

definition seed_key :: "u64 \<Rightarrow> string \<Rightarrow> bytes \<Rightarrow> rotating_key_provider \<Rightarrow> rotating_key_provider" where
  "seed_key now n k p =
     (let store = (case rk_keys p n of Some s \<Rightarrow> s | None \<Rightarrow> \<lparr>ks_versions = [], ks_active_version = 0\<rparr>);
          version = of_nat (length (ks_versions store)) + 1
      in p\<lparr>rk_keys := (rk_keys p)(n \<mapsto>
           \<lparr>ks_versions = ks_versions store @ [\<lparr>vk_version = version, vk_key = k, vk_created_at = now\<rparr>],
            ks_active_version = version\<rparr>)\<rparr>)"

definition key_not_found :: "string \<Rightarrow> 'a res" where
  "key_not_found n = Err CryptoKeyNotFound (''key '' @ quoted n @ '' not found'')"

definition version_not_found :: "string \<Rightarrow> u32 \<Rightarrow> 'a res" where
  "version_not_found n ver =
     Err CryptoKeyNotFound (''key '' @ quoted n @ '' version '' @ show_nat (unat ver) @ '' not found'')"

definition get_key_versioned :: "rotating_key_provider \<Rightarrow> string \<Rightarrow> u32 option \<Rightarrow> bytes res" where
  "get_key_versioned p n version =
     (case rk_keys p n of
        None \<Rightarrow> key_not_found n
      | Some store \<Rightarrow>
          (let ver = (case version of Some v \<Rightarrow> v | None \<Rightarrow> ks_active_version store)
           in case find (\<lambda>v. vk_version v = ver) (ks_versions store) of
                None \<Rightarrow> version_not_found n ver
              | Some vk \<Rightarrow> Ok (vk_key vk)))"

definition get_active_version :: "rotating_key_provider \<Rightarrow> string \<Rightarrow> u32 res" where
  "get_active_version p n =
     (case rk_keys p n of None \<Rightarrow> key_not_found n | Some store \<Rightarrow> Ok (ks_active_version store))"

definition list_versions :: "rotating_key_provider \<Rightarrow> string \<Rightarrow> key_version list res" where
  "list_versions p n =
     (case rk_keys p n of
        None \<Rightarrow> key_not_found n
      | Some store \<Rightarrow> Ok (map (\<lambda>v. \<lparr>kv_version = vk_version v, kv_created_at = vk_created_at v,
          kv_is_active = (vk_version v = ks_active_version store)\<rparr>) (ks_versions store)))"

text \<open>\<open>iter().max().unwrap_or(0)\<close>.\<close>

definition max_version :: "versioned_key list \<Rightarrow> u32" where
  "max_version vs = foldr (\<lambda>v m. max (vk_version v) m) vs 0"

definition rotate_key :: "bytes \<Rightarrow> u64 \<Rightarrow> string \<Rightarrow> rotating_key_provider \<Rightarrow> u32 res \<times> rotating_key_provider" where
  "rotate_key random_bytes now n p =
     (case rk_keys p n of
        None \<Rightarrow> (key_not_found n, p)
      | Some store \<Rightarrow>
          (let new_version = max_version (ks_versions store) + 1;
               versions = ks_versions store @
                 [\<lparr>vk_version = new_version, vk_key = random_bytes, vk_created_at = now\<rparr>];
               max_versions = unat (rotating_key_max_key_versions (rk_config p));
               kept = (if max_versions < length versions then drop (length versions - max_versions) versions
                       else versions)
           in (Ok new_version,
               p\<lparr>rk_keys := (rk_keys p)(n \<mapsto> \<lparr>ks_versions = kept, ks_active_version = new_version\<rparr>)\<rparr>)))"

section \<open>Key providers\<close>

text \<open>\<open>std::env::var\<close>: a variable that is not set or not Unicode is an error.\<close>

definition env_get_key :: "(string \<rightharpoonup> string) \<Rightarrow> string \<Rightarrow> bytes res" where
  "env_get_key env key_id =
     (case env key_id of
        Some v \<Rightarrow> Ok (map (\<lambda>c. of_nat (of_char c)) v)
      | None \<Rightarrow> Err CryptoKeyNotFound (''env var '' @ quoted key_id @ '' not set''))"

definition file_get_key :: "file_key_config \<Rightarrow> string \<Rightarrow> bytes res" where
  "file_get_key cfg key_id =
     (if \<not> file_key_enabled cfg then Err CryptoKeyNotFound ''file key provider not enabled''
      else if file_key_path cfg = [] then Err CryptoKeyNotFound ''key file path not configured''
      else Err CryptoKeyNotFound (''file key provider stub: key '' @ quoted key_id @ '' not implemented''))"

section \<open>The versions a provider keeps\<close>

text \<open>All keys ever generated under a name, numbered from 1 in the order of their generation; the
  provider keeps a tail of this list.\<close>

definition versioned :: "(bytes \<times> u64) list \<Rightarrow> versioned_key list" where
  "versioned gs = map (\<lambda>i. \<lparr>vk_version = of_nat (i + 1), vk_key = fst (gs ! i), vk_created_at = snd (gs ! i)\<rparr>)
     [0..<length gs]"

lemma length_versioned [simp]: "length (versioned gs) = length gs"
  by (simp add: versioned_def)

lemma versioned_snoc:
  "versioned (gs @ [(k, t)]) =
     versioned gs @ [\<lparr>vk_version = of_nat (length gs) + 1, vk_key = k, vk_created_at = t\<rparr>]"
  by (simp add: versioned_def nth_append)

lemma nth_versioned:
  "i < length gs \<Longrightarrow> versioned gs ! i =
     \<lparr>vk_version = of_nat (i + 1), vk_key = fst (gs ! i), vk_created_at = snd (gs ! i)\<rparr>"
  by (simp add: versioned_def)

lemma max_version_upper: "\<forall>v\<in>set vs. vk_version v \<le> m \<Longrightarrow> max_version vs \<le> m"
  by (induction vs) (simp_all add: max_version_def)

lemma max_version_ge: "v \<in> set vs \<Longrightarrow> vk_version v \<le> max_version vs"
  by (induction vs) (auto simp: max_version_def le_max_iff_disj)

lemma version_le:
  assumes "length gs < 2 ^ 32" and "v \<in> set (drop l (versioned gs))"
  shows "vk_version v \<le> of_nat (length gs)"
proof -
  from in_set_dropD [OF assms(2)] obtain i where "i < length gs" "v = versioned gs ! i"
    by (auto simp: in_set_conv_nth)
  then show ?thesis
    using assms(1) by (simp add: nth_versioned word_le_nat_alt unat_of_nat del: of_nat_Suc)
qed

lemma max_version_versioned:
  assumes "length gs < 2 ^ 32" and "l < length gs"
  shows "max_version (drop l (versioned gs)) = of_nat (length gs)"
proof (rule antisym)
  show "max_version (drop l (versioned gs)) \<le> of_nat (length gs)"
    using version_le [OF assms(1)] by (intro max_version_upper) blast
  have "drop l (versioned gs) ! (length gs - l - 1) \<in> set (drop l (versioned gs))"
    using assms(2) by (intro nth_mem) simp
  then have "versioned gs ! (length gs - 1) \<in> set (drop l (versioned gs))"
    using assms(2) by simp
  from max_version_ge [OF this] show "of_nat (length gs) \<le> max_version (drop l (versioned gs))"
    using assms(2) by (simp add: nth_versioned)
qed

lemma find_versioned:
  assumes "length gs < 2 ^ 32"
  shows "find (\<lambda>v. vk_version v = ver) (drop l (versioned gs)) =
    (if l < unat ver \<and> unat ver \<le> length gs then Some (versioned gs ! (unat ver - 1)) else None)"
proof -
  have ver: "vk_version (drop l (versioned gs) ! j) = ver \<longleftrightarrow> l + j + 1 = unat ver"
    if "j < length gs - l" for j
  proof -
    have "vk_version (drop l (versioned gs) ! j) = of_nat (l + j + 1)"
      using that by (simp add: nth_versioned less_diff_conv2)
    moreover have "l + j + 1 < 2 ^ 32" using that assms by simp
    ultimately show ?thesis by (simp add: word_unat_eq_iff unat_of_nat del: of_nat_Suc of_nat_add)
  qed
  show ?thesis
  proof (cases "l < unat ver \<and> unat ver \<le> length gs")
    case True
    let ?j = "unat ver - 1 - l"
    have "find (\<lambda>v. vk_version v = ver) (drop l (versioned gs)) = Some (drop l (versioned gs) ! ?j)"
      unfolding find_Some_iff
    proof (intro exI [of _ ?j] conjI allI impI)
      show "?j < length (drop l (versioned gs))" using True by auto
      show "vk_version (drop l (versioned gs) ! ?j) = ver"
        using True by (subst ver) auto
      show "vk_version (drop l (versioned gs) ! i) \<noteq> ver" if "i < ?j" for i
        using True that by (subst ver) auto
    qed simp
    with True show ?thesis by simp
  next
    case False
    then have "vk_version v \<noteq> ver" if "v \<in> set (drop l (versioned gs))" for v
      using that ver unfolding in_set_conv_nth by force
    then have "find (\<lambda>v. vk_version v = ver) (drop l (versioned gs)) = None"
      by (simp add: find_None_iff)
    with False show ?thesis by simp
  qed
qed

definition rotations :: "string \<Rightarrow> (bytes \<times> u64) list \<Rightarrow> rotating_key_provider \<Rightarrow> rotating_key_provider" where
  "rotations n rots p = fold (\<lambda>(k, t) q. snd (rotate_key k t n q)) rots p"

text \<open>What the provider holds for a name under which the keys \<open>gs\<close> were generated, with room for \<open>m\<close>.\<close>

definition holds :: "rotating_key_provider \<Rightarrow> string \<Rightarrow> nat \<Rightarrow> (bytes \<times> u64) list \<Rightarrow> bool" where
  "holds p n m gs \<longleftrightarrow> unat (rotating_key_max_key_versions (rk_config p)) = m \<and>
     rk_keys p n = Some \<lparr>ks_versions = drop (length gs - m) (versioned gs), ks_active_version = of_nat (length gs)\<rparr>"

lemma holds_rotate:
  assumes "holds p n m gs" and "gs \<noteq> []" and "1 \<le> m" and "length gs < 2 ^ 32"
  shows "rotate_key k t n p = (Ok (of_nat (length gs + 1)), snd (rotate_key k t n p)) \<and>
    holds (snd (rotate_key k t n p)) n m (gs @ [(k, t)])"
proof -
  let ?vs = "drop (length gs - m) (versioned gs)"
  have mx: "max_version ?vs = of_nat (length gs)"
    using assms by (intro max_version_versioned) auto
  have new: "?vs @ [\<lparr>vk_version = of_nat (length gs) + 1, vk_key = k, vk_created_at = t\<rparr>] =
      drop (length gs - m) (versioned (gs @ [(k, t)]))"
    by (simp add: versioned_snoc)
  let ?ws = "drop (length gs - m) (versioned (gs @ [(k, t)]))"
  have kept: "(if m < length ?ws then drop (length ?ws - m) ?ws else ?ws) =
      drop (length (gs @ [(k, t)]) - m) (versioned (gs @ [(k, t)]))"
    using assms(3) by (cases "m \<le> length gs") (simp_all add: Suc_diff_le)
  have rot: "rotate_key k t n p = (Ok (of_nat (length gs) + 1),
      p\<lparr>rk_keys := (rk_keys p)(n \<mapsto>
        \<lparr>ks_versions = (if m < length ?ws then drop (length ?ws - m) ?ws else ?ws),
         ks_active_version = of_nat (length gs) + 1\<rparr>)\<rparr>)"
    using assms(1) by (simp only: rotate_key_def holds_def mx new Let_def key_store.simps option.case)
  show ?thesis
    using assms(1) unfolding rot kept by (simp add: holds_def add.commute)
qed

lemma holds_rotations:
  "holds p n m gs \<Longrightarrow> gs \<noteq> [] \<Longrightarrow> 1 \<le> m \<Longrightarrow> length gs + length rots < 2 ^ 32 \<Longrightarrow>
     holds (rotations n rots p) n m (gs @ rots)"
proof (induction rots arbitrary: p gs)
  case Nil
  then show ?case by (simp add: rotations_def)
next
  case (Cons g rots)
  obtain k t where g: "g = (k, t)" by force
  have "holds (snd (rotate_key k t n p)) n m (gs @ [(k, t)])"
    using holds_rotate [of p n m gs k t] Cons.prems by simp
  then have "holds (rotations n rots (snd (rotate_key k t n p))) n m ((gs @ [(k, t)]) @ rots)"
    using Cons.prems by (intro Cons.IH) simp_all
  then show ?case by (simp add: rotations_def g)
qed

section \<open>Properties\<close>

text \<open>
  C25: rotation never changes what a version means: after a first key and any rotations of a provider
  that keeps at least one version, the active key is the one generated last, each of the kept latest
  versions still gives the key it was generated with, and every other version is reported missing.
\<close>

theorem rotated_keys_stay:
  assumes "rk_keys p n = None" and "1 \<le> rotating_key_max_key_versions (rk_config p)"
    and "length rots + 1 < 2 ^ 32"
  shows "get_active_version (rotations n rots (seed_key t n k p)) n = Ok (of_nat (length rots + 1)) \<and>
    get_key_versioned (rotations n rots (seed_key t n k p)) n None = Ok (last (k # map fst rots)) \<and>
    get_key_versioned (rotations n rots (seed_key t n k p)) n (Some v) =
      (if length rots + 1 - unat (rotating_key_max_key_versions (rk_config p)) < unat v \<and> unat v \<le> length rots + 1
       then Ok ((k # map fst rots) ! (unat v - 1)) else version_not_found n v)"
proof -
  let ?m = "unat (rotating_key_max_key_versions (rk_config p))"
  let ?gs = "(k, t) # rots"
  let ?q = "rotations n rots (seed_key t n k p)"
  have m: "1 \<le> ?m" using assms(2) by (simp add: word_le_nat_alt)
  have len: "length ?gs < 2 ^ 32" using assms(3) by simp
  have "holds (seed_key t n k p) n ?m [(k, t)]"
    using assms(1) m by (simp add: holds_def seed_key_def Let_def versioned_def)
  then have "holds ?q n ?m ([(k, t)] @ rots)"
    using m assms(3) by (intro holds_rotations) simp_all
  then have q: "rk_keys ?q n = Some \<lparr>ks_versions = drop (length ?gs - ?m) (versioned ?gs),
      ks_active_version = of_nat (length ?gs)\<rparr>"
    by (simp add: holds_def)
  have keys: "vk_key (versioned ?gs ! i) = (k # map fst rots) ! i" if "i < length ?gs" for i
    using that by (cases i) (simp_all add: nth_versioned)
  have "unat (of_nat (length ?gs) :: u32) = length ?gs" using len by (simp add: unat_of_nat del: of_nat_Suc)
  then have act: "get_key_versioned ?q n None = Ok (last (k # map fst rots))"
    using m keys [of "length rots"]
    by (simp add: get_key_versioned_def q find_versioned [OF len] last_conv_nth Let_def
        del: of_nat_Suc last.simps list.map)
  show ?thesis
    using act keys [of "unat v - 1"]
    by (auto simp: get_active_version_def get_key_versioned_def q find_versioned [OF len])
qed

theorem rotated_keys_stay_witness:
  "get_key_versioned (rotations ''db'' [([2], 0), ([3], 0)]
     (seed_key 0 ''db'' [1] (rotating_new \<lparr>rotating_key_enabled = True,
       rotating_key_rotation_interval_secs = 60, rotating_key_max_key_versions = 2\<rparr>))) ''db'' (Some 2) = Ok [2] \<and>
   get_key_versioned (rotations ''db'' [([2], 0), ([3], 0)]
     (seed_key 0 ''db'' [1] (rotating_new \<lparr>rotating_key_enabled = True,
       rotating_key_rotation_interval_secs = 60, rotating_key_max_key_versions = 2\<rparr>))) ''db'' (Some 1) =
     version_not_found ''db'' 1"
proof -
  let ?p = "rotating_new \<lparr>rotating_key_enabled = True,
    rotating_key_rotation_interval_secs = 60, rotating_key_max_key_versions = 2\<rparr>"
  have "rk_keys ?p ''db'' = None" "1 \<le> rotating_key_max_key_versions (rk_config ?p)"
    "length [([2 :: u8], 0 :: u64), ([3], 0)] + 1 < 2 ^ 32"
    by (simp_all add: rotating_new_def)
  note ps = rotated_keys_stay [OF this, of 0 "[1]"]
  show ?thesis using ps [of 2] ps [of 1] by (simp add: rotating_new_def)
qed

text \<open>
  What AES-GCM encrypts it decrypts: for every cipher that decrypts its own output under the same
  key and nonce, with a key of 32 bytes and a nonce of 12, decryption of an encrypted message gives
  the message back; a text shorter than a nonce is refused.
\<close>

theorem aesgcm_roundtrip:
  assumes "\<And>n p c. aead_encrypt a k n p = Inr c \<Longrightarrow> aead_decrypt a k n c = Inr p"
    and "length nonce = 12" and "aesgcm_encrypt a k nonce plaintext = Ok ciphertext"
  shows "aesgcm_decrypt a k ciphertext = Ok plaintext \<and>
    aesgcm_decrypt a k (take 11 ciphertext) = Err CryptoDecryptFailed ''ciphertext too short (missing nonce)''"
proof -
  from assms(3) obtain c where c: "length k = 32" "aead_encrypt a k nonce plaintext = Inr c" "ciphertext = nonce @ c"
    by (auto simp: aesgcm_encrypt_def crypto_failed_def bind_res_def split: if_splits sum.splits)
  with assms(1) [OF c(2)] assms(2) show ?thesis
    by (simp add: aesgcm_decrypt_def crypto_failed_def)
qed

theorem aesgcm_roundtrip_witness:
  "aesgcm_decrypt \<lparr>aead_encrypt = (\<lambda>k n p. Inr (map (xor (hd k)) p)),
      aead_decrypt = (\<lambda>k n c. Inr (map (xor (hd k)) c)), aead_key_error = ''invalid length''\<rparr>
     (replicate 32 7) (replicate 12 1 @ [5, 6]) = Ok [2, 1]"
proof -
  let ?a = "\<lparr>aead_encrypt = (\<lambda>k n p. Inr (map (xor (hd k)) p)),
      aead_decrypt = (\<lambda>k n c. Inr (map (xor (hd k)) c)), aead_key_error = ''invalid length''\<rparr>
      :: aead"
  have "aead_encrypt ?a (replicate 32 7) n p = Inr c \<Longrightarrow> aead_decrypt ?a (replicate 32 7) n c = Inr p" for n p c
    by (auto simp: comp_def xor.assoc [symmetric] map_idI)
  moreover have "aesgcm_encrypt ?a (replicate 32 7) (replicate 12 1) [2, 1] = Ok (replicate 12 1 @ [5, 6])"
    by (simp add: aesgcm_encrypt_def crypto_failed_def bind_res_def)
  ultimately show ?thesis
    using aesgcm_roundtrip [of ?a "replicate 32 7" "replicate 12 1" "[2, 1]" "replicate 12 1 @ [5, 6]"]
    by (simp only: length_replicate simp_thms)
qed

section \<open>Limits\<close>

text \<open>Seeding numbers a key by the number of versions kept, not by the latest: after trimming the number
  is taken, so the key that becomes active is an old one and the seeded key is never given out.\<close>

lemma seed_after_trim_reuses_version:
  "let p = rotating_new \<lparr>rotating_key_enabled = True,
       rotating_key_rotation_interval_secs = 60, rotating_key_max_key_versions = 2\<rparr>;
       q = rotations ''db'' [([2], 0), ([3], 0)] (seed_key 0 ''db'' [1] p)
   in get_active_version (seed_key 0 ''db'' [9] q) ''db'' = Ok 3 \<and>
      get_key_versioned (seed_key 0 ''db'' [9] q) ''db'' None = Ok [3]"
  by (simp add: rotating_new_def rotations_def seed_key_def rotate_key_def max_version_def Let_def
      get_active_version_def get_key_versioned_def)

text \<open>A provider configured to keep no version loses the key it has just made active.\<close>

lemma zero_versions_lose_active_key:
  "let p = rotating_new \<lparr>rotating_key_enabled = True,
       rotating_key_rotation_interval_secs = 60, rotating_key_max_key_versions = 0\<rparr>;
       q = snd (rotate_key [2] 0 ''db'' (seed_key 0 ''db'' [1] p))
   in get_key_versioned q ''db'' None = version_not_found ''db'' 2"
  by (simp add: rotating_new_def seed_key_def rotate_key_def max_version_def Let_def
      get_key_versioned_def)

end
