(* ===== verification/Audit_Log.thy ===== *)
theory Audit_Log
  imports Errors Json
begin

text \<open>
  The audit log: events and filters (\<open>rinfra-core/src/audit/mod.rs\<close>) and the logger that appends one
  JSON line per event to a file (\<open>rinfra-plugins/src/audit/file_logger.rs\<close>). The text form of JSON is
  \<open>serde_json\<close>'s and a parameter; the results of the file operations are parameters too. Ids and
  times of new events are arguments.
\<close>

section \<open>Events\<close>

datatype audit_outcome = Success | Failure | Denied

record audit_event =
  ae_id :: string
  ae_timestamp_ms :: u64
  ae_actor :: string
  ae_action :: string
  ae_resource :: string
  ae_resource_id :: "string option"
  ae_outcome :: audit_outcome
  ae_ip :: "string option"
  ae_details :: json

definition audit_event_new :: "string \<Rightarrow> u64 \<Rightarrow> string \<Rightarrow> string \<Rightarrow> string \<Rightarrow> audit_outcome \<Rightarrow> audit_event" where
  "audit_event_new uuid now actor action resource outcome =
     \<lparr>ae_id = uuid, ae_timestamp_ms = now, ae_actor = actor, ae_action = action, ae_resource = resource,
      ae_resource_id = None, ae_outcome = outcome, ae_ip = None, ae_details = JNull\<rparr>"

definition with_resource_id :: "string \<Rightarrow> audit_event \<Rightarrow> audit_event" where
  "with_resource_id i e = e\<lparr>ae_resource_id := Some i\<rparr>"

definition with_ip :: "string \<Rightarrow> audit_event \<Rightarrow> audit_event" where
  "with_ip ip e = e\<lparr>ae_ip := Some ip\<rparr>"

definition with_details :: "json \<Rightarrow> audit_event \<Rightarrow> audit_event" where
  "with_details d e = e\<lparr>ae_details := d\<rparr>"

record audit_filter =
  af_actor :: "string option"
  af_action :: "string option"
  af_resource :: "string option"
  af_from_timestamp_ms :: "u64 option"
  af_to_timestamp_ms :: "u64 option"
  af_limit :: nat

text \<open>\<open>AuditFilter::default()\<close> is derived and has the limit 0, \<open>AuditFilter::new()\<close> has 100.\<close>

definition audit_filter_default :: audit_filter where
  "audit_filter_default =
     \<lparr>af_actor = None, af_action = None, af_resource = None, af_from_timestamp_ms = None,
      af_to_timestamp_ms = None, af_limit = 0\<rparr>"

definition audit_filter_new :: audit_filter where
  "audit_filter_new = audit_filter_default\<lparr>af_limit := 100\<rparr>"

definition filter_matches :: "audit_filter \<Rightarrow> audit_event \<Rightarrow> bool" where
  "filter_matches f e =
     (if (case af_actor f of Some a \<Rightarrow> ae_actor e \<noteq> a | None \<Rightarrow> False) then False
      else if (case af_action f of Some a \<Rightarrow> ae_action e \<noteq> a | None \<Rightarrow> False) then False
      else if (case af_resource f of Some r \<Rightarrow> ae_resource e \<noteq> r | None \<Rightarrow> False) then False
      else if (case af_from_timestamp_ms f of Some t \<Rightarrow> ae_timestamp_ms e < t | None \<Rightarrow> False) then False
      else if (case af_to_timestamp_ms f of Some t \<Rightarrow> t < ae_timestamp_ms e | None \<Rightarrow> False) then False
      else True)"

section \<open>Events as JSON\<close>

definition enc_outcome :: "audit_outcome \<Rightarrow> json" where
  "enc_outcome out = JStr (case out of Success \<Rightarrow> ''Success'' | Failure \<Rightarrow> ''Failure'' | Denied \<Rightarrow> ''Denied'')"

definition dec_outcome :: "json \<Rightarrow> audit_outcome option" where
  "dec_outcome v = (case v of
     JStr s \<Rightarrow> if s = ''Success'' then Some Success else if s = ''Failure'' then Some Failure
               else if s = ''Denied'' then Some Denied else None
   | _ \<Rightarrow> None)"

text \<open>\<open>skip_serializing_if = "Option::is_none"\<close>.\<close>

definition skip_none :: "string \<Rightarrow> string option \<Rightarrow> (string \<times> json) list" where
  "skip_none k v = (case v of None \<Rightarrow> [] | Some s \<Rightarrow> [(k, JStr s)])"

definition enc_audit_event :: "audit_event \<Rightarrow> json" where
  "enc_audit_event e = JObj
     ([(''id'', JStr (ae_id e)), (''timestamp_ms'', enc_u64 (ae_timestamp_ms e)), (''actor'', JStr (ae_actor e)),
       (''action'', JStr (ae_action e)), (''resource'', JStr (ae_resource e))] @
      skip_none ''resource_id'' (ae_resource_id e) @ [(''outcome'', enc_outcome (ae_outcome e))] @
      skip_none ''ip'' (ae_ip e) @ [(''details'', ae_details e)])"

definition dec_audit_event :: "json \<Rightarrow> audit_event option" where
  "dec_audit_event v = (case v of
     JObj ob \<Rightarrow>
       Option.bind (field ob ''id'' None dec_string) (\<lambda>i.
       Option.bind (field ob ''timestamp_ms'' None dec_u64) (\<lambda>ts.
       Option.bind (field ob ''actor'' None dec_string) (\<lambda>actor.
       Option.bind (field ob ''action'' None dec_string) (\<lambda>action.
       Option.bind (field ob ''resource'' None dec_string) (\<lambda>resource.
       Option.bind (field ob ''resource_id'' (Some None) (dec_opt dec_string)) (\<lambda>rid.
       Option.bind (field ob ''outcome'' None dec_outcome) (\<lambda>outcome.
       Option.bind (field ob ''ip'' (Some None) (dec_opt dec_string)) (\<lambda>ip.
       Option.bind (field ob ''details'' (Some JNull) Some) (\<lambda>d.
         Some \<lparr>ae_id = i, ae_timestamp_ms = ts, ae_actor = actor, ae_action = action, ae_resource = resource,
           ae_resource_id = rid, ae_outcome = outcome, ae_ip = ip, ae_details = d\<rparr>)))))))))
   | _ \<Rightarrow> None)"

section \<open>The logger\<close>

text \<open>What an application calls: a logger acts on the state \<open>'w\<close> of the process.\<close>

type_synonym 'w audit_logger = "audit_event \<Rightarrow> 'w \<Rightarrow> unit res \<times> 'w"

record json_text =
  jt_write :: "json \<Rightarrow> string + string"
  jt_read :: "string \<Rightarrow> json option"

record audit_fs =
  fs_parent :: bool
  fs_mkdir :: "string option"
  fs_open :: "string option"
  fs_write :: "string \<Rightarrow> string option \<times> string"

text \<open>The state of the logger: whether its file is open, and the content of the file (\<open>None\<close> when it
  does not exist or cannot be read).\<close>

record file_audit_logger =
  fal_writer :: bool
  fal_content :: "string option"

definition file_audit_new :: "string option \<Rightarrow> file_audit_logger" where
  "file_audit_new content = \<lparr>fal_writer = False, fal_content = content\<rparr>"

definition ensure_writer :: "audit_fs \<Rightarrow> file_audit_logger \<Rightarrow> unit res \<times> file_audit_logger" where
  "ensure_writer fs l =
     (if fal_writer l then (Ok (), l)
      else case (if fs_parent fs then fs_mkdir fs else None) of
        Some e \<Rightarrow> (Err AuditLogFailed (''failed to create audit log directory: '' @ e), l)
      | None \<Rightarrow>
          (case fs_open fs of
             Some e \<Rightarrow> (Err AuditLogFailed (''failed to open audit log file: '' @ e), l)
           | None \<Rightarrow>
               (Ok (), \<lparr>fal_writer = True, fal_content = Some (case fal_content l of Some c \<Rightarrow> c | None \<Rightarrow> [])\<rparr>)))"

text \<open>\<open>fs_write\<close> gives the error of a write, if any, and the part of the text that reached the file.\<close>

definition file_audit_log :: "json_text \<Rightarrow> audit_fs \<Rightarrow> audit_event \<Rightarrow> file_audit_logger \<Rightarrow> unit res \<times> file_audit_logger" where
  "file_audit_log jt fs e l =
     (case ensure_writer fs l of
        (Inl err, l1) \<Rightarrow> (Inl err, l1)
      | (Inr _, l1) \<Rightarrow>
          (case jt_write jt (enc_audit_event e) of
             Inl err \<Rightarrow> (Err AuditLogFailed (''failed to serialize audit event: '' @ err), l1)
           | Inr s \<Rightarrow>
               (let (err, written) = fs_write fs (s @ [CHR 0x0A]);
                    l2 = l1\<lparr>fal_content := map_option (\<lambda>c. c @ written) (fal_content l1)\<rparr>
                in (case err of
                      Some m \<Rightarrow> (Err AuditLogFailed (''failed to write audit event: '' @ m), l2)
                    | None \<Rightarrow> (Ok (), l2)))))"

text \<open>\<open>str::lines\<close>: a line ends at a line feed, with a carriage return before it removed.\<close>

definition strip_cr :: "string \<Rightarrow> string" where
  "strip_cr l = (if l \<noteq> [] \<and> last l = CHR 0x0D then butlast l else l)"

function str_lines :: "string \<Rightarrow> string list" where
  "str_lines s =
     (if s = [] then []
      else case dropWhile (\<lambda>c. c \<noteq> CHR 0x0A) s of
             [] \<Rightarrow> [s]
           | _ # rest \<Rightarrow> strip_cr (takeWhile (\<lambda>c. c \<noteq> CHR 0x0A) s) # str_lines rest)"
  by pat_completeness auto

termination
proof (relation "measure length")
  fix s :: string and x rest
  assume "s \<noteq> []" and "dropWhile (\<lambda>c. c \<noteq> CHR 0x0A) s = x # rest"
  then have "length (x # rest) \<le> length s" by (metis length_dropWhile_le)
  then show "(rest, s) \<in> measure length" by simp
qed simp

declare str_lines.simps [simp del]

definition is_space :: "char \<Rightarrow> bool" where
  "is_space c \<longleftrightarrow> c \<in> {CHR '' '', CHR 0x09, CHR 0x0A, CHR 0x0B, CHR 0x0C, CHR 0x0D}"

definition blank :: "string \<Rightarrow> bool" where
  "blank l \<longleftrightarrow> (\<forall>c\<in>set l. is_space c)"

fun query_lines :: "json_text \<Rightarrow> audit_filter \<Rightarrow> string list \<Rightarrow> audit_event list \<Rightarrow> audit_event list" where
  "query_lines jt f [] results = results"
| "query_lines jt f (l # ls) results =
     (if blank l then query_lines jt f ls results
      else case Option.bind (jt_read jt l) dec_audit_event of
             None \<Rightarrow> query_lines jt f ls results
           | Some e \<Rightarrow>
               if filter_matches f e
               then (let results1 = results @ [e]
                     in if af_limit f \<le> length results1 then results1 else query_lines jt f ls results1)
               else query_lines jt f ls results)"

definition file_audit_query :: "json_text \<Rightarrow> audit_filter \<Rightarrow> file_audit_logger \<Rightarrow> audit_event list res" where
  "file_audit_query jt f l =
     Ok (query_lines jt f (str_lines (case fal_content l of Some c \<Rightarrow> c | None \<Rightarrow> [])) [])"

section \<open>Lemmas\<close>

lemma dec_enc_outcome: "dec_outcome (enc_outcome out) = Some out"
  by (cases out) (simp_all add: dec_outcome_def enc_outcome_def)

lemma field_append: "field (a @ b) f d dec = (case map_of a f of Some v \<Rightarrow> dec v | None \<Rightarrow> field b f d dec)"
  by (simp add: field_def map_add_def split: option.splits)

lemma dec_enc_audit_event: "dec_audit_event (enc_audit_event e) = Some e"
proof (cases e)
  case (fields i ts actor action resource rid out ip details)
  show ?thesis
    by (cases rid; cases ip)
      (simp_all add: fields dec_audit_event_def enc_audit_event_def skip_none_def dec_basic_rt dec_enc_outcome
        dec_opt_def)
qed

lemma str_lines_Cons:
  assumes "CHR 0x0A \<notin> set l"
  shows "str_lines (l @ CHR 0x0A # rest) = strip_cr l # str_lines rest"
proof -
  have "takeWhile (\<lambda>c. c \<noteq> CHR 0x0A) (l @ CHR 0x0A # rest) = l \<and>
      dropWhile (\<lambda>c. c \<noteq> CHR 0x0A) (l @ CHR 0x0A # rest) = CHR 0x0A # rest"
    using assms by (induction l) auto
  then show ?thesis by (subst str_lines.simps) simp
qed

text \<open>The events whose text the reader gives back, on one line.\<close>

definition line_safe :: "json_text \<Rightarrow> audit_event \<Rightarrow> bool" where
  "line_safe jt e = (case jt_write jt (enc_audit_event e) of
     Inl _ \<Rightarrow> False
   | Inr s \<Rightarrow> CHR 0x0A \<notin> set s \<and> \<not> blank s \<and> last s \<noteq> CHR 0x0D \<and> jt_read jt s = Some (enc_audit_event e))"

definition event_line :: "json_text \<Rightarrow> audit_event \<Rightarrow> string" where
  "event_line jt e = (case jt_write jt (enc_audit_event e) of Inl _ \<Rightarrow> [] | Inr s \<Rightarrow> s @ [CHR 0x0A])"

lemma query_lines_events:
  assumes "\<forall>e\<in>set es. line_safe jt e"
  shows "query_lines jt f (str_lines (concat (map (event_line jt) es))) results =
    results @ take (max 1 (af_limit f - length results)) (filter (filter_matches f) es)"
  using assms
proof (induction es arbitrary: results)
  case Nil
  then show ?case by (simp add: str_lines.simps)
next
  case (Cons e es)
  then obtain s where s: "jt_write jt (enc_audit_event e) = Inr s" "CHR 0x0A \<notin> set s" "\<not> blank s"
      "last s \<noteq> CHR 0x0D" "jt_read jt s = Some (enc_audit_event e)"
    by (auto simp: line_safe_def split: sum.splits)
  have "str_lines (concat (map (event_line jt) (e # es))) = s # str_lines (concat (map (event_line jt) es))"
    using str_lines_Cons [OF s(2)] s by (simp add: event_line_def strip_cr_def)
  with Cons s show ?case
    by (auto simp: dec_enc_audit_event Let_def max_def take_Cons')
qed

definition fs_reliable :: "audit_fs \<Rightarrow> bool" where
  "fs_reliable fs \<longleftrightarrow> fs_mkdir fs = None \<and> fs_open fs = None \<and> (\<forall>s. fs_write fs s = (None, s))"

lemma file_audit_log_ok:
  assumes "fs_reliable fs" and "line_safe jt e" and "fal_writer l \<Longrightarrow> fal_content l \<noteq> None"
  shows "file_audit_log jt fs e l =
    (Ok (), \<lparr>fal_writer = True,
       fal_content = Some ((case fal_content l of Some c \<Rightarrow> c | None \<Rightarrow> []) @ event_line jt e)\<rparr>)"
  using assms
  by (cases l) (auto simp: file_audit_log_def ensure_writer_def fs_reliable_def line_safe_def event_line_def Let_def
      split: sum.splits option.splits)

lemma file_audit_log_all:
  assumes "fs_reliable fs" and "\<forall>e\<in>set es. line_safe jt e"
  shows "fold (\<lambda>e l. snd (file_audit_log jt fs e l)) es \<lparr>fal_writer = True, fal_content = Some c\<rparr> =
    \<lparr>fal_writer = True, fal_content = Some (c @ concat (map (event_line jt) es))\<rparr>"
  using assms(2)
proof (induction es arbitrary: c)
  case (Cons e es)
  then show ?case using file_audit_log_ok [OF assms(1), of jt e "\<lparr>fal_writer = True, fal_content = Some c\<rparr>"] by simp
qed simp

section \<open>Properties\<close>



end
