(* ===== verification/Admin_Auth.thy ===== *)
theory Admin_Auth
  imports Audit_Log Config_Model
begin

text \<open>
  Authentication of the admin interface (\<open>rinfra-admin/backend/src/auth/\<close>): the token store with its file
  (\<open>store.rs\<close>), its bootstrap (\<open>mod.rs\<close>) and the service that checks the token of every request
  (\<open>middleware.rs\<close>). Argon2, the hex encoding, random bytes, uuids, the clock (in milliseconds) and the
  results of file operations are parameters; the text of a JSON parse error is left out. The lock of the store is held for each operation on its
  vector, so such an operation is one step.
\<close>

section \<open>Tokens\<close>

datatype admin_role = Root | Admin

definition role_text :: "admin_role \<Rightarrow> string" where
  "role_text r = (case r of Root \<Rightarrow> ''root'' | Admin \<Rightarrow> ''admin'')"

record admin_token_record =
  tr_id :: string
  tr_role :: admin_role
  tr_token_hash :: string
  tr_label :: string
  tr_created_at :: u64
  tr_last_used_at :: "u64 option"
  tr_expires_at :: "u64 option"

record admin_token_info =
  ti_id :: string
  ti_role :: admin_role
  ti_label :: string
  ti_created_at :: u64
  ti_last_used_at :: "u64 option"
  ti_expires_at :: "u64 option"

definition token_info :: "admin_token_record \<Rightarrow> admin_token_info" where
  "token_info r =
     \<lparr>ti_id = tr_id r, ti_role = tr_role r, ti_label = tr_label r, ti_created_at = tr_created_at r,
      ti_last_used_at = tr_last_used_at r, ti_expires_at = tr_expires_at r\<rparr>"

text \<open>The file format: the derived serialization of the records.\<close>

definition enc_role :: "admin_role \<Rightarrow> json" where
  "enc_role r = JStr (role_text r)"

definition dec_role :: "json \<Rightarrow> admin_role option" where
  "dec_role v = (case v of
     JStr s \<Rightarrow> if s = ''root'' then Some Root else if s = ''admin'' then Some Admin else None
   | _ \<Rightarrow> None)"

definition enc_token_record :: "admin_token_record \<Rightarrow> json" where
  "enc_token_record r = JObj
     [(''id'', JStr (tr_id r)), (''role'', enc_role (tr_role r)), (''token_hash'', JStr (tr_token_hash r)),
      (''label'', JStr (tr_label r)), (''created_at'', enc_u64 (tr_created_at r)),
      (''last_used_at'', enc_opt enc_u64 (tr_last_used_at r)), (''expires_at'', enc_opt enc_u64 (tr_expires_at r))]"

definition dec_token_record :: "json \<Rightarrow> admin_token_record option" where
  "dec_token_record v = (case v of
     JObj ob \<Rightarrow>
       Option.bind (field ob ''id'' None dec_string) (\<lambda>i.
       Option.bind (field ob ''role'' None dec_role) (\<lambda>role.
       Option.bind (field ob ''token_hash'' None dec_string) (\<lambda>h.
       Option.bind (field ob ''label'' None dec_string) (\<lambda>label.
       Option.bind (field ob ''created_at'' None dec_u64) (\<lambda>created.
       Option.bind (field ob ''last_used_at'' (Some None) (dec_opt dec_u64)) (\<lambda>used.
       Option.bind (field ob ''expires_at'' (Some None) (dec_opt dec_u64)) (\<lambda>expires.
         Some \<lparr>tr_id = i, tr_role = role, tr_token_hash = h, tr_label = label, tr_created_at = created,
           tr_last_used_at = used, tr_expires_at = expires\<rparr>)))))))
   | _ \<Rightarrow> None)"

section \<open>What the store uses\<close>

record argon2 =
  ar_hash :: "string \<Rightarrow> string \<Rightarrow> string + string"
  ar_verify :: "string \<Rightarrow> string \<Rightarrow> bool option"

text \<open>\<open>ar_hash salt plaintext\<close>; \<open>ar_verify plaintext hash\<close> is \<open>None\<close> when the hash does not parse.\<close>

definition hash_token :: "argon2 \<Rightarrow> string \<Rightarrow> string \<Rightarrow> string + string" where
  "hash_token ar salt plaintext = (case ar_hash ar salt plaintext of Inl e \<Rightarrow> Inl (''hash failed: '' @ e) | Inr h \<Rightarrow> Inr h)"

definition verify_token :: "argon2 \<Rightarrow> string \<Rightarrow> string \<Rightarrow> bool" where
  "verify_token ar plaintext h = (case ar_verify ar plaintext h of Some b \<Rightarrow> b | None \<Rightarrow> False)"

text \<open>The surroundings of one operation: the clock, a fresh uuid and salt, random bytes in hex, and the
  errors of the file operations, \<open>None\<close> for success.\<close>

record token_env =
  te_now :: u64
  te_uuid :: string
  te_salt :: string
  te_random_hex :: string
  te_serialize :: "string option"
  te_mkdir :: "string option"
  te_write :: "string option"
  te_rename :: "string option"

section \<open>The token store\<close>

text \<open>The vector in memory and the text in the file.\<close>

record token_store =
  ts_tokens :: "admin_token_record list"
  ts_file :: "string option"

definition enc_tokens :: "admin_token_record list \<Rightarrow> json" where
  "enc_tokens ts = enc_list enc_token_record ts"

definition token_store_load :: "json_text \<Rightarrow> string + string option \<Rightarrow> string + token_store" where
  "token_store_load jt file =
     (case file of
        Inl e \<Rightarrow> Inl (''failed to read token file: '' @ e)
      | Inr None \<Rightarrow> Inr \<lparr>ts_tokens = [], ts_file = None\<rparr>
      | Inr (Some text) \<Rightarrow>
          (case Option.bind (jt_read jt text) (dec_list dec_token_record) of
             None \<Rightarrow> Inl ''failed to parse token file''
           | Some ts \<Rightarrow> Inr \<lparr>ts_tokens = ts, ts_file = Some text\<rparr>))"

definition has_root :: "token_store \<Rightarrow> bool" where
  "has_root s \<longleftrightarrow> (\<exists>t\<in>set (ts_tokens s). tr_role t = Root)"

definition generate_token :: "string \<Rightarrow> admin_role \<Rightarrow> string" where
  "generate_token random_hex role =
     (case role of Root \<Rightarrow> ''rinfra_root_'' @ random_hex | Admin \<Rightarrow> ''rinfra_admin_'' @ random_hex)"

definition persist :: "json_text \<Rightarrow> token_env \<Rightarrow> token_store \<Rightarrow> (string + unit) \<times> token_store" where
  "persist jt env s =
     (case jt_write jt (enc_tokens (ts_tokens s)) of
        Inl e \<Rightarrow> (Inl (''serialize failed: '' @ e), s)
      | Inr data \<Rightarrow>
          (case te_mkdir env of
             Some e \<Rightarrow> (Inl (''mkdir failed: '' @ e), s)
           | None \<Rightarrow>
               (case te_write env of
                  Some e \<Rightarrow> (Inl (''write tmp failed: '' @ e), s)
                | None \<Rightarrow>
                    (case te_rename env of
                       Some e \<Rightarrow> (Inl (''rename failed: '' @ e), s)
                     | None \<Rightarrow> (Inr (), s\<lparr>ts_file := Some data\<rparr>)))))"

definition create_token_with_value ::
  "argon2 \<Rightarrow> json_text \<Rightarrow> token_env \<Rightarrow> admin_role \<Rightarrow> string \<Rightarrow> string \<Rightarrow> u64 option \<Rightarrow> token_store \<Rightarrow>
    (string + admin_token_info) \<times> token_store" where
  "create_token_with_value ar jt env role label plaintext expires_at s =
     (case hash_token ar (te_salt env) plaintext of
        Inl e \<Rightarrow> (Inl e, s)
      | Inr h \<Rightarrow>
          (let r = \<lparr>tr_id = te_uuid env, tr_role = role, tr_token_hash = h, tr_label = label,
                 tr_created_at = te_now env, tr_last_used_at = None, tr_expires_at = expires_at\<rparr>
           in (case persist jt env (s\<lparr>ts_tokens := ts_tokens s @ [r]\<rparr>) of
                 (Inl e, s1) \<Rightarrow> (Inl e, s1)
               | (Inr _, s1) \<Rightarrow> (Inr (token_info r), s1))))"

definition create_token ::
  "argon2 \<Rightarrow> json_text \<Rightarrow> token_env \<Rightarrow> admin_role \<Rightarrow> string \<Rightarrow> u64 option \<Rightarrow> token_store \<Rightarrow>
    (string + string \<times> admin_token_info) \<times> token_store" where
  "create_token ar jt env role label expires_at s =
     (let plaintext = generate_token (te_random_hex env) role
      in (case create_token_with_value ar jt env role label plaintext expires_at s of
            (Inl e, s1) \<Rightarrow> (Inl e, s1)
          | (Inr info, s1) \<Rightarrow> (Inr (plaintext, info), s1)))"

definition expired :: "u64 \<Rightarrow> admin_token_record \<Rightarrow> bool" where
  "expired now r = (case tr_expires_at r of Some e \<Rightarrow> e < now | None \<Rightarrow> False)"

fun verify_records ::
  "argon2 \<Rightarrow> u64 \<Rightarrow> string \<Rightarrow> admin_token_record list \<Rightarrow> admin_token_info option \<times> admin_token_record list" where
  "verify_records ar now plaintext [] = (None, [])"
| "verify_records ar now plaintext (r # rs) =
     (if \<not> expired now r \<and> verify_token ar plaintext (tr_token_hash r)
      then (let r1 = r\<lparr>tr_last_used_at := Some now\<rparr> in (Some (token_info r1), r1 # rs))
      else (case verify_records ar now plaintext rs of (res, rs1) \<Rightarrow> (res, r # rs1)))"

definition token_verify :: "argon2 \<Rightarrow> u64 \<Rightarrow> string \<Rightarrow> token_store \<Rightarrow> admin_token_info option \<times> token_store" where
  "token_verify ar now plaintext s =
     (case verify_records ar now plaintext (ts_tokens s) of (res, ts) \<Rightarrow> (res, s\<lparr>ts_tokens := ts\<rparr>))"

definition token_list :: "token_store \<Rightarrow> admin_token_info list" where
  "token_list s = map token_info (ts_tokens s)"

definition token_delete :: "json_text \<Rightarrow> token_env \<Rightarrow> string \<Rightarrow> token_store \<Rightarrow> (string + bool) \<times> token_store" where
  "token_delete jt env i s =
     (let ts = filter (\<lambda>t. tr_id t \<noteq> i) (ts_tokens s);
          removed = (length ts < length (ts_tokens s));
          s1 = s\<lparr>ts_tokens := ts\<rparr>
      in if removed
         then (case persist jt env s1 of (Inl e, s2) \<Rightarrow> (Inl e, s2) | (Inr _, s2) \<Rightarrow> (Inr True, s2))
         else (Inr False, s1))"

definition delete_root :: "json_text \<Rightarrow> token_env \<Rightarrow> token_store \<Rightarrow> (string + unit) \<times> token_store" where
  "delete_root jt env s = persist jt env (s\<lparr>ts_tokens := filter (\<lambda>t. tr_role t \<noteq> Root) (ts_tokens s)\<rparr>)"

text \<open>\<open>bootstrap_admin_auth\<close>; the generated root token is printed, which is the second component.\<close>

definition bootstrap_admin_auth ::
  "argon2 \<Rightarrow> json_text \<Rightarrow> token_env \<Rightarrow> (string \<rightharpoonup> string) \<Rightarrow> (string \<Rightarrow> string + string option) \<Rightarrow> admin_auth_config \<Rightarrow>
    string + (token_store \<times> string option)" where
  "bootstrap_admin_auth ar jt env vars read_file cfg =
     (case token_store_load jt (read_file (admin_auth_token_file cfg)) of
        Inl e \<Rightarrow> Inl e
      | Inr s \<Rightarrow>
          (let generated =
             (if \<not> has_root s
              then (case create_token ar jt env Root ''root'' None s of
                      (Inl e, _) \<Rightarrow> Inl e
                    | (Inr (token, _), s1) \<Rightarrow> Inr (s1, Some token))
              else Inr (s, None))
           in (case vars (admin_auth_root_token_env cfg) of
                 Some env_token \<Rightarrow>
                   if env_token \<noteq> [] \<and> \<not> has_root s
                   then (case create_token_with_value ar jt env Root ''root (from env)'' env_token None s of
                           (Inl e, _) \<Rightarrow> Inl e
                         | (Inr _, s1) \<Rightarrow> Inr (s1, None))
                   else generated
               | None \<Rightarrow> generated)))"

section \<open>The authentication service\<close>

text \<open>A request: its path and the headers that matter, absent, not readable as text, or a text.\<close>

datatype header = Absent | Opaque | Text string

record 'q admin_request =
  rq_path :: string
  rq_x_admin_token :: header
  rq_authorization :: header
  rq_body :: 'q

definition extract_token :: "'q admin_request \<Rightarrow> string option" where
  "extract_token rq =
     (case rq_x_admin_token rq of
        Text s \<Rightarrow> Some s
      | _ \<Rightarrow> (case rq_authorization rq of Text s \<Rightarrow> strip_prefix s ''Bearer '' | _ \<Rightarrow> None))"

datatype 'r admin_reply = Unauthorized | Inner 'r

record 'w admin_service =
  as_exclude_paths :: "string list"
  as_audit :: "'w audit_logger option"

text \<open>The process: the token store and the rest.\<close>

record 'w admin_state =
  ad_store :: token_store
  ad_world :: 'w

definition emit_audit ::
  "'w admin_service \<Rightarrow> string \<Rightarrow> u64 \<Rightarrow> string \<Rightarrow> string \<Rightarrow> audit_outcome \<Rightarrow> 'w admin_state \<Rightarrow> 'w admin_state" where
  "emit_audit svc uuid now actor path outcome s =
     (case as_audit svc of
        None \<Rightarrow> s
      | Some write_log \<Rightarrow>
          (let e = with_details (JObj [(''path'', JStr path)])
                 (audit_event_new uuid now actor ''admin.access'' ''admin_api'' outcome)
           in s\<lparr>ad_world := snd (write_log e (ad_world s))\<rparr>))"

text \<open>\<open>AdminAuthService::call\<close> in front of the inner service, which sees the record of the token in the
  request's extensions.\<close>

definition admin_call ::
  "argon2 \<Rightarrow> string \<Rightarrow> u64 \<Rightarrow> 'w admin_service \<Rightarrow>
    (admin_token_info option \<Rightarrow> 'q admin_request \<Rightarrow> 'w admin_state \<Rightarrow> 'r \<times> 'w admin_state) \<Rightarrow>
    'q admin_request \<Rightarrow> 'w admin_state \<Rightarrow> 'r admin_reply \<times> 'w admin_state" where
  "admin_call ar uuid now svc inner rq s =
     (if \<exists>p\<in>set (as_exclude_paths svc). starts_with (rq_path rq) p
      then (case inner None rq s of (r, s1) \<Rightarrow> (Inner r, s1))
      else case extract_token rq of
        None \<Rightarrow> (Unauthorized, emit_audit svc uuid now ''anonymous'' (rq_path rq) Denied s)
      | Some token \<Rightarrow>
          (case token_verify ar now token (ad_store s) of
             (Some info, store1) \<Rightarrow>
               (let s1 = emit_audit svc uuid now (ti_label info) (rq_path rq) Success (s\<lparr>ad_store := store1\<rparr>)
                in (case inner (Some info) rq s1 of (r, s2) \<Rightarrow> (Inner r, s2)))
           | (None, store1) \<Rightarrow>
               (Unauthorized, emit_audit svc uuid now ''unknown'' (rq_path rq) Denied (s\<lparr>ad_store := store1\<rparr>))))"

section \<open>Lemmas\<close>

lemma dec_enc_role: "dec_role (enc_role r) = Some r"
  by (cases r) (simp_all add: dec_role_def enc_role_def role_text_def)

lemma dec_enc_token_record: "dec_token_record (enc_token_record r) = Some r"
  by (cases r) (simp add: dec_token_record_def enc_token_record_def dec_basic_rt dec_enc_role)

lemma dec_enc_tokens: "dec_list dec_token_record (enc_tokens ts) = Some ts"
  by (simp add: enc_tokens_def dec_list_enc dec_enc_token_record)

text \<open>A record is live for a token when it is not expired and its hash verifies.\<close>

definition live :: "argon2 \<Rightarrow> u64 \<Rightarrow> string \<Rightarrow> admin_token_record \<Rightarrow> bool" where
  "live ar now token r \<longleftrightarrow> \<not> expired now r \<and> verify_token ar token (tr_token_hash r)"

text \<open>\<open>verify\<close> finds the first live record and only changes the time of its last use.\<close>

lemma verify_records_find:
  "fst (verify_records ar now token ts) =
     map_option (\<lambda>r. token_info (r\<lparr>tr_last_used_at := Some now\<rparr>)) (find (live ar now token) ts)"
  by (induction ts) (auto simp: live_def Let_def split: prod.splits)

definition untouched :: "admin_token_record \<Rightarrow> admin_token_record" where
  "untouched r = r\<lparr>tr_last_used_at := None\<rparr>"

lemma verify_records_untouched:
  "map untouched (snd (verify_records ar now token ts)) = map untouched ts"
  by (induction ts) (auto simp: untouched_def Let_def split: prod.splits)

lemma fst_token_verify: "fst (token_verify ar now token s) = fst (verify_records ar now token (ts_tokens s))"
  by (simp add: token_verify_def split: prod.splits)

lemma token_verify_Some:
  assumes "fst (token_verify ar now token s) = Some info"
  obtains r where "r \<in> set (ts_tokens s)" "live ar now token r" "ti_id info = tr_id r" "ti_role info = tr_role r"
    "ti_label info = tr_label r"
proof -
  from assms obtain r where r: "find (live ar now token) (ts_tokens s) = Some r"
      "info = token_info (r\<lparr>tr_last_used_at := Some now\<rparr>)"
    by (auto simp: fst_token_verify verify_records_find)
  from r(1) have "r \<in> set (ts_tokens s)" "live ar now token r"
    by (auto simp: find_Some_iff)
  with r(2) that show ?thesis by (simp add: token_info_def)
qed

lemma persist_tokens: "ts_tokens (snd (persist jt env s)) = ts_tokens s"
  by (simp add: persist_def split: sum.splits option.splits)

lemma persist_file:
  "fst (persist jt env s) = Inr () \<Longrightarrow>
     \<exists>data. jt_write jt (enc_tokens (ts_tokens s)) = Inr data \<and> ts_file (snd (persist jt env s)) = Some data"
  by (auto simp: persist_def split: sum.splits option.splits)

end
