(* ===== verification/Admin_Tokens.thy ===== *)
theory Admin_Tokens
  imports Admin_Auth
begin

text \<open>
  Token management (\<open>rinfra-admin/backend/src/routes.rs\<close>): the handlers that only a root token may use,
  behind the authentication service, and what they guarantee about the token store. A request is the
  one its route and body decode to; a reply is the body of the response, errors with their status.
\<close>

section \<open>The handlers\<close>

definition em_dash :: string where
  "em_dash = [CHR 0xE2, CHR 0x80, CHR 0x94]"

datatype token_request =
    ListTokens
  | CreateToken string "u64 option"
  | DeleteToken string
  | RotateRoot

datatype token_reply =
    TokenList "admin_token_info list"
  | TokenCreated string admin_token_info
  | TokenDeleted string
  | TokenRotated string admin_token_info string
  | TokenError nat string string

definition require_root :: "admin_token_info option \<Rightarrow> token_reply + admin_token_info" where
  "require_root info =
     (case info of
        Some i \<Rightarrow> if ti_role i = Root then Inr i else Inl (TokenError 403 ''FORBIDDEN'' ''root role required'')
      | None \<Rightarrow> Inl (TokenError 401 ''UNAUTHORIZED'' ''admin token required''))"

definition audit_token_op ::
  "'w audit_logger option \<Rightarrow> string \<Rightarrow> u64 \<Rightarrow> string \<Rightarrow> string \<Rightarrow> string \<Rightarrow> 'w admin_state \<Rightarrow> 'w admin_state" where
  "audit_token_op audit uuid now actor action target_id s =
     (case audit of
        None \<Rightarrow> s
      | Some write_log \<Rightarrow>
          (let e = with_resource_id target_id (audit_event_new uuid now actor action ''admin_token'' Success)
           in s\<lparr>ad_world := snd (write_log e (ad_world s))\<rparr>))"

text \<open>What the handlers are built with, and the surroundings of the two store operations of one request.\<close>

record 'w token_routes =
  rt_argon :: argon2
  rt_json :: json_text
  rt_audit :: "'w audit_logger option"
  rt_env :: token_env
  rt_env2 :: token_env

definition list_tokens_handler :: "admin_token_info option \<Rightarrow> 'w admin_state \<Rightarrow> token_reply \<times> 'w admin_state" where
  "list_tokens_handler info s =
     (case require_root info of Inl e \<Rightarrow> (e, s) | Inr _ \<Rightarrow> (TokenList (token_list (ad_store s)), s))"

text \<open>\<open>now + days * 24 * 60 * 60 * 1000\<close> on \<open>u64\<close>.\<close>

definition expiry :: "u64 \<Rightarrow> u64 \<Rightarrow> u64" where
  "expiry now days = now + days * 24 * 60 * 60 * 1000"

definition create_token_handler ::
  "'w token_routes \<Rightarrow> admin_token_info option \<Rightarrow> string \<Rightarrow> u64 option \<Rightarrow> 'w admin_state \<Rightarrow> token_reply \<times> 'w admin_state" where
  "create_token_handler rt info label expires_in_days s =
     (case require_root info of
        Inl e \<Rightarrow> (e, s)
      | Inr root_info \<Rightarrow>
          (let expires_at = map_option (expiry (te_now (rt_env rt))) expires_in_days
           in (case create_token (rt_argon rt) (rt_json rt) (rt_env rt) Admin label expires_at (ad_store s) of
                 (Inr (token, info), st) \<Rightarrow>
                   (TokenCreated token info,
                    audit_token_op (rt_audit rt) (te_uuid (rt_env2 rt)) (te_now (rt_env2 rt)) (ti_label root_info)
                      ''token.create'' (ti_id info) (s\<lparr>ad_store := st\<rparr>))
               | (Inl e, st) \<Rightarrow> (TokenError 500 ''INTERNAL'' e, s\<lparr>ad_store := st\<rparr>))))"

definition delete_token_handler ::
  "'w token_routes \<Rightarrow> admin_token_info option \<Rightarrow> string \<Rightarrow> 'w admin_state \<Rightarrow> token_reply \<times> 'w admin_state" where
  "delete_token_handler rt info token_id s =
     (case require_root info of
        Inl e \<Rightarrow> (e, s)
      | Inr root_info \<Rightarrow>
          if token_id = ti_id root_info
          then (TokenError 400 ''BAD_REQUEST'' (''cannot delete your own root token '' @ em_dash @ '' use rotate instead''), s)
          else (case token_delete (rt_json rt) (rt_env rt) token_id (ad_store s) of
                  (Inr True, st) \<Rightarrow>
                    (TokenDeleted token_id,
                     audit_token_op (rt_audit rt) (te_uuid (rt_env2 rt)) (te_now (rt_env2 rt)) (ti_label root_info)
                       ''token.delete'' token_id (s\<lparr>ad_store := st\<rparr>))
                | (Inr False, st) \<Rightarrow>
                    (TokenError 404 ''NOT_FOUND'' (''token '' @ token_id @ '' not found''), s\<lparr>ad_store := st\<rparr>)
                | (Inl e, st) \<Rightarrow> (TokenError 500 ''INTERNAL'' e, s\<lparr>ad_store := st\<rparr>)))"

definition rotate_root_handler ::
  "'w token_routes \<Rightarrow> admin_token_info option \<Rightarrow> 'w admin_state \<Rightarrow> token_reply \<times> 'w admin_state" where
  "rotate_root_handler rt info s =
     (case require_root info of
        Inl e \<Rightarrow> (e, s)
      | Inr _ \<Rightarrow>
          (case delete_root (rt_json rt) (rt_env rt) (ad_store s) of
             (Inl e, st) \<Rightarrow> (TokenError 500 ''INTERNAL'' e, s\<lparr>ad_store := st\<rparr>)
           | (Inr _, st) \<Rightarrow>
               (case create_token (rt_argon rt) (rt_json rt) (rt_env2 rt) Root ''root'' None st of
                  (Inr (token, info), st2) \<Rightarrow>
                    (TokenRotated token info (''root token rotated '' @ em_dash @ '' old token is now invalid''),
                     audit_token_op (rt_audit rt) (te_uuid (rt_env rt)) (te_now (rt_env2 rt)) ''root''
                       ''token.rotate'' (ti_id info) (s\<lparr>ad_store := st2\<rparr>))
                | (Inl e, st2) \<Rightarrow> (TokenError 500 ''INTERNAL'' e, s\<lparr>ad_store := st2\<rparr>))))"

definition token_routes_call ::
  "'w token_routes \<Rightarrow> admin_token_info option \<Rightarrow> token_request admin_request \<Rightarrow> 'w admin_state \<Rightarrow>
    token_reply \<times> 'w admin_state" where
  "token_routes_call rt info rq s =
     (case rq_body rq of
        ListTokens \<Rightarrow> list_tokens_handler info s
      | CreateToken label days \<Rightarrow> create_token_handler rt info label days s
      | DeleteToken i \<Rightarrow> delete_token_handler rt info i s
      | RotateRoot \<Rightarrow> rotate_root_handler rt info s)"

section \<open>Lemmas\<close>

lemma audit_keeps_store [simp]:
  "ad_store (audit_token_op audit uuid now actor action i s) = ad_store s"
  "ad_store (emit_audit svc uuid now actor path outcome s) = ad_store s"
  by (simp_all add: audit_token_op_def emit_audit_def Let_def split: option.splits)

lemma handlers_need_root:
  assumes "\<And>i. info = Some i \<Longrightarrow> ti_role i \<noteq> Root"
  shows "(\<exists>code msg. fst (token_routes_call rt info rq s) = TokenError (if info = None then 401 else 403) code msg) \<and>
    snd (token_routes_call rt info rq s) = s"
  using assms
  by (cases info)
    (auto simp: token_routes_call_def list_tokens_handler_def create_token_handler_def delete_token_handler_def
      rotate_root_handler_def require_root_def split: token_request.splits)

definition new_record ::
  "token_env \<Rightarrow> admin_role \<Rightarrow> string \<Rightarrow> string \<Rightarrow> u64 option \<Rightarrow> admin_token_record" where
  "new_record env role h label expires =
     \<lparr>tr_id = te_uuid env, tr_role = role, tr_token_hash = h, tr_label = label, tr_created_at = te_now env,
      tr_last_used_at = None, tr_expires_at = expires\<rparr>"

lemma create_token_Inr:
  assumes "create_token ar jt env role label expires s = (Inr (token, info), s1)"
  obtains h where "ar_hash ar (te_salt env) token = Inr h" "token = generate_token (te_random_hex env) role"
    "info = token_info (new_record env role h label expires)"
    "persist jt env (s\<lparr>ts_tokens := ts_tokens s @ [new_record env role h label expires]\<rparr>) = (Inr (), s1)"
proof -
  let ?t = "generate_token (te_random_hex env) role"
  have c: "create_token_with_value ar jt env role label ?t expires s = (Inr info, s1) \<and> token = ?t"
    using assms by (auto simp: create_token_def Let_def split: prod.splits sum.splits)
  then obtain h where h: "ar_hash ar (te_salt env) ?t = Inr h"
    by (cases "ar_hash ar (te_salt env) ?t") (auto simp: create_token_with_value_def hash_token_def)
  have "(case persist jt env (s\<lparr>ts_tokens := ts_tokens s @ [new_record env role h label expires]\<rparr>) of
       (Inl e, s1) \<Rightarrow> (Inl e, s1)
     | (Inr _, s1) \<Rightarrow> (Inr (token_info (new_record env role h label expires)), s1)) = (Inr info, s1)"
    using c unfolding create_token_with_value_def hash_token_def h new_record_def Let_def by simp
  with h c that show ?thesis by (auto split: prod.splits sum.splits)
qed

lemma persist_Inr:
  assumes "persist jt env s = (Inr u, s1)"
  shows "ts_tokens s1 = ts_tokens s"
    and "\<exists>data. jt_write jt (enc_tokens (ts_tokens s)) = Inr data \<and> ts_file s1 = Some data"
proof -
  show "ts_tokens s1 = ts_tokens s" using persist_tokens [of jt env s] assms by simp
  show "\<exists>data. jt_write jt (enc_tokens (ts_tokens s)) = Inr data \<and> ts_file s1 = Some data"
    using persist_file [of jt env s] assms by simp
qed

section \<open>Properties\<close>


lemma deleted_not_verified:
  assumes "snd (token_delete jt env i s) = s1"
  shows "map_option ti_id (fst (token_verify ar now token s1)) \<noteq> Some i"
proof
  assume "map_option ti_id (fst (token_verify ar now token s1)) = Some i"
  then obtain info where "fst (token_verify ar now token s1) = Some info" "ti_id info = i" by auto
  then obtain r where "r \<in> set (ts_tokens s1)" "tr_id r = i" by (auto elim: token_verify_Some)
  moreover have "ts_tokens s1 = filter (\<lambda>t. tr_id t \<noteq> i) (ts_tokens s)"
    using assms persist_tokens [of jt env "s\<lparr>ts_tokens := filter (\<lambda>t. tr_id t \<noteq> i) (ts_tokens s)\<rparr>"]
    by (auto simp: token_delete_def Let_def split: if_splits prod.splits sum.splits)
  ultimately show False by auto
qed

lemma rotated_tokens:
  assumes "rotate_root_handler rt info s = (TokenRotated token new msg, s1)"
  obtains h where "ts_tokens (ad_store s1) = filter (\<lambda>t. tr_role t \<noteq> Root) (ts_tokens (ad_store s)) @
      [new_record (rt_env2 rt) Root h ''root'' None]"
    "new = token_info (new_record (rt_env2 rt) Root h ''root'' None)"
    "ar_hash (rt_argon rt) (te_salt (rt_env2 rt)) token = Inr h"
proof -
  from assms obtain st st2 where d: "delete_root (rt_json rt) (rt_env rt) (ad_store s) = (Inr (), st)"
      and c: "create_token (rt_argon rt) (rt_json rt) (rt_env2 rt) Root ''root'' None st = (Inr (token, new), st2)"
      and s1: "ad_store s1 = st2"
    by (auto simp: rotate_root_handler_def require_root_def split: option.splits if_splits prod.splits sum.splits)
  from c obtain h where h: "ar_hash (rt_argon rt) (te_salt (rt_env2 rt)) token = Inr h"
      "new = token_info (new_record (rt_env2 rt) Root h ''root'' None)"
      "persist (rt_json rt) (rt_env2 rt) (st\<lparr>ts_tokens := ts_tokens st @ [new_record (rt_env2 rt) Root h ''root'' None]\<rparr>) =
        (Inr (), st2)"
    by (elim create_token_Inr) blast
  have "ts_tokens st = filter (\<lambda>t. tr_role t \<noteq> Root) (ts_tokens (ad_store s))"
    using d persist_Inr(1) [OF d [unfolded delete_root_def]] by simp
  with h s1 persist_Inr(1) [OF h(3)] that show ?thesis by simp
qed

text \<open>
  C29: rotation replaces the root token and nothing else: afterwards the only root record is the new
  one, the admin records are the same, and whatever verifies as root is the new token.
\<close>

theorem rotation_replaces_root:
  assumes "rotate_root_handler rt info s = (TokenRotated token new msg, s1)"
  shows "filter (\<lambda>r. tr_role r = Admin) (ts_tokens (ad_store s1)) =
      filter (\<lambda>r. tr_role r = Admin) (ts_tokens (ad_store s)) \<and>
    map token_info (filter (\<lambda>r. tr_role r = Root) (ts_tokens (ad_store s1))) = [new] \<and>
    map_option (\<lambda>i. ti_role i = Root \<and> ti_id i \<noteq> ti_id new) (fst (token_verify ar now presented (ad_store s1))) \<noteq> Some True"
proof -
  obtain h where h: "ts_tokens (ad_store s1) = filter (\<lambda>t. tr_role t \<noteq> Root) (ts_tokens (ad_store s)) @
      [new_record (rt_env2 rt) Root h ''root'' None]" "new = token_info (new_record (rt_env2 rt) Root h ''root'' None)"
    using rotated_tokens [OF assms] by blast
  have adm: "(tr_role r \<noteq> Root) = (tr_role r = Admin)" for r :: admin_token_record by (cases "tr_role r") simp_all
  have "\<not> (ti_role i = Root \<and> ti_id i \<noteq> ti_id new)"
    if v: "fst (token_verify ar now presented (ad_store s1)) = Some i" for i
  proof -
    obtain r where "r \<in> set (ts_tokens (ad_store s1))" "ti_id i = tr_id r" "ti_role i = tr_role r"
      using v by (rule token_verify_Some)
    then show ?thesis using h by (auto simp: new_record_def token_info_def)
  qed
  then have "map_option (\<lambda>i. ti_role i = Root \<and> ti_id i \<noteq> ti_id new) (fst (token_verify ar now presented (ad_store s1))) \<noteq> Some True"
    by (cases "fst (token_verify ar now presented (ad_store s1))") auto
  then show ?thesis using h by (simp add: adm new_record_def)
qed

text \<open>A store with one root token for the witnesses: hashing is the identity, and the file holds \<open>[]\<close>.\<close>

definition plain_argon :: argon2 where
  "plain_argon = \<lparr>ar_hash = (\<lambda>salt p. Inr p), ar_verify = (\<lambda>p h. Some (p = h))\<rparr>"

definition ok_env :: "string \<Rightarrow> string \<Rightarrow> token_env" where
  "ok_env uuid hex = \<lparr>te_now = 50, te_uuid = uuid, te_salt = [], te_random_hex = hex, te_serialize = None,
     te_mkdir = None, te_write = None, te_rename = None\<rparr>"

definition demo_routes :: "unit token_routes" where
  "demo_routes = \<lparr>rt_argon = plain_argon, rt_json = \<lparr>jt_write = (\<lambda>_. Inr ''[]''), jt_read = (\<lambda>_. Some (JArr []))\<rparr>,
     rt_audit = None, rt_env = ok_env ''u1'' ''aa'', rt_env2 = ok_env ''u2'' ''bb''\<rparr>"

definition demo_state :: "unit admin_state" where
  "demo_state = \<lparr>ad_store = \<lparr>ts_tokens =
     [\<lparr>tr_id = ''r'', tr_role = Root, tr_token_hash = ''secret'', tr_label = ''root'', tr_created_at = 1,
       tr_last_used_at = None, tr_expires_at = None\<rparr>,
      \<lparr>tr_id = ''a'', tr_role = Admin, tr_token_hash = ''guest'', tr_label = ''ann'', tr_created_at = 1,
       tr_last_used_at = None, tr_expires_at = Some 100\<rparr>], ts_file = None\<rparr>, ad_world = ()\<rparr>"

lemmas demo_defs = plain_argon_def ok_env_def demo_routes_def demo_state_def

definition demo_request :: "string \<Rightarrow> token_request \<Rightarrow> token_request admin_request" where
  "demo_request token body = \<lparr>rq_path = ''/api/admin/tokens'', rq_x_admin_token = Text token,
     rq_authorization = Absent, rq_body = body\<rparr>"


theorem rotation_replaces_root_witness:
  "fst (token_verify plain_argon 9 ''secret'' (ad_store (snd (rotate_root_handler demo_routes
     (Some (token_info (hd (ts_tokens (ad_store demo_state))))) demo_state)))) = None \<and>
   (\<exists>new. map token_info (filter (\<lambda>r. tr_role r = Root) (ts_tokens (ad_store (snd (rotate_root_handler demo_routes
     (Some (token_info (hd (ts_tokens (ad_store demo_state))))) demo_state))))) = [new])"
proof -
  let ?rot = "rotate_root_handler demo_routes (Some (token_info (hd (ts_tokens (ad_store demo_state))))) demo_state"
  have run: "\<exists>token new msg. fst ?rot = TokenRotated token new msg"
    "fst (token_verify plain_argon 9 ''secret'' (ad_store (snd ?rot))) = None"
    by (simp_all add: rotate_root_handler_def require_root_def token_info_def demo_defs delete_root_def persist_def
        create_token_def create_token_with_value_def hash_token_def generate_token_def Let_def audit_token_op_def
        token_verify_def verify_token_def expired_def)
  then obtain token new msg where "?rot = (TokenRotated token new msg, snd ?rot)"
    by (metis prod.collapse)
  note rot = rotation_replaces_root [OF this, of plain_argon 9 "''secret''"]
  show ?thesis by (intro conjI exI) (rule run(2), rule conjunct1 [OF conjunct2 [OF rot]])
qed

section \<open>The file\<close>

text \<open>A store and its file agree when a restart reads the records in memory, up to times of last use,
  which \<open>verify\<close> changes in memory only.\<close>

definition synced :: "json_text \<Rightarrow> token_store \<Rightarrow> bool" where
  "synced jt s \<longleftrightarrow> (case token_store_load jt (Inr (ts_file s)) of
     Inr s' \<Rightarrow> map untouched (ts_tokens s') = map untouched (ts_tokens s)
   | Inl _ \<Rightarrow> False)"

definition json_reads_back :: "json_text \<Rightarrow> bool" where
  "json_reads_back jt \<longleftrightarrow> (\<forall>v text. jt_write jt v = Inr text \<longrightarrow> jt_read jt text = Some v)"

lemma synced_persist: "json_reads_back jt \<Longrightarrow> persist jt env s = (Inr u, s1) \<Longrightarrow> synced jt s1"
  using persist_Inr [of jt env s u s1]
  by (auto simp: synced_def json_reads_back_def token_store_load_def dec_enc_tokens)

datatype store_step =
    StepVerify u64 string
  | StepCreate token_env admin_role string "u64 option"
  | StepDelete token_env string
  | StepDeleteRoot token_env

text \<open>One operation, \<open>None\<close> when it reports an error.\<close>

definition store_step_run :: "argon2 \<Rightarrow> json_text \<Rightarrow> store_step \<Rightarrow> token_store \<Rightarrow> token_store option" where
  "store_step_run ar jt st s =
     (case st of
        StepVerify now token \<Rightarrow> Some (snd (token_verify ar now token s))
      | StepCreate env role label expires \<Rightarrow>
          (case create_token ar jt env role label expires s of (Inl _, _) \<Rightarrow> None | (Inr _, s1) \<Rightarrow> Some s1)
      | StepDelete env i \<Rightarrow> (case token_delete jt env i s of (Inl _, _) \<Rightarrow> None | (Inr _, s1) \<Rightarrow> Some s1)
      | StepDeleteRoot env \<Rightarrow> (case delete_root jt env s of (Inl _, _) \<Rightarrow> None | (Inr _, s1) \<Rightarrow> Some s1))"

fun store_steps :: "argon2 \<Rightarrow> json_text \<Rightarrow> store_step list \<Rightarrow> token_store \<Rightarrow> token_store option" where
  "store_steps ar jt [] s = Some s"
| "store_steps ar jt (st # sts) s = Option.bind (store_step_run ar jt st s) (store_steps ar jt sts)"

lemma filter_same_length:
  assumes "\<not> length (filter P xs) < length xs"
  shows "filter P xs = xs"
proof (rule filter_True, intro ballI, rule ccontr)
  fix x
  assume "x \<in> set xs" and "\<not> P x"
  from length_filter_less [of x xs P, OF this] assms show False by simp
qed

lemma delete_nothing:
  assumes "token_delete jt env i s = (Inr False, s1)"
  shows "ts_tokens s1 = ts_tokens s \<and> ts_file s1 = ts_file s"
proof -
  have "\<not> length (filter (\<lambda>t. tr_id t \<noteq> i) (ts_tokens s)) < length (ts_tokens s)"
    "s1 = s\<lparr>ts_tokens := filter (\<lambda>t. tr_id t \<noteq> i) (ts_tokens s)\<rparr>"
    using assms by (auto simp: token_delete_def Let_def split: if_splits prod.splits sum.splits)
  then show ?thesis using filter_same_length by simp
qed

lemma synced_cong:
  "ts_file s1 = ts_file s \<Longrightarrow> map untouched (ts_tokens s1) = map untouched (ts_tokens s) \<Longrightarrow>
     synced jt s1 = synced jt s"
  by (simp add: synced_def cong: sum.case_cong)

lemma synced_step:
  assumes jt: "json_reads_back jt" and "synced jt s" and run: "store_step_run ar jt st s = Some s1"
  shows "synced jt s1"
proof (cases st)
  case (StepVerify now token)
  have "ts_file s1 = ts_file s \<and> map untouched (ts_tokens s1) = map untouched (ts_tokens s)"
    using run verify_records_untouched [of ar now token "ts_tokens s"]
    by (auto simp: StepVerify store_step_run_def token_verify_def split: prod.splits)
  with assms(2) synced_cong [of s1 s jt] show ?thesis by simp
next
  case (StepCreate env role label expires)
  with run obtain token info where "create_token ar jt env role label expires s = (Inr (token, info), s1)"
    by (auto simp: store_step_run_def split: prod.splits sum.splits)
  then show ?thesis by (elim create_token_Inr) (rule synced_persist [OF jt])
next
  case (StepDelete env i)
  with run obtain b where d: "token_delete jt env i s = (Inr b, s1)"
    by (auto simp: store_step_run_def split: prod.splits sum.splits)
  show ?thesis
  proof (cases b)
    case True
    with d have "\<exists>u. persist jt env (s\<lparr>ts_tokens := filter (\<lambda>t. tr_id t \<noteq> i) (ts_tokens s)\<rparr>) = (Inr u, s1)"
      by (auto simp: token_delete_def Let_def split: if_splits prod.splits sum.splits)
    then show ?thesis using synced_persist [OF jt] by blast
  next
    case False
    with d delete_nothing [of jt env i s s1] assms(2) synced_cong [of s1 s jt] show ?thesis by simp
  qed
next
  case (StepDeleteRoot env)
  with run have "\<exists>u. delete_root jt env s = (Inr u, s1)"
    by (auto simp: store_step_run_def split: prod.splits sum.splits)
  then show ?thesis unfolding delete_root_def using synced_persist [OF jt] by blast
qed

lemma synced_steps:
  assumes "json_reads_back jt" and "synced jt s" and "store_steps ar jt steps s = Some s1"
  shows "synced jt s1"
  using assms(2,3)
proof (induction steps arbitrary: s)
  case (Cons st sts)
  then obtain s2 where "store_step_run ar jt st s = Some s2" "store_steps ar jt sts s2 = Some s1"
    by (auto simp: bind_eq_Some_conv)
  with Cons.IH Cons.prems(1) synced_step [OF assms(1)] show ?case by blast
qed simp

text \<open>The identifiers in a store: only a creation adds one, the one it was given.\<close>

definition token_ids :: "token_store \<Rightarrow> string set" where
  "token_ids s = tr_id ` set (ts_tokens s)"

fun created_id :: "store_step \<Rightarrow> string set" where
  "created_id (StepCreate env role label expires) = {te_uuid env}"
| "created_id _ = {}"

lemma ids_untouched: "map untouched (ts_tokens s1) = map untouched (ts_tokens s) \<Longrightarrow> token_ids s1 = token_ids s"
proof -
  assume "map untouched (ts_tokens s1) = map untouched (ts_tokens s)"
  then have "map tr_id (map untouched (ts_tokens s1)) = map tr_id (map untouched (ts_tokens s))" by simp
  then have "map tr_id (ts_tokens s1) = map tr_id (ts_tokens s)" by (simp add: comp_def untouched_def)
  then show ?thesis unfolding token_ids_def by (metis list.set_map)
qed

lemma verified_id: "i \<notin> token_ids s \<Longrightarrow> map_option ti_id (fst (token_verify ar now token s)) \<noteq> Some i"
  by (auto simp: token_ids_def elim!: token_verify_Some)

lemma deleted_id: "token_delete jt env i s = (r, s1) \<Longrightarrow> token_ids s1 = token_ids s - {i}"
  using persist_tokens [of jt env "s\<lparr>ts_tokens := filter (\<lambda>t. tr_id t \<noteq> i) (ts_tokens s)\<rparr>"]
  by (auto simp: token_ids_def token_delete_def Let_def split: if_splits prod.splits sum.splits)

lemma ids_step:
  assumes "store_step_run ar jt st s = Some s1"
  shows "token_ids s1 \<subseteq> token_ids s \<union> created_id st"
proof (cases st)
  case (StepVerify now token)
  have "map untouched (ts_tokens s1) = map untouched (ts_tokens s)"
    using assms verify_records_untouched [of ar now token "ts_tokens s"]
    by (auto simp: StepVerify store_step_run_def token_verify_def split: prod.splits)
  from ids_untouched [OF this] show ?thesis by simp
next
  case (StepCreate env role label expires)
  with assms obtain token info where "create_token ar jt env role label expires s = (Inr (token, info), s1)"
    by (auto simp: store_step_run_def split: prod.splits sum.splits)
  then obtain h where "persist jt env (s\<lparr>ts_tokens := ts_tokens s @ [new_record env role h label expires]\<rparr>) = (Inr (), s1)"
    by (elim create_token_Inr) blast
  from persist_Inr(1) [OF this] show ?thesis by (auto simp: token_ids_def StepCreate new_record_def)
next
  case (StepDelete env i)
  with assms obtain b where "token_delete jt env i s = (Inr b, s1)"
    by (auto simp: store_step_run_def split: prod.splits sum.splits)
  from deleted_id [OF this] show ?thesis by auto
next
  case (StepDeleteRoot env)
  with assms have d: "delete_root jt env s = (Inr (), s1)"
    by (auto simp: store_step_run_def split: prod.splits sum.splits)
  show ?thesis using persist_Inr(1) [OF d [unfolded delete_root_def]] by (auto simp: token_ids_def)
qed

lemma ids_steps:
  "store_steps ar jt sts s = Some s1 \<Longrightarrow> token_ids s1 \<subseteq> token_ids s \<union> (\<Union>st\<in>set sts. created_id st)"
proof (induction sts arbitrary: s)
  case (Cons st sts)
  then obtain s2 where "store_step_run ar jt st s = Some s2" "store_steps ar jt sts s2 = Some s1"
    by (auto simp: bind_eq_Some_conv)
  from ids_step [OF this(1)] Cons.IH [OF this(2)] show ?case by auto
qed simp





text \<open>Bootstrap succeeds only with a root token in the store, and generates one only when there is none.\<close>

lemma bootstrap_has_root:
  assumes "bootstrap_admin_auth ar jt env vars read_file cfg = Inr (s, generated)"
  shows "has_root s"
proof -
  have created: "has_root s1" if "create_token_with_value ar jt env Root label p None s0 = (Inr info, s1)" for label p info s0 s1
  proof -
    from that have "\<exists>r. tr_role r = Root \<and> r \<in> set (ts_tokens s1)"
      using persist_tokens [of jt env]
      by (auto simp: create_token_with_value_def Let_def split: sum.splits prod.splits)
        (metis (mono_tags, lifting) admin_token_record.select_convs(2) in_set_conv_decomp snd_conv
          token_store.select_convs(1) token_store.surjective token_store.update_convs(1))
    then show ?thesis by (auto simp: has_root_def)
  qed
  show ?thesis
    using assms created
    by (auto simp: bootstrap_admin_auth_def create_token_def Let_def split: sum.splits option.splits if_splits prod.splits)
qed

section \<open>Limits\<close>

text \<open>A deletion that cannot be written to the file is reported as an error but done in memory, and
  undone by the next restart.\<close>

lemma failed_delete_comes_back:
  "fst (token_delete jt (env\<lparr>te_mkdir := Some e\<rparr>) i s) \<noteq> Inr True \<and>
   ts_file (snd (token_delete jt (env\<lparr>te_mkdir := Some e\<rparr>) i s)) = ts_file s"
  by (auto simp: token_delete_def persist_def Let_def split: prod.splits sum.splits)

text \<open>The number of days until a token expires is not bounded: the product wraps, and a token meant to
  live for ages is expired when it is created.\<close>

lemma expiry_wraps: "expiry 1700000000000 213503982334 < 1700000000000"
  by (simp add: expiry_def)

end
