(* ===== verification/I18n.thy ===== *)
theory I18n
  imports Errors
begin

text \<open>
  Translations: \<open>rinfra-core/src/i18n/mod.rs\<close> (the trait with its provided method \<open>t_args\<close>) and
  \<open>rinfra-plugins/src/i18n/file_i18n.rs\<close> (the catalogs read from YAML files). The YAML parser, the
  text \<open>{:?}\<close> gives for a key that is not a string, and the directory are parameters.
\<close>

section \<open>Replacing text\<close>

text \<open>\<open>str::replace\<close>: every occurrence of the pattern, from the left and without overlaps. The code
  only calls it with patterns that are not empty; \<open>fuel\<close> is the length of the text.\<close>

fun replace_fuel :: "nat \<Rightarrow> string \<Rightarrow> string \<Rightarrow> string \<Rightarrow> string" where
  "replace_fuel 0 pat rep s = s"
| "replace_fuel (Suc n) pat rep [] = []"
| "replace_fuel (Suc n) pat rep (c # s) =
     (if starts_with (c # s) pat then rep @ replace_fuel n pat rep (drop (length pat) (c # s))
      else c # replace_fuel n pat rep s)"

definition str_replace :: "string \<Rightarrow> string \<Rightarrow> string \<Rightarrow> string" where
  "str_replace s pat rep = replace_fuel (length s) pat rep s"

section \<open>The provided method\<close>

definition placeholder :: "string \<Rightarrow> string" where
  "placeholder k = ''{'' @ k @ ''}''"

definition t_args :: "(string \<Rightarrow> string \<Rightarrow> string) \<Rightarrow> string \<Rightarrow> string \<Rightarrow> (string, string) hashmap \<Rightarrow> string" where
  "t_args t key locale args = fold (\<lambda>(k, v) msg. str_replace msg (placeholder k) v) args (t key locale)"

section \<open>Catalogs\<close>

datatype (plugins only: code size) yaml =
    YNull
  | YBool bool
  | YNum string
  | YStr string
  | YSeq "yaml list"
  | YMap "(yaml \<times> yaml) list"
  | YTagged string yaml

text \<open>\<open>YNum\<close> holds the text \<open>n.to_string()\<close> gives. \<open>dbg\<close> is the debug text of a key.\<close>

definition key_text :: "(yaml \<Rightarrow> string) \<Rightarrow> yaml \<Rightarrow> string" where
  "key_text dbg k = (case k of YStr s \<Rightarrow> s | other \<Rightarrow> dbg other)"

definition yaml_key :: "string \<Rightarrow> string \<Rightarrow> string" where
  "yaml_key prefix key_str = (if prefix = [] then key_str else prefix @ ''.'' @ key_str)"

fun flatten_yaml :: "(yaml \<Rightarrow> string) \<Rightarrow> yaml \<Rightarrow> string \<Rightarrow> (string \<rightharpoonup> string) \<Rightarrow> (string \<rightharpoonup> string)"
  and flatten_entries :: "(yaml \<Rightarrow> string) \<Rightarrow> (yaml \<times> yaml) list \<Rightarrow> string \<Rightarrow> (string \<rightharpoonup> string) \<Rightarrow> (string \<rightharpoonup> string)"
where
  "flatten_yaml dbg (YMap es) prefix out = flatten_entries dbg es prefix out"
| "flatten_yaml dbg (YStr s) prefix out = out(prefix \<mapsto> s)"
| "flatten_yaml dbg (YNum n) prefix out = out(prefix \<mapsto> n)"
| "flatten_yaml dbg (YBool b) prefix out = out(prefix \<mapsto> (if b then ''true'' else ''false''))"
| "flatten_yaml dbg _ prefix out = out"
| "flatten_entries dbg [] prefix out = out"
| "flatten_entries dbg ((k, v) # es) prefix out =
     flatten_entries dbg es prefix (flatten_yaml dbg v (yaml_key prefix (key_text dbg k)) out)"

record file_i18n =
  fi_catalog :: "(string, string \<rightharpoonup> string) hashmap"
  fi_default_locale :: string

text \<open>One entry of the directory: its path, stem and extension as far as they are UTF-8, what reading
  and parsing it give.\<close>

record i18n_file =
  if_path :: string
  if_extension :: "string option"
  if_stem :: "string option"
  if_content :: "string + string"

record i18n_dir =
  id_exists :: bool
  id_entries :: "string + i18n_file list"

definition or_empty :: "string option \<Rightarrow> string" where
  "or_empty s = (case s of Some x \<Rightarrow> x | None \<Rightarrow> [])"

definition load_file ::
  "(string \<Rightarrow> string + yaml) \<Rightarrow> (yaml \<Rightarrow> string) \<Rightarrow> i18n_file \<Rightarrow> (string, string \<rightharpoonup> string) hashmap \<Rightarrow>
    (string, string \<rightharpoonup> string) hashmap res" where
  "load_file parse dbg f catalog =
     (if or_empty (if_extension f) \<notin> {''yaml'', ''yml''} then Ok catalog
      else if or_empty (if_stem f) = [] then Ok catalog
      else case if_content f of
        Inl e \<Rightarrow> Err I18nLoadFailed (''failed to read '' @ if_path f @ '': '' @ e)
      | Inr content \<Rightarrow>
          (case parse content of
             Inl e \<Rightarrow> Err I18nLoadFailed (''failed to parse '' @ if_path f @ '': '' @ e)
           | Inr v \<Rightarrow> Ok (hm_insert (or_empty (if_stem f)) (flatten_yaml dbg v [] Map.empty) catalog)))"

fun load_files ::
  "(string \<Rightarrow> string + yaml) \<Rightarrow> (yaml \<Rightarrow> string) \<Rightarrow> i18n_file list \<Rightarrow> (string, string \<rightharpoonup> string) hashmap \<Rightarrow>
    (string, string \<rightharpoonup> string) hashmap res" where
  "load_files parse dbg [] catalog = Ok catalog"
| "load_files parse dbg (f # fs) catalog =
     bind_res (load_file parse dbg f catalog) (load_files parse dbg fs)"

definition i18n_load :: "(string \<Rightarrow> string + yaml) \<Rightarrow> (yaml \<Rightarrow> string) \<Rightarrow> i18n_dir \<Rightarrow> string \<Rightarrow> file_i18n res" where
  "i18n_load parse dbg dir default_locale =
     (if \<not> id_exists dir then Ok \<lparr>fi_catalog = [], fi_default_locale = default_locale\<rparr>
      else case id_entries dir of
        Inl e \<Rightarrow> Err I18nLoadFailed (''failed to read i18n directory: '' @ e)
      | Inr entries \<Rightarrow>
          bind_res (load_files parse dbg entries [])
            (\<lambda>catalog. Ok \<lparr>fi_catalog = catalog, fi_default_locale = default_locale\<rparr>))"

definition catalog_text :: "file_i18n \<Rightarrow> string \<Rightarrow> string \<Rightarrow> string option" where
  "catalog_text i locale key = Option.bind (hm_get (fi_catalog i) locale) (\<lambda>m. m key)"

definition i18n_t :: "file_i18n \<Rightarrow> string \<Rightarrow> string \<Rightarrow> string" where
  "i18n_t i key locale =
     (case catalog_text i locale key of
        Some v \<Rightarrow> v
      | None \<Rightarrow>
          (if locale \<noteq> fi_default_locale i
           then (case catalog_text i (fi_default_locale i) key of Some v \<Rightarrow> v | None \<Rightarrow> key)
           else key))"

definition available_locales :: "file_i18n \<Rightarrow> string list" where
  "available_locales i = sort (hm_keys (fi_catalog i))"

section \<open>Lemmas\<close>

text \<open>What a catalog holds: the last scalar of the document under each dotted path.\<close>

fun leaves :: "(yaml \<Rightarrow> string) \<Rightarrow> yaml \<Rightarrow> string \<Rightarrow> (string \<times> string) list"
  and entry_leaves :: "(yaml \<Rightarrow> string) \<Rightarrow> (yaml \<times> yaml) list \<Rightarrow> string \<Rightarrow> (string \<times> string) list"
where
  "leaves dbg (YMap es) p = entry_leaves dbg es p"
| "leaves dbg (YStr s) p = [(p, s)]"
| "leaves dbg (YNum n) p = [(p, n)]"
| "leaves dbg (YBool b) p = [(p, if b then ''true'' else ''false'')]"
| "leaves dbg _ p = []"
| "entry_leaves dbg [] p = []"
| "entry_leaves dbg ((k, v) # es) p = leaves dbg v (yaml_key p (key_text dbg k)) @ entry_leaves dbg es p"

lemma add_single: "m ++ (\<lambda>a. if a = k then Some v else None) = (\<lambda>a. if a = k then Some v else m a)"
  by (auto simp: map_add_def split: if_splits)

lemma flatten_leaves:
  "flatten_yaml dbg v p out = out ++ map_of (rev (leaves dbg v p))"
  "flatten_entries dbg es p out = out ++ map_of (rev (entry_leaves dbg es p))"
  by (induction dbg v p out and dbg es p out rule: flatten_yaml_flatten_entries.induct)
    (simp_all add: add_single)

definition is_catalog :: "string \<Rightarrow> i18n_file \<Rightarrow> bool" where
  "is_catalog l f \<longleftrightarrow> or_empty (if_extension f) \<in> {''yaml'', ''yml''} \<and> or_empty (if_stem f) = l \<and> l \<noteq> []"

definition file_text :: "(string \<Rightarrow> string + yaml) \<Rightarrow> (yaml \<Rightarrow> string) \<Rightarrow> i18n_file \<Rightarrow> string \<rightharpoonup> string" where
  "file_text parse dbg f =
     (case if_content f of Inl _ \<Rightarrow> Map.empty
      | Inr c \<Rightarrow> (case parse c of Inl _ \<Rightarrow> Map.empty | Inr v \<Rightarrow> map_of (rev (leaves dbg v []))))"

text \<open>What the documents of a directory say of a key in a locale: the last file of the locale counts.\<close>

definition document_text ::
  "(string \<Rightarrow> string + yaml) \<Rightarrow> (yaml \<Rightarrow> string) \<Rightarrow> i18n_file list \<Rightarrow> string \<Rightarrow> string \<rightharpoonup> string" where
  "document_text parse dbg fs l =
     (case filter (is_catalog l) fs of [] \<Rightarrow> Map.empty | gs \<Rightarrow> file_text parse dbg (last gs))"

lemma load_file_get:
  assumes "load_file parse dbg f c = Ok c1"
  shows "hm_get c1 l = (if is_catalog l f then Some (file_text parse dbg f) else hm_get c l)"
  using assms
  by (auto simp: load_file_def is_catalog_def file_text_def flatten_leaves split: if_splits sum.splits)

lemma load_files_get:
  assumes "load_files parse dbg fs c = Ok c1"
  shows "hm_get c1 l =
    (case filter (is_catalog l) fs of [] \<Rightarrow> hm_get c l | gs \<Rightarrow> Some (file_text parse dbg (last gs)))"
  using assms
proof (induction fs arbitrary: c)
  case (Cons f fs)
  from Cons.prems obtain c' where c': "load_file parse dbg f c = Ok c'" "load_files parse dbg fs c' = Ok c1"
    by (auto simp: bind_res_Inr_iff)
  show ?case
    using Cons.IH [OF c'(2)] load_file_get [OF c'(1), of l] by (simp split: list.splits)
qed simp

lemma message_document:
  assumes "load_files parse dbg fs [] = Ok c"
  shows "catalog_text \<lparr>fi_catalog = c, fi_default_locale = d\<rparr> l key = document_text parse dbg fs l key"
  using load_files_get [OF assms, of l]
  by (simp add: catalog_text_def document_text_def hm_get_def split: list.splits)

section \<open>Properties\<close>

text \<open>
  Once the catalogs of a directory are loaded, a key is translated by what the documents themselves say
  under its dotted path: in the asked locale, else in the default locale, else it is the key itself.
\<close>

theorem translation_follows_documents:
  assumes "id_exists dir" and "id_entries dir = Inr fs" and "i18n_load parse dbg dir d = Ok i"
  shows "i18n_t i key locale =
    (case document_text parse dbg fs locale key of
       Some v \<Rightarrow> v
     | None \<Rightarrow> (case document_text parse dbg fs d key of Some v \<Rightarrow> v | None \<Rightarrow> key))"
proof -
  from assms obtain c where "load_files parse dbg fs [] = Ok c" "i = \<lparr>fi_catalog = c, fi_default_locale = d\<rparr>"
    by (auto simp: i18n_load_def bind_res_Inr_iff)
  then show ?thesis
    by (cases "locale = d") (auto simp: i18n_t_def message_document split: option.splits)
qed

end
