(* ===== verification/Codecs.thy ===== *)
theory Codecs
  imports Json Registries
begin

text \<open>
  The codecs and compressors the repository registers (\<open>codec/\<close> and \<open>compress/\<close> in
  \<open>rinfra-plugins\<close>): JSON, MessagePack and protobuf between \<open>serde_json::Value\<close> and bytes, gzip and
  LZ4 between bytes. The serialization and compression libraries are parameters; the conversion
  between JSON documents and protobuf values, which is the repository's own, is modelled in full.
\<close>

section \<open>Text codecs\<close>

text \<open>A serialization library: \<open>serde_json::to_vec\<close> and \<open>from_slice\<close>, or those of \<open>rmp_serde\<close>.\<close>

record serde_lib =
  sl_to_vec :: "json \<Rightarrow> string + bytes"
  sl_from_slice :: "bytes \<Rightarrow> string + json"

definition or_fail :: "error_code \<Rightarrow> string \<Rightarrow> string + 'a \<Rightarrow> 'a res" where
  "or_fail code msg r = (case r of Inl e \<Rightarrow> Err code (msg @ e) | Inr v \<Rightarrow> Ok v)"

definition json_codec :: "serde_lib \<Rightarrow> json codec" where
  "json_codec sl =
     \<lparr>cd_name = ''json'', cd_content_type = ''application/json'',
      cd_encode = (\<lambda>v. or_fail CodecEncodeFailed ''json encode failed: '' (sl_to_vec sl v)),
      cd_decode = (\<lambda>d. or_fail CodecDecodeFailed ''json decode failed: '' (sl_from_slice sl d))\<rparr>"

definition msgpack_codec :: "serde_lib \<Rightarrow> json codec" where
  "msgpack_codec sl =
     \<lparr>cd_name = ''msgpack'', cd_content_type = ''application/msgpack'',
      cd_encode = (\<lambda>v. or_fail CodecEncodeFailed ''msgpack encode failed: '' (sl_to_vec sl v)),
      cd_decode = (\<lambda>d. or_fail CodecDecodeFailed ''msgpack decode failed: '' (sl_from_slice sl d))\<rparr>"

section \<open>Protobuf\<close>

text \<open>\<open>google.protobuf.Value\<close> as prost declares it; the fields of a struct are a \<open>BTreeMap\<close>, an
  association list in the order of its keys.\<close>

datatype (plugins only: code size) proto_value =
    ProtoValue "proto_kind option"
and proto_kind =
    NullValue int
  | BoolValue bool
  | NumberValue rat
  | StringValue string
  | ListValue "proto_value list"
  | StructValue "(string \<times> proto_value) list"

fun btree_insert :: "string \<Rightarrow> 'a \<Rightarrow> (string \<times> 'a) list \<Rightarrow> (string \<times> 'a) list" where
  "btree_insert k v [] = [(k, v)]"
| "btree_insert k v ((k', v') # m) =
     (if k < k' then (k, v) # (k', v') # m
      else if k = k' then (k, v) # m
      else (k', v') # btree_insert k v m)"

definition btree_collect :: "(string \<times> 'a) list \<Rightarrow> (string \<times> 'a) list" where
  "btree_collect es = fold (\<lambda>(k, v). btree_insert k v) es []"

definition as_f64 :: "json \<Rightarrow> rat" where
  "as_f64 n = (case n of JInt i \<Rightarrow> f64_round (of_int i) | JFloat r \<Rightarrow> r | _ \<Rightarrow> 0)"

fun json_to_proto :: "json \<Rightarrow> proto_value" where
  "json_to_proto JNull = ProtoValue (Some (NullValue 0))"
| "json_to_proto (JBool b) = ProtoValue (Some (BoolValue b))"
| "json_to_proto (JInt i) = ProtoValue (Some (NumberValue (as_f64 (JInt i))))"
| "json_to_proto (JFloat r) = ProtoValue (Some (NumberValue (as_f64 (JFloat r))))"
| "json_to_proto (JStr s) = ProtoValue (Some (StringValue s))"
| "json_to_proto (JArr vs) = ProtoValue (Some (ListValue (map json_to_proto vs)))"
| "json_to_proto (JObj ob) = ProtoValue (Some (StructValue (btree_collect (map (\<lambda>(k, v). (k, json_to_proto v)) ob))))"

fun proto_to_json :: "proto_value \<Rightarrow> json" where
  "proto_to_json (ProtoValue None) = JNull"
| "proto_to_json (ProtoValue (Some (NullValue i))) = JNull"
| "proto_to_json (ProtoValue (Some (BoolValue b))) = JBool b"
| "proto_to_json (ProtoValue (Some (NumberValue r))) = JFloat r"
| "proto_to_json (ProtoValue (Some (StringValue s))) = JStr s"
| "proto_to_json (ProtoValue (Some (ListValue vs))) = JArr (map proto_to_json vs)"
| "proto_to_json (ProtoValue (Some (StructValue ob))) = JObj (btree_collect (map (\<lambda>(k, v). (k, proto_to_json v)) ob))"

record prost =
  pr_encode :: "proto_value \<Rightarrow> bytes"
  pr_decode :: "bytes \<Rightarrow> string + proto_value"

definition protobuf_encode :: "prost \<Rightarrow> json \<Rightarrow> bytes res" where
  "protobuf_encode pr v = Ok (pr_encode pr (json_to_proto v))"

definition protobuf_decode :: "prost \<Rightarrow> bytes \<Rightarrow> json res" where
  "protobuf_decode pr d =
     bind_res (or_fail CodecDecodeFailed ''protobuf decode failed: '' (pr_decode pr d)) (\<lambda>p. Ok (proto_to_json p))"

definition protobuf_codec :: "prost \<Rightarrow> json codec" where
  "protobuf_codec pr =
     \<lparr>cd_name = ''protobuf'', cd_content_type = ''application/x-protobuf'',
      cd_encode = protobuf_encode pr, cd_decode = protobuf_decode pr\<rparr>"

section \<open>Compressors\<close>

text \<open>\<open>flate2\<close> (an encoder \<open>'e\<close> is written to and then finished) and \<open>lz4_flex\<close>.\<close>

record 'e compress_libs =
  gz_write_all :: "bytes \<Rightarrow> string + 'e"
  gz_finish :: "'e \<Rightarrow> string + bytes"
  gz_read_to_end :: "bytes \<Rightarrow> string + bytes"
  lz_compress :: "bytes \<Rightarrow> bytes"
  lz_decompress :: "bytes \<Rightarrow> string + bytes"

definition gzip_compress :: "'e compress_libs \<Rightarrow> bytes \<Rightarrow> bytes res" where
  "gzip_compress cl d =
     bind_res (or_fail Internal ''gzip compress failed: '' (gz_write_all cl d))
       (\<lambda>e. or_fail Internal ''gzip compress finish failed: '' (gz_finish cl e))"

definition gzip_compressor :: "'e compress_libs \<Rightarrow> compressor" where
  "gzip_compressor cl =
     \<lparr>cp_name = ''gzip'', cp_compress = gzip_compress cl,
      cp_decompress = (\<lambda>d. or_fail Internal ''gzip decompress failed: '' (gz_read_to_end cl d))\<rparr>"

definition lz4_compressor :: "'e compress_libs \<Rightarrow> compressor" where
  "lz4_compressor cl =
     \<lparr>cp_name = ''lz4'', cp_compress = (\<lambda>d. Ok (lz_compress cl d)),
      cp_decompress = (\<lambda>d. or_fail Internal ''lz4 decompress failed: '' (lz_decompress cl d))\<rparr>"

definition builtin_compressors :: "'e compress_libs \<Rightarrow> compressor list" where
  "builtin_compressors cl = [lz4_compressor cl, gzip_compressor cl]"

section \<open>Lemmas\<close>

lemma or_fail_simps [simp]: "or_fail c m (Inl e) = Err c (m @ e)" "or_fail c m (Inr v) = Ok v"
  by (simp_all add: or_fail_def)

text \<open>Objects as \<open>serde_json\<close> keeps them: keys strictly increasing, at every depth.\<close>

fun sorted_json :: "json \<Rightarrow> bool" where
  "sorted_json (JArr vs) \<longleftrightarrow> list_all sorted_json vs"
| "sorted_json (JObj ob) \<longleftrightarrow> sorted_wrt (<) (map fst ob) \<and> list_all (\<lambda>(k, v). sorted_json v) ob"
| "sorted_json v \<longleftrightarrow> True"

text \<open>What a protobuf number keeps of a JSON document: every number becomes a double.\<close>

fun as_doubles :: "json \<Rightarrow> json" where
  "as_doubles (JInt i) = JFloat (f64_round (of_int i))"
| "as_doubles (JArr vs) = JArr (map as_doubles vs)"
| "as_doubles (JObj ob) = JObj (map (\<lambda>(k, v). (k, as_doubles v)) ob)"
| "as_doubles v = v"

lemma btree_insert_last: "list_all (\<lambda>(k', _). k' < k) m \<Longrightarrow> btree_insert k v m = m @ [(k, v)]"
  by (induction k v m rule: btree_insert.induct) (auto dest: less_asym)

lemma btree_fold_sorted:
  assumes "sorted_wrt (<) (map fst (m @ es))"
  shows "fold (\<lambda>(k, v). btree_insert k v) es m = m @ es"
  using assms
proof (induction es arbitrary: m)
  case (Cons e es)
  obtain k v where e: "e = (k, v)" by (cases e)
  have "list_all (\<lambda>(k', _). k' < k) m"
    using Cons.prems by (auto simp: e list_all_iff sorted_wrt_append)
  then show ?case using Cons.IH [of "m @ [(k, v)]"] Cons.prems by (simp add: e btree_insert_last)
qed simp

lemma btree_collect_sorted: "sorted_wrt (<) (map fst es) \<Longrightarrow> btree_collect es = es"
  using btree_fold_sorted [of "[]" es] by (simp add: btree_collect_def)

lemma map_fst_map_snd: "map fst (map (\<lambda>(k, v). (k, f v)) ob) = map fst ob"
  by (induction ob) auto

lemma proto_round: "sorted_json v \<Longrightarrow> proto_to_json (json_to_proto v) = as_doubles v"
proof (induction v rule: json_to_proto.induct)
  case (6 vs)
  then show ?case by (simp add: list_all_iff)
next
  case (7 ob)
  have "map (\<lambda>(k, v). (k, proto_to_json v)) (map (\<lambda>(k, v). (k, json_to_proto v)) ob) = map (\<lambda>(k, v). (k, as_doubles v)) ob"
    using 7 by (auto simp: list_all_iff)
  moreover have "btree_collect (map (\<lambda>(k, v). (k, as_doubles v)) ob) = map (\<lambda>(k, v). (k, as_doubles v)) ob"
    using 7(2) by (intro btree_collect_sorted) (simp add: map_fst_map_snd del: map_map)
  ultimately show ?case using 7(2)
    by (simp add: btree_collect_sorted map_fst_map_snd del: map_map)
qed (simp_all add: as_f64_def)

section \<open>Properties\<close>

text \<open>
  The codec registered as protobuf gives back the document it was given, with every number turned into a
  double: strings, booleans, nulls, arrays and objects survive unchanged at every depth. It rests
  on a protobuf library that decodes what it encodes.
\<close>

theorem protobuf_roundtrip:
  assumes "pr_decode pr (pr_encode pr (json_to_proto v)) = Inr (json_to_proto v)" and "sorted_json v"
  shows "bind_res (cd_encode (protobuf_codec pr) v) (cd_decode (protobuf_codec pr)) = Ok (as_doubles v)"
  using assms by (simp add: protobuf_codec_def protobuf_encode_def protobuf_decode_def proto_round)

text \<open>The wire format of nulls, booleans, short strings, lists and structs, and a decoder that
  knows two messages.\<close>

fun wire :: "proto_value \<Rightarrow> bytes" where
  "wire (ProtoValue (Some (NullValue i))) = [0x08, of_int i]"
| "wire (ProtoValue (Some (BoolValue b))) = [0x20, if b then 1 else 0]"
| "wire (ProtoValue (Some (StringValue s))) = [0x1A, of_nat (length s)] @ map of_char s"
| "wire (ProtoValue (Some (ListValue vs))) =
     (let body = concat (map (\<lambda>v. [0x0A, of_nat (length (wire v))] @ wire v) vs)
      in [0x32, of_nat (length body)] @ body)"
| "wire _ = []"

definition wire_samples :: "proto_value list" where
  "wire_samples = [ProtoValue (Some (NullValue 0)),
     ProtoValue (Some (ListValue [ProtoValue (Some (BoolValue True)), ProtoValue (Some (StringValue ''ok''))]))]"

definition wire_prost :: prost where
  "wire_prost = \<lparr>pr_encode = wire,
     pr_decode = (\<lambda>d. case find (\<lambda>p. wire p = d) wire_samples of Some p \<Rightarrow> Inr p | None \<Rightarrow> Inl ''unknown message'')\<rparr>"

theorem protobuf_roundtrip_witness:
  "let v = JArr [JBool True, JStr ''ok'']; c = protobuf_codec wire_prost
   in cd_encode c v = Ok [0x32, 0x0A, 0x0A, 2, 0x20, 1, 0x0A, 4, 0x1A, 2, 0x6F, 0x6B] \<and>
      bind_res (cd_encode c v) (cd_decode c) = Ok v"
proof -
  let ?v = "JArr [JBool True, JStr ''ok'']"
  have e: "wire (json_to_proto ?v) = [0x32, 0x0A, 0x0A, 2, 0x20, 1, 0x0A, 4, 0x1A, 2, 0x6F, 0x6B]"
    by (simp add: Let_def of_char_def)
  have "pr_decode wire_prost (pr_encode wire_prost (json_to_proto ?v)) = Inr (json_to_proto ?v)"
    by (simp add: wire_prost_def wire_samples_def Let_def)
  from protobuf_roundtrip [OF this]
  have "bind_res (cd_encode (protobuf_codec wire_prost) ?v) (cd_decode (protobuf_codec wire_prost)) = Ok ?v"
    by simp
  moreover have "cd_encode (protobuf_codec wire_prost) ?v = Ok (wire (json_to_proto ?v))"
    by (simp add: protobuf_codec_def protobuf_encode_def wire_prost_def)
  ultimately show ?thesis using e by (simp add: Let_def)
qed

text \<open>Integers do not keep their type: an integer is decoded as a floating point number.\<close>

lemma protobuf_integer_becomes_float:
  assumes "pr_decode pr (pr_encode pr (json_to_proto (JInt 1))) = Inr (json_to_proto (JInt 1))"
  shows "bind_res (cd_encode (protobuf_codec pr) (JInt 1)) (cd_decode (protobuf_codec pr)) = Ok (JFloat (f64_round 1))"
  using assms by (simp add: protobuf_codec_def protobuf_encode_def protobuf_decode_def as_f64_def)

end
