(* ===== verification/Text_Maps.thy ===== *)
theory Text_Maps
  imports Json
begin

text \<open>
  The JSON form of a \<open>HashMap<String, String>\<close>, which message headers, node metadata and trace contexts
  share: an object of texts. Reading one inserts its members one after the other and fails when a
  value is not a text.
\<close>

definition enc_text_map :: "(string, string) hashmap \<Rightarrow> json" where
  "enc_text_map m = JObj (map (\<lambda>(k, v). (k, JStr v)) m)"

definition dec_text_map :: "json \<Rightarrow> (string, string) hashmap option" where
  "dec_text_map v =
     (case v of
        JObj ms \<Rightarrow>
          (if list_all (\<lambda>(k, w). case w of JStr t \<Rightarrow> True | _ \<Rightarrow> False) ms
           then Some (foldl (\<lambda>m (k, w). hm_insert k (case w of JStr t \<Rightarrow> t | _ \<Rightarrow> []) m) [] ms)
           else None)
      | _ \<Rightarrow> None)"

lemma foldl_insert_distinct:
  "distinct (map fst (acc @ ms)) \<Longrightarrow> foldl (\<lambda>m (k, v). hm_insert k v m) acc ms = acc @ ms"
proof (induction ms arbitrary: acc)
  case Nil
  then show ?case by simp
next
  case (Cons kv ms)
  obtain k v where kv: "kv = (k, v)" by (cases kv)
  have "hm_get acc k = None" using Cons.prems by (auto simp: kv hm_get_def map_of_eq_None_iff)
  then show ?case using Cons.IH [of "acc @ [kv]"] Cons.prems by (simp add: kv hm_insert_new)
qed

lemma dec_enc_text_map:
  assumes "hm_ok m"
  shows "dec_text_map (enc_text_map m) = Some m"
proof -
  have "foldl (\<lambda>m (k, w). hm_insert k (case w of JStr t \<Rightarrow> t | _ \<Rightarrow> []) m) acc (map (\<lambda>(k, v). (k, JStr v)) ms) =
      foldl (\<lambda>m (k, v). hm_insert k v m) acc ms" for acc ms :: "(string, string) hashmap"
    by (induction ms arbitrary: acc) auto
  moreover have "list_all (\<lambda>(k, w). case w of JStr t \<Rightarrow> True | _ \<Rightarrow> False) (map (\<lambda>(k, v). (k, JStr v)) m)"
    by (auto simp: list_all_iff)
  moreover have "foldl (\<lambda>m (k, v). hm_insert k v m) [] m = m"
    using foldl_insert_distinct [of "[]" m] assms by (simp add: hm_ok_def)
  ultimately show ?thesis
    by (simp only: dec_text_map_def enc_text_map_def json.case if_True)
qed

end
