(* ===== verification/Config_Watch.thy ===== *)
theory Config_Watch
  imports Config_Model Audit_Log
begin

text \<open>
  Hot reload of the configuration file: \<open>rinfra-core/src/config/watch.rs\<close> and
  \<open>rinfra-plugins/src/config_watch/\<close>. The watcher polls the modification time of a file; when it
  changed, the file is parsed and every handler is told. The file system and the YAML parser are
  parameters; a handler acts on a world \<open>'w\<close>.
\<close>

section \<open>The watcher\<close>

text \<open>What one look at the file gives: its modification time, and its content or an error.\<close>

record file_view =
  fv_mtime :: "nat option"
  fv_content :: "string + string"

type_synonym 'w reload_handler = "rinfra_config \<Rightarrow> 'w \<Rightarrow> 'w"

text \<open>A task spawned by \<open>start\<close>: it has not read the modification time yet, it sleeps between two
  polls, or it has ended.\<close>

datatype watch_loop = Spawned | Polling "nat option" | Ended

record 'w file_watcher =
  fw_path :: string
  fw_poll_secs :: u64
  fw_handlers :: "'w reload_handler list"
  fw_running :: bool
  fw_cancelled :: bool
  fw_loops :: "watch_loop list"

definition watcher_new :: "string \<Rightarrow> u64 \<Rightarrow> 'w file_watcher" where
  "watcher_new path poll_interval_secs =
     \<lparr>fw_path = path, fw_poll_secs = max poll_interval_secs 1, fw_handlers = [],
      fw_running = False, fw_cancelled = False, fw_loops = []\<rparr>"

definition add_handler :: "'w reload_handler \<Rightarrow> 'w file_watcher \<Rightarrow> 'w file_watcher" where
  "add_handler h w = w\<lparr>fw_handlers := fw_handlers w @ [h]\<rparr>"

definition watcher_start :: "'w file_watcher \<Rightarrow> unit res \<times> 'w file_watcher" where
  "watcher_start w =
     (if fw_running w then (Ok (), w)
      else (Ok (), w\<lparr>fw_running := True, fw_loops := fw_loops w @ [Spawned]\<rparr>))"

definition watcher_stop :: "'w file_watcher \<Rightarrow> unit res \<times> 'w file_watcher" where
  "watcher_stop w = (Ok (), w\<lparr>fw_cancelled := True, fw_running := False\<rparr>)"

section \<open>The polling task\<close>

definition parse_watched :: "(string \<Rightarrow> string + rinfra_config) \<Rightarrow> file_view \<Rightarrow> rinfra_config res" where
  "parse_watched from_yaml v =
     (case fv_content v of
        Inl e \<Rightarrow> Err ConfigReloadFailed (''failed to read config file: '' @ e)
      | Inr content \<Rightarrow>
          (case from_yaml content of
             Inl e \<Rightarrow> Err ConfigReloadFailed (''failed to parse config: '' @ e)
           | Inr cfg \<Rightarrow> Ok cfg))"

text \<open>The body of the sleep branch: the modification time is remembered also when the file cannot be
  parsed, and the handlers are told one after the other.\<close>

definition poll_once ::
  "(string \<Rightarrow> string + rinfra_config) \<Rightarrow> 'w reload_handler list \<Rightarrow> file_view \<Rightarrow> nat option \<times> 'w \<Rightarrow> nat option \<times> 'w" where
  "poll_once from_yaml handlers v s =
     (case s of (last_mtime, world) \<Rightarrow>
        if fv_mtime v \<noteq> last_mtime then
          (fv_mtime v,
           case parse_watched from_yaml v of
             Inr cfg \<Rightarrow> fold (\<lambda>h. h cfg) handlers world
           | Inl _ \<Rightarrow> world)
        else (last_mtime, world))"

text \<open>One step of a spawned task. The token is looked at before the sleep ends, so a cancelled task
  ends at its next iteration.\<close>

definition loop_step ::
  "(string \<Rightarrow> string + rinfra_config) \<Rightarrow> file_view \<Rightarrow> nat \<Rightarrow> 'w file_watcher \<times> 'w \<Rightarrow> 'w file_watcher \<times> 'w" where
  "loop_step from_yaml v i s =
     (case s of (w, world) \<Rightarrow>
        if length (fw_loops w) \<le> i then s
        else case fw_loops w ! i of
          Spawned \<Rightarrow> (w\<lparr>fw_loops := (fw_loops w)[i := Polling (fv_mtime v)]\<rparr>, world)
        | Polling m \<Rightarrow>
            (if fw_cancelled w then (w\<lparr>fw_loops := (fw_loops w)[i := Ended]\<rparr>, world)
             else (let (m1, world1) = poll_once from_yaml (fw_handlers w) v (m, world)
                   in (w\<lparr>fw_loops := (fw_loops w)[i := Polling m1]\<rparr>, world1)))
        | Ended \<Rightarrow> s)"

section \<open>The handlers of the repository\<close>

text \<open>\<open>LogConfigReloadHandler\<close> only logs. \<open>AuditConfigReloadHandler\<close> records an event; an error of the
  audit log is only logged. \<open>stamp\<close> is the time and identifier the new event gets.\<close>

definition log_reload_handler :: "'w reload_handler" where
  "log_reload_handler cfg world = world"

definition audit_reload_handler ::
  "('w \<Rightarrow> string \<times> u64 \<times> 'w) \<Rightarrow> 'w audit_logger \<Rightarrow> 'w reload_handler" where
  "audit_reload_handler stamp log_event cfg world =
     (case stamp world of (uuid, now, world1) \<Rightarrow>
        snd (log_event (audit_event_new uuid now ''system'' ''config.reload'' ''config'' Success) world1))"

section \<open>Runs\<close>

datatype 'w watch_op = AddHandler "'w reload_handler" | StartWatch | StopWatch | LoopStep file_view nat

definition watch_apply ::
  "(string \<Rightarrow> string + rinfra_config) \<Rightarrow> 'w watch_op \<Rightarrow> 'w file_watcher \<times> 'w \<Rightarrow> 'w file_watcher \<times> 'w" where
  "watch_apply from_yaml op s =
     (case op of
        AddHandler h \<Rightarrow> (add_handler h (fst s), snd s)
      | StartWatch \<Rightarrow> (snd (watcher_start (fst s)), snd s)
      | StopWatch \<Rightarrow> (snd (watcher_stop (fst s)), snd s)
      | LoopStep v i \<Rightarrow> loop_step from_yaml v i s)"

definition watch_run where
  "watch_run from_yaml ops s = fold (watch_apply from_yaml) ops s"

text \<open>The looks at which the modification time differs from that of the look before.\<close>

definition changed_views :: "nat option \<Rightarrow> file_view list \<Rightarrow> file_view list" where
  "changed_views m vs = map snd (filter (\<lambda>(before, v). before \<noteq> fv_mtime v) (zip (m # map fv_mtime vs) vs))"

definition delivered :: "(string \<Rightarrow> string + rinfra_config) \<Rightarrow> file_view list \<Rightarrow> rinfra_config list" where
  "delivered from_yaml vs =
     concat (map (\<lambda>v. case parse_watched from_yaml v of Inr cfg \<Rightarrow> [cfg] | Inl _ \<Rightarrow> []) vs)"

lemma poll_once_eq:
  "poll_once y hs v (m, w) =
     (fv_mtime v,
      if m \<noteq> fv_mtime v then fold (\<lambda>cfg. fold (\<lambda>h. h cfg) hs) (delivered y [v]) w else w)"
  by (auto simp: poll_once_def delivered_def split: sum.splits)

lemma changed_views_Cons:
  "changed_views m (v # vs) = (if m \<noteq> fv_mtime v then [v] else []) @ changed_views (fv_mtime v) vs"
  by (simp add: changed_views_def)

lemma delivered_append: "delivered y (us @ vs) = delivered y us @ delivered y vs"
  by (simp add: delivered_def)

lemma delivered_Nil [simp]: "delivered y [] = []"
  by (simp add: delivered_def)

lemma polls_deliver_changes:
  "fold (poll_once y hs) vs (m, w) =
     (last (m # map fv_mtime vs),
      fold (\<lambda>cfg. fold (\<lambda>h. h cfg) hs) (delivered y (changed_views m vs)) w)"
proof (induction vs arbitrary: m w)
  case Nil
  then show ?case by (simp add: changed_views_def)
next
  case (Cons v vs)
  show ?case
    by (simp add: poll_once_eq Cons.IH changed_views_Cons delivered_append)
qed

lemma watch_apply_cancelled:
  "fw_cancelled (fst s) \<Longrightarrow> fw_cancelled (fst (watch_apply y op s)) \<and> snd (watch_apply y op s) = snd s"
  by (cases s) (auto simp: watch_apply_def add_handler_def watcher_start_def watcher_stop_def loop_step_def
      split: watch_op.splits watch_loop.splits)

lemma watch_run_cancelled:
  "fw_cancelled (fst s) \<Longrightarrow> fw_cancelled (fst (watch_run y ops s)) \<and> snd (watch_run y ops s) = snd s"
  unfolding watch_run_def
  by (induction ops arbitrary: s) (simp_all add: watch_apply_cancelled)

section \<open>Properties\<close>

text \<open>
  A running watcher tells its handlers of every change and of nothing else: over any looks at the file, the
  world is what the handlers, each in turn and in the order they were added, make of the configurations
  read at exactly the looks whose modification time differs from the look before and whose content parses.
\<close>

theorem watcher_delivers_changes:
  assumes "\<not> fw_cancelled w" and "i < length (fw_loops w)" and "fw_loops w ! i = Polling m"
  shows "snd (watch_run from_yaml (map (\<lambda>v. LoopStep v i) vs) (w, world)) =
    fold (\<lambda>cfg. fold (\<lambda>h. h cfg) (fw_handlers w)) (delivered from_yaml (changed_views m vs)) world"
proof -
  have "watch_run from_yaml (map (\<lambda>v. LoopStep v i) vs) (w, world) =
      (w\<lparr>fw_loops := (fw_loops w)[i := Polling (fst (fold (poll_once from_yaml (fw_handlers w)) vs (m, world)))]\<rparr>,
       snd (fold (poll_once from_yaml (fw_handlers w)) vs (m, world)))"
    using assms
  proof (induction vs arbitrary: w m world)
    case Nil
    have "w\<lparr>fw_loops := fw_loops w\<rparr> = w" by simp
    with Nil show ?case by (metis fold_simps(1) fst_conv list.simps(8) list_update_id snd_conv watch_run_def)
  next
    case (Cons v vs)
    obtain m1 world1 where p: "poll_once from_yaml (fw_handlers w) v (m, world) = (m1, world1)"
      by (cases "poll_once from_yaml (fw_handlers w) v (m, world)")
    have "watch_apply from_yaml (LoopStep v i) (w, world) = (w\<lparr>fw_loops := (fw_loops w)[i := Polling m1]\<rparr>, world1)"
      using Cons.prems p by (simp add: watch_apply_def loop_step_def)
    with Cons.IH [of "w\<lparr>fw_loops := (fw_loops w)[i := Polling m1]\<rparr>" m1 world1] Cons.prems p
    show ?case by (simp add: watch_run_def)
  qed
  then show ?thesis by (simp add: polls_deliver_changes)
qed

text \<open>A stopped watcher tells no handler anything any more, also when it is started again: the start
  reports success, but the cancelled token ends its task at the first iteration.\<close>

lemma restarted_watcher_is_dead:
  "snd (watch_run from_yaml (StopWatch # ops) s) = snd s"
  "fst (watcher_start (fst (watch_run from_yaml (StopWatch # ops) s))) = Ok ()"
proof -
  have "fw_cancelled (fst (watch_apply from_yaml StopWatch s))"
    by (simp add: watch_apply_def watcher_stop_def)
  then have "snd (watch_run from_yaml ops (watch_apply from_yaml StopWatch s)) = snd (watch_apply from_yaml StopWatch s)"
    using watch_run_cancelled by blast
  then show "snd (watch_run from_yaml (StopWatch # ops) s) = snd s"
    by (simp add: watch_run_def watch_apply_def)
  show "fst (watcher_start (fst (watch_run from_yaml (StopWatch # ops) s))) = Ok ()"
    by (simp add: watcher_start_def)
qed

end
