(* ===== verification/Plugins.thy ===== *)
theory Plugins
  imports Config_Model Registries I18n
begin

text \<open>
  The plugin system: \<open>rinfra-core/src/plugin/\<close> (manifests, health results, the build context, the
  registry that builds and shuts down) and \<open>rinfra-core/src/appstate.rs\<close> (the state handlers see).

  A component in the type map is a trait object. It is described by the implementation it is and the
  configuration it was made from; the \<open>Other\<close> constructors are implementations an application adds.
  The key \<open>TypeId::of::<T>()\<close> is a value of \<open>type_id\<close>, and \<open>component\<close> has a constructor for each
  such \<open>T\<close>, so that \<open>downcast_ref\<close> is a match on the constructor.
\<close>

section \<open>Manifests and health results\<close>

record plugin_manifest =
  pm_name :: string
  pm_version :: string
  pm_description :: string

definition manifest_new :: "string \<Rightarrow> string \<Rightarrow> string \<Rightarrow> plugin_manifest" where
  "manifest_new name version description = \<lparr>pm_name = name, pm_version = version, pm_description = description\<rparr>"

datatype health_status = Healthy | Degraded | Unhealthy

record health_check_result =
  hr_status :: health_status
  hr_error :: "string option"

definition healthy :: health_check_result where
  "healthy = \<lparr>hr_status = Healthy, hr_error = None\<rparr>"

definition unhealthy :: "string \<Rightarrow> health_check_result" where
  "unhealthy reason = \<lparr>hr_status = Unhealthy, hr_error = Some reason\<rparr>"

definition degraded :: "string \<Rightarrow> health_check_result" where
  "degraded reason = \<lparr>hr_status = Degraded, hr_error = Some reason\<rparr>"

definition is_healthy :: "health_check_result \<Rightarrow> bool" where
  "is_healthy r \<longleftrightarrow> hr_status r = Healthy"

section \<open>Components\<close>

datatype cache_obj =
    MemoryCacheObj memory_cache_config
  | RedisCacheObj redis_cache_config
  | MultilevelCacheObj cache_obj cache_obj
  | OtherCache string

datatype store_obj =
    PostgresObj postgres_config
  | MysqlObj mysql_config
  | SqliteObj sqlite_config
  | OtherStore string

datatype bus_obj =
    MemoryBusObj memory_mq_config
  | NatsBusObj nats_config
  | RedisStreamBusObj redis_stream_mq_config
  | OtherBus string

datatype limiter_obj =
    MemoryLimiterObj memory_rate_limit_config
  | RedisLimiterObj redis_rate_limit_config
  | OtherLimiter string

datatype key_provider_obj = EnvKeysObj | FileKeysObj file_key_config | OtherKeys string

datatype lock_obj = MemoryLockObj | RedisLockObj redis_lock_config | OtherLock string

datatype audit_obj = FileAuditObj string | OtherAudit string

datatype reload_obj = LogReload | AuditReload audit_obj | OtherReload string

datatype watcher_obj = FileWatcherObj string u64 "reload_obj list" | OtherWatcher string

datatype timer_obj = SimpleTimerObj simple_timer_config "lock_obj option" | OtherTimer string

datatype http_client_obj = ReqwestObj http_client_config "string option" | OtherClient string

datatype file_store_obj = LocalFilesObj string | OtherFiles string

datatype checker_obj =
    StoreChecker string store_obj
  | CacheChecker string cache_obj
  | MessageBusChecker string bus_obj
  | OtherChecker string

datatype type_id =
    TCache | TStore | TDb | TMessageBus | TRateLimiter | TNodeRegistry | TCodecRegistry | TCrypto
  | TKeyProvider | TVersionedKeyProvider | TScriptEngine | TScriptEngineRegistry | TTimerEngineRegistry
  | TStoreRegistry | TFileStore | THttpClient | TLock | TConfigWatcher | TAuditLogger | TI18n
  | THealthCheckerRegistry | TOther string

datatype component =
    CacheComp cache_obj
  | StoreComp store_obj
  | DbComp store_obj
  | BusComp bus_obj
  | LimiterComp limiter_obj
  | NodeRegistryComp string
  | CodecsComp "json codec_registry"
  | CryptoComp bytes
  | KeysComp key_provider_obj
  | VersionedKeysComp rotating_key_config
  | ScriptEngineComp script_engine
  | ScriptEnginesComp "(string, script_engine) hashmap"
  | TimersComp "(string, timer_obj) hashmap"
  | StoresComp "(string, store_obj) hashmap"
  | FilesComp file_store_obj
  | ClientComp http_client_obj
  | LockComp lock_obj
  | WatcherComp watcher_obj
  | AuditComp audit_obj
  | I18nComp file_i18n
  | CheckersComp "checker_obj list"
  | OtherComp string json

primrec type_of :: "component \<Rightarrow> type_id" where
  "type_of (CacheComp x) = TCache"
| "type_of (StoreComp x) = TStore"
| "type_of (DbComp x) = TDb"
| "type_of (BusComp x) = TMessageBus"
| "type_of (LimiterComp x) = TRateLimiter"
| "type_of (NodeRegistryComp x) = TNodeRegistry"
| "type_of (CodecsComp x) = TCodecRegistry"
| "type_of (CryptoComp x) = TCrypto"
| "type_of (KeysComp x) = TKeyProvider"
| "type_of (VersionedKeysComp x) = TVersionedKeyProvider"
| "type_of (ScriptEngineComp x) = TScriptEngine"
| "type_of (ScriptEnginesComp x) = TScriptEngineRegistry"
| "type_of (TimersComp x) = TTimerEngineRegistry"
| "type_of (StoresComp x) = TStoreRegistry"
| "type_of (FilesComp x) = TFileStore"
| "type_of (ClientComp x) = THttpClient"
| "type_of (LockComp x) = TLock"
| "type_of (WatcherComp x) = TConfigWatcher"
| "type_of (AuditComp x) = TAuditLogger"
| "type_of (I18nComp x) = TI18n"
| "type_of (CheckersComp x) = THealthCheckerRegistry"
| "type_of (OtherComp t x) = TOther t"

type_synonym type_map = "(type_id, component) hashmap"

text \<open>\<open>insert(TypeId::of::<T>(), Box::new(val))\<close>, and \<open>get(..).and_then(downcast_ref::<T>)\<close>.\<close>

definition tm_set :: "component \<Rightarrow> type_map \<Rightarrow> type_map" where
  "tm_set v m = hm_insert (type_of v) v m"

definition tm_get :: "type_id \<Rightarrow> type_map \<Rightarrow> component option" where
  "tm_get t m = (case hm_get m t of None \<Rightarrow> None | Some v \<Rightarrow> if type_of v = t then Some v else None)"

section \<open>Application state\<close>

record app_state =
  as_config :: rinfra_config
  as_started_at :: instant
  as_extensions :: type_map

definition app_state_new :: "rinfra_config \<Rightarrow> instant \<Rightarrow> app_state" where
  "app_state_new cfg now = \<lparr>as_config = cfg, as_started_at = now, as_extensions = []\<rparr>"

definition uptime_secs :: "app_state \<Rightarrow> instant \<Rightarrow> nat" where
  "uptime_secs s now = elapsed_secs now (as_started_at s)"

definition state_set :: "component \<Rightarrow> app_state \<Rightarrow> app_state" where
  "state_set v s = s\<lparr>as_extensions := tm_set v (as_extensions s)\<rparr>"

definition state_get :: "type_id \<Rightarrow> app_state \<Rightarrow> component option" where
  "state_get t s = tm_get t (as_extensions s)"

definition state_has :: "type_id \<Rightarrow> app_state \<Rightarrow> bool" where
  "state_has t s = hm_contains (as_extensions s) t"

text \<open>The accessors of the components other parts ask for.\<close>

definition state_cache :: "app_state \<Rightarrow> cache_obj option" where
  "state_cache s = (case state_get TCache s of Some (CacheComp c) \<Rightarrow> Some c | _ \<Rightarrow> None)"

definition state_stores :: "app_state \<Rightarrow> (string, store_obj) hashmap option" where
  "state_stores s = (case state_get TStoreRegistry s of Some (StoresComp r) \<Rightarrow> Some r | _ \<Rightarrow> None)"

definition state_audit :: "app_state \<Rightarrow> audit_obj option" where
  "state_audit s = (case state_get TAuditLogger s of Some (AuditComp a) \<Rightarrow> Some a | _ \<Rightarrow> None)"

definition state_ratelimiter :: "app_state \<Rightarrow> limiter_obj option" where
  "state_ratelimiter s = (case state_get TRateLimiter s of Some (LimiterComp l) \<Rightarrow> Some l | _ \<Rightarrow> None)"

definition state_node_registry :: "app_state \<Rightarrow> string option" where
  "state_node_registry s = (case state_get TNodeRegistry s of Some (NodeRegistryComp r) \<Rightarrow> Some r | _ \<Rightarrow> None)"

definition state_health_checkers :: "app_state \<Rightarrow> checker_obj list option" where
  "state_health_checkers s = (case state_get THealthCheckerRegistry s of Some (CheckersComp cs) \<Rightarrow> Some cs | _ \<Rightarrow> None)"

section \<open>The build context\<close>

type_synonym router = "string list"

text \<open>A router is known by the paths of its routes; one of another framework cannot be downcast.\<close>

datatype any_router = AxumRouter router | ForeignRouter

datatype hook =
    CloseRedisCache redis_cache_config
  | DisconnectStore store_obj
  | CloseRedisLimiter redis_rate_limit_config
  | OtherHook string

record plugin_context =
  pc_config :: rinfra_config
  pc_manifests :: "plugin_manifest list"
  pc_hooks :: "hook list"
  pc_codecs :: "json codec_registry"
  pc_routers :: "any_router list"
  pc_extensions :: type_map

definition context_new :: "rinfra_config \<Rightarrow> plugin_context" where
  "context_new cfg =
     \<lparr>pc_config = cfg, pc_manifests = [], pc_hooks = [], pc_codecs = codec_registry_new, pc_routers = [],
      pc_extensions = []\<rparr>"

definition ctx_set :: "component \<Rightarrow> plugin_context \<Rightarrow> plugin_context" where
  "ctx_set v ctx = ctx\<lparr>pc_extensions := tm_set v (pc_extensions ctx)\<rparr>"

definition ctx_get :: "type_id \<Rightarrow> plugin_context \<Rightarrow> component option" where
  "ctx_get t ctx = tm_get t (pc_extensions ctx)"

definition set_cache :: "cache_obj \<Rightarrow> plugin_context \<Rightarrow> plugin_context" where
  "set_cache c = ctx_set (CacheComp c)"

definition set_store :: "store_obj \<Rightarrow> plugin_context \<Rightarrow> plugin_context" where
  "set_store s = ctx_set (StoreComp s)"

definition set_message_bus :: "bus_obj \<Rightarrow> plugin_context \<Rightarrow> plugin_context" where
  "set_message_bus b = ctx_set (BusComp b)"

definition set_ratelimiter :: "limiter_obj \<Rightarrow> plugin_context \<Rightarrow> plugin_context" where
  "set_ratelimiter l = ctx_set (LimiterComp l)"

definition set_db :: "store_obj \<Rightarrow> plugin_context \<Rightarrow> plugin_context" where
  "set_db s = ctx_set (DbComp s)"

definition add_health_checker :: "checker_obj \<Rightarrow> plugin_context \<Rightarrow> plugin_context" where
  "add_health_checker c ctx =
     (case ctx_get THealthCheckerRegistry ctx of
        Some (CheckersComp cs) \<Rightarrow> ctx_set (CheckersComp (cs @ [c])) ctx
      | _ \<Rightarrow> ctx_set (CheckersComp ([] @ [c])) ctx)"

definition add_codec :: "json codec \<Rightarrow> plugin_context \<Rightarrow> unit res \<times> plugin_context" where
  "add_codec c ctx = (let (r, cs) = codec_register c (pc_codecs ctx) in (r, ctx\<lparr>pc_codecs := cs\<rparr>))"

definition add_router :: "any_router \<Rightarrow> plugin_context \<Rightarrow> plugin_context" where
  "add_router r ctx = ctx\<lparr>pc_routers := pc_routers ctx @ [r]\<rparr>"

definition add_shutdown_hook :: "hook \<Rightarrow> plugin_context \<Rightarrow> plugin_context" where
  "add_shutdown_hook h ctx = ctx\<lparr>pc_hooks := pc_hooks ctx @ [h]\<rparr>"

definition into_app_parts :: "plugin_context \<Rightarrow> instant \<Rightarrow> app_state \<times> any_router list" where
  "into_app_parts ctx now =
     (let state = app_state_new (pc_config ctx) now;
          state1 = (if codec_list_names (pc_codecs ctx) = [] then state
                    else state_set (CodecsComp (pc_codecs ctx)) state)
      in (state1\<lparr>as_extensions := fold (\<lambda>(k, v). hm_insert k v) (pc_extensions ctx) (as_extensions state1)\<rparr>,
          pc_routers ctx))"

section \<open>Building and shutting down\<close>

record plugin =
  pl_manifest :: plugin_manifest
  pl_build :: "plugin_context \<Rightarrow> unit res \<times> plugin_context"

record plugin_registry =
  preg_manifests :: "plugin_manifest list"
  preg_hooks :: "hook list"

definition registry_new :: plugin_registry where
  "registry_new = \<lparr>preg_manifests = [], preg_hooks = []\<rparr>"

definition build_failed :: "string \<Rightarrow> app_error \<Rightarrow> app_error" where
  "build_failed name e =
     app_error_new PluginInitFailed (''plugin '' @ quoted name @ '' build failed: '' @ app_error_display e)"

fun build_plugins :: "plugin list \<Rightarrow> plugin_context \<Rightarrow> unit res \<times> plugin_context" where
  "build_plugins [] ctx = (Ok (), ctx)"
| "build_plugins (p # ps) ctx =
     (case pl_build p ctx of
        (Inl e, ctx1) \<Rightarrow> (map_err (build_failed (pm_name (pl_manifest p))) (Inl e), ctx1)
      | (Inr _, ctx1) \<Rightarrow> build_plugins ps (ctx1\<lparr>pc_manifests := pc_manifests ctx1 @ [pl_manifest p]\<rparr>))"

definition build_all ::
  "plugin list \<Rightarrow> plugin_registry \<Rightarrow> plugin_context \<Rightarrow> unit res \<times> plugin_registry \<times> plugin_context" where
  "build_all ps reg ctx =
     (case build_plugins ps ctx of
        (Inl e, ctx1) \<Rightarrow> (Inl e, reg, ctx1)
      | (Inr _, ctx1) \<Rightarrow>
          (Ok (), reg\<lparr>preg_manifests := pc_manifests ctx1, preg_hooks := pc_hooks ctx1\<rparr>,
           ctx1\<lparr>pc_manifests := [], pc_hooks := []\<rparr>))"

definition registry_get :: "plugin_registry \<Rightarrow> string \<Rightarrow> plugin_manifest option" where
  "registry_get reg name = find (\<lambda>m. pm_name m = name) (preg_manifests reg)"

text \<open>What a hook does to the world within the deadline: \<open>None\<close> when it is still running then.\<close>

type_synonym 'w hook_runner = "hook \<Rightarrow> u64 \<Rightarrow> 'w \<Rightarrow> unit res option \<times> 'w"

fun run_hooks :: "'w hook_runner \<Rightarrow> u64 \<Rightarrow> hook list \<Rightarrow> 'w \<Rightarrow> unit res \<times> 'w" where
  "run_hooks run deadline [] w = (Ok (), w)"
| "run_hooks run deadline (h # hs) w =
     (case run h deadline w of
        (Some (Inr _), w1) \<Rightarrow> run_hooks run deadline hs w1
      | (Some (Inl (Fail e)), w1) \<Rightarrow>
          (Err PluginShutdownFailed (''shutdown hook failed: '' @ app_error_display e), w1)
      | (Some (Inl (Panic m)), w1) \<Rightarrow> (Inl (Panic m), w1)
      | (None, w1) \<Rightarrow> (Err PluginShutdownTimeout ''shutdown hook timed out'', w1))"

definition shutdown_all :: "'w hook_runner \<Rightarrow> u64 \<Rightarrow> plugin_registry \<Rightarrow> 'w \<Rightarrow> unit res \<times> plugin_registry \<times> 'w" where
  "shutdown_all run deadline reg w =
     (let hooks = rev (preg_hooks reg); (r, w1) = run_hooks run deadline hooks w
      in (r, reg\<lparr>preg_hooks := []\<rparr>, w1))"

section \<open>The contract of a type map\<close>

text \<open>What the build context and the application state promise of \<open>set\<close> and \<open>get\<close>.\<close>

locale typed_map =
  fixes put :: "component \<Rightarrow> 's \<Rightarrow> 's"
    and look :: "type_id \<Rightarrow> 's \<Rightarrow> component option"
  assumes look_put: "look t (put v s) = (if t = type_of v then Some v else look t s)"
begin

lemma look_puts:
  "look t (fold put vs s) =
     (case find (\<lambda>v. type_of v = t) (rev vs) of Some v \<Rightarrow> Some v | None \<Rightarrow> look t s)"
proof (induction vs rule: rev_induct)
  case (snoc v vs)
  then show ?case by (auto simp: look_put)
qed simp

lemma look_put_same: "look (type_of v) (put v s) = Some v"
  by (simp add: look_put)

end

lemma tm_get_set: "tm_get t (tm_set v m) = (if t = type_of v then Some v else tm_get t m)"
  by (auto simp: tm_get_def tm_set_def)

interpretation state_map: typed_map state_set state_get
  by unfold_locales (simp add: state_set_def state_get_def tm_get_set)

interpretation ctx_map: typed_map ctx_set ctx_get
  by unfold_locales (simp add: ctx_set_def ctx_get_def tm_get_set)

text \<open>Every component is stored under its own type.\<close>

definition tm_ok :: "type_map \<Rightarrow> bool" where
  "tm_ok m \<longleftrightarrow> hm_ok m \<and> (\<forall>(k, v) \<in> set m. type_of v = k)"

lemma tm_ok_iff: "tm_ok m \<longleftrightarrow> hm_ok m \<and> (\<forall>k v. hm_get m k = Some v \<longrightarrow> type_of v = k)"
  by (auto simp: tm_ok_def hm_ok_def hm_get_def)

lemma tm_ok_Nil: "tm_ok []"
  by (simp add: tm_ok_def hm_ok_def)

lemma tm_ok_set: "tm_ok m \<Longrightarrow> tm_ok (tm_set v m)"
  by (auto simp: tm_ok_iff tm_set_def split: if_splits)

lemma tm_get_ok: "tm_ok m \<Longrightarrow> tm_get t m = hm_get m t"
  by (auto simp: tm_ok_iff tm_get_def split: option.splits)

section \<open>Lemmas\<close>

lemma hm_get_Cons: "hm_get ((k, v) # es) t = (if t = k then Some v else hm_get es t)"
  by (simp add: hm_get_def)

lemma hm_insert_all_get:
  "hm_ok es \<Longrightarrow> hm_get (fold (\<lambda>(k, v). hm_insert k v) es m) t =
     (case hm_get es t of Some v \<Rightarrow> Some v | None \<Rightarrow> hm_get m t)"
proof (induction es arbitrary: m)
  case (Cons e es)
  obtain k v where e: "e = (k, v)" by (cases e)
  have ok: "hm_ok es" and new: "hm_get es k = None"
    using Cons.prems by (auto simp: e hm_ok_def hm_get_def map_of_eq_None_iff)
  have "hm_get (fold (\<lambda>(k, v). hm_insert k v) (e # es) m) t =
      (case hm_get es t of Some x \<Rightarrow> Some x | None \<Rightarrow> hm_get (hm_insert k v m) t)"
    using Cons.IH [OF ok, of "hm_insert k v m"] by (simp add: e)
  also have "\<dots> = (case hm_get (e # es) t of Some x \<Rightarrow> Some x | None \<Rightarrow> hm_get m t)"
    using new by (auto simp: e hm_get_Cons split: option.splits)
  finally show ?case .
qed simp

lemma hm_insert_all_ok: "hm_ok m \<Longrightarrow> hm_ok (fold (\<lambda>(k, v). hm_insert k v) es m)"
  by (induction es arbitrary: m) auto

lemma build_plugins_append:
  "build_plugins (ps @ qs) ctx =
     (case build_plugins ps ctx of (Inl e, ctx1) \<Rightarrow> (Inl e, ctx1) | (Inr _, ctx1) \<Rightarrow> build_plugins qs ctx1)"
proof (induction ps arbitrary: ctx)
  case (Cons p ps)
  show ?case
  proof (cases "pl_build p ctx")
    case (Pair r ctx1)
    then show ?thesis
      by (cases r) (auto simp: Cons.IH map_err_def split: fault.splits)
  qed
qed simp

lemma into_app_parts_get:
  assumes "tm_ok (pc_extensions ctx)"
  shows "state_get t (fst (into_app_parts ctx now)) =
    (case ctx_get t ctx of Some v \<Rightarrow> Some v
     | None \<Rightarrow> if t = TCodecRegistry \<and> codec_list_names (pc_codecs ctx) \<noteq> [] then Some (CodecsComp (pc_codecs ctx))
               else None)"
proof -
  let ?base = "as_extensions (if codec_list_names (pc_codecs ctx) = [] then app_state_new (pc_config ctx) now
      else state_set (CodecsComp (pc_codecs ctx)) (app_state_new (pc_config ctx) now))"
  have base: "hm_get ?base t = (if t = TCodecRegistry \<and> codec_list_names (pc_codecs ctx) \<noteq> []
      then Some (CodecsComp (pc_codecs ctx)) else None)"
    by (simp add: app_state_new_def state_set_def tm_set_def)
  have "hm_get (as_extensions (fst (into_app_parts ctx now))) t =
      (case hm_get (pc_extensions ctx) t of Some v \<Rightarrow> Some v | None \<Rightarrow> hm_get ?base t)"
    using assms hm_insert_all_get [of "pc_extensions ctx" _ t]
    by (simp add: into_app_parts_def Let_def tm_ok_def)
  moreover have "type_of v = t" if "hm_get (pc_extensions ctx) t = Some v" for v
    using assms that by (simp add: tm_ok_iff)
  ultimately show ?thesis
    using base assms by (auto simp: state_get_def tm_get_def ctx_get_def split: option.splits if_splits)
qed

definition only_adds_manifest_free :: "plugin \<Rightarrow> bool" where
  "only_adds_manifest_free p \<longleftrightarrow> (\<forall>ctx. pc_manifests (snd (pl_build p ctx)) = pc_manifests ctx)"

lemma build_plugins_manifests:
  assumes "list_all only_adds_manifest_free ps" and "build_plugins ps ctx = (Ok (), ctx1)"
  shows "pc_manifests ctx1 = pc_manifests ctx @ map pl_manifest ps"
  using assms
proof (induction ps arbitrary: ctx)
  case (Cons p ps)
  obtain r c where b: "pl_build p ctx = (r, c)" by (cases "pl_build p ctx")
  have c: "pc_manifests c = pc_manifests ctx"
    using Cons.prems(1) b by (simp add: only_adds_manifest_free_def) (metis snd_conv)
  show ?case
  proof (cases r)
    case (Inl e)
    with Cons.prems(2) b show ?thesis by (cases e) (simp_all add: map_err_def)
  next
    case (Inr u)
    with Cons b c show ?thesis by simp
  qed
qed simp

text \<open>A runner whose hooks have fixed outcomes and which writes down which hooks were run.\<close>

definition recording :: "(hook \<Rightarrow> unit res option) \<Rightarrow> hook list hook_runner" where
  "recording f h deadline seen = (f h, seen @ [h])"

lemma run_hooks_recording:
  "snd (run_hooks (recording f) d hs seen) =
     seen @ takeWhile (\<lambda>h. f h = Some (Ok ())) hs @ take 1 (dropWhile (\<lambda>h. f h = Some (Ok ())) hs)"
  by (induction hs arbitrary: seen) (auto simp: recording_def split: option.splits sum.splits fault.splits)

lemma run_hooks_ok_iff:
  "fst (run_hooks (recording f) d hs seen) = Ok () \<longleftrightarrow> list_all (\<lambda>h. f h = Some (Ok ())) hs"
  by (induction hs arbitrary: seen) (auto simp: recording_def split: option.splits sum.splits fault.splits)

section \<open>Properties\<close>

text \<open>
  Shutdown runs the hooks in the reverse of the order they were registered in, each once, up to and including
  the first one that fails or outlives the deadline: the hooks registered before that one are dropped
  without being run. It succeeds exactly when every hook does.
\<close>

theorem shutdown_stops_at_first_failure:
  "let hooks = rev (preg_hooks reg); fine = (\<lambda>h. outcome h = Some (Ok ()));
       (r, reg1, seen) = shutdown_all (recording outcome) deadline reg []
   in seen = takeWhile fine hooks @ take 1 (dropWhile fine hooks) \<and>
      (r = Ok ()) = list_all fine hooks \<and> preg_hooks reg1 = []"
  using run_hooks_recording [of outcome deadline "rev (preg_hooks reg)" "[]"]
    run_hooks_ok_iff [of outcome deadline "rev (preg_hooks reg)" "[]"]
  by (simp add: shutdown_all_def Let_def case_prod_beta)

text \<open>
  A plugin whose build fails ends the startup with its own name and error, whatever plugins follow it; the
  registry is left as it was, so that the shutdown hooks of the plugins built before are never run.
\<close>

theorem failed_build_is_reported:
  assumes "build_plugins built ctx = (Ok (), ctx1)" and "pl_build p ctx1 = (Inl (Fail e), ctx2)"
  shows "build_all (built @ p # later) registry_new ctx =
      (Err PluginInitFailed (''plugin '' @ quoted (pm_name (pl_manifest p)) @ '' build failed: '' @ app_error_display e),
       registry_new, ctx2)"
    and "shutdown_all run deadline (fst (snd (build_all (built @ p # later) registry_new ctx))) w =
      (Ok (), registry_new, w)"
  using assms
  by (simp_all add: build_all_def build_plugins_append build_failed_def registry_new_def shutdown_all_def)

lemma failed_build_loses_hooks:
  assumes "build_plugins built ctx = (Ok (), ctx1)" and "pl_build p ctx1 = (Inl (Fail e), ctx2)"
  shows "preg_hooks (fst (snd (build_all (built @ p # later) registry_new ctx))) = []"
  using assms by (simp add: build_all_def build_plugins_append registry_new_def)

lemma manifests_in_build_order:
  assumes "list_all only_adds_manifest_free ps" and "build_all ps reg (context_new cfg) = (Ok (), reg1, ctx1)"
  shows "preg_manifests reg1 = map pl_manifest ps"
  using assms build_plugins_manifests [OF assms(1), of "context_new cfg"]
  by (auto simp: build_all_def context_new_def split: prod.splits sum.splits)

end
