(* ===== verification/Builtin_Plugins.thy ===== *)
theory Builtin_Plugins
  imports Plugins Codecs Crypto
begin

text \<open>
  The plugins of \<open>rinfra-plugins/src/plugin/builtin.rs\<close>: what each of them registers, given the
  configuration and the outcome of the connections it opens, and the order in which
  \<open>builtin_plugins\<close> lists them. Every cargo feature is taken to be on. The outcomes of connections
  (modelled in \<open>Cache\<close>, \<open>Sql_Stores\<close>, \<open>Rate_Limit\<close> and \<open>Lock\<close>), the environment variables, the
  script interpreters and the libraries are the fields of \<open>plugin_env\<close>.
\<close>

section \<open>The outside\<close>

record plugin_env =
  pe_serde_json :: serde_lib
  pe_rmp :: serde_lib
  pe_prost :: prost
  pe_cache_connect :: "redis_cache_config \<Rightarrow> unit res"
  pe_store_connect :: "store_obj \<Rightarrow> unit res"
  pe_nats_connect :: "nats_config \<Rightarrow> unit res"
  pe_stream_connect :: "redis_stream_mq_config \<Rightarrow> unit res"
  pe_limiter_connect :: "redis_rate_limit_config \<Rightarrow> unit res"
  pe_lock_connect :: "redis_lock_config \<Rightarrow> unit res"
  pe_vars :: "string \<rightharpoonup> string"
  pe_other_key :: "string \<Rightarrow> string \<Rightarrow> bytes res"
  pe_wasm :: "wasm_script_config \<Rightarrow> bytes \<Rightarrow> bytes \<Rightarrow> script_output res"
  pe_python :: "python_script_config \<Rightarrow> bytes \<Rightarrow> bytes \<Rightarrow> script_output res"
  pe_js :: "js_script_config \<Rightarrow> bytes \<Rightarrow> bytes \<Rightarrow> script_output res"
  pe_client_new :: "http_client_config \<Rightarrow> unit res"
  pe_i18n_dir :: "string \<Rightarrow> i18n_dir"
  pe_yaml :: "string \<Rightarrow> string + yaml"
  pe_yaml_debug :: "yaml \<Rightarrow> string"

text \<open>\<open>if let Err(e) = connect { if required { return Err(..) } warn!(..) }\<close>, then the rest.\<close>

definition connect_or_warn ::
  "unit res \<Rightarrow> bool \<Rightarrow> string \<Rightarrow> (plugin_context \<Rightarrow> plugin_context) \<Rightarrow> plugin_context \<Rightarrow> unit res \<times> plugin_context" where
  "connect_or_warn r required msg rest ctx =
     (case r of
        Inl (Panic m) \<Rightarrow> (Inl (Panic m), ctx)
      | Inl (Fail e) \<Rightarrow>
          (if required then (Err PluginInitFailed (msg @ app_error_display e), ctx) else (Ok (), rest ctx))
      | Inr _ \<Rightarrow> (Ok (), rest ctx))"

abbreviation plugins_of :: "plugin_context \<Rightarrow> plugin_configs" where
  "plugins_of ctx \<equiv> rinfra_plugins (pc_config ctx)"

section \<open>Caches\<close>

definition build_memory_cache :: "plugin_context \<Rightarrow> unit res \<times> plugin_context" where
  "build_memory_cache ctx =
     (let cfg = caches_memory (plugins_cache (plugins_of ctx))
      in if \<not> memory_cache_enabled cfg then (Ok (), ctx)
         else (Ok (), set_cache (MemoryCacheObj cfg) ctx))"

definition build_redis_cache :: "plugin_env \<Rightarrow> plugin_context \<Rightarrow> unit res \<times> plugin_context" where
  "build_redis_cache env ctx =
     (let cfg = caches_redis (plugins_cache (plugins_of ctx))
      in if \<not> redis_cache_enabled cfg then (Ok (), ctx)
         else connect_or_warn (pe_cache_connect env cfg) (redis_cache_required cfg)
           ''redis cache connect failed (required): ''
           (\<lambda>ctx. add_shutdown_hook (CloseRedisCache cfg)
              (set_cache (RedisCacheObj cfg)
                (add_health_checker (CacheChecker ''cache.redis'' (RedisCacheObj cfg)) ctx))) ctx)"

definition build_multilevel_cache :: "plugin_env \<Rightarrow> plugin_context \<Rightarrow> unit res \<times> plugin_context" where
  "build_multilevel_cache env ctx =
     (let cfg = plugins_cache (plugins_of ctx); mem_cfg = caches_memory cfg; redis_cfg = caches_redis cfg;
          ml = MultilevelCacheObj (MemoryCacheObj mem_cfg) (RedisCacheObj redis_cfg)
      in if \<not> multilevel_cache_enabled (caches_multilevel cfg) then (Ok (), ctx)
         else if \<not> memory_cache_enabled mem_cfg \<or> \<not> redis_cache_enabled redis_cfg then (Ok (), ctx)
         else connect_or_warn (pe_cache_connect env redis_cfg) False []
           (\<lambda>ctx. add_shutdown_hook (CloseRedisCache redis_cfg)
              (set_cache ml (add_health_checker (CacheChecker ''cache.multilevel'' ml) ctx))) ctx)"

section \<open>Stores\<close>

definition register_store :: "string \<Rightarrow> store_obj \<Rightarrow> plugin_context \<Rightarrow> plugin_context" where
  "register_store name store ctx =
     add_shutdown_hook (DisconnectStore store)
       (add_health_checker (StoreChecker name store) (set_db store (set_store store ctx)))"

definition build_postgres_store :: "plugin_env \<Rightarrow> plugin_context \<Rightarrow> unit res \<times> plugin_context" where
  "build_postgres_store env ctx =
     (let cfg = stores_postgres (plugins_store (plugins_of ctx)); store = PostgresObj cfg
      in if \<not> postgres_enabled cfg then (Ok (), ctx)
         else connect_or_warn (pe_store_connect env store) (postgres_required cfg)
           ''postgres store connect failed (required): '' (register_store ''store.postgres'' store) ctx)"

definition build_mysql_store :: "plugin_env \<Rightarrow> plugin_context \<Rightarrow> unit res \<times> plugin_context" where
  "build_mysql_store env ctx =
     (let cfg = stores_mysql (plugins_store (plugins_of ctx)); store = MysqlObj cfg
      in if \<not> mysql_enabled cfg then (Ok (), ctx)
         else connect_or_warn (pe_store_connect env store) (mysql_required cfg)
           ''mysql store connect failed (required): '' (register_store ''store.mysql'' store) ctx)"

definition build_sqlite_store :: "plugin_env \<Rightarrow> plugin_context \<Rightarrow> unit res \<times> plugin_context" where
  "build_sqlite_store env ctx =
     (let cfg = stores_sqlite (plugins_store (plugins_of ctx)); store = SqliteObj cfg
      in if \<not> sqlite_enabled cfg then (Ok (), ctx)
         else connect_or_warn (pe_store_connect env store) (sqlite_required cfg)
           ''sqlite store connect failed (required): '' (register_store ''store.sqlite'' store) ctx)"

section \<open>Message buses\<close>

definition register_bus :: "string \<Rightarrow> bus_obj \<Rightarrow> plugin_context \<Rightarrow> plugin_context" where
  "register_bus name bus ctx = set_message_bus bus (add_health_checker (MessageBusChecker name bus) ctx)"

definition build_memory_bus :: "plugin_context \<Rightarrow> unit res \<times> plugin_context" where
  "build_memory_bus ctx =
     (let cfg = plugins_mq (plugins_of ctx)
      in if mqs_backend cfg \<noteq> Memory then (Ok (), ctx)
         else (Ok (), register_bus ''mq.memory'' (MemoryBusObj (mqs_memory cfg)) ctx))"

definition build_nats_bus :: "plugin_env \<Rightarrow> plugin_context \<Rightarrow> unit res \<times> plugin_context" where
  "build_nats_bus env ctx =
     (let cfg = plugins_mq (plugins_of ctx)
      in if mqs_backend cfg \<noteq> Nats then (Ok (), ctx)
         else case pe_nats_connect env (mqs_nats cfg) of
           Inl e \<Rightarrow> (Inl e, ctx)
         | Inr _ \<Rightarrow> (Ok (), register_bus ''mq.nats'' (NatsBusObj (mqs_nats cfg)) ctx))"

definition build_stream_bus :: "plugin_env \<Rightarrow> plugin_context \<Rightarrow> unit res \<times> plugin_context" where
  "build_stream_bus env ctx =
     (let cfg = plugins_mq (plugins_of ctx)
      in if mqs_backend cfg \<noteq> RedisStreams then (Ok (), ctx)
         else case pe_stream_connect env (mqs_redis_streams cfg) of
           Inl e \<Rightarrow> (Inl e, ctx)
         | Inr _ \<Rightarrow> (Ok (), register_bus ''mq.redis_streams'' (RedisStreamBusObj (mqs_redis_streams cfg)) ctx))"

section \<open>Rate limiters\<close>

definition build_memory_limiter :: "plugin_context \<Rightarrow> unit res \<times> plugin_context" where
  "build_memory_limiter ctx =
     (let cfg = rate_limits_memory (plugins_ratelimit (plugins_of ctx))
      in if \<not> memory_rate_limit_enabled cfg then (Ok (), ctx)
         else (Ok (), set_ratelimiter (MemoryLimiterObj cfg) ctx))"

definition build_redis_limiter :: "plugin_env \<Rightarrow> plugin_context \<Rightarrow> unit res \<times> plugin_context" where
  "build_redis_limiter env ctx =
     (let cfg = rate_limits_redis (plugins_ratelimit (plugins_of ctx))
      in if \<not> redis_rate_limit_enabled cfg then (Ok (), ctx)
         else connect_or_warn (pe_limiter_connect env cfg) (redis_rate_limit_required cfg)
           ''redis rate limiter connect failed (required): ''
           (\<lambda>ctx. add_shutdown_hook (CloseRedisLimiter cfg) (set_ratelimiter (RedisLimiterObj cfg) ctx)) ctx)"

section \<open>Codecs\<close>

definition build_json_codec :: "plugin_env \<Rightarrow> plugin_context \<Rightarrow> unit res \<times> plugin_context" where
  "build_json_codec env ctx = add_codec (json_codec (pe_serde_json env)) ctx"

definition build_msgpack_codec :: "plugin_env \<Rightarrow> plugin_context \<Rightarrow> unit res \<times> plugin_context" where
  "build_msgpack_codec env ctx = add_codec (msgpack_codec (pe_rmp env)) ctx"

definition build_protobuf_codec :: "plugin_env \<Rightarrow> plugin_context \<Rightarrow> unit res \<times> plugin_context" where
  "build_protobuf_codec env ctx = add_codec (protobuf_codec (pe_prost env)) ctx"

section \<open>Encryption\<close>

definition build_env_keys :: "plugin_context \<Rightarrow> unit res \<times> plugin_context" where
  "build_env_keys ctx = (Ok (), ctx_set (KeysComp EnvKeysObj) ctx)"

definition build_file_keys :: "plugin_context \<Rightarrow> unit res \<times> plugin_context" where
  "build_file_keys ctx =
     (let cfg = cryptos_file (plugins_crypto (plugins_of ctx))
      in if \<not> file_key_enabled cfg then (Ok (), ctx)
         else (Ok (), ctx_set (KeysComp (FileKeysObj cfg)) ctx))"

definition build_rotating_keys :: "plugin_context \<Rightarrow> unit res \<times> plugin_context" where
  "build_rotating_keys ctx =
     (let cfg = cryptos_rotating (plugins_crypto (plugins_of ctx))
      in if \<not> rotating_key_enabled cfg then (Ok (), ctx)
         else (Ok (), ctx_set (VersionedKeysComp cfg) ctx))"

definition provider_key :: "plugin_env \<Rightarrow> key_provider_obj \<Rightarrow> string \<Rightarrow> bytes res" where
  "provider_key env p key_id =
     (case p of
        EnvKeysObj \<Rightarrow> env_get_key (pe_vars env) key_id
      | FileKeysObj cfg \<Rightarrow> file_get_key cfg key_id
      | OtherKeys n \<Rightarrow> pe_other_key env n key_id)"

definition build_aesgcm :: "plugin_env \<Rightarrow> plugin_context \<Rightarrow> unit res \<times> plugin_context" where
  "build_aesgcm env ctx =
     (let cfg = cryptos_aesgcm (plugins_crypto (plugins_of ctx)); var = aes_gcm_key_env_var cfg
      in if \<not> aes_gcm_enabled cfg then (Ok (), ctx)
         else case ctx_get TKeyProvider ctx of
           Some (KeysComp p) \<Rightarrow>
             (case map_err (\<lambda>e. app_error_new PluginInitFailed
                  (''crypto.aesgcm: failed to read key from '' @ quoted var @ '': '' @ app_error_display e))
                (provider_key env p var) of
                Inl e \<Rightarrow> (Inl e, ctx)
              | Inr key \<Rightarrow>
                  (case aesgcm_new key of
                     Inl e \<Rightarrow> (Inl e, ctx)
                   | Inr crypto \<Rightarrow> (Ok (), ctx_set (CryptoComp crypto) ctx)))
         | _ \<Rightarrow> (Err PluginInitFailed ''crypto.aesgcm requires a KeyProvider plugin (e.g. crypto.env_key)'', ctx))"

section \<open>Script engines\<close>

definition unwrap_none :: string where
  "unwrap_none = ''called `Option::unwrap()` on a `None` value''"

definition ensure_script_registry :: "plugin_context \<Rightarrow> plugin_context" where
  "ensure_script_registry ctx =
     (if ctx_get TScriptEngineRegistry ctx = None then ctx_set (ScriptEnginesComp []) ctx else ctx)"

text \<open>\<open>ctx.get_mut::<ScriptEngineRegistry>().unwrap().register(engine)?\<close>\<close>

definition add_script_engine :: "script_engine \<Rightarrow> plugin_context \<Rightarrow> unit res \<times> plugin_context" where
  "add_script_engine engine ctx =
     (case ctx_get TScriptEngineRegistry ctx of
        Some (ScriptEnginesComp r) \<Rightarrow>
          (let (res, r1) = script_register engine r in (res, ctx_set (ScriptEnginesComp r1) ctx))
      | _ \<Rightarrow> (Inl (Panic unwrap_none), ctx))"

definition build_wasm_engine :: "plugin_env \<Rightarrow> plugin_context \<Rightarrow> unit res \<times> plugin_context" where
  "build_wasm_engine env ctx =
     (let cfg = scripts_wasm (plugins_script (plugins_of ctx))
      in if \<not> wasm_script_enabled cfg then (Ok (), ctx)
         else add_script_engine \<lparr>se_name = ''wasm'', se_execute = pe_wasm env cfg\<rparr> (ensure_script_registry ctx))"

definition build_python_engine :: "plugin_env \<Rightarrow> plugin_context \<Rightarrow> unit res \<times> plugin_context" where
  "build_python_engine env ctx =
     (let cfg = scripts_python (plugins_script (plugins_of ctx))
      in if \<not> python_script_enabled cfg then (Ok (), ctx)
         else add_script_engine \<lparr>se_name = ''python'', se_execute = pe_python env cfg\<rparr> (ensure_script_registry ctx))"

definition build_js_engine :: "plugin_env \<Rightarrow> plugin_context \<Rightarrow> unit res \<times> plugin_context" where
  "build_js_engine env ctx =
     (let cfg = scripts_js (plugins_script (plugins_of ctx))
      in if \<not> js_script_enabled cfg then (Ok (), ctx)
         else add_script_engine \<lparr>se_name = ''js'', se_execute = pe_js env cfg\<rparr> (ensure_script_registry ctx))"

section \<open>Servers\<close>

definition build_grpc :: "plugin_context \<Rightarrow> unit res \<times> plugin_context" where
  "build_grpc ctx = (Ok (), ctx)"

definition build_trpc :: "plugin_context \<Rightarrow> unit res \<times> plugin_context" where
  "build_trpc ctx = (Ok (), ctx)"

section \<open>Timer, lock and the rest\<close>

primrec timer_obj_name :: "timer_obj \<Rightarrow> string" where
  "timer_obj_name (SimpleTimerObj cfg lock) = ''simple''"
| "timer_obj_name (OtherTimer n) = n"

definition ensure_timer_registry :: "plugin_context \<Rightarrow> plugin_context" where
  "ensure_timer_registry ctx =
     (if ctx_get TTimerEngineRegistry ctx = None then ctx_set (TimersComp []) ctx else ctx)"

definition add_timer_engine :: "timer_obj \<Rightarrow> plugin_context \<Rightarrow> unit res \<times> plugin_context" where
  "add_timer_engine engine ctx =
     (case ctx_get TTimerEngineRegistry ctx of
        Some (TimersComp r) \<Rightarrow>
          (let (res, r1) = register_named timer_obj_name
                 (\<lambda>n. ''timer engine '' @ quoted n @ '' is already registered'') engine r
           in (res, ctx_set (TimersComp r1) ctx))
      | _ \<Rightarrow> (Inl (Panic unwrap_none), ctx))"

definition build_simple_timer :: "plugin_context \<Rightarrow> unit res \<times> plugin_context" where
  "build_simple_timer ctx =
     (let cfg = plugins_timer (plugins_of ctx); ctx1 = ensure_timer_registry ctx;
          lock = (case ctx_get TLock ctx1 of Some (LockComp l) \<Rightarrow> Some l | _ \<Rightarrow> None)
      in if \<not> timers_enabled cfg then (Ok (), ctx)
         else add_timer_engine (SimpleTimerObj (timers_simple cfg) lock) ctx1)"

definition build_local_files :: "plugin_context \<Rightarrow> unit res \<times> plugin_context" where
  "build_local_files ctx =
     (let cfg = plugins_file_store (plugins_of ctx)
      in if \<not> file_stores_enabled cfg then (Ok (), ctx)
         else (Ok (), ctx_set (FilesComp (LocalFilesObj (local_file_store_root_dir (file_stores_local cfg)))) ctx))"

definition build_http_client :: "plugin_env \<Rightarrow> plugin_context \<Rightarrow> unit res \<times> plugin_context" where
  "build_http_client env ctx =
     (let cfg = plugins_http_client (plugins_of ctx)
      in if \<not> http_client_enabled cfg then (Ok (), ctx)
         else case pe_client_new env cfg of
           Inl e \<Rightarrow> (Inl e, ctx)
         | Inr _ \<Rightarrow> (Ok (), ctx_set (ClientComp (ReqwestObj cfg (Some ''http_client''))) ctx))"

definition build_lock :: "plugin_env \<Rightarrow> plugin_context \<Rightarrow> unit res \<times> plugin_context" where
  "build_lock env ctx =
     (let cfg = plugins_lock (plugins_of ctx)
      in if \<not> locks_enabled cfg then (Ok (), ctx)
         else if locks_backend cfg = ''redis'' then
           (case pe_lock_connect env (locks_redis cfg) of
              Inl e \<Rightarrow> (Inl e, ctx)
            | Inr _ \<Rightarrow> (Ok (), ctx_set (LockComp (RedisLockObj (locks_redis cfg))) ctx))
         else (Ok (), ctx_set (LockComp MemoryLockObj) ctx))"

definition build_config_watch :: "plugin_context \<Rightarrow> unit res \<times> plugin_context" where
  "build_config_watch ctx =
     (let cfg = plugins_config_watch (plugins_of ctx);
          audit = (case ctx_get TAuditLogger ctx of Some (AuditComp a) \<Rightarrow> [AuditReload a] | _ \<Rightarrow> [])
      in if \<not> config_watch_enabled cfg then (Ok (), ctx)
         else (Ok (), ctx_set (WatcherComp (FileWatcherObj (rinfra_config_path (pc_config ctx))
                (max (config_watch_poll_interval_secs cfg) 1) ([LogReload] @ audit))) ctx))"

definition build_file_audit :: "plugin_context \<Rightarrow> unit res \<times> plugin_context" where
  "build_file_audit ctx =
     (let cfg = plugins_audit (plugins_of ctx)
      in if \<not> audits_enabled cfg then (Ok (), ctx)
         else (Ok (), ctx_set (AuditComp (FileAuditObj (audit_file_path (audits_file cfg)))) ctx))"

definition build_i18n :: "plugin_env \<Rightarrow> plugin_context \<Rightarrow> unit res \<times> plugin_context" where
  "build_i18n env ctx =
     (let cfg = plugins_i18n (plugins_of ctx)
      in if \<not> i18n_enabled cfg then (Ok (), ctx)
         else case i18n_load (pe_yaml env) (pe_yaml_debug env) (pe_i18n_dir env (i18n_dir cfg)) (i18n_default_locale cfg) of
           Inl e \<Rightarrow> (Inl e, ctx)
         | Inr i \<Rightarrow> (Ok (), ctx_set (I18nComp i) ctx))"

section \<open>The list of plugins\<close>

definition plugin_new :: "string \<Rightarrow> string \<Rightarrow> (plugin_context \<Rightarrow> unit res \<times> plugin_context) \<Rightarrow> plugin" where
  "plugin_new name description build =
     \<lparr>pl_manifest = manifest_new name ''0.1.0'' description, pl_build = build\<rparr>"

definition json_codec_plugin :: "plugin_env \<Rightarrow> plugin" where
  "json_codec_plugin env = plugin_new ''codec.json'' ''JSON codec'' (build_json_codec env)"

definition msgpack_codec_plugin :: "plugin_env \<Rightarrow> plugin" where
  "msgpack_codec_plugin env = plugin_new ''codec.msgpack'' ''MessagePack codec'' (build_msgpack_codec env)"

definition protobuf_codec_plugin :: "plugin_env \<Rightarrow> plugin" where
  "protobuf_codec_plugin env = plugin_new ''codec.protobuf'' ''Protobuf codec (prost)'' (build_protobuf_codec env)"

definition memory_cache_plugin :: plugin where
  "memory_cache_plugin = plugin_new ''cache.memory'' ''In-memory cache (moka)'' build_memory_cache"

definition redis_cache_plugin :: "plugin_env \<Rightarrow> plugin" where
  "redis_cache_plugin env = plugin_new ''cache.redis'' ''Redis cache'' (build_redis_cache env)"

definition multilevel_cache_plugin :: "plugin_env \<Rightarrow> plugin" where
  "multilevel_cache_plugin env = plugin_new ''cache.multilevel'' ''Multi-level cache (L1+L2)'' (build_multilevel_cache env)"

definition in_memory_bus_plugin :: plugin where
  "in_memory_bus_plugin = plugin_new ''mq.memory'' ''In-memory message bus'' build_memory_bus"

definition nats_bus_plugin :: "plugin_env \<Rightarrow> plugin" where
  "nats_bus_plugin env = plugin_new ''mq.nats'' ''NATS JetStream message bus'' (build_nats_bus env)"

definition redis_stream_bus_plugin :: "plugin_env \<Rightarrow> plugin" where
  "redis_stream_bus_plugin env = plugin_new ''mq.redis_streams'' ''Redis Streams message bus'' (build_stream_bus env)"

definition postgres_store_plugin :: "plugin_env \<Rightarrow> plugin" where
  "postgres_store_plugin env = plugin_new ''store.postgres'' ''PostgreSQL store'' (build_postgres_store env)"

definition mysql_store_plugin :: "plugin_env \<Rightarrow> plugin" where
  "mysql_store_plugin env = plugin_new ''store.mysql'' ''MySQL store'' (build_mysql_store env)"

definition sqlite_store_plugin :: "plugin_env \<Rightarrow> plugin" where
  "sqlite_store_plugin env = plugin_new ''store.sqlite'' ''SQLite store'' (build_sqlite_store env)"

definition memory_rate_limiter_plugin :: plugin where
  "memory_rate_limiter_plugin = plugin_new ''ratelimit.memory'' ''In-memory rate limiter'' build_memory_limiter"

definition redis_rate_limiter_plugin :: "plugin_env \<Rightarrow> plugin" where
  "redis_rate_limiter_plugin env = plugin_new ''ratelimit.redis'' ''Redis-backed distributed rate limiter'' (build_redis_limiter env)"

definition env_key_provider_plugin :: plugin where
  "env_key_provider_plugin = plugin_new ''crypto.env_key'' ''Environment variable key provider'' build_env_keys"

definition file_key_provider_plugin :: plugin where
  "file_key_provider_plugin = plugin_new ''crypto.file_key'' ''File-based key provider'' build_file_keys"

definition rotating_key_provider_plugin :: plugin where
  "rotating_key_provider_plugin = plugin_new ''crypto.rotating_key'' ''Rotating versioned key provider'' build_rotating_keys"

definition aes_gcm_crypto_plugin :: "plugin_env \<Rightarrow> plugin" where
  "aes_gcm_crypto_plugin env = plugin_new ''crypto.aesgcm'' ''AES-256-GCM encryption'' (build_aesgcm env)"

definition wasm_script_plugin :: "plugin_env \<Rightarrow> plugin" where
  "wasm_script_plugin env = plugin_new ''script.wasm'' ''WASM script engine'' (build_wasm_engine env)"

definition python_script_plugin :: "plugin_env \<Rightarrow> plugin" where
  "python_script_plugin env = plugin_new ''script.python'' ''Python script engine'' (build_python_engine env)"

definition js_script_plugin :: "plugin_env \<Rightarrow> plugin" where
  "js_script_plugin env = plugin_new ''script.js'' ''JavaScript script engine'' (build_js_engine env)"

definition grpc_plugin :: plugin where
  "grpc_plugin = plugin_new ''net.rpc'' ''gRPC server (tonic)'' build_grpc"

definition trpc_plugin :: plugin where
  "trpc_plugin = plugin_new ''net.trpc'' ''Lightweight TCP RPC server'' build_trpc"

definition local_file_store_plugin :: plugin where
  "local_file_store_plugin = plugin_new ''file_store.local'' ''Local filesystem file store'' build_local_files"

definition http_client_plugin :: "plugin_env \<Rightarrow> plugin" where
  "http_client_plugin env = plugin_new ''http_client'' ''HTTP client (reqwest)'' (build_http_client env)"

definition lock_plugin :: "plugin_env \<Rightarrow> plugin" where
  "lock_plugin env = plugin_new ''lock'' ''Distributed lock (memory / redis)'' (build_lock env)"

definition simple_timer_plugin :: plugin where
  "simple_timer_plugin = plugin_new ''timer.simple'' ''Simple in-process timer engine'' build_simple_timer"

definition file_audit_plugin :: plugin where
  "file_audit_plugin = plugin_new ''audit.file'' ''File-based audit logger'' build_file_audit"

definition i18n_plugin :: "plugin_env \<Rightarrow> plugin" where
  "i18n_plugin env = plugin_new ''i18n'' ''File-based i18n'' (build_i18n env)"

definition config_watch_plugin :: plugin where
  "config_watch_plugin = plugin_new ''config_watch'' ''Config file hot-reload'' build_config_watch"

lemmas plugin_defs = json_codec_plugin_def msgpack_codec_plugin_def protobuf_codec_plugin_def
  memory_cache_plugin_def redis_cache_plugin_def multilevel_cache_plugin_def in_memory_bus_plugin_def
  nats_bus_plugin_def redis_stream_bus_plugin_def postgres_store_plugin_def mysql_store_plugin_def
  sqlite_store_plugin_def memory_rate_limiter_plugin_def redis_rate_limiter_plugin_def
  env_key_provider_plugin_def file_key_provider_plugin_def rotating_key_provider_plugin_def
  aes_gcm_crypto_plugin_def wasm_script_plugin_def python_script_plugin_def js_script_plugin_def
  grpc_plugin_def trpc_plugin_def local_file_store_plugin_def http_client_plugin_def lock_plugin_def
  simple_timer_plugin_def file_audit_plugin_def i18n_plugin_def config_watch_plugin_def

definition codec_plugins :: "plugin_env \<Rightarrow> plugin list" where
  "codec_plugins env =
     [json_codec_plugin env,
      msgpack_codec_plugin env,
      protobuf_codec_plugin env]"

definition cache_plugins :: "plugin_env \<Rightarrow> plugin list" where
  "cache_plugins env =
     [memory_cache_plugin,
      redis_cache_plugin env,
      multilevel_cache_plugin env]"

definition mq_plugins :: "plugin_env \<Rightarrow> plugin list" where
  "mq_plugins env =
     [in_memory_bus_plugin,
      nats_bus_plugin env,
      redis_stream_bus_plugin env]"

definition store_plugins :: "plugin_env \<Rightarrow> plugin list" where
  "store_plugins env =
     [postgres_store_plugin env,
      mysql_store_plugin env,
      sqlite_store_plugin env]"

definition limiter_plugins :: "plugin_env \<Rightarrow> plugin list" where
  "limiter_plugins env =
     [memory_rate_limiter_plugin,
      redis_rate_limiter_plugin env]"

definition crypto_plugins :: "plugin_env \<Rightarrow> plugin list" where
  "crypto_plugins env =
     [env_key_provider_plugin,
      file_key_provider_plugin,
      rotating_key_provider_plugin,
      aes_gcm_crypto_plugin env]"

definition script_plugins :: "plugin_env \<Rightarrow> plugin list" where
  "script_plugins env =
     [wasm_script_plugin env,
      python_script_plugin env,
      js_script_plugin env]"

definition server_plugins :: "plugin_env \<Rightarrow> plugin list" where
  "server_plugins env =
     [grpc_plugin,
      trpc_plugin]"

definition tail_plugins :: "plugin_env \<Rightarrow> plugin list" where
  "tail_plugins env =
     [local_file_store_plugin,
      http_client_plugin env,
      lock_plugin env,
      simple_timer_plugin,
      file_audit_plugin,
      i18n_plugin env,
      config_watch_plugin]"

definition builtin_plugins :: "plugin_env \<Rightarrow> plugin list" where
  "builtin_plugins env =
     codec_plugins env @ cache_plugins env @ mq_plugins env @ store_plugins env @ limiter_plugins env @
     crypto_plugins env @ script_plugins env @ server_plugins env @ tail_plugins env"

section \<open>What a plugin leaves alone\<close>

text \<open>The plugin keeps the configuration, the invariant of the type map, and every component of a type
  outside \<open>T\<close>.\<close>

definition ctx_ok :: "plugin_context \<Rightarrow> bool" where
  "ctx_ok ctx \<longleftrightarrow> tm_ok (pc_extensions ctx)"

definition frames :: "type_id set \<Rightarrow> (plugin_context \<Rightarrow> unit res \<times> plugin_context) \<Rightarrow> bool" where
  "frames T build \<longleftrightarrow>
     (\<forall>ctx. pc_config (snd (build ctx)) = pc_config ctx \<and> (ctx_ok ctx \<longrightarrow> ctx_ok (snd (build ctx))) \<and>
       (\<forall>t. t \<notin> T \<longrightarrow> ctx_get t (snd (build ctx)) = ctx_get t ctx))"

named_theorems ctx_simps

lemma ctx_config [ctx_simps]:
  "pc_config (ctx_set v ctx) = pc_config ctx" "pc_config (add_shutdown_hook h ctx) = pc_config ctx"
  "pc_config (add_health_checker c ctx) = pc_config ctx" "pc_config (snd (add_codec k ctx)) = pc_config ctx"
  by (simp_all add: ctx_set_def add_shutdown_hook_def add_health_checker_def add_codec_def case_prod_beta
      split: option.splits component.splits)

lemma ctx_ok_ops [ctx_simps, intro]:
  "ctx_ok ctx \<Longrightarrow> ctx_ok (ctx_set v ctx)"
  "ctx_ok (add_shutdown_hook h ctx) = ctx_ok ctx"
  "ctx_ok ctx \<Longrightarrow> ctx_ok (add_health_checker c ctx)"
  "ctx_ok (snd (add_codec k ctx)) = ctx_ok ctx"
  "ctx_ok (ctx\<lparr>pc_manifests := ms\<rparr>) = ctx_ok ctx"
  by (auto simp: ctx_ok_def ctx_set_def add_shutdown_hook_def add_health_checker_def add_codec_def case_prod_beta tm_ok_set
      split: option.splits component.splits)

lemma ctx_get_hook [ctx_simps]:
  "ctx_get t (add_shutdown_hook h ctx) = ctx_get t ctx"
  "ctx_get t (snd (add_codec k ctx)) = ctx_get t ctx"
  "ctx_get t (ctx\<lparr>pc_manifests := ms\<rparr>) = ctx_get t ctx"
  by (simp_all add: ctx_get_def add_shutdown_hook_def add_codec_def case_prod_beta)

lemma ctx_get_checker [ctx_simps]:
  "t \<noteq> THealthCheckerRegistry \<Longrightarrow> ctx_get t (add_health_checker c ctx) = ctx_get t ctx"
  by (simp add: add_health_checker_def ctx_map.look_put split: option.splits component.splits)

lemmas ctx_setters [ctx_simps] = set_cache_def set_store_def set_db_def set_message_bus_def set_ratelimiter_def

lemma frames_script:
  "ctx_ok ctx \<Longrightarrow> ctx_ok (snd (add_script_engine e (ensure_script_registry ctx)))"
  "pc_config (snd (add_script_engine e (ensure_script_registry ctx))) = pc_config ctx"
  "t \<noteq> TScriptEngineRegistry \<Longrightarrow> ctx_get t (snd (add_script_engine e (ensure_script_registry ctx))) = ctx_get t ctx"
  by (auto simp: add_script_engine_def ensure_script_registry_def case_prod_beta ctx_simps ctx_map.look_put
      split: option.splits component.splits)

lemma frames_timer:
  "ctx_ok ctx \<Longrightarrow> ctx_ok (snd (add_timer_engine e (ensure_timer_registry ctx)))"
  "pc_config (snd (add_timer_engine e (ensure_timer_registry ctx))) = pc_config ctx"
  "t \<noteq> TTimerEngineRegistry \<Longrightarrow> ctx_get t (snd (add_timer_engine e (ensure_timer_registry ctx))) = ctx_get t ctx"
  by (auto simp: add_timer_engine_def ensure_timer_registry_def case_prod_beta ctx_simps ctx_map.look_put
      split: option.splits component.splits)

lemma frames_memory_cache: "frames {TCache} build_memory_cache"
  by (auto simp: frames_def build_memory_cache_def Let_def connect_or_warn_def register_store_def register_bus_def
      frames_script frames_timer ctx_simps ctx_map.look_put split: sum.splits fault.splits option.splits component.splits)

lemma frames_redis_cache: "frames {TCache, THealthCheckerRegistry} (build_redis_cache env)"
  by (auto simp: frames_def build_redis_cache_def Let_def connect_or_warn_def register_store_def register_bus_def
      frames_script frames_timer ctx_simps ctx_map.look_put split: sum.splits fault.splits option.splits component.splits)

lemma frames_multilevel_cache: "frames {TCache, THealthCheckerRegistry} (build_multilevel_cache env)"
  by (auto simp: frames_def build_multilevel_cache_def Let_def connect_or_warn_def register_store_def register_bus_def
      frames_script frames_timer ctx_simps ctx_map.look_put split: sum.splits fault.splits option.splits component.splits)

lemma frames_postgres_store: "frames {TStore, TDb, THealthCheckerRegistry} (build_postgres_store env)"
  by (auto simp: frames_def build_postgres_store_def Let_def connect_or_warn_def register_store_def register_bus_def
      frames_script frames_timer ctx_simps ctx_map.look_put split: sum.splits fault.splits option.splits component.splits)

lemma frames_mysql_store: "frames {TStore, TDb, THealthCheckerRegistry} (build_mysql_store env)"
  by (auto simp: frames_def build_mysql_store_def Let_def connect_or_warn_def register_store_def register_bus_def
      frames_script frames_timer ctx_simps ctx_map.look_put split: sum.splits fault.splits option.splits component.splits)

lemma frames_sqlite_store: "frames {TStore, TDb, THealthCheckerRegistry} (build_sqlite_store env)"
  by (auto simp: frames_def build_sqlite_store_def Let_def connect_or_warn_def register_store_def register_bus_def
      frames_script frames_timer ctx_simps ctx_map.look_put split: sum.splits fault.splits option.splits component.splits)

lemma frames_memory_bus: "frames {TMessageBus, THealthCheckerRegistry} build_memory_bus"
  by (auto simp: frames_def build_memory_bus_def Let_def connect_or_warn_def register_store_def register_bus_def
      frames_script frames_timer ctx_simps ctx_map.look_put split: sum.splits fault.splits option.splits component.splits)

lemma frames_nats_bus: "frames {TMessageBus, THealthCheckerRegistry} (build_nats_bus env)"
  by (auto simp: frames_def build_nats_bus_def Let_def connect_or_warn_def register_store_def register_bus_def
      frames_script frames_timer ctx_simps ctx_map.look_put split: sum.splits fault.splits option.splits component.splits)

lemma frames_stream_bus: "frames {TMessageBus, THealthCheckerRegistry} (build_stream_bus env)"
  by (auto simp: frames_def build_stream_bus_def Let_def connect_or_warn_def register_store_def register_bus_def
      frames_script frames_timer ctx_simps ctx_map.look_put split: sum.splits fault.splits option.splits component.splits)

lemma frames_memory_limiter: "frames {TRateLimiter} build_memory_limiter"
  by (auto simp: frames_def build_memory_limiter_def Let_def connect_or_warn_def register_store_def register_bus_def
      frames_script frames_timer ctx_simps ctx_map.look_put split: sum.splits fault.splits option.splits component.splits)

lemma frames_redis_limiter: "frames {TRateLimiter} (build_redis_limiter env)"
  by (auto simp: frames_def build_redis_limiter_def Let_def connect_or_warn_def register_store_def register_bus_def
      frames_script frames_timer ctx_simps ctx_map.look_put split: sum.splits fault.splits option.splits component.splits)

lemma frames_json_codec: "frames {} (build_json_codec env)"
  by (auto simp: frames_def build_json_codec_def Let_def connect_or_warn_def register_store_def register_bus_def
      frames_script frames_timer ctx_simps ctx_map.look_put split: sum.splits fault.splits option.splits component.splits)

lemma frames_msgpack_codec: "frames {} (build_msgpack_codec env)"
  by (auto simp: frames_def build_msgpack_codec_def Let_def connect_or_warn_def register_store_def register_bus_def
      frames_script frames_timer ctx_simps ctx_map.look_put split: sum.splits fault.splits option.splits component.splits)

lemma frames_protobuf_codec: "frames {} (build_protobuf_codec env)"
  by (auto simp: frames_def build_protobuf_codec_def Let_def connect_or_warn_def register_store_def register_bus_def
      frames_script frames_timer ctx_simps ctx_map.look_put split: sum.splits fault.splits option.splits component.splits)

lemma frames_env_keys: "frames {TKeyProvider} build_env_keys"
  by (auto simp: frames_def build_env_keys_def Let_def connect_or_warn_def register_store_def register_bus_def
      frames_script frames_timer ctx_simps ctx_map.look_put split: sum.splits fault.splits option.splits component.splits)

lemma frames_file_keys: "frames {TKeyProvider} build_file_keys"
  by (auto simp: frames_def build_file_keys_def Let_def connect_or_warn_def register_store_def register_bus_def
      frames_script frames_timer ctx_simps ctx_map.look_put split: sum.splits fault.splits option.splits component.splits)

lemma frames_rotating_keys: "frames {TVersionedKeyProvider} build_rotating_keys"
  by (auto simp: frames_def build_rotating_keys_def Let_def connect_or_warn_def register_store_def register_bus_def
      frames_script frames_timer ctx_simps ctx_map.look_put split: sum.splits fault.splits option.splits component.splits)

lemma aesgcm_result: "snd (build_aesgcm env ctx) = ctx \<or> (\<exists>c. snd (build_aesgcm env ctx) = ctx_set (CryptoComp c) ctx)"
  by (simp add: build_aesgcm_def Let_def split: option.split component.split sum.split) blast

lemma frames_aesgcm: "frames {TCrypto} (build_aesgcm env)"
proof -
  have "pc_config (snd (build_aesgcm env ctx)) = pc_config ctx \<and>
      (ctx_ok ctx \<longrightarrow> ctx_ok (snd (build_aesgcm env ctx))) \<and>
      (\<forall>t. t \<notin> {TCrypto} \<longrightarrow> ctx_get t (snd (build_aesgcm env ctx)) = ctx_get t ctx)" for ctx
    using aesgcm_result [of env ctx] by (auto simp: ctx_simps ctx_map.look_put)
  then show ?thesis by (simp add: frames_def)
qed

lemma frames_wasm_engine: "frames {TScriptEngineRegistry} (build_wasm_engine env)"
  by (auto simp: frames_def build_wasm_engine_def Let_def connect_or_warn_def register_store_def register_bus_def
      frames_script frames_timer ctx_simps ctx_map.look_put split: sum.splits fault.splits option.splits component.splits)

lemma frames_python_engine: "frames {TScriptEngineRegistry} (build_python_engine env)"
  by (auto simp: frames_def build_python_engine_def Let_def connect_or_warn_def register_store_def register_bus_def
      frames_script frames_timer ctx_simps ctx_map.look_put split: sum.splits fault.splits option.splits component.splits)

lemma frames_js_engine: "frames {TScriptEngineRegistry} (build_js_engine env)"
  by (auto simp: frames_def build_js_engine_def Let_def connect_or_warn_def register_store_def register_bus_def
      frames_script frames_timer ctx_simps ctx_map.look_put split: sum.splits fault.splits option.splits component.splits)

lemma frames_grpc: "frames {} build_grpc"
  by (auto simp: frames_def build_grpc_def Let_def connect_or_warn_def register_store_def register_bus_def
      frames_script frames_timer ctx_simps ctx_map.look_put split: sum.splits fault.splits option.splits component.splits)

lemma frames_trpc: "frames {} build_trpc"
  by (auto simp: frames_def build_trpc_def Let_def connect_or_warn_def register_store_def register_bus_def
      frames_script frames_timer ctx_simps ctx_map.look_put split: sum.splits fault.splits option.splits component.splits)

lemma frames_simple_timer: "frames {TTimerEngineRegistry} build_simple_timer"
  by (auto simp: frames_def build_simple_timer_def Let_def connect_or_warn_def register_store_def register_bus_def
      frames_script frames_timer ctx_simps ctx_map.look_put split: sum.splits fault.splits option.splits component.splits)

lemma frames_local_files: "frames {TFileStore} build_local_files"
  by (auto simp: frames_def build_local_files_def Let_def connect_or_warn_def register_store_def register_bus_def
      frames_script frames_timer ctx_simps ctx_map.look_put split: sum.splits fault.splits option.splits component.splits)

lemma frames_http_client: "frames {THttpClient} (build_http_client env)"
  by (auto simp: frames_def build_http_client_def Let_def connect_or_warn_def register_store_def register_bus_def
      frames_script frames_timer ctx_simps ctx_map.look_put split: sum.splits fault.splits option.splits component.splits)

lemma frames_lock: "frames {TLock} (build_lock env)"
  by (auto simp: frames_def build_lock_def Let_def connect_or_warn_def register_store_def register_bus_def
      frames_script frames_timer ctx_simps ctx_map.look_put split: sum.splits fault.splits option.splits component.splits)

lemma frames_config_watch: "frames {TConfigWatcher} build_config_watch"
  by (auto simp: frames_def build_config_watch_def Let_def connect_or_warn_def register_store_def register_bus_def
      frames_script frames_timer ctx_simps ctx_map.look_put split: sum.splits fault.splits option.splits component.splits)

lemma frames_file_audit: "frames {TAuditLogger} build_file_audit"
  by (auto simp: frames_def build_file_audit_def Let_def connect_or_warn_def register_store_def register_bus_def
      frames_script frames_timer ctx_simps ctx_map.look_put split: sum.splits fault.splits option.splits component.splits)

lemma frames_i18n: "frames {TI18n} (build_i18n env)"
  by (auto simp: frames_def build_i18n_def Let_def connect_or_warn_def register_store_def register_bus_def
      frames_script frames_timer ctx_simps ctx_map.look_put split: sum.splits fault.splits option.splits component.splits)

lemmas builtin_frames = frames_memory_cache frames_redis_cache frames_multilevel_cache frames_postgres_store frames_mysql_store frames_sqlite_store frames_memory_bus frames_nats_bus frames_stream_bus frames_memory_limiter frames_redis_limiter frames_json_codec frames_msgpack_codec frames_protobuf_codec frames_env_keys frames_file_keys frames_rotating_keys frames_aesgcm frames_wasm_engine frames_python_engine frames_js_engine frames_grpc frames_trpc frames_simple_timer frames_local_files frames_http_client frames_lock frames_config_watch frames_file_audit frames_i18n

lemma frames_weaken: "frames T b \<Longrightarrow> T \<inter> U = {} \<Longrightarrow> frames (- U) b"
  by (auto simp: frames_def)

section \<open>Building a list of plugins\<close>

text \<open>No plugin of the list touches a component of a type in \<open>U\<close>.\<close>

definition undisturbed :: "type_id set \<Rightarrow> plugin list \<Rightarrow> bool" where
  "undisturbed U ps \<longleftrightarrow> list_all (\<lambda>p. frames (- U) (pl_build p)) ps"

lemma undisturbed_append [simp]: "undisturbed U (ps @ qs) \<longleftrightarrow> undisturbed U ps \<and> undisturbed U qs"
  by (simp add: undisturbed_def)

lemma pl_build_new [simp]: "pl_build (plugin_new n d b) = b"
  by (simp add: plugin_new_def)

lemma ctx_manifests_update [simp]: "pc_config (ctx\<lparr>pc_manifests := ms\<rparr>) = pc_config ctx"
  by simp

lemma build_plugins_frame:
  "undisturbed U ps \<Longrightarrow> pc_config (snd (build_plugins ps ctx)) = pc_config ctx \<and>
     (ctx_ok ctx \<longrightarrow> ctx_ok (snd (build_plugins ps ctx))) \<and>
     (\<forall>t\<in>U. ctx_get t (snd (build_plugins ps ctx)) = ctx_get t ctx)"
proof (induction ps arbitrary: ctx)
  case (Cons p ps)
  obtain r c where b: "pl_build p ctx = (r, c)" by (cases "pl_build p ctx")
  have fr: "frames (- U) (pl_build p)" using Cons.prems by (simp add: undisturbed_def)
  have c: "pc_config c = pc_config ctx" "ctx_ok ctx \<longrightarrow> ctx_ok c" "\<forall>t\<in>U. ctx_get t c = ctx_get t ctx"
    using fr b unfolding frames_def by (metis snd_conv, metis snd_conv, metis ComplD snd_conv)
  show ?case
  proof (cases r)
    case (Inr u)
    have "undisturbed U ps" using Cons.prems by (simp add: undisturbed_def)
    from Cons.IH [OF this, of "c\<lparr>pc_manifests := pc_manifests c @ [pl_manifest p]\<rparr>"]
    show ?thesis using b c Inr by (simp add: ctx_simps)
  qed (use b c in simp)
qed simp

lemma build_ok_Cons:
  "fst (build_plugins (p # ps) ctx) = Ok () \<longleftrightarrow>
     fst (pl_build p ctx) = Ok () \<and>
     fst (build_plugins ps ((snd (pl_build p ctx))\<lparr>pc_manifests := pc_manifests (snd (pl_build p ctx)) @ [pl_manifest p]\<rparr>)) = Ok ()"
  by (cases "pl_build p ctx"; cases "fst (pl_build p ctx)") (auto simp: map_err_def split: fault.splits)

lemma build_ok_append:
  "fst (build_plugins (ps @ qs) ctx) = Ok () \<longleftrightarrow>
     fst (build_plugins ps ctx) = Ok () \<and> fst (build_plugins qs (snd (build_plugins ps ctx))) = Ok ()"
  by (auto simp: build_plugins_append split: prod.splits sum.splits)

lemma build_snd_append:
  "fst (build_plugins ps ctx) = Ok () \<Longrightarrow>
     snd (build_plugins (ps @ qs) ctx) = snd (build_plugins qs (snd (build_plugins ps ctx)))"
  by (auto simp: build_plugins_append split: prod.splits sum.splits)

text \<open>A stretch of the list decides about the types \<open>U\<close> when the plugins around it do not touch them.\<close>

lemma build_stretch:
  assumes "fst (build_plugins (ps @ qs @ rs) ctx) = Ok ()" and "undisturbed U ps" and "undisturbed U rs"
  obtains ctx1 where "pc_config ctx1 = pc_config ctx" and "\<And>t. t \<in> U \<Longrightarrow> ctx_get t ctx1 = ctx_get t ctx"
    and "fst (build_plugins qs ctx1) = Ok ()"
    and "\<And>t. t \<in> U \<Longrightarrow> ctx_get t (snd (build_plugins (ps @ qs @ rs) ctx)) = ctx_get t (snd (build_plugins qs ctx1))"
proof -
  let ?c = "snd (build_plugins ps ctx)"
  have ok: "fst (build_plugins ps ctx) = Ok ()" "fst (build_plugins qs ?c) = Ok ()"
    using assms(1) by (simp_all add: build_ok_append)
  have "ctx_get t (snd (build_plugins (ps @ qs @ rs) ctx)) = ctx_get t (snd (build_plugins qs ?c))" if "t \<in> U" for t
    using build_plugins_frame [OF assms(3), of "snd (build_plugins qs ?c)"] that ok
    by (simp add: build_snd_append)
  then show thesis
    using that [of ?c] build_plugins_frame [OF assms(2), of ctx] ok by blast
qed

lemmas plugin_lists = codec_plugins_def cache_plugins_def mq_plugins_def store_plugins_def limiter_plugins_def
  crypto_plugins_def script_plugins_def server_plugins_def tail_plugins_def plugin_defs

end
