(* ===== verification/Startup.thy ===== *)
theory Startup
  imports Builtin_Plugins
begin

text \<open>
  What the built-in plugins make of a configuration: the abstract specification of
  \<open>builtin_plugins\<close> as one function from the configuration to the components, and the exact
  condition under which starting up succeeds. The theorems hold for every outcome of the connections.
\<close>

section \<open>The specification\<close>

definition expected_cache :: "plugin_configs \<Rightarrow> cache_obj option" where
  "expected_cache pc =
     (let c = plugins_cache pc; mem = MemoryCacheObj (caches_memory c); red = RedisCacheObj (caches_redis c)
      in if redis_cache_enabled (caches_redis c)
         then Some (if memory_cache_enabled (caches_memory c) \<and> multilevel_cache_enabled (caches_multilevel c)
                    then MultilevelCacheObj mem red else red)
         else if memory_cache_enabled (caches_memory c) then Some mem else None)"

definition expected_store :: "plugin_configs \<Rightarrow> store_obj option" where
  "expected_store pc =
     (let s = plugins_store pc
      in if sqlite_enabled (stores_sqlite s) then Some (SqliteObj (stores_sqlite s))
         else if mysql_enabled (stores_mysql s) then Some (MysqlObj (stores_mysql s))
         else if postgres_enabled (stores_postgres s) then Some (PostgresObj (stores_postgres s)) else None)"

definition expected_bus :: "plugin_configs \<Rightarrow> bus_obj option" where
  "expected_bus pc =
     (let m = plugins_mq pc
      in case mqs_backend m of
        Memory \<Rightarrow> Some (MemoryBusObj (mqs_memory m))
      | Nats \<Rightarrow> Some (NatsBusObj (mqs_nats m))
      | RedisStreams \<Rightarrow> Some (RedisStreamBusObj (mqs_redis_streams m))
      | NoMq \<Rightarrow> None)"

definition expected_limiter :: "plugin_configs \<Rightarrow> limiter_obj option" where
  "expected_limiter pc =
     (let r = plugins_ratelimit pc
      in if redis_rate_limit_enabled (rate_limits_redis r) then Some (RedisLimiterObj (rate_limits_redis r))
         else if memory_rate_limit_enabled (rate_limits_memory r) then Some (MemoryLimiterObj (rate_limits_memory r))
         else None)"

definition expected_keys :: "plugin_configs \<Rightarrow> key_provider_obj" where
  "expected_keys pc =
     (let f = cryptos_file (plugins_crypto pc) in if file_key_enabled f then FileKeysObj f else EnvKeysObj)"

definition expected_lock :: "plugin_configs \<Rightarrow> lock_obj option" where
  "expected_lock pc =
     (let l = plugins_lock pc
      in if \<not> locks_enabled l then None
         else Some (if locks_backend l = ''redis'' then RedisLockObj (locks_redis l) else MemoryLockObj))"

definition expected_timers :: "plugin_configs \<Rightarrow> (string \<times> timer_obj) list option" where
  "expected_timers pc =
     (if timers_enabled (plugins_timer pc)
      then Some [(''simple'', SimpleTimerObj (timers_simple (plugins_timer pc)) (expected_lock pc))] else None)"

definition expected_audit :: "plugin_configs \<Rightarrow> audit_obj option" where
  "expected_audit pc =
     (if audits_enabled (plugins_audit pc) then Some (FileAuditObj (audit_file_path (audits_file (plugins_audit pc))))
      else None)"

definition expected_watcher :: "string \<Rightarrow> plugin_configs \<Rightarrow> watcher_obj option" where
  "expected_watcher path pc =
     (let w = plugins_config_watch pc
      in if config_watch_enabled w
         then Some (FileWatcherObj path (max (config_watch_poll_interval_secs w) 1)
                ([LogReload] @ (case expected_audit pc of Some a \<Rightarrow> [AuditReload a] | None \<Rightarrow> [])))
         else None)"

section \<open>Each type is decided by one stretch of the list\<close>

lemmas undisturbed_by = builtin_frames [THEN frames_weaken]

lemma cache_stretch:
  assumes "fst (build_plugins (cache_plugins env) ctx) = Ok ()" and "ctx_get TCache ctx = None"
  shows "ctx_get TCache (snd (build_plugins (cache_plugins env) ctx)) =
    map_option CacheComp (expected_cache (plugins_of ctx))"
  using assms
  by (auto simp: cache_plugins_def plugin_defs build_memory_cache_def build_redis_cache_def build_multilevel_cache_def
      expected_cache_def connect_or_warn_def Let_def ctx_simps ctx_map.look_put
      split: sum.splits fault.splits if_splits)

lemma build_snd_Cons:
  "fst (pl_build p ctx) = Ok () \<Longrightarrow>
     snd (build_plugins (p # ps) ctx) =
       snd (build_plugins ps ((snd (pl_build p ctx))\<lparr>pc_manifests := pc_manifests (snd (pl_build p ctx)) @ [pl_manifest p]\<rparr>))"
  by (cases "pl_build p ctx") simp

lemma postgres_step:
  assumes "fst (build_postgres_store env ctx) = Ok ()"
  shows "ctx_get TStore (snd (build_postgres_store env ctx)) =
      (if postgres_enabled (stores_postgres (plugins_store (plugins_of ctx)))
       then Some (StoreComp (PostgresObj (stores_postgres (plugins_store (plugins_of ctx))))) else ctx_get TStore ctx)"
    and "ctx_get TDb (snd (build_postgres_store env ctx)) =
      (if postgres_enabled (stores_postgres (plugins_store (plugins_of ctx)))
       then Some (DbComp (PostgresObj (stores_postgres (plugins_store (plugins_of ctx))))) else ctx_get TDb ctx)"
  using assms
  by (auto simp: build_postgres_store_def register_store_def connect_or_warn_def Let_def ctx_simps ctx_map.look_put
      split: sum.splits fault.splits if_splits)

lemma mysql_step:
  assumes "fst (build_mysql_store env ctx) = Ok ()"
  shows "ctx_get TStore (snd (build_mysql_store env ctx)) =
      (if mysql_enabled (stores_mysql (plugins_store (plugins_of ctx)))
       then Some (StoreComp (MysqlObj (stores_mysql (plugins_store (plugins_of ctx))))) else ctx_get TStore ctx)"
    and "ctx_get TDb (snd (build_mysql_store env ctx)) =
      (if mysql_enabled (stores_mysql (plugins_store (plugins_of ctx)))
       then Some (DbComp (MysqlObj (stores_mysql (plugins_store (plugins_of ctx))))) else ctx_get TDb ctx)"
  using assms
  by (auto simp: build_mysql_store_def register_store_def connect_or_warn_def Let_def ctx_simps ctx_map.look_put
      split: sum.splits fault.splits if_splits)

lemma sqlite_step:
  assumes "fst (build_sqlite_store env ctx) = Ok ()"
  shows "ctx_get TStore (snd (build_sqlite_store env ctx)) =
      (if sqlite_enabled (stores_sqlite (plugins_store (plugins_of ctx)))
       then Some (StoreComp (SqliteObj (stores_sqlite (plugins_store (plugins_of ctx))))) else ctx_get TStore ctx)"
    and "ctx_get TDb (snd (build_sqlite_store env ctx)) =
      (if sqlite_enabled (stores_sqlite (plugins_store (plugins_of ctx)))
       then Some (DbComp (SqliteObj (stores_sqlite (plugins_store (plugins_of ctx))))) else ctx_get TDb ctx)"
  using assms
  by (auto simp: build_sqlite_store_def register_store_def connect_or_warn_def Let_def ctx_simps ctx_map.look_put
      split: sum.splits fault.splits if_splits)

lemma frames_config: "frames T b \<Longrightarrow> pc_config (snd (b ctx)) = pc_config ctx"
  by (simp add: frames_def)

lemmas builtin_config = builtin_frames [THEN frames_config]

lemma store_stretch:
  assumes "fst (build_plugins (store_plugins env) ctx) = Ok ()" and "ctx_get TStore ctx = None" and "ctx_get TDb ctx = None"
  shows "ctx_get TStore (snd (build_plugins (store_plugins env) ctx)) =
      map_option StoreComp (expected_store (plugins_of ctx)) \<and>
    ctx_get TDb (snd (build_plugins (store_plugins env) ctx)) =
      map_option DbComp (expected_store (plugins_of ctx))"
  using assms
  by (simp add: store_plugins_def plugin_defs build_ok_Cons build_snd_Cons postgres_step mysql_step sqlite_step builtin_config
      ctx_simps expected_store_def Let_def del: build_plugins.simps(2))

lemma bus_stretch:
  assumes "fst (build_plugins (mq_plugins env) ctx) = Ok ()" and "ctx_get TMessageBus ctx = None"
  shows "ctx_get TMessageBus (snd (build_plugins (mq_plugins env) ctx)) =
    map_option BusComp (expected_bus (plugins_of ctx))"
  using assms
  by (auto simp: mq_plugins_def plugin_defs build_memory_bus_def build_nats_bus_def build_stream_bus_def
      register_bus_def expected_bus_def Let_def ctx_simps ctx_map.look_put
      split: sum.splits fault.splits if_splits mq_backend.splits)

lemma limiter_stretch:
  assumes "fst (build_plugins (limiter_plugins env) ctx) = Ok ()" and "ctx_get TRateLimiter ctx = None"
  shows "ctx_get TRateLimiter (snd (build_plugins (limiter_plugins env) ctx)) =
    map_option LimiterComp (expected_limiter (plugins_of ctx))"
  using assms
  by (auto simp: limiter_plugins_def plugin_defs build_memory_limiter_def build_redis_limiter_def
      expected_limiter_def connect_or_warn_def Let_def ctx_simps ctx_map.look_put
      split: sum.splits fault.splits if_splits)

lemma keys_stretch:
  "ctx_get TKeyProvider (snd (build_plugins (take 2 (crypto_plugins env)) ctx)) =
    Some (KeysComp (expected_keys (plugins_of ctx)))"
  by (simp add: crypto_plugins_def plugin_defs build_env_keys_def build_file_keys_def expected_keys_def Let_def
      ctx_simps ctx_map.look_put)

lemma tail_split:
  "tail_plugins env = take 2 (tail_plugins env) @ take 2 (drop 2 (tail_plugins env)) @ drop 4 (tail_plugins env)"
  "tail_plugins env = take 4 (tail_plugins env) @ drop 4 (tail_plugins env)"
  by (simp_all add: tail_plugins_def plugin_defs)

lemma lock_step:
  assumes "fst (build_lock env ctx) = Ok ()" and "ctx_get TLock ctx = None"
  shows "ctx_get TLock (snd (build_lock env ctx)) = map_option LockComp (expected_lock (plugins_of ctx))"
  using assms
  by (cases "pe_lock_connect env (locks_redis (plugins_lock (plugins_of ctx)))")
    (simp_all add: build_lock_def expected_lock_def Let_def ctx_map.look_put split: if_split_asm)

lemma lock_keeps: "t \<noteq> TLock \<Longrightarrow> ctx_get t (snd (build_lock env ctx)) = ctx_get t ctx"
  using frames_lock by (simp add: frames_def)

lemma timer_off: "\<not> timers_enabled (plugins_timer (plugins_of ctx)) \<Longrightarrow> build_simple_timer ctx = (Ok (), ctx)"
  by (simp add: build_simple_timer_def)

lemma timer_on:
  assumes "timers_enabled (plugins_timer (plugins_of ctx))" "ctx_get TTimerEngineRegistry ctx = None"
    and "ctx_get TLock ctx = map_option LockComp l"
  shows "build_simple_timer ctx =
    (Ok (), ctx_set (TimersComp [(''simple'', SimpleTimerObj (timers_simple (plugins_timer (plugins_of ctx))) l)])
       (ctx_set (TimersComp []) ctx))"
proof -
  have e: "ensure_timer_registry ctx = ctx_set (TimersComp []) ctx"
    by (simp add: ensure_timer_registry_def assms(2))
  have l: "ctx_get TLock (ctx_set (TimersComp []) ctx) = map_option LockComp l"
    by (simp add: ctx_map.look_put assms(3))
  have r: "ctx_get TTimerEngineRegistry (ctx_set (TimersComp []) ctx) = Some (TimersComp [])"
    by (simp add: ctx_map.look_put)
  show ?thesis using assms(1)
    by (cases l) (simp_all add: build_simple_timer_def e l add_timer_engine_def r register_named_def
        hm_contains_def hm_insert_new)
qed

lemma timer_step:
  assumes "ctx_get TTimerEngineRegistry ctx = None"
    and "ctx_get TLock ctx = map_option LockComp (expected_lock (plugins_of ctx))"
  shows "fst (build_simple_timer ctx) = Ok ()"
    and "ctx_get TTimerEngineRegistry (snd (build_simple_timer ctx)) = map_option TimersComp (expected_timers (plugins_of ctx))"
    and "ctx_get TLock (snd (build_simple_timer ctx)) = map_option LockComp (expected_lock (plugins_of ctx))"
  using timer_on [OF _ assms] timer_off [of ctx] assms
  by (cases "timers_enabled (plugins_timer (plugins_of ctx))"; simp add: expected_timers_def ctx_map.look_put)+

lemma lock_stretch:
  assumes "fst (build_plugins (take 2 (drop 2 (tail_plugins env))) ctx) = Ok ()"
    and "ctx_get TLock ctx = None" and "ctx_get TTimerEngineRegistry ctx = None"
  shows "ctx_get TLock (snd (build_plugins (take 2 (drop 2 (tail_plugins env))) ctx)) =
      map_option LockComp (expected_lock (plugins_of ctx)) \<and>
    ctx_get TTimerEngineRegistry (snd (build_plugins (take 2 (drop 2 (tail_plugins env))) ctx)) =
      map_option TimersComp (expected_timers (plugins_of ctx))"
  using assms
  by (simp add: tail_plugins_def plugin_defs build_ok_Cons build_snd_Cons lock_step lock_keeps timer_step builtin_config
      ctx_simps del: build_plugins.simps(2))

lemma watch_stretch:
  assumes "fst (build_plugins (drop 4 (tail_plugins env)) ctx) = Ok ()"
    and "ctx_get TAuditLogger ctx = None" and "ctx_get TConfigWatcher ctx = None"
  shows "ctx_get TAuditLogger (snd (build_plugins (drop 4 (tail_plugins env)) ctx)) =
      map_option AuditComp (expected_audit (plugins_of ctx)) \<and>
    ctx_get TConfigWatcher (snd (build_plugins (drop 4 (tail_plugins env)) ctx)) =
      map_option WatcherComp (expected_watcher (rinfra_config_path (pc_config ctx)) (plugins_of ctx))"
  using assms
  by (auto simp: tail_plugins_def plugin_defs build_file_audit_def build_i18n_def build_config_watch_def
      expected_audit_def expected_watcher_def Let_def ctx_simps ctx_map.look_put
      split: sum.splits fault.splits if_splits)

section \<open>The condition for starting up\<close>

text \<open>No connection panics.\<close>

definition no_panic :: "'a res \<Rightarrow> bool" where
  "no_panic r \<longleftrightarrow> (\<forall>m. r \<noteq> Inl (Panic m))"

definition worked :: "'a res \<Rightarrow> bool" where
  "worked r \<longleftrightarrow> (\<exists>v. r = Ok v)"

definition caches_fine :: "plugin_env \<Rightarrow> plugin_configs \<Rightarrow> bool" where
  "caches_fine env pc \<longleftrightarrow>
     (let red = caches_redis (plugins_cache pc)
      in redis_cache_enabled red \<and> redis_cache_required red \<longrightarrow> worked (pe_cache_connect env red))"

definition stores_fine :: "plugin_env \<Rightarrow> plugin_configs \<Rightarrow> bool" where
  "stores_fine env pc \<longleftrightarrow>
     (let s = plugins_store pc; pg = stores_postgres s; my = stores_mysql s; lite = stores_sqlite s
      in (postgres_enabled pg \<and> postgres_required pg \<longrightarrow> worked (pe_store_connect env (PostgresObj pg))) \<and>
         (mysql_enabled my \<and> mysql_required my \<longrightarrow> worked (pe_store_connect env (MysqlObj my))) \<and>
         (sqlite_enabled lite \<and> sqlite_required lite \<longrightarrow> worked (pe_store_connect env (SqliteObj lite))))"

definition bus_fine :: "plugin_env \<Rightarrow> plugin_configs \<Rightarrow> bool" where
  "bus_fine env pc \<longleftrightarrow>
     (let m = plugins_mq pc
      in (mqs_backend m = Nats \<longrightarrow> worked (pe_nats_connect env (mqs_nats m))) \<and>
         (mqs_backend m = RedisStreams \<longrightarrow> worked (pe_stream_connect env (mqs_redis_streams m))))"

definition limiter_fine :: "plugin_env \<Rightarrow> plugin_configs \<Rightarrow> bool" where
  "limiter_fine env pc \<longleftrightarrow>
     (let r = rate_limits_redis (plugins_ratelimit pc)
      in redis_rate_limit_enabled r \<and> redis_rate_limit_required r \<longrightarrow> worked (pe_limiter_connect env r))"

text \<open>AES-GCM needs a key of 32 bytes in the environment and the file key provider switched off.\<close>

definition crypto_fine :: "plugin_env \<Rightarrow> plugin_configs \<Rightarrow> bool" where
  "crypto_fine env pc \<longleftrightarrow>
     (let c = plugins_crypto pc
      in aes_gcm_enabled (cryptos_aesgcm c) \<longrightarrow>
         \<not> file_key_enabled (cryptos_file c) \<and>
         (case pe_vars env (aes_gcm_key_env_var (cryptos_aesgcm c)) of None \<Rightarrow> False | Some v \<Rightarrow> length v = 32))"

definition rest_fine :: "plugin_env \<Rightarrow> plugin_configs \<Rightarrow> bool" where
  "rest_fine env pc \<longleftrightarrow>
     (http_client_enabled (plugins_http_client pc) \<longrightarrow> worked (pe_client_new env (plugins_http_client pc))) \<and>
     (locks_enabled (plugins_lock pc) \<and> locks_backend (plugins_lock pc) = ''redis'' \<longrightarrow>
        worked (pe_lock_connect env (locks_redis (plugins_lock pc)))) \<and>
     (i18n_enabled (plugins_i18n pc) \<longrightarrow>
        worked (i18n_load (pe_yaml env) (pe_yaml_debug env) (pe_i18n_dir env (i18n_dir (plugins_i18n pc)))
          (i18n_default_locale (plugins_i18n pc))))"

definition can_start :: "plugin_env \<Rightarrow> plugin_configs \<Rightarrow> bool" where
  "can_start env pc \<longleftrightarrow>
     caches_fine env pc \<and> stores_fine env pc \<and> bus_fine env pc \<and> limiter_fine env pc \<and>
     crypto_fine env pc \<and> rest_fine env pc"

lemma worked_simps [simp]: "worked (Inr v)" "\<not> worked (Inl e)"
  by (simp_all add: worked_def)

definition env_calm :: "plugin_env \<Rightarrow> bool" where
  "env_calm env \<longleftrightarrow>
     (\<forall>c. no_panic (pe_cache_connect env c)) \<and> (\<forall>s. no_panic (pe_store_connect env s)) \<and>
     (\<forall>l. no_panic (pe_limiter_connect env l))"

lemma connect_ok_iff:
  "no_panic r \<Longrightarrow> fst (connect_or_warn r req msg rest ctx) = Ok () \<longleftrightarrow> (req \<longrightarrow> worked r)"
  by (auto simp: connect_or_warn_def no_panic_def split: sum.splits fault.splits)

lemma group_config:
  "pc_config (snd (build_plugins (codec_plugins env) ctx)) = pc_config ctx"
  "pc_config (snd (build_plugins (cache_plugins env) ctx)) = pc_config ctx"
  "pc_config (snd (build_plugins (mq_plugins env) ctx)) = pc_config ctx"
  "pc_config (snd (build_plugins (store_plugins env) ctx)) = pc_config ctx"
  "pc_config (snd (build_plugins (limiter_plugins env) ctx)) = pc_config ctx"
  "pc_config (snd (build_plugins (crypto_plugins env) ctx)) = pc_config ctx"
  "pc_config (snd (build_plugins (script_plugins env) ctx)) = pc_config ctx"
  "pc_config (snd (build_plugins (server_plugins env) ctx)) = pc_config ctx"
  by (rule build_plugins_frame [of "{TOther []}", THEN conjunct1];
      auto simp: undisturbed_def plugin_lists intro!: undisturbed_by)+

text \<open>The types the script and tail plugins start from are not touched before them.\<close>

lemma group_keeps:
  assumes "t = TScriptEngineRegistry \<or> t = TLock \<or> t = TTimerEngineRegistry"
  shows "ctx_get t (snd (build_plugins (codec_plugins env) ctx)) = ctx_get t ctx"
    and "ctx_get t (snd (build_plugins (cache_plugins env) ctx)) = ctx_get t ctx"
    and "ctx_get t (snd (build_plugins (mq_plugins env) ctx)) = ctx_get t ctx"
    and "ctx_get t (snd (build_plugins (store_plugins env) ctx)) = ctx_get t ctx"
    and "ctx_get t (snd (build_plugins (limiter_plugins env) ctx)) = ctx_get t ctx"
    and "ctx_get t (snd (build_plugins (crypto_plugins env) ctx)) = ctx_get t ctx"
    and "ctx_get t (snd (build_plugins (server_plugins env) ctx)) = ctx_get t ctx"
  by (rule build_plugins_frame [of "{t}", THEN conjunct2, THEN conjunct2, THEN bspec];
      use assms in \<open>auto simp: undisturbed_def plugin_lists intro!: undisturbed_by\<close>)+

lemma script_keeps:
  assumes "t = TLock \<or> t = TTimerEngineRegistry"
  shows "ctx_get t (snd (build_plugins (script_plugins env) ctx)) = ctx_get t ctx"
  by (rule build_plugins_frame [of "{t}", THEN conjunct2, THEN conjunct2, THEN bspec];
      use assms in \<open>auto simp: undisturbed_def plugin_lists intro!: undisturbed_by\<close>)+

lemma codecs_ok: "pc_codecs ctx = codec_registry_new \<Longrightarrow> fst (build_plugins (codec_plugins env) ctx) = Ok ()"
  by (simp add: codec_plugins_def plugin_defs build_json_codec_def build_msgpack_codec_def build_protobuf_codec_def
      add_codec_def codec_register_def codec_registry_new_def json_codec_def msgpack_codec_def protobuf_codec_def Let_def)

lemma cache_builds:
  "fst (build_memory_cache ctx) = Ok ()"
  "env_calm env \<Longrightarrow> fst (build_redis_cache env ctx) = Ok () \<longleftrightarrow> caches_fine env (plugins_of ctx)"
  "env_calm env \<Longrightarrow> fst (build_multilevel_cache env ctx) = Ok ()"
  by (simp_all add: build_memory_cache_def build_redis_cache_def build_multilevel_cache_def Let_def connect_ok_iff
      env_calm_def caches_fine_def)

lemma caches_ok:
  "env_calm env \<Longrightarrow> fst (build_plugins (cache_plugins env) ctx) = Ok () \<longleftrightarrow> caches_fine env (plugins_of ctx)"
  by (simp add: cache_plugins_def plugin_defs plugin_new_def build_ok_Cons builtin_config cache_builds ctx_simps
      del: build_plugins.simps(2))

lemma stores_ok:
  "env_calm env \<Longrightarrow> fst (build_plugins (store_plugins env) ctx) = Ok () \<longleftrightarrow> stores_fine env (plugins_of ctx)"
proof -
  assume "env_calm env"
  then have pg: "fst (build_postgres_store env c) = Ok () \<longleftrightarrow>
      (postgres_enabled (stores_postgres (plugins_store (plugins_of c))) \<and>
       postgres_required (stores_postgres (plugins_store (plugins_of c))) \<longrightarrow>
       worked (pe_store_connect env (PostgresObj (stores_postgres (plugins_store (plugins_of c))))))"
    and my: "fst (build_mysql_store env c) = Ok () \<longleftrightarrow>
      (mysql_enabled (stores_mysql (plugins_store (plugins_of c))) \<and>
       mysql_required (stores_mysql (plugins_store (plugins_of c))) \<longrightarrow>
       worked (pe_store_connect env (MysqlObj (stores_mysql (plugins_store (plugins_of c))))))"
    and lite: "fst (build_sqlite_store env c) = Ok () \<longleftrightarrow>
      (sqlite_enabled (stores_sqlite (plugins_store (plugins_of c))) \<and>
       sqlite_required (stores_sqlite (plugins_store (plugins_of c))) \<longrightarrow>
       worked (pe_store_connect env (SqliteObj (stores_sqlite (plugins_store (plugins_of c))))))" for c
    by (simp_all add: build_postgres_store_def build_mysql_store_def build_sqlite_store_def Let_def connect_ok_iff env_calm_def)
  show ?thesis
    by (simp add: store_plugins_def plugin_defs build_ok_Cons builtin_config pg my lite stores_fine_def Let_def
        del: build_plugins.simps(2))
qed

lemma bus_ok: "fst (build_plugins (mq_plugins env) ctx) = Ok () \<longleftrightarrow> bus_fine env (plugins_of ctx)"
proof -
  have "fst (build_memory_bus c) = Ok ()" for c
    by (simp add: build_memory_bus_def Let_def)
  moreover have "fst (build_nats_bus env c) = Ok () \<longleftrightarrow> (mqs_backend (plugins_mq (plugins_of c)) = Nats \<longrightarrow>
      worked (pe_nats_connect env (mqs_nats (plugins_mq (plugins_of c)))))" for c
    by (auto simp: build_nats_bus_def Let_def split: sum.splits)
  moreover have "fst (build_stream_bus env c) = Ok () \<longleftrightarrow> (mqs_backend (plugins_mq (plugins_of c)) = RedisStreams \<longrightarrow>
      worked (pe_stream_connect env (mqs_redis_streams (plugins_mq (plugins_of c)))))" for c
    by (auto simp: build_stream_bus_def Let_def split: sum.splits)
  ultimately show ?thesis
    by (simp add: mq_plugins_def plugin_defs build_ok_Cons builtin_config bus_fine_def Let_def del: build_plugins.simps(2))
qed

lemma limiter_ok:
  "env_calm env \<Longrightarrow> fst (build_plugins (limiter_plugins env) ctx) = Ok () \<longleftrightarrow> limiter_fine env (plugins_of ctx)"
  by (simp add: limiter_plugins_def plugin_defs build_ok_Cons builtin_config del: build_plugins.simps(2))
    (simp add: build_memory_limiter_def build_redis_limiter_def Let_def connect_ok_iff env_calm_def limiter_fine_def ctx_simps)

lemma servers_ok: "fst (build_plugins (server_plugins env) ctx) = Ok ()"
  by (simp add: server_plugins_def plugin_defs build_grpc_def build_trpc_def)

text \<open>AES-GCM finds the provider the plugins before it have set.\<close>

lemma aesgcm_ok:
  assumes "ctx_get TKeyProvider ctx = Some (KeysComp (expected_keys (plugins_of ctx)))"
  shows "fst (build_aesgcm env ctx) = Ok () \<longleftrightarrow> crypto_fine env (plugins_of ctx)"
proof -
  let ?c = "plugins_crypto (plugins_of ctx)"
  show ?thesis
  proof (cases "file_key_enabled (cryptos_file ?c)")
    case True
    have "\<exists>e. provider_key env (FileKeysObj (cryptos_file ?c)) v = Inl (Fail e)" for v
      by (simp add: provider_key_def file_get_key_def)
    then obtain e where "provider_key env (FileKeysObj (cryptos_file ?c)) (aes_gcm_key_env_var (cryptos_aesgcm ?c)) = Inl (Fail e)"
      by blast
    with True show ?thesis
      unfolding build_aesgcm_def Let_def by (simp add: assms expected_keys_def crypto_fine_def Let_def)
  next
    case False
    then have k: "ctx_get TKeyProvider ctx = Some (KeysComp EnvKeysObj)"
      using assms by (simp add: expected_keys_def Let_def)
    show ?thesis
      using False unfolding build_aesgcm_def Let_def k
      by (cases "pe_vars env (aes_gcm_key_env_var (cryptos_aesgcm ?c))")
        (simp_all add: provider_key_def env_get_key_def aesgcm_new_def crypto_fine_def Let_def)
  qed
qed

lemma key_steps:
  "fst (build_env_keys c) = Ok ()" "fst (build_file_keys c) = Ok ()" "fst (build_rotating_keys c) = Ok ()"
  "ctx_get TKeyProvider (snd (build_env_keys c)) = Some (KeysComp EnvKeysObj)"
  "ctx_get TKeyProvider (snd (build_file_keys c)) =
     (if file_key_enabled (cryptos_file (plugins_crypto (plugins_of c)))
      then Some (KeysComp (FileKeysObj (cryptos_file (plugins_crypto (plugins_of c))))) else ctx_get TKeyProvider c)"
  "ctx_get TKeyProvider (snd (build_rotating_keys c)) = ctx_get TKeyProvider c"
  by (simp_all add: build_env_keys_def build_file_keys_def build_rotating_keys_def Let_def ctx_map.look_put)

lemma crypto_ok: "fst (build_plugins (crypto_plugins env) ctx) = Ok () \<longleftrightarrow> crypto_fine env (plugins_of ctx)"
  by (simp add: crypto_plugins_def plugin_defs build_ok_Cons key_steps builtin_config aesgcm_ok ctx_simps expected_keys_def Let_def
      del: build_plugins.simps(2))

text \<open>The engines registered so far.\<close>

definition engines :: "plugin_context \<Rightarrow> (string, script_engine) hashmap option" where
  "engines ctx =
     (case ctx_get TScriptEngineRegistry ctx of None \<Rightarrow> Some [] | Some (ScriptEnginesComp r) \<Rightarrow> Some r | _ \<Rightarrow> None)"

lemma add_engine:
  assumes "engines ctx = Some r" and "hm_get r (se_name e) = None"
  shows "fst (add_script_engine e (ensure_script_registry ctx)) = Ok () \<and>
    engines (snd (add_script_engine e (ensure_script_registry ctx))) = Some (r @ [(se_name e, e)])"
proof -
  have "ctx_get TScriptEngineRegistry (ensure_script_registry ctx) = Some (ScriptEnginesComp r)"
    using assms(1) by (auto simp: engines_def ensure_script_registry_def ctx_map.look_put split: option.splits component.splits)
  with assms(2) show ?thesis
    by (simp add: add_script_engine_def script_register_def register_named_def hm_contains_def hm_insert_new Let_def
        engines_def ctx_map.look_put)
qed

text \<open>A script plugin registers its engine under a new name, or does nothing.\<close>

lemma script_step:
  assumes "engines ctx = Some r" and "hm_get r n = None"
    and "build ctx = (if \<not> on then (Ok (), ctx) else add_script_engine \<lparr>se_name = n, se_execute = f\<rparr> (ensure_script_registry ctx))"
  shows "fst (build ctx) = Ok () \<and>
    engines (snd (build ctx)) = Some (r @ (if on then [(n, \<lparr>se_name = n, se_execute = f\<rparr>)] else []))"
  using add_engine [of ctx r "\<lparr>se_name = n, se_execute = f\<rparr>"] assms by simp

definition expected_engines :: "plugin_env \<Rightarrow> plugin_configs \<Rightarrow> (string \<times> script_engine) list" where
  "expected_engines env pc =
     (let s = plugins_script pc
      in (if wasm_script_enabled (scripts_wasm s) then [(''wasm'', \<lparr>se_name = ''wasm'', se_execute = pe_wasm env (scripts_wasm s)\<rparr>)] else []) @
         (if python_script_enabled (scripts_python s) then [(''python'', \<lparr>se_name = ''python'', se_execute = pe_python env (scripts_python s)\<rparr>)] else []) @
         (if js_script_enabled (scripts_js s) then [(''js'', \<lparr>se_name = ''js'', se_execute = pe_js env (scripts_js s)\<rparr>)] else []))"

lemma engines_manifests [simp]: "engines (ctx\<lparr>pc_manifests := ms\<rparr>) = engines ctx"
  by (simp add: engines_def ctx_simps)

lemma scripts_ok:
  assumes "ctx_get TScriptEngineRegistry ctx = None"
  shows "fst (build_plugins (script_plugins env) ctx) = Ok () \<and>
    engines (snd (build_plugins (script_plugins env) ctx)) = Some (expected_engines env (plugins_of ctx))"
proof -
  let ?s = "plugins_script (plugins_of ctx)"
  let ?m1 = "\<lambda>c n d. c\<lparr>pc_manifests := pc_manifests c @ [manifest_new n ''0.1.0'' d]\<rparr>"
  let ?c1 = "?m1 (snd (build_wasm_engine env ctx)) ''script.wasm'' ''WASM script engine''"
  let ?c2 = "?m1 (snd (build_python_engine env ?c1)) ''script.python'' ''Python script engine''"
  have cfg: "pc_config ?c1 = pc_config ctx" "pc_config ?c2 = pc_config ctx" by (simp_all add: builtin_config)
  have start: "engines ctx = Some []" using assms by (simp add: engines_def)
  note w = script_step [OF start, of "''wasm''" "build_wasm_engine env" "wasm_script_enabled (scripts_wasm ?s)" "pe_wasm env (scripts_wasm ?s)"]
  have w: "fst (build_wasm_engine env ctx) = Ok ()" "engines ?c1 = Some (if wasm_script_enabled (scripts_wasm ?s)
      then [(''wasm'', \<lparr>se_name = ''wasm'', se_execute = pe_wasm env (scripts_wasm ?s)\<rparr>)] else [])"
    using w by (simp_all add: build_wasm_engine_def Let_def)
  note p = script_step [OF w(2), of "''python''" "build_python_engine env" "python_script_enabled (scripts_python ?s)" "pe_python env (scripts_python ?s)"]
  have p: "fst (build_python_engine env ?c1) = Ok ()" "engines ?c2 = Some ((if wasm_script_enabled (scripts_wasm ?s)
      then [(''wasm'', \<lparr>se_name = ''wasm'', se_execute = pe_wasm env (scripts_wasm ?s)\<rparr>)] else []) @
      (if python_script_enabled (scripts_python ?s)
      then [(''python'', \<lparr>se_name = ''python'', se_execute = pe_python env (scripts_python ?s)\<rparr>)] else []))"
    using p cfg(1) by (simp_all add: build_python_engine_def Let_def hm_get_Cons)
  note j = script_step [OF p(2), of "''js''" "build_js_engine env" "js_script_enabled (scripts_js ?s)" "pe_js env (scripts_js ?s)"]
  have j: "fst (build_js_engine env ?c2) = Ok ()"
    "engines (snd (build_js_engine env ?c2)) = Some (expected_engines env (plugins_of ctx))"
    using j cfg(2) by (simp_all add: build_js_engine_def Let_def hm_get_Cons expected_engines_def)
  have m: "pl_manifest (plugin_new n d b) = manifest_new n ''0.1.0'' d" for n d b
    by (simp add: plugin_new_def)
  show ?thesis
    using w(1) p(1) j by (simp add: script_plugins_def plugin_defs build_ok_Cons build_snd_Cons m del: build_plugins.simps(2))
qed

lemma tail_steps:
  "fst (build_local_files c) = Ok ()" "fst (build_file_audit c) = Ok ()" "fst (build_config_watch c) = Ok ()"
  "fst (build_http_client env c) = Ok () \<longleftrightarrow>
     (http_client_enabled (plugins_http_client (plugins_of c)) \<longrightarrow> worked (pe_client_new env (plugins_http_client (plugins_of c))))"
  "fst (build_lock env c) = Ok () \<longleftrightarrow>
     (locks_enabled (plugins_lock (plugins_of c)) \<and> locks_backend (plugins_lock (plugins_of c)) = ''redis'' \<longrightarrow>
        worked (pe_lock_connect env (locks_redis (plugins_lock (plugins_of c)))))"
  "fst (build_i18n env c) = Ok () \<longleftrightarrow>
     (i18n_enabled (plugins_i18n (plugins_of c)) \<longrightarrow>
        worked (i18n_load (pe_yaml env) (pe_yaml_debug env) (pe_i18n_dir env (i18n_dir (plugins_i18n (plugins_of c))))
          (i18n_default_locale (plugins_i18n (plugins_of c)))))"
  by (simp_all add: build_local_files_def build_file_audit_def build_config_watch_def build_http_client_def build_lock_def
      build_i18n_def Let_def split: sum.splits)

lemma tail_keeps:
  "t \<noteq> TFileStore \<Longrightarrow> ctx_get t (snd (build_local_files c)) = ctx_get t c"
  "t \<noteq> THttpClient \<Longrightarrow> ctx_get t (snd (build_http_client env c)) = ctx_get t c"
  using frames_local_files frames_http_client by (simp_all add: frames_def)

lemma timer_fine:
  assumes "ctx_get TTimerEngineRegistry ctx = None" and "ctx_get TLock ctx = map_option LockComp l"
  shows "fst (build_simple_timer ctx) = Ok ()"
  using timer_on [OF _ assms] timer_off [of ctx] by (cases "timers_enabled (plugins_timer (plugins_of ctx))") simp_all

lemma lock_some:
  assumes "ctx_get TLock ctx = None"
  shows "\<exists>l. ctx_get TLock (snd (build_lock env ctx)) = map_option LockComp l"
proof (cases "fst (build_lock env ctx) = Ok ()")
  case True
  with lock_step [OF True assms] show ?thesis by blast
next
  case False
  then have "snd (build_lock env ctx) = ctx"
    by (auto simp: build_lock_def Let_def split: sum.splits if_splits)
  with assms show ?thesis by (auto intro: exI [of _ None])
qed

lemma tail_ok:
  assumes "ctx_get TLock ctx = None" and "ctx_get TTimerEngineRegistry ctx = None"
  shows "fst (build_plugins (tail_plugins env) ctx) = Ok () \<longleftrightarrow> rest_fine env (plugins_of ctx)"
proof -
  have t: "fst (build_simple_timer (snd (build_lock env c)\<lparr>pc_manifests := ms\<rparr>)) = Ok ()"
    if none: "ctx_get TLock c = None" "ctx_get TTimerEngineRegistry c = None" for c ms
  proof -
    obtain l where "ctx_get TLock (snd (build_lock env c)) = map_option LockComp l"
      using lock_some [OF none(1)] by blast
    then show ?thesis by (intro timer_fine) (simp_all add: ctx_simps lock_keeps none)
  qed
  show ?thesis
    by (simp add: tail_plugins_def plugin_defs build_ok_Cons tail_steps t tail_keeps builtin_config ctx_simps assms rest_fine_def
        del: build_plugins.simps(2))
qed

lemma context_new_empty: "ctx_get t (context_new cfg) = None" "pc_codecs (context_new cfg) = codec_registry_new"
  "pc_config (context_new cfg) = cfg" "ctx_ok (context_new cfg)"
  by (simp_all add: context_new_def ctx_get_def tm_get_def ctx_ok_def tm_ok_Nil)

lemma build_all_ok: "fst (build_all ps reg ctx) = Ok () \<longleftrightarrow> fst (build_plugins ps ctx) = Ok ()"
  by (auto simp: build_all_def split: prod.splits sum.splits)

section \<open>The components\<close>

text \<open>The state handlers see after the built-in plugins are built.\<close>

definition started :: "plugin_env \<Rightarrow> rinfra_config \<Rightarrow> instant \<Rightarrow> app_state" where
  "started env cfg now =
     fst (into_app_parts (snd (snd (build_all (builtin_plugins env) registry_new (context_new cfg)))) now)"

lemma undisturbed_all: "undisturbed {TOther []} (builtin_plugins env)"
  by (auto simp: builtin_plugins_def undisturbed_def plugin_lists intro!: undisturbed_by)

lemma started_get:
  assumes "t \<noteq> TCodecRegistry" and "fst (build_plugins (builtin_plugins env) (context_new cfg)) = Ok ()"
  shows "state_get t (started env cfg now) = ctx_get t (snd (build_plugins (builtin_plugins env) (context_new cfg)))"
proof -
  let ?c = "snd (build_plugins (builtin_plugins env) (context_new cfg))"
  have ok: "ctx_ok ?c"
    using build_plugins_frame [OF undisturbed_all] context_new_empty(4) by blast
  have "snd (snd (build_all (builtin_plugins env) registry_new (context_new cfg))) = ?c\<lparr>pc_manifests := [], pc_hooks := []\<rparr>"
    using assms(2) by (auto simp: build_all_def split: prod.splits sum.splits)
  then show ?thesis
    using ok assms(1) into_app_parts_get [of "?c\<lparr>pc_manifests := [], pc_hooks := []\<rparr>" t now]
    by (simp add: started_def ctx_ok_def ctx_get_def split: option.splits)
qed

text \<open>A stretch of the list whose types are touched nowhere else.\<close>

lemma decided_by:
  assumes "fst (build_plugins (builtin_plugins env) (context_new cfg)) = Ok ()"
    and "builtin_plugins env = ps @ qs @ rs" and "undisturbed U ps" and "undisturbed U rs"
    and "\<And>ctx. pc_config ctx = cfg \<Longrightarrow> \<forall>t\<in>U. ctx_get t ctx = None \<Longrightarrow> fst (build_plugins qs ctx) = Ok () \<Longrightarrow>
           \<forall>t\<in>U. ctx_get t (snd (build_plugins qs ctx)) = f t"
    and "t \<in> U" and "t \<noteq> TCodecRegistry"
  shows "state_get t (started env cfg now) = f t"
proof -
  obtain ctx1 where c: "pc_config ctx1 = cfg" "\<And>t. t \<in> U \<Longrightarrow> ctx_get t ctx1 = None"
    "fst (build_plugins qs ctx1) = Ok ()"
    "\<And>t. t \<in> U \<Longrightarrow> ctx_get t (snd (build_plugins (ps @ qs @ rs) (context_new cfg))) = ctx_get t (snd (build_plugins qs ctx1))"
    using build_stretch [OF _ assms(3,4), of qs "context_new cfg"] assms(1,2) by (auto simp: context_new_empty)
  from assms(5) [OF c(1) _ c(3)] c(2) have "\<forall>t\<in>U. ctx_get t (snd (build_plugins qs ctx1)) = f t" by blast
  with c(4) assms(1,2,6,7) show ?thesis by (simp add: started_get)
qed

lemma cache_component:
  assumes "fst (build_plugins (builtin_plugins env) (context_new cfg)) = Ok ()" and "t \<in> {TCache}"
  shows "state_get t (started env cfg now) = map_option CacheComp (expected_cache (rinfra_plugins cfg))"
proof (rule decided_by [OF assms(1) _ _ _ _ assms(2), where f = "\<lambda>t. map_option CacheComp (expected_cache (rinfra_plugins cfg))"])
  show "builtin_plugins env = (codec_plugins env) @ (cache_plugins env) @ (mq_plugins env @ store_plugins env @ limiter_plugins env @ crypto_plugins env @ script_plugins env @ server_plugins env @ tail_plugins env)"
    by (simp add: builtin_plugins_def)
  show "undisturbed {TCache} (codec_plugins env)" "undisturbed {TCache} (mq_plugins env @ store_plugins env @ limiter_plugins env @ crypto_plugins env @ script_plugins env @ server_plugins env @ tail_plugins env)"
    by (auto simp: undisturbed_def plugin_lists intro!: undisturbed_by)
  show "\<forall>t\<in>{TCache}. ctx_get t (snd (build_plugins (cache_plugins env) ctx)) = map_option CacheComp (expected_cache (rinfra_plugins cfg))"
    if "pc_config ctx = cfg" "\<forall>t\<in>{TCache}. ctx_get t ctx = None" "fst (build_plugins (cache_plugins env) ctx) = Ok ()" for ctx
    using cache_stretch [of env ctx] that by auto
qed (use assms(2) in auto)

lemma store_component:
  assumes "fst (build_plugins (builtin_plugins env) (context_new cfg)) = Ok ()" and "t \<in> {TStore, TDb}"
  shows "state_get t (started env cfg now) = map_option (if t = TStore then StoreComp else DbComp) (expected_store (rinfra_plugins cfg))"
proof (rule decided_by [OF assms(1) _ _ _ _ assms(2), where f = "\<lambda>t. map_option (if t = TStore then StoreComp else DbComp) (expected_store (rinfra_plugins cfg))"])
  show "builtin_plugins env = (codec_plugins env @ cache_plugins env @ mq_plugins env) @ (store_plugins env) @ (limiter_plugins env @ crypto_plugins env @ script_plugins env @ server_plugins env @ tail_plugins env)"
    by (simp add: builtin_plugins_def)
  show "undisturbed {TStore, TDb} (codec_plugins env @ cache_plugins env @ mq_plugins env)" "undisturbed {TStore, TDb} (limiter_plugins env @ crypto_plugins env @ script_plugins env @ server_plugins env @ tail_plugins env)"
    by (auto simp: undisturbed_def plugin_lists intro!: undisturbed_by)
  show "\<forall>t\<in>{TStore, TDb}. ctx_get t (snd (build_plugins (store_plugins env) ctx)) = map_option (if t = TStore then StoreComp else DbComp) (expected_store (rinfra_plugins cfg))"
    if "pc_config ctx = cfg" "\<forall>t\<in>{TStore, TDb}. ctx_get t ctx = None" "fst (build_plugins (store_plugins env) ctx) = Ok ()" for ctx
    using store_stretch [of env ctx] that by auto
qed (use assms(2) in auto)

lemma bus_component:
  assumes "fst (build_plugins (builtin_plugins env) (context_new cfg)) = Ok ()" and "t \<in> {TMessageBus}"
  shows "state_get t (started env cfg now) = map_option BusComp (expected_bus (rinfra_plugins cfg))"
proof (rule decided_by [OF assms(1) _ _ _ _ assms(2), where f = "\<lambda>t. map_option BusComp (expected_bus (rinfra_plugins cfg))"])
  show "builtin_plugins env = (codec_plugins env @ cache_plugins env) @ (mq_plugins env) @ (store_plugins env @ limiter_plugins env @ crypto_plugins env @ script_plugins env @ server_plugins env @ tail_plugins env)"
    by (simp add: builtin_plugins_def)
  show "undisturbed {TMessageBus} (codec_plugins env @ cache_plugins env)" "undisturbed {TMessageBus} (store_plugins env @ limiter_plugins env @ crypto_plugins env @ script_plugins env @ server_plugins env @ tail_plugins env)"
    by (auto simp: undisturbed_def plugin_lists intro!: undisturbed_by)
  show "\<forall>t\<in>{TMessageBus}. ctx_get t (snd (build_plugins (mq_plugins env) ctx)) = map_option BusComp (expected_bus (rinfra_plugins cfg))"
    if "pc_config ctx = cfg" "\<forall>t\<in>{TMessageBus}. ctx_get t ctx = None" "fst (build_plugins (mq_plugins env) ctx) = Ok ()" for ctx
    using bus_stretch [of env ctx] that by auto
qed (use assms(2) in auto)

lemma limiter_component:
  assumes "fst (build_plugins (builtin_plugins env) (context_new cfg)) = Ok ()" and "t \<in> {TRateLimiter}"
  shows "state_get t (started env cfg now) = map_option LimiterComp (expected_limiter (rinfra_plugins cfg))"
proof (rule decided_by [OF assms(1) _ _ _ _ assms(2), where f = "\<lambda>t. map_option LimiterComp (expected_limiter (rinfra_plugins cfg))"])
  show "builtin_plugins env = (codec_plugins env @ cache_plugins env @ mq_plugins env @ store_plugins env) @ (limiter_plugins env) @ (crypto_plugins env @ script_plugins env @ server_plugins env @ tail_plugins env)"
    by (simp add: builtin_plugins_def)
  show "undisturbed {TRateLimiter} (codec_plugins env @ cache_plugins env @ mq_plugins env @ store_plugins env)" "undisturbed {TRateLimiter} (crypto_plugins env @ script_plugins env @ server_plugins env @ tail_plugins env)"
    by (auto simp: undisturbed_def plugin_lists intro!: undisturbed_by)
  show "\<forall>t\<in>{TRateLimiter}. ctx_get t (snd (build_plugins (limiter_plugins env) ctx)) = map_option LimiterComp (expected_limiter (rinfra_plugins cfg))"
    if "pc_config ctx = cfg" "\<forall>t\<in>{TRateLimiter}. ctx_get t ctx = None" "fst (build_plugins (limiter_plugins env) ctx) = Ok ()" for ctx
    using limiter_stretch [of env ctx] that by auto
qed (use assms(2) in auto)

lemma keys_component:
  assumes "fst (build_plugins (builtin_plugins env) (context_new cfg)) = Ok ()" and "t \<in> {TKeyProvider}"
  shows "state_get t (started env cfg now) = Some (KeysComp (expected_keys (rinfra_plugins cfg)))"
proof (rule decided_by [OF assms(1) _ _ _ _ assms(2), where f = "\<lambda>t. Some (KeysComp (expected_keys (rinfra_plugins cfg)))"])
  show "builtin_plugins env = (codec_plugins env @ cache_plugins env @ mq_plugins env @ store_plugins env @ limiter_plugins env) @ (take 2 (crypto_plugins env)) @ (drop 2 (crypto_plugins env) @ script_plugins env @ server_plugins env @ tail_plugins env)"
    by (simp add: builtin_plugins_def crypto_plugins_def plugin_defs)
  show "undisturbed {TKeyProvider} (codec_plugins env @ cache_plugins env @ mq_plugins env @ store_plugins env @ limiter_plugins env)" "undisturbed {TKeyProvider} (drop 2 (crypto_plugins env) @ script_plugins env @ server_plugins env @ tail_plugins env)"
    by (auto simp: undisturbed_def plugin_lists intro!: undisturbed_by)
  show "\<forall>t\<in>{TKeyProvider}. ctx_get t (snd (build_plugins (take 2 (crypto_plugins env)) ctx)) = Some (KeysComp (expected_keys (rinfra_plugins cfg)))"
    if "pc_config ctx = cfg" "\<forall>t\<in>{TKeyProvider}. ctx_get t ctx = None" "fst (build_plugins (take 2 (crypto_plugins env)) ctx) = Ok ()" for ctx
    using keys_stretch [of env ctx] that by auto
qed (use assms(2) in auto)

lemma lock_component:
  assumes "fst (build_plugins (builtin_plugins env) (context_new cfg)) = Ok ()" and "t \<in> {TLock, TTimerEngineRegistry}"
  shows "state_get t (started env cfg now) = (if t = TLock then map_option LockComp (expected_lock (rinfra_plugins cfg)) else map_option TimersComp (expected_timers (rinfra_plugins cfg)))"
proof (rule decided_by [OF assms(1) _ _ _ _ assms(2), where f = "\<lambda>t. (if t = TLock then map_option LockComp (expected_lock (rinfra_plugins cfg)) else map_option TimersComp (expected_timers (rinfra_plugins cfg)))"])
  show "builtin_plugins env = (codec_plugins env @ cache_plugins env @ mq_plugins env @ store_plugins env @ limiter_plugins env @ crypto_plugins env @ script_plugins env @ server_plugins env @ take 2 (tail_plugins env)) @ (take 2 (drop 2 (tail_plugins env))) @ (drop 4 (tail_plugins env))"
    by (simp add: builtin_plugins_def tail_plugins_def plugin_defs)
  show "undisturbed {TLock, TTimerEngineRegistry} (codec_plugins env @ cache_plugins env @ mq_plugins env @ store_plugins env @ limiter_plugins env @ crypto_plugins env @ script_plugins env @ server_plugins env @ take 2 (tail_plugins env))" "undisturbed {TLock, TTimerEngineRegistry} (drop 4 (tail_plugins env))"
    by (auto simp: undisturbed_def plugin_lists intro!: undisturbed_by)
  show "\<forall>t\<in>{TLock, TTimerEngineRegistry}. ctx_get t (snd (build_plugins (take 2 (drop 2 (tail_plugins env))) ctx)) = (if t = TLock then map_option LockComp (expected_lock (rinfra_plugins cfg)) else map_option TimersComp (expected_timers (rinfra_plugins cfg)))"
    if "pc_config ctx = cfg" "\<forall>t\<in>{TLock, TTimerEngineRegistry}. ctx_get t ctx = None" "fst (build_plugins (take 2 (drop 2 (tail_plugins env))) ctx) = Ok ()" for ctx
    using lock_stretch [of env ctx] that by auto
qed (use assms(2) in auto)

lemma watch_component:
  assumes "fst (build_plugins (builtin_plugins env) (context_new cfg)) = Ok ()" and "t \<in> {TAuditLogger, TConfigWatcher}"
  shows "state_get t (started env cfg now) = (if t = TAuditLogger then map_option AuditComp (expected_audit (rinfra_plugins cfg)) else map_option WatcherComp (expected_watcher (rinfra_config_path cfg) (rinfra_plugins cfg)))"
proof (rule decided_by [OF assms(1) _ _ _ _ assms(2), where f = "\<lambda>t. (if t = TAuditLogger then map_option AuditComp (expected_audit (rinfra_plugins cfg)) else map_option WatcherComp (expected_watcher (rinfra_config_path cfg) (rinfra_plugins cfg)))"])
  show "builtin_plugins env = (codec_plugins env @ cache_plugins env @ mq_plugins env @ store_plugins env @ limiter_plugins env @ crypto_plugins env @ script_plugins env @ server_plugins env @ take 4 (tail_plugins env)) @ (drop 4 (tail_plugins env)) @ ([])"
    by (simp add: builtin_plugins_def tail_plugins_def plugin_defs)
  show "undisturbed {TAuditLogger, TConfigWatcher} (codec_plugins env @ cache_plugins env @ mq_plugins env @ store_plugins env @ limiter_plugins env @ crypto_plugins env @ script_plugins env @ server_plugins env @ take 4 (tail_plugins env))" "undisturbed {TAuditLogger, TConfigWatcher} ([])"
    by (auto simp: undisturbed_def plugin_lists intro!: undisturbed_by)
  show "\<forall>t\<in>{TAuditLogger, TConfigWatcher}. ctx_get t (snd (build_plugins (drop 4 (tail_plugins env)) ctx)) = (if t = TAuditLogger then map_option AuditComp (expected_audit (rinfra_plugins cfg)) else map_option WatcherComp (expected_watcher (rinfra_config_path cfg) (rinfra_plugins cfg)))"
    if "pc_config ctx = cfg" "\<forall>t\<in>{TAuditLogger, TConfigWatcher}. ctx_get t ctx = None" "fst (build_plugins (drop 4 (tail_plugins env)) ctx) = Ok ()" for ctx
    using watch_stretch [of env ctx] that by auto
qed (use assms(2) in auto)

lemma starts_iff:
  assumes "env_calm env"
  shows "fst (build_all (builtin_plugins env) registry_new (context_new cfg)) = Ok () \<longleftrightarrow>
    can_start env (rinfra_plugins cfg)"
  using assms
  by (simp add: build_all_ok builtin_plugins_def build_ok_append group_config group_keeps script_keeps context_new_empty
      codecs_ok caches_ok bus_ok stores_ok limiter_ok crypto_ok scripts_ok servers_ok tail_ok can_start_def)
    blast

section \<open>Properties\<close>


text \<open>Nothing can be reached: every connection is refused and no environment variable is set.\<close>

definition offline_env :: plugin_env where
  "offline_env =
     \<lparr>pe_serde_json = \<lparr>sl_to_vec = (\<lambda>_. Inl []), sl_from_slice = (\<lambda>_. Inl [])\<rparr>,
      pe_rmp = \<lparr>sl_to_vec = (\<lambda>_. Inl []), sl_from_slice = (\<lambda>_. Inl [])\<rparr>, pe_prost = wire_prost,
      pe_cache_connect = (\<lambda>_. Err CacheConnectionFailed ''redis connect failed: refused''),
      pe_store_connect = (\<lambda>_. Err StoreConnectionFailed ''connect failed: refused''),
      pe_nats_connect = (\<lambda>_. Err Internal ''refused''), pe_stream_connect = (\<lambda>_. Err Internal ''refused''),
      pe_limiter_connect = (\<lambda>_. Err Internal ''refused''), pe_lock_connect = (\<lambda>_. Err Internal ''refused''),
      pe_vars = Map.empty, pe_other_key = (\<lambda>_ _. Err CryptoKeyNotFound []),
      pe_wasm = (\<lambda>_ _ _. Err Internal []), pe_python = (\<lambda>_ _ _. Err Internal []), pe_js = (\<lambda>_ _ _. Err Internal []),
      pe_client_new = (\<lambda>_. Ok ()), pe_i18n_dir = (\<lambda>_. \<lparr>id_exists = False, id_entries = Inl []\<rparr>),
      pe_yaml = (\<lambda>_. Inl []), pe_yaml_debug = (\<lambda>_. [])\<rparr>"

text \<open>The default configuration with both cache levels on; \<open>required\<close> is that of the Redis cache.\<close>

definition two_level_config :: "bool \<Rightarrow> rinfra_config" where
  "two_level_config required =
     (let d = rinfra_config_default ''host''
      in d\<lparr>rinfra_plugins := (rinfra_plugins d)\<lparr>plugins_cache :=
           \<lparr>caches_memory = memory_cache_config_default\<lparr>memory_cache_enabled := True\<rparr>,
            caches_redis = redis_cache_config_default\<lparr>redis_cache_enabled := True, redis_cache_required := required\<rparr>,
            caches_multilevel = multilevel_cache_config_default\<lparr>multilevel_cache_enabled := True\<rparr>\<rparr>\<rparr>\<rparr>)"

lemma offline_calm: "env_calm offline_env"
  by (simp add: env_calm_def offline_env_def no_panic_def)

lemma two_level_can_start: "can_start offline_env (rinfra_plugins (two_level_config required)) \<longleftrightarrow> \<not> required"
  by (simp add: can_start_def caches_fine_def stores_fine_def bus_fine_def limiter_fine_def crypto_fine_def rest_fine_def
      two_level_config_def offline_env_def Let_def rinfra_config_default_def plugin_configs_default_def cache_plugin_configs_default_def memory_cache_config_default_def redis_cache_config_default_def multilevel_cache_config_default_def store_plugin_configs_default_def postgres_config_default_def mysql_config_default_def sqlite_config_default_def mq_plugin_configs_default_def mq_backend_default_def rate_limit_plugin_configs_default_def redis_rate_limit_config_default_def crypto_plugin_configs_default_def aes_gcm_config_default_def http_client_config_default_def lock_plugin_configs_default_def i18n_config_default_def default_false_def default_true_def)


text \<open>
  C32: the components are a function of the configuration: whatever the connections gave, a successful start
  leaves under every type what the specification says. So the two-level cache wins over Redis over
  memory, SQLite over MySQL over PostgreSQL, the Redis limiter over the one in memory, the file key
  provider over the environment; the timer engine has the configured lock and the
  configuration watcher the configured audit log.
\<close>

theorem components_follow_configuration:
  assumes "fst (build_all (builtin_plugins env) registry_new (context_new cfg)) = Ok ()"
  shows "let pc = rinfra_plugins cfg; get = (\<lambda>t. state_get t (started env cfg now)) in
    get TCache = map_option CacheComp (expected_cache pc) \<and>
    get TStore = map_option StoreComp (expected_store pc) \<and>
    get TDb = map_option DbComp (expected_store pc) \<and>
    get TMessageBus = map_option BusComp (expected_bus pc) \<and>
    get TRateLimiter = map_option LimiterComp (expected_limiter pc) \<and>
    get TKeyProvider = Some (KeysComp (expected_keys pc)) \<and>
    get TLock = map_option LockComp (expected_lock pc) \<and>
    get TTimerEngineRegistry = map_option TimersComp (expected_timers pc) \<and>
    get TAuditLogger = map_option AuditComp (expected_audit pc) \<and>
    get TConfigWatcher = map_option WatcherComp (expected_watcher (rinfra_config_path cfg) pc)"
proof -
  have ok: "fst (build_plugins (builtin_plugins env) (context_new cfg)) = Ok ()"
    using assms by (simp add: build_all_ok)
  show ?thesis
    by (simp add: Let_def cache_component [OF ok] store_component [OF ok] bus_component [OF ok] limiter_component [OF ok]
        keys_component [OF ok] lock_component [OF ok] watch_component [OF ok])
qed

theorem components_follow_configuration_witness:
  "fst (build_all (builtin_plugins offline_env) registry_new (context_new (two_level_config False))) = Ok () \<and>
   state_get TCache (started offline_env (two_level_config False) 0) =
     Some (CacheComp (MultilevelCacheObj
       (MemoryCacheObj (caches_memory (plugins_cache (rinfra_plugins (two_level_config False)))))
       (RedisCacheObj (caches_redis (plugins_cache (rinfra_plugins (two_level_config False)))))))"
proof -
  have ok: "fst (build_all (builtin_plugins offline_env) registry_new (context_new (two_level_config False))) = Ok ()"
    by (simp add: starts_iff [OF offline_calm] two_level_can_start)
  moreover have "expected_cache (rinfra_plugins (two_level_config False)) = Some (MultilevelCacheObj
       (MemoryCacheObj (caches_memory (plugins_cache (rinfra_plugins (two_level_config False)))))
       (RedisCacheObj (caches_redis (plugins_cache (rinfra_plugins (two_level_config False))))))"
    by (simp add: expected_cache_def two_level_config_def Let_def)
  ultimately show ?thesis
    using components_follow_configuration [OF ok, of 0] by (simp add: Let_def)
qed

text \<open>With the file key provider on, AES-GCM cannot be built whatever the environment holds: the
  provider that reads a file is a stub that fails, and it replaces the one that reads variables.\<close>

lemma file_keys_break_aesgcm:
  assumes "env_calm env" and "aes_gcm_enabled (cryptos_aesgcm (plugins_crypto (rinfra_plugins cfg)))"
    and "file_key_enabled (cryptos_file (plugins_crypto (rinfra_plugins cfg)))"
  shows "fst (build_all (builtin_plugins env) registry_new (context_new cfg)) \<noteq> Ok ()"
  using assms by (simp add: starts_iff can_start_def crypto_fine_def Let_def)

end
