(* ===== verification/App_State.thy ===== *)
theory App_State
  imports Startup
begin

text \<open>
  The rest of \<open>rinfra-core/src/appstate.rs\<close>: the registry of health checkers and the accessors by
  which handlers reach the components, and what the accessors give after the built-in plugins have
  been built, beside the ones \<open>Startup\<close> speaks about.
\<close>

section \<open>The registry of health checkers\<close>

type_synonym checker_registry = "checker_obj list"

definition checkers_new :: checker_registry where
  "checkers_new = []"

definition checkers_register :: "checker_obj \<Rightarrow> checker_registry \<Rightarrow> checker_registry" where
  "checkers_register c reg = reg @ [c]"

definition checkers_of :: "checker_registry \<Rightarrow> checker_obj list" where
  "checkers_of reg = reg"

definition checkers_is_empty :: "checker_registry \<Rightarrow> bool" where
  "checkers_is_empty reg \<longleftrightarrow> reg = []"

section \<open>The size of the plugin registry\<close>

definition preg_len :: "plugin_registry \<Rightarrow> nat" where
  "preg_len reg = length (preg_manifests reg)"

definition preg_is_empty :: "plugin_registry \<Rightarrow> bool" where
  "preg_is_empty reg \<longleftrightarrow> preg_manifests reg = []"

section \<open>Accessors\<close>

definition state_store :: "app_state \<Rightarrow> store_obj option" where
  "state_store s = (case state_get TStore s of Some (StoreComp x) \<Rightarrow> Some x | _ \<Rightarrow> None)"

definition state_message_bus :: "app_state \<Rightarrow> bus_obj option" where
  "state_message_bus s = (case state_get TMessageBus s of Some (BusComp x) \<Rightarrow> Some x | _ \<Rightarrow> None)"

definition state_codecs :: "app_state \<Rightarrow> json codec_registry option" where
  "state_codecs s = (case state_get TCodecRegistry s of Some (CodecsComp x) \<Rightarrow> Some x | _ \<Rightarrow> None)"

definition state_crypto :: "app_state \<Rightarrow> bytes option" where
  "state_crypto s = (case state_get TCrypto s of Some (CryptoComp x) \<Rightarrow> Some x | _ \<Rightarrow> None)"

definition state_script_engine :: "app_state \<Rightarrow> script_engine option" where
  "state_script_engine s = (case state_get TScriptEngine s of Some (ScriptEngineComp x) \<Rightarrow> Some x | _ \<Rightarrow> None)"

definition state_script_engines :: "app_state \<Rightarrow> (string, script_engine) hashmap option" where
  "state_script_engines s = (case state_get TScriptEngineRegistry s of Some (ScriptEnginesComp x) \<Rightarrow> Some x | _ \<Rightarrow> None)"

definition state_db :: "app_state \<Rightarrow> store_obj option" where
  "state_db s = (case state_get TDb s of Some (DbComp x) \<Rightarrow> Some x | _ \<Rightarrow> None)"

definition state_file_store :: "app_state \<Rightarrow> file_store_obj option" where
  "state_file_store s = (case state_get TFileStore s of Some (FilesComp x) \<Rightarrow> Some x | _ \<Rightarrow> None)"

definition state_http_client :: "app_state \<Rightarrow> http_client_obj option" where
  "state_http_client s = (case state_get THttpClient s of Some (ClientComp x) \<Rightarrow> Some x | _ \<Rightarrow> None)"

definition state_distributed_lock :: "app_state \<Rightarrow> lock_obj option" where
  "state_distributed_lock s = (case state_get TLock s of Some (LockComp x) \<Rightarrow> Some x | _ \<Rightarrow> None)"

definition state_config_watcher :: "app_state \<Rightarrow> watcher_obj option" where
  "state_config_watcher s = (case state_get TConfigWatcher s of Some (WatcherComp x) \<Rightarrow> Some x | _ \<Rightarrow> None)"

definition state_i18n :: "app_state \<Rightarrow> file_i18n option" where
  "state_i18n s = (case state_get TI18n s of Some (I18nComp x) \<Rightarrow> Some x | _ \<Rightarrow> None)"

section \<open>What the accessors give\<close>

definition expected_files :: "plugin_configs \<Rightarrow> file_store_obj option" where
  "expected_files pc =
     (let f = plugins_file_store pc
      in if file_stores_enabled f then Some (LocalFilesObj (local_file_store_root_dir (file_stores_local f))) else None)"

definition expected_client :: "plugin_configs \<Rightarrow> http_client_obj option" where
  "expected_client pc =
     (let c = plugins_http_client pc in if http_client_enabled c then Some (ReqwestObj c (Some ''http_client'')) else None)"

lemma files_step:
  "ctx_get TFileStore ctx = None \<Longrightarrow>
   ctx_get TFileStore (snd (build_local_files ctx)) = map_option FilesComp (expected_files (plugins_of ctx))"
  by (simp add: build_local_files_def expected_files_def Let_def ctx_map.look_put)

lemma client_step:
  "fst (build_http_client env ctx) = Ok () \<Longrightarrow> ctx_get THttpClient ctx = None \<Longrightarrow>
   ctx_get THttpClient (snd (build_http_client env ctx)) = map_option ClientComp (expected_client (plugins_of ctx))"
  by (auto simp: build_http_client_def expected_client_def Let_def ctx_map.look_put split: if_splits sum.splits)

text \<open>The first two plugins of the tail.\<close>

lemma head_stretch:
  assumes "fst (build_plugins (take 2 (tail_plugins env)) ctx) = Ok ()"
    and "ctx_get TFileStore ctx = None" and "ctx_get THttpClient ctx = None"
  shows "ctx_get TFileStore (snd (build_plugins (take 2 (tail_plugins env)) ctx)) =
      map_option FilesComp (expected_files (plugins_of ctx)) \<and>
    ctx_get THttpClient (snd (build_plugins (take 2 (tail_plugins env)) ctx)) =
      map_option ClientComp (expected_client (plugins_of ctx))"
proof -
  have keeps: "ctx_get THttpClient (snd (build_local_files c)) = ctx_get THttpClient c"
    "ctx_get TFileStore (snd (build_http_client env c)) = ctx_get TFileStore c" for c
    using frames_local_files frames_http_client by (simp_all add: frames_def)
  have ok: "fst (build_local_files ctx) = Ok ()" by (simp add: build_local_files_def Let_def)
  show ?thesis
    using assms
    by (simp add: tail_plugins_def plugin_defs plugin_new_def build_ok_Cons build_snd_Cons ok keeps files_step client_step
        builtin_config ctx_simps del: build_plugins.simps(2))
qed

lemma head_component:
  assumes "fst (build_plugins (builtin_plugins env) (context_new cfg)) = Ok ()" and "t \<in> {TFileStore, THttpClient}"
  shows "state_get t (started env cfg now) =
    (if t = TFileStore then map_option FilesComp (expected_files (rinfra_plugins cfg))
     else map_option ClientComp (expected_client (rinfra_plugins cfg)))"
proof (rule decided_by [OF assms(1) _ _ _ _ assms(2), where f = "\<lambda>t. if t = TFileStore
      then map_option FilesComp (expected_files (rinfra_plugins cfg))
      else map_option ClientComp (expected_client (rinfra_plugins cfg))"])
  show "builtin_plugins env = (codec_plugins env @ cache_plugins env @ mq_plugins env @ store_plugins env @ limiter_plugins env @
      crypto_plugins env @ script_plugins env @ server_plugins env) @ take 2 (tail_plugins env) @ drop 2 (tail_plugins env)"
    by (simp add: builtin_plugins_def)
  show "undisturbed {TFileStore, THttpClient} (codec_plugins env @ cache_plugins env @ mq_plugins env @ store_plugins env @
      limiter_plugins env @ crypto_plugins env @ script_plugins env @ server_plugins env)"
    "undisturbed {TFileStore, THttpClient} (drop 2 (tail_plugins env))"
    by (auto simp: undisturbed_def plugin_lists intro!: undisturbed_by)
  show "\<forall>t\<in>{TFileStore, THttpClient}. ctx_get t (snd (build_plugins (take 2 (tail_plugins env)) ctx)) =
      (if t = TFileStore then map_option FilesComp (expected_files (rinfra_plugins cfg))
       else map_option ClientComp (expected_client (rinfra_plugins cfg)))"
    if "pc_config ctx = cfg" "\<forall>t\<in>{TFileStore, THttpClient}. ctx_get t ctx = None"
      "fst (build_plugins (take 2 (tail_plugins env)) ctx) = Ok ()" for ctx
    using head_stretch [of env ctx] that by auto
qed (use assms(2) in auto)

text \<open>No built-in plugin touches the single script engine.\<close>

lemma no_single_engine:
  assumes "fst (build_plugins (builtin_plugins env) (context_new cfg)) = Ok ()"
  shows "state_get TScriptEngine (started env cfg now) = None"
proof -
  have "undisturbed {TScriptEngine} (builtin_plugins env)"
    by (auto simp: builtin_plugins_def undisturbed_def plugin_lists intro!: undisturbed_by)
  then have "ctx_get TScriptEngine (snd (build_plugins (builtin_plugins env) (context_new cfg))) = None"
    using build_plugins_frame context_new_empty by (metis singletonI)
  then show ?thesis using assms by (simp add: started_get)
qed

text \<open>
  The accessors hand out exactly what the configuration asks for, and the accessor of a single
  script engine never finds one, whatever engines are enabled.
\<close>

theorem accessors_follow_configuration:
  assumes "fst (build_all (builtin_plugins env) registry_new (context_new cfg)) = Ok ()"
  shows "let pc = rinfra_plugins cfg; s = started env cfg now in
    state_cache s = expected_cache pc \<and> state_store s = expected_store pc \<and> state_db s = expected_store pc \<and>
    state_message_bus s = expected_bus pc \<and> state_ratelimiter s = expected_limiter pc \<and>
    state_distributed_lock s = expected_lock pc \<and> state_audit s = expected_audit pc \<and>
    state_config_watcher s = expected_watcher (rinfra_config_path cfg) pc \<and>
    state_file_store s = expected_files pc \<and> state_http_client s = expected_client pc \<and>
    state_script_engine s = None"
proof -
  have ok: "fst (build_plugins (builtin_plugins env) (context_new cfg)) = Ok ()"
    using assms by (simp add: build_all_ok)
  show ?thesis
    by (simp add: Let_def state_cache_def state_store_def state_db_def state_message_bus_def state_ratelimiter_def
        state_distributed_lock_def state_audit_def state_config_watcher_def state_file_store_def state_http_client_def
        state_script_engine_def cache_component [OF ok] store_component [OF ok] bus_component [OF ok]
        limiter_component [OF ok] lock_component [OF ok] watch_component [OF ok] head_component [OF ok]
        no_single_engine [OF ok] split: option.split)
qed

lemma checkers_simps:
  "checkers_of (checkers_register c reg) = checkers_of reg @ [c]" "checkers_is_empty checkers_new"
  "\<not> checkers_is_empty (checkers_register c reg)"
  by (simp_all add: checkers_of_def checkers_register_def checkers_is_empty_def checkers_new_def)

text \<open>\<open>add_health_checker\<close> of the build context is a registration into the registry that is there, or
  into a new one.\<close>

lemma add_health_checker_registers:
  assumes "ctx_get THealthCheckerRegistry ctx = None \<or> ctx_get THealthCheckerRegistry ctx = Some (CheckersComp reg)"
  shows "ctx_get THealthCheckerRegistry (add_health_checker c ctx) =
    Some (CheckersComp (checkers_register c
      (case ctx_get THealthCheckerRegistry ctx of Some (CheckersComp reg) \<Rightarrow> reg | _ \<Rightarrow> checkers_new)))"
  using assms by (auto simp: add_health_checker_def checkers_register_def checkers_new_def ctx_map.look_put)

end
