(* ===== verification/Health.thy ===== *)
theory Health
  imports Plugins
begin

text \<open>
  Health endpoints: \<open>rinfra-plugins/src/health/\<close>. A checker asks the component it was made for; which
  code a trait object runs is the parameter \<open>probes\<close> on a world \<open>'w\<close>.
\<close>

section \<open>Checkers\<close>

record 'w probes =
  pb_store_health :: "store_obj \<Rightarrow> 'w \<Rightarrow> bool res \<times> 'w"
  pb_cache_exists :: "cache_obj \<Rightarrow> string \<Rightarrow> 'w \<Rightarrow> bool res \<times> 'w"
  pb_bus_health :: "bus_obj \<Rightarrow> 'w \<Rightarrow> bool res \<times> 'w"
  pb_other :: "string \<Rightarrow> 'w \<Rightarrow> health_check_result res \<times> 'w"

definition store_result :: "bool res \<Rightarrow> health_check_result res" where
  "store_result r =
     (case r of
        Inr b \<Rightarrow> Ok (if b then healthy else unhealthy ''health check returned false'')
      | Inl (Fail e) \<Rightarrow> Ok (unhealthy (app_error_display e))
      | Inl (Panic m) \<Rightarrow> Inl (Panic m))"

definition cache_result :: "bool res \<Rightarrow> health_check_result res" where
  "cache_result r =
     (case r of
        Inr _ \<Rightarrow> Ok healthy
      | Inl (Fail e) \<Rightarrow> Ok (unhealthy (app_error_display e))
      | Inl (Panic m) \<Rightarrow> Inl (Panic m))"

primrec checker_name :: "checker_obj \<Rightarrow> string" where
  "checker_name (StoreChecker n s) = n"
| "checker_name (CacheChecker n c) = n"
| "checker_name (MessageBusChecker n b) = n"
| "checker_name (OtherChecker n) = n"

definition run_check :: "'w probes \<Rightarrow> checker_obj \<Rightarrow> 'w \<Rightarrow> health_check_result res \<times> 'w" where
  "run_check pb c w =
     (case c of
        StoreChecker n s \<Rightarrow> map_prod store_result id (pb_store_health pb s w)
      | CacheChecker n k \<Rightarrow> map_prod cache_result id (pb_cache_exists pb k ''__health_probe__'' w)
      | MessageBusChecker n b \<Rightarrow> map_prod store_result id (pb_bus_health pb b w)
      | OtherChecker n \<Rightarrow> pb_other pb n w)"

section \<open>Endpoints\<close>

record check_result =
  ck_name :: string
  ck_status :: string
  ck_error :: "string option"

record readiness_response =
  rdy_status :: string
  rdy_checks :: "check_result list"

definition healthz :: "nat \<times> string" where
  "healthz = (200, ''alive'')"

primrec status_str :: "health_status \<Rightarrow> string" where
  "status_str Healthy = ''ok''"
| "status_str Degraded = ''degraded''"
| "status_str Unhealthy = ''fail''"

text \<open>The loop over the checkers, with \<open>checks\<close> and \<open>all_ok\<close>; a panicking checker ends the handler.\<close>

fun readyz_loop ::
  "'w probes \<Rightarrow> checker_obj list \<Rightarrow> check_result list \<Rightarrow> bool \<Rightarrow> 'w \<Rightarrow> (check_result list \<times> bool) res \<times> 'w" where
  "readyz_loop pb [] checks all_ok w = (Ok (checks, all_ok), w)"
| "readyz_loop pb (c # cs) checks all_ok w =
     (case run_check pb c w of
        (Inl e, w1) \<Rightarrow> (Inl e, w1)
      | (Inr r, w1) \<Rightarrow>
          readyz_loop pb cs
            (checks @ [\<lparr>ck_name = checker_name c, ck_status = status_str (hr_status r), ck_error = hr_error r\<rparr>])
            (if \<not> is_healthy r then False else all_ok) w1)"

definition readyz :: "'w probes \<Rightarrow> app_state \<Rightarrow> 'w \<Rightarrow> (nat \<times> readiness_response) res \<times> 'w" where
  "readyz pb state w =
     (case readyz_loop pb (case state_health_checkers state of Some cs \<Rightarrow> cs | None \<Rightarrow> []) [] True w of
        (Inl e, w1) \<Rightarrow> (Inl e, w1)
      | (Inr (checks, all_ok), w1) \<Rightarrow>
          (Ok (if all_ok then 200 else 503,
               \<lparr>rdy_status = (if all_ok then ''ready'' else ''not_ready''), rdy_checks = checks\<rparr>), w1))"

definition health_router :: router where
  "health_router = [''/healthz'', ''/readyz'']"

section \<open>Lemmas\<close>

text \<open>The results of checks run one after the other.\<close>

fun check_all :: "'w probes \<Rightarrow> checker_obj list \<Rightarrow> 'w \<Rightarrow> health_check_result list res \<times> 'w" where
  "check_all pb [] w = (Ok [], w)"
| "check_all pb (c # cs) w =
     (case run_check pb c w of
        (Inl e, w1) \<Rightarrow> (Inl e, w1)
      | (Inr r, w1) \<Rightarrow> (case check_all pb cs w1 of (Inl e, w2) \<Rightarrow> (Inl e, w2) | (Inr rs, w2) \<Rightarrow> (Ok (r # rs), w2)))"

definition report :: "checker_obj \<Rightarrow> health_check_result \<Rightarrow> check_result" where
  "report c r = \<lparr>ck_name = checker_name c, ck_status = status_str (hr_status r), ck_error = hr_error r\<rparr>"

lemma readyz_loop_all:
  "readyz_loop pb cs checks ok w =
     (case check_all pb cs w of (Inl e, w1) \<Rightarrow> (Inl e, w1)
      | (Inr rs, w1) \<Rightarrow> (Ok (checks @ map2 report cs rs, ok \<and> list_all is_healthy rs), w1))"
proof (induction cs arbitrary: checks ok w)
  case (Cons c cs)
  obtain r w1 where r: "run_check pb c w = (r, w1)" by (cases "run_check pb c w")
  show ?case
  proof (cases r)
    case (Inr v)
    with r show ?thesis
      by (cases "check_all pb cs w1"; cases "fst (check_all pb cs w1)") (auto simp: Cons.IH report_def)
  qed (use r in simp)
qed simp

lemma check_all_length: "check_all pb cs w = (Ok rs, w1) \<Longrightarrow> length rs = length cs"
  by (induction cs arbitrary: w rs) (auto split: prod.splits sum.splits)

lemma status_str_ok: "status_str s = ''ok'' \<longleftrightarrow> s = Healthy"
  by (cases s) simp_all

section \<open>Properties\<close>

text \<open>
  Readiness is the conjunction of all checks, and hides none: when no checker panics, the endpoint reports every
  registered checker in the order of registration with its own status and error, whether the
  earlier ones failed or not, and answers 200 exactly when every one of them is \<open>ok\<close>, otherwise 503.
\<close>

theorem readiness_is_conjunction:
  assumes "state_health_checkers s = Some cs" and "check_all pb cs w = (Ok rs, w1)"
  shows "\<exists>code body. readyz pb s w = (Ok (code, body), w1) \<and>
    map ck_name (rdy_checks body) = map checker_name cs \<and>
    map ck_status (rdy_checks body) = map (\<lambda>r. status_str (hr_status r)) rs \<and>
    map ck_error (rdy_checks body) = map hr_error rs \<and>
    code = (if \<forall>c\<in>set (rdy_checks body). ck_status c = ''ok'' then 200 else 503)"
proof -
  have len: "length rs = length cs" by (rule check_all_length [OF assms(2)])
  let ?ck = "map2 report cs rs"
  have m: "map ck_name ?ck = map checker_name cs" "map ck_status ?ck = map (\<lambda>r. status_str (hr_status r)) rs"
    "map ck_error ?ck = map hr_error rs"
    using len by (induction cs rs rule: list_induct2') (simp_all add: report_def)
  have "(\<forall>c\<in>set ?ck. ck_status c = ''ok'') \<longleftrightarrow> (\<forall>x\<in>set (map ck_status ?ck). x = ''ok'')"
    by simp
  also have "\<dots> \<longleftrightarrow> list_all is_healthy rs"
    unfolding m(2) by (auto simp: list_all_iff is_healthy_def status_str_ok)
  finally have ok: "(\<forall>c\<in>set ?ck. ck_status c = ''ok'') \<longleftrightarrow> list_all is_healthy rs" .
  have "readyz pb s w = (Ok (if list_all is_healthy rs then 200 else 503,
      \<lparr>rdy_status = (if list_all is_healthy rs then ''ready'' else ''not_ready''), rdy_checks = ?ck\<rparr>), w1)"
    using assms by (simp add: readyz_def readyz_loop_all)
  with m ok show ?thesis by auto
qed

text \<open>A store that fails its check, and a cache.\<close>

definition demo_probes :: "unit probes" where
  "demo_probes =
     \<lparr>pb_store_health = (\<lambda>s w. (Err StoreConnectionFailed ''closed'', w)),
      pb_cache_exists = (\<lambda>c k w. (Ok False, w)), pb_bus_health = (\<lambda>b w. (Ok True, w)),
      pb_other = (\<lambda>n w. (Ok (degraded n), w))\<rparr>"

definition demo_state :: "rinfra_config \<Rightarrow> app_state" where
  "demo_state cfg = state_set (CheckersComp [StoreChecker ''store'' (OtherStore ''s''), CacheChecker ''cache'' (OtherCache ''c'')])
     (app_state_new cfg 0)"

theorem readiness_is_conjunction_witness:
  "\<exists>code body. readyz demo_probes (demo_state (rinfra_config_default ''host'')) () = (Ok (code, body), ()) \<and>
    map ck_name (rdy_checks body) = [''store'', ''cache''] \<and> map ck_status (rdy_checks body) = [''fail'', ''ok''] \<and> code = 503"
proof -
  let ?s = "demo_state (rinfra_config_default ''host'')"
  let ?cs = "[StoreChecker ''store'' (OtherStore ''s''), CacheChecker ''cache'' (OtherCache ''c'')]"
  let ?rs = "[unhealthy ''[STORE_CONNECTION_FAILED] closed'', healthy]"
  have cs: "state_health_checkers ?s = Some ?cs"
    using state_map.look_put_same [of "CheckersComp ?cs" "app_state_new (rinfra_config_default ''host'') 0"]
    by (simp add: state_health_checkers_def demo_state_def)
  have rs: "check_all demo_probes ?cs () = (Ok ?rs, ())"
    by (simp add: run_check_def demo_probes_def store_result_def cache_result_def app_error_display_def)
  obtain code body where "readyz demo_probes ?s () = (Ok (code, body), ())"
    "map ck_name (rdy_checks body) = map checker_name ?cs"
    and st: "map ck_status (rdy_checks body) = map (\<lambda>r. status_str (hr_status r)) ?rs"
    and code: "code = (if \<forall>c\<in>set (rdy_checks body). ck_status c = ''ok'' then 200 else 503)"
    using readiness_is_conjunction [OF cs rs] by blast
  moreover have "''fail'' \<in> set (map ck_status (rdy_checks body))"
    unfolding st by (simp add: unhealthy_def)
  then obtain c where "c \<in> set (rdy_checks body)" "ck_status c = ''fail''" by auto
  then have "\<not> (\<forall>c\<in>set (rdy_checks body). ck_status c = ''ok'')" by (intro notI) (drule (1) bspec, simp)
  then have "code = 503" unfolding code by simp
  ultimately show ?thesis
    by (intro exI conjI) (simp_all add: unhealthy_def healthy_def)
qed

end
