(* ===== verification/Http_Middleware.thy ===== *)
theory Http_Middleware
  imports Plugins Codecs Audit_Log Rate_Limit
begin

text \<open>
  The HTTP pipeline: \<open>rinfra-plugins/src/net/http.rs\<close>, \<open>net/middleware/\<close> and \<open>metrics/mod.rs\<close>. A
  service maps a request and a world \<open>'w\<close> to a response (or a panic) and a new world. A router is
  its routes with a fallback; \<open>layer\<close> wraps all of them. Routing by patterns, JSON text, JSON web
  tokens and the layers of \<open>tower-http\<close> are parameters; the tracing spans are not state.
\<close>

section \<open>Requests, responses, services\<close>

record jwt_claims =
  jc_sub :: string
  jc_exp :: u64
  jc_extra :: json

record http_request =
  hq_method :: string
  hq_path :: string
  hq_headers :: "(string \<times> string) list"
  hq_peer :: "string option"
  hq_matched :: "string option"
  hq_claims :: "jwt_claims option"
  hq_body :: bytes

text \<open>A body is its bytes, or fails while it is read.\<close>

datatype body = BodyBytes bytes | BodyBroken

record http_response =
  hp_status :: nat
  hp_headers :: "(string \<times> string) list"
  hp_body :: body

type_synonym 'w service = "http_request \<Rightarrow> 'w \<Rightarrow> http_response res \<times> 'w"

text \<open>\<open>HeaderValue::to_str\<close> accepts visible ASCII and tabs; \<open>HeaderMap::get\<close> gives the first value.\<close>

definition visible_char :: "char \<Rightarrow> bool" where
  "visible_char c \<longleftrightarrow> (let n = of_char c :: nat in (32 \<le> n \<and> n < 127) \<or> n = 9)"

definition to_str :: "string \<Rightarrow> string option" where
  "to_str v = (if list_all visible_char v then Some v else None)"

definition header_value :: "string \<Rightarrow> (string \<times> string) list \<Rightarrow> string option" where
  "header_value name hs = map_of hs (to_lowercase name)"

definition header_text :: "string \<Rightarrow> (string \<times> string) list \<Rightarrow> string option" where
  "header_text name hs = Option.bind (header_value name hs) to_str"

definition header_insert :: "string \<Rightarrow> string \<Rightarrow> (string \<times> string) list \<Rightarrow> (string \<times> string) list" where
  "header_insert name v hs = filter (\<lambda>(n, _). n \<noteq> name) hs @ [(name, v)]"

text \<open>\<open>s.split(c).next()\<close>, and \<open>trim\<close> on ASCII white space.\<close>

definition split_first :: "char \<Rightarrow> string \<Rightarrow> string" where
  "split_first c s = takeWhile (\<lambda>x. x \<noteq> c) s"

definition is_space :: "char \<Rightarrow> bool" where
  "is_space c \<longleftrightarrow> (let n = of_char c :: nat in n = 32 \<or> (9 \<le> n \<and> n \<le> 13))"

definition trim :: "string \<Rightarrow> string" where
  "trim s = rev (dropWhile is_space (rev (dropWhile is_space s)))"

definition is_success :: "nat \<Rightarrow> bool" where
  "is_success status \<longleftrightarrow> 200 \<le> status \<and> status < 300"

definition api_json :: "string \<Rightarrow> string \<Rightarrow> json" where
  "api_json code message = JObj [(''code'', JStr code), (''data'', JNull), (''message'', JStr message)]"

text \<open>\<open>(status, Json(body)).into_response()\<close>\<close>

definition json_response :: "serde_lib \<Rightarrow> nat \<Rightarrow> json \<Rightarrow> http_response" where
  "json_response sl status v =
     (case sl_to_vec sl v of
        Inr b \<Rightarrow> \<lparr>hp_status = status, hp_headers = [(''content-type'', ''application/json'')], hp_body = BodyBytes b\<rparr>
      | Inl e \<Rightarrow> \<lparr>hp_status = status, hp_headers = [(''content-type'', ''text/plain; charset=utf-8'')],
                  hp_body = BodyBytes (map of_char e)\<rparr>)"

section \<open>The outside\<close>

datatype jwt_failure = ExpiredSignature string | OtherJwtError string

primrec jwt_error_text :: "jwt_failure \<Rightarrow> string" where
  "jwt_error_text (ExpiredSignature m) = m"
| "jwt_error_text (OtherJwtError m) = m"

datatype allow_origin = AnyOrigin | OriginList "string list"

text \<open>\<open>he_jwt\<close> verifies a token under a secret at the time of the world; \<open>he_match\<close> picks the pattern that
  matches a path.\<close>

record 'w http_env =
  he_json :: serde_lib
  he_vars :: "string \<rightharpoonup> string"
  he_match :: "string list \<Rightarrow> string \<Rightarrow> string option"
  he_jwt :: "string \<Rightarrow> string \<Rightarrow> 'w \<Rightarrow> jwt_failure + jwt_claims"
  he_check :: "limiter_obj \<Rightarrow> string \<Rightarrow> 'w \<Rightarrow> rate_limit_result res \<times> 'w"
  he_log :: "audit_obj \<Rightarrow> audit_event \<Rightarrow> 'w \<Rightarrow> unit res \<times> 'w"
  he_stamp :: "'w \<Rightarrow> (string \<times> u64) \<times> 'w"
  he_clock :: "'w \<Rightarrow> instant \<times> 'w"
  he_uuid :: "'w \<Rightarrow> string \<times> 'w"
  he_record :: "string \<Rightarrow> string \<Rightarrow> nat \<Rightarrow> nat \<Rightarrow> 'w \<Rightarrow> 'w"
  he_render :: "'w service"
  he_trace_layer :: "'w service \<Rightarrow> 'w service"
  he_timeout_layer :: "nat \<Rightarrow> u64 \<Rightarrow> 'w service \<Rightarrow> 'w service"
  he_cors_layer :: "allow_origin \<Rightarrow> 'w service \<Rightarrow> 'w service"

section \<open>Middleware functions\<close>

record auth_state =
  au_secret :: string
  au_exclude_paths :: "string list"

definition make_error_response :: "'w http_env \<Rightarrow> error_code \<Rightarrow> string \<Rightarrow> http_response" where
  "make_error_response env code message =
     json_response (he_json env) (case status_from_u16 (http_status code) of Some s \<Rightarrow> s | None \<Rightarrow> 401)
       (api_json (as_str code) message)"

definition bearer_token :: "http_request \<Rightarrow> string option" where
  "bearer_token rq =
     (case header_text ''authorization'' (hq_headers rq) of
        Some h \<Rightarrow> if starts_with h ''Bearer '' then Some (drop 7 h) else None
      | None \<Rightarrow> None)"

definition excluded :: "auth_state \<Rightarrow> http_request \<Rightarrow> bool" where
  "excluded st rq \<longleftrightarrow> (\<exists>p\<in>set (au_exclude_paths st). starts_with (hq_path rq) p)"

definition auth_middleware :: "'w http_env \<Rightarrow> auth_state \<Rightarrow> 'w service \<Rightarrow> 'w service" where
  "auth_middleware env st next_service rq w =
     (if excluded st rq then next_service rq w
      else case bearer_token rq of
        None \<Rightarrow> (Ok (make_error_response env AuthTokenMissing ''missing or invalid Authorization header''), w)
      | Some token \<Rightarrow>
          (case he_jwt env (au_secret st) token w of
             Inr claims \<Rightarrow> next_service (rq\<lparr>hq_claims := Some claims\<rparr>) w
           | Inl e \<Rightarrow>
               (let code = (case e of ExpiredSignature _ \<Rightarrow> AuthTokenExpired | OtherJwtError _ \<Rightarrow> AuthTokenInvalid)
                in (Ok (make_error_response env code (''token validation failed: '' @ jwt_error_text e)), w))))"

definition extract_key :: "string \<Rightarrow> http_request \<Rightarrow> string" where
  "extract_key strategy rq =
     (if strategy = ''global'' then ''global''
      else case strip_prefix strategy ''header:'' of
        Some header_name \<Rightarrow>
          (case header_text header_name (hq_headers rq) of Some v \<Rightarrow> v | None \<Rightarrow> ''unknown'')
      | None \<Rightarrow> (case hq_peer rq of Some ip \<Rightarrow> ip | None \<Rightarrow> ''unknown''))"

definition retry_after_secs :: "u64 \<Rightarrow> u64" where
  "retry_after_secs ms = f64_to_u64 (f64_ceil (f64_round (f64_of_u64 ms / 1000)))"

definition limited_response :: "'w http_env \<Rightarrow> rate_limit_result \<Rightarrow> http_response" where
  "limited_response env r =
     (let retry_after = (case rr_retry_after_ms r of Some ms \<Rightarrow> ms | None \<Rightarrow> 1000);
          resp = json_response (he_json env) 429 (api_json (as_str RateLimitExceeded) ''rate limit exceeded'')
      in resp\<lparr>hp_headers := header_insert ''x-ratelimit-remaining'' (show_nat (unat (rr_remaining r)))
           (header_insert ''retry-after'' (show_nat (unat (retry_after_secs retry_after))) (hp_headers resp))\<rparr>)"

definition rate_limit_middleware :: "'w http_env \<Rightarrow> limiter_obj \<Rightarrow> string \<Rightarrow> 'w service \<Rightarrow> 'w service" where
  "rate_limit_middleware env limiter strategy next_service rq w =
     (case he_check env limiter (extract_key strategy rq) w of
        (Inr r, w1) \<Rightarrow> if rr_allowed r then next_service rq w1 else (Ok (limited_response env r), w1)
      | (Inl (Fail e), w1) \<Rightarrow> next_service rq w1
      | (Inl (Panic m), w1) \<Rightarrow> (Inl (Panic m), w1))"

definition extract_client_ip :: "http_request \<Rightarrow> string option" where
  "extract_client_ip rq =
     (let v = (case header_value ''x-forwarded-for'' (hq_headers rq) of
                 Some v \<Rightarrow> Some v | None \<Rightarrow> header_value ''x-real-ip'' (hq_headers rq))
      in map_option (\<lambda>s. trim (split_first (CHR 0x2C) s)) (Option.bind v to_str))"

definition audit_outcome_of :: "nat \<Rightarrow> audit_outcome" where
  "audit_outcome_of status =
     (if is_success status then Success else if status = 401 \<or> status = 403 then Denied else Failure)"

definition http_audit_event :: "string \<times> u64 \<Rightarrow> http_request \<Rightarrow> nat \<Rightarrow> nat \<Rightarrow> audit_event" where
  "http_audit_event stamp rq status duration_ms =
     (let ip = extract_client_ip rq;
          event = with_details (JObj [(''duration_ms'', JInt (int duration_ms)), (''method'', JStr (hq_method rq)),
                     (''path'', JStr (hq_path rq)), (''status'', JInt (int status))])
                   (with_resource_id (hq_path rq)
                     (audit_event_new (fst stamp) (snd stamp) (case ip of Some x \<Rightarrow> x | None \<Rightarrow> ''unknown'')
                       (''http.'' @ to_lowercase (hq_method rq)) ''http'' (audit_outcome_of status)))
      in case ip of Some x \<Rightarrow> with_ip x event | None \<Rightarrow> event)"

definition audit_middleware :: "'w http_env \<Rightarrow> audit_obj \<Rightarrow> 'w service \<Rightarrow> 'w service" where
  "audit_middleware env logger next_service rq w =
     (case he_clock env w of (start, w1) \<Rightarrow>
       (case next_service rq w1 of
          (Inl f, w2) \<Rightarrow> (Inl f, w2)
        | (Inr response, w2) \<Rightarrow>
            (case he_clock env w2 of (now, w3) \<Rightarrow>
              (case he_stamp env w3 of (stamp, w4) \<Rightarrow>
                (case he_log env logger
                    (http_audit_event stamp rq (hp_status response) ((now - start) div nanos_per_milli mod 2 ^ 64)) w4 of
                   (Inl (Panic m), w5) \<Rightarrow> (Inl (Panic m), w5)
                 | (_, w5) \<Rightarrow> (Ok response, w5))))))"

definition contains_text :: "string \<Rightarrow> string \<Rightarrow> bool" where
  "contains_text s p \<longleftrightarrow> (\<exists>i\<in>{..length s}. starts_with (drop i s) p)"

definition parse_accept_language :: "(string \<times> string) list \<Rightarrow> string" where
  "parse_accept_language hs =
     (case header_text ''accept-language'' hs of
        Some s \<Rightarrow> trim (split_first (CHR 0x3B) (split_first (CHR 0x2C) s))
      | None \<Rightarrow> ''en'')"

definition translate_error :: "(string \<Rightarrow> string \<Rightarrow> string) \<Rightarrow> string \<Rightarrow> json \<Rightarrow> json" where
  "translate_error t locale v =
     (case v of
        JObj ob \<Rightarrow>
          (case map_of ob ''code'' of
             Some (JStr code) \<Rightarrow>
               (let key = ''error.'' @ to_lowercase code; translated = t key locale
                in if translated \<noteq> key then JObj (btree_insert ''message'' (JStr translated) ob) else v)
           | _ \<Rightarrow> v)
      | _ \<Rightarrow> v)"

definition i18n_error_middleware :: "'w http_env \<Rightarrow> (string \<Rightarrow> string \<Rightarrow> string) \<Rightarrow> 'w service \<Rightarrow> 'w service" where
  "i18n_error_middleware env t next_service rq w =
     (let locale = parse_accept_language (hq_headers rq)
      in case next_service rq w of
        (Inl f, w1) \<Rightarrow> (Inl f, w1)
      | (Inr response, w1) \<Rightarrow>
          (if is_success (hp_status response) then (Ok response, w1)
           else if \<not> (case header_text ''content-type'' (hp_headers response) of
                        Some ct \<Rightarrow> contains_text ct ''application/json'' | None \<Rightarrow> False)
           then (Ok response, w1)
           else case hp_body response of
             BodyBroken \<Rightarrow> (Ok (response\<lparr>hp_body := BodyBytes []\<rparr>), w1)
           | BodyBytes b \<Rightarrow>
               (case sl_from_slice (he_json env) b of
                  Inl _ \<Rightarrow> (Ok (response\<lparr>hp_body := BodyBytes b\<rparr>), w1)
                | Inr v \<Rightarrow>
                    (Ok (response\<lparr>hp_body := BodyBytes
                        (case sl_to_vec (he_json env) (translate_error t locale v) of Inr b' \<Rightarrow> b' | Inl _ \<Rightarrow> b)\<rparr>), w1))))"

definition request_id_service :: "'w http_env \<Rightarrow> 'w service \<Rightarrow> 'w service" where
  "request_id_service env inner rq w =
     (case inner rq w of
        (Inl f, w1) \<Rightarrow> (Inl f, w1)
      | (Inr response, w1) \<Rightarrow>
          (case he_uuid env w1 of (request_id, w2) \<Rightarrow>
            (Ok (response\<lparr>hp_headers := header_insert ''x-request-id'' request_id (hp_headers response)\<rparr>), w2)))"

definition otel_service :: "'w service \<Rightarrow> 'w service" where
  "otel_service inner rq w = inner rq w"

definition http_metrics_middleware :: "'w http_env \<Rightarrow> 'w service \<Rightarrow> 'w service" where
  "http_metrics_middleware env next_service rq w =
     (case he_clock env w of (start, w1) \<Rightarrow>
       (case next_service rq w1 of
          (Inl f, w2) \<Rightarrow> (Inl f, w2)
        | (Inr response, w2) \<Rightarrow>
            (case he_clock env w2 of (now, w3) \<Rightarrow>
              (Ok response,
               he_record env (hq_method rq) (case hq_matched rq of Some p \<Rightarrow> p | None \<Rightarrow> hq_path rq)
                 (hp_status response) (now - start) w3))))"

end
