(* ===== verification/Http_Server.thy ===== *)
theory Http_Server
  imports Http_Middleware
begin

text \<open>
  The built-in middleware as objects of the registry (\<open>net/middleware/builtin.rs\<close>) and the HTTP
  server that applies them (\<open>net/http.rs\<close>). The property is about the whole pipeline the code
  assembles: what stands before the handlers, in whatever order the registry applies it.
\<close>

section \<open>Routers\<close>

record 'w axum_router =
  ax_routes :: "(string \<times> 'w service) list"
  ax_fallback :: "'w service"

definition not_found :: "'w service" where
  "not_found rq w = (Ok \<lparr>hp_status = 404, hp_headers = [], hp_body = BodyBytes []\<rparr>, w)"

definition router_new :: "'w axum_router" where
  "router_new = \<lparr>ax_routes = [], ax_fallback = not_found\<rparr>"

definition overlap_panic :: string where
  "overlap_panic = ''Overlapping method route''"

definition add_route :: "string \<Rightarrow> 'w service \<Rightarrow> 'w axum_router \<Rightarrow> 'w axum_router res" where
  "add_route pat svc r =
     (if pat \<in> set (map fst (ax_routes r)) then Inl (Panic overlap_panic)
      else Ok (r\<lparr>ax_routes := ax_routes r @ [(pat, svc)]\<rparr>))"

text \<open>\<open>Router::merge\<close> panics on overlapping routes; \<open>layer\<close> wraps every route and the fallback.\<close>

definition router_merge :: "'w axum_router \<Rightarrow> 'w axum_router \<Rightarrow> 'w axum_router res" where
  "router_merge r1 r2 =
     (if set (map fst (ax_routes r1)) \<inter> set (map fst (ax_routes r2)) \<noteq> {} then Inl (Panic overlap_panic)
      else Ok (r1\<lparr>ax_routes := ax_routes r1 @ ax_routes r2\<rparr>))"

definition router_layer :: "('w service \<Rightarrow> 'w service) \<Rightarrow> 'w axum_router \<Rightarrow> 'w axum_router" where
  "router_layer f r = \<lparr>ax_routes = map (\<lambda>(p, s). (p, f s)) (ax_routes r), ax_fallback = f (ax_fallback r)\<rparr>"

definition router_call :: "'w http_env \<Rightarrow> 'w axum_router \<Rightarrow> 'w service" where
  "router_call env r rq w =
     (case he_match env (map fst (ax_routes r)) (hq_path rq) of
        None \<Rightarrow> ax_fallback r rq w
      | Some p \<Rightarrow>
          (case map_of (ax_routes r) p of
             Some svc \<Rightarrow> svc (rq\<lparr>hq_matched := Some p\<rparr>) w
           | None \<Rightarrow> ax_fallback r rq w))"

section \<open>Middleware objects\<close>

text \<open>The \<open>Box<dyn Any>\<close> a middleware gets: an axum router, or something of another framework.\<close>

datatype 'w any_box = RouterBox "'w axum_router" | ForeignBox

definition downcast_router :: "'w any_box \<Rightarrow> 'w axum_router res" where
  "downcast_router b =
     (case b of RouterBox r \<Rightarrow> Ok r | ForeignBox \<Rightarrow> Err Internal ''middleware: expected axum::Router'')"

definition apply_layer :: "('w service \<Rightarrow> 'w service) \<Rightarrow> 'w any_box \<Rightarrow> 'w any_box res" where
  "apply_layer f b = bind_res (downcast_router b) (\<lambda>r. Ok (RouterBox (router_layer f r)))"

definition metrics_router :: "'w http_env \<Rightarrow> string \<Rightarrow> 'w axum_router res" where
  "metrics_router env endpoint = add_route endpoint (he_render env) router_new"

text \<open>\<open>init_metrics\<close> and \<open>apply_metrics\<close> for callers without a registry; \<open>installed\<close> is what installing the
  recorder gives, and the result tells whether there is a handle.\<close>

definition init_metrics :: "string + unit \<Rightarrow> unit res" where
  "init_metrics installed =
     (case installed of
        Inl e \<Rightarrow> Err Internal (''failed to install Prometheus recorder: '' @ e)
      | Inr _ \<Rightarrow> Ok ())"

definition apply_metrics ::
  "'w http_env \<Rightarrow> string + unit \<Rightarrow> metrics_config \<Rightarrow> 'w axum_router \<Rightarrow> ('w axum_router \<times> bool) res" where
  "apply_metrics env installed cfg r =
     (if \<not> metrics_enabled cfg then Ok (r, False)
      else bind_res (init_metrics installed) (\<lambda>_.
        bind_res (metrics_router env (metrics_endpoint cfg)) (\<lambda>m.
        bind_res (router_merge r m) (\<lambda>r1. Ok (router_layer (http_metrics_middleware env) r1, True)))))"

text \<open>What the propagator of trace contexts reads of a request: a header as text, the distinct names.\<close>

definition header_extractor_get :: "http_request \<Rightarrow> string \<Rightarrow> string option" where
  "header_extractor_get rq key = header_text key (hq_headers rq)"

definition header_extractor_keys :: "http_request \<Rightarrow> string list" where
  "header_extractor_keys rq = rev (remdups (rev (map fst (hq_headers rq))))"

definition metrics_mw :: "'w http_env \<Rightarrow> string \<Rightarrow> 'w any_box http_middleware" where
  "metrics_mw env endpoint =
     \<lparr>hmw_name = ''metrics'', hmw_order = 10,
      hmw_apply = (\<lambda>b. bind_res (downcast_router b) (\<lambda>r. bind_res (metrics_router env endpoint) (\<lambda>m.
        bind_res (router_merge r m) (\<lambda>r1. Ok (RouterBox (router_layer (http_metrics_middleware env) r1))))))\<rparr>"

text \<open>Both ways of adding the metrics give the same router.\<close>

lemma apply_metrics_is_middleware:
  assumes "metrics_enabled cfg" and "installed = Inr ()"
  shows "hmw_apply (metrics_mw env (metrics_endpoint cfg)) (RouterBox r) =
    bind_res (apply_metrics env installed cfg r) (\<lambda>(r1, _). Ok (RouterBox r1))"
  using assms by (auto simp: metrics_mw_def apply_metrics_def init_metrics_def downcast_router_def bind_res_def split: sum.splits)

definition auth_mw :: "'w http_env \<Rightarrow> auth_state \<Rightarrow> 'w any_box http_middleware" where
  "auth_mw env st = \<lparr>hmw_name = ''auth'', hmw_order = 20, hmw_apply = apply_layer (auth_middleware env st)\<rparr>"

definition rate_limit_mw :: "'w http_env \<Rightarrow> limiter_obj \<Rightarrow> string \<Rightarrow> 'w any_box http_middleware" where
  "rate_limit_mw env limiter strategy =
     \<lparr>hmw_name = ''rate_limit'', hmw_order = 25, hmw_apply = apply_layer (rate_limit_middleware env limiter strategy)\<rparr>"

definition trace_mw :: "'w http_env \<Rightarrow> 'w any_box http_middleware" where
  "trace_mw env = \<lparr>hmw_name = ''trace'', hmw_order = 30, hmw_apply = apply_layer (he_trace_layer env)\<rparr>"

definition otel_mw :: "'w any_box http_middleware" where
  "otel_mw = \<lparr>hmw_name = ''otel'', hmw_order = 35, hmw_apply = apply_layer otel_service\<rparr>"

definition request_id_mw :: "'w http_env \<Rightarrow> 'w any_box http_middleware" where
  "request_id_mw env = \<lparr>hmw_name = ''request_id'', hmw_order = 40, hmw_apply = apply_layer (request_id_service env)\<rparr>"

definition timeout_mw :: "'w http_env \<Rightarrow> u64 \<Rightarrow> 'w any_box http_middleware" where
  "timeout_mw env timeout_secs = \<lparr>hmw_name = ''timeout'', hmw_order = 50, hmw_apply = apply_layer (he_timeout_layer env 503 timeout_secs)\<rparr>"

definition audit_mw :: "'w http_env \<Rightarrow> audit_obj \<Rightarrow> 'w any_box http_middleware" where
  "audit_mw env logger = \<lparr>hmw_name = ''audit'', hmw_order = 55, hmw_apply = apply_layer (audit_middleware env logger)\<rparr>"

definition i18n_mw :: "'w http_env \<Rightarrow> file_i18n \<Rightarrow> 'w any_box http_middleware" where
  "i18n_mw env i =
     \<lparr>hmw_name = ''i18n_error'', hmw_order = 8, hmw_apply = apply_layer (i18n_error_middleware env (i18n_t i))\<rparr>"

text \<open>\<open>HeaderValue::from_str\<close> takes visible characters of any byte above 31 but DEL, and tabs.
  \<open>AllowOrigin::list\<close> panics when a wildcard is among the origins.\<close>

definition valid_header_value :: "string \<Rightarrow> bool" where
  "valid_header_value v \<longleftrightarrow> list_all (\<lambda>c. let n = of_char c :: nat in (32 \<le> n \<and> n \<noteq> 127) \<or> n = 9) v"

definition build_cors_layer :: "cors_config \<Rightarrow> allow_origin res" where
  "build_cors_layer cfg =
     (if cors_allow_origins cfg = [''*''] then Ok AnyOrigin
      else let origins = filter valid_header_value (cors_allow_origins cfg)
           in if ''*'' \<in> set origins
              then Inl (Panic ''Wildcard origin (`*`) cannot be passed to `AllowOrigin::list`'')
              else Ok (OriginList origins))"

definition cors_mw :: "'w http_env \<Rightarrow> cors_config \<Rightarrow> 'w any_box http_middleware" where
  "cors_mw env cfg =
     \<lparr>hmw_name = ''cors'', hmw_order = 60,
      hmw_apply = (\<lambda>b. bind_res (downcast_router b) (\<lambda>r. bind_res (build_cors_layer cfg) (\<lambda>allow.
        Ok (RouterBox (router_layer (he_cors_layer env allow) r)))))\<rparr>"

text \<open>The secret of an unset variable is the empty string.\<close>

definition auth_state_of :: "'w http_env \<Rightarrow> auth_middleware_config \<Rightarrow> auth_state" where
  "auth_state_of env cfg =
     \<lparr>au_secret = (case he_vars env (auth_mw_jwt_secret_env cfg) of Some s \<Rightarrow> s | None \<Rightarrow> []),
      au_exclude_paths = auth_mw_exclude_paths cfg\<rparr>"

definition builtin_http_middlewares ::
  "'w http_env \<Rightarrow> middleware_config \<Rightarrow> metrics_config \<Rightarrow> bool \<Rightarrow> app_state \<Rightarrow> 'w any_box http_middleware list" where
  "builtin_http_middlewares env mc metrics_cfg telemetry state =
     (if metrics_enabled metrics_cfg \<and> state_get (TOther ''PrometheusHandle'') state \<noteq> None
        then [metrics_mw env (metrics_endpoint metrics_cfg)] else []) @
     (if auth_mw_enabled (middleware_auth mc)
        then [auth_mw env (auth_state_of env (middleware_auth mc))] else []) @
     (case state_ratelimiter state of
        Some limiter \<Rightarrow>
          if rate_limit_mw_enabled (middleware_rate_limit mc)
          then [rate_limit_mw env limiter (rate_limit_mw_key_strategy (middleware_rate_limit mc))] else []
      | None \<Rightarrow> []) @
     [trace_mw env] @
     (if telemetry then [otel_mw] else []) @
     (if request_id_enabled (middleware_request_id mc) then [request_id_mw env] else []) @
     (if timeout_enabled (middleware_timeout mc)
        then [timeout_mw env (timeout_timeout_secs (middleware_timeout mc))] else []) @
     (if cors_enabled (middleware_cors mc) then [cors_mw env (middleware_cors mc)] else []) @
     (case state_audit state of Some a \<Rightarrow> [audit_mw env a] | None \<Rightarrow> []) @
     (case state_get TI18n state of Some (I18nComp i) \<Rightarrow> [i18n_mw env i] | _ \<Rightarrow> [])"

section \<open>The server\<close>

record 'w http_server =
  hsv_bind_addr :: string
  hsv_extra_router :: "'w axum_router option"
  hsv_middleware :: "(string, 'w any_box http_middleware) hashmap"

definition http_server_new :: "string \<Rightarrow> 'w http_server" where
  "http_server_new addr = \<lparr>hsv_bind_addr = addr, hsv_extra_router = None, hsv_middleware = []\<rparr>"

definition merge_router :: "'w axum_router \<Rightarrow> 'w http_server \<Rightarrow> 'w http_server res" where
  "merge_router r s =
     (case hsv_extra_router s of
        Some existing \<Rightarrow> bind_res (router_merge existing r) (\<lambda>m. Ok (s\<lparr>hsv_extra_router := Some m\<rparr>))
      | None \<Rightarrow> Ok (s\<lparr>hsv_extra_router := Some r\<rparr>))"

definition health_handler :: "'w http_env \<Rightarrow> 'w service" where
  "health_handler env rq w =
     (Ok (json_response (he_json env) 200
        (JObj [(''code'', JStr ''OK''), (''data'', JObj [(''status'', JStr ''healthy'')]), (''message'', JStr ''ok'')])), w)"

definition server_router :: "'w http_env \<Rightarrow> 'w http_server \<Rightarrow> 'w axum_router res" where
  "server_router env s =
     bind_res (add_route ''/health'' (health_handler env) router_new) (\<lambda>router.
     bind_res (case hsv_extra_router s of Some extra \<Rightarrow> router_merge router extra | None \<Rightarrow> Ok router) (\<lambda>router.
       if hsv_middleware s \<noteq> [] then
         bind_res (http_mw_apply_all (hsv_middleware s) (RouterBox router)) (\<lambda>b.
           case b of RouterBox r \<Rightarrow> Ok r
           | ForeignBox \<Rightarrow> Err Internal ''middleware pipeline did not return axum::Router'')
       else Ok router))"

text \<open>\<open>axum::serve(listener, router)\<close> gives the handlers no peer address: only
  \<open>into_make_service_with_connect_info\<close> would.\<close>

definition as_served :: "http_request \<Rightarrow> http_request" where
  "as_served rq = rq\<lparr>hq_peer := None, hq_matched := None, hq_claims := None\<rparr>"

definition serve :: "'w http_env \<Rightarrow> 'w axum_router \<Rightarrow> 'w service" where
  "serve env r rq w = router_call env r (as_served rq) w"

text \<open>\<open>start\<close>: the router first, then the socket, then serving until the shutdown.\<close>

definition http_start ::
  "'w http_env \<Rightarrow> (string \<Rightarrow> string + unit) \<Rightarrow> string + unit \<Rightarrow> 'w http_server \<Rightarrow> 'w axum_router option \<times> unit res" where
  "http_start env bind_socket served s =
     (case server_router env s of
        Inl e \<Rightarrow> (None, Inl e)
      | Inr r \<Rightarrow>
          (case bind_socket (hsv_bind_addr s) of
             Inl e \<Rightarrow> (None, Err ServerBindFailed (''failed to bind to '' @ hsv_bind_addr s @ '': '' @ e))
           | Inr _ \<Rightarrow>
               (Some r, case served of Inl e \<Rightarrow> Err ServerStartFailed (''HTTP server error: '' @ e) | Inr _ \<Rightarrow> Ok ())))"

text \<open>The registration loop of the runtime: what cannot be registered is skipped with a warning.\<close>

definition register_mws ::
  "'w any_box http_middleware list \<Rightarrow> (string, 'w any_box http_middleware) hashmap \<Rightarrow>
    (string, 'w any_box http_middleware) hashmap" where
  "register_mws mws reg = fold (\<lambda>m reg. snd (http_mw_register m reg)) mws reg"

section \<open>What a request can reach\<close>

text \<open>Two services are alike for the requests in \<open>Q\<close>; a layer is transparent when it passes requests on with
  their path and headers, so that it keeps services alike.\<close>

definition alike :: "(http_request \<Rightarrow> bool) \<Rightarrow> 'w service \<Rightarrow> 'w service \<Rightarrow> bool" where
  "alike Q s1 s2 \<longleftrightarrow> (\<forall>rq w. Q rq \<longrightarrow> s1 rq w = s2 rq w)"

definition same_target :: "http_request \<Rightarrow> http_request \<Rightarrow> bool" where
  "same_target r1 r2 \<longleftrightarrow> hq_path r1 = hq_path r2 \<and> hq_headers r1 = hq_headers r2"

definition transparent :: "('w service \<Rightarrow> 'w service) \<Rightarrow> bool" where
  "transparent L \<longleftrightarrow>
     (\<forall>s1 s2 rq w. (\<forall>rq' w'. same_target rq' rq \<longrightarrow> s1 rq' w' = s2 rq' w') \<longrightarrow> L s1 rq w = L s2 rq w)"

definition target_closed :: "(http_request \<Rightarrow> bool) \<Rightarrow> bool" where
  "target_closed Q \<longleftrightarrow> (\<forall>r1 r2. same_target r1 r2 \<longrightarrow> Q r1 = Q r2)"

lemma alike_layer: "target_closed Q \<Longrightarrow> transparent L \<Longrightarrow> alike Q s1 s2 \<Longrightarrow> alike Q (L s1) (L s2)"
  unfolding alike_def transparent_def target_closed_def by blast

lemma transparent_builtin:
  "transparent (rate_limit_middleware env l k)" "transparent (otel_service :: 'w service \<Rightarrow> 'w service)"
  "transparent (request_id_service env)" "transparent (audit_middleware env a)"
  "transparent (i18n_error_middleware env t)" "transparent (http_metrics_middleware env)"
  "transparent (auth_middleware env st)"
  by (auto simp: transparent_def same_target_def rate_limit_middleware_def otel_service_def request_id_service_def
      audit_middleware_def i18n_error_middleware_def http_metrics_middleware_def auth_middleware_def Let_def
      split: sum.splits prod.splits fault.splits option.splits)

text \<open>Routers with the same patterns whose services are alike for the requests in \<open>Q\<close>.\<close>

definition routers_alike :: "(http_request \<Rightarrow> bool) \<Rightarrow> 'w axum_router \<Rightarrow> 'w axum_router \<Rightarrow> bool" where
  "routers_alike Q r1 r2 \<longleftrightarrow>
     list_all2 (\<lambda>(p1, s1) (p2, s2). p1 = p2 \<and> alike Q s1 s2) (ax_routes r1) (ax_routes r2) \<and>
     alike Q (ax_fallback r1) (ax_fallback r2)"

fun boxes_alike :: "(http_request \<Rightarrow> bool) \<Rightarrow> 'w any_box \<Rightarrow> 'w any_box \<Rightarrow> bool" where
  "boxes_alike Q (RouterBox r1) (RouterBox r2) = routers_alike Q r1 r2"
| "boxes_alike Q ForeignBox ForeignBox = True"
| "boxes_alike Q _ _ = False"

definition res_alike :: "('a \<Rightarrow> 'a \<Rightarrow> bool) \<Rightarrow> 'a res \<Rightarrow> 'a res \<Rightarrow> bool" where
  "res_alike P r1 r2 \<longleftrightarrow> (case (r1, r2) of (Inr a, Inr b) \<Rightarrow> P a b | (Inl e, Inl f) \<Rightarrow> e = f | _ \<Rightarrow> False)"

lemma res_alike_simps [simp]:
  "res_alike P (Inr a) (Inr b) = P a b" "res_alike P (Inl e) (Inl f) = (e = f)"
  "\<not> res_alike P (Inr a) (Inl f)" "\<not> res_alike P (Inl e) (Inr b)"
  by (simp_all add: res_alike_def)

lemma res_alike_bind:
  "res_alike P r1 r2 \<Longrightarrow> (\<And>a b. P a b \<Longrightarrow> res_alike S (f a) (g b)) \<Longrightarrow> res_alike S (bind_res r1 f) (bind_res r2 g)"
  by (cases r1; cases r2) auto

lemma boxes_alike_downcast: "boxes_alike Q b1 b2 \<Longrightarrow> res_alike (routers_alike Q) (downcast_router b1) (downcast_router b2)"
  by (cases b1; cases b2) (simp_all add: downcast_router_def)

lemma routers_alike_patterns: "routers_alike Q r1 r2 \<Longrightarrow> map fst (ax_routes r1) = map fst (ax_routes r2)"
  unfolding routers_alike_def by (elim conjE, induction rule: list_all2_induct) auto

lemma routers_alike_layer:
  assumes "routers_alike Q r1 r2" and "\<And>s1 s2. alike Q s1 s2 \<Longrightarrow> alike P (f s1) (f s2)"
  shows "routers_alike P (router_layer f r1) (router_layer f r2)"
  using assms
  by (auto simp: routers_alike_def router_layer_def list_all2_map1 list_all2_map2 elim!: list_all2_mono)

text \<open>A middleware keeps routers alike, or even makes them so.\<close>

definition mw_maps :: "(http_request \<Rightarrow> bool) \<Rightarrow> (http_request \<Rightarrow> bool) \<Rightarrow> 'w any_box http_middleware \<Rightarrow> bool" where
  "mw_maps P Q m \<longleftrightarrow> (\<forall>b1 b2. boxes_alike P b1 b2 \<longrightarrow> res_alike (boxes_alike Q) (hmw_apply m b1) (hmw_apply m b2))"

lemma mw_maps_layer:
  assumes "hmw_apply m = apply_layer f" and "\<And>s1 s2. alike P s1 s2 \<Longrightarrow> alike Q (f s1) (f s2)"
  shows "mw_maps P Q m"
  unfolding mw_maps_def assms(1) apply_layer_def
  using assms(2) by (auto intro!: res_alike_bind [OF boxes_alike_downcast] routers_alike_layer)

lemma mw_maps_transparent:
  "target_closed Q \<Longrightarrow> transparent L \<Longrightarrow> hmw_apply m = apply_layer L \<Longrightarrow> mw_maps Q Q m"
  by (rule mw_maps_layer [where f = L]) (simp_all add: alike_layer)

lemma mw_maps_new:
  "target_closed Q \<Longrightarrow> transparent L \<Longrightarrow> mw_maps Q Q \<lparr>hmw_name = n, hmw_order = k, hmw_apply = apply_layer L\<rparr>"
  by (rule mw_maps_transparent) simp_all

lemma mw_maps_metrics:
  assumes "target_closed Q"
  shows "mw_maps Q Q (metrics_mw env endpoint)"
proof -
  have m: "res_alike (routers_alike Q) (router_merge r1 m) (router_merge r2 m)" if "routers_alike Q r1 r2" for r1 r2 m :: "'a axum_router"
    using that routers_alike_patterns [OF that]
    by (auto simp: router_merge_def routers_alike_def alike_def intro!: list_all2_appendI list.rel_refl)
  have same: "res_alike (\<lambda>a b. a = b) r r" for r :: "'a axum_router res"
    by (cases r) simp_all
  show ?thesis
    unfolding mw_maps_def metrics_mw_def
    by (auto intro!: res_alike_bind [OF boxes_alike_downcast] res_alike_bind [OF same] res_alike_bind [OF m]
        routers_alike_layer alike_layer [OF assms transparent_builtin(6)])
qed

lemma mw_maps_cors:
  assumes "target_closed Q" and "\<And>a. transparent (he_cors_layer env a)"
  shows "mw_maps Q Q (cors_mw env cfg)"
proof -
  have same: "res_alike (\<lambda>a b. a = b) r r" for r :: "allow_origin res"
    by (cases r) simp_all
  show ?thesis
    unfolding mw_maps_def cors_mw_def
    by (auto intro!: res_alike_bind [OF boxes_alike_downcast] res_alike_bind [OF same] routers_alike_layer
        alike_layer [OF assms(1) assms(2)])
qed

lemma chain_alike:
  assumes "\<And>m. m \<in> set ms \<Longrightarrow> mw_maps Q Q m" and "boxes_alike Q b1 b2"
  shows "res_alike (boxes_alike Q) (apply_chain ms b1) (apply_chain ms b2)"
  using assms
proof (induction ms arbitrary: b1 b2)
  case (Cons m ms)
  have "res_alike (boxes_alike Q) (hmw_apply m b1) (hmw_apply m b2)"
    using Cons.prems by (simp add: mw_maps_def)
  then show ?case by (auto intro!: res_alike_bind Cons.IH Cons.prems(1))
qed simp

lemma apply_chain_append: "apply_chain (xs @ ys) b = bind_res (apply_chain xs b) (apply_chain ys)"
  by (induction xs arbitrary: b) (auto simp: bind_res_def split: sum.splits)

text \<open>One middleware of the chain makes the routers alike for \<open>Q\<close>, wherever it stands.\<close>

lemma chain_blocks:
  assumes "m \<in> set ms" and "mw_maps (\<lambda>_. False) Q m"
    and "\<And>m. m \<in> set ms \<Longrightarrow> mw_maps (\<lambda>_. False) (\<lambda>_. False) m \<and> mw_maps Q Q m"
    and "boxes_alike (\<lambda>_. False) b1 b2"
  shows "res_alike (boxes_alike Q) (apply_chain ms b1) (apply_chain ms b2)"
proof -
  obtain pre post where ms: "ms = pre @ m # post" using split_list [OF assms(1)] by blast
  have "res_alike (boxes_alike (\<lambda>_. False)) (apply_chain pre b1) (apply_chain pre b2)"
    by (rule chain_alike) (use assms(3,4) ms in auto)
  moreover have "res_alike (boxes_alike Q) (apply_chain (m # post) c1) (apply_chain (m # post) c2)"
    if "boxes_alike (\<lambda>_. False) c1 c2" for c1 c2
    unfolding apply_chain.simps
    by (rule res_alike_bind [where P = "boxes_alike Q"])
      (use assms(2,3) that ms in \<open>auto simp: mw_maps_def intro!: chain_alike\<close>)
  ultimately show ?thesis by (auto simp: ms apply_chain_append intro: res_alike_bind)
qed

lemma map_of_alike:
  "list_all2 (\<lambda>(p1, s1) (p2, s2). p1 = p2 \<and> alike Q s1 s2) xs ys \<Longrightarrow> rel_option (alike Q) (map_of xs p) (map_of ys p)"
  by (induction rule: list_all2_induct) auto

lemma routers_alike_call:
  assumes "routers_alike Q r1 r2" and "target_closed Q" and "Q rq"
  shows "router_call env r1 rq w = router_call env r2 rq w"
proof -
  have pats: "map fst (ax_routes r1) = map fst (ax_routes r2)" by (rule routers_alike_patterns [OF assms(1)])
  have "Q (rq\<lparr>hq_matched := Some p\<rparr>)" for p
    using assms(2) [unfolded target_closed_def, rule_format, of "rq\<lparr>hq_matched := Some p\<rparr>" rq] assms(3)
    by (simp add: same_target_def)
  moreover have "rel_option (alike Q) (map_of (ax_routes r1) p) (map_of (ax_routes r2) p)" for p
    using assms(1) unfolding routers_alike_def by (blast intro: map_of_alike)
  moreover have "ax_fallback r1 rq w = ax_fallback r2 rq w"
    using assms(1,3) by (simp add: routers_alike_def alike_def)
  ultimately show ?thesis
  proof (cases "he_match env (map fst (ax_routes r2)) (hq_path rq)")
    case (Some p)
    have "rel_option (alike Q) (map_of (ax_routes r1) p) (map_of (ax_routes r2) p)"
      by (fact \<open>\<And>p. rel_option (alike Q) (map_of (ax_routes r1) p) (map_of (ax_routes r2) p)\<close>)
    then show ?thesis
      using Some pats \<open>Q (rq\<lparr>hq_matched := Some p\<rparr>)\<close> \<open>ax_fallback r1 rq w = ax_fallback r2 rq w\<close>
      by (cases "map_of (ax_routes r1) p"; cases "map_of (ax_routes r2) p")
        (simp_all add: router_call_def alike_def)
  qed (simp add: router_call_def pats)
qed

text \<open>A request without access: its path is not excluded, and it carries no token that is ever valid.\<close>

definition no_access :: "'w http_env \<Rightarrow> auth_state \<Rightarrow> http_request \<Rightarrow> bool" where
  "no_access env st rq \<longleftrightarrow>
     \<not> excluded st rq \<and>
     (case bearer_token rq of None \<Rightarrow> True | Some t \<Rightarrow> \<forall>w. \<exists>e. he_jwt env (au_secret st) t w = Inl e)"

lemma routers_alike_False:
  "routers_alike (\<lambda>_. False) r1 r2 \<longleftrightarrow> map fst (ax_routes r1) = map fst (ax_routes r2)"
proof -
  have "list_all2 (\<lambda>(p1, s1 :: 'a service) (p2, s2 :: 'a service). p1 = p2) xs ys \<longleftrightarrow> map fst xs = map fst ys"
    for xs ys :: "(string \<times> 'a service) list"
    by (induction xs arbitrary: ys) (auto simp: list_all2_Cons1 Cons_eq_map_conv)
  then show ?thesis by (simp add: routers_alike_def alike_def)
qed

lemma no_access_closed: "target_closed (no_access env st)"
  by (auto simp: target_closed_def same_target_def no_access_def excluded_def bearer_token_def)

lemma false_closed: "target_closed (\<lambda>_. False)"
  by (simp add: target_closed_def)

lemma auth_blocks: "mw_maps (\<lambda>_. False) (no_access env st) (auth_mw env st)"
proof (rule mw_maps_layer)
  show "alike (no_access env st) (auth_middleware env st s1) (auth_middleware env st s2)" for s1 s2
    by (auto simp: alike_def auth_middleware_def no_access_def split: option.splits sum.splits)
      (metis sum.distinct(1))
qed (simp add: auth_mw_def)

definition layers_transparent :: "'w http_env \<Rightarrow> bool" where
  "layers_transparent env \<longleftrightarrow>
     transparent (he_trace_layer env) \<and> (\<forall>n t. transparent (he_timeout_layer env n t)) \<and>
     (\<forall>a. transparent (he_cors_layer env a))"

lemma builtin_keep:
  assumes "layers_transparent env" and "target_closed Q" and "m \<in> set (builtin_http_middlewares env mc metrics_cfg telemetry state)"
  shows "mw_maps Q Q m"
proof -
  have l: "transparent (he_trace_layer env)" "transparent (he_timeout_layer env 503 t)"
    and c: "\<And>a. transparent (he_cors_layer env a)" for t
    using assms(1) by (simp_all add: layers_transparent_def)
  have "mw_maps Q Q (metrics_mw env e)" "mw_maps Q Q (auth_mw env st)" "mw_maps Q Q (rate_limit_mw env lim k)"
    "mw_maps Q Q (trace_mw env)" "mw_maps Q Q (otel_mw :: 'a any_box http_middleware)" "mw_maps Q Q (request_id_mw env)"
    "mw_maps Q Q (timeout_mw env n)" "mw_maps Q Q (cors_mw env cc)" "mw_maps Q Q (audit_mw env a)" "mw_maps Q Q (i18n_mw env i)"
    for e st lim k n cc a i
    unfolding auth_mw_def rate_limit_mw_def trace_mw_def otel_mw_def request_id_mw_def timeout_mw_def audit_mw_def i18n_mw_def
    by (rule mw_maps_metrics mw_maps_cors mw_maps_new l c transparent_builtin assms(2))+
  then show ?thesis
    using assms(3)
    by (auto simp: builtin_http_middlewares_def split: if_splits option.splits component.splits)
qed

lemma register_mws_all: "register_mws mws [] = http_mws.register_all mws []"
  by (simp add: register_mws_def http_mws.register_all_def)

lemma hm_values_get: "hm_get m k = Some v \<Longrightarrow> v \<in> set (hm_values m)"
  using hm_get_Some_in by (force simp: hm_values_def)

lemma register_mws_values: "set (hm_values (register_mws mws reg)) \<subseteq> set mws \<union> set (hm_values reg)"
proof (induction mws arbitrary: reg)
  case (Cons m mws)
  have "set (hm_values (snd (http_mw_register m reg))) \<subseteq> insert m (set (hm_values reg))"
    by (auto simp: http_mw_register_def register_named_def Let_def hm_contains_def hm_insert_new hm_values_def)
  with Cons.IH [of "snd (http_mw_register m reg)"] show ?case by (auto simp: register_mws_def)
qed (simp add: register_mws_def)

lemma auth_registered:
  assumes "auth_mw_enabled (middleware_auth mc)"
  shows "auth_mw env (auth_state_of env (middleware_auth mc)) \<in>
    set (hm_values (register_mws (builtin_http_middlewares env mc metrics_cfg telemetry state @ extra) []))"
proof (rule hm_values_get)
  show "hm_get (register_mws (builtin_http_middlewares env mc metrics_cfg telemetry state @ extra) []) ''auth'' =
      Some (auth_mw env (auth_state_of env (middleware_auth mc)))"
    using assms unfolding register_mws_all http_mws.first_wins
    by (simp add: builtin_http_middlewares_def metrics_mw_def auth_mw_def)
qed

section \<open>Properties\<close>


text \<open>A server with authentication only, over two applications with one route; the token is the secret
  itself.\<close>

definition demo_http :: "unit http_env" where
  "demo_http =
     \<lparr>he_json = \<lparr>sl_to_vec = (\<lambda>_. Inr []), sl_from_slice = (\<lambda>_. Inl [])\<rparr>, he_vars = [''JWT_SECRET'' \<mapsto> ''s3cret''],
      he_match = (\<lambda>pats path. if path \<in> set pats then Some path else None),
      he_jwt = (\<lambda>secret token w. if token = secret then Inr \<lparr>jc_sub = [], jc_exp = 0, jc_extra = JNull\<rparr>
                 else Inl (OtherJwtError ''InvalidToken'')),
      he_check = (\<lambda>_ _ w. (Err Internal [], w)), he_log = (\<lambda>_ _ w. (Ok (), w)), he_stamp = (\<lambda>w. (([], 0), w)),
      he_clock = (\<lambda>w. (0, w)), he_uuid = (\<lambda>w. ([], w)), he_record = (\<lambda>_ _ _ _ w. w), he_render = not_found,
      he_trace_layer = (\<lambda>s. s), he_timeout_layer = (\<lambda>_ _ s. s), he_cors_layer = (\<lambda>_ s. s)\<rparr>"

definition demo_middleware :: middleware_config where
  "demo_middleware =
     \<lparr>middleware_cors = \<lparr>cors_enabled = False, cors_allow_origins = []\<rparr>,
      middleware_request_id = \<lparr>request_id_enabled = False\<rparr>,
      middleware_timeout = \<lparr>timeout_enabled = False, timeout_timeout_secs = 30\<rparr>,
      middleware_auth = \<lparr>auth_mw_enabled = True, auth_mw_jwt_secret_env = ''JWT_SECRET'', auth_mw_exclude_paths = [''/open'']\<rparr>,
      middleware_rate_limit = \<lparr>rate_limit_mw_enabled = False, rate_limit_mw_key_strategy = ''ip''\<rparr>\<rparr>"

definition demo_app :: "nat \<Rightarrow> unit axum_router" where
  "demo_app status =
     \<lparr>ax_routes = [(''/x'', \<lambda>rq w. (Ok \<lparr>hp_status = status, hp_headers = [], hp_body = BodyBytes []\<rparr>, w))],
      ax_fallback = not_found\<rparr>"

definition demo_request :: "string \<Rightarrow> http_request" where
  "demo_request token =
     \<lparr>hq_method = ''GET'', hq_path = ''/x'', hq_headers = [(''authorization'', ''Bearer '' @ token)], hq_peer = None,
      hq_matched = None, hq_claims = None, hq_body = []\<rparr>"

definition demo_http_server :: "unit http_server" where
  "demo_http_server = (http_server_new ''0.0.0.0:8080'')\<lparr>hsv_middleware :=
     register_mws (builtin_http_middlewares demo_http demo_middleware \<lparr>metrics_enabled = False, metrics_endpoint = []\<rparr>
       False (app_state_new (rinfra_config_default ''host'') 0) @ []) []\<rparr>"

lemma demo_layers: "layers_transparent demo_http"
  unfolding layers_transparent_def demo_http_def transparent_def same_target_def by auto

lemma demo_chain:
  "http_mw_sorted (hsv_middleware demo_http_server) =
     [auth_mw demo_http \<lparr>au_secret = ''s3cret'', au_exclude_paths = [''/open'']\<rparr>, trace_mw demo_http]"
proof -
  have "builtin_http_middlewares demo_http demo_middleware \<lparr>metrics_enabled = False, metrics_endpoint = []\<rparr>
       False (app_state_new (rinfra_config_default ''host'') 0) =
     [auth_mw demo_http \<lparr>au_secret = ''s3cret'', au_exclude_paths = [''/open'']\<rparr>, trace_mw demo_http]"
    by (simp add: builtin_http_middlewares_def demo_middleware_def app_state_new_def state_ratelimiter_def state_audit_def
        state_get_def tm_get_def auth_state_of_def demo_http_def)
  then show ?thesis
    by (simp add: demo_http_server_def http_mw_sorted_def register_mws_def http_mw_register_def register_named_def
        hm_contains_def hm_get_Cons hm_insert_new auth_mw_def trace_mw_def hm_values_def Let_def)
qed

lemma demo_server:
  "server_router demo_http (demo_http_server\<lparr>hsv_extra_router := Some (demo_app status)\<rparr>) =
     Ok (router_layer (he_trace_layer demo_http)
       (router_layer (auth_middleware demo_http \<lparr>au_secret = ''s3cret'', au_exclude_paths = [''/open'']\<rparr>)
         \<lparr>ax_routes = (''/health'', health_handler demo_http) # ax_routes (demo_app status), ax_fallback = not_found\<rparr>))"
proof -
  have "hsv_middleware demo_http_server \<noteq> []"
    using demo_chain by (auto simp: http_mw_sorted_def hm_values_def)
  then show ?thesis
    by (simp add: server_router_def add_route_def router_new_def router_merge_def demo_app_def http_mw_apply_all_def
        demo_chain auth_mw_def trace_mw_def apply_layer_def downcast_router_def)
qed


section \<open>Limits\<close>

text \<open>An unset secret is the empty one: whatever verifies under the empty secret is let through.\<close>

lemma unset_secret_is_empty:
  assumes "he_vars env (auth_mw_jwt_secret_env cfg) = None" and "\<not> excluded (auth_state_of env cfg) rq"
    and "bearer_token rq = Some t" and "he_jwt env [] t w = Inr claims"
  shows "auth_middleware env (auth_state_of env cfg) app rq w = app (rq\<lparr>hq_claims := Some claims\<rparr>) w"
  using assms by (simp add: auth_middleware_def auth_state_of_def)

text \<open>The server gives no peer address, so limiting by address uses one key for all clients.\<close>

lemma ip_key_is_shared:
  "extract_key ''ip'' (as_served rq) = ''unknown''"
  by (simp add: extract_key_def strip_prefix_def starts_with_def as_served_def)

text \<open>A wildcard among several origins panics while the router is built.\<close>

lemma wildcard_among_origins_panics:
  "\<exists>m. build_cors_layer \<lparr>cors_enabled = True, cors_allow_origins = [''*'', ''https://a.example'']\<rparr> = Inl (Panic m)"
  by (simp add: build_cors_layer_def valid_header_value_def Let_def)

end
