(* ===== verification/WebSocket.thy ===== *)
theory WebSocket
  imports Errors Config_Model
begin

text \<open>
  WebSocket connections: \<open>rinfra-core/src/net/ws.rs\<close> and \<open>rinfra-plugins/src/net/ws.rs\<close>. The task of a
  connection is a function of the events it selects, in their order; handler and socket act on a
  world \<open>'w\<close>. The tracker counts the connections, and the shutdown waits for it.
\<close>

section \<open>Messages and handlers\<close>

datatype ws_message = WsText string | WsBinary bytes | WsPing bytes | WsPong bytes | WsClose

text \<open>The messages of axum; a close frame may carry a code and a reason.\<close>

datatype axum_message =
    AxText string
  | AxBinary bytes
  | AxPing bytes
  | AxPong bytes
  | AxClose "(nat \<times> string) option"

primrec axum_to_ws_message :: "axum_message \<Rightarrow> ws_message" where
  "axum_to_ws_message (AxText t) = WsText t"
| "axum_to_ws_message (AxBinary b) = WsBinary b"
| "axum_to_ws_message (AxPing p) = WsPing p"
| "axum_to_ws_message (AxPong p) = WsPong p"
| "axum_to_ws_message (AxClose f) = WsClose"

primrec ws_message_to_axum :: "ws_message \<Rightarrow> axum_message" where
  "ws_message_to_axum (WsText t) = AxText t"
| "ws_message_to_axum (WsBinary b) = AxBinary b"
| "ws_message_to_axum (WsPing p) = AxPing p"
| "ws_message_to_axum (WsPong p) = AxPong p"
| "ws_message_to_axum WsClose = AxClose None"

record ws_connect_params =
  wp_query :: "(string, string) hashmap"
  wp_headers :: "(string, string) hashmap"

record 'w ws_handler =
  wh_on_open :: "ws_connect_params \<Rightarrow> 'w \<Rightarrow> unit res \<times> 'w"
  wh_on_message :: "ws_message \<Rightarrow> 'w \<Rightarrow> ws_message option res \<times> 'w"
  wh_on_close :: "'w \<Rightarrow> unit res \<times> 'w"

section \<open>The upgrade\<close>

text \<open>Headers that are no text are left out; of a repeated header the last value stays. The extensions are
  those the runtime adds to the route.\<close>

definition connect_params :: "(string, string) hashmap \<Rightarrow> (string \<times> string option) list \<Rightarrow> ws_connect_params" where
  "connect_params query headers =
     \<lparr>wp_query = query,
      wp_headers = fold (\<lambda>(k, v) m. case v of Some t \<Rightarrow> hm_insert k t m | None \<Rightarrow> m) headers []\<rparr>"

section \<open>The task of a connection\<close>

datatype ws_incoming = Received axum_message | ReceiveError string | SocketEnd

text \<open>Which branch of the \<open>select!\<close> is taken, and when.\<close>

datatype ws_event = WsShutdown | PingTick instant | Incoming instant ws_incoming

record ws_clock =
  wc_last_pong :: instant
  wc_waiting_pong :: bool

datatype ws_flow = WsContinue | WsBreak | WsCrash string

definition ws_step ::
  "'w ws_handler \<Rightarrow> (axum_message \<Rightarrow> 'w \<Rightarrow> bool \<times> 'w) \<Rightarrow> ws_options \<Rightarrow> ws_event \<Rightarrow> ws_clock \<times> 'w \<Rightarrow>
    ws_flow \<times> ws_clock \<times> 'w" where
  "ws_step h send cfg ev s =
     (case s of (c, w) \<Rightarrow>
       (case ev of
          WsShutdown \<Rightarrow> (WsBreak, c, snd (send (AxClose None) w))
        | PingTick now \<Rightarrow>
            (if wc_waiting_pong c \<and> unat (ws_options_ping_timeout_secs cfg) * nanos_per_sec < now - wc_last_pong c
             then (WsBreak, c, snd (send (AxClose None) w))
             else (case send (AxPing []) w of
                (sent, w1) \<Rightarrow>
                  if \<not> sent then (WsBreak, c, w1) else (WsContinue, c\<lparr>wc_waiting_pong := True\<rparr>, w1)))
        | Incoming now i \<Rightarrow>
            (case i of
               Received (AxPong p) \<Rightarrow> (WsContinue, \<lparr>wc_last_pong = now, wc_waiting_pong = False\<rparr>, w)
             | Received msg \<Rightarrow>
                 (let ws_msg = axum_to_ws_message msg
                  in if ws_msg = WsClose then (WsBreak, c, w)
                     else case wh_on_message h ws_msg w of
                       (Inr (Some response), w1) \<Rightarrow>
                         (case send (ws_message_to_axum response) w1 of
                            (sent, w2) \<Rightarrow> (if \<not> sent then WsBreak else WsContinue, c, w2))
                     | (Inr None, w1) \<Rightarrow> (WsContinue, c, w1)
                     | (Inl (Fail e), w1) \<Rightarrow> (WsBreak, c, w1)
                     | (Inl (Panic m), w1) \<Rightarrow> (WsCrash m, c, w1))
             | ReceiveError e \<Rightarrow> (WsBreak, c, w)
             | SocketEnd \<Rightarrow> (WsBreak, c, w))))"

text \<open>The loop. Without a further event the task is still waiting: no result, and the world so far.\<close>

datatype ws_outcome = StillOpen ws_clock | LoopEnded | LoopCrashed string

fun ws_loop ::
  "'w ws_handler \<Rightarrow> (axum_message \<Rightarrow> 'w \<Rightarrow> bool \<times> 'w) \<Rightarrow> ws_options \<Rightarrow> ws_event list \<Rightarrow> ws_clock \<times> 'w \<Rightarrow>
    ws_outcome \<times> 'w" where
  "ws_loop h send cfg [] s = (StillOpen (fst s), snd s)"
| "ws_loop h send cfg (ev # evs) s =
     (case ws_step h send cfg ev s of
        (WsContinue, s1) \<Rightarrow> ws_loop h send cfg evs s1
      | (WsBreak, s1) \<Rightarrow> (LoopEnded, snd s1)
      | (WsCrash m, s1) \<Rightarrow> (LoopCrashed m, snd s1))"

text \<open>\<open>handle_socket\<close>: how the task ended (\<open>None\<close>: it still runs), the number of tracked connections as an
  atomic \<open>usize\<close>, and the world. A panic leaves the count as it is. \<open>tokio::time::interval\<close> panics on
  a period of zero.\<close>

datatype ws_end = Finished | Panicked string

definition handle_socket ::
  "'w ws_handler \<Rightarrow> (axum_message \<Rightarrow> 'w \<Rightarrow> bool \<times> 'w) \<Rightarrow> ws_options \<Rightarrow> ws_connect_params \<Rightarrow> instant \<Rightarrow> ws_event list \<Rightarrow>
    u64 \<times> 'w \<Rightarrow> ws_end option \<times> u64 \<times> 'w" where
  "handle_socket h send cfg params now evs s =
     (case s of (active, w) \<Rightarrow>
       let active1 = active + 1
       in case wh_on_open h params w of
         (Inl (Panic m), w1) \<Rightarrow> (Some (Panicked m), active1, w1)
       | (Inl (Fail e), w1) \<Rightarrow> (Some Finished, active1 - 1, w1)
       | (Inr _, w1) \<Rightarrow>
           (if ws_options_ping_interval_secs cfg = 0
            then (Some (Panicked ''`period` must be non-zero.''), active1, w1)
            else case ws_loop h send cfg evs (\<lparr>wc_last_pong = now, wc_waiting_pong = False\<rparr>, w1) of
              (StillOpen c, w2) \<Rightarrow> (None, active1, w2)
            | (LoopCrashed m, w2) \<Rightarrow> (Some (Panicked m), active1, w2)
            | (LoopEnded, w2) \<Rightarrow>
                (case wh_on_close h w2 of
                   (Inl (Panic m), w3) \<Rightarrow> (Some (Panicked m), active1, w3)
                 | (_, w3) \<Rightarrow> (Some Finished, active1 - 1, w3))))"

section \<open>Draining\<close>

text \<open>\<open>wait_all_closed\<close>: it looks at the count, then asks to be notified, then waits. \<open>notify_waiters\<close> wakes
  only those who have asked already.\<close>

datatype drain_waiter = DrainStart | DrainChecked | DrainWaiting | DrainDone bool

record ws_tracker =
  wt_active :: u64
  wt_waiter :: drain_waiter

datatype drain_step = TrackConnect | TrackDisconnect | WaiterStep | DrainTimeout

definition tracker_on_disconnect :: "ws_tracker \<Rightarrow> ws_tracker" where
  "tracker_on_disconnect t =
     (let prev = wt_active t; t1 = t\<lparr>wt_active := prev - 1\<rparr>
      in if prev = 1 \<and> wt_waiter t = DrainWaiting then t1\<lparr>wt_waiter := DrainDone True\<rparr> else t1)"

definition drain_apply :: "drain_step \<Rightarrow> ws_tracker \<Rightarrow> ws_tracker" where
  "drain_apply st t =
     (case st of
        TrackConnect \<Rightarrow> t\<lparr>wt_active := wt_active t + 1\<rparr>
      | TrackDisconnect \<Rightarrow> tracker_on_disconnect t
      | WaiterStep \<Rightarrow>
          (case wt_waiter t of
             DrainStart \<Rightarrow> t\<lparr>wt_waiter := (if wt_active t = 0 then DrainDone True else DrainChecked)\<rparr>
           | DrainChecked \<Rightarrow> t\<lparr>wt_waiter := DrainWaiting\<rparr>
           | _ \<Rightarrow> t)
      | DrainTimeout \<Rightarrow> (if wt_waiter t = DrainWaiting then t\<lparr>wt_waiter := DrainDone False\<rparr> else t))"

definition drain_run :: "drain_step list \<Rightarrow> ws_tracker \<Rightarrow> ws_tracker" where
  "drain_run sts t = fold drain_apply sts t"

section \<open>Lemmas\<close>

lemma ws_message_round: "axum_to_ws_message (ws_message_to_axum m) = m"
  by (cases m) simp_all

text \<open>What a peer that answers no ping does to the clock.\<close>

lemma ping_tick_waiting:
  "ws_step h send cfg (PingTick now) (c, w) = (WsContinue, c1, w1) \<Longrightarrow>
     wc_waiting_pong c1 \<and> wc_last_pong c1 = wc_last_pong c"
  by (auto simp: ws_step_def split: if_splits prod.splits)

definition is_pong :: "ws_event \<Rightarrow> bool" where
  "is_pong ev \<longleftrightarrow> (\<exists>t p. ev = Incoming t (Received (AxPong p)))"

lemma no_pong_step:
  "\<not> is_pong ev \<Longrightarrow> ws_step h send cfg ev (c, w) = (WsContinue, c1, w1) \<Longrightarrow>
     wc_last_pong c1 = wc_last_pong c \<and> (wc_waiting_pong c \<longrightarrow> wc_waiting_pong c1)"
  by (auto simp: ws_step_def is_pong_def Let_def
      split: if_splits prod.splits ws_event.splits ws_incoming.splits axum_message.splits sum.splits option.splits fault.splits)

lemma no_pong_closed:
  assumes "\<And>ev. ev \<in> set evs \<Longrightarrow> \<not> is_pong ev" and "wc_waiting_pong c" and "PingTick now \<in> set evs"
    and "wc_last_pong c + unat (ws_options_ping_timeout_secs cfg) * nanos_per_sec < now"
  shows "\<exists>r w1. ws_loop h send cfg evs (c, w) = (r, w1) \<and> (\<forall>c. r \<noteq> StillOpen c)"
  using assms
proof (induction evs arbitrary: c w)
  case (Cons ev evs)
  show ?case
  proof (cases "ws_step h send cfg ev (c, w)")
    case (fields f c1 w1)
    show ?thesis
    proof (cases f)
      case WsContinue
      have c1: "wc_last_pong c1 = wc_last_pong c" "wc_waiting_pong c1"
        using no_pong_step [of ev h send cfg c w c1 w1] fields WsContinue Cons.prems by auto
      have "ev \<noteq> PingTick now"
        using fields WsContinue Cons.prems(2,4) by (auto simp: ws_step_def split: if_splits prod.splits)
      then show ?thesis
        using Cons.IH [of c1 w1] Cons.prems c1 fields WsContinue by auto
    qed (use fields in auto)
  qed
qed simp

section \<open>Properties\<close>

text \<open>
  The count of connections is balanced: a connection whose task does not panic adds one while it is open and nothing once
  it has ended, whatever the handler, the peer and the socket do.
\<close>

theorem tracked_connections_balanced:
  "case handle_socket h send cfg params now evs (active, w) of
     (None, active1, _) \<Rightarrow> active1 = active + 1
   | (Some Finished, active1, _) \<Rightarrow> active1 = active
   | (Some (Panicked _), active1, _) \<Rightarrow> active1 = active + 1"
  by (auto simp: handle_socket_def Let_def split: prod.splits sum.splits fault.splits ws_outcome.splits)

text \<open>
  A peer that does not answer is disconnected: once a ping has been sent after the last pong, the task does not survive
  a tick of the ping timer later than the timeout, whatever else happens in between.
\<close>

theorem silent_peer_is_closed:
  assumes "wc_waiting_pong c" and "\<And>ev. ev \<in> set evs \<Longrightarrow> \<not> is_pong ev" and "PingTick now \<in> set evs"
    and "wc_last_pong c + unat (ws_options_ping_timeout_secs cfg) * nanos_per_sec < now"
  shows "\<nexists>c1. fst (ws_loop h send cfg evs (c, w)) = StillOpen c1"
  using no_pong_closed [OF assms(2,1,3,4), of h send w] by auto

section \<open>Limits\<close>

text \<open>A lost wakeup: when the last connection closes between the look at the count and the request to be
  notified, the shutdown waits for its whole grace period although no connection is open.\<close>

lemma drain_misses_last_close:
  "drain_run [WaiterStep, TrackDisconnect, WaiterStep] \<lparr>wt_active = 1, wt_waiter = DrainStart\<rparr> =
     \<lparr>wt_active = 0, wt_waiter = DrainWaiting\<rparr>"
  "wt_waiter t = DrainWaiting \<Longrightarrow> wt_active t = 0 \<Longrightarrow> list_all (\<lambda>st. st = WaiterStep) sts \<Longrightarrow> drain_run sts t = t"
proof -
  show "drain_run [WaiterStep, TrackDisconnect, WaiterStep] \<lparr>wt_active = 1, wt_waiter = DrainStart\<rparr> =
     \<lparr>wt_active = 0, wt_waiter = DrainWaiting\<rparr>"
    by (simp add: drain_run_def drain_apply_def tracker_on_disconnect_def Let_def)
  show "drain_run sts t = t" if "wt_waiter t = DrainWaiting" "wt_active t = 0" "list_all (\<lambda>st. st = WaiterStep) sts"
    using that(3,1) unfolding drain_run_def
    by (induction sts) (simp_all add: drain_apply_def)
qed

text \<open>A handler that panics leaves its connection in the count for good.\<close>

lemma panic_leaks_count:
  assumes "wh_on_open h params w = (Inl (Panic m), w1)"
  shows "handle_socket h send cfg params now evs (active, w) = (Some (Panicked m), active + 1, w1)"
  using assms by (simp add: handle_socket_def Let_def)

end
