(* ===== verification/Trpc.thy ===== *)
theory Trpc
  imports Codecs Tcp Resilience
begin

text \<open>
  The light RPC protocol: \<open>rinfra-plugins/src/rpc/trpc/\<close>. Frames are JSON texts behind a length of four
  bytes; a server routes them to named services, a client matches answers to its pending asks by
  their number. The JSON text is a parameter, a service acts on a world \<open>'w\<close>, a stream is the
  bytes that are still to come.
\<close>

section \<open>Frames\<close>

datatype frame_kind = Tell | Request | Response | ErrorFrame

record frame =
  fr_kind :: frame_kind
  fr_request_id :: u64
  fr_service :: string
  fr_payload :: bytes

definition max_frame_size :: u32 where
  "max_frame_size = 16 * 1024 * 1024"

definition enc_frame_kind :: "frame_kind \<Rightarrow> json" where
  "enc_frame_kind k = JStr (case k of Tell \<Rightarrow> ''Tell'' | Request \<Rightarrow> ''Request'' | Response \<Rightarrow> ''Response'' | ErrorFrame \<Rightarrow> ''Error'')"

definition dec_frame_kind :: "json \<Rightarrow> frame_kind option" where
  "dec_frame_kind v = (case v of
     JStr s \<Rightarrow> if s = ''Tell'' then Some Tell else if s = ''Request'' then Some Request
       else if s = ''Response'' then Some Response else if s = ''Error'' then Some ErrorFrame else None
   | _ \<Rightarrow> None)"

definition dec_u8 :: "json \<Rightarrow> u8 option" where
  "dec_u8 v = (case v of JInt i \<Rightarrow> (if 0 \<le> i \<and> i < 256 then Some (of_int i) else None) | _ \<Rightarrow> None)"

definition enc_frame :: "frame \<Rightarrow> json" where
  "enc_frame f = JObj
     [(''kind'', enc_frame_kind (fr_kind f)), (''request_id'', enc_u64 (fr_request_id f)),
      (''service'', JStr (fr_service f)), (''payload'', enc_list (\<lambda>b. JInt (uint b)) (fr_payload f))]"

definition dec_frame :: "json \<Rightarrow> frame option" where
  "dec_frame v = (case v of
     JObj ob \<Rightarrow>
       Option.bind (field ob ''kind'' None dec_frame_kind) (\<lambda>k.
       Option.bind (field ob ''request_id'' None dec_u64) (\<lambda>i.
       Option.bind (field ob ''service'' None dec_string) (\<lambda>s.
       Option.bind (field ob ''payload'' None (dec_list dec_u8)) (\<lambda>p.
         Some \<lparr>fr_kind = k, fr_request_id = i, fr_service = s, fr_payload = p\<rparr>))))
   | _ \<Rightarrow> None)"

text \<open>\<open>to_be_bytes\<close> and \<open>from_be_bytes\<close>; \<open>data.len() as u32\<close> keeps the low bits.\<close>

definition to_be_bytes :: "u32 \<Rightarrow> bytes" where
  "to_be_bytes n = map (\<lambda>i. of_nat (unat n div 256 ^ i)) [3, 2, 1, 0]"

definition from_be_bytes :: "bytes \<Rightarrow> u32" where
  "from_be_bytes bs = of_nat (foldl (\<lambda>a b. a * 256 + unat b) 0 bs)"

text \<open>\<open>write_frame\<close>, as the bytes it puts on the wire.\<close>

definition frame_bytes :: "serde_lib \<Rightarrow> frame \<Rightarrow> bytes res" where
  "frame_bytes sl f =
     bind_res (or_fail RpcServiceError ''serialize frame: '' (sl_to_vec sl (enc_frame f)))
       (\<lambda>data. Ok (to_be_bytes (of_nat (length data)) @ data))"

definition write_frame :: "serde_lib \<Rightarrow> (bytes \<Rightarrow> 'w \<Rightarrow> string option \<times> 'w) \<Rightarrow> frame \<Rightarrow> 'w \<Rightarrow> unit res \<times> 'w" where
  "write_frame sl write_all f w =
     (case frame_bytes sl f of
        Inl e \<Rightarrow> (Inl e, w)
      | Inr b \<Rightarrow>
          (case write_all b w of
             (Some e, w1) \<Rightarrow> (Err RpcServiceError e, w1)
           | (None, w1) \<Rightarrow> (Ok (), w1)))"

definition parse_frame :: "serde_lib \<Rightarrow> bytes \<Rightarrow> frame res" where
  "parse_frame sl buf =
     (case sl_from_slice sl buf of
        Inl e \<Rightarrow> Err RpcServerFailed (''deserialize frame: '' @ e)
      | Inr v \<Rightarrow>
          (case dec_frame v of
             None \<Rightarrow> Err RpcServerFailed ''deserialize frame: invalid type''
           | Some f \<Rightarrow> Ok f))"

text \<open>\<open>read_exact\<close> fails at the end of the stream; an end before or inside the length is a closed connection.\<close>

definition read_frame :: "serde_lib \<Rightarrow> bytes \<Rightarrow> frame option res \<times> bytes" where
  "read_frame sl s =
     (if length s < 4 then (Ok None, [])
      else let len = from_be_bytes (take 4 s); rest = drop 4 s
           in if max_frame_size < len
              then (Err RpcServerFailed (''frame too large: '' @ show_nat (unat len) @ '' bytes''), rest)
              else if length rest < unat len then (Err RpcServerFailed ''early eof'', [])
              else (bind_res (parse_frame sl (take (unat len) rest)) (\<lambda>f. Ok (Some f)), drop (unat len) rest))"

section \<open>Services\<close>

type_synonym 'w service_fn = "bytes \<Rightarrow> 'w \<Rightarrow> bytes res \<times> 'w"

type_synonym 'w services = "string \<rightharpoonup> 'w service_fn"

definition trpc_register :: "string \<Rightarrow> 'w service_fn \<Rightarrow> 'w services \<Rightarrow> 'w services" where
  "trpc_register name h s = s(name \<mapsto> h)"

text \<open>\<open>register_raw\<close> takes the lock with \<open>blocking_write\<close>, which panics on a thread of the runtime.\<close>

definition register_raw :: "bool \<Rightarrow> string \<Rightarrow> 'w service_fn \<Rightarrow> 'w services \<Rightarrow> 'w services res" where
  "register_raw in_runtime name h s =
     (if in_runtime
      then Inl (Panic ''Cannot block the current thread from within a runtime.'')
      else Ok (s(name \<mapsto> h)))"

definition string_bytes :: "string \<Rightarrow> bytes" where
  "string_bytes s = map of_char s"

text \<open>The answer to a request, the same code in \<open>handler.rs\<close> and \<open>server.rs\<close>.\<close>

definition answer :: "'w services \<Rightarrow> frame \<Rightarrow> 'w \<Rightarrow> frame res \<times> 'w" where
  "answer s f w =
     (case s (fr_service f) of
        Some h \<Rightarrow>
          (case h (fr_payload f) w of
             (Inr result, w1) \<Rightarrow> (Ok (f\<lparr>fr_kind := Response, fr_payload := result\<rparr>), w1)
           | (Inl (Fail e), w1) \<Rightarrow> (Ok (f\<lparr>fr_kind := ErrorFrame, fr_payload := string_bytes (app_error_display e)\<rparr>), w1)
           | (Inl (Panic m), w1) \<Rightarrow> (Inl (Panic m), w1))
      | None \<Rightarrow>
          (Ok (f\<lparr>fr_kind := ErrorFrame,
                 fr_payload := string_bytes (''service '' @ quoted (fr_service f) @ '' not found'')\<rparr>), w))"

text \<open>A tell is run by a task of its own: \<open>spawn\<close> says what starting that task does to the world.\<close>

definition tell :: "('w service_fn \<Rightarrow> bytes \<Rightarrow> 'w \<Rightarrow> 'w) \<Rightarrow> 'w services \<Rightarrow> frame \<Rightarrow> 'w \<Rightarrow> 'w" where
  "tell spawn s f w = (case s (fr_service f) of Some h \<Rightarrow> spawn h (fr_payload f) w | None \<Rightarrow> w)"

definition trpc_on_message ::
  "serde_lib \<Rightarrow> ('w service_fn \<Rightarrow> bytes \<Rightarrow> 'w \<Rightarrow> 'w) \<Rightarrow> 'w services \<Rightarrow> 'c \<Rightarrow> bytes \<Rightarrow> 'w \<Rightarrow> bytes option res \<times> 'w" where
  "trpc_on_message sl spawn s ctx data w =
     (case parse_frame sl data of
        Inl _ \<Rightarrow> (Ok None, w)
      | Inr f \<Rightarrow>
          (case fr_kind f of
             Tell \<Rightarrow> (Ok None, tell spawn s f w)
           | Request \<Rightarrow>
               (case answer s f w of
                  (Inl e, w1) \<Rightarrow> (Inl e, w1)
                | (Inr response, w1) \<Rightarrow>
                    (bind_res (or_fail Internal ''serialize frame: '' (sl_to_vec sl (enc_frame response)))
                       (\<lambda>reply. Ok (Some reply)), w1))
           | _ \<Rightarrow> (Ok None, w)))"

definition trpc_handler ::
  "serde_lib \<Rightarrow> ('w service_fn \<Rightarrow> bytes \<Rightarrow> 'w \<Rightarrow> 'w) \<Rightarrow> 'w services \<Rightarrow> ('c, 'w) tcp_handler" where
  "trpc_handler sl spawn s =
     \<lparr>th_on_connect = (\<lambda>_ w. (Ok (), w)), th_on_message = trpc_on_message sl spawn s,
      th_on_disconnect = (\<lambda>_ w. (Ok (), w))\<rparr>"

section \<open>The server's connections\<close>

text \<open>One turn of the loop of \<open>handle_connection\<close> on the stream: whether it goes on, the rest, the world.\<close>

definition serve_turn ::
  "serde_lib \<Rightarrow> ('w service_fn \<Rightarrow> bytes \<Rightarrow> 'w \<Rightarrow> 'w) \<Rightarrow> (bytes \<Rightarrow> 'w \<Rightarrow> string option \<times> 'w) \<Rightarrow> 'w services \<Rightarrow>
    bytes \<Rightarrow> 'w \<Rightarrow> flow \<times> bytes \<times> 'w" where
  "serve_turn sl spawn write_all s stream w =
     (case read_frame sl stream of
        (Inl (Panic m), rest) \<Rightarrow> (Crash m, rest, w)
      | (Inl (Fail e), rest) \<Rightarrow> (Break, rest, w)
      | (Inr None, rest) \<Rightarrow> (Break, rest, w)
      | (Inr (Some f), rest) \<Rightarrow>
          (case fr_kind f of
             Tell \<Rightarrow> (Continue, rest, tell spawn s f w)
           | Request \<Rightarrow>
               (case answer s f w of
                  (Inl (Panic m), w1) \<Rightarrow> (Crash m, rest, w1)
                | (Inl (Fail e), w1) \<Rightarrow> (Break, rest, w1)
                | (Inr response, w1) \<Rightarrow>
                    (case write_frame sl write_all response w1 of
                       (Inr _, w2) \<Rightarrow> (Continue, rest, w2)
                     | (Inl _, w2) \<Rightarrow> (Break, rest, w2)))
           | _ \<Rightarrow> (Continue, rest, w)))"

lemma read_frame_shorter: "read_frame sl s = (Ok (Some f), rest) \<Longrightarrow> length rest < length s"
  by (auto simp: read_frame_def Let_def split: if_splits)

lemma serve_turn_shorter: "serve_turn sl spawn wa s stream w = (Continue, rest, w1) \<Longrightarrow> length rest < length stream"
  by (auto simp: serve_turn_def split: prod.splits sum.splits fault.splits option.splits frame_kind.splits
      dest!: read_frame_shorter)

function serve_connection ::
  "serde_lib \<Rightarrow> ('w service_fn \<Rightarrow> bytes \<Rightarrow> 'w \<Rightarrow> 'w) \<Rightarrow> (bytes \<Rightarrow> 'w \<Rightarrow> string option \<times> 'w) \<Rightarrow> 'w services \<Rightarrow>
    bytes \<Rightarrow> 'w \<Rightarrow> string option \<times> 'w" where
  "serve_connection sl spawn wa s stream w =
     (case serve_turn sl spawn wa s stream w of
        (Continue, rest, w1) \<Rightarrow> serve_connection sl spawn wa s rest w1
      | (Break, rest, w1) \<Rightarrow> (None, w1)
      | (Crash m, rest, w1) \<Rightarrow> (Some m, w1))"
  by pat_completeness auto

termination
  by (relation "measure (\<lambda>(sl, spawn, wa, s, stream, w). length stream)")
    (auto dest: serve_turn_shorter [OF sym])

section \<open>Round trips\<close>

lemma dec_enc_frame: "dec_frame (enc_frame f) = Some f"
proof -
  have kind: "dec_frame_kind (enc_frame_kind k) = Some k" for k
    by (cases k) (simp_all add: dec_frame_kind_def enc_frame_kind_def)
  have u8: "dec_u8 (JInt (uint b)) = Some b" for b
    using unsigned_less [of b, where ?'a = int] by (simp add: dec_u8_def)
  show ?thesis
    by (cases f) (simp add: dec_frame_def enc_frame_def kind dec_basic_rt dec_list_enc [OF u8])
qed

lemma base_256: "((N div 16777216 * 256 + N div 65536 mod 256) * 256 + N div 256 mod 256) * 256 + N mod 256 = (N :: nat)"
proof -
  have "N div 16777216 * 256 + N div 65536 mod 256 = N div 65536"
    using div_mult_mod_eq [of "N div 65536" 256] by (simp add: div_mult2_eq [symmetric])
  moreover have "N div 65536 * 256 + N div 256 mod 256 = N div 256"
    using div_mult_mod_eq [of "N div 256" 256] by (simp add: div_mult2_eq [symmetric])
  ultimately show ?thesis by simp
qed

lemma from_to_be_bytes [simp]: "from_be_bytes (to_be_bytes n) = n"
proof -
  have byte: "unat (of_nat m :: u8) = m mod 256" for m by (simp add: unat_of_nat take_bit_eq_mod)
  have low: "unat (ucast n :: u8) = unat n mod 256"
    by (simp add: unsigned_ucast_eq take_bit_word_eq_self unsigned_take_bit_eq take_bit_eq_mod)
  have "unat n div 16777216 < 256" using unat_u32_less [of n] by (simp add: div_less_iff_less_mult)
  then have "unat n div 16777216 mod 256 = unat n div 16777216" by simp
  then have "foldl (\<lambda>a b. a * 256 + unat b) 0 (to_be_bytes n) = unat n"
    using base_256 [of "unat n"] by (simp add: to_be_bytes_def byte low)
  then show ?thesis by (simp add: from_be_bytes_def)
qed

lemma length_to_be_bytes [simp]: "length (to_be_bytes n) = 4"
  by (simp add: to_be_bytes_def)

text \<open>
  What \<open>read_frame\<close> makes of what \<open>write_frame\<close> puts on the wire, for a JSON library that
  reads its own text: a frame whose text has at most 16 MB comes back unchanged and leaves exactly
  the bytes behind it; a longer text, which \<open>write_frame\<close> sends all the same, is refused.
\<close>

theorem frame_roundtrip:
  assumes "sl_to_vec sl (enc_frame f) = Inr data" and "sl_from_slice sl data = Inr (enc_frame f)"
    and "length data < 2 ^ 32"
  shows "\<exists>b. frame_bytes sl f = Ok b \<and> read_frame sl (b @ rest) =
      (if length data \<le> unat max_frame_size then (Ok (Some f), rest)
       else (Err RpcServerFailed (''frame too large: '' @ show_nat (length data) @ '' bytes''), data @ rest))"
proof -
  have len: "unat (of_nat (length data) :: u32) = length data"
    using assms(3) by (simp add: unat_of_nat take_bit_eq_mod)
  have max: "max_frame_size < of_nat (length data) \<longleftrightarrow> unat max_frame_size < length data"
    by (simp add: word_less_nat_alt len)
  have "parse_frame sl data = Ok f" using assms(2) by (simp add: parse_frame_def dec_enc_frame)
  then show ?thesis
    using assms(1) by (simp add: frame_bytes_def or_fail_def read_frame_def max len not_less)
qed

text \<open>A JSON library with a single text, for the ping frame of the witness.\<close>

definition ping_frame :: frame where
  "ping_frame = \<lparr>fr_kind = Request, fr_request_id = 7, fr_service = ''ping'', fr_payload = [1, 2]\<rparr>"

definition demo_json :: serde_lib where
  "demo_json = \<lparr>sl_to_vec = (\<lambda>v. if v = enc_frame ping_frame then Inr [1, 2, 3] else Inl ''no text''),
     sl_from_slice = (\<lambda>d. if d = [1, 2, 3] then Inr (enc_frame ping_frame) else Inl ''no value'')\<rparr>"

theorem frame_roundtrip_witness:
  "\<exists>b. frame_bytes demo_json ping_frame = Ok b \<and> read_frame demo_json (b @ [9]) = (Ok (Some ping_frame), [9])"
  using frame_roundtrip [of demo_json ping_frame "[1, 2, 3]" "[9]"]
  by (simp add: demo_json_def max_frame_size_def)

lemma listener_cannot_register: "register_raw True name h s = Inl (Panic ''Cannot block the current thread from within a runtime.'')"
  by (simp add: register_raw_def)

end
