(* ===== verification/Trpc_Client.thy ===== *)
theory Trpc_Client
  imports Trpc
begin

text \<open>
  The client of the light RPC protocol: \<open>rinfra-plugins/src/rpc/trpc/client.rs\<close>. Asking tasks, the
  write loop and the read loop interleave at their await points, so the client is a step relation:
  its state holds the counter, the map of pending requests, the channel of 256 frames to the write
  loop, the one-shot channels and where each ask stands. The last two fields record what has been
  written and read.
\<close>

section \<open>The steps\<close>

definition max_reconnect_attempts :: u32 where "max_reconnect_attempts = 3"

definition reconnect_base_delay_ms :: u64 where "reconnect_base_delay_ms = 500"

definition connect_with_retry :: "'w runtime \<Rightarrow> (string \<Rightarrow> 'w \<Rightarrow> (string + 'stream) \<times> 'w) \<Rightarrow> string \<Rightarrow> 'w \<Rightarrow> 'stream res \<times> 'w" where
  "connect_with_retry rt tcp_connect addr =
     with_retry rt (retry_exponential max_reconnect_attempts reconnect_base_delay_ms 5000)
       (\<lambda>w. case tcp_connect addr w of (r, w1) \<Rightarrow>
          (or_fail RpcServerFailed (''trpc connect '' @ addr @ '' failed: '') r, w1))"

text \<open>A one-shot channel, and where an ask stands: before the lock of the map, before the send,
  waiting for the answer, before the lock again after a failed send, or finished.\<close>

datatype oneshot = Empty | Sent "bytes res" | SenderDropped

datatype ask_phase = Inserting | Sending | Waiting | Removing | Done (ask_result: "bytes res")

record trpc_client =
  tc_next_id :: u64
  tc_pending :: "(u64 \<times> nat) list"
  tc_queue :: "frame list"
  tc_write_open :: bool
  tc_read_open :: bool
  tc_asked :: "frame list"
  tc_phase :: "nat \<Rightarrow> ask_phase"
  tc_channel :: "nat \<Rightarrow> oneshot"
  tc_written :: "frame list"
  tc_read :: "frame list"

text \<open>\<open>connect\<close>, once there is a stream.\<close>

definition trpc_connected :: trpc_client where
  "trpc_connected =
     \<lparr>tc_next_id = 1, tc_pending = [], tc_queue = [], tc_write_open = True, tc_read_open = True,
      tc_asked = [], tc_phase = (\<lambda>_. Inserting), tc_channel = (\<lambda>_. Empty), tc_written = [], tc_read = []\<rparr>"

definition write_channel_capacity :: nat where "write_channel_capacity = 256"

definition tell_frame :: "string \<Rightarrow> bytes \<Rightarrow> frame" where
  "tell_frame service payload = \<lparr>fr_kind = Tell, fr_request_id = 0, fr_service = service, fr_payload = payload\<rparr>"

definition ask_frame :: "u64 \<Rightarrow> string \<Rightarrow> bytes \<Rightarrow> frame" where
  "ask_frame i service payload = \<lparr>fr_kind = Request, fr_request_id = i, fr_service = service, fr_payload = payload\<rparr>"

abbreviation connection_closed :: "'a res" where
  "connection_closed \<equiv> Err RpcServiceError ''trpc: connection closed''"

text \<open>What becomes of a one-shot channel when its sender is used or dropped.\<close>

definition send_on :: "nat \<Rightarrow> bytes res \<Rightarrow> (nat \<Rightarrow> oneshot) \<Rightarrow> nat \<Rightarrow> oneshot" where
  "send_on c r ch = ch(c := Sent r)"

definition drop_sender :: "nat option \<Rightarrow> (nat \<Rightarrow> oneshot) \<Rightarrow> nat \<Rightarrow> oneshot" where
  "drop_sender co ch = (case co of Some c \<Rightarrow> ch(c := SenderDropped) | None \<Rightarrow> ch)"

text \<open>\<open>ask\<close>, one part after each await; a call is known by its number.\<close>

definition ask_start :: "string \<Rightarrow> bytes \<Rightarrow> trpc_client \<Rightarrow> trpc_client" where
  "ask_start service payload st =
     (let c = length (tc_asked st)
      in st\<lparr>tc_next_id := tc_next_id st + 1,
            tc_asked := tc_asked st @ [ask_frame (tc_next_id st) service payload],
            tc_phase := (tc_phase st)(c := Inserting), tc_channel := (tc_channel st)(c := Empty)\<rparr>)"

definition call_id :: "trpc_client \<Rightarrow> nat \<Rightarrow> u64" where
  "call_id st c = fr_request_id (tc_asked st ! c)"

definition ask_insert :: "nat \<Rightarrow> trpc_client \<Rightarrow> trpc_client" where
  "ask_insert c st =
     st\<lparr>tc_pending := hm_insert (call_id st c) c (tc_pending st),
        tc_channel := drop_sender (hm_get (tc_pending st) (call_id st c)) (tc_channel st),
        tc_phase := (tc_phase st)(c := Sending)\<rparr>"

definition ask_send :: "nat \<Rightarrow> trpc_client \<Rightarrow> trpc_client" where
  "ask_send c st =
     (if tc_write_open st
      then st\<lparr>tc_queue := tc_queue st @ [tc_asked st ! c], tc_phase := (tc_phase st)(c := Waiting)\<rparr>
      else st\<lparr>tc_phase := (tc_phase st)(c := Removing)\<rparr>)"

definition ask_remove :: "nat \<Rightarrow> trpc_client \<Rightarrow> trpc_client" where
  "ask_remove c st =
     st\<lparr>tc_pending := hm_remove (call_id st c) (tc_pending st),
        tc_channel := drop_sender (hm_get (tc_pending st) (call_id st c)) (tc_channel st),
        tc_phase := (tc_phase st)(c := Done connection_closed)\<rparr>"

text \<open>\<open>rx.await\<close>: nothing yet, the value, or the sender's end.\<close>

definition ask_await :: "nat \<Rightarrow> trpc_client \<Rightarrow> bytes res option" where
  "ask_await c st =
     (case tc_channel st c of
        Empty \<Rightarrow> None
      | Sent r \<Rightarrow> Some r
      | SenderDropped \<Rightarrow> Some (Err RpcServiceError ''trpc: connection lost while waiting for response''))"

text \<open>\<open>ask_timeout\<close> drops the ask where it stands.\<close>

definition ask_timed_out :: "bytes res" where
  "ask_timed_out = Err RpcServiceError ''trpc: ask timed out''"

definition pending_take :: "u64 \<Rightarrow> bytes res \<Rightarrow> trpc_client \<Rightarrow> trpc_client" where
  "pending_take i r st =
     (case hm_get (tc_pending st) i of
        Some c \<Rightarrow> st\<lparr>tc_pending := hm_remove i (tc_pending st), tc_channel := send_on c r (tc_channel st)\<rparr>
      | None \<Rightarrow> st)"

text \<open>A frame in \<open>read_loop\<close>, and its end.\<close>

definition read_loop_frame :: "(bytes \<Rightarrow> string) \<Rightarrow> frame \<Rightarrow> trpc_client \<Rightarrow> trpc_client" where
  "read_loop_frame utf8_lossy f st =
     (let st' = st\<lparr>tc_read := tc_read st @ [f]\<rparr>
      in case fr_kind f of
           Response \<Rightarrow> pending_take (fr_request_id f) (Ok (fr_payload f)) st'
         | ErrorFrame \<Rightarrow> pending_take (fr_request_id f) (Err RpcServiceError (utf8_lossy (fr_payload f))) st'
         | _ \<Rightarrow> st')"

definition read_loop_end :: "trpc_client \<Rightarrow> trpc_client" where
  "read_loop_end st =
     st\<lparr>tc_read_open := False, tc_pending := [],
        tc_channel := fold (\<lambda>(_, c). send_on c connection_closed) (tc_pending st) (tc_channel st)\<rparr>"

text \<open>A turn of \<open>write_loop\<close>; at its end the receiver is dropped with what it holds.\<close>

definition write_loop_turn :: "bool \<Rightarrow> trpc_client \<Rightarrow> trpc_client" where
  "write_loop_turn ok st =
     (case tc_queue st of
        [] \<Rightarrow> st
      | f # q \<Rightarrow>
          if ok then st\<lparr>tc_queue := q, tc_written := tc_written st @ [f]\<rparr>
          else st\<lparr>tc_queue := [], tc_write_open := False\<rparr>)"

definition trpc_tell :: "string \<Rightarrow> bytes \<Rightarrow> trpc_client \<Rightarrow> unit res \<times> trpc_client" where
  "trpc_tell service payload st =
     (if tc_write_open st then (Ok (), st\<lparr>tc_queue := tc_queue st @ [tell_frame service payload]\<rparr>)
      else (connection_closed, st))"

definition has_room :: "trpc_client \<Rightarrow> bool" where
  "has_room st \<longleftrightarrow> \<not> tc_write_open st \<or> length (tc_queue st) < write_channel_capacity"

definition asking :: "trpc_client \<Rightarrow> nat \<Rightarrow> ask_phase \<Rightarrow> bool" where
  "asking st c p \<longleftrightarrow> c < length (tc_asked st) \<and> tc_phase st c = p"

inductive client_step :: "(bytes \<Rightarrow> string) \<Rightarrow> trpc_client \<Rightarrow> trpc_client \<Rightarrow> bool"
  for u :: "bytes \<Rightarrow> string" where
  Start: "client_step u st (ask_start service payload st)"
| Insert: "asking st c Inserting \<Longrightarrow> client_step u st (ask_insert c st)"
| Send: "asking st c Sending \<Longrightarrow> has_room st \<Longrightarrow> client_step u st (ask_send c st)"
| Remove: "asking st c Removing \<Longrightarrow> client_step u st (ask_remove c st)"
| Resume: "asking st c Waiting \<Longrightarrow> ask_await c st = Some r \<Longrightarrow>
    client_step u st (st\<lparr>tc_phase := (tc_phase st)(c := Done r)\<rparr>)"
| Timeout: "c < length (tc_asked st) \<Longrightarrow> \<forall>r. tc_phase st c \<noteq> Done r \<Longrightarrow>
    client_step u st (st\<lparr>tc_phase := (tc_phase st)(c := Done ask_timed_out)\<rparr>)"
| TellStep: "has_room st \<Longrightarrow> client_step u st (snd (trpc_tell service payload st))"
| WriteTurn: "client_step u st (write_loop_turn ok st)"
| FrameIn: "tc_read_open st \<Longrightarrow> client_step u st (read_loop_frame u f st)"
| ReadEnd: "tc_read_open st \<Longrightarrow> client_step u st (read_loop_end st)"

inductive client_reach :: "(bytes \<Rightarrow> string) \<Rightarrow> trpc_client \<Rightarrow> bool"
  for u :: "bytes \<Rightarrow> string" where
  reach_start: "client_reach u trpc_connected"
| reach_step: "client_reach u st \<Longrightarrow> client_step u st st' \<Longrightarrow> client_reach u st'"

inductive_cases client_stepE: "client_step u st st'"

lemmas client_defs = ask_start_def ask_insert_def ask_send_def ask_remove_def read_loop_frame_def
  read_loop_end_def write_loop_turn_def trpc_tell_def pending_take_def drop_sender_def send_on_def
  call_id_def asking_def Let_def

section \<open>The invariant\<close>

definition answered_by :: "trpc_client \<Rightarrow> nat \<Rightarrow> bytes \<Rightarrow> bool" where
  "answered_by st c p \<longleftrightarrow>
     (\<exists>f\<in>set (tc_read st). fr_kind f = Response \<and> fr_request_id f = call_id st c \<and> fr_payload f = p)"

definition client_inv :: "trpc_client \<Rightarrow> bool" where
  "client_inv st \<longleftrightarrow>
     tc_next_id st = of_nat (length (tc_asked st) + 1) \<and>
     (\<forall>c<length (tc_asked st). fr_kind (tc_asked st ! c) = Request \<and> call_id st c = of_nat (c + 1)) \<and>
     (\<forall>i c. hm_get (tc_pending st) i = Some c \<longrightarrow> c < length (tc_asked st) \<and> call_id st c = i) \<and>
     (\<forall>f\<in>set (tc_queue st) \<union> set (tc_written st). fr_kind f = Request \<longrightarrow> f \<in> set (tc_asked st)) \<and>
     (\<forall>c p. c < length (tc_asked st) \<longrightarrow> tc_channel st c = Sent (Ok p) \<longrightarrow> answered_by st c p) \<and>
     (\<forall>c p. c < length (tc_asked st) \<longrightarrow> tc_phase st c = Done (Ok p) \<longrightarrow> answered_by st c p)"

lemma client_invI:
  assumes "tc_next_id st = of_nat (length (tc_asked st) + 1)"
    and "\<And>c. c < length (tc_asked st) \<Longrightarrow> fr_kind (tc_asked st ! c) = Request \<and> call_id st c = of_nat (c + 1)"
    and "\<And>i c. hm_get (tc_pending st) i = Some c \<Longrightarrow> c < length (tc_asked st) \<and> call_id st c = i"
    and "\<And>f. f \<in> set (tc_queue st) \<union> set (tc_written st) \<Longrightarrow> fr_kind f = Request \<Longrightarrow> f \<in> set (tc_asked st)"
    and "\<And>c p. c < length (tc_asked st) \<Longrightarrow> tc_channel st c = Sent (Ok p) \<Longrightarrow> answered_by st c p"
    and "\<And>c p. c < length (tc_asked st) \<Longrightarrow> tc_phase st c = Done (Ok p) \<Longrightarrow> answered_by st c p"
  shows "client_inv st"
  unfolding client_inv_def using assms by (intro conjI allI impI ballI) blast+

lemma client_invD:
  assumes "client_inv st"
  shows "tc_next_id st = of_nat (length (tc_asked st) + 1)"
    and "c < length (tc_asked st) \<Longrightarrow> fr_kind (tc_asked st ! c) = Request"
    and "c < length (tc_asked st) \<Longrightarrow> call_id st c = of_nat (c + 1)"
    and "hm_get (tc_pending st) i = Some c \<Longrightarrow> c < length (tc_asked st) \<and> call_id st c = i"
    and "f \<in> set (tc_queue st) \<Longrightarrow> fr_kind f = Request \<Longrightarrow> f \<in> set (tc_asked st)"
    and "f \<in> set (tc_written st) \<Longrightarrow> fr_kind f = Request \<Longrightarrow> f \<in> set (tc_asked st)"
    and "c < length (tc_asked st) \<Longrightarrow> tc_channel st c = Sent (Ok p) \<Longrightarrow> answered_by st c p"
    and "c < length (tc_asked st) \<Longrightarrow> tc_phase st c = Done (Ok p) \<Longrightarrow> answered_by st c p"
  using assms unfolding client_inv_def by blast+

lemma connected_inv: "client_inv trpc_connected"
  by (simp add: client_inv_def trpc_connected_def)

text \<open>Steps that leave the map, the numbering and what was read alone, and add no answer.\<close>

lemma inv_transfer:
  assumes "client_inv st" and "tc_next_id st' = tc_next_id st" and "tc_asked st' = tc_asked st"
    and "\<And>i c. hm_get (tc_pending st') i = Some c \<Longrightarrow>
      hm_get (tc_pending st) i = Some c \<or> c < length (tc_asked st) \<and> call_id st c = i"
    and "\<And>f. f \<in> set (tc_queue st') \<union> set (tc_written st') \<Longrightarrow>
      f \<in> set (tc_queue st) \<union> set (tc_written st) \<union> set (tc_asked st) \<or> fr_kind f \<noteq> Request"
    and "set (tc_read st) \<subseteq> set (tc_read st')"
    and "\<And>c p. c < length (tc_asked st) \<Longrightarrow> tc_channel st' c = Sent (Ok p) \<Longrightarrow>
      tc_channel st c = Sent (Ok p) \<or> answered_by st' c p"
    and "\<And>c p. c < length (tc_asked st) \<Longrightarrow> tc_phase st' c = Done (Ok p) \<Longrightarrow>
      tc_phase st c = Done (Ok p) \<or> tc_channel st c = Sent (Ok p)"
  shows "client_inv st'"
proof -
  have id: "call_id st' c = call_id st c" for c by (simp add: call_id_def assms(3))
  have mono: "answered_by st c p \<Longrightarrow> answered_by st' c p" for c p
    using assms(6) by (auto simp: answered_by_def id)
  note D = client_invD [OF assms(1)]
  show ?thesis
  proof (rule client_invI, unfold id assms(2,3))
    show "tc_next_id st = of_nat (length (tc_asked st) + 1)" by (rule D(1))
  next
    fix c assume "c < length (tc_asked st)"
    then show "fr_kind (tc_asked st ! c) = Request \<and> call_id st c = of_nat (c + 1)" using D(2,3) by blast
  next
    fix i c assume "hm_get (tc_pending st') i = Some c"
    then show "c < length (tc_asked st) \<and> call_id st c = i" using assms(4) D(4) by blast
  next
    fix f assume "f \<in> set (tc_queue st') \<union> set (tc_written st')" "fr_kind f = Request"
    then show "f \<in> set (tc_asked st)" using assms(5) [of f] D(5,6) by blast
  next
    fix c p assume "c < length (tc_asked st)" "tc_channel st' c = Sent (Ok p)"
    then show "answered_by st' c p" using assms(7) D(7) mono by blast
  next
    fix c p assume "c < length (tc_asked st)" "tc_phase st' c = Done (Ok p)"
    then show "answered_by st' c p" using assms(8) D(7,8) mono by blast
  qed
qed

lemma hm_remove_Some: "hm_get (hm_remove i m) j = Some c \<Longrightarrow> hm_get m j = Some c"
  by (auto split: if_splits)

lemma start_inv: "client_inv st \<Longrightarrow> client_inv (ask_start service payload st)"
proof (rule client_invI)
  assume inv: "client_inv st"
  let ?st = "ask_start service payload st"
  have len: "length (tc_asked ?st) = Suc (length (tc_asked st))" by (simp add: ask_start_def Let_def)
  have id: "c < length (tc_asked st) \<Longrightarrow> call_id ?st c = call_id st c" for c
    by (simp add: call_id_def ask_start_def Let_def nth_append)
  have old: "c < length (tc_asked st) \<Longrightarrow> answered_by ?st c p = answered_by st c p" for c p
    by (simp add: answered_by_def id) (simp add: ask_start_def Let_def)
  show "tc_next_id ?st = of_nat (length (tc_asked ?st) + 1)"
    using client_invD(1) [OF inv] by (simp add: ask_start_def Let_def)
  show "fr_kind (tc_asked ?st ! c) = Request \<and> call_id ?st c = of_nat (c + 1)"
    if "c < length (tc_asked ?st)" for c
    using that client_invD(1-3) [OF inv] unfolding len
    by (cases "c = length (tc_asked st)")
      (auto simp: ask_start_def Let_def call_id_def nth_append ask_frame_def)
  show "c < length (tc_asked ?st) \<and> call_id ?st c = i" if "hm_get (tc_pending ?st) i = Some c" for i c
  proof -
    have "hm_get (tc_pending st) i = Some c" using that by (simp add: ask_start_def Let_def)
    then have "c < length (tc_asked st)" "call_id st c = i" using client_invD(4) [OF inv] by blast+
    then show ?thesis by (simp add: len id)
  qed
  show "f \<in> set (tc_asked ?st)" if "f \<in> set (tc_queue ?st) \<union> set (tc_written ?st)" "fr_kind f = Request" for f
    using that client_invD(5,6) [OF inv] by (auto simp: ask_start_def Let_def)
  show "answered_by ?st c p" if "c < length (tc_asked ?st)" "tc_channel ?st c = Sent (Ok p)" for c p
  proof -
    have "c < length (tc_asked st)" "tc_channel st c = Sent (Ok p)"
      using that unfolding len by (auto simp: ask_start_def Let_def split: if_splits)
    then show ?thesis using client_invD(7) [OF inv] by (simp add: old)
  qed
  show "answered_by ?st c p" if "c < length (tc_asked ?st)" "tc_phase ?st c = Done (Ok p)" for c p
  proof -
    have "c < length (tc_asked st)" "tc_phase st c = Done (Ok p)"
      using that unfolding len by (auto simp: ask_start_def Let_def split: if_splits)
    then show ?thesis using client_invD(8) [OF inv] by (simp add: old)
  qed
qed

lemma fold_closed:
  "fold (\<lambda>(_, c). send_on c connection_closed) m ch c = Sent (Ok p) \<Longrightarrow> ch c = Sent (Ok p)"
proof (induction m arbitrary: ch rule: rev_induct)
  case (snoc x m)
  then show ?case by (cases x) (auto simp: send_on_def split: if_splits)
qed simp

lemma drop_sender_Sent: "drop_sender co ch c = Sent r \<Longrightarrow> ch c = Sent r"
  by (auto simp: drop_sender_def split: option.splits if_splits)

lemma pending_take_inv:
  assumes inv: "client_inv st"
    and ans: "\<And>p c. r = Ok p \<Longrightarrow> call_id st c = i \<Longrightarrow> answered_by (st\<lparr>tc_read := tc_read st @ [f]\<rparr>) c p"
  shows "client_inv (pending_take i r (st\<lparr>tc_read := tc_read st @ [f]\<rparr>))"
proof (cases "hm_get (tc_pending st) i")
  case None
  then show ?thesis by (auto simp: pending_take_def intro!: inv_transfer [OF inv])
next
  case (Some k)
  then have k: "call_id st k = i" using client_invD(4) [OF inv] by blast
  let ?st = "pending_take i r (st\<lparr>tc_read := tc_read st @ [f]\<rparr>)"
  have ans': "answered_by ?st k p" if "r = Ok p" for p
    using ans [OF that k] Some by (simp add: answered_by_def call_id_def pending_take_def)
  show ?thesis
    by (rule inv_transfer [OF inv])
      (use Some ans' in \<open>auto simp: pending_take_def send_on_def split: if_splits\<close>)
qed

lemma client_step_inv:
  assumes step: "client_step u st st'" and inv: "client_inv st"
  shows "client_inv st'"
  using step
proof (cases rule: client_step.cases)
  case (Start service payload)
  then show ?thesis by (simp add: start_inv inv)
next
  case (Insert c)
  then show ?thesis
    by (auto simp: ask_insert_def asking_def call_id_def split: if_splits dest: drop_sender_Sent intro!: inv_transfer [OF inv])
next
  case (Send c)
  then show ?thesis
    by (auto simp: ask_send_def asking_def split: if_splits intro!: inv_transfer [OF inv])
next
  case (Remove c)
  then show ?thesis
    by (auto simp: ask_remove_def split: if_splits dest: drop_sender_Sent hm_remove_Some intro!: inv_transfer [OF inv])
next
  case (Resume c r)
  then show ?thesis
    by (auto simp: ask_await_def split: if_splits oneshot.splits intro!: inv_transfer [OF inv])
next
  case (Timeout c)
  then show ?thesis
    by (auto simp: ask_timed_out_def split: if_splits intro!: inv_transfer [OF inv])
next
  case (TellStep service payload)
  then show ?thesis
    by (auto simp: trpc_tell_def tell_frame_def intro!: inv_transfer [OF inv])
next
  case (WriteTurn ok)
  then show ?thesis
    by (auto simp: write_loop_turn_def split: list.splits intro!: inv_transfer [OF inv])
next
  case (FrameIn f)
  then show ?thesis
    by (auto simp: read_loop_frame_def Let_def answered_by_def call_id_def
        split: frame_kind.splits intro!: pending_take_inv inv inv_transfer [OF inv])
next
  case ReadEnd
  then show ?thesis
    by (auto simp: read_loop_end_def dest: fold_closed intro!: inv_transfer [OF inv])
qed

lemma client_reach_inv: "client_reach u st \<Longrightarrow> client_inv st"
  by (induction rule: client_reach.induct) (auto intro: connected_inv client_step_inv)

section \<open>What an ask returns\<close>

lemma answer_response:
  assumes "answer s g w = (Ok f, w')"
  shows "fr_request_id f = fr_request_id g"
    and "fr_kind f = Response \<Longrightarrow> \<exists>h. s (fr_service g) = Some h \<and> h (fr_payload g) w = (Ok (fr_payload f), w')"
  using assms by (auto simp: answer_def split: option.splits prod.splits sum.splits fault.splits)

lemma call_ids_distinct:
  assumes "client_inv st" and "length (tc_asked st) \<le> 2 ^ 64"
    and "c < length (tc_asked st)" and "d < length (tc_asked st)" and "call_id st c = call_id st d"
  shows "c = d"
proof -
  have "word_of_nat c = (word_of_nat d :: u64)"
    using client_invD(3) [OF assms(1)] assms(3-5) by simp
  then have "c mod 2 ^ 64 = d mod 2 ^ 64" by (simp add: word_of_nat_eq_iff take_bit_eq_mod)
  then show ?thesis using assms(2-4) by simp
qed

text \<open>
  C35: An ask returns the answer of its own service to its own payload. However asks, their time
  limits, tells and the two loops interleave, if the frames of kind response that the client reads
  are answers a server gave to requests the client wrote, then a payload an ask returns is what the
  handler registered under the asked service made of the asked payload (for the first \<open>2 ^ 64\<close> asks
  of a client, after which its numbers start again).
\<close>

theorem ask_answered_by_its_service:
  assumes reach: "client_reach u st" and fewer: "length (tc_asked st) \<le> 2 ^ 64"
    and server: "\<forall>f\<in>set (tc_read st). fr_kind f = Response \<longrightarrow>
      (\<exists>g\<in>set (tc_written st). fr_kind g = Request \<and> (\<exists>w w'. answer s g w = (Ok f, w')))"
    and ask: "c < length (tc_asked st)" and ret: "tc_phase st c = Done (Ok p)"
  shows "\<exists>h w w'. s (fr_service (tc_asked st ! c)) = Some h \<and> h (fr_payload (tc_asked st ! c)) w = (Ok p, w')"
proof -
  have inv: "client_inv st" using reach by (rule client_reach_inv)
  obtain f where f: "f \<in> set (tc_read st)" "fr_kind f = Response" "fr_request_id f = call_id st c" "fr_payload f = p"
    using client_invD(8) [OF inv ask ret] by (auto simp: answered_by_def)
  obtain g w w' where g: "g \<in> set (tc_written st)" "fr_kind g = Request" "answer s g w = (Ok f, w')"
    using server f(1,2) by blast
  obtain d where d: "d < length (tc_asked st)" "g = tc_asked st ! d"
    using client_invD(6) [OF inv g(1,2)] by (auto simp: in_set_conv_nth)
  have "d = c"
    using call_ids_distinct [OF inv fewer d(1) ask] answer_response(1) [OF g(3)] f(3) d(2)
    by (simp add: call_id_def)
  then show ?thesis
    using answer_response(2) [OF g(3) f(2)] f(4) d(2) by auto
qed

text \<open>One ask of an echoing service, from the connection to its return.\<close>

definition echo_services :: "unit services" where
  "echo_services = [''echo'' \<mapsto> (\<lambda>p w. (Ok p, w))]"

definition echoed :: trpc_client where
  "echoed = (let st = write_loop_turn True (ask_send 0 (ask_insert 0 (ask_start ''echo'' [5] trpc_connected)));
       st' = read_loop_frame (\<lambda>_. ''text'') \<lparr>fr_kind = Response, fr_request_id = 1, fr_service = ''echo'', fr_payload = [5]\<rparr> st
     in st'\<lparr>tc_phase := (tc_phase st')(0 := Done (Ok [5]))\<rparr>)"

lemma hm_get_single: "hm_get [(k, v)] k' = (if k' = k then Some v else None)"
  by (simp add: hm_get_def)

lemmas demo_client_simps = trpc_connected_def write_channel_capacity_def has_room_def ask_await_def
  ask_frame_def asking_def client_defs hm_insert_def hm_remove_def hm_get_single

lemma echoed_reach: "client_reach (\<lambda>_. ''text'') echoed"
  unfolding echoed_def Let_def
  by (intro reach_step [OF _ client_step.Resume] reach_step [OF _ client_step.FrameIn]
      reach_step [OF _ client_step.WriteTurn] reach_step [OF _ client_step.Send]
      reach_step [OF _ client_step.Insert] reach_step [OF _ client_step.Start] reach_start)
    (simp_all add: demo_client_simps)

theorem ask_answered_by_its_service_witness:
  "\<exists>h w w'. echo_services ''echo'' = Some h \<and> h [5] w = (Ok [5 :: u8], w' :: unit)"
  using ask_answered_by_its_service [OF echoed_reach, of echo_services 0 "[5]"]
  by (simp add: echoed_def demo_client_simps answer_def echo_services_def)

section \<open>The end of the connection\<close>

lemma fold_closed_pending:
  "c \<in> snd ` set m \<Longrightarrow> fold (\<lambda>(_, c). send_on c connection_closed) m ch c = Sent connection_closed"
proof (induction m arbitrary: ch rule: rev_induct)
  case (snoc x m)
  then show ?case by (cases x) (auto simp: send_on_def)
qed simp

text \<open>When the read loop ends, every ask in the map is told so.\<close>

lemma read_end_answers_pending:
  assumes "hm_get (tc_pending st) i = Some c"
  shows "ask_await c (read_loop_end st) = Some connection_closed"
proof -
  have "c \<in> snd ` set (tc_pending st)" using hm_get_Some_in [OF assms] by force
  then show ?thesis by (simp add: read_loop_end_def ask_await_def fold_closed_pending)
qed

text \<open>
  An ask after that is not: the map takes its sender, the write loop its frame, and nothing ever
  reads an answer or drains the map again, so without a time limit it waits for ever.
\<close>

definition forgotten :: "trpc_client \<Rightarrow> nat \<Rightarrow> bool" where
  "forgotten st c \<longleftrightarrow> \<not> tc_read_open st \<and> c < length (tc_asked st) \<and> tc_phase st c = Waiting \<and>
     tc_channel st c = Empty \<and> hm_get (tc_pending st) (call_id st c) = Some c"

definition unread :: trpc_client where
  "unread = write_loop_turn True (ask_send 0 (ask_insert 0 (ask_start ''echo'' [5] (read_loop_end trpc_connected))))"

lemma ask_after_close_is_forgotten: "client_reach u unread \<and> forgotten unread 0"
proof
  show "client_reach u unread"
    unfolding unread_def
    by (intro reach_step [OF _ client_step.WriteTurn] reach_step [OF _ client_step.Send]
        reach_step [OF _ client_step.Insert] reach_step [OF _ client_step.Start]
        reach_step [OF _ client_step.ReadEnd] reach_start)
      (simp_all add: demo_client_simps)
  show "forgotten unread 0"
    by (simp add: unread_def forgotten_def demo_client_simps hm_get_single)
qed

lemma forgotten_stays:
  assumes step: "client_step u st st'" and forg: "forgotten st c" and inv: "client_inv st"
    and fewer: "length (tc_asked st) \<le> 2 ^ 64"
  shows "forgotten st' c \<or> tc_phase st' c = Done ask_timed_out"
proof -
  have d: "call_id st k \<noteq> call_id st c" if "k < length (tc_asked st)" "k \<noteq> c" for k
    using call_ids_distinct [OF inv fewer that(1)] forg that by (auto simp: forgotten_def)
  have p: "hm_get (tc_pending st) (call_id st k) \<noteq> Some c" if "k < length (tc_asked st)" "k \<noteq> c" for k
    using client_invD(4) [OF inv] d [OF that] by metis
  show ?thesis
    using step
  proof (cases rule: client_step.cases)
    case (Start service payload)
    then show ?thesis
      using forg by (auto simp: forgotten_def ask_start_def Let_def call_id_def nth_append)
  next
    case (Insert k)
    then have "k < length (tc_asked st)" "k \<noteq> c" using forg by (auto simp: asking_def forgotten_def)
    then show ?thesis
      using Insert forg d [of k] p [of k]
      by (auto simp: forgotten_def ask_insert_def call_id_def drop_sender_def split: option.splits)
  next
    case (Send k)
    then show ?thesis using forg by (auto simp: forgotten_def ask_send_def asking_def call_id_def)
  next
    case (Remove k)
    then have "k < length (tc_asked st)" "k \<noteq> c" using forg by (auto simp: asking_def forgotten_def)
    then show ?thesis
      using Remove forg d [of k] p [of k]
      by (auto simp: forgotten_def ask_remove_def call_id_def drop_sender_def split: option.splits)
  next
    case (Resume k r)
    then show ?thesis using forg by (auto simp: forgotten_def ask_await_def call_id_def)
  next
    case (Timeout k)
    then show ?thesis using forg by (auto simp: forgotten_def call_id_def)
  next
    case (TellStep service payload)
    then show ?thesis using forg by (auto simp: forgotten_def trpc_tell_def call_id_def)
  next
    case (WriteTurn ok)
    then show ?thesis using forg by (auto simp: forgotten_def write_loop_turn_def call_id_def split: list.splits)
  next
    case (FrameIn f)
    then show ?thesis using forg by (auto simp: forgotten_def)
  next
    case ReadEnd
    then show ?thesis using forg by (auto simp: forgotten_def)
  qed
qed

end
