(* ===== verification/Http_Client.thy ===== *)
theory Http_Client
  imports Resilience Config_Model
begin

text \<open>
  The outgoing HTTP client: the request and response types of
  \<open>rinfra-core/src/http_client/mod.rs\<close> and the client with retries and an optional circuit
  breaker of \<open>rinfra-plugins/src/http_client/reqwest_client.rs\<close>. The library reqwest is a record
  of functions: building a client, sending a request, and reading the body of the answer. Time
  is the \<open>runtime\<close> of the resilience wrappers, with which the retry loop is compared.
\<close>

section \<open>Requests and responses\<close>

datatype http_method = Get | Post | Put | Delete | Patch | Head | Options

record out_request =
  oq_method :: http_method
  oq_url :: string
  oq_headers :: "(string, string) hashmap"
  oq_body :: bytes
  oq_timeout_secs :: "u64 option"

definition out_request_new :: "http_method \<Rightarrow> string \<Rightarrow> out_request" where
  "out_request_new m url =
     \<lparr>oq_method = m, oq_url = url, oq_headers = [], oq_body = [], oq_timeout_secs = None\<rparr>"

definition out_get :: "string \<Rightarrow> out_request" where
  "out_get url = out_request_new Get url"

definition out_post :: "string \<Rightarrow> bytes \<Rightarrow> out_request" where
  "out_post url body = (out_request_new Post url)\<lparr>oq_body := body\<rparr>"

definition out_header :: "string \<Rightarrow> string \<Rightarrow> out_request \<Rightarrow> out_request" where
  "out_header k v req = req\<lparr>oq_headers := hm_insert k v (oq_headers req)\<rparr>"

definition out_timeout :: "u64 \<Rightarrow> out_request \<Rightarrow> out_request" where
  "out_timeout s req = req\<lparr>oq_timeout_secs := Some s\<rparr>"

record in_response =
  ir_status :: nat
  ir_headers :: "(string, string) hashmap"
  ir_body :: bytes

definition in_response_success :: "in_response \<Rightarrow> bool" where
  "in_response_success r \<longleftrightarrow> 200 \<le> ir_status r \<and> ir_status r < 300"

section \<open>The library\<close>

text \<open>What the client hands to reqwest: the method by its name, the headers in the order they
  are set, a body and a timeout only where the code sets them.\<close>

record wire_request =
  wq_method :: string
  wq_url :: string
  wq_headers :: "(string \<times> string) list"
  wq_body :: "bytes option"
  wq_timeout_secs :: "u64 option"

text \<open>An answer carries the headers as they came, repeated names included; a value that is not
  visible ASCII has no text. Its body is still to be read, which may fail.\<close>

record wire_response =
  wr_status :: nat
  wr_headers :: "(string \<times> string option) list"
  wr_body :: "string + bytes"

datatype send_error = TimedOut | SendFailed string

record ('c, 'w) reqwest =
  rq_build :: "u64 \<Rightarrow> string \<Rightarrow> string + 'c"
  rq_send :: "'c \<Rightarrow> wire_request \<Rightarrow> 'w \<Rightarrow> (send_error + wire_response) \<times> 'w"

section \<open>The client\<close>

record 'c http_client =
  hc_client :: 'c
  hc_max_retries :: u32
  hc_retry_delay_ms :: u64
  hc_has_breaker :: bool

definition http_client_new :: "('c, 'w) reqwest \<Rightarrow> http_client_config \<Rightarrow> 'c http_client res" where
  "http_client_new rq cfg =
     (case rq_build rq (http_client_timeout_secs cfg) (http_client_user_agent cfg) of
        Inl e \<Rightarrow> Err HttpRequestFailed (''failed to build HTTP client: '' @ e)
      | Inr c \<Rightarrow> Ok \<lparr>hc_client = c, hc_max_retries = http_client_max_retries cfg,
          hc_retry_delay_ms = http_client_retry_delay_ms cfg, hc_has_breaker = False\<rparr>)"

definition client_with_circuit_breaker :: "'c http_client \<Rightarrow> 'c http_client" where
  "client_with_circuit_breaker hc = hc\<lparr>hc_has_breaker := True\<rparr>"

primrec method_name :: "http_method \<Rightarrow> string" where
  "method_name Get = ''GET''"
| "method_name Post = ''POST''"
| "method_name Put = ''PUT''"
| "method_name Delete = ''DELETE''"
| "method_name Patch = ''PATCH''"
| "method_name Head = ''HEAD''"
| "method_name Options = ''OPTIONS''"

definition wire_of :: "out_request \<Rightarrow> wire_request" where
  "wire_of req =
     \<lparr>wq_method = method_name (oq_method req), wq_url = oq_url req, wq_headers = oq_headers req,
      wq_body = (if oq_body req = [] then None else Some (oq_body req)),
      wq_timeout_secs = oq_timeout_secs req\<rparr>"

definition collect_headers :: "(string \<times> string option) list \<Rightarrow> (string, string) hashmap" where
  "collect_headers hs =
     foldl (\<lambda>m (k, v). hm_insert k (case v of Some s \<Rightarrow> s | None \<Rightarrow> '''') m) [] hs"

definition do_request ::
  "('c, 'w) reqwest \<Rightarrow> 'c http_client \<Rightarrow> out_request \<Rightarrow> 'w \<Rightarrow> in_response res \<times> 'w" where
  "do_request rq hc req w =
     (case rq_send rq (hc_client hc) (wire_of req) w of
        (Inl TimedOut, w1) \<Rightarrow> (Err HttpTimeout (''HTTP request timed out: '' @ oq_url req), w1)
      | (Inl (SendFailed e), w1) \<Rightarrow> (Err HttpRequestFailed (''HTTP request failed: '' @ e), w1)
      | (Inr r, w1) \<Rightarrow>
          (case wr_body r of
             Inl e \<Rightarrow> (Err HttpRequestFailed (''failed to read response body: '' @ e), w1)
           | Inr body \<Rightarrow>
               (Ok \<lparr>ir_status = wr_status r, ir_headers = collect_headers (wr_headers r),
                    ir_body = body\<rparr>, w1)))"

text \<open>The breaker is shared with the rest of the program; a request takes its state and returns
  it updated. \<open>record_failure\<close> reads the clock.\<close>

definition breaker_failure ::
  "'w runtime \<Rightarrow> 'c http_client \<Rightarrow> circuit_breaker \<Rightarrow> 'w \<Rightarrow> circuit_breaker \<times> 'w" where
  "breaker_failure rt hc cb w =
     (if hc_has_breaker hc then (let (t, w') = rt_now rt w in (record_failure t cb, w')) else (cb, w))"

definition breaker_answer ::
  "'w runtime \<Rightarrow> 'c http_client \<Rightarrow> in_response \<Rightarrow> circuit_breaker \<Rightarrow> 'w \<Rightarrow> circuit_breaker \<times> 'w" where
  "breaker_answer rt hc resp cb w =
     (if hc_has_breaker hc \<and> in_response_success resp then (record_success cb, w)
      else if 500 \<le> ir_status resp then breaker_failure rt hc cb w
      else (cb, w))"

definition pause_before :: "'w runtime \<Rightarrow> 'c http_client \<Rightarrow> u32 \<Rightarrow> 'w \<Rightarrow> 'w" where
  "pause_before rt hc attempt w = (if 0 < attempt then rt_sleep rt (hc_retry_delay_ms hc) w else w)"

fun attempt_loop ::
  "'w runtime \<Rightarrow> ('c, 'w) reqwest \<Rightarrow> 'c http_client \<Rightarrow> out_request \<Rightarrow> u32 list \<Rightarrow> app_error option \<Rightarrow>
     circuit_breaker \<Rightarrow> 'w \<Rightarrow> in_response res \<times> circuit_breaker \<times> 'w" where
  "attempt_loop rt rq hc req [] last_err cb w =
     ((case last_err of
         Some e \<Rightarrow> Inl (Fail e)
       | None \<Rightarrow> Inl (Panic ''retry loop executed at least once'')), cb, w)"
| "attempt_loop rt rq hc req (attempt # rest) last_err cb w =
     (case do_request rq hc req (pause_before rt hc attempt w) of
        (Inr resp, w1) \<Rightarrow> (let (cb1, w2) = breaker_answer rt hc resp cb w1 in (Ok resp, cb1, w2))
      | (Inl (Fail e), w1) \<Rightarrow>
          (let (cb1, w2) = breaker_failure rt hc cb w1
           in attempt_loop rt rq hc req rest (Some e) cb1 w2)
      | (Inl (Panic m), w1) \<Rightarrow> (Inl (Panic m), cb, w1))"

text \<open>\<open>0..attempts\<close> with \<open>attempts = max_retries + 1\<close> in 32 bits.\<close>

definition client_attempts :: "u32 \<Rightarrow> u32 list" where
  "client_attempts max_retries = map of_nat [0..<unat (max_retries + 1)]"

definition client_request ::
  "'w runtime \<Rightarrow> ('c, 'w) reqwest \<Rightarrow> 'c http_client \<Rightarrow> out_request \<Rightarrow> circuit_breaker \<Rightarrow> 'w \<Rightarrow>
     in_response res \<times> circuit_breaker \<times> 'w" where
  "client_request rt rq hc req cb w =
     (let attempts = client_attempts (hc_max_retries hc)
      in if hc_has_breaker hc then
           (let (t, w0) = rt_now rt w; (allowed, cb0) = allow_request t cb
            in if \<not> allowed
               then (Err CircuitBreakerOpen
                       (''circuit breaker '' @ quoted (cb_name cb0)
                        @ '' is open, rejecting HTTP request to '' @ oq_url req), cb0, w0)
               else attempt_loop rt rq hc req attempts None cb0 w0)
         else attempt_loop rt rq hc req attempts None cb w)"

definition client_get ::
  "'w runtime \<Rightarrow> ('c, 'w) reqwest \<Rightarrow> 'c http_client \<Rightarrow> string \<Rightarrow> circuit_breaker \<Rightarrow> 'w \<Rightarrow>
     in_response res \<times> circuit_breaker \<times> 'w" where
  "client_get rt rq hc url cb w = client_request rt rq hc (out_get url) cb w"

definition client_post ::
  "'w runtime \<Rightarrow> ('c, 'w) reqwest \<Rightarrow> 'c http_client \<Rightarrow> string \<Rightarrow> bytes \<Rightarrow> circuit_breaker \<Rightarrow> 'w \<Rightarrow>
     in_response res \<times> circuit_breaker \<times> 'w" where
  "client_post rt rq hc url body cb w = client_request rt rq hc (out_post url body) cb w"

section \<open>Lemmas\<close>

lemma do_request_no_panic: "fst (do_request rq hc req w) \<noteq> Inl (Panic m)"
  by (auto simp: do_request_def split: prod.splits sum.splits send_error.splits)

lemma client_attempts_wrap: "client_attempts (- 1) = []"
  by (simp add: client_attempts_def)

lemma client_attempts_conv:
  assumes "m \<noteq> - 1"
  shows "client_attempts m = map of_nat [0..<Suc (unat m)]"
proof -
  have "m + 1 \<noteq> 0" using assms by (metis add_eq_0_iff2 minus_equation_iff)
  then have "unat (m + 1) = Suc (unat m)" by (metis add.commute unatSuc)
  then show ?thesis by (simp add: client_attempts_def)
qed

text \<open>Without a breaker the breaker state is a passenger, and the loop from attempt \<open>k\<close> on is
  the generic retry loop, which sleeps after a failed attempt where this one sleeps before the
  next.\<close>

lemma attempt_loop_is_retry_loop:
  assumes "\<not> hc_has_breaker hc" "k < n" "n = unat nw"
  shows "attempt_loop rt rq hc req (map of_nat [k..<n]) last_err cb w =
    (let (r, w') = retry_loop rt (retry_fixed nw (hc_retry_delay_ms hc)) (do_request rq hc req)
           (map (\<lambda>j. of_nat (Suc j)) [k..<n]) last_err' (pause_before rt hc (of_nat k) w)
     in (r, cb, w'))"
  using assms(2)
proof (induction "n - Suc k" arbitrary: k last_err last_err' w)
  case 0
  then have n: "n = Suc k" by simp
  have "exhausted (retry_fixed nw d) (of_nat (Suc k))" for d
    using assms(3) n by (simp add: exhausted_def retry_fixed_def del: of_nat_Suc)
  then show ?case
    using assms(1) do_request_no_panic [of rq hc req "pause_before rt hc (of_nat k) w"]
    by (auto simp: n breaker_answer_def breaker_failure_def Let_def
        split: prod.splits sum.splits fault.splits)
next
  case (Suc d)
  then have lt: "Suc k < n" by simp
  have bound: "n < 2 ^ 32" using assms(3) by simp
  have small: "unat (of_nat (Suc k) :: u32) = Suc k"
    using lt bound by (simp add: unat_of_nat take_bit_nat_eq_self del: of_nat_Suc)
  have pos: "0 < (of_nat (Suc k) :: u32)"
    using small by (metis old.nat.distinct(2) unat_0 word_neq_0_conv)
  have more: "\<not> exhausted (retry_fixed nw d') (of_nat (Suc k))" for d'
    using small lt assms(3) by (simp add: exhausted_def retry_fixed_def word_le_nat_alt)
  have delay: "delay_for_attempt (retry_fixed nw d') a = d'" for a d'
    by (simp add: delay_for_attempt_def retry_fixed_def)
  have split: "[k..<n] = k # [Suc k..<n]" using lt by (simp add: upt_conv_Cons)
  note IH = Suc.hyps(1) [OF _ lt]
  show ?case
  proof (cases "do_request rq hc req (pause_before rt hc (of_nat k) w)")
    case (Pair r w1)
    show ?thesis
    proof (cases r)
      case (Inr resp)
      then show ?thesis using Pair assms(1)
        by (simp add: split breaker_answer_def breaker_failure_def)
    next
      case (Inl e)
      then obtain err where err: "r = Inl (Fail err)"
        using do_request_no_panic [of rq hc req "pause_before rt hc (of_nat k) w"] Pair
        by (cases e) auto
      have "attempt_loop rt rq hc req (map of_nat [Suc k..<n]) (Some err) cb w1 =
        (let (r, w') = retry_loop rt (retry_fixed nw (hc_retry_delay_ms hc)) (do_request rq hc req)
               (map (\<lambda>j. of_nat (Suc j)) [Suc k..<n]) (Some err)
               (rt_sleep rt (hc_retry_delay_ms hc) w1)
         in (r, cb, w'))"
        using IH [of "Some err" w1 "Some err"] Suc.hyps(2) lt pos
        by (simp add: pause_before_def del: of_nat_Suc)
      then show ?thesis using Pair assms(1) err more
        by (simp add: split breaker_failure_def delay del: of_nat_Suc)
    qed
  qed
qed

text \<open>One attempt's report to the breaker, and the breaker after the attempts of a request.\<close>

primrec is_report :: "cb_event \<Rightarrow> bool" where
  "is_report (Failure t) = True"
| "is_report Success = True"
| "is_report (QueryState t) = False"
| "is_report (Allow t) = False"
| "is_report Reset = False"

lemma breaker_failure_event:
  "hc_has_breaker hc \<Longrightarrow> \<exists>t. fst (breaker_failure rt hc cb w) = cb_run [Failure t] cb"
  by (auto simp: breaker_failure_def split: prod.splits)

lemma breaker_answer_events:
  assumes "hc_has_breaker hc"
  shows "\<exists>es. fst (breaker_answer rt hc resp cb w) = cb_run es cb \<and> list_all is_report es \<and> length es \<le> 1"
proof -
  obtain t where t: "fst (breaker_failure rt hc cb w) = cb_run [Failure t] cb"
    using breaker_failure_event [OF assms, of rt cb w] by blast
  consider "in_response_success resp" | "\<not> in_response_success resp" "500 \<le> ir_status resp"
    | "\<not> in_response_success resp" "\<not> 500 \<le> ir_status resp" by blast
  then show ?thesis
  proof cases
    case 1
    then show ?thesis using assms
      by (intro exI [of _ "[cb_event.Success]"]) (simp add: breaker_answer_def)
  next
    case 2
    then show ?thesis using t
      by (intro exI [of _ "[Failure t]"]) (simp add: breaker_answer_def)
  next
    case 3
    then show ?thesis by (intro exI [of _ "[]"]) (simp add: breaker_answer_def)
  qed
qed

lemma attempt_loop_events:
  assumes "hc_has_breaker hc"
  shows "\<exists>es. fst (snd (attempt_loop rt rq hc req as last_err cb w)) = cb_run es cb \<and>
    list_all is_report es \<and> length es \<le> length as"
proof (induction as arbitrary: last_err cb w)
  case Nil
  then show ?case by (auto intro: exI [of _ "[]"])
next
  case (Cons a as)
  show ?case
  proof (cases "do_request rq hc req (pause_before rt hc a w)")
    case (Pair r w1)
    show ?thesis
    proof (cases r)
      case (Inr resp)
      then show ?thesis
        using Pair breaker_answer_events [OF assms, of rt resp cb w1]
        by (auto split: prod.splits intro: le_SucI order_trans)
    next
      case (Inl e)
      show ?thesis
      proof (cases e)
        case (Panic m)
        then show ?thesis using Pair Inl by (auto intro: exI [of _ "[]"])
      next
        case (Fail err)
        obtain t cb1 w2 where one: "breaker_failure rt hc cb w1 = (cb1, w2)" "cb1 = cb_run [Failure t] cb"
          using breaker_failure_event [OF assms, of rt cb w1] by (metis prod.collapse)
        obtain es where "fst (snd (attempt_loop rt rq hc req as (Some err) cb1 w2)) = cb_run es cb1"
          "list_all is_report es" "length es \<le> length as"
          using Cons.IH by blast
        then show ?thesis using Pair Inl Fail one
          by (auto intro!: exI [of _ "Failure t # es"])
      qed
    qed
  qed
qed

section \<open>Properties\<close>

text \<open>
  C5: Without a circuit breaker a request is a retry with a fixed delay: the client is the generic
  \<open>with_retry\<close> of the resilience wrappers with \<open>max_retries + 1\<close> attempts around a single
  exchange, with the same results, sleeps and world, as long as that sum fits 32 bits.
\<close>

theorem request_is_fixed_retry:
  assumes "\<not> hc_has_breaker hc" "hc_max_retries hc \<noteq> - 1"
  shows "client_request rt rq hc req cb w =
    (let (r, w') = with_retry rt (retry_fixed (hc_max_retries hc + 1) (hc_retry_delay_ms hc))
           (do_request rq hc req) w
     in (r, cb, w'))"
proof -
  let ?n = "Suc (unat (hc_max_retries hc))"
  have n: "?n = unat (hc_max_retries hc + 1)"
    using assms(2) by (metis add_eq_0_iff2 minus_equation_iff unatSuc add.commute)
  from attempt_loop_is_retry_loop [OF assms(1) _ n, of 0 rt rq req None cb w None]
  show ?thesis using assms n [symmetric]
    by (simp add: client_request_def client_attempts_conv with_retry_def attempt_numbers_conv
        pause_before_def retry_fixed_def del: upt_Suc of_nat_Suc)
qed

definition flaky_service :: "(unit, nat) reqwest" where
  "flaky_service = \<lparr>rq_build = \<lambda>_ _. Inr (),
     rq_send = \<lambda>_ _ n. (if n < 2 then Inl TimedOut
       else Inr \<lparr>wr_status = 200, wr_headers = [], wr_body = Inr [7]\<rparr>, Suc n)\<rparr>"

definition sleepless :: "nat runtime" where
  "sleepless = \<lparr>rt_now = \<lambda>n. (0, n), rt_sleep = \<lambda>_ n. n\<rparr>"

theorem request_is_fixed_retry_witness:
  "with_retry sleepless (retry_fixed 3 50)
     (do_request flaky_service \<lparr>hc_client = (), hc_max_retries = 2, hc_retry_delay_ms = 50, hc_has_breaker = False\<rparr>
       (out_get ''http://api'')) 0 = (Ok \<lparr>ir_status = 200, ir_headers = [], ir_body = [7]\<rparr>, 3)"
proof -
  let ?hc = "\<lparr>hc_client = (), hc_max_retries = 2 :: u32, hc_retry_delay_ms = 50, hc_has_breaker = False\<rparr>"
  have "client_request sleepless flaky_service ?hc (out_get ''http://api'') (cb_new [] cb_config_default) 0 =
      (Ok \<lparr>ir_status = 200, ir_headers = [], ir_body = [7]\<rparr>, cb_new [] cb_config_default, 3)"
    by code_simp
  with request_is_fixed_retry [of ?hc sleepless flaky_service "out_get ''http://api''" "cb_new [] cb_config_default" 0]
  show ?thesis by (auto split: prod.splits)
qed

text \<open>With a breaker, a request asks once whether it may be sent and reports at most one outcome
  for each of its attempts; nothing else touches the breaker.\<close>

lemma request_breaker_events:
  assumes "hc_has_breaker hc" "hc_max_retries hc \<noteq> - 1"
  shows "\<exists>t es. fst (snd (client_request rt rq hc req cb w)) = cb_run (Allow t # es) cb \<and>
    list_all is_report es \<and> length es \<le> Suc (unat (hc_max_retries hc))"
proof -
  obtain t w0 where now: "rt_now rt w = (t, w0)" by (cases "rt_now rt w")
  obtain allowed cb0 where al: "allow_request t cb = (allowed, cb0)" by (cases "allow_request t cb")
  then have cb0: "cb_apply (Allow t) cb = cb0" by simp
  show ?thesis
  proof (cases allowed)
    case False
    then have "fst (snd (client_request rt rq hc req cb w)) = cb_run (Allow t # []) cb"
      using assms now al cb0 by (simp add: client_request_def del: cb_apply.simps)
    then show ?thesis by (intro exI [of _ t] exI [of _ "[]"]) simp
  next
    case True
    obtain es where "fst (snd (attempt_loop rt rq hc req (client_attempts (hc_max_retries hc)) None cb0 w0)) = cb_run es cb0"
      "list_all is_report es" "length es \<le> length (client_attempts (hc_max_retries hc))"
      using attempt_loop_events [OF assms(1), of rt rq req "client_attempts (hc_max_retries hc)" None cb0 w0]
      by blast
    then show ?thesis using assms now al True cb0
      by (intro exI [of _ t] exI [of _ es]) (simp add: client_request_def client_attempts_conv del: cb_apply.simps)
  qed
qed

text \<open>\<open>max_retries + 1\<close> wraps to 0 for the largest setting: the request is not sent at all and
  the \<open>expect\<close> after the loop panics.\<close>

lemma largest_retries_panic:
  "\<not> hc_has_breaker hc \<Longrightarrow> hc_max_retries hc = - 1 \<Longrightarrow>
     client_request rt rq hc req cb w = (Inl (Panic ''retry loop executed at least once''), cb, w)"
  by (simp add: client_request_def client_attempts_wrap)

text \<open>The breaker is asked only before the first attempt: with a threshold of one failure it opens
  after that attempt, and the remaining retries are sent to the failing service all the same.\<close>

lemma retries_ignore_open_breaker:
  "let rt = \<lparr>rt_now = \<lambda>n. (0, n), rt_sleep = \<lambda>_ n. n\<rparr>;
       rq = \<lparr>rq_build = \<lambda>_ _. Inr (), rq_send = \<lambda>_ _ n. (Inl TimedOut, Suc n)\<rparr>;
       hc = \<lparr>hc_client = (), hc_max_retries = 2, hc_retry_delay_ms = 100, hc_has_breaker = True\<rparr>;
       cb = cb_new ''api'' \<lparr>failure_threshold = 1, success_threshold = 1, open_duration_secs = 30\<rparr>;
       (r, cb', sent) = client_request rt rq hc (out_get ''http://api'') cb (0 :: nat)
   in status (cb_inner cb') = Open \<and> sent = 3"
  by code_simp

text \<open>Repeated headers of an answer, such as \<open>set-cookie\<close>, collapse to the last one.\<close>

lemma repeated_header_lost:
  "collect_headers [(''set-cookie'', Some ''a=1''), (''set-cookie'', Some ''b=2'')] = [(''set-cookie'', ''b=2'')]"
  by (simp add: collect_headers_def hm_insert_def)

end
