(* ===== verification/File_Store.thy ===== *)
theory File_Store
  imports Errors
begin

text \<open>
  The file store of \<open>rinfra-plugins/src/file_store/local.rs\<close> with the types of
  \<open>rinfra-core/src/file_store/mod.rs\<close>. What the code uses of \<open>std::path\<close> on a Unix system
  (joining, the components of a path, \<open>parent\<close>, \<open>strip_prefix\<close>) is modelled on the text of the
  paths; the operations of the asynchronous file library, which end in system calls, are a
  record of functions on a world \<open>'w\<close>, each of which gets the text of a path.
\<close>

section \<open>Paths\<close>

datatype path_component = RootDir | CurDir | ParentDir | Normal string

definition path_sep :: char where
  "path_sep = CHR ''/''"

fun path_names :: "string \<Rightarrow> string list" where
  "path_names [] = [[]]"
| "path_names (x # s) =
     (if x = path_sep then [] # path_names s
      else (case path_names s of [] \<Rightarrow> [[x]] | p # ps \<Rightarrow> (x # p) # ps))"

definition path_has_root :: "string \<Rightarrow> bool" where
  "path_has_root p \<longleftrightarrow> p \<noteq> [] \<and> hd p = path_sep"

text \<open>Repeated separators and dots after the start of a path carry no component.\<close>

definition real_name :: "string \<Rightarrow> bool" where
  "real_name n \<longleftrightarrow> n \<noteq> [] \<and> n \<noteq> ''.''"

definition name_component :: "string \<Rightarrow> path_component" where
  "name_component n = (if n = ''..'' then ParentDir else Normal n)"

definition path_start :: "string \<Rightarrow> path_component list" where
  "path_start p =
     (if path_has_root p then [RootDir] else if hd (path_names p) = ''.'' then [CurDir] else [])"

definition components :: "string \<Rightarrow> path_component list" where
  "components p = path_start p @ map name_component (filter real_name (path_names p))"

definition path_join :: "string \<Rightarrow> string \<Rightarrow> string" where
  "path_join base p =
     (if path_has_root p then p
      else if base = [] \<or> last base = path_sep then base @ p
      else base @ path_sep # p)"

text \<open>\<open>Path::parent\<close>, as the components of the parent: there is none for a path without
  components or with nothing after the root.\<close>

definition parent_components :: "string \<Rightarrow> path_component list option" where
  "parent_components p =
     (let cs = components p in if cs = [] \<or> last cs = RootDir then None else Some (butlast cs))"

text \<open>\<open>Path::strip_prefix\<close>: the names after the prefix, without what carries no component at
  their ends. Nothing is cut off when the prefix has no component at all.\<close>

fun drop_names :: "nat \<Rightarrow> string list \<Rightarrow> string list" where
  "drop_names n [] = []"
| "drop_names 0 (x # xs) = x # xs"
| "drop_names (Suc n) (x # xs) = (if real_name x then drop_names n xs else drop_names (Suc n) xs)"

definition trim_names :: "string list \<Rightarrow> string list" where
  "trim_names ns = rev (dropWhile (Not \<circ> real_name) (rev (dropWhile (Not \<circ> real_name) ns)))"

definition path_strip_prefix :: "string \<Rightarrow> string \<Rightarrow> string option" where
  "path_strip_prefix full base =
     (let bs = components base in
      if take (length bs) (components full) \<noteq> bs then None
      else if bs = [] then Some full
      else Some (join [path_sep]
        (trim_names (drop_names (length (filter real_name (path_names base))) (path_names full)))))"

definition backslash_to_slash :: "string \<Rightarrow> string" where
  "backslash_to_slash s = map (\<lambda>c. if c = CHR 0x5C then path_sep else c) s"

definition make_relative :: "string \<Rightarrow> string \<Rightarrow> string" where
  "make_relative root_dir full =
     backslash_to_slash (case path_strip_prefix full root_dir of Some r \<Rightarrow> r | None \<Rightarrow> full)"

section \<open>The file library\<close>

datatype io_error = NotFound string | OtherIo string

primrec io_text :: "io_error \<Rightarrow> string" where
  "io_text (NotFound t) = t"
| "io_text (OtherIo t) = t"

text \<open>The time of modification is in whole seconds since 1970, if the system gives one that is
  not before.\<close>

record file_meta =
  fm_len :: u64
  fm_modified :: "u64 option"
  fm_is_dir :: bool

record 'w os_files =
  os_create_dir_all :: "path_component list \<Rightarrow> 'w \<Rightarrow> (io_error + unit) \<times> 'w"
  os_write :: "string \<Rightarrow> bytes \<Rightarrow> 'w \<Rightarrow> (io_error + unit) \<times> 'w"
  os_read :: "string \<Rightarrow> 'w \<Rightarrow> io_error + bytes"
  os_remove_file :: "string \<Rightarrow> 'w \<Rightarrow> (io_error + unit) \<times> 'w"
  os_exists :: "string \<Rightarrow> 'w \<Rightarrow> bool"
  os_read_dir :: "string \<Rightarrow> 'w \<Rightarrow> io_error + (io_error + string) list"
  os_metadata :: "string \<Rightarrow> 'w \<Rightarrow> io_error + file_meta"
  os_entry_metadata :: "string \<Rightarrow> 'w \<Rightarrow> io_error + file_meta"

section \<open>The store\<close>

record file_info =
  fi_path :: string
  fi_size :: u64
  fi_last_modified :: "u64 option"
  fi_content_type :: "string option"
  fi_is_dir :: bool

definition resolve :: "string \<Rightarrow> string \<Rightarrow> string" where
  "resolve root_dir path = path_join root_dir path"

definition file_put ::
  "'w os_files \<Rightarrow> string \<Rightarrow> string \<Rightarrow> bytes \<Rightarrow> 'w \<Rightarrow> unit res \<times> 'w" where
  "file_put os root_dir path data w =
     (let full = resolve root_dir path;
          (made, w1) = (case parent_components full of
                          Some parent \<Rightarrow> os_create_dir_all os parent w
                        | None \<Rightarrow> (Inr (), w))
      in case made of
           Inl e \<Rightarrow> (Err FileWriteFailed (''failed to create directory: '' @ io_text e), w1)
         | Inr _ \<Rightarrow>
             (case os_write os full data w1 of
                (Inl e, w2) \<Rightarrow>
                  (Err FileWriteFailed (''failed to write '' @ quoted path @ '': '' @ io_text e), w2)
              | (Inr _, w2) \<Rightarrow> (Ok (), w2)))"

definition file_get :: "'w os_files \<Rightarrow> string \<Rightarrow> string \<Rightarrow> 'w \<Rightarrow> bytes res" where
  "file_get os root_dir path w =
     (case os_read os (resolve root_dir path) w of
        Inl (NotFound t) \<Rightarrow> Err FileNotFound (''file not found: '' @ quoted path)
      | Inl (OtherIo t) \<Rightarrow> Err FileReadFailed (''failed to read '' @ quoted path @ '': '' @ t)
      | Inr data \<Rightarrow> Ok data)"

definition file_delete :: "'w os_files \<Rightarrow> string \<Rightarrow> string \<Rightarrow> 'w \<Rightarrow> bool res \<times> 'w" where
  "file_delete os root_dir path w =
     (case os_remove_file os (resolve root_dir path) w of
        (Inr _, w1) \<Rightarrow> (Ok True, w1)
      | (Inl (NotFound t), w1) \<Rightarrow> (Ok False, w1)
      | (Inl (OtherIo t), w1) \<Rightarrow>
          (Err FileDeleteFailed (''failed to delete '' @ quoted path @ '': '' @ t), w1))"

definition file_exists :: "'w os_files \<Rightarrow> string \<Rightarrow> string \<Rightarrow> 'w \<Rightarrow> bool res" where
  "file_exists os root_dir path w = Ok (os_exists os (resolve root_dir path) w)"

definition info_of :: "string \<Rightarrow> file_meta \<Rightarrow> file_info" where
  "info_of path m =
     \<lparr>fi_path = path, fi_size = fm_len m, fi_last_modified = fm_modified m,
      fi_content_type = None, fi_is_dir = fm_is_dir m\<rparr>"

fun list_entries ::
  "'w os_files \<Rightarrow> string \<Rightarrow> string \<Rightarrow> 'w \<Rightarrow> (io_error + string) list \<Rightarrow> file_info list res" where
  "list_entries os root_dir dir w [] = Ok []"
| "list_entries os root_dir dir w (Inl e # es) =
     Err FileReadFailed (''failed to read directory entry: '' @ io_text e)"
| "list_entries os root_dir dir w (Inr name # es) =
     (let entry_path = path_join dir name in
      case os_entry_metadata os entry_path w of
        Inl e \<Rightarrow> Err FileReadFailed (''failed to read metadata: '' @ io_text e)
      | Inr m \<Rightarrow>
          bind_res (list_entries os root_dir dir w es)
            (\<lambda>infos. Ok (info_of (make_relative root_dir entry_path) m # infos)))"

definition file_list :: "'w os_files \<Rightarrow> string \<Rightarrow> string \<Rightarrow> 'w \<Rightarrow> file_info list res" where
  "file_list os root_dir prefix w =
     (let dir = resolve root_dir prefix in
      if \<not> os_exists os dir w then Ok []
      else (case os_read_dir os dir w of
              Inl e \<Rightarrow> Err FileReadFailed (''failed to list '' @ quoted prefix @ '': '' @ io_text e)
            | Inr es \<Rightarrow>
                bind_res (list_entries os root_dir dir w es) (\<lambda>infos. Ok (sort_key fi_path infos))))"

definition file_metadata :: "'w os_files \<Rightarrow> string \<Rightarrow> string \<Rightarrow> 'w \<Rightarrow> file_info res" where
  "file_metadata os root_dir path w =
     (case os_metadata os (resolve root_dir path) w of
        Inl (NotFound t) \<Rightarrow> Err FileNotFound (''file not found: '' @ quoted path)
      | Inl (OtherIo t) \<Rightarrow>
          Err FileReadFailed (''failed to read metadata for '' @ quoted path @ '': '' @ t)
      | Inr m \<Rightarrow> Ok (info_of path m))"

section \<open>Lemmas on paths\<close>

lemma path_names_not_Nil [simp]: "path_names s \<noteq> []"
  by (induction s) (auto split: list.splits)

lemma path_names_append: "path_names (a @ path_sep # b) = path_names a @ path_names b"
  by (induction a) (auto split: list.splits)

lemma path_names_plain: "path_sep \<notin> set n \<Longrightarrow> path_names n = [n]"
  by (induction n) auto

lemma path_names_no_sep: "n \<in> set (path_names s) \<Longrightarrow> path_sep \<notin> set n"
  by (induction s arbitrary: n) (auto split: list.splits if_splits)

lemma path_names_chars: "n \<in> set (path_names s) \<Longrightarrow> set n \<subseteq> set s"
  by (induction s arbitrary: n) (fastforce split: list.splits if_splits)+

lemma path_names_join_text:
  "ns \<noteq> [] \<Longrightarrow> \<forall>n\<in>set ns. path_sep \<notin> set n \<Longrightarrow> path_names (join [path_sep] ns) = ns"
  by (induction "[path_sep]" ns rule: join.induct) (simp_all add: path_names_plain path_names_append)

lemma last_path_names_sep:
  "a \<noteq> [] \<Longrightarrow> last a = path_sep \<Longrightarrow> path_names a = butlast (path_names a) @ [[]]"
  by (metis append_butlast_last_id path_names.simps(1) path_names_append butlast_snoc)

lemma path_names_join:
  assumes "a \<noteq> []" "\<not> path_has_root b"
  shows "path_names (path_join a b) =
    (if last a = path_sep then butlast (path_names a) else path_names a) @ path_names b"
proof (cases "last a = path_sep")
  case True
  then obtain a' where a: "a = a' @ [path_sep]" using assms(1) by (metis append_butlast_last_id)
  have "path_names (a' @ path_sep # b) = path_names a' @ path_names b" by (rule path_names_append)
  moreover have "butlast (path_names a) = path_names a'"
    by (simp add: a path_names_append)
  ultimately show ?thesis using True assms by (simp add: path_join_def a)
next
  case False
  then show ?thesis using assms by (simp add: path_join_def path_names_append)
qed

lemma real_names_join:
  assumes "a \<noteq> []" "\<not> path_has_root b"
  shows "filter real_name (path_names (path_join a b)) =
    filter real_name (path_names a) @ filter real_name (path_names b)"
proof (cases "last a = path_sep")
  case True
  have "filter real_name (path_names a) = filter real_name (butlast (path_names a))"
    by (subst last_path_names_sep [OF assms(1) True]) (simp add: real_name_def)
  then show ?thesis using True by (simp add: path_names_join [OF assms])
qed (simp add: path_names_join [OF assms])

lemma path_start_join:
  assumes "a \<noteq> []" "\<not> path_has_root b"
  shows "path_start (path_join a b) = path_start a"
proof -
  obtain x a' where a: "a = x # a'" using assms(1) by (cases a) auto
  have hr: "path_has_root (path_join a b) = path_has_root a"
    using assms(2) by (auto simp: a path_join_def path_has_root_def)
  show ?thesis
  proof (cases "path_has_root a")
    case True
    then show ?thesis by (simp add: path_start_def hr)
  next
    case False
    have "hd (path_names (path_join a b)) = hd (path_names a)"
    proof (cases "last a = path_sep")
      case True
      then have "a' \<noteq> []" using False by (auto simp: a path_has_root_def)
      then obtain a'' where a'': "a = a'' @ [path_sep]" "a'' \<noteq> []"
        using True by (metis a append_butlast_last_id butlast.simps(2) list.distinct(1))
      then have "butlast (path_names a) = path_names a''" by (simp add: path_names_append)
      then show ?thesis using True path_names_join [OF assms] a''
        by (simp only: path_names_append) (simp add: path_names_append)
    qed (simp add: path_names_join [OF assms])
    then show ?thesis by (simp add: path_start_def hr)
  qed
qed

text \<open>A key that does not start at the root of the file system extends the components of the
  root directory.\<close>

lemma components_join:
  "a \<noteq> [] \<Longrightarrow> \<not> path_has_root b \<Longrightarrow>
     components (path_join a b) = components a @ map name_component (filter real_name (path_names b))"
  by (simp add: components_def real_names_join path_start_join)

section \<open>Lemmas on stripping a prefix\<close>

lemma dropWhile_drop_names:
  "dropWhile (Not \<circ> real_name) (drop_names (length (filter real_name xs)) (xs @ ys)) =
     dropWhile (Not \<circ> real_name) ys"
proof (induction xs)
  case Nil
  then show ?case by (cases ys) simp_all
next
  case (Cons x xs)
  show ?case
  proof (cases "real_name x")
    case False
    have "dropWhile (Not \<circ> real_name) (drop_names n (x # zs)) = dropWhile (Not \<circ> real_name) (drop_names n zs)" for n zs
      using False by (cases n; cases zs) auto
    from this [of _ "xs @ ys"] show ?thesis using Cons False by (simp del: o_apply)
  qed (use Cons in simp)
qed

lemma filter_dropWhile_Not: "filter P (dropWhile (Not \<circ> P) xs) = filter P xs"
  by (induction xs) auto

lemma filter_trim_names [simp]: "filter real_name (trim_names ns) = filter real_name ns"
  by (simp add: trim_names_def rev_filter filter_dropWhile_Not flip: rev_filter)

lemma set_trim_names: "set (trim_names ns) \<subseteq> set ns"
  by (auto simp: trim_names_def dest!: set_dropWhileD)

lemma hd_trim_names:
  assumes "filter real_name ns \<noteq> []"
  shows "trim_names ns \<noteq> [] \<and> real_name (hd (trim_names ns))"
proof -
  let ?ms = "dropWhile (Not \<circ> real_name) ns"
  have ne: "?ms \<noteq> []" using assms by (auto simp: dropWhile_eq_Nil_conv filter_empty_conv)
  then obtain m ms where m: "?ms = m # ms" by (cases ?ms) auto
  then have real: "real_name m" using hd_dropWhile [OF ne] by simp
  then have "dropWhile (Not \<circ> real_name) (rev ms @ [m]) = dropWhile (Not \<circ> real_name) (rev ms) @ [m]"
    by (induction ms rule: rev_induct) auto
  then show ?thesis using m real by (simp add: trim_names_def)
qed

section \<open>Listed paths lead back\<close>

text \<open>The names of an entry of a directory below the root directory: those of the root directory,
  then those of the prefix and the entry.\<close>

lemma entry_names:
  assumes "root_dir \<noteq> []" "\<not> path_has_root prefix" "path_sep \<notin> set name" "name \<noteq> []"
  shows "\<exists>xs ys. path_names (path_join (path_join root_dir prefix) name) = xs @ ys @ [name] \<and>
    filter real_name xs = filter real_name (path_names root_dir) \<and>
    filter real_name ys = filter real_name (path_names prefix) \<and> set ys \<subseteq> set (path_names prefix)"
proof -
  let ?dir = "path_join root_dir prefix"
  let ?xs = "if last root_dir = path_sep then butlast (path_names root_dir) else path_names root_dir"
  have dir: "path_names ?dir = ?xs @ path_names prefix" by (rule path_names_join [OF assms(1,2)])
  have xs: "filter real_name ?xs = filter real_name (path_names root_dir)"
  proof (cases "last root_dir = path_sep")
    case True
    show ?thesis
      by (subst (2) last_path_names_sep [OF assms(1) True]) (simp add: True real_name_def)
  qed simp
  have ne: "?dir \<noteq> []" using assms(1) by (auto simp: path_join_def path_has_root_def)
  have name: "\<not> path_has_root name" using assms(3) by (cases name) (auto simp: path_has_root_def)
  show ?thesis
  proof (cases "last ?dir = path_sep")
    case False
    then have "path_names (path_join ?dir name) = ?xs @ path_names prefix @ [name]"
      using path_names_join [OF ne name] by (simp add: dir path_names_plain [OF assms(3)])
    with xs show ?thesis by blast
  next
    case True
    then have last: "path_names ?dir = butlast (path_names ?dir) @ [[]]"
      using last_path_names_sep [OF ne] by blast
    then have pre: "path_names prefix = butlast (path_names prefix) @ [[]]"
      by (metis append_butlast_last_id dir last_appendR last_snoc path_names_not_Nil)
    have "path_names (path_join ?dir name) = ?xs @ butlast (path_names prefix) @ [name]"
      using path_names_join [OF ne name] True
      by (simp add: dir path_names_plain [OF assms(3)] butlast_append)
    moreover have "filter real_name (butlast (path_names prefix)) = filter real_name (path_names prefix)"
      by (subst (2) pre) (simp add: real_name_def)
    moreover have "set (butlast (path_names prefix)) \<subseteq> set (path_names prefix)"
      by (auto dest: in_set_butlastD)
    ultimately show ?thesis using xs by blast
  qed
qed

lemma no_backslash_id: "CHR 0x5C \<notin> set s \<Longrightarrow> backslash_to_slash s = s"
  by (induction s) (auto simp: backslash_to_slash_def)

lemma set_joined: "set (join sep ns) \<subseteq> set sep \<union> \<Union> (set (map set ns))"
  by (induction sep ns rule: join.induct) auto

section \<open>Properties\<close>



text \<open>A key that does not start with a separator stays below the root directory in the sense of
  the text of its path: what follows the components of the root directory are its own names.\<close>

lemma relative_key_extends_root:
  "root_dir \<noteq> [] \<Longrightarrow> \<not> path_has_root key \<Longrightarrow>
     components (resolve root_dir key) = components root_dir @ map name_component (filter real_name (path_names key))"
  by (simp add: resolve_def components_join)

text \<open>What is put is what is got, over any file library whose reads see its writes.\<close>

lemma put_then_get:
  assumes "\<And>p d w w'. os_write os p d w = (Inr (), w') \<Longrightarrow> os_read os p w' = Inr d"
    and "file_put os root_dir key d w = (Ok (), w')"
  shows "file_get os root_dir key w' = Ok d"
  using assms(2)
  by (auto simp: file_put_def file_get_def Let_def assms(1) split: prod.splits sum.splits option.splits)

text \<open>A key is not confined to the root directory: an absolute key replaces it, and dots climb out
  of it.\<close>

lemma absolute_key_escapes: "resolve ''/srv/files'' ''/etc/passwd'' = ''/etc/passwd''"
  by code_simp

lemma dotted_key_escapes:
  "components (resolve ''/srv/files'' ''../../etc/passwd'') =
     [RootDir, Normal ''srv'', Normal ''files'', ParentDir, ParentDir, Normal ''etc'', Normal ''passwd'']"
  by code_simp

text \<open>A file whose name contains a backslash, which Unix allows, is listed under another path.\<close>

lemma backslash_name_listed_wrong:
  "make_relative ''data'' (path_join (resolve ''data'' []) [CHR ''a'', CHR 0x5C, CHR ''b'']) = ''a/b''"
  by code_simp

end
