(* ===== verification/Stream_Bus.thy ===== *)
theory Stream_Bus
  imports Message_Bus Config_Model Codecs Text_Maps
begin

text \<open>
  The message buses over a server: Redis Streams
  (\<open>rinfra-plugins/src/mq/redis_streams.rs\<close>) and NATS JetStream
  (\<open>rinfra-plugins/src/mq/nats.rs\<close>). The commands of the servers are records of functions on the
  server's state. The task a subscription spawns is a step function over events: its own steps,
  those of the subscriber at the other end of the bounded channel, and what other clients do to
  the server, in any order.
\<close>

section \<open>Redis Streams\<close>

subsection \<open>The server\<close>

record stream_entry =
  se_id :: string
  se_fields :: "(string, bytes) hashmap"

text \<open>The bytes of a text argument, and reading bytes as text, which fails unless they are UTF-8,
  are conversions of the redis library. \<open>XREADGROUP\<close> gives entries by stream.\<close>

record 'r stream_server =
  ss_text_bytes :: "string \<Rightarrow> bytes"
  ss_utf8 :: "bytes \<Rightarrow> string option"
  ss_xgroup_create :: "string \<Rightarrow> string \<Rightarrow> 'r \<Rightarrow> (string + string) \<times> 'r"
  ss_xadd :: "string \<Rightarrow> u64 option \<Rightarrow> (string \<times> bytes) list \<Rightarrow> 'r \<Rightarrow> (string + string) \<times> 'r"
  ss_xreadgroup ::
    "string \<Rightarrow> string \<Rightarrow> u64 \<Rightarrow> u64 \<Rightarrow> string \<Rightarrow> 'r \<Rightarrow> (string + (string \<times> stream_entry list) list) \<times> 'r"
  ss_xack :: "string \<Rightarrow> string \<Rightarrow> string \<Rightarrow> 'r \<Rightarrow> (string + int) \<times> 'r"
  ss_ping :: "'r \<Rightarrow> (string + string) \<times> 'r"

fun text_contains :: "string \<Rightarrow> string \<Rightarrow> bool" where
  "text_contains [] p \<longleftrightarrow> p = []"
| "text_contains (x # s) p \<longleftrightarrow> starts_with (x # s) p \<or> text_contains s p"

subsection \<open>The bus\<close>

record stream_bus =
  sb_config :: redis_stream_mq_config
  sb_created_groups :: "string list"

definition stream_bus_connect ::
  "(string \<Rightarrow> string + unit) \<Rightarrow> (string \<Rightarrow> string + unit) \<Rightarrow> redis_stream_mq_config \<Rightarrow> stream_bus res" where
  "stream_bus_connect open_client connection_manager cfg =
     (case open_client (redis_stream_mq_url cfg) of
        Inl e \<Rightarrow> Err Internal (''redis client open failed: '' @ e)
      | Inr _ \<Rightarrow>
          (case connection_manager (redis_stream_mq_url cfg) of
             Inl e \<Rightarrow> Err Internal (''redis connection manager failed: '' @ e)
           | Inr _ \<Rightarrow> Ok \<lparr>sb_config = cfg, sb_created_groups = []\<rparr>))"

definition stream_key :: "string \<Rightarrow> string" where
  "stream_key topic = ''rinfra:mq:'' @ topic"

definition ensure_group ::
  "'r stream_server \<Rightarrow> string \<Rightarrow> stream_bus \<Rightarrow> 'r \<Rightarrow> unit res \<times> stream_bus \<times> 'r" where
  "ensure_group sv key bus r =
     (if key \<in> set (sb_created_groups bus) then (Ok (), bus, r)
      else
        (let (result, r1) = ss_xgroup_create sv key (redis_stream_mq_group_name (sb_config bus)) r;
             bus1 = bus\<lparr>sb_created_groups := List.insert key (sb_created_groups bus)\<rparr>
         in case result of
              Inr _ \<Rightarrow> (Ok (), bus1, r1)
            | Inl e \<Rightarrow>
                if \<not> text_contains e ''BUSYGROUP''
                then (Err Internal (''xgroup create failed: '' @ e), bus, r1)
                else (Ok (), bus1, r1)))"

definition stream_fields :: "'r stream_server \<Rightarrow> string \<Rightarrow> bytes \<Rightarrow> (string \<times> bytes) list" where
  "stream_fields sv topic payload = [(''topic'', ss_text_bytes sv topic), (''payload'', payload)]"

definition stream_add ::
  "'r stream_server \<Rightarrow> string \<Rightarrow> (string \<times> bytes) list \<Rightarrow> stream_bus \<Rightarrow> 'r \<Rightarrow> unit res \<times> stream_bus \<times> 'r" where
  "stream_add sv key entry_fields bus r =
     (case ensure_group sv key bus r of
        (Inl e, bus1, r1) \<Rightarrow> (Inl e, bus1, r1)
      | (Inr _, bus1, r1) \<Rightarrow>
          (case ss_xadd sv key (redis_stream_mq_max_len (sb_config bus)) entry_fields r1 of
             (Inl e, r2) \<Rightarrow> (Err MqPublishFailed (''redis xadd failed: '' @ e), bus1, r2)
           | (Inr _, r2) \<Rightarrow> (Ok (), bus1, r2)))"

definition stream_publish ::
  "'r stream_server \<Rightarrow> string \<Rightarrow> bytes \<Rightarrow> stream_bus \<Rightarrow> 'r \<Rightarrow> unit res \<times> stream_bus \<times> 'r" where
  "stream_publish sv topic payload bus r =
     stream_add sv (stream_key topic) (stream_fields sv topic payload) bus r"

definition stream_publish_with_headers ::
  "serde_lib \<Rightarrow> 'r stream_server \<Rightarrow> string \<Rightarrow> bytes \<Rightarrow> (string, string) hashmap \<Rightarrow> stream_bus \<Rightarrow> 'r \<Rightarrow>
     unit res \<times> stream_bus \<times> 'r" where
  "stream_publish_with_headers sl sv topic payload headers bus r =
     (let headers_json = (case sl_to_vec sl (enc_text_map headers) of Inr d \<Rightarrow> d | Inl _ \<Rightarrow> [])
      in stream_add sv (stream_key topic)
           (stream_fields sv topic payload @ [(''headers'', headers_json)]) bus r)"

definition parse_stream_entry :: "serde_lib \<Rightarrow> 'r stream_server \<Rightarrow> u64 \<Rightarrow> stream_entry \<Rightarrow> message" where
  "parse_stream_entry sl sv now_ms entry =
     (let text = (\<lambda>k. Option.bind (hm_get (se_fields entry) k) (ss_utf8 sv));
          headers = (case text ''headers'' of
              None \<Rightarrow> []
            | Some _ \<Rightarrow>
                (case sl_from_slice sl (the (hm_get (se_fields entry) ''headers'')) of
                   Inl _ \<Rightarrow> []
                 | Inr v \<Rightarrow> (case dec_text_map v of Some m \<Rightarrow> m | None \<Rightarrow> [])))
      in \<lparr>msg_id = se_id entry,
          msg_topic = (case text ''topic'' of Some t \<Rightarrow> t | None \<Rightarrow> []),
          msg_payload = (case hm_get (se_fields entry) ''payload'' of Some d \<Rightarrow> d | None \<Rightarrow> []),
          msg_headers = headers, msg_created_at = now_ms\<rparr>)"

definition stream_ack ::
  "'r stream_server \<Rightarrow> string \<Rightarrow> string \<Rightarrow> stream_bus \<Rightarrow> 'r \<Rightarrow> unit res \<times> 'r" where
  "stream_ack sv topic mid bus r =
     (case ss_xack sv (stream_key topic) (redis_stream_mq_group_name (sb_config bus)) mid r of
        (Inl e, r1) \<Rightarrow> (Err Internal (''redis xack failed: '' @ e), r1)
      | (Inr _, r1) \<Rightarrow> (Ok (), r1))"

definition stream_health_check :: "'r stream_server \<Rightarrow> 'r \<Rightarrow> bool res \<times> 'r" where
  "stream_health_check sv r =
     (case ss_ping sv r of (Inl e, r1) \<Rightarrow> (Ok False, r1) | (Inr _, r1) \<Rightarrow> (Ok True, r1))"

definition stream_close :: "unit res" where
  "stream_close = Ok ()"

subsection \<open>A subscription\<close>

text \<open>The spawned task reads a batch, puts its entries one by one into the bounded channel and
  reads again. \<open>co_backlog\<close> are the entries of the batch not yet put there; the task's own
  steps are \<open>Poll\<close> and \<open>Deliver\<close>, which do nothing when it is elsewhere in its loop or waits
  for room. \<open>co_received\<close> is the history of what the subscriber has taken out.\<close>

definition channel_room :: nat where
  "channel_room = 256"

record 'r stream_consumer =
  co_redis :: 'r
  co_backlog :: "stream_entry list"
  co_queue :: "message list"
  co_closed :: bool
  co_running :: bool
  co_slept_ms :: "nat list"
  co_received :: "message list"

definition consumer_start :: "'r \<Rightarrow> 'r stream_consumer" where
  "consumer_start r =
     \<lparr>co_redis = r, co_backlog = [], co_queue = [], co_closed = False, co_running = True,
      co_slept_ms = [], co_received = []\<rparr>"

definition stream_subscribe ::
  "'r stream_server \<Rightarrow> string \<Rightarrow> stream_bus \<Rightarrow> 'r \<Rightarrow> 'r stream_consumer res \<times> stream_bus \<times> 'r" where
  "stream_subscribe sv topic bus r =
     (case ensure_group sv (stream_key topic) bus r of
        (Inl e, bus1, r1) \<Rightarrow> (Inl e, bus1, r1)
      | (Inr _, bus1, r1) \<Rightarrow> (Ok (consumer_start r1), bus1, r1))"

definition poll_step ::
  "'r stream_server \<Rightarrow> redis_stream_mq_config \<Rightarrow> string \<Rightarrow> 'r stream_consumer \<Rightarrow> 'r stream_consumer" where
  "poll_step sv cfg key st =
     (if \<not> co_running st \<or> co_backlog st \<noteq> [] then st
      else if co_closed st then st\<lparr>co_running := False\<rparr>
      else
        (case ss_xreadgroup sv (redis_stream_mq_group_name cfg) (redis_stream_mq_consumer_name cfg)
                (redis_stream_mq_batch_size cfg) (redis_stream_mq_block_ms cfg) key (co_redis st) of
           (Inr streams, r1) \<Rightarrow> st\<lparr>co_redis := r1, co_backlog := concat (map snd streams)\<rparr>
         | (Inl e, r1) \<Rightarrow>
             st\<lparr>co_redis := r1,
                co_slept_ms := co_slept_ms st @ [if text_contains e ''NOGROUP'' then 1000 else 500]\<rparr>))"

definition deliver_step ::
  "serde_lib \<Rightarrow> 'r stream_server \<Rightarrow> u64 \<Rightarrow> 'r stream_consumer \<Rightarrow> 'r stream_consumer" where
  "deliver_step sl sv now_ms st =
     (case co_backlog st of
        [] \<Rightarrow> st
      | entry # rest \<Rightarrow>
          if \<not> co_running st then st
          else if co_closed st then st\<lparr>co_running := False\<rparr>
          else if channel_room \<le> length (co_queue st) then st
          else st\<lparr>co_queue := co_queue st @ [parse_stream_entry sl sv now_ms entry], co_backlog := rest\<rparr>)"

datatype 'r consumer_event =
    Poll | Deliver u64 | Receive | DropReceiver | Elsewhere "'r \<Rightarrow> 'r"

primrec consumer_step ::
  "serde_lib \<Rightarrow> 'r stream_server \<Rightarrow> redis_stream_mq_config \<Rightarrow> string \<Rightarrow> 'r consumer_event \<Rightarrow>
     'r stream_consumer \<Rightarrow> 'r stream_consumer" where
  "consumer_step sl sv cfg key Poll st = poll_step sv cfg key st"
| "consumer_step sl sv cfg key (Deliver now_ms) st = deliver_step sl sv now_ms st"
| "consumer_step sl sv cfg key Receive st =
     (case co_queue st of
        [] \<Rightarrow> st
      | m # ms \<Rightarrow> if co_closed st then st
          else st\<lparr>co_queue := ms, co_received := co_received st @ [m]\<rparr>)"
| "consumer_step sl sv cfg key DropReceiver st = st\<lparr>co_closed := True\<rparr>"
| "consumer_step sl sv cfg key (Elsewhere f) st = st\<lparr>co_redis := f (co_redis st)\<rparr>"

definition consumer_run ::
  "serde_lib \<Rightarrow> 'r stream_server \<Rightarrow> redis_stream_mq_config \<Rightarrow> string \<Rightarrow> 'r consumer_event list \<Rightarrow>
     'r stream_consumer \<Rightarrow> 'r stream_consumer" where
  "consumer_run sl sv cfg key evs st = fold (consumer_step sl sv cfg key) evs st"

section \<open>NATS JetStream\<close>

subsection \<open>The server\<close>

record nats_msg =
  nm_subject :: string
  nm_payload :: bytes
  nm_headers :: "(string, string list) hashmap option"
  nm_sequence :: nat

text \<open>Publishing fails when the request cannot be sent or when the server's acknowledgement does
  not come.\<close>

datatype 'a nats_reply = NotSent string | NotConfirmed string | Confirmed 'a

record 'n nats_server =
  ns_header_name :: "string \<Rightarrow> string option"
  ns_connect :: "nats_config \<Rightarrow> 'n \<Rightarrow> (string + unit) \<times> 'n"
  ns_get_or_create_stream :: "string \<Rightarrow> string list \<Rightarrow> 'n \<Rightarrow> (string + unit) \<times> 'n"
  ns_publish :: "string \<Rightarrow> (string, string list) hashmap \<Rightarrow> bytes \<Rightarrow> 'n \<Rightarrow> unit nats_reply \<times> 'n"
  ns_get_stream :: "string \<Rightarrow> 'n \<Rightarrow> (string + unit) \<times> 'n"
  ns_get_or_create_consumer :: "string \<Rightarrow> string \<Rightarrow> string \<Rightarrow> 'n \<Rightarrow> (string + unit) \<times> 'n"
  ns_ack :: "nats_msg \<Rightarrow> 'n \<Rightarrow> (string + unit) \<times> 'n"
  ns_drain :: "'n \<Rightarrow> (string + unit) \<times> 'n"

subsection \<open>The bus\<close>

record nats_bus =
  nb_stream_name :: string
  nb_consumer_group :: string
  nb_ack_map :: "(string, nats_msg) hashmap"

definition nats_connect :: "'n nats_server \<Rightarrow> nats_config \<Rightarrow> 'n \<Rightarrow> nats_bus res \<times> 'n" where
  "nats_connect sv cfg n =
     (case ns_connect sv cfg n of
        (Inl e, n1) \<Rightarrow> (Err Internal (''nats connect failed: '' @ e), n1)
      | (Inr _, n1) \<Rightarrow>
          (case ns_get_or_create_stream sv (nats_stream_name cfg) [''rinfra.>''] n1 of
             (Inl e, n2) \<Rightarrow> (Err Internal (''nats stream create failed: '' @ e), n2)
           | (Inr _, n2) \<Rightarrow>
               (Ok \<lparr>nb_stream_name = nats_stream_name cfg,
                    nb_consumer_group = nats_consumer_group cfg, nb_ack_map = []\<rparr>, n2)))"

definition nats_subject :: "string \<Rightarrow> string" where
  "nats_subject topic = ''rinfra.'' @ topic"

definition confirm :: "unit nats_reply \<times> 'n \<Rightarrow> unit res \<times> 'n" where
  "confirm reply =
     (case reply of
        (NotSent e, n) \<Rightarrow> (Err MqPublishFailed (''nats publish failed: '' @ e), n)
      | (NotConfirmed e, n) \<Rightarrow> (Err MqPublishFailed (''nats publish ack failed: '' @ e), n)
      | (Confirmed _, n) \<Rightarrow> (Ok (), n))"

definition nats_publish :: "'n nats_server \<Rightarrow> string \<Rightarrow> bytes \<Rightarrow> 'n \<Rightarrow> unit res \<times> 'n" where
  "nats_publish sv topic payload n = confirm (ns_publish sv (nats_subject topic) [] payload n)"

definition nats_headers :: "'n nats_server \<Rightarrow> (string, string) hashmap \<Rightarrow> (string, string list) hashmap" where
  "nats_headers sv headers =
     foldl (\<lambda>m (k, v). case ns_header_name sv k of Some name \<Rightarrow> hm_insert name [v] m | None \<Rightarrow> m) [] headers"

definition nats_publish_with_headers ::
  "'n nats_server \<Rightarrow> string \<Rightarrow> bytes \<Rightarrow> (string, string) hashmap \<Rightarrow> 'n \<Rightarrow> unit res \<times> 'n" where
  "nats_publish_with_headers sv topic payload headers n =
     confirm (ns_publish sv (nats_subject topic) (nats_headers sv headers) payload n)"

definition nats_consumer_name :: "string \<Rightarrow> string \<Rightarrow> string" where
  "nats_consumer_name grp topic =
     grp @ CHR ''-'' # map (\<lambda>c. if c = CHR ''.'' then CHR ''-'' else c) topic"

definition nats_subscribe :: "'n nats_server \<Rightarrow> nats_bus \<Rightarrow> string \<Rightarrow> 'n \<Rightarrow> string res \<times> 'n" where
  "nats_subscribe sv bus topic n =
     (case ns_get_stream sv (nb_stream_name bus) n of
        (Inl e, n1) \<Rightarrow> (Err MqSubscribeFailed (''nats get stream failed: '' @ e), n1)
      | (Inr _, n1) \<Rightarrow>
          (let name = nats_consumer_name (nb_consumer_group bus) topic in
           case ns_get_or_create_consumer sv (nb_stream_name bus) name (nats_subject topic) n1 of
             (Inl e, n2) \<Rightarrow> (Err MqSubscribeFailed (''nats consumer create failed: '' @ e), n2)
           | (Inr _, n2) \<Rightarrow> (Ok name, n2)))"

definition nats_received_headers :: "nats_msg \<Rightarrow> (string, string) hashmap" where
  "nats_received_headers nm =
     (case nm_headers nm of
        None \<Rightarrow> []
      | Some hs \<Rightarrow> foldl (\<lambda>m (k, vs). case vs of [] \<Rightarrow> m | v # _ \<Rightarrow> hm_insert k v m) [] hs)"

definition nats_message :: "string \<Rightarrow> u64 \<Rightarrow> nats_msg \<Rightarrow> message" where
  "nats_message uuid now_ms nm =
     message_with_headers uuid now_ms (nm_subject nm) (nm_payload nm) (nats_received_headers nm)"

definition nats_ack :: "'n nats_server \<Rightarrow> string \<Rightarrow> nats_bus \<Rightarrow> 'n \<Rightarrow> unit res \<times> nats_bus \<times> 'n" where
  "nats_ack sv mid bus n =
     (case hm_get (nb_ack_map bus) mid of
        None \<Rightarrow> (Ok (), bus, n)
      | Some nm \<Rightarrow>
          (let bus1 = bus\<lparr>nb_ack_map := hm_remove mid (nb_ack_map bus)\<rparr> in
           case ns_ack sv nm n of
             (Inl e, n1) \<Rightarrow> (Err Internal (''nats ack failed: '' @ e), bus1, n1)
           | (Inr _, n1) \<Rightarrow> (Ok (), bus1, n1)))"

definition nats_health_check :: "bool res" where
  "nats_health_check = Ok True"

definition nats_close :: "'n nats_server \<Rightarrow> 'n \<Rightarrow> unit res \<times> 'n" where
  "nats_close sv n =
     (case ns_drain sv n of
        (Inl e, n1) \<Rightarrow> (Err Internal (''nats drain failed: '' @ e), n1)
      | (Inr _, n1) \<Rightarrow> (Ok (), n1))"

subsection \<open>A subscription\<close>

text \<open>Every item of the consumer's stream of messages is taken unless the receiver is gone. A
  message is entered into the map of the bus, then put into the channel, for which it may have
  to wait. The ids of acknowledged messages are a history.\<close>

record nats_consumer =
  nc_bus :: nats_bus
  nc_waiting :: "message option"
  nc_queue :: "message list"
  nc_closed :: bool
  nc_running :: bool
  nc_received :: "message list"

datatype nats_event =
    Incoming string u64 nats_msg | ReceiveError | Put | Take | DropSubscriber

definition nats_put :: "message \<Rightarrow> nats_consumer \<Rightarrow> nats_consumer" where
  "nats_put m st =
     (if nc_closed st then st\<lparr>nc_waiting := None, nc_running := False\<rparr>
      else if channel_room \<le> length (nc_queue st) then st\<lparr>nc_waiting := Some m\<rparr>
      else st\<lparr>nc_waiting := None, nc_queue := nc_queue st @ [m]\<rparr>)"

primrec nats_step :: "nats_event \<Rightarrow> nats_consumer \<Rightarrow> nats_consumer" where
  "nats_step (Incoming uuid now_ms nm) st =
     (if \<not> nc_running st \<or> nc_waiting st \<noteq> None then st
      else if nc_closed st then st\<lparr>nc_running := False\<rparr>
      else
        (let m = nats_message uuid now_ms nm;
             bus1 = (nc_bus st)\<lparr>nb_ack_map := hm_insert (msg_id m) nm (nb_ack_map (nc_bus st))\<rparr>
         in nats_put m (st\<lparr>nc_bus := bus1\<rparr>)))"
| "nats_step ReceiveError st =
     (if \<not> nc_running st \<or> nc_waiting st \<noteq> None then st
      else if nc_closed st then st\<lparr>nc_running := False\<rparr> else st)"
| "nats_step Put st = (case nc_waiting st of None \<Rightarrow> st | Some m \<Rightarrow> nats_put m st)"
| "nats_step Take st =
     (case nc_queue st of
        [] \<Rightarrow> st
      | m # ms \<Rightarrow> if nc_closed st then st
          else st\<lparr>nc_queue := ms, nc_received := nc_received st @ [m]\<rparr>)"
| "nats_step DropSubscriber st = st\<lparr>nc_closed := True\<rparr>"

definition nats_run :: "nats_event list \<Rightarrow> nats_consumer \<Rightarrow> nats_consumer" where
  "nats_run evs st = fold nats_step evs st"

definition nats_start :: "nats_bus \<Rightarrow> nats_consumer" where
  "nats_start bus =
     \<lparr>nc_bus = bus, nc_waiting = None, nc_queue = [], nc_closed = False, nc_running = True, nc_received = []\<rparr>"

section \<open>Lemmas on entries\<close>

definition undated :: "message \<Rightarrow> message" where
  "undated m = m\<lparr>msg_created_at := 0\<rparr>"

lemma undated_parse [simp]: "undated (parse_stream_entry sl sv now_ms e) = parse_stream_entry sl sv 0 e"
  by (simp add: undated_def parse_stream_entry_def Let_def)

text \<open>An entry carries what was published: its topic, payload and headers are read back.\<close>

lemma published_entry_parses:
  assumes "\<And>s. ss_utf8 sv (ss_text_bytes sv s) = Some s"
    and "sl_to_vec sl (enc_text_map headers) = Inr d" "sl_from_slice sl d = Inr (enc_text_map headers)"
    and "ss_utf8 sv d \<noteq> None" "hm_ok headers"
  shows "parse_stream_entry sl sv now_ms
      \<lparr>se_id = i, se_fields = stream_fields sv topic payload @ [(''headers'', d)]\<rparr> =
    \<lparr>msg_id = i, msg_topic = topic, msg_payload = payload, msg_headers = headers, msg_created_at = now_ms\<rparr>"
  using assms dec_enc_text_map [OF assms(5)]
  by (auto simp: parse_stream_entry_def stream_fields_def hm_get_def split: option.splits)

section \<open>Lemmas on subscriptions\<close>

text \<open>What the task has been given since \<open>r0\<close> is what the subscriber has taken, what is in the
  channel, and the rest of the batch, or whatever was left of it when the task ended.\<close>

definition consumer_inv ::
  "serde_lib \<Rightarrow> 'r stream_server \<Rightarrow> ('r \<Rightarrow> stream_entry list) \<Rightarrow> 'r \<Rightarrow> 'r stream_consumer \<Rightarrow> bool" where
  "consumer_inv sl sv delivered r0 st \<longleftrightarrow>
     (\<exists>new lost. delivered (co_redis st) = delivered r0 @ new \<and>
        map (parse_stream_entry sl sv 0) new = map undated (co_received st @ co_queue st) @ lost \<and>
        (co_running st \<longrightarrow> lost = map (parse_stream_entry sl sv 0) (co_backlog st))) \<and>
     length (co_queue st) \<le> channel_room"

lemma consumer_inv_start: "consumer_inv sl sv delivered r (consumer_start r)"
  by (simp add: consumer_inv_def consumer_start_def)

lemma consumer_inv_poll:
  assumes inv: "consumer_inv sl sv delivered r0 st"
    and read: "\<And>g c n b r streams r'. ss_xreadgroup sv g c n b key r = (Inr streams, r') \<Longrightarrow>
      delivered r' = delivered r @ concat (map snd streams)"
    and failed: "\<And>g c n b r e r'. ss_xreadgroup sv g c n b key r = (Inl e, r') \<Longrightarrow> delivered r' = delivered r"
  shows "consumer_inv sl sv delivered r0 (poll_step sv cfg key st)"
proof (cases "co_running st \<and> co_backlog st = [] \<and> \<not> co_closed st")
  case False
  then show ?thesis using inv by (auto simp: consumer_inv_def poll_step_def)
next
  case True
  let ?read = "ss_xreadgroup sv (redis_stream_mq_group_name cfg) (redis_stream_mq_consumer_name cfg)
    (redis_stream_mq_batch_size cfg) (redis_stream_mq_block_ms cfg) key (co_redis st)"
  obtain res r1 where read1: "?read = (res, r1)" by (cases ?read)
  show ?thesis
  proof (cases res)
    case (Inl e)
    then have "delivered r1 = delivered (co_redis st)" using failed read1 by blast
    then show ?thesis using inv True read1 Inl by (simp add: consumer_inv_def poll_step_def)
  next
    case (Inr streams)
    then have "delivered r1 = delivered (co_redis st) @ concat (map snd streams)" using read read1 by blast
    then show ?thesis using inv True read1 Inr by (auto simp: consumer_inv_def poll_step_def)
  qed
qed

lemma consumer_inv_deliver:
  "consumer_inv sl sv delivered r0 st \<Longrightarrow> consumer_inv sl sv delivered r0 (deliver_step sl sv now_ms st)"
  by (cases "co_backlog st") (auto simp: consumer_inv_def deliver_step_def not_le)

lemma consumer_inv_step:
  assumes "consumer_inv sl sv delivered r0 st"
    and "\<And>g c n b r streams r'. ss_xreadgroup sv g c n b key r = (Inr streams, r') \<Longrightarrow>
      delivered r' = delivered r @ concat (map snd streams)"
    and "\<And>g c n b r e r'. ss_xreadgroup sv g c n b key r = (Inl e, r') \<Longrightarrow> delivered r' = delivered r"
    and "\<And>f r. ev = Elsewhere f \<Longrightarrow> delivered (f r) = delivered r"
  shows "consumer_inv sl sv delivered r0 (consumer_step sl sv cfg key ev st)"
proof (cases ev)
  case Poll
  show ?thesis using consumer_inv_poll [OF assms(1,2,3)] Poll by simp
next
  case (Deliver t)
  then show ?thesis using consumer_inv_deliver [OF assms(1)] by simp
next
  case Receive
  then show ?thesis using assms(1) by (auto simp: consumer_inv_def split: list.split)
next
  case DropReceiver
  then show ?thesis using assms(1) by (simp add: consumer_inv_def)
next
  case (Elsewhere f)
  then show ?thesis using assms(1,4) by (simp add: consumer_inv_def)
qed

text \<open>Every message that came to the subscriber's side is in the map of the bus until something
  takes it out, under its own id and with the message of the server it was made of.\<close>

definition nats_tracked :: "nats_consumer \<Rightarrow> message list" where
  "nats_tracked st = nc_received st @ nc_queue st @ (case nc_waiting st of None \<Rightarrow> [] | Some m \<Rightarrow> [m])"

primrec nats_uuids :: "nats_event \<Rightarrow> string list" where
  "nats_uuids (Incoming uuid now_ms nm) = [uuid]"
| "nats_uuids ReceiveError = []"
| "nats_uuids Put = []"
| "nats_uuids Take = []"
| "nats_uuids DropSubscriber = []"

definition nats_inv :: "nats_consumer \<Rightarrow> bool" where
  "nats_inv st \<longleftrightarrow>
     (\<forall>m \<in> set (nats_tracked st). \<exists>nm now_ms.
        hm_get (nb_ack_map (nc_bus st)) (msg_id m) = Some nm \<and> m = nats_message (msg_id m) now_ms nm)"

lemma msg_id_nats_message [simp]: "msg_id (nats_message uuid now_ms nm) = uuid"
  by (simp add: nats_message_def message_with_headers_def message_new_def)

lemma set_nats_put: "set (nats_tracked (nats_put m st)) \<subseteq> insert m (set (nats_tracked st))"
  by (auto simp: nats_put_def nats_tracked_def split: option.splits)

lemma nats_put_bus [simp]: "nc_bus (nats_put m st) = nc_bus st"
  by (simp add: nats_put_def)

lemma nats_inv_step:
  assumes "nats_inv st" "\<forall>u \<in> set (nats_uuids ev). u \<notin> msg_id ` set (nats_tracked st)"
  shows "nats_inv (nats_step ev st) \<and>
    msg_id ` set (nats_tracked (nats_step ev st)) \<subseteq> set (nats_uuids ev) \<union> msg_id ` set (nats_tracked st)"
proof (cases ev)
  case (Incoming uuid now_ms nm)
  show ?thesis
  proof (cases "nc_running st \<and> nc_waiting st = None \<and> \<not> nc_closed st")
    case False
    then show ?thesis using assms Incoming by (auto simp: nats_inv_def nats_tracked_def)
  next
    case True
    let ?m = "nats_message uuid now_ms nm"
    let ?st = "st\<lparr>nc_bus := (nc_bus st)\<lparr>nb_ack_map := hm_insert uuid nm (nb_ack_map (nc_bus st))\<rparr>\<rparr>"
    have same: "nats_tracked ?st = nats_tracked st" by (simp add: nats_tracked_def)
    have step: "nats_step ev st = nats_put ?m ?st" using True Incoming by (simp add: Let_def)
    have new: "uuid \<noteq> msg_id x" if "x \<in> set (nats_tracked st)" for x
      using assms(2) Incoming that by auto
    have "nats_inv (nats_put ?m ?st)"
      unfolding nats_inv_def
    proof
      fix x assume "x \<in> set (nats_tracked (nats_put ?m ?st))"
      then consider "x = ?m" | "x \<in> set (nats_tracked st)" using set_nats_put same by fastforce
      then show "\<exists>nm now_ms. hm_get (nb_ack_map (nc_bus (nats_put ?m ?st))) (msg_id x) = Some nm \<and>
          x = nats_message (msg_id x) now_ms nm"
      proof cases
        case 1
        then show ?thesis by auto
      next
        case 2
        then show ?thesis using assms(1) new [OF 2] by (auto simp: nats_inv_def)
      qed
    qed
    moreover have "msg_id ` set (nats_tracked (nats_put ?m ?st)) \<subseteq> {uuid} \<union> msg_id ` set (nats_tracked st)"
      using set_nats_put [of ?m ?st] same by auto
    ultimately show ?thesis using step Incoming by simp
  qed
next
  case ReceiveError
  then show ?thesis using assms(1) by (auto simp: nats_inv_def nats_tracked_def)
next
  case Put
  show ?thesis
  proof (cases "nc_waiting st")
    case None
    then show ?thesis using assms(1) Put by simp
  next
    case (Some m)
    then have "m \<in> set (nats_tracked st)" by (simp add: nats_tracked_def)
    then have sub: "set (nats_tracked (nats_put m st)) \<subseteq> set (nats_tracked st)"
      using set_nats_put [of m st] by auto
    then show ?thesis using assms(1) Put Some by (auto simp: nats_inv_def)
  qed
next
  case Take
  then show ?thesis using assms(1) by (auto simp: nats_inv_def nats_tracked_def split: list.split)
next
  case DropSubscriber
  then show ?thesis using assms(1) by (auto simp: nats_inv_def nats_tracked_def)
qed

lemma nats_inv_run:
  assumes "nats_inv st" "distinct (concat (map nats_uuids evs))"
    "set (concat (map nats_uuids evs)) \<inter> msg_id ` set (nats_tracked st) = {}"
  shows "nats_inv (nats_run evs st)"
  using assms
proof (induction evs arbitrary: st)
  case Nil
  then show ?case by (simp add: nats_run_def)
next
  case (Cons ev evs)
  have step: "nats_inv (nats_step ev st)"
    "msg_id ` set (nats_tracked (nats_step ev st)) \<subseteq> set (nats_uuids ev) \<union> msg_id ` set (nats_tracked st)"
    using nats_inv_step [OF Cons.prems(1)] Cons.prems(3) by auto
  have "set (concat (map nats_uuids evs)) \<inter> msg_id ` set (nats_tracked (nats_step ev st)) = {}"
  proof (rule equals0I)
    fix u
    assume u: "u \<in> set (concat (map nats_uuids evs)) \<inter> msg_id ` set (nats_tracked (nats_step ev st))"
    with step(2) consider "u \<in> set (nats_uuids ev)" | "u \<in> msg_id ` set (nats_tracked st)" by blast
    then show False
    proof cases
      case 1
      with u Cons.prems(2) show ?thesis by (simp only: list.map concat.simps distinct_append) blast
    next
      case 2
      with u Cons.prems(3) show ?thesis by (simp only: list.map concat.simps set_append) blast
    qed
  qed
  then show ?case using Cons.IH [OF step(1)] Cons.prems(2) by (simp add: nats_run_def)
qed

section \<open>Properties\<close>


text \<open>A server of one stream and one group: a log, how much of it the group has been given, and
  the ids that were given and not acknowledged.\<close>

definition byte_text :: "string \<Rightarrow> bytes" where
  "byte_text s = map (\<lambda>c. of_nat (of_char c)) s"

record demo_stream =
  dst_log :: "stream_entry list"
  dst_next :: nat
  dst_pending :: "string list"

definition demo_read :: "u64 \<Rightarrow> demo_stream \<Rightarrow> stream_entry list" where
  "demo_read n r = take (unat n) (drop (dst_next r) (dst_log r))"

definition demo_xadd :: "(string \<times> bytes) list \<Rightarrow> demo_stream \<Rightarrow> demo_stream" where
  "demo_xadd fs r = r\<lparr>dst_log := dst_log r @ [\<lparr>se_id = show_nat (length (dst_log r)), se_fields = fs\<rparr>]\<rparr>"

definition demo_server :: "demo_stream stream_server" where
  "demo_server =
     \<lparr>ss_text_bytes = byte_text, ss_utf8 = (\<lambda>d. Some (map (\<lambda>b. char_of (unat b)) d)),
      ss_xgroup_create = (\<lambda>k g r. (Inr ''OK'', r)),
      ss_xadd = (\<lambda>k m fs r. (Inr (show_nat (length (dst_log r))), demo_xadd fs r)),
      ss_xreadgroup = (\<lambda>g c n b k r.
        (Inr [(k, demo_read n r)],
         r\<lparr>dst_next := min (length (dst_log r)) (dst_next r + unat n),
           dst_pending := dst_pending r @ map se_id (demo_read n r)\<rparr>)),
      ss_xack = (\<lambda>k g i r. (Inr 1, r\<lparr>dst_pending := removeAll i (dst_pending r)\<rparr>)),
      ss_ping = (\<lambda>r. (Inr ''PONG'', r))\<rparr>"

definition demo_delivered :: "demo_stream \<Rightarrow> stream_entry list" where
  "demo_delivered r = take (dst_next r) (dst_log r)"

definition demo_config :: redis_stream_mq_config where
  "demo_config =
     \<lparr>redis_stream_mq_url = ''redis://localhost'', redis_stream_mq_group_name = ''g'',
      redis_stream_mq_consumer_name = ''c'', redis_stream_mq_max_len = None,
      redis_stream_mq_block_ms = 100, redis_stream_mq_batch_size = 2\<rparr>"

definition demo_serde :: serde_lib where
  "demo_serde = \<lparr>sl_to_vec = \<lambda>_. Inl ''none'', sl_from_slice = \<lambda>_. Inl ''none''\<rparr>"

lemma demo_read_delivered:
  assumes "ss_xreadgroup demo_server g c n b k r = (Inr streams, r')"
  shows "demo_delivered r' = demo_delivered r @ concat (map snd streams)"
proof -
  have "take (min (length l) (i + j)) l = take i l @ take j (drop i l)" for l :: "stream_entry list" and i j
    by (metis add.commute take_add take_all_iff min.commute min_def nat_le_linear take_take)
  then show ?thesis using assms
    by (auto simp: demo_server_def demo_delivered_def demo_read_def)
qed

definition demo_stream_run :: "demo_stream consumer_event list \<Rightarrow> demo_stream stream_consumer" where
  "demo_stream_run evs = consumer_run demo_serde demo_server demo_config ''s'' evs
     (consumer_start (demo_xadd [(''topic'', byte_text ''t''), (''payload'', [2])]
       (demo_xadd [(''topic'', byte_text ''t''), (''payload'', [1])]
         \<lparr>dst_log = [], dst_next = 0, dst_pending = []\<rparr>)))"


text \<open>When the receiver goes away while the task is putting a batch into the channel, the rest of
  the batch is lost: the server holds it as pending for this consumer, and a task of a later
  subscription, which asks for new entries only, never gets it.\<close>

lemma dropped_receiver_loses_entries:
  "let st = demo_stream_run [Poll, DropReceiver, Deliver 5];
       st2 = consumer_run demo_serde demo_server demo_config ''s'' [Poll, Deliver 6, Receive] (consumer_start (co_redis st))
   in \<not> co_running st \<and> dst_pending (co_redis st2) = [''0'', ''1''] \<and> co_received st2 = [] \<and> co_queue st2 = []"
  by code_simp

text \<open>
  Every message the NATS bus has handed to a subscriber can be acknowledged: as long as message
  ids are fresh, its id leads in the map of the bus to exactly the message of the server it was
  made from, until it is acknowledged. Nothing else is ever taken out of that map.
\<close>

theorem nats_messages_ackable:
  assumes "distinct (concat (map nats_uuids evs))" "m \<in> set (nc_received (nats_run evs (nats_start bus)))"
  shows "\<exists>nm now_ms. hm_get (nb_ack_map (nc_bus (nats_run evs (nats_start bus)))) (msg_id m) = Some nm \<and>
    m = nats_message (msg_id m) now_ms nm"
proof -
  have "nats_inv (nats_run evs (nats_start bus))"
    by (rule nats_inv_run [OF _ assms(1)]) (simp_all add: nats_inv_def nats_tracked_def nats_start_def)
  then show ?thesis using assms(2) by (auto simp: nats_inv_def nats_tracked_def)
qed

definition demo_nats_run :: nats_consumer where
  "demo_nats_run = nats_run
     [Incoming ''u1'' 5 \<lparr>nm_subject = ''rinfra.orders'', nm_payload = [1], nm_headers = None, nm_sequence = 1\<rparr>, Take]
     (nats_start \<lparr>nb_stream_name = ''s'', nb_consumer_group = ''g'', nb_ack_map = []\<rparr>)"

theorem nats_messages_ackable_witness:
  "\<exists>nm. hm_get (nb_ack_map (nc_bus demo_nats_run)) ''u1'' = Some nm"
proof -
  let ?evs = "[Incoming ''u1'' 5 \<lparr>nm_subject = ''rinfra.orders'', nm_payload = [1], nm_headers = None, nm_sequence = 1\<rparr>, Take]"
  have one: "map msg_id (nc_received demo_nats_run) = [''u1'']" by code_simp
  then obtain m where m: "m \<in> set (nc_received demo_nats_run)" "msg_id m = ''u1''" by fastforce
  then show ?thesis
    using nats_messages_ackable [of ?evs m "\<lparr>nb_stream_name = ''s'', nb_consumer_group = ''g'', nb_ack_map = []\<rparr>"]
    by (auto simp: demo_nats_run_def)
qed

text \<open>The topic of a received message is the subject with its prefix, not the topic it was
  published under.\<close>

lemma nats_topic_keeps_prefix: "map msg_topic (nc_received demo_nats_run) = [''rinfra.orders'']"
  by code_simp

text \<open>Two topics can share the name of their durable consumer, so that the second subscription
  gets the consumer, and the filter, of the first.\<close>

lemma nats_consumer_names_collide: "nats_consumer_name g ''a.b'' = nats_consumer_name g ''a-b''"
  by (simp add: nats_consumer_name_def)

end
