(* ===== verification/Script_Engines.thy ===== *)
theory Script_Engines
  imports Registries Config_Model
begin

text \<open>
  The script engines of \<open>rinfra-plugins/src/script\<close>: the persistent worker process and the
  one-shot process of \<open>subprocess.rs\<close>, the Python and JavaScript engines built on the worker
  (\<open>python.rs\<close>, \<open>js.rs\<close>) and the WASM engine (\<open>wasm.rs\<close>). The operating system, the interpreter
  that runs in a worker, Base64 and the text of JSON documents are a record of functions; \<open>'p\<close> is
  the state of a process with its pipes, \<open>'w\<close> everything else. The engines keep their worker
  behind a mutex that an execution holds to its end, so executions of one engine are a sequence.
\<close>

section \<open>The environment\<close>

datatype read_outcome = Eof | Line string | ReadFailed string | TimedOut

datatype wait_outcome = Exited "int option" bytes bytes | WaitFailed string | WaitTimedOut

record ('p, 'w) script_env =
  sv_base64 :: "bytes \<Rightarrow> string"
  sv_unbase64 :: "string \<Rightarrow> string + bytes"
  sv_json_text :: "json \<Rightarrow> string + string"
  sv_json_parse :: "string \<Rightarrow> string + json"
  sv_utf8_lossy :: "bytes \<Rightarrow> string"
  sv_uuid :: "'w \<Rightarrow> string \<times> 'w"
  sv_temp_dir :: string
  sv_write_file :: "string \<Rightarrow> bytes \<Rightarrow> 'w \<Rightarrow> (string + unit) \<times> 'w"
  sv_remove_file :: "string \<Rightarrow> 'w \<Rightarrow> 'w"
  sv_spawn :: "string \<Rightarrow> string list \<Rightarrow> 'w \<Rightarrow> (string + 'p) \<times> 'w"
  sv_alive :: "'p \<Rightarrow> bool"
  sv_write_line :: "string \<Rightarrow> 'p \<Rightarrow> (string + unit) \<times> 'p"
  sv_flush :: "'p \<Rightarrow> (string + unit) \<times> 'p"
  sv_read_line :: "u64 \<Rightarrow> 'p \<Rightarrow> read_outcome \<times> 'p"
  sv_kill :: "'p \<Rightarrow> 'p"
  sv_run_once :: "bytes \<Rightarrow> u64 \<Rightarrow> 'p \<Rightarrow> wait_outcome"

definition start_failure :: "string \<Rightarrow> string \<Rightarrow> 'a res" where
  "start_failure command e =
     Err ScriptExecFailed (''failed to start '' @ quoted command @ '': '' @ e
       @ '' '' @ [CHR 0xE2, CHR 0x80, CHR 0x94] @ '' is it installed and in PATH?'')"

definition write_temp_file ::
  "('p, 'w) script_env \<Rightarrow> bytes \<Rightarrow> string \<Rightarrow> 'w \<Rightarrow> string res \<times> 'w" where
  "write_temp_file env content ext w =
     (let (uuid, w1) = sv_uuid env w;
          path = sv_temp_dir env @ ''/rinfra_'' @ uuid @ ext
      in case sv_write_file env path content w1 of
           (Inl e, w2) \<Rightarrow> (Err ScriptLoadFailed (''failed to write temp file: '' @ e), w2)
         | (Inr _, w2) \<Rightarrow> (Ok path, w2))"

section \<open>The persistent worker\<close>

record 'p script_worker =
  wk_process :: 'p
  wk_harness_path :: string

definition worker_spawn ::
  "('p, 'w) script_env \<Rightarrow> string \<Rightarrow> string list \<Rightarrow> bytes \<Rightarrow> string \<Rightarrow> 'w \<Rightarrow> 'p script_worker res \<times> 'w" where
  "worker_spawn env command extra_args harness harness_ext w =
     (case write_temp_file env harness harness_ext w of
        (Inl e, w1) \<Rightarrow> (Inl e, w1)
      | (Inr harness_path, w1) \<Rightarrow>
          (case sv_spawn env command (extra_args @ [harness_path]) w1 of
             (Inl e, w2) \<Rightarrow> (start_failure command e, w2)
           | (Inr p, w2) \<Rightarrow> (Ok \<lparr>wk_process = p, wk_harness_path = harness_path\<rparr>, w2)))"

text \<open>Dropping a worker kills its process and removes the file of its harness.\<close>

definition worker_drop :: "('p, 'w) script_env \<Rightarrow> 'p script_worker \<Rightarrow> 'w \<Rightarrow> 'w" where
  "worker_drop env wk w = sv_remove_file env (wk_harness_path wk) w"

definition json_at :: "json \<Rightarrow> string \<Rightarrow> json" where
  "json_at v k = (case v of JObj ms \<Rightarrow> (case map_of ms k of Some x \<Rightarrow> x | None \<Rightarrow> JNull) | _ \<Rightarrow> JNull)"

text \<open>\<open>as_i64\<close>, then \<open>as i32\<close>, which keeps the low 32 bits.\<close>

definition exit_code_of :: "json \<Rightarrow> int" where
  "exit_code_of v =
     (case v of
        JInt i \<Rightarrow> (if - (2 ^ 63) \<le> i \<and> i < 2 ^ 63 then (i + 2 ^ 31) mod 2 ^ 32 - 2 ^ 31 else - 1)
      | _ \<Rightarrow> - 1)"

definition parse_worker_response :: "('p, 'w) script_env \<Rightarrow> string \<Rightarrow> script_output res" where
  "parse_worker_response env line =
     (case sv_json_parse env line of
        Inl e \<Rightarrow> Err ScriptExecFailed (''parse worker response: '' @ e)
      | Inr resp \<Rightarrow>
          (case sv_unbase64 env (case json_at resp ''r'' of JStr t \<Rightarrow> t | _ \<Rightarrow> []) of
             Inl e \<Rightarrow> Err ScriptExecFailed (''decode result payload: '' @ e)
           | Inr result \<Rightarrow>
               Ok \<lparr>so_stdout = (case json_at resp ''o'' of JStr t \<Rightarrow> t | _ \<Rightarrow> []),
                   so_result = result, so_exit_code = exit_code_of (json_at resp ''c'')\<rparr>))"

definition request_json :: "('p, 'w) script_env \<Rightarrow> bytes \<Rightarrow> bytes \<Rightarrow> json" where
  "request_json env script input =
     JObj [(''i'', JStr (sv_base64 env input)), (''s'', JStr (sv_base64 env script))]"

text \<open>The first half of \<open>execute\<close> sends the request line.\<close>

definition worker_send ::
  "('p, 'w) script_env \<Rightarrow> bytes \<Rightarrow> bytes \<Rightarrow> 'p \<Rightarrow> unit res \<times> 'p" where
  "worker_send env script input p =
     (case sv_json_text env (request_json env script input) of
        Inl e \<Rightarrow> (Err ScriptExecFailed (''serialize request: '' @ e), p)
      | Inr text \<Rightarrow>
          (case sv_write_line env (text @ [CHR 0x0A]) p of
             (Inl e, p1) \<Rightarrow> (Err ScriptExecFailed (''write to worker stdin: '' @ e), p1)
           | (Inr _, p1) \<Rightarrow>
               (case sv_flush env p1 of
                  (Inl e, p2) \<Rightarrow> (Err ScriptExecFailed (''flush worker stdin: '' @ e), p2)
                | (Inr _, p2) \<Rightarrow> (Ok (), p2))))"

definition worker_receive ::
  "('p, 'w) script_env \<Rightarrow> u64 \<Rightarrow> 'p \<Rightarrow> script_output res \<times> 'p" where
  "worker_receive env timeout_secs p =
     (case sv_read_line env timeout_secs p of
        (Eof, p1) \<Rightarrow> (Err ScriptExecFailed ''worker process terminated unexpectedly'', p1)
      | (Line line, p1) \<Rightarrow> (parse_worker_response env line, p1)
      | (ReadFailed e, p1) \<Rightarrow> (Err ScriptExecFailed (''read from worker stdout: '' @ e), p1)
      | (TimedOut, p1) \<Rightarrow>
          (Err ScriptExecFailed (''script timed out after '' @ show_nat (unat timeout_secs) @ ''s''),
           sv_kill env p1))"

definition worker_execute ::
  "('p, 'w) script_env \<Rightarrow> bytes \<Rightarrow> bytes \<Rightarrow> u64 \<Rightarrow> 'p \<Rightarrow> script_output res \<times> 'p" where
  "worker_execute env script input timeout_secs p =
     (case worker_send env script input p of
        (Inl e, p1) \<Rightarrow> (Inl e, p1)
      | (Inr _, p1) \<Rightarrow> worker_receive env timeout_secs p1)"

definition worker_is_alive :: "('p, 'w) script_env \<Rightarrow> 'p script_worker \<Rightarrow> bool" where
  "worker_is_alive env wk = sv_alive env (wk_process wk)"

section \<open>The engines\<close>

text \<open>What the engines do behind the mutex: start a worker when there is none that lives, dropping
  the one there was, and drop the worker after a failed execution. \<open>launch\<close> are the command, its
  arguments, the harness and the ending of its file's name.\<close>

definition ensure_worker ::
  "('p, 'w) script_env \<Rightarrow> string \<times> string list \<times> bytes \<times> string \<Rightarrow> 'p script_worker option \<Rightarrow> 'w \<Rightarrow>
     'p script_worker res \<times> 'p script_worker option \<times> 'w" where
  "ensure_worker env launch guard w =
     (case guard of
        Some wk \<Rightarrow>
          (if worker_is_alive env wk then (Ok wk, Some wk, w)
           else (case launch of (command, extra_args, harness, ext) \<Rightarrow>
             (case worker_spawn env command extra_args harness ext w of
                (Inl e, w1) \<Rightarrow> (Inl e, Some wk, w1)
              | (Inr wk', w1) \<Rightarrow> (Ok wk', Some wk', worker_drop env wk w1))))
      | None \<Rightarrow>
          (case launch of (command, extra_args, harness, ext) \<Rightarrow>
             (case worker_spawn env command extra_args harness ext w of
                (Inl e, w1) \<Rightarrow> (Inl e, None, w1)
              | (Inr wk', w1) \<Rightarrow> (Ok wk', Some wk', w1))))"

definition run_guarded ::
  "('p, 'w) script_env \<Rightarrow> string \<times> string list \<times> bytes \<times> string \<Rightarrow> bytes \<Rightarrow> bytes \<Rightarrow> u64 \<Rightarrow>
     'p script_worker option \<Rightarrow> 'w \<Rightarrow> script_output res \<times> 'p script_worker option \<times> 'w" where
  "run_guarded env launch script input timeout_secs guard w =
     (case ensure_worker env launch guard w of
        (Inl e, g1, w1) \<Rightarrow> (Inl e, g1, w1)
      | (Inr wk, g1, w1) \<Rightarrow>
          (case worker_execute env script input timeout_secs (wk_process wk) of
             (Inr out, p) \<Rightarrow> (Ok out, Some (wk\<lparr>wk_process := p\<rparr>), w1)
           | (Inl e, p) \<Rightarrow> (Inl e, None, worker_drop env (wk\<lparr>wk_process := p\<rparr>) w1)))"

definition python_command :: "python_script_config \<Rightarrow> string" where
  "python_command cfg =
     (if python_script_venv_path cfg \<noteq> [] then python_script_venv_path cfg @ ''/bin/python'' else ''python3'')"

definition python_launch :: "python_script_config \<Rightarrow> bytes \<Rightarrow> string \<times> string list \<times> bytes \<times> string" where
  "python_launch cfg harness = (python_command cfg, [], harness, ''_worker.py'')"

definition python_execute ::
  "('p, 'w) script_env \<Rightarrow> bytes \<Rightarrow> python_script_config \<Rightarrow> bytes \<Rightarrow> bytes \<Rightarrow>
     'p script_worker option \<Rightarrow> 'w \<Rightarrow> script_output res \<times> 'p script_worker option \<times> 'w" where
  "python_execute env harness cfg script input guard w =
     (if \<not> python_script_enabled cfg then (Err ScriptExecFailed ''Python script engine is disabled'', guard, w)
      else if script = [] then (Err ScriptLoadFailed ''empty Python script'', guard, w)
      else run_guarded env (python_launch cfg harness) script input (python_script_timeout_secs cfg) guard w)"

definition js_launch :: "js_script_config \<Rightarrow> bytes \<Rightarrow> string \<times> string list \<times> bytes \<times> string" where
  "js_launch cfg harness =
     (''node'', [''--max-old-space-size='' @ show_nat (unat (js_script_max_heap_mb cfg))], harness, ''_worker.js'')"

definition js_execute ::
  "('p, 'w) script_env \<Rightarrow> bytes \<Rightarrow> js_script_config \<Rightarrow> bytes \<Rightarrow> bytes \<Rightarrow>
     'p script_worker option \<Rightarrow> 'w \<Rightarrow> script_output res \<times> 'p script_worker option \<times> 'w" where
  "js_execute env harness cfg script input guard w =
     (if \<not> js_script_enabled cfg then (Err ScriptExecFailed ''JavaScript script engine is disabled'', guard, w)
      else if script = [] then (Err ScriptLoadFailed ''empty JavaScript script'', guard, w)
      else run_guarded env (js_launch cfg harness) script input (js_script_timeout_secs cfg) guard w)"

definition wasm_execute :: "wasm_script_config \<Rightarrow> bytes \<Rightarrow> bytes \<Rightarrow> script_output res" where
  "wasm_execute cfg script input =
     (if \<not> wasm_script_enabled cfg then Err ScriptExecFailed ''WASM script engine is disabled''
      else if script = [] then Err ScriptLoadFailed ''empty script module''
      else Ok \<lparr>so_stdout = [], so_result = input, so_exit_code = 0\<rparr>)"

text \<open>An execution whose caller stops waiting for it after the request was sent: the future is
  dropped at the read, and the worker stays behind the mutex.\<close>

definition run_abandoned ::
  "('p, 'w) script_env \<Rightarrow> string \<times> string list \<times> bytes \<times> string \<Rightarrow> bytes \<Rightarrow> bytes \<Rightarrow>
     'p script_worker option \<Rightarrow> 'w \<Rightarrow> 'p script_worker option \<times> 'w" where
  "run_abandoned env launch script input guard w =
     (case ensure_worker env launch guard w of
        (Inl e, g1, w1) \<Rightarrow> (g1, w1)
      | (Inr wk, g1, w1) \<Rightarrow>
          (case worker_send env script input (wk_process wk) of
             (Inl e, p) \<Rightarrow> (None, worker_drop env (wk\<lparr>wk_process := p\<rparr>) w1)
           | (Inr _, p) \<Rightarrow> (Some (wk\<lparr>wk_process := p\<rparr>), w1)))"

section \<open>One-shot processes\<close>

definition spawn_oneshot ::
  "('p, 'w) script_env \<Rightarrow> string \<Rightarrow> string list \<Rightarrow> string \<Rightarrow> bytes \<Rightarrow> u64 \<Rightarrow> 'w \<Rightarrow> script_output res \<times> 'w" where
  "spawn_oneshot env command extra_args script_path input timeout_secs w =
     (case sv_spawn env command (extra_args @ [script_path]) w of
        (Inl e, w1) \<Rightarrow> (start_failure command e, w1)
      | (Inr p, w1) \<Rightarrow>
          ((case sv_run_once env input timeout_secs p of
              Exited code out err \<Rightarrow>
                Ok \<lparr>so_stdout = sv_utf8_lossy env err, so_result = out,
                    so_exit_code = (case code of Some c \<Rightarrow> c | None \<Rightarrow> - 1)\<rparr>
            | WaitFailed e \<Rightarrow> Err ScriptExecFailed (''process I/O error: '' @ e)
            | WaitTimedOut \<Rightarrow>
                Err ScriptExecFailed (''script timed out after '' @ show_nat (unat timeout_secs) @ ''s'')), w1))"

definition run_script ::
  "('p, 'w) script_env \<Rightarrow> string \<Rightarrow> string list \<Rightarrow> bytes \<Rightarrow> bytes \<Rightarrow> string \<Rightarrow> u64 \<Rightarrow> 'w \<Rightarrow> script_output res \<times> 'w" where
  "run_script env command extra_args script input file_ext timeout_secs w =
     (case write_temp_file env script file_ext w of
        (Inl e, w1) \<Rightarrow> (Inl e, w1)
      | (Inr script_path, w1) \<Rightarrow>
          (let (result, w2) = spawn_oneshot env command extra_args script_path input timeout_secs w1
           in (result, sv_remove_file env script_path w2)))"

section \<open>Runs\<close>

fun run_engine ::
  "('p, 'w) script_env \<Rightarrow> string \<times> string list \<times> bytes \<times> string \<Rightarrow> u64 \<Rightarrow> (bytes \<times> bytes) list \<Rightarrow>
     'p script_worker option \<Rightarrow> 'w \<Rightarrow> script_output res list \<times> 'p script_worker option \<times> 'w" where
  "run_engine env launch t [] guard w = ([], guard, w)"
| "run_engine env launch t ((script, input) # calls) guard w =
     (let (r, g1, w1) = run_guarded env launch script input t guard w;
          (rs, g2, w2) = run_engine env launch t calls g1 w1
      in (r # rs, g2, w2))"

section \<open>Lemmas\<close>

definition request_line :: "('p, 'w) script_env \<Rightarrow> bytes \<Rightarrow> bytes \<Rightarrow> string" where
  "request_line env script input =
     (case sv_json_text env (request_json env script input) of Inl _ \<Rightarrow> [] | Inr t \<Rightarrow> t @ [CHR 0x0A])"

text \<open>The protocol of the harness: a new process has been asked nothing, a line that was written
  and flushed is asked, and each line read is the response to the oldest line asked.\<close>

definition answers_in_order ::
  "('p, 'w) script_env \<Rightarrow> ('p \<Rightarrow> string list) \<Rightarrow> (string \<Rightarrow> string) \<Rightarrow> bool" where
  "answers_in_order env asked respond \<longleftrightarrow>
     (\<forall>c as w p w'. sv_spawn env c as w = (Inr p, w') \<longrightarrow> asked p = []) \<and>
     (\<forall>l p p1 p2. sv_write_line env l p = (Inr (), p1) \<longrightarrow> sv_flush env p1 = (Inr (), p2) \<longrightarrow>
        asked p2 = asked p @ [l]) \<and>
     (\<forall>t p l p'. sv_read_line env t p = (Line l, p') \<longrightarrow>
        asked p \<noteq> [] \<and> l = respond (hd (asked p)) \<and> asked p' = tl (asked p))"

lemma answers_spawn:
  "answers_in_order env asked respond \<Longrightarrow> sv_spawn env c as w = (Inr p, w') \<Longrightarrow> asked p = []"
  unfolding answers_in_order_def by blast

lemma answers_write:
  "answers_in_order env asked respond \<Longrightarrow> sv_write_line env l p = (Inr (), p1) \<Longrightarrow>
     sv_flush env p1 = (Inr (), p2) \<Longrightarrow> asked p2 = asked p @ [l]"
  unfolding answers_in_order_def by blast

lemma answers_read:
  "answers_in_order env asked respond \<Longrightarrow> sv_read_line env t p = (Line l, p') \<Longrightarrow>
     asked p \<noteq> [] \<and> l = respond (hd (asked p)) \<and> asked p' = tl (asked p)"
  unfolding answers_in_order_def by blast

lemma worker_send_asked:
  assumes "answers_in_order env asked respond" "worker_send env s i p = (Inr u, p')"
  shows "asked p' = asked p @ [request_line env s i]"
proof -
  obtain line p1 where "sv_json_text env (request_json env s i) = Inr line"
    "sv_write_line env (line @ [CHR 0x0A]) p = (Inr (), p1)" "sv_flush env p1 = (Inr (), p')"
    using assms(2) by (auto simp: worker_send_def split: sum.splits prod.splits)
  then show ?thesis using answers_write [OF assms(1)] by (simp add: request_line_def)
qed

lemma worker_execute_answer:
  assumes "answers_in_order env asked respond" "worker_execute env s i t p = (Inr out, p')" "asked p = []"
  shows "parse_worker_response env (respond (request_line env s i)) = Ok out \<and> asked p' = []"
proof -
  obtain u p1 where send: "worker_send env s i p = (Inr u, p1)" "worker_receive env t p1 = (Inr out, p')"
    using assms(2) by (auto simp: worker_execute_def split: sum.splits prod.splits)
  then have asked: "asked p1 = [request_line env s i]" using worker_send_asked [OF assms(1)] assms(3) by simp
  obtain l where "sv_read_line env t p1 = (Line l, p')" "parse_worker_response env l = Inr out"
    using send(2) by (auto simp: worker_receive_def split: prod.splits read_outcome.splits)
  then show ?thesis using answers_read [OF assms(1), of t p1 l p'] asked by simp
qed

lemma worker_spawn_asked:
  "answers_in_order env asked respond \<Longrightarrow> worker_spawn env c as h x w = (Inr wk, w') \<Longrightarrow>
     asked (wk_process wk) = []"
  by (auto simp: worker_spawn_def start_failure_def dest: answers_spawn split: sum.splits prod.splits)

definition in_step :: "('p \<Rightarrow> string list) \<Rightarrow> 'p script_worker option \<Rightarrow> bool" where
  "in_step asked guard \<longleftrightarrow> (\<forall>wk. guard = Some wk \<longrightarrow> asked (wk_process wk) = [])"

lemma ensure_worker_in_step:
  assumes "answers_in_order env asked respond" "in_step asked guard"
    "ensure_worker env launch guard w = (r, g1, w1)"
  shows "in_step asked g1 \<and> (\<forall>wk. r = Inr wk \<longrightarrow> asked (wk_process wk) = [])"
  using assms(2,3) worker_spawn_asked [OF assms(1)]
  by (auto simp: ensure_worker_def in_step_def split: option.splits if_splits sum.splits prod.splits)

lemma run_guarded_in_step:
  assumes "answers_in_order env asked respond" "in_step asked guard"
    "run_guarded env launch s i t guard w = (r, g1, w1)"
  shows "in_step asked g1 \<and>
    (\<forall>out. r = Ok out \<longrightarrow> parse_worker_response env (respond (request_line env s i)) = Ok out)"
proof -
  obtain r0 g0 w0 where ens: "ensure_worker env launch guard w = (r0, g0, w0)" by (metis prod_cases3)
  note ok = ensure_worker_in_step [OF assms(1,2) ens]
  show ?thesis
  proof (cases r0)
    case (Inl e)
    then show ?thesis using assms(3) ens ok by (auto simp: run_guarded_def)
  next
    case (Inr wk)
    obtain x p where ex: "worker_execute env s i t (wk_process wk) = (x, p)" by (metis surj_pair)
    show ?thesis
    proof (cases x)
      case (Inl e)
      then show ?thesis using assms(3) ens ex Inr by (auto simp: run_guarded_def in_step_def)
    next
      case out: (Inr out)
      then show ?thesis using worker_execute_answer [OF assms(1), of s i t "wk_process wk" out p] ok assms(3) ens ex Inr
        by (auto simp: run_guarded_def in_step_def)
    qed
  qed
qed

section \<open>Properties\<close>


text \<open>An interpreter that returns the text of its request: its process is the list of the lines it
  still has to answer; the world lists the files.\<close>

definition echo_env :: "(string list, string list) script_env" where
  "echo_env =
     \<lparr>sv_base64 = map (\<lambda>b. char_of (unat b)), sv_unbase64 = (\<lambda>s. Inr (map (\<lambda>c. of_nat (of_char c)) s)),
      sv_json_text = (\<lambda>v. case json_at v ''s'' of JStr t \<Rightarrow> Inr t | _ \<Rightarrow> Inl ''no text''),
      sv_json_parse = (\<lambda>l. Inr (JObj [(''r'', JStr (butlast l)), (''o'', JStr []), (''c'', JInt 0)])),
      sv_utf8_lossy = map (\<lambda>b. char_of (unat b)), sv_uuid = (\<lambda>w. (''u'', w)), sv_temp_dir = ''/tmp'',
      sv_write_file = (\<lambda>path c w. (Inr (), path # w)), sv_remove_file = (\<lambda>path w. removeAll path w),
      sv_spawn = (\<lambda>c as w. if c = ''missing'' then (Inl ''not found'', w) else (Inr [], w)),
      sv_alive = (\<lambda>p. True), sv_write_line = (\<lambda>l p. (Inr (), p @ [l])), sv_flush = (\<lambda>p. (Inr (), p)),
      sv_read_line = (\<lambda>t p. case p of [] \<Rightarrow> (TimedOut, p) | l # ls \<Rightarrow> (Line l, ls)),
      sv_kill = (\<lambda>p. p), sv_run_once = (\<lambda>i t p. WaitTimedOut)\<rparr>"

lemma echo_answers_in_order: "answers_in_order echo_env (\<lambda>p. p) (\<lambda>l. l)"
  by (auto simp: answers_in_order_def echo_env_def split: if_splits list.splits)

definition demo_launch :: "string \<times> string list \<times> bytes \<times> string" where
  "demo_launch = (''python3'', [], [1], ''_worker.py'')"


text \<open>An execution that is abandoned while it waits leaves its answer unread in the pipe of the
  worker: the next execution returns the answer to the abandoned script.\<close>

lemma abandoned_execution_shifts_answers:
  "let (guard, w) = run_abandoned echo_env demo_launch [65] [] None [];
       (r, guard', w') = run_guarded echo_env demo_launch [66] [] 5 guard w
   in r = Ok \<lparr>so_stdout = [], so_result = [65], so_exit_code = 0\<rparr> \<and> map_option wk_process guard' = Some [[CHR ''B'', CHR 0x0A]]"
  by code_simp

text \<open>When the interpreter cannot be started, the file written for its harness stays behind, once
  for each execution that is tried.\<close>

lemma failed_start_leaks_harness:
  "snd (snd (run_engine echo_env (''missing'', [], [1], ''_worker.py'') 5 [([65], []), ([66], [])] None [])) =
     [''/tmp/rinfra_u_worker.py'', ''/tmp/rinfra_u_worker.py'']"
  by code_simp

text \<open>The file of a one-shot script is removed whatever becomes of its process.\<close>

lemma run_script_removes_file:
  assumes "write_temp_file env script file_ext w = (Inr path, w1)"
  shows "\<exists>w2. snd (run_script env command extra_args script input file_ext t w) = sv_remove_file env path w2"
  using assms by (auto simp: run_script_def split: prod.splits)

end
