(* ===== verification/Observability.thy ===== *)
theory Observability
  imports Config_Model F64
begin

text \<open>
  Logging (\<open>rinfra-plugins/src/log/mod.rs\<close>), the OpenTelemetry setup and the propagation of trace
  contexts (\<open>telemetry/mod.rs\<close>, \<open>telemetry/otel.rs\<close>) and the gRPC server (\<open>rpc/grpc.rs\<close>): how the
  configuration decides which layers, sampler and services the libraries tracing, opentelemetry
  and tonic are given. What those libraries answer is a record of parameters; the process-wide
  subscriber is a flag of the state, because it can be set only once.
\<close>

section \<open>Logging\<close>

datatype rotation = Hourly | Daily | Never

record appender =
  apd_rotation :: rotation
  apd_prefix :: string
  apd_max_files :: nat
  apd_path :: string

datatype log_layer =
    StdoutLayer bool string
  | FileLayer bool string appender
  | OtelLayer string

record log_env =
  le_filter :: "string \<Rightarrow> string option"
  le_open_appender :: "appender \<Rightarrow> string option"

definition make_filter :: "log_env \<Rightarrow> string \<Rightarrow> string + string" where
  "make_filter env level =
     (case le_filter env level of
        None \<Rightarrow> Inr level
      | Some e \<Rightarrow> Inl (app_error_display
          (app_error_new LogInitFailed (''invalid log level '' @ quoted level @ '': '' @ e))))"

definition build_stdout_layer :: "log_env \<Rightarrow> stdout_log_config \<Rightarrow> string + log_layer" where
  "build_stdout_layer env cfg =
     (case make_filter env (stdout_log_level cfg) of
        Inl e \<Rightarrow> Inl e
      | Inr level \<Rightarrow> Inr (StdoutLayer (stdout_log_format cfg = ''json'') level))"

definition make_rolling_appender :: "log_env \<Rightarrow> file_log_config \<Rightarrow> appender res" where
  "make_rolling_appender env cfg =
     (let rot = (if file_log_rotation cfg = ''hourly'' then Hourly
                 else if file_log_rotation cfg = ''never'' then Never else Daily);
          apd = \<lparr>apd_rotation = rot, apd_prefix = file_log_filename cfg,
                 apd_max_files = unat (file_log_max_files cfg), apd_path = file_log_path cfg\<rparr>
      in case le_open_appender env apd of
           None \<Rightarrow> Ok apd
         | Some e \<Rightarrow> Inl (Panic ''failed to create rolling file appender''))"

definition build_file_layer :: "log_env \<Rightarrow> file_log_config \<Rightarrow> (string + log_layer) res" where
  "build_file_layer env cfg =
     (case make_filter env (file_log_level cfg) of
        Inl e \<Rightarrow> Ok (Inl e)
      | Inr level \<Rightarrow>
          bind_res (make_rolling_appender env cfg) (\<lambda>apd.
            Ok (Inr (FileLayer (file_log_format cfg = ''json'') level apd))))"

text \<open>The state is the list of layers of the installed subscriber, if there is one.\<close>

definition already_set :: string where
  "already_set = ''a global default trace dispatcher has already been set''"

definition try_init :: "log_layer list \<Rightarrow> log_layer list option \<Rightarrow> (string + unit) \<times> log_layer list option" where
  "try_init layers installed =
     (case installed of None \<Rightarrow> (Inr (), Some layers) | Some ls \<Rightarrow> (Inl already_set, Some ls))"

definition init_combined ::
  "log_env \<Rightarrow> log_plugin_configs \<Rightarrow> string option \<Rightarrow> log_layer list option \<Rightarrow>
     (string + unit) res \<times> log_layer list option" where
  "init_combined env cfg otel installed =
     (let out = (if stdout_log_enabled (logs_stdout cfg)
                 then map_sum id (\<lambda>l. [l]) (build_stdout_layer env (logs_stdout cfg)) else Inr []);
          file = (if file_log_enabled (logs_file cfg)
                  then bind_res (build_file_layer env (logs_file cfg)) (\<lambda>r. Ok (map_sum id (\<lambda>l. [l]) r))
                  else Ok (Inr []));
          otels = (case otel of Some t \<Rightarrow> [OtelLayer t] | None \<Rightarrow> [])
      in case out of
           Inl e \<Rightarrow> (Ok (Inl e), installed)
         | Inr ls1 \<Rightarrow>
             (case file of
                Inl e \<Rightarrow> (Inl e, installed)
              | Inr (Inl e) \<Rightarrow> (Ok (Inl e), installed)
              | Inr (Inr ls2) \<Rightarrow>
                  let layers = ls1 @ ls2 @ otels in
                  if layers = [] then (Ok (Inr ()), installed)
                  else (let (r, installed') = try_init layers installed in (Ok r, installed'))))"

fun infix_of :: "string \<Rightarrow> string \<Rightarrow> bool" where
  "infix_of p [] \<longleftrightarrow> p = []"
| "infix_of p (x # s) \<longleftrightarrow> starts_with (x # s) p \<or> infix_of p s"

definition init_observability ::
  "log_env \<Rightarrow> log_plugin_configs \<Rightarrow> string option \<Rightarrow> log_layer list option \<Rightarrow> unit res \<times> log_layer list option" where
  "init_observability env cfg otel installed =
     (if \<not> stdout_log_enabled (logs_stdout cfg) \<and> \<not> file_log_enabled (logs_file cfg) \<and> otel = None
      then (Ok (), installed)
      else
        (case init_combined env cfg otel installed of
           (Inl e, installed') \<Rightarrow> (Inl e, installed')
         | (Inr (Inl e), installed') \<Rightarrow>
             if \<not> infix_of ''already been set'' e
             then (Err LogInitFailed (''failed to initialize logging: '' @ e), installed')
             else (Ok (), installed')
         | (Inr (Inr _), installed') \<Rightarrow> (Ok (), installed')))"

definition init_logging ::
  "log_env \<Rightarrow> log_plugin_configs \<Rightarrow> log_layer list option \<Rightarrow> unit res \<times> log_layer list option" where
  "init_logging env cfg installed = init_observability env cfg None installed"

section \<open>Telemetry\<close>

datatype sampler = AlwaysOn | AlwaysOff | TraceIdRatioBased rat

text \<open>\<open>f64::EPSILON\<close>; the subtraction and the absolute value are those of \<open>f64\<close>.\<close>

definition f64_epsilon :: rat where
  "f64_epsilon = 1 / 2 ^ 52"

definition choose_sampler :: "rat \<Rightarrow> sampler" where
  "choose_sampler ratio =
     (if abs (f64_round (ratio - 1)) < f64_epsilon then AlwaysOn
      else if ratio \<le> 0 then AlwaysOff
      else TraceIdRatioBased ratio)"

record tracer_provider =
  tp_endpoint :: string
  tp_sampler :: sampler
  tp_service_name :: string

text \<open>\<open>exporter\<close> is whether the exporter for an endpoint can be built. The result is the provider,
  which the guard keeps, and the layer, known by the name of its tracer.\<close>

definition init_otel_tracer ::
  "(string \<Rightarrow> string option) \<Rightarrow> telemetry_config \<Rightarrow> string \<Rightarrow> (tracer_provider \<times> string) res" where
  "init_otel_tracer exporter cfg service_name =
     (case exporter (telemetry_otlp_endpoint cfg) of
        Some e \<Rightarrow> Err Internal (''otlp exporter init failed: '' @ e)
      | None \<Rightarrow>
          Ok (\<lparr>tp_endpoint = telemetry_otlp_endpoint cfg, tp_sampler = choose_sampler (telemetry_sample_ratio cfg),
               tp_service_name = service_name\<rparr>, service_name))"

record telemetry_init =
  ti_guard :: "tracer_provider option"
  ti_otel_layer :: "string option"

definition init_telemetry ::
  "(string \<Rightarrow> string option) \<Rightarrow> telemetry_config \<Rightarrow> string \<Rightarrow> telemetry_init res" where
  "init_telemetry exporter cfg service_name =
     (if \<not> telemetry_enabled cfg then Ok \<lparr>ti_guard = None, ti_otel_layer = None\<rparr>
      else bind_res (init_otel_tracer exporter cfg service_name) (\<lambda>(provider, layer).
        Ok \<lparr>ti_guard = Some provider, ti_otel_layer = Some layer\<rparr>))"

text \<open>The trace context of a span is what the propagator writes through the injector, one entry
  after the other.\<close>

definition injector_set :: "(string, string) hashmap \<Rightarrow> string \<times> string \<Rightarrow> (string, string) hashmap" where
  "injector_set m kv = hm_insert (fst kv) (snd kv) m"

definition extractor_get :: "(string, string) hashmap \<Rightarrow> string \<Rightarrow> string option" where
  "extractor_get m k = hm_get m k"

definition extractor_keys :: "(string, string) hashmap \<Rightarrow> string list" where
  "extractor_keys m = hm_keys m"

definition inject_trace_context ::
  "('c \<Rightarrow> (string \<times> string) list) \<Rightarrow> 'c \<Rightarrow> (string, string) hashmap option" where
  "inject_trace_context propagator cx =
     (let m = foldl injector_set [] (propagator cx) in if m = [] then None else Some m)"

text \<open>A span has a parent when there is a context with entries, the one the propagator reads
  through the extractor.\<close>

record 'c span =
  sp_name :: string
  sp_parent :: "'c option"

definition extract_trace_context_span ::
  "((string \<Rightarrow> string option) \<Rightarrow> string list \<Rightarrow> 'c) \<Rightarrow> (string, string) hashmap option \<Rightarrow> string \<Rightarrow> 'c span" where
  "extract_trace_context_span extract trace_ctx name =
     (case trace_ctx of
        Some ctx \<Rightarrow>
          if ctx \<noteq> [] then \<lparr>sp_name = name, sp_parent = Some (extract (extractor_get ctx) (extractor_keys ctx))\<rparr>
          else \<lparr>sp_name = name, sp_parent = None\<rparr>
      | None \<Rightarrow> \<lparr>sp_name = name, sp_parent = None\<rparr>)"

section \<open>The gRPC server\<close>

text \<open>The permit of the \<open>Notify\<close> is kept until the server waits for it. \<open>serve\<close> is what serving an
  address with services gives once it is told to stop, or when it fails.\<close>

record grpc_server =
  gs_bind_addr :: string
  gs_permit :: bool

definition grpc_server_new :: "string \<Rightarrow> grpc_server" where
  "grpc_server_new addr = \<lparr>gs_bind_addr = addr, gs_permit = False\<rparr>"

definition grpc_parse_addr :: "(string \<Rightarrow> string + 'a) \<Rightarrow> grpc_server \<Rightarrow> 'a res" where
  "grpc_parse_addr parse s =
     (case parse (gs_bind_addr s) of
        Inl e \<Rightarrow> Err RpcServerFailed (''invalid gRPC address '' @ quoted (gs_bind_addr s) @ '': '' @ e)
      | Inr a \<Rightarrow> Ok a)"

definition grpc_health_service :: string where
  "grpc_health_service = ''grpc.health.v1.Health''"

definition start_with_routes ::
  "(string \<Rightarrow> string + 'a) \<Rightarrow> ('a \<Rightarrow> string list \<Rightarrow> string + unit) \<Rightarrow> (string list \<Rightarrow> string list) \<Rightarrow> grpc_server \<Rightarrow> unit res" where
  "start_with_routes parse serve configure s =
     bind_res (grpc_parse_addr parse s) (\<lambda>addr.
       case serve addr (configure [grpc_health_service]) of
         Inl e \<Rightarrow> Err RpcServerFailed (''gRPC server error: '' @ e)
       | Inr _ \<Rightarrow> Ok ())"

definition grpc_start ::
  "(string \<Rightarrow> string + 'a) \<Rightarrow> ('a \<Rightarrow> string list \<Rightarrow> string + unit) \<Rightarrow> grpc_server \<Rightarrow> unit res" where
  "grpc_start parse serve s = start_with_routes parse serve (\<lambda>router. router) s"

definition grpc_shutdown :: "grpc_server \<Rightarrow> unit res \<times> grpc_server" where
  "grpc_shutdown s = (Ok (), s\<lparr>gs_permit := True\<rparr>)"

section \<open>Properties\<close>

text \<open>The layers a configuration asks for.\<close>

definition wanted_layers :: "log_plugin_configs \<Rightarrow> string option \<Rightarrow> log_layer list" where
  "wanted_layers cfg otel =
     (if stdout_log_enabled (logs_stdout cfg)
      then [StdoutLayer (stdout_log_format (logs_stdout cfg) = ''json'') (stdout_log_level (logs_stdout cfg))] else []) @
     (if file_log_enabled (logs_file cfg)
      then [FileLayer (file_log_format (logs_file cfg) = ''json'') (file_log_level (logs_file cfg))
             \<lparr>apd_rotation = (if file_log_rotation (logs_file cfg) = ''hourly'' then Hourly
                 else if file_log_rotation (logs_file cfg) = ''never'' then Never else Daily),
              apd_prefix = file_log_filename (logs_file cfg),
              apd_max_files = unat (file_log_max_files (logs_file cfg)),
              apd_path = file_log_path (logs_file cfg)\<rparr>] else []) @
     (case otel of Some t \<Rightarrow> [OtelLayer t] | None \<Rightarrow> [])"

text \<open>When the filters are valid and the log file can be opened, the first initialization installs
  exactly the layers of the configuration, and a later one succeeds without changing them.\<close>

lemma observability_installs_wanted:
  assumes "\<And>l. le_filter env l = None" "\<And>a. le_open_appender env a = None"
  shows "init_observability env cfg otel None =
      (Ok (), if wanted_layers cfg otel = [] then None else Some (wanted_layers cfg otel)) \<and>
    init_observability env cfg otel (Some ls) = (Ok (), Some ls)"
proof -
  have found: "infix_of ''already been set'' already_set" by code_simp
  have out: "build_stdout_layer env c = Inr (StdoutLayer (stdout_log_format c = ''json'') (stdout_log_level c))" for c
    using assms(1) by (simp add: build_stdout_layer_def make_filter_def)
  have to_file: "build_file_layer env c = Ok (Inr (FileLayer (file_log_format c = ''json'') (file_log_level c)
       \<lparr>apd_rotation = (if file_log_rotation c = ''hourly'' then Hourly
                 else if file_log_rotation c = ''never'' then Never else Daily),
        apd_prefix = file_log_filename c, apd_max_files = unat (file_log_max_files c), apd_path = file_log_path c\<rparr>))" for c
    using assms by (simp add: build_file_layer_def make_filter_def make_rolling_appender_def Let_def bind_res_def)
  show ?thesis
    by (cases otel; cases "stdout_log_enabled (logs_stdout cfg)"; cases "file_log_enabled (logs_file cfg)")
      (simp_all add: init_observability_def init_combined_def out to_file bind_res_def wanted_layers_def try_init_def
        found Let_def)
qed

text \<open>A log file that cannot be opened is not an error of the initialization but a panic.\<close>

lemma unwritable_log_file_panics:
  "file_log_enabled (logs_file cfg) \<Longrightarrow> \<not> stdout_log_enabled (logs_stdout cfg) \<Longrightarrow> (\<And>l. le_filter env l = None) \<Longrightarrow>
     (\<And>a. le_open_appender env a = Some e) \<Longrightarrow>
     fst (init_observability env cfg otel installed) = Inl (Panic ''failed to create rolling file appender'')"
  by (simp add: init_observability_def init_combined_def build_file_layer_def make_filter_def
      make_rolling_appender_def bind_res_def Let_def)

text \<open>A context that is injected on one node is what the other node's propagator reads: the last
  entry written under each key.\<close>

lemma trace_context_carried:
  assumes "propagator cx \<noteq> []"
  shows "\<exists>m. inject_trace_context propagator cx = Some m \<and>
    (\<forall>k. extractor_get m k = map_of (rev (propagator cx)) k)"
proof -
  have get: "hm_get (foldl injector_set m kvs) k = (case map_of (rev kvs) k of Some v \<Rightarrow> Some v | None \<Rightarrow> hm_get m k)"
    for m kvs k
    by (induction kvs arbitrary: m) (auto simp: injector_set_def map_add_def split: option.splits)
  have "foldl injector_set [] (propagator cx) \<noteq> []"
  proof -
    obtain kv kvs where "propagator cx = kvs @ [kv]" using assms by (metis append_butlast_last_id)
    then have "hm_get (foldl injector_set [] (propagator cx)) (fst kv) = Some (snd kv)"
      by (simp add: injector_set_def)
    then show ?thesis by (auto simp: hm_get_def)
  qed
  then show ?thesis
    by (auto simp: inject_trace_context_def Let_def extractor_get_def get split: option.splits)
qed

text \<open>The ends of the range of sampling ratios: everything and nothing.\<close>

lemma sampler_ends: "choose_sampler 1 = AlwaysOn" "choose_sampler 0 = AlwaysOff"
proof -
  have "f64_round (- 1) = - 1"
    using f64_round_of_nat [of 1] by (simp add: f64_round_def)
  then show "choose_sampler 1 = AlwaysOn" "choose_sampler 0 = AlwaysOff"
    by (simp_all add: choose_sampler_def f64_epsilon_def)
qed

end
