(* ===== verification/Cluster_Codec.thy ===== *)
theory Cluster_Codec
  imports Cluster Text_Maps Trpc
begin

text \<open>
  The framed format of the cluster protocol: the JSON form the derives of
  \<open>rinfra-core/src/cluster/mod.rs\<close> give its messages, and the codec of
  \<open>rinfra-plugins/src/cluster/codec.rs\<close>, which puts their text into frames with a length in front. The
  framing itself is the \<open>LengthDelimitedCodec\<close> of tokio-util, a record of two functions here.
\<close>

section \<open>Messages as JSON\<close>

definition enc_node_role :: "node_role \<Rightarrow> json" where
  "enc_node_role r = JStr (case r of MainNode \<Rightarrow> ''Main'' | WorkerNode \<Rightarrow> ''Worker'')"

definition dec_node_role :: "json \<Rightarrow> node_role option" where
  "dec_node_role v =
     (case v of
        JStr s \<Rightarrow> if s = ''Main'' then Some MainNode else if s = ''Worker'' then Some WorkerNode else None
      | _ \<Rightarrow> None)"

definition enc_status :: "node_status \<Rightarrow> json" where
  "enc_status st = JStr (case st of Online \<Rightarrow> ''Online'' | Offline \<Rightarrow> ''Offline'' | Draining \<Rightarrow> ''Draining'')"

definition dec_status :: "json \<Rightarrow> node_status option" where
  "dec_status v =
     (case v of
        JStr s \<Rightarrow> if s = ''Online'' then Some Online else if s = ''Offline'' then Some Offline
          else if s = ''Draining'' then Some Draining else None
      | _ \<Rightarrow> None)"

definition enc_endpoint :: "endpoint \<Rightarrow> json" where
  "enc_endpoint e = JObj [(''protocol'', JStr (ep_protocol e)), (''address'', JStr (ep_address e))]"

definition dec_endpoint :: "json \<Rightarrow> endpoint option" where
  "dec_endpoint v =
     (case v of
        JObj ob \<Rightarrow>
          Option.bind (field ob ''protocol'' None dec_string) (\<lambda>p.
          Option.bind (field ob ''address'' None dec_string) (\<lambda>a.
            Some \<lparr>ep_protocol = p, ep_address = a\<rparr>))
      | _ \<Rightarrow> None)"

definition enc_node_info :: "node_info \<Rightarrow> json" where
  "enc_node_info n = JObj
     [(''id'', JStr (ni_id n)), (''role'', enc_node_role (ni_role n)),
      (''endpoints'', enc_list enc_endpoint (ni_endpoints n)), (''metadata'', enc_text_map (ni_metadata n)),
      (''status'', enc_status (ni_status n))]"

definition dec_node_info :: "json \<Rightarrow> node_info option" where
  "dec_node_info v =
     (case v of
        JObj ob \<Rightarrow>
          Option.bind (field ob ''id'' None dec_string) (\<lambda>i.
          Option.bind (field ob ''role'' None dec_node_role) (\<lambda>r.
          Option.bind (field ob ''endpoints'' None (dec_list dec_endpoint)) (\<lambda>es.
          Option.bind (field ob ''metadata'' None dec_text_map) (\<lambda>md.
          Option.bind (field ob ''status'' None dec_status) (\<lambda>st.
            Some \<lparr>ni_id = i, ni_role = r, ni_endpoints = es, ni_metadata = md, ni_status = st\<rparr>)))))
      | _ \<Rightarrow> None)"

text \<open>A variant without data is its name, one with data an object whose only member has the name.
  An absent trace context is left out.\<close>

definition trace_member :: "metadata option \<Rightarrow> (string \<times> json) list" where
  "trace_member trace = (case trace of None \<Rightarrow> [] | Some m \<Rightarrow> [(''trace_context'', enc_text_map m)])"

primrec enc_message :: "cluster_message \<Rightarrow> json" where
  "enc_message (Register node_id role ends md token trace) =
     JObj [(''Register'', JObj
       ([(''node_id'', JStr node_id), (''role'', enc_node_role role), (''endpoints'', enc_list enc_endpoint ends),
         (''metadata'', enc_text_map md), (''token'', JStr token)] @ trace_member trace))]"
| "enc_message (RegisterAck success err) =
     JObj [(''RegisterAck'', JObj [(''success'', JBool success), (''error'', enc_opt JStr err)])]"
| "enc_message (Deregister node_id trace) =
     JObj [(''Deregister'', JObj ((''node_id'', JStr node_id) # trace_member trace))]"
| "enc_message ListNodes = JStr ''ListNodes''"
| "enc_message (NodeList nodes) = JObj [(''NodeList'', JObj [(''nodes'', enc_list enc_node_info nodes)])]"
| "enc_message Ping = JStr ''Ping''"
| "enc_message Pong = JStr ''Pong''"

text \<open>A missing \<open>Option\<close> reads as absent also without a default.\<close>

definition dec_register :: "(string \<times> json) list \<Rightarrow> cluster_message option" where
  "dec_register ob =
     Option.bind (field ob ''node_id'' None dec_string) (\<lambda>i.
     Option.bind (field ob ''role'' None dec_node_role) (\<lambda>r.
     Option.bind (field ob ''endpoints'' None (dec_list dec_endpoint)) (\<lambda>es.
     Option.bind (field ob ''metadata'' None dec_text_map) (\<lambda>md.
     Option.bind (field ob ''token'' None dec_string) (\<lambda>t.
     Option.bind (field ob ''trace_context'' (Some None) (dec_opt dec_text_map)) (\<lambda>tr.
       Some (Register i r es md t tr)))))))"

definition dec_register_ack :: "(string \<times> json) list \<Rightarrow> cluster_message option" where
  "dec_register_ack ob =
     Option.bind (field ob ''success'' None dec_bool) (\<lambda>b.
     Option.bind (field ob ''error'' (Some None) (dec_opt dec_string)) (\<lambda>e. Some (RegisterAck b e)))"

definition dec_deregister :: "(string \<times> json) list \<Rightarrow> cluster_message option" where
  "dec_deregister ob =
     Option.bind (field ob ''node_id'' None dec_string) (\<lambda>i.
     Option.bind (field ob ''trace_context'' (Some None) (dec_opt dec_text_map)) (\<lambda>tr. Some (Deregister i tr)))"

definition dec_node_list :: "(string \<times> json) list \<Rightarrow> cluster_message option" where
  "dec_node_list ob =
     Option.bind (field ob ''nodes'' None (dec_list dec_node_info)) (\<lambda>ns. Some (NodeList ns))"

definition dec_message :: "json \<Rightarrow> cluster_message option" where
  "dec_message v =
     (case v of
        JStr s \<Rightarrow>
          if s = ''ListNodes'' then Some ListNodes else if s = ''Ping'' then Some Ping
          else if s = ''Pong'' then Some Pong else None
      | JObj [(variant, JObj ob)] \<Rightarrow>
          if variant = ''Register'' then dec_register ob
          else if variant = ''RegisterAck'' then dec_register_ack ob
          else if variant = ''Deregister'' then dec_deregister ob
          else if variant = ''NodeList'' then dec_node_list ob else None
      | JObj [(variant, JNull)] \<Rightarrow>
          if variant = ''ListNodes'' then Some ListNodes else if variant = ''Ping'' then Some Ping
          else if variant = ''Pong'' then Some Pong else None
      | _ \<Rightarrow> None)"

section \<open>The codec\<close>

text \<open>What the framing does with a buffer: take the next frame out of it, if it is complete, and append
  a frame to it. \<open>max_length\<close> is the limit it was built with.\<close>

record framing =
  fm_decode :: "nat \<Rightarrow> bytes \<Rightarrow> (string + bytes option) \<times> bytes"
  fm_encode :: "nat \<Rightarrow> bytes \<Rightarrow> bytes \<Rightarrow> (string + unit) \<times> bytes"

definition cluster_max_frame :: nat where
  "cluster_max_frame = 64 * 1024"

definition codec_decode ::
  "framing \<Rightarrow> serde_lib \<Rightarrow> bytes \<Rightarrow> (string + cluster_message option) \<times> bytes" where
  "codec_decode fr sl src =
     (case fm_decode fr cluster_max_frame src of
        (Inl e, src1) \<Rightarrow> (Inl e, src1)
      | (Inr None, src1) \<Rightarrow> (Inr None, src1)
      | (Inr (Some data), src1) \<Rightarrow>
          (case sl_from_slice sl data of
             Inl e \<Rightarrow> (Inl e, src1)
           | Inr v \<Rightarrow>
               (case dec_message v of
                  None \<Rightarrow> (Inl ''invalid message'', src1)
                | Some msg \<Rightarrow> (Inr (Some msg), src1))))"

definition codec_encode ::
  "framing \<Rightarrow> serde_lib \<Rightarrow> cluster_message \<Rightarrow> bytes \<Rightarrow> (string + unit) \<times> bytes" where
  "codec_encode fr sl msg dst =
     (case sl_to_vec sl (enc_message msg) of
        Inl e \<Rightarrow> (Inl e, dst)
      | Inr data \<Rightarrow> fm_encode fr cluster_max_frame data dst)"

text \<open>Sending several messages into one buffer, and taking as many out of it.\<close>

fun encode_all ::
  "framing \<Rightarrow> serde_lib \<Rightarrow> cluster_message list \<Rightarrow> bytes \<Rightarrow> (string + unit) \<times> bytes" where
  "encode_all fr sl [] dst = (Inr (), dst)"
| "encode_all fr sl (m # ms) dst =
     (case codec_encode fr sl m dst of
        (Inl e, dst1) \<Rightarrow> (Inl e, dst1)
      | (Inr _, dst1) \<Rightarrow> encode_all fr sl ms dst1)"

fun decode_all ::
  "framing \<Rightarrow> serde_lib \<Rightarrow> nat \<Rightarrow> bytes \<Rightarrow> (string + cluster_message list) \<times> bytes" where
  "decode_all fr sl 0 src = (Inr [], src)"
| "decode_all fr sl (Suc n) src =
     (case codec_decode fr sl src of
        (Inl e, src1) \<Rightarrow> (Inl e, src1)
      | (Inr None, src1) \<Rightarrow> (Inr [], src1)
      | (Inr (Some m), src1) \<Rightarrow>
          (case decode_all fr sl n src1 of
             (Inl e, src2) \<Rightarrow> (Inl e, src2)
           | (Inr ms, src2) \<Rightarrow> (Inr (m # ms), src2)))"

section \<open>Lemmas\<close>

lemma dec_enc_node_role [simp]: "dec_node_role (enc_node_role r) = Some r"
  by (cases r) (simp_all add: dec_node_role_def enc_node_role_def)

lemma dec_enc_status [simp]: "dec_status (enc_status st) = Some st"
  by (cases st) (simp_all add: dec_status_def enc_status_def)

lemma dec_enc_endpoint [simp]: "dec_endpoint (enc_endpoint e) = Some e"
  by (simp add: dec_endpoint_def enc_endpoint_def dec_basic_rt)

lemma dec_enc_node_info: "hm_ok (ni_metadata n) \<Longrightarrow> dec_node_info (enc_node_info n) = Some n"
  by (simp add: dec_node_info_def enc_node_info_def dec_basic_rt dec_list_enc dec_enc_text_map)

lemma dec_list_enc_on:
  "(\<And>x. x \<in> set xs \<Longrightarrow> d (e x) = Some x) \<Longrightarrow> dec_list d (enc_list e xs) = Some xs"
  by (induction xs) (simp_all add: dec_list_def enc_list_def)

text \<open>The maps of a message have each key once, as hash maps do.\<close>

definition maps_ok :: "cluster_message \<Rightarrow> bool" where
  "maps_ok msg =
     (case msg of
        Register node_id role ends md token trace \<Rightarrow> hm_ok md \<and> (\<forall>m. trace = Some m \<longrightarrow> hm_ok m)
      | Deregister node_id trace \<Rightarrow> \<forall>m. trace = Some m \<longrightarrow> hm_ok m
      | NodeList nodes \<Rightarrow> \<forall>n \<in> set nodes. hm_ok (ni_metadata n)
      | _ \<Rightarrow> True)"

lemma enc_text_map_not_null [simp]: "enc_text_map m \<noteq> JNull"
  by (simp add: enc_text_map_def)

lemma dec_opt_not_null: "v \<noteq> JNull \<Longrightarrow> dec_opt d v = map_option Some (d v)"
  by (cases v) (simp_all add: dec_opt_def)

lemma dec_opt_trace:
  "(\<And>m. trace = Some m \<Longrightarrow> hm_ok m) \<Longrightarrow>
     field (trace_member trace) ''trace_context'' (Some None) (dec_opt dec_text_map) = Some trace"
  by (cases trace) (simp_all add: trace_member_def dec_opt_not_null dec_enc_text_map)

lemma dec_enc_message: "maps_ok msg \<Longrightarrow> dec_message (enc_message msg) = Some msg"
proof (cases msg)
  case (Register node_id role ends md token trace)
  then show "maps_ok msg \<Longrightarrow> ?thesis"
    by (simp add: maps_ok_def dec_message_def dec_register_def dec_basic_rt dec_list_enc dec_enc_text_map dec_opt_trace)
next
  case (RegisterAck success err)
  then show ?thesis
    by (simp add: dec_message_def dec_register_ack_def dec_basic_rt)
next
  case (Deregister node_id trace)
  then show "maps_ok msg \<Longrightarrow> ?thesis"
    by (simp add: maps_ok_def dec_message_def dec_deregister_def dec_basic_rt dec_opt_trace)
next
  case (NodeList nodes)
  then show "maps_ok msg \<Longrightarrow> ?thesis"
    by (simp add: maps_ok_def dec_message_def dec_node_list_def dec_list_enc_on dec_enc_node_info)
qed (simp_all add: dec_message_def)

text \<open>The documented behaviour of the framing: a frame within the limit is appended, and a frame at
  the start of a buffer is taken out whole, whatever follows it.\<close>

definition frames_ok :: "framing \<Rightarrow> (bytes \<Rightarrow> bytes) \<Rightarrow> bool" where
  "frames_ok fr framed \<longleftrightarrow>
     (\<forall>data dst dst'. fm_encode fr cluster_max_frame data dst = (Inr (), dst') \<longrightarrow>
        dst' = dst @ framed data \<and> length data \<le> cluster_max_frame) \<and>
     (\<forall>data rest. length data \<le> cluster_max_frame \<longrightarrow>
        fm_decode fr cluster_max_frame (framed data @ rest) = (Inr (Some data), rest))"

definition json_ok :: "serde_lib \<Rightarrow> bool" where
  "json_ok sl \<longleftrightarrow> (\<forall>v d. sl_to_vec sl v = Inr d \<longrightarrow> sl_from_slice sl d = Inr v)"

lemma codec_encode_wire:
  assumes "frames_ok fr framed" "codec_encode fr sl m dst = (Inr u, dst')"
  shows "\<exists>data. sl_to_vec sl (enc_message m) = Inr data \<and> dst' = dst @ framed data \<and> length data \<le> cluster_max_frame"
proof -
  obtain data where data: "sl_to_vec sl (enc_message m) = Inr data"
    "fm_encode fr cluster_max_frame data dst = (Inr (), dst')"
    using assms(2) by (auto simp: codec_encode_def split: sum.splits)
  moreover have "dst' = dst @ framed data \<and> length data \<le> cluster_max_frame"
    using assms(1) data(2) unfolding frames_ok_def by blast
  ultimately show ?thesis by blast
qed

lemma codec_decode_wire:
  assumes "frames_ok fr framed" "json_ok sl" "maps_ok m" "sl_to_vec sl (enc_message m) = Inr data"
    "length data \<le> cluster_max_frame"
  shows "codec_decode fr sl (framed data @ rest) = (Inr (Some m), rest)"
proof -
  have "fm_decode fr cluster_max_frame (framed data @ rest) = (Inr (Some data), rest)"
    using assms(1,5) unfolding frames_ok_def by blast
  moreover have "sl_from_slice sl data = Inr (enc_message m)" using assms(2,4) unfolding json_ok_def by blast
  ultimately show ?thesis using dec_enc_message [OF assms(3)] by (simp add: codec_decode_def)
qed

section \<open>Properties\<close>

text \<open>
  What one node's codec sends the other's receives: messages encoded one after the other into a
  buffer come out of it again, complete and in order, and nothing is left, over any framing and
  JSON library with their documented behaviour.
\<close>

theorem cluster_codec_roundtrip:
  assumes "frames_ok fr framed" "json_ok sl" "\<forall>m \<in> set ms. maps_ok m"
    and "encode_all fr sl ms [] = (Inr (), buf)"
  shows "decode_all fr sl (length ms) buf = (Inr ms, [])"
proof -
  have framed: "\<exists>w. dst' = dst @ w \<and> decode_all fr sl (length ms) w = (Inr ms, [])"
    if "encode_all fr sl ms dst = (Inr (), dst')" "\<forall>m \<in> set ms. maps_ok m" for dst dst'
    using that
  proof (induction ms arbitrary: dst)
    case Nil
    then show ?case by simp
  next
    case (Cons m ms)
    obtain u dst1 where one: "codec_encode fr sl m dst = (Inr u, dst1)" "encode_all fr sl ms dst1 = (Inr (), dst')"
      using Cons.prems(1) by (auto split: prod.splits sum.splits)
    obtain data where data: "sl_to_vec sl (enc_message m) = Inr data" "dst1 = dst @ framed data"
      "length data \<le> cluster_max_frame"
      using codec_encode_wire [OF assms(1) one(1)] by blast
    obtain w where w: "dst' = dst1 @ w" "decode_all fr sl (length ms) w = (Inr ms, [])"
      using Cons.IH [OF one(2)] Cons.prems(2) by auto
    have "codec_decode fr sl (framed data @ w) = (Inr (Some m), w)"
      using codec_decode_wire [OF assms(1,2) _ data(1,3)] Cons.prems(2) by simp
    then show ?case using data(2) w by (intro exI [of _ "framed data @ w"]) simp
  qed
  from framed [OF assms(4,3)] show ?thesis by auto
qed

text \<open>A framing with a length of four bytes, and a JSON library for the texts of the protocol's
  messages without data.\<close>

definition demo_framing :: framing where
  "demo_framing =
     \<lparr>fm_decode = (\<lambda>n src.
        if length src < 4 then (Inr None, src)
        else let len = unat (from_be_bytes (take 4 src)) in
          if n < len then (Inl ''frame size too big'', src)
          else if length src < 4 + len then (Inr None, src)
          else (Inr (Some (take len (drop 4 src))), drop (4 + len) src)),
      fm_encode = (\<lambda>n data dst.
        if n < length data \<or> 2 ^ 32 \<le> length data then (Inl ''frame size too big'', dst)
        else (Inr (), dst @ to_be_bytes (of_nat (length data)) @ data))\<rparr>"

definition text_json :: serde_lib where
  "text_json =
     \<lparr>sl_to_vec = (\<lambda>v. case v of JStr s \<Rightarrow> Inr (map (\<lambda>c. of_nat (of_char c)) s) | _ \<Rightarrow> Inl ''not a text''),
      sl_from_slice = (\<lambda>d. Inr (JStr (map (\<lambda>b. char_of (unat b)) d)))\<rparr>"

lemma demo_framing_ok: "frames_ok demo_framing (\<lambda>data. to_be_bytes (of_nat (length data)) @ data)"
  by (auto simp: frames_ok_def demo_framing_def Let_def unat_of_nat take_bit_nat_eq_self cluster_max_frame_def
      split: if_splits)

lemma text_json_ok: "json_ok text_json"
proof -
  have "char_of (unat (of_nat (of_char c) :: 8 word)) = c" for c :: char
  proof -
    have "(of_char c :: nat) < 2 ^ 8" using nat_of_char_less_256 [of c] by simp
    then have "unat (of_nat (of_char c) :: 8 word) = of_char c" by (simp add: unat_of_nat take_bit_nat_eq_self)
    then show ?thesis by simp
  qed
  then show ?thesis by (auto simp: json_ok_def text_json_def comp_def split: json.splits)
qed

theorem cluster_codec_roundtrip_witness:
  "\<exists>buf. encode_all demo_framing text_json [Ping, ListNodes] [] = (Inr (), buf) \<and>
     decode_all demo_framing text_json 2 buf = (Inr [Ping, ListNodes], [])"
proof -
  obtain buf where enc: "encode_all demo_framing text_json [Ping, ListNodes] [] = (Inr (), buf)"
    by (simp add: codec_encode_def text_json_def demo_framing_def cluster_max_frame_def)
  from cluster_codec_roundtrip [OF demo_framing_ok text_json_ok _ enc] enc
  show ?thesis by (simp add: maps_ok_def numeral_2_eq_2)
qed

text \<open>A message of more than 64 KB cannot be sent: a node with much metadata does not register, and a
  main node with many workers cannot answer with their list.\<close>

lemma long_message_not_sent:
  assumes "sl_to_vec sl (enc_message m) = Inr data" "cluster_max_frame < length data"
  shows "codec_encode demo_framing sl m dst = (Inl ''frame size too big'', dst)"
  using assms by (simp add: codec_encode_def demo_framing_def)

end
