(* ===== verification/Serving.thy ===== *)
theory Serving
  imports Tcp Cluster Trpc
begin

text \<open>
  The servers around their connections: \<open>TcpServer::start\<close> of \<open>rinfra-plugins/src/net/tcp.rs\<close>,
  \<open>ClusterServer::run\<close> of \<open>cluster/server.rs\<close> and \<open>TrpcServer\<close> of \<open>rpc/trpc/server.rs\<close> bind an address and
  accept connections until they are told to stop, and each accepted connection becomes a task of
  its own. Binding is a function from the address to an error; what the socket and the shutdown
  token do is a list of turns of the loop's \<open>select!\<close>. Which of the tasks runs when is up to the
  runtime, so a server's result is the list of tasks it has spawned.
\<close>

section \<open>Accepting\<close>

text \<open>One turn: whether the token is cancelled when the branches are looked at, what \<open>accept\<close> has
  ready, and whether a \<open>select!\<close> without \<open>biased\<close> looks at \<open>accept\<close> first.\<close>

datatype 's accept_result = Accepted 's string | AcceptFailed string

record 's turn =
  tu_cancelled :: bool
  tu_accept :: "'s accept_result option"
  tu_accept_first :: bool

text \<open>The connections handed to tasks, and whether the loop has ended.\<close>

fun tcp_accept_loop :: "'s turn list \<Rightarrow> ('s \<times> string) list \<times> bool" where
  "tcp_accept_loop [] = ([], False)"
| "tcp_accept_loop (t # ts) =
     (if tu_cancelled t then ([], True)
      else (case tu_accept t of
          Some (Accepted stream peer) \<Rightarrow>
            (case tcp_accept_loop ts of (cs, stopped) \<Rightarrow> ((stream, peer) # cs, stopped))
        | Some (AcceptFailed e) \<Rightarrow> tcp_accept_loop ts
        | None \<Rightarrow> tcp_accept_loop ts))"

fun cluster_accept_loop :: "'s turn list \<Rightarrow> ('s \<times> string) list \<times> bool" where
  "cluster_accept_loop [] = ([], False)"
| "cluster_accept_loop (t # ts) =
     (if tu_cancelled t then ([], True)
      else (case tu_accept t of
          Some (Accepted stream peer) \<Rightarrow>
            (case cluster_accept_loop ts of (cs, stopped) \<Rightarrow> ((stream, peer) # cs, stopped))
        | Some (AcceptFailed e) \<Rightarrow> cluster_accept_loop ts
        | None \<Rightarrow> cluster_accept_loop ts))"

text \<open>Without \<open>biased\<close>, a ready \<open>accept\<close> may be taken although the token is cancelled.\<close>

fun trpc_accept_loop :: "'s turn list \<Rightarrow> ('s \<times> string) list \<times> bool" where
  "trpc_accept_loop [] = ([], False)"
| "trpc_accept_loop (t # ts) =
     (if tu_cancelled t \<and> (tu_accept t = None \<or> \<not> tu_accept_first t) then ([], True)
      else (case tu_accept t of
          Some (Accepted stream peer) \<Rightarrow>
            (case trpc_accept_loop ts of (cs, stopped) \<Rightarrow> ((stream, peer) # cs, stopped))
        | Some (AcceptFailed e) \<Rightarrow> trpc_accept_loop ts
        | None \<Rightarrow> trpc_accept_loop ts))"

section \<open>The servers\<close>

text \<open>A stream is what its peer makes of it: the events the connection sees and whether sending works.\<close>

record 'w tcp_stream =
  st_send :: "bytes \<Rightarrow> 'w \<Rightarrow> bool \<times> 'w"
  st_events :: "tcp_event list"

type_synonym 'w tcp_task = "int \<times> 'w \<Rightarrow> string option \<times> int \<times> 'w"

text \<open>The result of \<open>start\<close> is \<open>None\<close> while the server runs.\<close>

definition tcp_start ::
  "(string \<Rightarrow> string option) \<Rightarrow> 'w tcp_server \<Rightarrow> 'w tcp_stream turn list \<Rightarrow> unit res option \<times> 'w tcp_task list" where
  "tcp_start bind s turns =
     (case bind (ts_bind_addr s) of
        Some e \<Rightarrow>
          (Some (Err Internal (''listener '' @ quoted (ts_listener_name s) @ '' bind to '' @ ts_bind_addr s @
             '' failed: '' @ e)), [])
      | None \<Rightarrow>
          (case tcp_accept_loop turns of
             (cs, stopped) \<Rightarrow>
               (if stopped then Some (Ok ()) else None,
                map (\<lambda>(stream, peer). handle_tcp_connection s (st_send stream) peer (st_events stream)) cs)))"

text \<open>The connections of the cluster server are numbered in the order in which they were accepted; a
  task is the number and what its connection sees.\<close>

definition cluster_run_server ::
  "(string \<Rightarrow> string option) \<Rightarrow> string \<Rightarrow> conn_event list turn list \<Rightarrow>
     unit res option \<times> (nat \<times> conn_event list) list" where
  "cluster_run_server bind addr turns =
     (case bind addr of
        Some e \<Rightarrow> (Some (Err Internal (''cluster bind failed: '' @ e)), [])
      | None \<Rightarrow>
          (case cluster_accept_loop turns of
             (cs, stopped) \<Rightarrow>
               (if stopped then Some (Ok ()) else None, enumerate 0 (map fst cs))))"

text \<open>The light RPC server keeps its services; \<open>serve\<close> returns once it has bound, and the loop runs in
  a task of its own.\<close>

record 'w trpc_server =
  tv_services :: "'w services"

definition trpc_server_new :: "'w trpc_server" where
  "trpc_server_new = \<lparr>tv_services = Map.empty\<rparr>"

definition trpc_server_register :: "string \<Rightarrow> 'w service_fn \<Rightarrow> 'w trpc_server \<Rightarrow> 'w trpc_server" where
  "trpc_server_register name h s = s\<lparr>tv_services := (tv_services s)(name \<mapsto> h)\<rparr>"

definition get_handler :: "'w services \<Rightarrow> string \<Rightarrow> 'w service_fn option" where
  "get_handler services name = services name"

record 'w trpc_stream =
  sr_write_all :: "bytes \<Rightarrow> 'w \<Rightarrow> string option \<times> 'w"
  sr_bytes :: bytes

definition trpc_serve ::
  "(string \<Rightarrow> string option) \<Rightarrow> serde_lib \<Rightarrow> ('w service_fn \<Rightarrow> bytes \<Rightarrow> 'w \<Rightarrow> 'w) \<Rightarrow> string \<Rightarrow> 'w trpc_server \<Rightarrow>
     'w trpc_stream turn list \<Rightarrow> unit res \<times> ('w \<Rightarrow> string option \<times> 'w) list" where
  "trpc_serve bind sl spawn addr s turns =
     (case bind addr of
        Some e \<Rightarrow> (Err RpcServerFailed (''trpc bind '' @ addr @ '': '' @ e), [])
      | None \<Rightarrow>
          (Ok (), map (\<lambda>(stream, peer). serve_connection sl spawn (sr_write_all stream) (tv_services s) (sr_bytes stream))
             (fst (trpc_accept_loop turns))))"

section \<open>What accepting promises\<close>

definition accepted_in :: "'s turn list \<Rightarrow> ('s \<times> string) list" where
  "accepted_in ts =
     concat (map (\<lambda>t. case tu_accept t of Some (Accepted stream peer) \<Rightarrow> [(stream, peer)] | _ \<Rightarrow> []) ts)"

definition running_turns :: "'s turn list \<Rightarrow> 's turn list" where
  "running_turns = takeWhile (\<lambda>t. \<not> tu_cancelled t)"

text \<open>A loop that looks at the token first: nothing is accepted from the cancellation on, every
  connection before it is, and a failed accept never ends the loop.\<close>

locale accept_loop =
  fixes loop :: "'s turn list \<Rightarrow> ('s \<times> string) list \<times> bool"
  assumes loop_empty: "loop [] = ([], False)"
    and loop_cancelled: "tu_cancelled t \<Longrightarrow> loop (t # ts) = ([], True)"
    and loop_accepts: "\<not> tu_cancelled t \<Longrightarrow> loop (t # ts) = (accepted_in [t] @ fst (loop ts), snd (loop ts))"
begin

lemma serves_exactly: "loop ts = (accepted_in (running_turns ts), \<exists>t\<in>set ts. tu_cancelled t)"
proof (induction ts)
  case Nil
  then show ?case by (simp add: loop_empty accepted_in_def running_turns_def)
next
  case (Cons t ts)
  then show ?case
    by (cases "tu_cancelled t") (simp_all add: loop_cancelled loop_accepts running_turns_def accepted_in_def)
qed

lemma runs_until_cancelled: "snd (loop ts) \<longleftrightarrow> (\<exists>t\<in>set ts. tu_cancelled t)"
  by (simp add: serves_exactly)

end

interpretation tcp_accept: accept_loop tcp_accept_loop
  by unfold_locales (auto simp: accepted_in_def split: prod.splits option.splits accept_result.splits)

interpretation cluster_accept: accept_loop cluster_accept_loop
  by unfold_locales (auto simp: accepted_in_def split: prod.splits option.splits accept_result.splits)

text \<open>The light RPC server serves those and may serve more.\<close>

lemma trpc_serves_at_least:
  "\<exists>more. fst (trpc_accept_loop ts) = accepted_in (running_turns ts) @ more"
proof (induction ts)
  case Nil
  then show ?case by (simp add: accepted_in_def running_turns_def)
next
  case (Cons t ts)
  then show ?case
    by (cases "tu_cancelled t")
      (auto simp: running_turns_def accepted_in_def split: prod.splits option.splits accept_result.splits)
qed

lemma trpc_accepts_after_cancel:
  "fst (trpc_accept_loop [\<lparr>tu_cancelled = True, tu_accept = Some (Accepted s p), tu_accept_first = True\<rparr>]) = [(s, p)]"
  by simp

text \<open>
  A TCP server that could bind serves exactly the connections accepted before its shutdown, each by
  a task of its own with the server's handler, pipeline and middlewares, in the order of arrival and
  whatever accepts fail in between; it returns without an error, and only when it is told to stop.
\<close>

theorem tcp_server_serves:
  assumes "bind (ts_bind_addr s) = None"
  shows "tcp_start bind s turns =
    (if \<exists>t\<in>set turns. tu_cancelled t then Some (Ok ()) else None,
     map (\<lambda>(stream, peer). handle_tcp_connection s (st_send stream) peer (st_events stream))
       (accepted_in (running_turns turns)))"
  using assms by (simp add: tcp_start_def tcp_accept.serves_exactly)

theorem tcp_server_serves_witness:
  "map (\<lambda>task. fst (snd (task (0, []))))
     (snd (tcp_start (\<lambda>_. None) echo_server
       [\<lparr>tu_cancelled = False, tu_accept = Some (AcceptFailed ''emfile''), tu_accept_first = False\<rparr>,
        \<lparr>tu_cancelled = False,
         tu_accept = Some (Accepted \<lparr>st_send = \<lambda>d w. (True, w @ [d]), st_events = []\<rparr> ''peer''), tu_accept_first = False\<rparr>,
        \<lparr>tu_cancelled = True,
         tu_accept = Some (Accepted \<lparr>st_send = \<lambda>d w. (True, w @ [d]), st_events = []\<rparr> ''late''), tu_accept_first = True\<rparr>])) = [0]"
  by (simp add: tcp_server_serves accepted_in_def running_turns_def handle_tcp_connection_def echo_server_def
      tcp_server_new_def Let_def disconnect_chain_def)

text \<open>Binding fails before anything is accepted.\<close>

lemma bind_failure:
  assumes "bind (ts_bind_addr s) = Some e"
  shows "snd (tcp_start bind s turns) = [] \<and> (\<exists>x. fst (tcp_start bind s turns) = Some (Inl x))"
  using assms by (simp add: tcp_start_def)

lemma cluster_connections_numbered:
  assumes "bind addr = None"
  shows "map fst (snd (cluster_run_server bind addr turns)) = [0..<length (accepted_in (running_turns turns))]"
  using assms by (simp add: cluster_run_server_def cluster_accept.serves_exactly)

lemma get_handler_after_register:
  "get_handler (tv_services (trpc_server_register name h s)) n =
     (if n = name then Some h else get_handler (tv_services s) n)"
  by (simp add: get_handler_def trpc_server_register_def)

section \<open>The worker's handle on its connection\<close>

text \<open>The handle shares an atomic byte with the background task, which starts out as connected.\<close>

definition connection_byte :: "connection_state \<Rightarrow> u8" where
  "connection_byte st = (case st of Connected \<Rightarrow> 0 | Disconnected \<Rightarrow> 1 | Reconnecting \<Rightarrow> 2)"

definition handle_state :: "u8 \<Rightarrow> connection_state" where
  "handle_state v = connection_state_of v"

definition handle_is_connected :: "u8 \<Rightarrow> bool" where
  "handle_is_connected v \<longleftrightarrow> handle_state v = Connected"

definition spawn_background :: "attempt list \<Rightarrow> u8" where
  "spawn_background attempts = connection_byte (snd (run_loop 3 attempts Connected))"

definition worker_node_list :: "cluster_connection \<Rightarrow> node_info list" where
  "worker_node_list c = cc_node_list c"

definition worker_node_id :: "cluster_connection \<Rightarrow> string" where
  "worker_node_id c = cc_node_id c"

lemma connection_byte_roundtrip: "connection_state_of (connection_byte st) = st"
  by (cases st) (simp_all add: connection_byte_def connection_state_of_def)

text \<open>A worker whose background task has not connected yet counts as connected, and one whose every
  attempt is refused does not.\<close>

lemma handle_follows_attempts:
  "handle_is_connected (spawn_background [])"
  "0 < n \<Longrightarrow> \<not> handle_is_connected (spawn_background (replicate n (Refused False)))"
  using run_loop_refused [of 3 0 n Connected]
  by (simp_all add: handle_is_connected_def handle_state_def spawn_background_def connection_byte_roundtrip)

end
