(* ===== verification/Cluster_Join.thy ===== *)
theory Cluster_Join
  imports Cluster_Codec Serving
begin

text \<open>
  The two ends of the cluster protocol together: a worker's registration travels through the framed
  codec to a connection of the main node, and the main node's answer back to the worker's
  \<open>do_register\<close>; and the order in which a starting worker uses its connections
  (\<open>connect_once\<close>, then \<open>spawn_background\<close>, in \<open>rinfra-plugins/src/runtime/mod.rs\<close>).
\<close>

section \<open>A registration over the wire\<close>

text \<open>What the main node sees of the bytes the worker wrote.\<close>

definition main_receives :: "framing \<Rightarrow> serde_lib \<Rightarrow> bytes \<Rightarrow> conn_event" where
  "main_receives fr sl buf =
     (case codec_decode fr sl buf of
        (Inl e, rest) \<Rightarrow> RecvError
      | (Inr None, rest) \<Rightarrow> Eof
      | (Inr (Some msg), rest) \<Rightarrow> Recv msg)"

text \<open>What the worker sees of the main node's answer, when one is sent.\<close>

definition worker_receives :: "framing \<Rightarrow> serde_lib \<Rightarrow> cluster_message list \<Rightarrow> ack_event" where
  "worker_receives fr sl out =
     (case encode_all fr sl out [] of
        (Inl e, buf) \<Rightarrow> AckClosed
      | (Inr _, buf) \<Rightarrow>
          (case codec_decode fr sl buf of
             (Inl e, rest) \<Rightarrow> AckError e
           | (Inr None, rest) \<Rightarrow> AckClosed
           | (Inr (Some msg), rest) \<Rightarrow> Ack msg))"

definition join_over_wire ::
  "framing \<Rightarrow> serde_lib \<Rightarrow> string \<Rightarrow> metadata option \<Rightarrow> cluster_connection \<Rightarrow> connected_registry \<Rightarrow>
     unit res \<times> conn_state \<times> connected_registry" where
  "join_over_wire fr sl tok trace c reg =
     (case codec_encode fr sl (register_message trace c) [] of
        (Inl e, buf) \<Rightarrow> (do_register (Some e) AckClosed, AwaitRegister, reg)
      | (Inr _, buf) \<Rightarrow>
          (case conn_step tok AwaitRegister (main_receives fr sl buf) reg of
             (st, reg1, out) \<Rightarrow> (do_register None (worker_receives fr sl out), st, reg1)))"

definition can_send :: "framing \<Rightarrow> serde_lib \<Rightarrow> cluster_message \<Rightarrow> bool" where
  "can_send fr sl msg \<longleftrightarrow> (\<exists>buf. codec_encode fr sl msg [] = (Inr (), buf))"

lemma sent_is_received:
  assumes "frames_ok fr framed" "json_ok sl" "maps_ok m" "codec_encode fr sl m [] = (Inr (), buf)"
  shows "codec_decode fr sl buf = (Inr (Some m), [])"
proof -
  obtain data where data: "sl_to_vec sl (enc_message m) = Inr data" "buf = framed data" "length data \<le> cluster_max_frame"
    using codec_encode_wire [OF assms(1,4)] by auto
  then show ?thesis using codec_decode_wire [OF assms(1-3) data(1,3), of "[]"] by simp
qed

lemma answer_received:
  assumes "frames_ok fr framed" "json_ok sl" "maps_ok m" "can_send fr sl m"
  shows "worker_receives fr sl [m] = Ack m"
proof -
  obtain buf where "codec_encode fr sl m [] = (Inr (), buf)" using assms(4) by (auto simp: can_send_def)
  then show ?thesis using sent_is_received [OF assms(1-3)] by (simp add: worker_receives_def)
qed

text \<open>The registration arrives as it was sent, and the rest is the step of the main node's connection.\<close>

lemma join_step:
  assumes "frames_ok fr framed" "json_ok sl" "hm_ok (cc_metadata c)" "\<And>m. trace = Some m \<Longrightarrow> hm_ok m"
    and "can_send fr sl (register_message trace c)"
  shows "join_over_wire fr sl tok trace c reg =
    (case await_step tok (Recv (register_message trace c)) reg of
       (st, reg1, out) \<Rightarrow> (do_register None (worker_receives fr sl out), st, reg1))"
proof -
  obtain buf where buf: "codec_encode fr sl (register_message trace c) [] = (Inr (), buf)"
    using assms(5) by (auto simp: can_send_def)
  have "maps_ok (register_message trace c)" using assms(3,4) by (simp add: maps_ok_def register_message_def)
  then have "main_receives fr sl buf = Recv (register_message trace c)"
    using sent_is_received [OF assms(1,2) _ buf] by (simp add: main_receives_def)
  then show ?thesis by (simp add: join_over_wire_def buf)
qed

lemma join_accepted:
  assumes "frames_ok fr framed" "json_ok sl" "hm_ok (cc_metadata c)" "\<And>m. trace = Some m \<Longrightarrow> hm_ok m"
    and "can_send fr sl (register_message trace c)" "can_send fr sl (RegisterAck True None)"
    and "tok = [] \<or> cc_token c = tok"
  shows "join_over_wire fr sl tok trace c reg =
    (Ok (), Active (cc_node_id c) 0, registry_register (cc_node_id c) WorkerNode (cc_endpoints c) (cc_metadata c) reg)"
proof -
  have "worker_receives fr sl [RegisterAck True None] = Ack (RegisterAck True None)"
    using answer_received [OF assms(1,2) _ assms(6)] by (simp add: maps_ok_def)
  with assms(7) join_step [OF assms(1-5)] show ?thesis
    by (simp add: await_step_def handle_register_def register_message_def do_register_def)
qed

text \<open>
  C12: A worker joins over the wire: through any framing and JSON library with their documented
  behaviour, a registration the frames can hold succeeds exactly when the main node has no token or
  the worker has the same one; the main node's registry then has the worker online under its own id
  with exactly its endpoints and metadata, and otherwise it is unchanged, the connection is closed and the worker
  reports an authentication failure.
\<close>

theorem worker_joins_over_wire:
  assumes "frames_ok fr framed" "json_ok sl" "hm_ok (cc_metadata c)" "\<And>m. trace = Some m \<Longrightarrow> hm_ok m"
    and "can_send fr sl (register_message trace c)" "can_send fr sl (RegisterAck True None)"
    and "can_send fr sl (RegisterAck False (Some ''invalid token''))"
  shows "join_over_wire fr sl tok trace c reg =
    (if tok = [] \<or> cc_token c = tok
     then (Ok (), Active (cc_node_id c) 0,
           registry_register (cc_node_id c) WorkerNode (cc_endpoints c) (cc_metadata c) reg)
     else (Err ClusterAuthFailed ''invalid token'', Gone, reg))"
proof (cases "tok = [] \<or> cc_token c = tok")
  case True
  then show ?thesis using join_accepted [OF assms(1-6)] by simp
next
  case False
  have "worker_receives fr sl [RegisterAck False (Some ''invalid token'')] = Ack (RegisterAck False (Some ''invalid token''))"
    using answer_received [OF assms(1,2) _ assms(7)] by (simp add: maps_ok_def)
  with False join_step [OF assms(1-5)] show ?thesis
    by (simp add: await_step_def handle_register_def register_message_def do_register_def)
qed

text \<open>A JSON library that knows the texts of some documents, their positions in a list.\<close>

definition table_json :: "json list \<Rightarrow> serde_lib" where
  "table_json vs =
     \<lparr>sl_to_vec = (\<lambda>v. case map_of (zip vs [0..<length vs]) v of Some i \<Rightarrow> Inr [of_nat i] | None \<Rightarrow> Inl ''unknown''),
      sl_from_slice = (\<lambda>d. if d \<noteq> [] \<and> unat (hd d) < length vs then Inr (vs ! unat (hd d)) else Inl ''unknown'')\<rparr>"

lemma table_json_ok:
  assumes "length vs \<le> 256"
  shows "json_ok (table_json vs)"
  unfolding json_ok_def
proof (intro allI impI)
  fix v d
  assume "sl_to_vec (table_json vs) v = Inr d"
  then obtain i where i: "map_of (zip vs [0..<length vs]) v = Some i" and d: "d = [of_nat i]"
    by (auto simp: table_json_def split: option.splits)
  from map_of_SomeD [OF i] have "i < length vs" "vs ! i = v" by (auto simp: set_zip)
  moreover have "unat (of_nat i :: 8 word) = i" if "i < 256"
    using that by (simp add: unat_of_nat take_bit_nat_eq_self)
  ultimately show "sl_from_slice (table_json vs) d = Inr v" using assms by (simp add: table_json_def d)
qed

lemma table_json_sends:
  assumes "enc_message m \<in> set vs"
  shows "can_send demo_framing (table_json vs) m"
proof -
  have "map_of (zip vs [0..<length vs]) (enc_message m) \<noteq> None"
    using assms by (simp add: map_of_eq_None_iff flip: set_map)
  then obtain i where "map_of (zip vs [0..<length vs]) (enc_message m) = Some i" by blast
  then show ?thesis
    by (auto simp: can_send_def codec_encode_def table_json_def demo_framing_def cluster_max_frame_def)
qed

definition demo_worker :: cluster_connection where
  "demo_worker = cluster_connection_new ''uuid'' ''w1'' ''main:9000'' ''t'' 10 [] [(''zone'', ''a'')]"

definition join_json :: serde_lib where
  "join_json = table_json (map enc_message
     [register_message None demo_worker, RegisterAck True None, RegisterAck False (Some ''invalid token'')])"

theorem worker_joins_over_wire_witness:
  "fst (join_over_wire demo_framing join_json ''t'' None demo_worker []) = Ok () \<and>
   map_option ni_metadata (hm_get (snd (snd (join_over_wire demo_framing join_json ''t'' None demo_worker []))) ''w1'') =
     Some [(''zone'', ''a'')] \<and>
   join_over_wire demo_framing join_json ''other'' None demo_worker [] = (Err ClusterAuthFailed ''invalid token'', Gone, [])"
proof -
  have json: "json_ok join_json" by (simp add: join_json_def table_json_ok)
  have sends: "can_send demo_framing join_json (register_message None demo_worker)"
    "can_send demo_framing join_json (RegisterAck True None)"
    "can_send demo_framing join_json (RegisterAck False (Some ''invalid token''))"
    by (simp_all add: join_json_def table_json_sends)
  have md: "hm_ok (cc_metadata demo_worker)" by (simp add: demo_worker_def cluster_connection_new_def hm_ok_def)
  show ?thesis
    using worker_joins_over_wire [OF demo_framing_ok json md _ sends, of "''t''" "[]"]
      worker_joins_over_wire [OF demo_framing_ok json md _ sends, of "''other''" "[]"]
    by (simp add: demo_worker_def cluster_connection_new_def)
qed

section \<open>A worker's start\<close>

text \<open>\<open>connect_once\<close> registers over a connection it then drops, and the background task registers
  again over its own. Connection 0 of the main node is the first, connection 1 the second; the end of
  the first is seen at any time after its registration.\<close>

definition start_events :: "cluster_connection \<Rightarrow> bool \<Rightarrow> (nat \<times> conn_event) list" where
  "start_events c end_seen_first =
     (let reg = Recv (register_message None c)
      in if end_seen_first then [(0, reg), (0, Eof), (1, reg)] else [(0, reg), (1, reg), (0, Eof)])"

definition status_after_start :: "string \<Rightarrow> cluster_connection \<Rightarrow> bool \<Rightarrow> node_status option" where
  "status_after_start tok c end_seen_first =
     map_option ni_status (hm_get (cl_registry (server_run (start_events c end_seen_first) (cluster_server_new tok))) (cc_node_id c))"

text \<open>Every start of a worker is a race: its node is online only when the main node notices the end
  of the first connection before the second registration; otherwise it stays offline while its
  connection is active.\<close>

lemma worker_start_is_a_race:
  assumes "tok = [] \<or> cc_token c = tok"
  shows "status_after_start tok c True = Some Online" and "status_after_start tok c False = Some Offline"
    and "cl_conns (server_run (start_events c False) (cluster_server_new tok)) 1 = Active (cc_node_id c) 0"
  using assms
  by (auto simp: status_after_start_def start_events_def server_run_def server_step_def cluster_server_new_def Let_def
      await_step_def active_step_def handle_register_def register_message_def leave_def)

end
