(* ===== verification/Proxy.thy ===== *)
theory Proxy
  imports Cluster Http_Middleware Http_Client
begin

text \<open>
  The reverse proxy of \<open>rinfra-examples/src/proxy.rs\<close>, the one program of the repository that
  combines the cluster with HTTP: it deals requests out to the web nodes its list of cluster nodes
  names. Sending a request upstream and reading a body are parameters.
\<close>

section \<open>Choosing a backend\<close>

text \<open>The addresses of the HTTP endpoints of online web nodes, in the order of the list.\<close>

definition is_web_node :: "node_info \<Rightarrow> bool" where
  "is_web_node n \<longleftrightarrow> ni_status n = Online \<and> hm_get (ni_metadata n) ''service_type'' = Some ''web''"

definition web_endpoints :: "node_info list \<Rightarrow> string list" where
  "web_endpoints nodes =
     concat (map (\<lambda>n. map ep_address (filter (\<lambda>e. ep_protocol e = ''http'') (ni_endpoints n)))
       (filter is_web_node nodes))"

definition backend_url :: "string \<Rightarrow> string" where
  "backend_url addr = (if starts_with addr ''http'' then addr else ''http://'' @ addr)"

text \<open>The counter is a \<open>usize\<close> that wraps; it moves only when there is a backend.\<close>

definition pick_web_backend :: "u64 \<Rightarrow> node_info list \<Rightarrow> string option \<times> u64" where
  "pick_web_backend counter nodes =
     (let es = web_endpoints nodes
      in if es = [] then (None, counter)
         else (Some (backend_url (es ! (unat counter mod length es))), counter + 1))"

section \<open>The handler\<close>

record proxy_request =
  px_method :: string
  px_path :: string
  px_query :: "string option"
  px_headers :: "(string \<times> string) list"
  px_body :: body

record upstream_response =
  us_status :: nat
  us_headers :: "(string \<times> string) list"
  us_body :: body

type_synonym 'w upstream = "wire_request \<Rightarrow> 'w \<Rightarrow> (string + upstream_response) \<times> 'w"

definition text_response :: "nat \<Rightarrow> string \<Rightarrow> http_response" where
  "text_response code msg =
     \<lparr>hp_status = code, hp_headers = [(''content-type'', ''text/plain; charset=utf-8'')],
      hp_body = BodyBytes (map (\<lambda>c. of_nat (of_char c)) msg)\<rparr>"

definition upstream_url :: "string \<Rightarrow> proxy_request \<Rightarrow> string" where
  "upstream_url backend req =
     backend @ px_path req @ (case px_query req of Some q \<Rightarrow> ''?'' @ q | None \<Rightarrow> [])"

definition body_limit :: nat where
  "body_limit = 10 * 1024 * 1024"

definition read_body :: "body \<Rightarrow> bytes option" where
  "read_body b =
     (case b of BodyBroken \<Rightarrow> None | BodyBytes d \<Rightarrow> if body_limit < length d then None else Some d)"

definition forward_method :: "string \<Rightarrow> string" where
  "forward_method m =
     (if m \<in> {''GET'', ''POST'', ''PUT'', ''DELETE'', ''PATCH'', ''HEAD'', ''OPTIONS''} then m else ''GET'')"

definition forward_headers :: "(string \<times> string) list \<Rightarrow> (string \<times> string) list" where
  "forward_headers hs = filter (\<lambda>(k, v). k \<noteq> ''host'' \<and> to_str v \<noteq> None) hs"

definition forward_request :: "string \<Rightarrow> proxy_request \<Rightarrow> bytes \<Rightarrow> wire_request" where
  "forward_request backend req data =
     \<lparr>wq_method = forward_method (px_method req), wq_url = upstream_url backend req,
      wq_headers = forward_headers (px_headers req), wq_body = (if data = [] then None else Some data),
      wq_timeout_secs = None\<rparr>"

text \<open>The result has the counter for the next request. A response that came over HTTP can be built
  again, so that the last fallback of the handler is never taken.\<close>

definition proxy_handler ::
  "'w upstream \<Rightarrow> node_info list \<Rightarrow> u64 \<Rightarrow> proxy_request \<Rightarrow> 'w \<Rightarrow> http_response \<times> u64 \<times> 'w" where
  "proxy_handler send nodes counter req w =
     (case pick_web_backend counter nodes of
        (None, c1) \<Rightarrow> (text_response 503 ''no web backends available'', c1, w)
      | (Some backend, c1) \<Rightarrow>
          (case read_body (px_body req) of
             None \<Rightarrow> (text_response 400 ''failed to read body'', c1, w)
           | Some data \<Rightarrow>
               (case send (forward_request backend req data) w of
                  (Inl e, w1) \<Rightarrow> (text_response 502 ''upstream request failed'', c1, w1)
                | (Inr up, w1) \<Rightarrow>
                    (case us_body up of
                       BodyBroken \<Rightarrow> (text_response 502 ''failed to read upstream'', c1, w1)
                     | BodyBytes d \<Rightarrow>
                         (\<lparr>hp_status = us_status up, hp_headers = us_headers up, hp_body = BodyBytes d\<rparr>, c1, w1)))))"

text \<open>The backends consecutive requests get while the list stays the same.\<close>

fun picks :: "nat \<Rightarrow> u64 \<Rightarrow> node_info list \<Rightarrow> string option list" where
  "picks 0 counter nodes = []"
| "picks (Suc n) counter nodes =
     (case pick_web_backend counter nodes of (b, c1) \<Rightarrow> b # picks n c1 nodes)"

section \<open>Lemmas\<close>

lemma picks_conv:
  assumes "web_endpoints nodes \<noteq> []" "unat counter + n < 2 ^ 64"
  shows "picks n counter nodes =
    map (\<lambda>k. Some (backend_url (web_endpoints nodes ! ((unat counter + k) mod length (web_endpoints nodes))))) [0..<n]"
  using assms(2)
proof (induction n arbitrary: counter)
  case 0
  then show ?case by simp
next
  case (Suc n)
  have next_counter: "unat (counter + 1) = unat counter + 1"
    using Suc.prems by (simp add: unat_word_ariths)
  have "picks n (counter + 1) nodes =
      map (\<lambda>k. Some (backend_url (web_endpoints nodes ! ((unat (counter + 1) + k) mod length (web_endpoints nodes))))) [0..<n]"
    using Suc.prems by (intro Suc.IH) (simp add: next_counter)
  then show ?case
    using assms(1) by (simp add: pick_web_backend_def next_counter map_upt_Suc Let_def del: upt_Suc)
qed

lemma rotation:
  assumes "es \<noteq> []"
  shows "map (\<lambda>k. es ! ((c + k) mod length es)) [0..<length es] = rotate (c mod length es) es"
  using assms by (intro nth_equalityI) (simp_all add: nth_rotate mod_add_left_eq)

lemma picks_rotate:
  assumes "web_endpoints nodes \<noteq> []" and "unat counter + length (web_endpoints nodes) < 2 ^ 64"
  shows "picks (length (web_endpoints nodes)) counter nodes =
    rotate (unat counter mod length (web_endpoints nodes)) (map (Some \<circ> backend_url) (web_endpoints nodes))"
proof -
  let ?es = "web_endpoints nodes"
  have "picks (length ?es) counter nodes =
      map (Some \<circ> backend_url) (map (\<lambda>k. ?es ! ((unat counter + k) mod length ?es)) [0..<length ?es])"
    using picks_conv [OF assms] by simp
  also have "\<dots> = rotate (unat counter mod length ?es) (map (Some \<circ> backend_url) ?es)"
    by (simp only: rotation [OF assms(1)] rotate_map)
  finally show ?thesis .
qed

text \<open>The main node's answer to the proxy's request becomes the proxy's list.\<close>

lemma listed_nodes:
  assumes "conn_step tok (Active p missed) (Recv ListNodes) r = (st, r', out)"
    and "message_loop [WFrame (hd out) True] c = (lost, c', sent)"
  shows "cc_node_list c' = hm_values r"
  using assms by (auto simp: active_step_def)

section \<open>Properties\<close>


definition web_registry :: connected_registry where
  "web_registry =
     registry_register ''w2'' WorkerNode [\<lparr>ep_protocol = ''http'', ep_address = ''10.0.0.2:80''\<rparr>] [(''service_type'', ''web'')]
       (registry_register ''w1'' WorkerNode [\<lparr>ep_protocol = ''http'', ep_address = ''10.0.0.1:80''\<rparr>] [(''service_type'', ''web'')]
          (registry_register ''p'' WorkerNode [\<lparr>ep_protocol = ''http'', ep_address = ''10.0.0.9:80''\<rparr>]
             [(''service_type'', ''proxy'')] []))"


text \<open>Without an online web node every request is answered 503 and nothing is sent.\<close>

lemma no_backend_no_traffic:
  "web_endpoints nodes = [] \<Longrightarrow>
     proxy_handler send nodes counter req w = (text_response 503 ''no web backends available'', counter, w)"
  by (simp add: proxy_handler_def pick_web_backend_def)

text \<open>What goes upstream carries the client's method, path, query, body and headers, but for the host
  and values that are not visible ASCII.\<close>

lemma forwarded_unchanged:
  assumes "px_method req \<in> {''GET'', ''POST'', ''PUT'', ''DELETE'', ''PATCH'', ''HEAD'', ''OPTIONS''}"
    and "\<forall>(k, v) \<in> set (px_headers req). k \<noteq> ''host'' \<and> to_str v \<noteq> None"
  shows "wq_method (forward_request b req d) = px_method req" "wq_headers (forward_request b req d) = px_headers req"
  using assms by (auto simp: forward_request_def forward_method_def forward_headers_def filter_id_conv)

section \<open>Limits\<close>

text \<open>An address without a scheme whose host starts with \<open>http\<close> is taken for a URL.\<close>

lemma host_taken_for_scheme: "backend_url ''httpd.internal:80'' = ''httpd.internal:80''"
  by (simp add: backend_url_def starts_with_def)

text \<open>Other methods are forwarded as \<open>GET\<close>.\<close>

lemma other_method_becomes_get: "wq_method (forward_request b (req\<lparr>px_method := ''PROPFIND''\<rparr>) d) = ''GET''"
  by (simp add: forward_request_def forward_method_def)

text \<open>When the counter wraps the rotation starts anew, out of turn unless the number of backends
  divides \<open>2 ^ 64\<close>.\<close>

lemma wrap_breaks_turn:
  "length (web_endpoints nodes) = 3 \<Longrightarrow>
     map (\<lambda>c. unat c mod length (web_endpoints nodes)) [- 1 :: u64, - 1 + 1] = [0, 0]"
  by (simp add: unsigned_minus_1_eq_mask mask_eq_exp_minus_1)

end
