(* ===== verification/Runtime.thy ===== *)
theory Runtime
  imports Http_Server WebSocket Trpc Cluster Builtin_Plugins Health Config_Env
begin

text \<open>
  The application: \<open>rinfra-plugins/src/runtime/mod.rs\<close> and \<open>net/tcp_middleware.rs\<close>. A builder
  collects handlers, routers, services and plugins under the names of listeners; \<open>build\<close> settles the
  configuration; \<open>run\<close> joins the cluster, builds the plugins, starts the listeners of the
  configuration in their order and, once the shutdown is signalled, drains and runs the plugins'
  hooks. Everything the runtime gets from other parts is the model of that part; a record of
  parameters stands for files, the environment, the network and the tracing libraries.
\<close>

section \<open>What the runtime is given\<close>

type_synonym 'w http_router_fn = "app_state \<Rightarrow> 'w axum_router res"

type_synonym grpc_service_fn = "string list \<Rightarrow> string list"

record 'w rt_env =
  re_http :: "'w http_env"
  re_plugins :: plugin_env
  re_compress :: "bytes compress_libs"
  re_host :: string
  re_vars :: "(string \<times> string) list"
  re_exists :: "string \<Rightarrow> bool"
  re_read :: "string \<Rightarrow> string + string"
  re_yaml :: "string \<Rightarrow> string + json"
  re_serde_error :: "json \<Rightarrow> string"
  re_hostname :: string
  re_uuid :: string
  re_telemetry :: "telemetry_config \<Rightarrow> string \<Rightarrow> bool res"
  re_observability :: "log_plugin_configs \<Rightarrow> unit res"
  re_metrics :: "unit res"
  re_join :: "cluster_connection \<Rightarrow> string option \<times> string option \<times> ack_event"
  re_plugin_route :: "string \<Rightarrow> 'w service"
  re_probes :: "'w probes"
  re_ws_upgrade :: "'w ws_handler \<Rightarrow> ws_options \<Rightarrow> 'w service"
  re_spawn :: "'w service_fn \<Rightarrow> bytes \<Rightarrow> 'w \<Rightarrow> 'w"

record 'w application =
  ap_config :: rinfra_config
  ap_registry :: plugin_registry
  ap_plugins :: "plugin list"
  ap_http_routers :: "(string, 'w http_router_fn list) hashmap"
  ap_ws_handlers :: "(string, 'w ws_handler) hashmap"
  ap_tcp_handlers :: "(string, (tcp_context, 'w) tcp_handler) hashmap"
  ap_grpc_services :: "(string, grpc_service_fn list) hashmap"
  ap_trpc_services :: "(string, (string \<times> 'w service_fn) list) hashmap"
  ap_node_metadata :: metadata
  ap_cluster_registry :: bool
  ap_cluster_node_list :: bool
  ap_transforms :: "(string, byte_transform) hashmap"
  ap_http_middlewares :: "'w any_box http_middleware list"
  ap_tcp_middlewares :: "(tcp_context, 'w) tcp_middleware list"
  ap_metrics_handle :: bool
  ap_otel_guard :: bool

record 'w app_builder =
  ab_config_path :: "string option"
  ab_config :: "rinfra_config option"
  ab_plugins :: "plugin list"
  ab_http_routers :: "(string, 'w http_router_fn list) hashmap"
  ab_ws_handlers :: "(string, 'w ws_handler) hashmap"
  ab_tcp_handlers :: "(string, (tcp_context, 'w) tcp_handler) hashmap"
  ab_grpc_services :: "(string, grpc_service_fn list) hashmap"
  ab_trpc_services :: "(string, (string \<times> 'w service_fn) list) hashmap"
  ab_node_metadata :: metadata
  ab_transforms :: "byte_transform list"
  ab_http_middlewares :: "'w any_box http_middleware list"
  ab_tcp_middlewares :: "(tcp_context, 'w) tcp_middleware list"

section \<open>The builder\<close>

definition app_builder_new :: "'w app_builder" where
  "app_builder_new =
     \<lparr>ab_config_path = None, ab_config = None, ab_plugins = [], ab_http_routers = [], ab_ws_handlers = [],
      ab_tcp_handlers = [], ab_grpc_services = [], ab_trpc_services = [], ab_node_metadata = [],
      ab_transforms = [], ab_http_middlewares = [], ab_tcp_middlewares = []\<rparr>"

text \<open>\<open>entry(k).or_default().push(x)\<close>\<close>

definition entry_push :: "string \<Rightarrow> 'a \<Rightarrow> (string, 'a list) hashmap \<Rightarrow> (string, 'a list) hashmap" where
  "entry_push k x m = hm_insert k ((case hm_get m k of Some xs \<Rightarrow> xs | None \<Rightarrow> []) @ [x]) m"

definition with_config_path :: "string \<Rightarrow> 'w app_builder \<Rightarrow> 'w app_builder" where
  "with_config_path p b = b\<lparr>ab_config_path := Some p\<rparr>"

definition with_config :: "rinfra_config \<Rightarrow> 'w app_builder \<Rightarrow> 'w app_builder" where
  "with_config c b = b\<lparr>ab_config := Some c\<rparr>"

definition with_plugin :: "plugin \<Rightarrow> 'w app_builder \<Rightarrow> 'w app_builder" where
  "with_plugin p b = b\<lparr>ab_plugins := ab_plugins b @ [p]\<rparr>"

definition with_http_router :: "string \<Rightarrow> 'w http_router_fn \<Rightarrow> 'w app_builder \<Rightarrow> 'w app_builder" where
  "with_http_router l f b = b\<lparr>ab_http_routers := entry_push l f (ab_http_routers b)\<rparr>"

definition with_ws_handler :: "string \<Rightarrow> 'w ws_handler \<Rightarrow> 'w app_builder \<Rightarrow> 'w app_builder" where
  "with_ws_handler l h b = b\<lparr>ab_ws_handlers := hm_insert l h (ab_ws_handlers b)\<rparr>"

definition with_tcp_handler :: "string \<Rightarrow> (tcp_context, 'w) tcp_handler \<Rightarrow> 'w app_builder \<Rightarrow> 'w app_builder" where
  "with_tcp_handler l h b = b\<lparr>ab_tcp_handlers := hm_insert l h (ab_tcp_handlers b)\<rparr>"

definition with_grpc_service :: "string \<Rightarrow> grpc_service_fn \<Rightarrow> 'w app_builder \<Rightarrow> 'w app_builder" where
  "with_grpc_service l f b = b\<lparr>ab_grpc_services := entry_push l f (ab_grpc_services b)\<rparr>"

definition with_trpc_service :: "string \<Rightarrow> string \<Rightarrow> 'w service_fn \<Rightarrow> 'w app_builder \<Rightarrow> 'w app_builder" where
  "with_trpc_service l name h b = b\<lparr>ab_trpc_services := entry_push l (name, h) (ab_trpc_services b)\<rparr>"

definition with_http_middleware :: "'w any_box http_middleware \<Rightarrow> 'w app_builder \<Rightarrow> 'w app_builder" where
  "with_http_middleware m b = b\<lparr>ab_http_middlewares := ab_http_middlewares b @ [m]\<rparr>"

definition with_tcp_middleware :: "(tcp_context, 'w) tcp_middleware \<Rightarrow> 'w app_builder \<Rightarrow> 'w app_builder" where
  "with_tcp_middleware m b = b\<lparr>ab_tcp_middlewares := ab_tcp_middlewares b @ [m]\<rparr>"

definition with_byte_transform :: "byte_transform \<Rightarrow> 'w app_builder \<Rightarrow> 'w app_builder" where
  "with_byte_transform t b = b\<lparr>ab_transforms := ab_transforms b @ [t]\<rparr>"

definition with_node_metadata :: "metadata \<Rightarrow> 'w app_builder \<Rightarrow> 'w app_builder" where
  "with_node_metadata md b = b\<lparr>ab_node_metadata := md\<rparr>"

text \<open>The configuration: the given one as it is, else the file with the environment over it, else the
  defaults with the environment over them.\<close>

definition settle_config :: "'w rt_env \<Rightarrow> 'w app_builder \<Rightarrow> rinfra_config res" where
  "settle_config env b =
     (let defaults = apply_env_overrides (re_host env) (re_vars env) (rinfra_config_default (re_host env))
      in case ab_config b of
           Some c \<Rightarrow> Ok c
         | None \<Rightarrow>
             (case ab_config_path b of
                Some p \<Rightarrow>
                  if re_exists env p
                  then load_with_env (re_host env) (re_yaml env) (re_serde_error env) (re_vars env) p (re_read env p)
                  else Ok defaults
              | None \<Rightarrow> Ok defaults))"

fun register_transforms ::
  "byte_transform list \<Rightarrow> (string, byte_transform) hashmap \<Rightarrow> (string, byte_transform) hashmap res" where
  "register_transforms [] reg = Ok reg"
| "register_transforms (t # ts) reg =
     (case transform_register t reg of
        (Inl e, _) \<Rightarrow> Inl e
      | (Inr _, reg1) \<Rightarrow> register_transforms ts reg1)"

definition builder_build :: "'w rt_env \<Rightarrow> 'w app_builder \<Rightarrow> 'w application res" where
  "builder_build env b =
     bind_res (settle_config env b) (\<lambda>config.
     bind_res (re_telemetry env (plugins_telemetry (rinfra_plugins config)) (app_name (rinfra_app config))) (\<lambda>guard.
     bind_res (re_observability env (plugins_log (rinfra_plugins config))) (\<lambda>_.
     bind_res (register_transforms (map compressor_transform (builtin_compressors (re_compress env)) @ ab_transforms b) [])
       (\<lambda>transforms.
     bind_res (if metrics_enabled (plugins_metrics (rinfra_plugins config))
               then (case re_metrics env of
                       Inr _ \<Rightarrow> Ok True
                     | Inl (Fail e) \<Rightarrow> Ok False
                     | Inl (Panic m) \<Rightarrow> Inl (Panic m))
               else Ok False) (\<lambda>metrics.
       Ok \<lparr>ap_config = config, ap_registry = registry_new, ap_plugins = builtin_plugins (re_plugins env) @ ab_plugins b,
           ap_http_routers = ab_http_routers b, ap_ws_handlers = ab_ws_handlers b,
           ap_tcp_handlers = ab_tcp_handlers b, ap_grpc_services = ab_grpc_services b,
           ap_trpc_services = ab_trpc_services b, ap_node_metadata = ab_node_metadata b,
           ap_cluster_registry = False, ap_cluster_node_list = False, ap_transforms = transforms,
           ap_http_middlewares = ab_http_middlewares b, ap_tcp_middlewares = ab_tcp_middlewares b,
           ap_metrics_handle = metrics, ap_otel_guard = guard\<rparr>)))))"

section \<open>The audit of TCP connections\<close>

text \<open>\<open>SocketAddr::ip\<close> of an address in its written form: what stands before the last colon, without the
  brackets of an IPv6 address.\<close>

definition peer_ip :: "string \<Rightarrow> string" where
  "peer_ip peer = filter (\<lambda>c. c \<noteq> CHR 0x5B \<and> c \<noteq> CHR 0x5D) (rev (drop 1 (dropWhile (\<lambda>c. c \<noteq> CHR 0x3A) (rev peer))))"

definition tcp_audit_event :: "string \<times> u64 \<Rightarrow> string \<Rightarrow> tcp_context \<Rightarrow> audit_event" where
  "tcp_audit_event stamp action ctx =
     with_details (JObj [(''listener'', JStr (tc_listener_name ctx))])
       (with_ip (peer_ip (tc_peer ctx))
         (audit_event_new (fst stamp) (snd stamp) (tc_peer ctx) action ''tcp'' audit_outcome.Success))"

definition audit_tcp :: "'w http_env \<Rightarrow> audit_obj \<Rightarrow> string \<Rightarrow> tcp_context \<Rightarrow> 'w \<Rightarrow> unit res \<times> 'w" where
  "audit_tcp env logger action ctx w =
     (case he_stamp env w of (stamp, w1) \<Rightarrow>
       (case he_log env logger (tcp_audit_event stamp action ctx) w1 of
          (Inl (Panic m), w2) \<Rightarrow> (Inl (Panic m), w2)
        | (_, w2) \<Rightarrow> (Ok (), w2)))"

definition audit_tcp_middleware :: "'w http_env \<Rightarrow> audit_obj \<Rightarrow> (tcp_context, 'w) tcp_middleware" where
  "audit_tcp_middleware env logger =
     \<lparr>tmw_name = ''audit'', tmw_order = 50, tmw_on_connect = audit_tcp env logger ''tcp.connect'',
      tmw_on_inbound = (\<lambda>_ data w. (Ok (Some data), w)), tmw_on_outbound = (\<lambda>_ data w. (Ok (Some data), w)),
      tmw_on_disconnect = (\<lambda>ctx w. snd (audit_tcp env logger ''tcp.disconnect'' ctx w))\<rparr>"

section \<open>Starting up\<close>

definition plugin_router_key :: string where
  "plugin_router_key = ''__plugin__''"

definition box_router :: "'w rt_env \<Rightarrow> router \<Rightarrow> 'w axum_router" where
  "box_router env paths = \<lparr>ax_routes = map (\<lambda>p. (p, re_plugin_route env p)) paths, ax_fallback = not_found\<rparr>"

definition add_plugin_router ::
  "'w rt_env \<Rightarrow> any_router \<Rightarrow> (string, 'w http_router_fn list) hashmap \<Rightarrow> (string, 'w http_router_fn list) hashmap" where
  "add_plugin_router env r m =
     (case r of
        AxumRouter paths \<Rightarrow> entry_push plugin_router_key (\<lambda>_. Ok (box_router env paths)) m
      | ForeignRouter \<Rightarrow> m)"

definition build_with_plugins :: "'w rt_env \<Rightarrow> instant \<Rightarrow> 'w application \<Rightarrow> (app_state \<times> 'w application) res" where
  "build_with_plugins env now ap =
     (case build_all (ap_plugins ap) (ap_registry ap) (context_new (ap_config ap)) of
        (Inl e, _) \<Rightarrow> Inl e
      | (Inr _, reg, ctx) \<Rightarrow>
          (case into_app_parts ctx now of (state, routers) \<Rightarrow>
            Ok (state, ap\<lparr>ap_registry := reg,
                          ap_http_routers := fold (add_plugin_router env) routers (ap_http_routers ap)\<rparr>)))"

primrec protocol_text :: "listener_protocol \<Rightarrow> string" where
  "protocol_text Http = ''http''"
| "protocol_text Tcp = ''tcp''"
| "protocol_text Grpc = ''grpc''"
| "protocol_text Trpc = ''trpc''"

definition worker_endpoint :: "string \<Rightarrow> listener_config \<Rightarrow> endpoint" where
  "worker_endpoint hostname l =
     \<lparr>ep_protocol = protocol_text (listener_protocol l),
      ep_address =
        (if hostname \<noteq> [] then str_replace (str_replace (listener_bind l) ''0.0.0.0'' hostname) ''127.0.0.1'' hostname
         else listener_bind l)\<rparr>"

definition worker_connection :: "'w rt_env \<Rightarrow> 'w application \<Rightarrow> cluster_connection" where
  "worker_connection env ap =
     (let c = plugins_cluster (rinfra_plugins (ap_config ap))
      in cluster_connection_new (re_uuid env) (cluster_node_id c) (cluster_main_address c) (cluster_cluster_token c)
           (cluster_ping_interval_secs c)
           (map (worker_endpoint (re_hostname env)) (net_listeners (plugins_net (rinfra_plugins (ap_config ap)))))
           (ap_node_metadata ap))"

definition setup_main_cluster :: "'w application \<Rightarrow> 'w application res" where
  "setup_main_cluster ap = Ok (ap\<lparr>ap_cluster_registry := True\<rparr>)"

definition setup_worker_cluster :: "'w rt_env \<Rightarrow> 'w application \<Rightarrow> 'w application res" where
  "setup_worker_cluster env ap =
     (let conn = worker_connection env ap
      in case re_join env conn of (conn_error, send_error, ack) \<Rightarrow>
           bind_res (connect_once conn conn_error send_error ack) (\<lambda>_. Ok (ap\<lparr>ap_cluster_node_list := True\<rparr>)))"

definition setup_cluster :: "'w rt_env \<Rightarrow> 'w application \<Rightarrow> 'w application res" where
  "setup_cluster env ap =
     (let c = plugins_cluster (rinfra_plugins (ap_config ap))
      in if is_cluster c then (if is_main c then setup_main_cluster ap else setup_worker_cluster env ap) else Ok ap)"

text \<open>What \<open>run\<close> adds to the state of the plugins.\<close>

definition runtime_state :: "'w application \<Rightarrow> app_state \<Rightarrow> app_state" where
  "runtime_state ap state =
     (let s1 = (if ap_cluster_registry ap then state_set (NodeRegistryComp ''connected'') state else state);
          s2 = (if ap_cluster_node_list ap then state_set (OtherComp ''ClusterNodeList'' JNull) s1 else s1)
      in if ap_metrics_handle ap then state_set (OtherComp ''PrometheusHandle'' JNull) s2 else s2)"

section \<open>Listeners\<close>

datatype 'w started =
    StartedHttp string "'w http_server"
  | StartedTcp "'w tcp_server"
  | StartedGrpc string "string list"
  | StartedTrpc "'w tcp_server"
  | SkippedListener string

text \<open>Routers are merged into the first one that is there; merging panics on a route both have.\<close>

fun merge_all :: "'w axum_router res list \<Rightarrow> 'w axum_router option \<Rightarrow> 'w axum_router option res" where
  "merge_all [] merged = Ok merged"
| "merge_all (f # fs) merged =
     bind_res f (\<lambda>r.
     bind_res (case merged of Some existing \<Rightarrow> router_merge existing r | None \<Rightarrow> Ok r) (\<lambda>m.
       merge_all fs (Some m)))"

definition enc_check_result :: "check_result \<Rightarrow> json" where
  "enc_check_result c = JObj ([(''name'', JStr (ck_name c)), (''status'', JStr (ck_status c))] @
     (case ck_error c of Some e \<Rightarrow> [(''error'', JStr e)] | None \<Rightarrow> []))"

definition enc_readiness :: "readiness_response \<Rightarrow> json" where
  "enc_readiness r = JObj [(''status'', JStr (rdy_status r)), (''checks'', enc_list enc_check_result (rdy_checks r))]"

definition healthz_service :: "'w http_env \<Rightarrow> 'w service" where
  "healthz_service env rq w = (Ok (json_response (he_json env) (fst healthz) (JObj [(''status'', JStr (snd healthz))])), w)"

definition readyz_service :: "'w http_env \<Rightarrow> 'w probes \<Rightarrow> app_state \<Rightarrow> 'w service" where
  "readyz_service env pb state rq w =
     (case readyz pb state w of (r, w1) \<Rightarrow>
        (bind_res r (\<lambda>(status, body). Ok (json_response (he_json env) status (enc_readiness body))), w1))"

definition health_routes :: "'w rt_env \<Rightarrow> app_state \<Rightarrow> 'w axum_router" where
  "health_routes env state =
     \<lparr>ax_routes = [(''/healthz'', healthz_service (re_http env)),
                   (''/readyz'', readyz_service (re_http env) (re_probes env) state)],
      ax_fallback = not_found\<rparr>"

definition ws_router :: "'w rt_env \<Rightarrow> ws_options \<Rightarrow> 'w ws_handler \<Rightarrow> 'w axum_router" where
  "ws_router env opts h = \<lparr>ax_routes = [(''/ws'', re_ws_upgrade env h opts)], ax_fallback = not_found\<rparr>"

definition taken :: "string \<Rightarrow> (string, 'a list) hashmap \<Rightarrow> 'a list" where
  "taken k m = (case hm_get m k of Some xs \<Rightarrow> xs | None \<Rightarrow> [])"

definition http_options_of :: "listener_config \<Rightarrow> http_listener_options" where
  "http_options_of l = (case listener_http l of Some o' \<Rightarrow> o' | None \<Rightarrow> http_listener_options_default)"

definition tcp_options_of :: "listener_config \<Rightarrow> tcp_listener_options" where
  "tcp_options_of l = (case listener_tcp l of Some o' \<Rightarrow> o' | None \<Rightarrow> tcp_listener_options_default)"

definition middleware_registry :: "'w rt_env \<Rightarrow> app_state \<Rightarrow> listener_config \<Rightarrow> 'w application \<Rightarrow> (string, 'w any_box http_middleware) hashmap" where
  "middleware_registry env state l ap =
     (let plugins = rinfra_plugins (ap_config ap)
      in register_mws (ap_http_middlewares ap)
           (register_mws (builtin_http_middlewares (re_http env)
                (http_listener_options_middleware (http_options_of l)) (plugins_metrics plugins)
                (telemetry_enabled (plugins_telemetry plugins)) state) []))"

definition http_routes :: "'w rt_env \<Rightarrow> app_state \<Rightarrow> listener_config \<Rightarrow> 'w application \<Rightarrow> 'w axum_router res list" where
  "http_routes env state l ap =
     (let http_opts = http_options_of l; after_own = hm_remove (listener_name l) (ap_http_routers ap)
      in map (\<lambda>f. f state) (taken plugin_router_key after_own) @
         map (\<lambda>f. f state) (taken (listener_name l) (ap_http_routers ap)) @
         (if health_enabled (plugins_health (rinfra_plugins (ap_config ap))) then [Ok (health_routes env state)] else []) @
         (case hm_get (ap_ws_handlers ap) (listener_name l) of
            Some h \<Rightarrow> if ws_options_enabled (http_listener_options_ws http_opts)
                      then [Ok (ws_router env (http_listener_options_ws http_opts) h)] else []
          | None \<Rightarrow> []))"

definition start_http_listener ::
  "'w rt_env \<Rightarrow> app_state \<Rightarrow> listener_config \<Rightarrow> 'w application \<Rightarrow> ('w started \<times> 'w application) res" where
  "start_http_listener env state l ap =
     (let server = (http_server_new (listener_bind l))\<lparr>hsv_middleware := middleware_registry env state l ap\<rparr>
      in bind_res (merge_all (http_routes env state l ap) None) (\<lambda>merged.
         bind_res (case merged of Some r \<Rightarrow> merge_router r server | None \<Rightarrow> Ok server) (\<lambda>server.
           Ok (StartedHttp (listener_name l) server,
               ap\<lparr>ap_http_routers := hm_remove plugin_router_key (hm_remove (listener_name l) (ap_http_routers ap)),
                  ap_ws_handlers := hm_remove (listener_name l) (ap_ws_handlers ap)\<rparr>))))"

fun resolve_pipeline :: "pipeline_step list \<Rightarrow> (string, byte_transform) hashmap \<Rightarrow> byte_transform list option" where
  "resolve_pipeline [] reg = Some []"
| "resolve_pipeline (s # ss) reg =
     (case hm_get reg (pipeline_step_transform s) of
        Some t \<Rightarrow> map_option ((#) t) (resolve_pipeline ss reg)
      | None \<Rightarrow> None)"

definition start_tcp_listener :: "listener_config \<Rightarrow> 'w application \<Rightarrow> ('w started \<times> 'w application) res" where
  "start_tcp_listener l ap =
     (case hm_get (ap_tcp_handlers ap) (listener_name l) of
        None \<Rightarrow> Ok (SkippedListener (listener_name l), ap)
      | Some handler \<Rightarrow>
          (let ap1 = ap\<lparr>ap_tcp_handlers := hm_remove (listener_name l) (ap_tcp_handlers ap)\<rparr>; tcp_opts = tcp_options_of l
           in case resolve_pipeline (tcp_listener_options_pipeline tcp_opts) (ap_transforms ap) of
                None \<Rightarrow> Ok (SkippedListener (listener_name l), ap1)
              | Some pipeline \<Rightarrow>
                  Ok (StartedTcp (with_middlewares (ap_tcp_middlewares ap) (with_pipeline pipeline
                        (with_max_frame_size (unat (tcp_listener_options_max_frame_size tcp_opts))
                          (tcp_server_new (listener_bind l) (listener_name l) handler)))), ap1)))"

text \<open>The health service comes first; \<open>GrpcServer\<close> is tonic's.\<close>

definition start_grpc_listener :: "listener_config \<Rightarrow> 'w application \<Rightarrow> ('w started \<times> 'w application) res" where
  "start_grpc_listener l ap =
     Ok (StartedGrpc (listener_bind l) (fold (\<lambda>f r. f r) (taken (listener_name l) (ap_grpc_services ap)) [''grpc.health.v1.Health'']),
         ap\<lparr>ap_grpc_services := hm_remove (listener_name l) (ap_grpc_services ap)\<rparr>)"

text \<open>The registrations run in a task of the runtime.\<close>

fun register_services :: "(string \<times> 'w service_fn) list \<Rightarrow> 'w services \<Rightarrow> 'w services res" where
  "register_services [] s = Ok s"
| "register_services ((name, svc_fn) # es) s = bind_res (register_raw True name svc_fn s) (register_services es)"

definition start_trpc_listener :: "'w rt_env \<Rightarrow> listener_config \<Rightarrow> 'w application \<Rightarrow> ('w started \<times> 'w application) res" where
  "start_trpc_listener env l ap =
     bind_res (register_services (taken (listener_name l) (ap_trpc_services ap)) Map.empty) (\<lambda>services.
       Ok (StartedTrpc (with_max_frame_size (unat (tcp_listener_options_max_frame_size (tcp_options_of l)))
             (tcp_server_new (listener_bind l) (listener_name l) (trpc_handler (he_json (re_http env)) (re_spawn env) services))),
           ap\<lparr>ap_trpc_services := hm_remove (listener_name l) (ap_trpc_services ap)\<rparr>))"

definition start_listener ::
  "'w rt_env \<Rightarrow> app_state \<Rightarrow> listener_config \<Rightarrow> 'w application \<Rightarrow> ('w started \<times> 'w application) res" where
  "start_listener env state l ap =
     (case listener_protocol l of
        Http \<Rightarrow> start_http_listener env state l ap
      | Tcp \<Rightarrow> start_tcp_listener l ap
      | Grpc \<Rightarrow> start_grpc_listener l ap
      | Trpc \<Rightarrow> start_trpc_listener env l ap)"

fun start_listeners ::
  "'w rt_env \<Rightarrow> app_state \<Rightarrow> listener_config list \<Rightarrow> 'w application \<Rightarrow> ('w started list \<times> 'w application) res" where
  "start_listeners env state [] ap = Ok ([], ap)"
| "start_listeners env state (l # ls) ap =
     bind_res (start_listener env state l ap) (\<lambda>(x, ap1).
     bind_res (start_listeners env state ls ap1) (\<lambda>(xs, ap2). Ok (x # xs, ap2)))"

definition with_tcp_audit :: "'w rt_env \<Rightarrow> app_state \<Rightarrow> 'w application \<Rightarrow> 'w application" where
  "with_tcp_audit env state ap =
     (case state_audit state of
        Some audit \<Rightarrow> ap\<lparr>ap_tcp_middlewares := ap_tcp_middlewares ap @ [audit_tcp_middleware (re_http env) audit]\<rparr>
      | None \<Rightarrow> ap)"

text \<open>\<open>run\<close> up to the wait for the shutdown.\<close>

definition app_startup :: "'w rt_env \<Rightarrow> instant \<Rightarrow> 'w application \<Rightarrow> (app_state \<times> 'w started list \<times> 'w application) res" where
  "app_startup env now ap =
     bind_res (setup_cluster env ap) (\<lambda>ap.
     bind_res (build_with_plugins env now ap) (\<lambda>(plugin_state, ap).
       let state = runtime_state ap plugin_state
       in bind_res (start_listeners env state (net_listeners (plugins_net (rinfra_plugins (ap_config ap))))
                      (with_tcp_audit env state ap)) (\<lambda>(started, ap).
          Ok (state, started, ap))))"

section \<open>Shutting down\<close>

text \<open>The time limit of \<open>wait_all_closed\<close>, when there is anything to wait for.\<close>

definition drain_ws_connections :: "nat \<Rightarrow> shutdown_config \<Rightarrow> u64 option" where
  "drain_ws_connections active cfg = (if 0 < active then Some (shutdown_grace_period_secs cfg) else None)"

definition graceful_shutdown :: "'w hook_runner \<Rightarrow> plugin_registry \<Rightarrow> shutdown_config \<Rightarrow> 'w \<Rightarrow> unit res \<times> 'w" where
  "graceful_shutdown run reg cfg w =
     (case shutdown_all run (shutdown_component_timeout_secs cfg) reg w of
        (Inl (Panic m), _, w1) \<Rightarrow> (Inl (Panic m), w1)
      | (_, _, w1) \<Rightarrow> (Ok (), w1))"

text \<open>\<open>serving\<close> is what happens between the start and the end of the drain, \<open>flush\<close> the export of the
  remaining traces.\<close>

definition app_run ::
  "'w rt_env \<Rightarrow> 'w hook_runner \<Rightarrow> (app_state \<Rightarrow> 'w started list \<Rightarrow> 'w \<Rightarrow> nat \<times> 'w) \<Rightarrow> (u64 option \<Rightarrow> 'w \<Rightarrow> 'w) \<Rightarrow>
    ('w \<Rightarrow> 'w) \<Rightarrow> instant \<Rightarrow> 'w application \<Rightarrow> 'w \<Rightarrow> unit res \<times> 'w" where
  "app_run env run serving drain flush now ap w =
     (case app_startup env now ap of
        Inl e \<Rightarrow> (Inl e, w)
      | Inr (state, started, ap1) \<Rightarrow>
          (let cfg = runtime_shutdown (rinfra_runtime (ap_config ap1));
               (active, w1) = serving state started w;
               w2 = drain (drain_ws_connections active cfg) w1
           in case graceful_shutdown run (ap_registry ap1) cfg w2 of
                (Inl e, w3) \<Rightarrow> (Inl e, w3)
              | (Inr _, w3) \<Rightarrow> (Ok (), if ap_otel_guard ap1 then flush w3 else w3)))"

end
