(* ===== verification/Listeners.thy ===== *)
theory Listeners
  imports Runtime Startup
begin

text \<open>
  What the runtime starts, compared with what the configuration and the builder ask for, and the
  types of what a started application keeps in its state.
\<close>

section \<open>The specification\<close>

text \<open>\<open>pre\<close> are the listeners before \<open>l\<close>: what was registered under a name goes to the first listener of
  its protocol with that name, the routers of the plugins to the first HTTP listener.\<close>

definition claimed :: "listener_protocol \<Rightarrow> listener_config list \<Rightarrow> string \<Rightarrow> bool" where
  "claimed p pre name \<longleftrightarrow> (\<exists>k\<in>set pre. listener_protocol k = p \<and> listener_name k = name)"

definition left_for :: "listener_protocol \<Rightarrow> listener_config list \<Rightarrow> string \<Rightarrow> (string, 'a) hashmap \<Rightarrow> 'a option" where
  "left_for p pre name m = (if claimed p pre name then None else hm_get m name)"

definition routers_left :: "listener_config list \<Rightarrow> string \<Rightarrow> (string, 'w http_router_fn list) hashmap \<Rightarrow> 'w http_router_fn list option" where
  "routers_left pre name m =
     (if claimed Http pre name \<or> name = plugin_router_key \<and> (\<exists>k\<in>set pre. listener_protocol k = Http)
      then None else hm_get m name)"

definition listed :: "'a list option \<Rightarrow> 'a list" where
  "listed x = (case x of Some xs \<Rightarrow> xs | None \<Rightarrow> [])"

definition paths_of :: "'w axum_router res \<Rightarrow> string list" where
  "paths_of r = (case r of Inr x \<Rightarrow> map fst (ax_routes x) | Inl _ \<Rightarrow> [])"

definition served_paths :: "'w http_server \<Rightarrow> string list" where
  "served_paths s = (case hsv_extra_router s of Some r \<Rightarrow> map fst (ax_routes r) | None \<Rightarrow> [])"

text \<open>A listener that is itself called \<open>__plugin__\<close> takes those routers as its own.\<close>

definition expected_paths :: "app_state \<Rightarrow> 'w application \<Rightarrow> listener_config list \<Rightarrow> listener_config \<Rightarrow> string list" where
  "expected_paths state ap pre l =
     (if listener_name l = plugin_router_key then []
      else concat (map (\<lambda>f. paths_of (f state)) (listed (routers_left pre plugin_router_key (ap_http_routers ap))))) @
     concat (map (\<lambda>f. paths_of (f state)) (listed (routers_left pre (listener_name l) (ap_http_routers ap)))) @
     (if health_enabled (plugins_health (rinfra_plugins (ap_config ap))) then [''/healthz'', ''/readyz''] else []) @
     (if left_for Http pre (listener_name l) (ap_ws_handlers ap) \<noteq> None \<and>
         ws_options_enabled (http_listener_options_ws (http_options_of l)) then [''/ws''] else [])"

definition expected_tcp :: "'w application \<Rightarrow> listener_config list \<Rightarrow> listener_config \<Rightarrow> 'w started" where
  "expected_tcp ap pre l =
     (case (left_for Tcp pre (listener_name l) (ap_tcp_handlers ap),
            resolve_pipeline (tcp_listener_options_pipeline (tcp_options_of l)) (ap_transforms ap)) of
        (Some h, Some pipeline) \<Rightarrow>
          StartedTcp \<lparr>ts_bind_addr = listener_bind l, ts_listener_name = listener_name l, ts_handler = h,
            ts_max_frame_size = unat (tcp_listener_options_max_frame_size (tcp_options_of l)), ts_pipeline = pipeline,
            ts_middlewares = sort_key tmw_order (ap_tcp_middlewares ap)\<rparr>
      | _ \<Rightarrow> SkippedListener (listener_name l))"

definition as_configured :: "'w rt_env \<Rightarrow> app_state \<Rightarrow> 'w application \<Rightarrow> listener_config list \<Rightarrow> listener_config \<Rightarrow> 'w started \<Rightarrow> bool" where
  "as_configured env state ap pre l x \<longleftrightarrow>
     (case listener_protocol l of
        Http \<Rightarrow> \<exists>server. x = StartedHttp (listener_name l) server \<and> hsv_bind_addr server = listener_bind l \<and>
          hsv_middleware server = middleware_registry env state l ap \<and>
          served_paths server = expected_paths state ap pre l
      | Tcp \<Rightarrow> x = expected_tcp ap pre l
      | Grpc \<Rightarrow> x = StartedGrpc (listener_bind l)
          (fold (\<lambda>f. f) (listed (left_for Grpc pre (listener_name l) (ap_grpc_services ap))) [''grpc.health.v1.Health''])
      | Trpc \<Rightarrow> listed (left_for Trpc pre (listener_name l) (ap_trpc_services ap)) = [] \<and>
          (\<exists>server. x = StartedTrpc server \<and> ts_bind_addr server = listener_bind l))"

section \<open>What starting a listener takes away\<close>

definition left_after :: "listener_config list \<Rightarrow> 'w application \<Rightarrow> 'w application \<Rightarrow> bool" where
  "left_after pre ap0 ap \<longleftrightarrow>
     ap_config ap = ap_config ap0 \<and> ap_transforms ap = ap_transforms ap0 \<and>
     ap_http_middlewares ap = ap_http_middlewares ap0 \<and> ap_tcp_middlewares ap = ap_tcp_middlewares ap0 \<and>
     (\<forall>n. hm_get (ap_http_routers ap) n = routers_left pre n (ap_http_routers ap0)) \<and>
     (\<forall>n. hm_get (ap_ws_handlers ap) n = left_for Http pre n (ap_ws_handlers ap0)) \<and>
     (\<forall>n. hm_get (ap_tcp_handlers ap) n = left_for Tcp pre n (ap_tcp_handlers ap0)) \<and>
     (\<forall>n. hm_get (ap_grpc_services ap) n = left_for Grpc pre n (ap_grpc_services ap0)) \<and>
     (\<forall>n. hm_get (ap_trpc_services ap) n = left_for Trpc pre n (ap_trpc_services ap0))"

lemma left_after_Nil: "left_after [] ap ap"
  by (simp add: left_after_def routers_left_def left_for_def claimed_def)

lemma claimed_snoc:
  "claimed p (pre @ [l]) n \<longleftrightarrow> claimed p pre n \<or> listener_protocol l = p \<and> listener_name l = n"
  by (auto simp: claimed_def)

lemma left_for_snoc:
  "left_for p (pre @ [l]) n m = (if listener_protocol l = p \<and> listener_name l = n then None else left_for p pre n m)"
  by (simp add: left_for_def claimed_snoc)

lemma routers_left_snoc:
  "routers_left (pre @ [l]) n m =
     (if listener_protocol l = Http \<and> (listener_name l = n \<or> n = plugin_router_key) then None else routers_left pre n m)"
  by (auto simp: routers_left_def claimed_snoc)

lemma registered_services: "register_services es s = Ok s' \<Longrightarrow> es = [] \<and> s' = s"
  by (cases es) (auto simp: register_raw_def)

lemma taken_listed: "taken k m = listed (hm_get m k)"
  by (simp add: taken_def listed_def)

text \<open>Merging keeps every path once, in order.\<close>

definition known_paths :: "'w axum_router option \<Rightarrow> string list" where
  "known_paths m = (case m of Some r \<Rightarrow> map fst (ax_routes r) | None \<Rightarrow> [])"

lemma merge_all_paths:
  assumes "merge_all fs m = Ok m'"
  shows "known_paths m' = known_paths m @ concat (map paths_of fs)"
  using assms
proof (induction fs m rule: merge_all.induct)
  case (2 f fs merged)
  then show ?case
    by (cases f; cases merged) (auto simp: known_paths_def paths_of_def router_merge_def split: if_splits)
qed simp

lemma http_paths:
  assumes "left_after pre ap0 ap"
  shows "concat (map paths_of (http_routes env state l ap)) = expected_paths state ap0 pre l"
proof -
  note L = assms [unfolded left_after_def]
  have "paths_of (Ok (health_routes env state)) = [''/healthz'', ''/readyz'']"
    "paths_of (Ok (ws_router env opts h)) = [''/ws'']" for opts h
    by (simp_all add: paths_of_def health_routes_def ws_router_def)
  then show ?thesis
    using L by (auto simp: http_routes_def expected_paths_def Let_def taken_listed comp_def listed_def split: option.splits)
qed

lemma http_step:
  assumes "left_after pre ap0 ap" and "listener_protocol l = Http"
    and "start_http_listener env state l ap = Ok (x, ap1)"
  shows "left_after (pre @ [l]) ap0 ap1 \<and> as_configured env state ap0 pre l x"
proof -
  obtain merged where m: "merge_all (http_routes env state l ap) None = Ok merged"
    using assms(3) by (auto simp: start_http_listener_def Let_def bind_res_Inr_iff)
  have paths: "known_paths merged = expected_paths state ap0 pre l"
    using merge_all_paths [OF m] http_paths [OF assms(1), of env state l] by (simp add: known_paths_def)
  have mws: "middleware_registry env state l ap = middleware_registry env state l ap0"
    using assms(1) by (simp add: middleware_registry_def left_after_def)
  have "x = StartedHttp (listener_name l) ((http_server_new (listener_bind l))\<lparr>hsv_middleware := middleware_registry env state l ap0,
      hsv_extra_router := merged\<rparr>)"
    using assms(3) by (cases merged) (auto simp: start_http_listener_def Let_def m mws merge_router_def http_server_new_def)
  then have "as_configured env state ap0 pre l x"
    using paths assms(2) by (simp add: as_configured_def served_paths_def known_paths_def http_server_new_def)
  moreover have "ap1 = ap\<lparr>ap_http_routers := hm_remove plugin_router_key (hm_remove (listener_name l) (ap_http_routers ap)),
      ap_ws_handlers := hm_remove (listener_name l) (ap_ws_handlers ap)\<rparr>"
    using assms(3) by (auto simp: start_http_listener_def Let_def m bind_res_Inr_iff)
  then have "left_after (pre @ [l]) ap0 ap1"
    using assms(1,2) by (simp add: left_after_def left_for_snoc routers_left_snoc)
  ultimately show ?thesis by simp
qed

lemma tcp_step:
  assumes "left_after pre ap0 ap" and "listener_protocol l = Tcp" and "start_tcp_listener l ap = Ok (x, ap1)"
  shows "left_after (pre @ [l]) ap0 ap1 \<and> as_configured env state ap0 pre l x"
proof -
  note L = assms(1) [unfolded left_after_def]
  have h: "hm_get (ap_tcp_handlers ap) (listener_name l) = left_for Tcp pre (listener_name l) (ap_tcp_handlers ap0)"
    using L by blast
  have "as_configured env state ap0 pre l x"
    using L assms(2,3)
    by (auto simp: start_tcp_listener_def as_configured_def expected_tcp_def h Let_def with_middlewares_def with_pipeline_def
        with_max_frame_size_def tcp_server_new_def split: option.splits)
  moreover have "left_after (pre @ [l]) ap0 ap1"
    using L assms(2,3)
    by (auto simp: start_tcp_listener_def left_after_def left_for_snoc routers_left_snoc h Let_def split: option.splits)
  ultimately show ?thesis by simp
qed

lemma grpc_step:
  assumes "left_after pre ap0 ap" and "listener_protocol l = Grpc" and "start_grpc_listener l ap = Ok (x, ap1)"
  shows "left_after (pre @ [l]) ap0 ap1 \<and> as_configured env state ap0 pre l x"
  using assms
  by (auto simp: start_grpc_listener_def as_configured_def left_after_def left_for_snoc routers_left_snoc taken_listed)

lemma trpc_step:
  assumes "left_after pre ap0 ap" and "listener_protocol l = Trpc" and "start_trpc_listener env l ap = Ok (x, ap1)"
  shows "left_after (pre @ [l]) ap0 ap1 \<and> as_configured env state ap0 pre l x"
proof -
  have "taken (listener_name l) (ap_trpc_services ap) = []"
    using assms(3) by (auto simp: start_trpc_listener_def bind_res_Inr_iff dest: registered_services)
  then show ?thesis
    using assms
    by (auto simp: start_trpc_listener_def bind_res_Inr_iff as_configured_def left_after_def left_for_snoc routers_left_snoc taken_listed
        with_max_frame_size_def tcp_server_new_def)
qed

lemma listener_step:
  assumes "left_after pre ap0 ap" and "start_listener env state l ap = Ok (x, ap1)"
  shows "left_after (pre @ [l]) ap0 ap1 \<and> as_configured env state ap0 pre l x"
  using assms(2) http_step [OF assms(1)] tcp_step [OF assms(1)] grpc_step [OF assms(1)] trpc_step [OF assms(1)]
  by (cases "listener_protocol l") (simp_all add: start_listener_def)

lemma listeners_from:
  assumes "start_listeners env state ls ap = Ok (xs, ap')" and "left_after pre ap0 ap"
  shows "length xs = length ls \<and> (\<forall>i<length ls. as_configured env state ap0 (pre @ take i ls) (ls ! i) (xs ! i))"
  using assms
proof (induction ls arbitrary: pre ap xs)
  case (Cons l ls)
  obtain x ap1 ys where s: "start_listener env state l ap = Ok (x, ap1)"
    "start_listeners env state ls ap1 = Ok (ys, ap')" "xs = x # ys"
    using Cons.prems(1) by (auto simp: bind_res_Inr_iff)
  have step: "left_after (pre @ [l]) ap0 ap1" "as_configured env state ap0 pre l x"
    using listener_step [OF Cons.prems(2) s(1)] by auto
  have "as_configured env state ap0 (pre @ take i (l # ls)) ((l # ls) ! i) (xs ! i)" if "i < length (l # ls)" for i
    using that step(2) Cons.IH [OF s(2) step(1)] by (cases i) (auto simp: s(3))
  then show ?case using Cons.IH [OF s(2) step(1)] by (simp add: s(3))
qed simp

section \<open>Properties\<close>


text \<open>An application with two TCP listeners of one name; the plugins are those of a start without a network.\<close>

definition demo_rt :: "unit rt_env" where
  "demo_rt =
     \<lparr>re_http = demo_http, re_plugins = offline_env,
      re_compress = \<lparr>gz_write_all = Inr, gz_finish = Inr, gz_read_to_end = Inr, lz_compress = (\<lambda>d. d), lz_decompress = Inr\<rparr>,
      re_host = ''host'', re_vars = [], re_exists = (\<lambda>_. False), re_read = (\<lambda>_. Inl []), re_yaml = (\<lambda>_. Inl []),
      re_serde_error = (\<lambda>_. []), re_hostname = ''box'', re_uuid = ''id'', re_telemetry = (\<lambda>_ _. Ok False),
      re_observability = (\<lambda>_. Ok ()), re_metrics = Ok (), re_join = (\<lambda>_. (None, None, Ack (RegisterAck True None))),
      re_plugin_route = (\<lambda>_. not_found), re_probes = demo_probes, re_ws_upgrade = (\<lambda>_ _. not_found),
      re_spawn = (\<lambda>_ _ w. w)\<rparr>"

definition game_listener :: "string \<Rightarrow> listener_config" where
  "game_listener addr =
     \<lparr>listener_name = ''game'', listener_protocol = Tcp, listener_bind = addr, listener_http = None, listener_tcp = None\<rparr>"

definition game_handler :: "(tcp_context, unit) tcp_handler" where
  "game_handler = \<lparr>th_on_connect = (\<lambda>_ w. (Ok (), w)), th_on_message = (\<lambda>_ d w. (Ok (Some d), w)),
     th_on_disconnect = (\<lambda>_ w. (Ok (), w))\<rparr>"

definition demo_builder :: "unit app_builder" where
  "demo_builder = with_tcp_handler ''game'' game_handler (with_config (two_level_config False) app_builder_new)"

definition demo_application :: "unit application" where
  "demo_application =
     \<lparr>ap_config = two_level_config False, ap_registry = registry_new, ap_plugins = builtin_plugins offline_env,
      ap_http_routers = [], ap_ws_handlers = [], ap_tcp_handlers = [(''game'', game_handler)], ap_grpc_services = [],
      ap_trpc_services = [], ap_node_metadata = [], ap_cluster_registry = False, ap_cluster_node_list = False,
      ap_transforms = [], ap_http_middlewares = [], ap_tcp_middlewares = [], ap_metrics_handle = False,
      ap_otel_guard = False\<rparr>"

lemma demo_listeners_start:
  "\<exists>xs ap'. start_listeners demo_rt (app_state_new (two_level_config False) 0)
     [game_listener ''0.0.0.0:1'', game_listener ''0.0.0.0:2''] demo_application = Ok (xs, ap')"
  by (simp add: start_listener_def start_tcp_listener_def game_listener_def demo_application_def tcp_options_of_def
      tcp_listener_options_default_def Let_def hm_get_def hm_remove_def)


section \<open>The types in the state\<close>

text \<open>What the interface of the context allows a plugin: it changes the map of components through
  \<open>set\<close> only, which files a value under its own type.\<close>

definition keeps_types :: "plugin \<Rightarrow> bool" where
  "keeps_types p \<longleftrightarrow> (\<forall>ctx. ctx_ok ctx \<longrightarrow> ctx_ok (snd (pl_build p ctx)))"

lemma builtin_keeps_types: "p \<in> set (builtin_plugins env) \<Longrightarrow> keeps_types p"
  using undisturbed_all [of env] by (auto simp: undisturbed_def list_all_iff frames_def keeps_types_def)

lemma build_keeps_types:
  "\<forall>p\<in>set ps. keeps_types p \<Longrightarrow> ctx_ok ctx \<Longrightarrow> ctx_ok (snd (build_plugins ps ctx))"
proof (induction ps arbitrary: ctx)
  case (Cons p ps)
  obtain r c where b: "pl_build p ctx = (r, c)" by (cases "pl_build p ctx")
  have "ctx_ok c" using Cons.prems b unfolding keeps_types_def by (metis list.set_intros(1) snd_conv)
  then show ?case using Cons b by (cases r) (simp_all add: ctx_simps)
qed simp

lemma tm_ok_insert_all:
  "tm_ok m \<Longrightarrow> \<forall>(k, v)\<in>set es. type_of v = k \<Longrightarrow> tm_ok (fold (\<lambda>(k, v). hm_insert k v) es m)"
proof (induction es arbitrary: m)
  case (Cons e es)
  obtain k v where e: "e = (k, v)" by (cases e)
  then have "hm_insert k v m = tm_set v m" using Cons.prems(2) by (simp add: tm_set_def)
  then show ?case using Cons e tm_ok_set [OF Cons.prems(1), of v] by simp
qed simp

lemma parts_well_typed:
  assumes "ctx_ok ctx"
  shows "tm_ok (as_extensions (fst (into_app_parts ctx now)))"
proof -
  have "tm_ok (as_extensions (if codec_list_names (pc_codecs ctx) = [] then app_state_new (pc_config ctx) now
      else state_set (CodecsComp (pc_codecs ctx)) (app_state_new (pc_config ctx) now)))"
    by (simp add: app_state_new_def state_set_def tm_ok_set tm_ok_Nil)
  moreover have "\<forall>(k, v)\<in>set (pc_extensions ctx). type_of v = k"
    using assms by (simp add: ctx_ok_def tm_ok_def)
  ultimately show ?thesis by (simp add: into_app_parts_def Let_def tm_ok_insert_all)
qed

lemma runtime_state_typed: "tm_ok (as_extensions st) \<Longrightarrow> tm_ok (as_extensions (runtime_state ap st))"
  by (simp add: runtime_state_def Let_def state_set_def tm_ok_set)

lemma setup_keeps_plugins: "setup_cluster env ap = Ok ap1 \<Longrightarrow> ap_plugins ap1 = ap_plugins ap"
  by (auto simp: setup_cluster_def setup_main_cluster_def setup_worker_cluster_def Let_def bind_res_Inr_iff
      split: if_splits prod.splits)

lemma built_well_typed:
  assumes "build_with_plugins env now ap = Ok (st, ap1)" and "\<forall>p\<in>set (ap_plugins ap). keeps_types p"
  shows "tm_ok (as_extensions st)"
proof -
  let ?ctx = "snd (build_plugins (ap_plugins ap) (context_new (ap_config ap)))"
  have ok: "ctx_ok ?ctx" by (rule build_keeps_types [OF assms(2)]) (rule context_new_empty)
  obtain r c where b: "build_plugins (ap_plugins ap) (context_new (ap_config ap)) = (r, c)"
    by (cases "build_plugins (ap_plugins ap) (context_new (ap_config ap))")
  obtain st' routers where p: "into_app_parts (c\<lparr>pc_manifests := [], pc_hooks := []\<rparr>) now = (st', routers)"
    by (cases "into_app_parts (c\<lparr>pc_manifests := [], pc_hooks := []\<rparr>) now")
  have "st = fst (into_app_parts (?ctx\<lparr>pc_manifests := [], pc_hooks := []\<rparr>) now)"
    using assms(1) by (cases r) (simp_all add: build_with_plugins_def build_all_def b p)
  moreover have "ctx_ok (?ctx\<lparr>pc_manifests := [], pc_hooks := []\<rparr>)" using ok by (simp add: ctx_ok_def)
  ultimately show ?thesis using parts_well_typed by metis
qed


text \<open>A start without a network, with one more plugin.\<close>

definition extra_plugin :: plugin where
  "extra_plugin = \<lparr>pl_manifest = manifest_new ''extra'' ''1'' [], pl_build = (\<lambda>ctx. (Ok (), ctx_set (OtherComp ''Extra'' JNull) ctx))\<rparr>"

lemma demo_builds:
  "\<exists>ap. builder_build demo_rt (with_plugin extra_plugin demo_builder) = Ok ap \<and>
    ap_plugins ap = builtin_plugins offline_env @ [extra_plugin] \<and> ap_config ap = two_level_config False \<and>
    ap_registry ap = registry_new"
  by (simp add: builder_build_def settle_config_def demo_builder_def demo_rt_def with_plugin_def with_config_def
      with_tcp_handler_def app_builder_new_def builtin_compressors_def transform_register_def register_named_def
      compressor_transform_def lz4_compressor_def gzip_compressor_def two_level_config_def rinfra_config_default_def
      plugin_configs_default_def metrics_config_default_def default_false_def Let_def hm_contains_def)

lemma demo_plugins_build:
  "fst (build_plugins (builtin_plugins offline_env @ [extra_plugin]) (context_new (two_level_config False))) = Ok ()"
proof -
  have "fst (build_all (builtin_plugins offline_env) registry_new (context_new (two_level_config False))) = Ok ()"
    by (simp add: starts_iff [OF offline_calm] two_level_can_start)
  then show ?thesis by (simp add: build_all_ok build_ok_append extra_plugin_def)
qed

lemma standalone_config:
  "\<not> is_cluster (plugins_cluster (rinfra_plugins (two_level_config False)))"
  "net_listeners (plugins_net (rinfra_plugins (two_level_config False))) = []"
  by (simp_all add: two_level_config_def rinfra_config_default_def plugin_configs_default_def cluster_plugin_configs_default_def
      net_plugin_configs_default_def is_cluster_def default_cluster_mode_def Let_def)

lemma demo_starts:
  assumes "ap_plugins ap = builtin_plugins offline_env @ [extra_plugin]" and "ap_config ap = two_level_config False"
    and "ap_registry ap = registry_new"
  shows "\<exists>st xs ap'. app_startup env now ap = Ok (st, xs, ap')"
proof -
  obtain r c where b: "build_plugins (builtin_plugins offline_env @ [extra_plugin]) (context_new (two_level_config False)) = (r, c)"
    by (cases "build_plugins (builtin_plugins offline_env @ [extra_plugin]) (context_new (two_level_config False))")
  then have "r = Ok ()" using demo_plugins_build by simp
  moreover obtain st' routers where p: "into_app_parts (c\<lparr>pc_manifests := [], pc_hooks := []\<rparr>) now = (st', routers)"
    by (cases "into_app_parts (c\<lparr>pc_manifests := [], pc_hooks := []\<rparr>) now")
  ultimately show ?thesis
    by (simp add: app_startup_def setup_cluster_def build_with_plugins_def build_all_def assms b p standalone_config Let_def)
qed


section \<open>Limits\<close>

text \<open>An application with a service for a light RPC listener does not start: \<open>register_raw\<close> panics.\<close>

lemma trpc_service_panics:
  assumes "listener_protocol l = Trpc" and "hm_get (ap_trpc_services ap) (listener_name l) = Some (e # es)"
  shows "\<exists>m. start_listeners env state (l # ls) ap = Inl (Panic m)"
  using assms
  by (cases e) (simp add: start_listener_def start_trpc_listener_def taken_def register_raw_def)

end
