(* ===== verification/Admin_Api.thy ===== *)
theory Admin_Api
  imports Admin_Tokens Plugins Http_Middleware Cluster Config_Env
begin

text \<open>
  The admin service: \<open>rinfra-admin/backend/src/lib.rs\<close>, \<open>routes.rs\<close> (the routes for tokens are in
  \<open>Admin_Tokens\<close>) and \<open>extensions.rs\<close>. Handlers give the value whose JSON is sent. The reading of
  Prometheus text is modelled in full, with the places where slicing a line panics.
\<close>

section \<open>What the handlers report\<close>

record system_info =
  si_name :: string
  si_version :: string
  si_rust_version :: string
  si_os :: string
  si_arch :: string

record component_health =
  ch_cache :: bool
  ch_store :: bool
  ch_message_bus :: bool
  ch_ratelimiter :: bool

record admin_health =
  ah_status :: string
  ah_uptime_secs :: u64
  ah_components :: component_health

record listener_summary =
  ls_name :: string
  ls_protocol :: string
  ls_bind :: string

record config_summary =
  cs_app_name :: string
  cs_app_version :: string
  cs_listeners :: "listener_summary list"
  cs_cluster_mode :: string
  cs_cluster_role :: string
  cs_plugins_enabled :: "string list"

record plugin_info =
  pi_name :: string
  pi_category :: string
  pi_status :: string

record cluster_node_info =
  cn_id :: string
  cn_role :: string
  cn_status :: string
  cn_endpoints :: "(string \<times> string) list"
  cn_metadata :: metadata

record cluster_node_view =
  cv_mode :: string
  cv_nodes :: "cluster_node_info list"

record cache_get_result =
  cg_key :: string
  cg_found :: bool
  cg_value :: "string option"

record menu_entry =
  me_path :: string
  me_name :: string
  me_icon :: string
  me_category :: string
  me_data_url :: string

text \<open>What the build and the running components give the handlers.\<close>

record 'w api_env =
  ae_build :: system_info
  ae_now :: "'w \<Rightarrow> instant"
  ae_nodes :: "string \<Rightarrow> 'w \<Rightarrow> node_info list res \<times> 'w"
  ae_cache_get :: "cache_obj \<Rightarrow> string \<Rightarrow> 'w \<Rightarrow> bytes option res \<times> 'w"
  ae_utf8 :: "bytes \<Rightarrow> string option"
  ae_render :: "'w \<Rightarrow> string"

section \<open>Handlers\<close>

definition info_handler :: "'w api_env \<Rightarrow> system_info api_response" where
  "info_handler env = api_success (ae_build env)"

definition admin_health_handler :: "'w api_env \<Rightarrow> app_state \<Rightarrow> 'w \<Rightarrow> admin_health api_response" where
  "admin_health_handler env state w =
     api_success \<lparr>ah_status = ''healthy'', ah_uptime_secs = of_nat (uptime_secs state (ae_now env w)),
       ah_components = \<lparr>ch_cache = state_get TCache state \<noteq> None, ch_store = state_get TStore state \<noteq> None,
         ch_message_bus = state_get TMessageBus state \<noteq> None, ch_ratelimiter = state_get TRateLimiter state \<noteq> None\<rparr>\<rparr>"

definition when_on :: "bool \<Rightarrow> string \<Rightarrow> string list" where
  "when_on b s = (if b then [s] else [])"

definition build_plugins_enabled :: "rinfra_config \<Rightarrow> string list" where
  "build_plugins_enabled config =
     (let p = rinfra_plugins config in
      when_on (stdout_log_enabled (logs_stdout (plugins_log p))) ''log.stdout'' @
      when_on (memory_cache_enabled (caches_memory (plugins_cache p))) ''cache.memory'' @
      when_on (redis_cache_enabled (caches_redis (plugins_cache p))) ''cache.redis'' @
      when_on (multilevel_cache_enabled (caches_multilevel (plugins_cache p))) ''cache.multilevel'' @
      map (\<lambda>l. ''net.'' @ listener_name l @ '' ('' @ listener_bind l @ '')'') (net_listeners (plugins_net p)) @
      when_on (postgres_enabled (stores_postgres (plugins_store p))) ''store.postgres'' @
      when_on (memory_rate_limit_enabled (rate_limits_memory (plugins_ratelimit p))) ''ratelimit.memory'' @
      when_on (redis_rate_limit_enabled (rate_limits_redis (plugins_ratelimit p))) ''ratelimit.redis'' @
      when_on (aes_gcm_enabled (cryptos_aesgcm (plugins_crypto p))) ''crypto.aesgcm'' @
      when_on (rotating_key_enabled (cryptos_rotating (plugins_crypto p))) ''crypto.rotating'' @
      when_on (file_key_enabled (cryptos_file (plugins_crypto p))) ''crypto.file'' @
      (case mqs_backend (plugins_mq p) of
         Memory \<Rightarrow> [''mq.memory''] | Nats \<Rightarrow> [''mq.nats''] | RedisStreams \<Rightarrow> [''mq.redis_streams''] | NoMq \<Rightarrow> []) @
      when_on (wasm_script_enabled (scripts_wasm (plugins_script p))) ''script.wasm'' @
      when_on (is_cluster (plugins_cluster p)) ''cluster'')"

definition protocol_debug :: "listener_protocol \<Rightarrow> string" where
  "protocol_debug p = (case p of Http \<Rightarrow> ''Http'' | Tcp \<Rightarrow> ''Tcp'' | Grpc \<Rightarrow> ''Grpc'' | Trpc \<Rightarrow> ''Trpc'')"

definition config_handler :: "app_state \<Rightarrow> config_summary api_response" where
  "config_handler state =
     (let c = as_config state; p = rinfra_plugins c
      in api_success \<lparr>cs_app_name = app_name (rinfra_app c), cs_app_version = app_version (rinfra_app c),
           cs_listeners = map (\<lambda>l. \<lparr>ls_name = listener_name l, ls_protocol = protocol_debug (listener_protocol l),
                                    ls_bind = listener_bind l\<rparr>) (net_listeners (plugins_net p)),
           cs_cluster_mode = cluster_mode (plugins_cluster p), cs_cluster_role = cluster_role (plugins_cluster p),
           cs_plugins_enabled = build_plugins_enabled c\<rparr>)"

definition known_plugins :: "rinfra_config \<Rightarrow> (string \<times> string \<times> bool) list" where
  "known_plugins config =
     (let p = rinfra_plugins config in
      [(''log.stdout'', ''logging'', stdout_log_enabled (logs_stdout (plugins_log p))),
       (''store.postgres'', ''storage'', postgres_enabled (stores_postgres (plugins_store p))),
       (''cache.memory'', ''cache'', memory_cache_enabled (caches_memory (plugins_cache p))),
       (''cache.redis'', ''cache'', redis_cache_enabled (caches_redis (plugins_cache p))),
       (''cache.multilevel'', ''cache'', multilevel_cache_enabled (caches_multilevel (plugins_cache p))),
       (''ratelimit.memory'', ''ratelimit'', memory_rate_limit_enabled (rate_limits_memory (plugins_ratelimit p))),
       (''ratelimit.redis'', ''ratelimit'', redis_rate_limit_enabled (rate_limits_redis (plugins_ratelimit p))),
       (''crypto.aesgcm'', ''crypto'', aes_gcm_enabled (cryptos_aesgcm (plugins_crypto p))),
       (''crypto.rotating'', ''crypto'', rotating_key_enabled (cryptos_rotating (plugins_crypto p))),
       (''crypto.file'', ''crypto'', file_key_enabled (cryptos_file (plugins_crypto p))),
       (''codec.json'', ''codec'', True),
       (''codec.msgpack'', ''codec'', True),
       (''codec.protobuf'', ''codec'', True),
       (''mq.memory'', ''messaging'', mqs_backend (plugins_mq p) = Memory),
       (''script.wasm'', ''scripting'', wasm_script_enabled (scripts_wasm (plugins_script p))),
       (''cluster'', ''cluster'', is_cluster (plugins_cluster p))])"

definition plugins_handler :: "app_state \<Rightarrow> plugin_info list api_response" where
  "plugins_handler state =
     api_success (map (\<lambda>(n, c, enabled). \<lparr>pi_name = n, pi_category = c, pi_status = (if enabled then ''enabled'' else ''available'')\<rparr>)
       (known_plugins (as_config state) @
        map (\<lambda>l. (listener_name l, ''network'', True)) (net_listeners (plugins_net (rinfra_plugins (as_config state))))))"

definition node_view :: "node_info \<Rightarrow> cluster_node_info" where
  "node_view n =
     \<lparr>cn_id = ni_id n, cn_role = (case ni_role n of MainNode \<Rightarrow> ''Main'' | WorkerNode \<Rightarrow> ''Worker''),
      cn_status = (case ni_status n of Online \<Rightarrow> ''Online'' | Offline \<Rightarrow> ''Offline'' | Draining \<Rightarrow> ''Draining''),
      cn_endpoints = map (\<lambda>e. (ep_protocol e, ep_address e)) (ni_endpoints n), cn_metadata = ni_metadata n\<rparr>"

definition cluster_nodes_handler :: "'w api_env \<Rightarrow> app_state \<Rightarrow> 'w \<Rightarrow> cluster_node_view api_response res \<times> 'w" where
  "cluster_nodes_handler env state w =
     (let mode = cluster_mode (plugins_cluster (rinfra_plugins (as_config state)));
          reply = (\<lambda>nodes. Ok (api_success \<lparr>cv_mode = mode, cv_nodes = nodes\<rparr>))
      in case state_node_registry state of
           None \<Rightarrow> (reply [], w)
         | Some r \<Rightarrow>
             (case ae_nodes env r w of
                (Inr ns, w1) \<Rightarrow> (reply (map node_view ns), w1)
              | (Inl (Fail e), w1) \<Rightarrow> (reply [], w1)
              | (Inl (Panic m), w1) \<Rightarrow> (Inl (Panic m), w1)))"

definition cache_get_handler :: "'w api_env \<Rightarrow> app_state \<Rightarrow> string \<Rightarrow> 'w \<Rightarrow> cache_get_result api_response res \<times> 'w" where
  "cache_get_handler env state key w =
     (let missing = api_success \<lparr>cg_key = key, cg_found = False, cg_value = None\<rparr>
      in case state_cache state of
           None \<Rightarrow> (Ok missing, w)
         | Some cache \<Rightarrow>
             (case ae_cache_get env cache key w of
                (Inr (Some v), w1) \<Rightarrow>
                  (Ok (api_success \<lparr>cg_key = key, cg_found = True,
                     cg_value = Some (case ae_utf8 env v of Some t \<Rightarrow> t
                       | None \<Rightarrow> ''<binary '' @ show_nat (length v) @ '' bytes>'')\<rparr>), w1)
              | (Inr None, w1) \<Rightarrow> (Ok missing, w1)
              | (Inl (Fail e), w1) \<Rightarrow> (Ok missing, w1)
              | (Inl (Panic m), w1) \<Rightarrow> (Inl (Panic m), w1)))"

definition cache_flush_handler :: "app_state \<Rightarrow> string api_response" where
  "cache_flush_handler state =
     api_success (if state_get TCache state \<noteq> None then ''cache flush requested'' else ''no cache configured'')"

section \<open>Metrics\<close>

text \<open>A value of a metric; \<open>None\<close> is one that is not finite.\<close>

type_synonym metric_f64 = "rat option"

record metric_value =
  mv_labels :: "(string, string) hashmap"
  mv_value :: metric_f64

record metric_entry =
  mt_name :: string
  mt_type :: string
  mt_help :: string
  mt_values :: "metric_value list"

text \<open>\<open>str::parse::<f64>\<close>\<close>

definition parse_f64 :: "string \<Rightarrow> metric_f64 option" where
  "parse_f64 s =
     (case parse_decimal s of
        Some x \<Rightarrow> Some (to_f64 x)
      | None \<Rightarrow>
          if to_lowercase (snd (parse_sign s)) \<in> {''inf'', ''infinity'', ''nan''} then Some None else None)"

definition or_zero :: "metric_f64 option \<Rightarrow> metric_f64" where
  "or_zero v = (case v of Some x \<Rightarrow> x | None \<Rightarrow> Some 0)"

definition index_of :: "char \<Rightarrow> string \<Rightarrow> nat option" where
  "index_of c s = (if c \<in> set s then Some (length (takeWhile (\<lambda>x. x \<noteq> c) s)) else None)"

fun split_char :: "char \<Rightarrow> string \<Rightarrow> string list" where
  "split_char c [] = [[]]"
| "split_char c (x # s) =
     (if x = c then [] # split_char c s
      else case split_char c s of [] \<Rightarrow> [[x]] | p # ps \<Rightarrow> (x # p) # ps)"

definition trim_quotes :: "string \<Rightarrow> string" where
  "trim_quotes s = rev (dropWhile (\<lambda>c. c = CHR 0x22) (rev (dropWhile (\<lambda>c. c = CHR 0x22) s)))"

fun words_acc :: "string \<Rightarrow> string \<Rightarrow> string list" where
  "words_acc w [] = (if w = [] then [] else [w])"
| "words_acc w (c # s) = (if is_space c then (if w = [] then [] else [w]) @ words_acc [] s else words_acc (w @ [c]) s)"

definition split_whitespace :: "string \<Rightarrow> string list" where
  "split_whitespace s = words_acc [] s"

definition add_label :: "string \<Rightarrow> (string, string) hashmap \<Rightarrow> (string, string) hashmap" where
  "add_label pair labels =
     (let pair = trim pair
      in case index_of (CHR ''='') pair of
           Some eq \<Rightarrow> hm_insert (trim (take eq pair)) (trim_quotes (trim (drop (eq + 1) pair))) labels
         | None \<Rightarrow> labels)"

text \<open>Slicing \<open>line[brace_start + 1..brace_end]\<close> panics when the closing brace comes first, and
  \<open>line[brace_end + 1..]\<close> when there is none.\<close>

definition parse_metric_line :: "string \<Rightarrow> (string \<times> (string, string) hashmap \<times> metric_f64) res" where
  "parse_metric_line line =
     (case index_of (CHR ''{'') line of
        Some brace_start \<Rightarrow>
          (let brace_end = (case index_of (CHR ''}'') line of Some i \<Rightarrow> i | None \<Rightarrow> length line)
           in if brace_end < brace_start + 1 then Inl (Panic ''begin <= end when slicing'')
              else if length line < brace_end + 1 then Inl (Panic ''byte index is out of bounds'')
              else Ok (take brace_start line,
                     fold add_label (split_char (CHR '','') (take (brace_end - (brace_start + 1)) (drop (brace_start + 1) line))) [],
                     or_zero (parse_f64 (trim (drop (brace_end + 1) line)))))
      | None \<Rightarrow>
          (let parts = split_whitespace line
           in Ok ((case parts of p # _ \<Rightarrow> p | [] \<Rightarrow> []), [],
                  or_zero (case parts of _ # v # _ \<Rightarrow> parse_f64 v | _ \<Rightarrow> None))))"

definition strip_suffix :: "string \<Rightarrow> string \<Rightarrow> string option" where
  "strip_suffix s suf = (if suf = drop (length s - length suf) s \<and> length suf \<le> length s
     then Some (take (length s - length suf) s) else None)"

fun first_some :: "'a option list \<Rightarrow> 'a \<Rightarrow> 'a" where
  "first_some [] d = d"
| "first_some (Some x # xs) d = x"
| "first_some (None # xs) d = first_some xs d"

definition base_name :: "string \<Rightarrow> string" where
  "base_name m = first_some (map (strip_suffix m) [''_total'', ''_bucket'', ''_sum'', ''_count'']) m"

record metric_scan =
  sc_entries :: "metric_entry list"
  sc_help :: string
  sc_type :: string
  sc_name :: string

fun push_value :: "string \<Rightarrow> metric_value \<Rightarrow> metric_entry list \<Rightarrow> metric_entry list option" where
  "push_value n v [] = None"
| "push_value n v (e # es) =
     (if mt_name e = n then Some (e\<lparr>mt_values := mt_values e @ [v]\<rparr> # es) else map_option ((#) e) (push_value n v es))"

definition add_metric :: "string \<Rightarrow> metric_value \<Rightarrow> metric_scan \<Rightarrow> metric_scan" where
  "add_metric lookup_name v st =
     (case push_value lookup_name v (sc_entries st) of
        Some es \<Rightarrow> st\<lparr>sc_entries := es\<rparr>
      | None \<Rightarrow> st\<lparr>sc_entries := sc_entries st @
          [\<lparr>mt_name = lookup_name, mt_type = (if lookup_name = sc_name st then sc_type st else ''unknown''),
            mt_help = (if lookup_name = sc_name st then sc_help st else []), mt_values = [v]\<rparr>]\<rparr>)"

definition scan_line :: "string \<Rightarrow> metric_scan \<Rightarrow> metric_scan res" where
  "scan_line raw st =
     (let line = trim raw
      in if line = [] then Ok st
         else case strip_prefix line ''# HELP '' of
           Some rest \<Rightarrow>
             (case index_of (CHR '' '') rest of
                Some idx \<Rightarrow> Ok (st\<lparr>sc_name := take idx rest, sc_help := drop (idx + 1) rest\<rparr>)
              | None \<Rightarrow> Ok (st\<lparr>sc_name := rest, sc_help := []\<rparr>))
         | None \<Rightarrow>
             (case strip_prefix line ''# TYPE '' of
                Some rest \<Rightarrow>
                  (case index_of (CHR '' '') rest of
                     Some idx \<Rightarrow> Ok (st\<lparr>sc_type := drop (idx + 1) rest\<rparr>)
                   | None \<Rightarrow> Ok st)
              | None \<Rightarrow>
                  if starts_with line ''#'' then Ok st
                  else bind_res (parse_metric_line line) (\<lambda>(metric_name, labels, value).
                    let base = base_name metric_name;
                        lookup_name = (if base = sc_name st \<or> metric_name = sc_name st then sc_name st else base)
                    in Ok (add_metric lookup_name \<lparr>mv_labels = labels, mv_value = value\<rparr> st))))"

fun scan_lines :: "string list \<Rightarrow> metric_scan \<Rightarrow> metric_scan res" where
  "scan_lines [] st = Ok st"
| "scan_lines (l # ls) st = bind_res (scan_line l st) (scan_lines ls)"

definition parse_prometheus_text :: "string \<Rightarrow> metric_entry list res" where
  "parse_prometheus_text s =
     bind_res (scan_lines (str_lines s) \<lparr>sc_entries = [], sc_help = [], sc_type = [], sc_name = []\<rparr>)
       (\<lambda>st. Ok (sc_entries st))"

definition metrics_handler :: "'w api_env \<Rightarrow> app_state \<Rightarrow> 'w \<Rightarrow> metric_entry list api_response res" where
  "metrics_handler env state w =
     (if state_get (TOther ''PrometheusHandle'') state = None then Ok (api_success [])
      else bind_res (parse_prometheus_text (ae_render env w)) (\<lambda>es. Ok (api_success es)))"

definition extensions_handler :: "menu_entry list \<Rightarrow> menu_entry list api_response" where
  "extensions_handler entries = api_success entries"

section \<open>Routes\<close>

datatype api_request =
    ApiInfo | ApiHealth | ApiConfig | ApiPlugins | ApiNodes | ApiCacheGet string | ApiCacheFlush | ApiMetrics

datatype admin_body = Api api_request | TokenApi token_request | Extensions | Extra string

datatype api_reply =
    InfoReply "system_info api_response"
  | HealthReply "admin_health api_response"
  | ConfigReply "config_summary api_response"
  | PluginsReply "plugin_info list api_response"
  | NodesReply "cluster_node_view api_response"
  | CacheReply "cache_get_result api_response"
  | FlushReply "string api_response"
  | MetricsReply "metric_entry list api_response"
  | TokensReply token_reply
  | ExtensionsReply "menu_entry list api_response"
  | ExtraReply string
  | MethodNotAllowed
  | NoRoute

text \<open>The method and path under \<open>/api/admin\<close>. A pattern without a parameter goes before one with it, and
  its methods decide alone; \<open>decode\<close> is the percent decoding of a segment.\<close>

definition is_get :: "string \<Rightarrow> bool" where
  "is_get m \<longleftrightarrow> m = ''GET'' \<or> m = ''HEAD''"

definition admin_routes :: "(string \<Rightarrow> string) \<Rightarrow> string \<Rightarrow> string \<Rightarrow> api_reply + api_request" where
  "admin_routes decode m path =
     (let get = (\<lambda>r. if is_get m then Inr r else Inl MethodNotAllowed)
      in if path = ''/info'' then get ApiInfo
         else if path = ''/health'' then get ApiHealth
         else if path = ''/config'' then get ApiConfig
         else if path = ''/plugins'' then get ApiPlugins
         else if path = ''/cluster/nodes'' then get ApiNodes
         else if path = ''/metrics'' then get ApiMetrics
         else if path = ''/cache/flush'' then (if m = ''POST'' then Inr ApiCacheFlush else Inl MethodNotAllowed)
         else case strip_prefix path ''/cache/'' of
           Some key \<Rightarrow> if key \<noteq> [] \<and> CHR ''/'' \<notin> set key then get (ApiCacheGet (decode key)) else Inl NoRoute
         | None \<Rightarrow> Inl NoRoute)"

definition api_call :: "'w api_env \<Rightarrow> app_state \<Rightarrow> api_request \<Rightarrow> 'w \<Rightarrow> api_reply res \<times> 'w" where
  "api_call env state rq w =
     (case rq of
        ApiInfo \<Rightarrow> (Ok (InfoReply (info_handler env)), w)
      | ApiHealth \<Rightarrow> (Ok (HealthReply (admin_health_handler env state w)), w)
      | ApiConfig \<Rightarrow> (Ok (ConfigReply (config_handler state)), w)
      | ApiPlugins \<Rightarrow> (Ok (PluginsReply (plugins_handler state)), w)
      | ApiNodes \<Rightarrow> (case cluster_nodes_handler env state w of (r, w1) \<Rightarrow> (bind_res r (\<lambda>x. Ok (NodesReply x)), w1))
      | ApiCacheGet key \<Rightarrow> (case cache_get_handler env state key w of (r, w1) \<Rightarrow> (bind_res r (\<lambda>x. Ok (CacheReply x)), w1))
      | ApiCacheFlush \<Rightarrow> (Ok (FlushReply (cache_flush_handler state)), w)
      | ApiMetrics \<Rightarrow> (bind_res (metrics_handler env state w) (\<lambda>x. Ok (MetricsReply x)), w))"

section \<open>The builder\<close>

text \<open>Extra routes are known by what they answer; the token routes exist only with a token store.\<close>

record 'w admin_builder =
  ad_static_dir :: string
  ad_extra :: "string \<Rightarrow> admin_token_info option \<Rightarrow> 'w \<Rightarrow> string option \<times> 'w"
  ad_menu :: "menu_entry list"
  ad_tokens :: "token_store option"
  ad_exclude :: "string list"

definition admin_builder_new :: "string \<Rightarrow> 'w admin_builder" where
  "admin_builder_new dir = \<lparr>ad_static_dir = dir, ad_extra = (\<lambda>_ _ w. (None, w)), ad_menu = [], ad_tokens = None, ad_exclude = []\<rparr>"

definition admin_menu :: "menu_entry \<Rightarrow> 'w admin_builder \<Rightarrow> 'w admin_builder" where
  "admin_menu e b = b\<lparr>ad_menu := ad_menu b @ [e]\<rparr>"

definition with_auth :: "token_store \<Rightarrow> string list \<Rightarrow> 'w admin_builder \<Rightarrow> 'w admin_builder" where
  "with_auth store exclude b = b\<lparr>ad_tokens := Some store, ad_exclude := exclude\<rparr>"

definition with_auth_config :: "(admin_auth_config \<Rightarrow> string + token_store) \<Rightarrow> admin_auth_config \<Rightarrow> 'w admin_builder \<Rightarrow> 'w admin_builder" where
  "with_auth_config bootstrap config b =
     (if \<not> admin_auth_enabled config then b
      else case bootstrap config of
             Inr store \<Rightarrow> with_auth store (admin_auth_exclude_paths config) b
           | Inl e \<Rightarrow> b)"

text \<open>The inner service, behind the authentication when there is a store.\<close>

definition admin_inner ::
  "'w api_env \<Rightarrow> app_state \<Rightarrow> 'w token_routes \<Rightarrow> 'w admin_builder \<Rightarrow> admin_token_info option \<Rightarrow>
    admin_body admin_request \<Rightarrow> 'w admin_state \<Rightarrow> api_reply res \<times> 'w admin_state" where
  "admin_inner env state rt b info rq s =
     (case rq_body rq of
        Api q \<Rightarrow> (case api_call env state q (ad_world s) of (r, w) \<Rightarrow> (r, s\<lparr>ad_world := w\<rparr>))
      | TokenApi q \<Rightarrow>
          (if ad_tokens b = None then (Ok NoRoute, s)
           else case token_routes_call rt info
                  \<lparr>rq_path = rq_path rq, rq_x_admin_token = rq_x_admin_token rq, rq_authorization = rq_authorization rq, rq_body = q\<rparr> s
                of (r, s1) \<Rightarrow> (Ok (TokensReply r), s1))
      | Extensions \<Rightarrow> (Ok (ExtensionsReply (extensions_handler (ad_menu b))), s)
      | Extra path \<Rightarrow>
          (case ad_extra b path info (ad_world s) of
             (Some r, w) \<Rightarrow> (Ok (ExtraReply r), s\<lparr>ad_world := w\<rparr>)
           | (None, w) \<Rightarrow> (Ok NoRoute, s\<lparr>ad_world := w\<rparr>)))"

definition admin_service_call ::
  "'w api_env \<Rightarrow> app_state \<Rightarrow> 'w token_routes \<Rightarrow> 'w admin_builder \<Rightarrow> string \<Rightarrow> u64 \<Rightarrow>
    admin_body admin_request \<Rightarrow> 'w admin_state \<Rightarrow> api_reply res admin_reply \<times> 'w admin_state" where
  "admin_service_call env state rt b uuid now rq s =
     (if ad_tokens b = None
      then (case admin_inner env state rt b None rq s of (r, s1) \<Rightarrow> (Inner r, s1))
      else admin_call (rt_argon rt) uuid now \<lparr>as_exclude_paths = ad_exclude b, as_audit = rt_audit rt\<rparr>
             (admin_inner env state rt b) rq s)"

text \<open>Where the frontend is served, outside the authentication: the path it is nested under, its
  directory, and the file of the directory that stands in for a missing one. Without the directory
  there is only the API.\<close>

definition admin_frontend :: "(string \<Rightarrow> bool) \<Rightarrow> 'w admin_builder \<Rightarrow> (string \<times> string \<times> string) option" where
  "admin_frontend is_dir b =
     (if is_dir (ad_static_dir b) then Some (''/admin'', ad_static_dir b, ''index.html'') else None)"

end
