(* ===== verification/Admin_Metrics.thy ===== *)
theory Admin_Metrics
  imports Admin_Api
begin

text \<open>
  The admin service's reading of the metrics page: what the Prometheus exporter writes, by the
  documented text format, and what \<open>parse_prometheus_text\<close> makes of it.
\<close>

section \<open>The page\<close>

record sample =
  sm_suffix :: string
  sm_labels :: "(string \<times> string) list"
  sm_text :: string

record family =
  fa_name :: string
  fa_help :: string
  fa_type :: string
  fa_samples :: "sample list"

definition label_text :: "string \<times> string \<Rightarrow> string" where
  "label_text kv = fst kv @ ''='' @ [CHR 0x22] @ snd kv @ [CHR 0x22]"

definition sample_line :: "string \<Rightarrow> sample \<Rightarrow> string" where
  "sample_line n s = n @ sm_suffix s @
     (if sm_labels s = [] then [] else ''{'' @ join '','' (map label_text (sm_labels s)) @ ''}'') @ '' '' @ sm_text s"

definition family_lines :: "family \<Rightarrow> string list" where
  "family_lines f =
     [''# HELP '' @ fa_name f @ '' '' @ fa_help f, ''# TYPE '' @ fa_name f @ '' '' @ fa_type f] @
     map (sample_line (fa_name f)) (fa_samples f) @ [[]]"

definition metrics_page :: "family list \<Rightarrow> string" where
  "metrics_page fs = concat (map (\<lambda>l. l @ [CHR 0x0A]) (concat (map family_lines fs)))"

definition name_char :: "char \<Rightarrow> bool" where
  "name_char c \<longleftrightarrow> \<not> is_space c \<and> c \<notin> {CHR ''{'', CHR ''}'', CHR ''#'', CHR ''='', CHR '','', CHR 0x22}"

definition plain_name :: "string \<Rightarrow> bool" where
  "plain_name s \<longleftrightarrow> s \<noteq> [] \<and> list_all name_char s"

definition plain_label :: "string \<times> string \<Rightarrow> bool" where
  "plain_label kv \<longleftrightarrow> plain_name (fst kv) \<and> set (snd kv) \<inter> {CHR ''}'', CHR '','', CHR 0x22, CHR 0x0A} = {}"

definition plain_text :: "string \<Rightarrow> bool" where
  "plain_text s \<longleftrightarrow> s \<noteq> [] \<and> \<not> is_space (hd s) \<and> \<not> is_space (last s) \<and> CHR 0x0A \<notin> set s"

definition plain_sample :: "sample \<Rightarrow> bool" where
  "plain_sample s \<longleftrightarrow> sm_suffix s \<in> {[], ''_total'', ''_bucket'', ''_sum'', ''_count''} \<and> list_all plain_label (sm_labels s) \<and>
     distinct (map fst (sm_labels s)) \<and> plain_name (sm_text s) \<and> parse_f64 (sm_text s) \<noteq> None"

definition plain_family :: "family \<Rightarrow> bool" where
  "plain_family f \<longleftrightarrow> plain_name (fa_name f) \<and> plain_text (fa_help f) \<and> plain_text (fa_type f) \<and> list_all plain_sample (fa_samples f)"

definition sample_value :: "sample \<Rightarrow> metric_value" where
  "sample_value s = \<lparr>mv_labels = sm_labels s, mv_value = the (parse_f64 (sm_text s))\<rparr>"

definition family_entry :: "family \<Rightarrow> metric_entry" where
  "family_entry f = \<lparr>mt_name = fa_name f, mt_type = fa_type f, mt_help = fa_help f, mt_values = map sample_value (fa_samples f)\<rparr>"

section \<open>Texts\<close>

lemma trim_id: "s \<noteq> [] \<Longrightarrow> \<not> is_space (hd s) \<Longrightarrow> \<not> is_space (last s) \<Longrightarrow> trim s = s"
proof -
  assume s: "s \<noteq> []" "\<not> is_space (hd s)" "\<not> is_space (last s)"
  have "dropWhile is_space s = s" using s by (simp add: dropWhile_eq_self_iff)
  moreover have "dropWhile is_space (rev s) = rev s" using s by (simp add: dropWhile_eq_self_iff hd_rev)
  ultimately show ?thesis by (simp add: trim_def)
qed

lemma index_of_append: "c \<notin> set a \<Longrightarrow> index_of c (a @ c # r) = Some (length a)"
proof -
  assume "c \<notin> set a"
  then have "takeWhile (\<lambda>x. x \<noteq> c) a = a" by (auto simp: takeWhile_eq_all_conv)
  then show ?thesis by (simp add: index_of_def takeWhile_tail)
qed

lemma index_of_None: "c \<notin> set s \<Longrightarrow> index_of c s = None"
  by (simp add: index_of_def)

lemma split_char_plain: "c \<notin> set s \<Longrightarrow> split_char c s = [s]"
  by (induction s) auto

lemma split_char_append: "c \<notin> set s \<Longrightarrow> split_char c (s @ c # r) = s # split_char c r"
  by (induction s) auto

lemma split_char_join:
  "ps \<noteq> [] \<Longrightarrow> \<forall>p\<in>set ps. c \<notin> set p \<Longrightarrow> split_char c (join [c] ps) = ps"
proof (induction "[c]" ps rule: join.induct)
  case (3 x y zs)
  then show ?case by (simp add: split_char_append)
qed (simp_all add: split_char_plain)

lemma set_join: "set (join sep ps) \<subseteq> set sep \<union> (\<Union>p\<in>set ps. set p)"
  by (induction sep ps rule: join.induct) auto

lemma words_acc_plain: "\<forall>c\<in>set s. \<not> is_space c \<Longrightarrow> words_acc w (s @ r) = words_acc (w @ s) r"
  by (induction s arbitrary: w) auto

lemma is_space_blank [simp]: "is_space (CHR '' '')" "\<not> is_space (CHR 0x22)" "\<not> is_space (CHR ''#'')" "is_space (CHR 0x0A)" "is_space (CHR 0x0D)"
  by (simp_all add: is_space_def)

lemma two_words:
  "plain_name n \<Longrightarrow> plain_name t \<Longrightarrow> split_whitespace (n @ '' '' @ t) = [n, t]"
  using words_acc_plain [of n "[]" "'' '' @ t"] words_acc_plain [of t "[]" "[]"]
  by (auto simp: split_whitespace_def plain_name_def list_all_iff name_char_def)

lemma strip_suffix_Some: "strip_suffix s suf = Some a \<longleftrightarrow> s = a @ suf"
  by (auto simp: strip_suffix_def) (metis append_take_drop_id)

lemma strip_suffix_None: "strip_suffix s suf = None \<longleftrightarrow> (\<nexists>a. s = a @ suf)"
  using strip_suffix_Some by (metis not_Some_eq)

lemma base_name_suffix:
  "suf \<in> {''_total'', ''_bucket'', ''_sum'', ''_count''} \<Longrightarrow> base_name (n @ suf) = n"
proof -
  have other: "strip_suffix (n @ a) b = None" if "\<not> (\<exists>x y. x @ rev a = y @ rev b \<and> False)" "take 2 (rev a) \<noteq> take 2 (rev b)" "2 \<le> length a" "2 \<le> length b" for a b
  proof -
    have "n @ a \<noteq> m @ b" for m
    proof
      assume "n @ a = m @ b"
      then have "rev a @ rev n = rev b @ rev m" by (metis rev_append)
      then have "take 2 (rev a @ rev n) = take 2 (rev b @ rev m)" by simp
      then show False using that(2-4) by simp
    qed
    then show ?thesis by (simp add: strip_suffix_None)
  qed
  have same: "strip_suffix (n @ a) a = Some n" for a by (simp add: strip_suffix_Some)
  assume "suf \<in> {''_total'', ''_bucket'', ''_sum'', ''_count''}"
  then show ?thesis by (auto simp: base_name_def same other)
qed

section \<open>Lines\<close>

lemma plain_name_hd: "plain_name n \<Longrightarrow> name_char (hd n)" "plain_name n \<Longrightarrow> name_char (last n)"
  by (auto simp: plain_name_def list_all_iff)

lemma name_char_not: "name_char c \<Longrightarrow> \<not> is_space c" by (simp add: name_char_def)

lemma not_name_chars [simp]:
  "\<not> name_char (CHR ''{'')" "\<not> name_char (CHR ''}'')" "\<not> name_char (CHR ''#'')" "\<not> name_char (CHR ''='')"
  "\<not> name_char (CHR '','')" "\<not> name_char (CHR 0x22)" "\<not> name_char (CHR '' '')" "\<not> name_char (CHR 0x0A)"
  by (simp_all add: name_char_def)

lemma name_no: "plain_name n \<Longrightarrow> \<not> name_char c \<Longrightarrow> c \<notin> set n"
  by (auto simp: plain_name_def list_all_iff)

lemma add_label_text:
  assumes "plain_label kv"
  shows "add_label (label_text kv) m = hm_insert (fst kv) (snd kv) m"
proof -
  obtain k v where kv: "kv = (k, v)" by (cases kv)
  have k: "plain_name k" and v: "CHR 0x22 \<notin> set v" using assms by (auto simp: kv plain_label_def)
  have tk: "trim k = k"
    using k plain_name_hd [OF k] by (intro trim_id) (auto simp: plain_name_def dest: name_char_not)
  let ?q = "CHR 0x22 # v @ [CHR 0x22]"
  have tq: "trim ?q = ?q" by (intro trim_id) auto
  have "trim (k @ CHR ''='' # ?q) = k @ CHR ''='' # ?q"
    using k plain_name_hd(1) [OF k] by (intro trim_id) (auto simp: plain_name_def dest: name_char_not)
  moreover have "trim_quotes ?q = v"
  proof -
    have "dropWhile (\<lambda>c. c = CHR 0x22) (v @ [CHR 0x22]) = (if v = [] then [] else v @ [CHR 0x22])"
      using v by (cases v) auto
    moreover have "dropWhile (\<lambda>c. c = CHR 0x22) (rev v) = rev v"
      using v by (cases v rule: rev_cases) auto
    ultimately show ?thesis by (simp add: trim_quotes_def)
  qed
  ultimately show ?thesis
    using index_of_append [OF name_no [OF k], of "CHR ''=''" ?q, OF not_name_chars(4)] by (simp add: add_label_def label_text_def kv tk tq Let_def)
qed

lemma fold_add_label:
  "list_all plain_label ls \<Longrightarrow> fold add_label (map label_text ls) m = fold (\<lambda>(k, v). hm_insert k v) ls m"
  by (induction ls arbitrary: m) (auto simp: add_label_text)

lemma fold_insert_new:
  "distinct (map fst (m @ ls)) \<Longrightarrow> fold (\<lambda>(k, v). hm_insert k v) ls m = m @ ls"
proof (induction ls arbitrary: m)
  case (Cons x ls)
  obtain k v where x: "x = (k, v)" by (cases x)
  have "hm_get m k = None"
    using Cons.prems by (auto simp: x hm_get_def map_of_eq_None_iff)
  then have "hm_insert k v m = m @ [(k, v)]" by (rule hm_insert_new)
  then show ?case using Cons.IH [of "m @ [x]"] Cons.prems by (simp add: x)
qed simp

lemma parse_sample_line:
  assumes "plain_name n" and "plain_sample s"
  shows "parse_metric_line (sample_line n s) = Ok (n @ sm_suffix s, sm_labels s, the (parse_f64 (sm_text s)))"
proof -
  have suf: "plain_name (n @ sm_suffix s)"
    using assms by (auto simp: plain_name_def plain_sample_def name_char_def is_space_def)
  have t: "plain_name (sm_text s)" using assms(2) by (simp add: plain_sample_def)
  obtain x where v: "parse_f64 (sm_text s) = Some x" using assms(2) by (auto simp: plain_sample_def)
  have tt: "trim (CHR '' '' # sm_text s) = sm_text s"
  proof -
    have "trim (CHR '' '' # sm_text s) = trim (sm_text s)" by (simp add: trim_def)
    also have "\<dots> = sm_text s"
      using t plain_name_hd [OF t] by (intro trim_id) (auto simp: plain_name_def dest: name_char_not)
    finally show ?thesis .
  qed
  show ?thesis
  proof (cases "sm_labels s = []")
    case True
    have "CHR ''{'' \<notin> set (sample_line n s)"
      using True name_no [OF suf, OF not_name_chars(1)] name_no [OF t, OF not_name_chars(1)] by (auto simp: sample_line_def)
    then show ?thesis
      using True two_words [OF suf t] v
      by (simp add: parse_metric_line_def index_of_None sample_line_def or_zero_def)
  next
    case False
    let ?body = "join '','' (map label_text (sm_labels s))"
    let ?n = "n @ sm_suffix s"
    have line: "sample_line n s = ?n @ CHR ''{'' # ?body @ CHR ''}'' # '' '' @ sm_text s"
      using False by (simp add: sample_line_def)
    have lab: "list_all plain_label (sm_labels s)" using assms(2) by (simp add: plain_sample_def)
    have nolab: "CHR ''}'' \<notin> set (label_text l) \<and> CHR '','' \<notin> set (label_text l)" if "l \<in> set (sm_labels s)" for l
    proof -
      have pl: "plain_label l" using lab that by (simp add: list_all_iff)
      then have k: "plain_name (fst l)" by (simp add: plain_label_def)
      show ?thesis using pl name_no [OF k not_name_chars(2)] name_no [OF k not_name_chars(5)]
        by (auto simp: label_text_def plain_label_def)
    qed
    have "CHR ''}'' \<notin> set ?body"
      using set_join [of "'',''" "map label_text (sm_labels s)"] nolab by auto
    then have close: "CHR ''}'' \<notin> set (?n @ CHR ''{'' # ?body)" using name_no [OF suf, OF not_name_chars(2)] by auto
    have i1: "index_of (CHR ''{'') (sample_line n s) = Some (length ?n)"
      unfolding line by (rule index_of_append) (rule name_no [OF suf not_name_chars(1)])
    have i2: "index_of (CHR ''}'') (sample_line n s) = Some (length (?n @ CHR ''{'' # ?body))"
      using index_of_append [OF close, of "'' '' @ sm_text s"] by (simp add: line)
    have labels: "fold add_label (split_char (CHR '','') ?body) [] = sm_labels s"
      using split_char_join [of "map label_text (sm_labels s)" "CHR '',''"] nolab False fold_add_label [OF lab, of "[]"]
        fold_insert_new [of "[]" "sm_labels s"] assms(2)
      by (simp add: plain_sample_def)
    have pieces: "take (length ?n) (sample_line n s) = ?n"
      "take (length ?body) (drop (length ?n + 1) (sample_line n s)) = ?body"
      "drop (length (?n @ CHR ''{'' # ?body) + 1) (sample_line n s) = CHR '' '' # sm_text s"
      by (simp_all add: line)
    show ?thesis
      using labels pieces tt v unfolding parse_metric_line_def i1 i2
      by (simp add: Let_def or_zero_def line)
  qed
qed

section \<open>The scan\<close>

lemma plain_sample_suffix:
  "plain_sample s \<Longrightarrow> n @ sm_suffix s = n \<or> base_name (n @ sm_suffix s) = n"
  using base_name_suffix [of "sm_suffix s" n] by (auto simp: plain_sample_def)

lemma sample_line_ends:
  assumes "plain_name n" and "plain_sample s"
  shows "sample_line n s \<noteq> []" "hd (sample_line n s) = hd n" "last (sample_line n s) = last (sm_text s)"
  using assms by (auto simp: sample_line_def plain_name_def plain_sample_def)

lemma trim_sample_line: "plain_name n \<Longrightarrow> plain_sample s \<Longrightarrow> trim (sample_line n s) = sample_line n s"
  using sample_line_ends [of n s] plain_name_hd [of n] plain_name_hd [of "sm_text s"]
  by (intro trim_id) (auto simp: plain_sample_def dest: name_char_not)

lemma no_comment: "plain_name n \<Longrightarrow> plain_sample s \<Longrightarrow> \<not> starts_with (sample_line n s) (CHR ''#'' # p)"
proof -
  assume a: "plain_name n" "plain_sample s"
  obtain c r where "sample_line n s = c # r" using sample_line_ends(1) [OF a] by (cases "sample_line n s") auto
  moreover then have "c = hd n" using sample_line_ends(2) [OF a] by simp
  moreover have "hd n \<noteq> CHR ''#''" using plain_name_hd(1) [OF a(1)] by auto
  ultimately show ?thesis by (auto simp: starts_with_iff)
qed

lemma strip_no_prefix: "\<not> starts_with s p \<Longrightarrow> strip_prefix s p = None"
  by (simp add: strip_prefix_def)

lemma scan_sample:
  assumes "plain_name n" and "plain_sample s" and "sc_name st = n"
  shows "scan_line (sample_line n s) st = Ok (add_metric n (sample_value s) st)"
proof -
  have "\<not> starts_with (sample_line n s) ''#''" using no_comment [OF assms(1,2), of "[]"] by simp
  moreover have "strip_prefix (sample_line n s) ''# HELP '' = None" "strip_prefix (sample_line n s) ''# TYPE '' = None"
    using no_comment [OF assms(1,2)] by (simp_all add: strip_no_prefix)
  ultimately show ?thesis
    using plain_sample_suffix [OF assms(2), of n]
    by (auto simp: scan_line_def Let_def trim_sample_line [OF assms(1,2)] sample_line_ends [OF assms(1,2)]
        parse_sample_line [OF assms(1,2)] sample_value_def assms(3))
qed

lemma push_value_last:
  "mt_name e = n \<Longrightarrow> n \<notin> mt_name ` set es \<Longrightarrow>
    push_value n v (es @ [e]) = Some (es @ [e\<lparr>mt_values := mt_values e @ [v]\<rparr>])"
  by (induction es) auto

lemma push_value_new: "n \<notin> mt_name ` set es \<Longrightarrow> push_value n v es = None"
  by (induction es) auto

lemma scan_more:
  assumes "plain_name n" and "list_all plain_sample ss" and "sc_name st = n"
    and "sc_entries st = es @ [e]" and "mt_name e = n" and "n \<notin> mt_name ` set es"
  shows "scan_lines (map (sample_line n) ss) st =
    Ok (st\<lparr>sc_entries := es @ [e\<lparr>mt_values := mt_values e @ map sample_value ss\<rparr>]\<rparr>)"
  using assms(2-6)
proof (induction ss arbitrary: st e)
  case (Cons s ss)
  let ?e = "e\<lparr>mt_values := mt_values e @ [sample_value s]\<rparr>"
  have "add_metric n (sample_value s) st = st\<lparr>sc_entries := es @ [?e]\<rparr>"
    using push_value_last [OF Cons.prems(4,5)] Cons.prems(3) by (simp add: add_metric_def)
  then have "scan_line (sample_line n s) st = Ok (st\<lparr>sc_entries := es @ [?e]\<rparr>)"
    using scan_sample [OF assms(1) _ Cons.prems(2)] Cons.prems(1) by simp
  moreover have "scan_lines (map (sample_line n) ss) (st\<lparr>sc_entries := es @ [?e]\<rparr>) =
      Ok (st\<lparr>sc_entries := es @ [?e\<lparr>mt_values := mt_values ?e @ map sample_value ss\<rparr>]\<rparr>)"
    using Cons.IH [of "st\<lparr>sc_entries := es @ [?e]\<rparr>" ?e] Cons.prems by simp
  ultimately show ?case by simp
qed simp

lemma scan_samples:
  assumes "plain_name n" and "list_all plain_sample ss" and "sc_name st = n" and "n \<notin> mt_name ` set (sc_entries st)"
  shows "scan_lines (map (sample_line n) ss) st =
    Ok (st\<lparr>sc_entries := sc_entries st @ (if ss = [] then [] else
      [\<lparr>mt_name = n, mt_type = sc_type st, mt_help = sc_help st, mt_values = map sample_value ss\<rparr>])\<rparr>)"
proof (cases ss)
  case (Cons s ss')
  let ?e = "\<lparr>mt_name = n, mt_type = sc_type st, mt_help = sc_help st, mt_values = [sample_value s]\<rparr>"
  have "add_metric n (sample_value s) st = st\<lparr>sc_entries := sc_entries st @ [?e]\<rparr>"
    using push_value_new [OF assms(4)] assms(3) by (simp add: add_metric_def)
  then have "scan_line (sample_line n s) st = Ok (st\<lparr>sc_entries := sc_entries st @ [?e]\<rparr>)"
    using scan_sample [OF assms(1) _ assms(3)] assms(2) Cons by simp
  then show ?thesis
    using scan_more [OF assms(1), of ss' "st\<lparr>sc_entries := sc_entries st @ [?e]\<rparr>" "sc_entries st" ?e] assms Cons by simp
qed simp

lemma scan_header:
  assumes "plain_name n" and "plain_text h" and "plain_text ty"
  shows "scan_line (''# HELP '' @ n @ '' '' @ h) st = Ok (st\<lparr>sc_name := n, sc_help := h\<rparr>)"
    and "scan_line (''# TYPE '' @ n @ '' '' @ ty) st = Ok (st\<lparr>sc_type := ty\<rparr>)"
proof -
  have idx: "index_of (CHR '' '') (n @ CHR '' '' # r) = Some (length n)" for r
    by (rule index_of_append) (rule name_no [OF assms(1) not_name_chars(7)])
  have t: "trim (CHR ''#'' # x @ n @ CHR '' '' # t) = CHR ''#'' # x @ n @ CHR '' '' # t" if "plain_text t" for x t
    using that by (intro trim_id) (auto simp: plain_text_def)
  have s: "strip_prefix (''# HELP '' @ n @ CHR '' '' # h) ''# HELP '' = Some (n @ CHR '' '' # h)"
    "strip_prefix (''# TYPE '' @ n @ CHR '' '' # ty) ''# TYPE '' = Some (n @ CHR '' '' # ty)"
    by (rule strip_prefix_append)+
  have no: "strip_prefix (''# TYPE '' @ r) ''# HELP '' = None" for r
    by (simp add: strip_prefix_def starts_with_iff)
  show "scan_line (''# HELP '' @ n @ '' '' @ h) st = Ok (st\<lparr>sc_name := n, sc_help := h\<rparr>)"
    using s(1) t [OF assms(2), of "'' HELP ''"] idx [of h] by (simp add: scan_line_def Let_def)
  show "scan_line (''# TYPE '' @ n @ '' '' @ ty) st = Ok (st\<lparr>sc_type := ty\<rparr>)"
    using s(2) t [OF assms(3), of "'' TYPE ''"] idx [of ty] no [of "n @ CHR '' '' # ty"] by (simp add: scan_line_def Let_def)
qed

lemma scan_lines_append: "scan_lines (as @ bs) st = bind_res (scan_lines as st) (scan_lines bs)"
proof (induction as arbitrary: st)
  case (Cons a as)
  then show ?case by (cases "scan_line a st") simp_all
qed simp

lemma entry_name [simp]: "mt_name (family_entry f) = fa_name f"
  by (simp add: family_entry_def)

lemma scan_family:
  assumes "plain_family f" and "fa_name f \<notin> mt_name ` set (sc_entries st)"
  shows "scan_lines (family_lines f) st =
    Ok (st\<lparr>sc_name := fa_name f, sc_help := fa_help f, sc_type := fa_type f,
      sc_entries := sc_entries st @ (if fa_samples f = [] then [] else [family_entry f])\<rparr>)"
proof -
  have f: "plain_name (fa_name f)" "plain_text (fa_help f)" "plain_text (fa_type f)" "list_all plain_sample (fa_samples f)"
    using assms(1) by (auto simp: plain_family_def)
  let ?st = "st\<lparr>sc_name := fa_name f, sc_help := fa_help f, sc_type := fa_type f\<rparr>"
  have blank: "scan_lines [[]] x = Ok x" for x by (simp add: scan_line_def trim_def)
  have "scan_lines (map (sample_line (fa_name f)) (fa_samples f)) ?st =
      Ok (?st\<lparr>sc_entries := sc_entries st @ (if fa_samples f = [] then [] else [family_entry f])\<rparr>)"
    using scan_samples [OF f(1,4), of ?st] assms(2) by (simp add: family_entry_def)
  then show ?thesis
    using scan_header [OF f(1-3)] blank unfolding family_lines_def by (simp add: scan_lines_append del: append.simps)
qed

lemma scan_page:
  assumes "list_all plain_family fs" and "distinct (map fa_name fs)"
    and "\<forall>f\<in>set fs. fa_name f \<notin> mt_name ` set (sc_entries st)"
  shows "\<exists>st'. scan_lines (concat (map family_lines fs)) st = Ok st' \<and>
    sc_entries st' = sc_entries st @ map family_entry (filter (\<lambda>f. fa_samples f \<noteq> []) fs)"
  using assms
proof (induction fs arbitrary: st)
  case (Cons f fs)
  let ?st = "st\<lparr>sc_name := fa_name f, sc_help := fa_help f, sc_type := fa_type f,
      sc_entries := sc_entries st @ (if fa_samples f = [] then [] else [family_entry f])\<rparr>"
  have "scan_lines (family_lines f) st = Ok ?st" using scan_family [of f st] Cons.prems by simp
  moreover have "\<forall>g\<in>set fs. fa_name g \<notin> mt_name ` set (sc_entries ?st)"
    using Cons.prems(2,3) by (auto simp: image_iff)
  then obtain st' where "scan_lines (concat (map family_lines fs)) ?st = Ok st'"
    "sc_entries st' = sc_entries ?st @ map family_entry (filter (\<lambda>f. fa_samples f \<noteq> []) fs)"
    using Cons.IH [of ?st] Cons.prems(1,2) by auto
  ultimately show ?case by (auto simp: scan_lines_append)
qed simp

section \<open>From text to lines\<close>

lemma str_lines_concat:
  "\<forall>l\<in>set ls. CHR 0x0A \<notin> set l \<and> strip_cr l = l \<Longrightarrow> str_lines (concat (map (\<lambda>l. l @ [CHR 0x0A]) ls)) = ls"
proof (induction ls)
  case Nil
  show ?case by (subst str_lines.simps) simp
next
  case (Cons l ls)
  then show ?case using str_lines_Cons [of l "concat (map (\<lambda>l. l @ [CHR 0x0A]) ls)"] by simp
qed

lemma strip_cr_plain: "l = [] \<or> \<not> is_space (last l) \<Longrightarrow> strip_cr l = l"
  by (auto simp: strip_cr_def)

lemma sample_line_no_newline:
  assumes "plain_name n" and "plain_sample s"
  shows "CHR 0x0A \<notin> set (sample_line n s)"
proof -
  have n: "CHR 0x0A \<notin> set n" "CHR 0x0A \<notin> set (sm_text s)"
    using name_no [OF assms(1) not_name_chars(8)] name_no [OF _ not_name_chars(8), of "sm_text s"] assms(2)
    by (auto simp: plain_sample_def)
  have "CHR 0x0A \<notin> set (label_text l)" if "l \<in> set (sm_labels s)" for l
  proof -
    have pl: "plain_label l" using assms(2) that by (simp add: plain_sample_def list_all_iff)
    then show ?thesis using name_no [OF _ not_name_chars(8), of "fst l"] by (auto simp: label_text_def plain_label_def)
  qed
  then have "CHR 0x0A \<notin> set (join '','' (map label_text (sm_labels s)))"
    using set_join [of "'',''" "map label_text (sm_labels s)"] by auto
  moreover have "CHR 0x0A \<notin> set (sm_suffix s)" using assms(2) by (auto simp: plain_sample_def)
  ultimately show ?thesis using n by (simp add: sample_line_def)
qed

lemma family_lines_plain:
  assumes "plain_family f" and "l \<in> set (family_lines f)"
  shows "CHR 0x0A \<notin> set l \<and> strip_cr l = l"
proof -
  have f: "plain_name (fa_name f)" "plain_text (fa_help f)" "plain_text (fa_type f)" "list_all plain_sample (fa_samples f)"
    using assms(1) by (auto simp: plain_family_def)
  have n: "CHR 0x0A \<notin> set (fa_name f)" using name_no [OF f(1) not_name_chars(8)] .
  have head: "CHR 0x0A \<notin> set (x @ fa_name f @ '' '' @ t) \<and> strip_cr (x @ fa_name f @ '' '' @ t) = x @ fa_name f @ '' '' @ t"
    if "plain_text t" "CHR 0x0A \<notin> set x" for x t
    using that n by (auto simp: plain_text_def intro!: strip_cr_plain)
  have sample: "CHR 0x0A \<notin> set (sample_line (fa_name f) s) \<and> strip_cr (sample_line (fa_name f) s) = sample_line (fa_name f) s"
    if "s \<in> set (fa_samples f)" for s
  proof -
    have s: "plain_sample s" using f(4) that by (simp add: list_all_iff)
    then have "\<not> is_space (last (sm_text s))"
      using plain_name_hd(2) [of "sm_text s"] by (auto simp: plain_sample_def dest: name_char_not)
    then show ?thesis
      using sample_line_no_newline [OF f(1) s] sample_line_ends(3) [OF f(1) s] by (simp add: strip_cr_plain)
  qed
  have "strip_cr [] = []" by (simp add: strip_cr_def)
  then show ?thesis
    using assms(2) sample head [OF f(2), of "''# HELP ''"] head [OF f(3), of "''# TYPE ''"]
    by (auto simp: family_lines_def)
qed

section \<open>Properties\<close>


definition latency_family :: family where
  "latency_family =
     \<lparr>fa_name = ''latency'', fa_help = ''Seconds per request.'', fa_type = ''summary'',
      fa_samples = [\<lparr>sm_suffix = [], sm_labels = [(''path'', ''/x y''), (''q'', ''0.5'')], sm_text = ''12''\<rparr>,
                    \<lparr>sm_suffix = ''_count'', sm_labels = [], sm_text = ''3''\<rparr>]\<rparr>"

lemma digits_parse: "parse_f64 ''12'' \<noteq> None" "parse_f64 ''3'' \<noteq> None"
  by (simp_all add: parse_f64_def parse_decimal_def parse_sign_def span_digits_def parse_exponent_def digits_acc.simps digit_val_def Let_def)


section \<open>Limits\<close>

text \<open>A closing brace inside a label value ends the labels, so that the series of a route pattern such as
  \<open>/cache/{key}\<close>, which the HTTP metrics middleware records, reads as zero.\<close>

lemma route_pattern_reads_zero:
  "\<exists>labels. parse_metric_line (''hits{path='' @ [CHR 0x22] @ ''/cache/{key}'' @ [CHR 0x22] @ ''} 3'') = Ok (''hits'', labels, Some 0)"
  by (simp add: parse_metric_line_def index_of_def or_zero_def parse_f64_def parse_decimal_def parse_sign_def
      span_digits_def digit_val_def trim_def is_space_def to_lowercase_def lower_char_def Let_def)

text \<open>An opening brace that is not closed panics.\<close>

lemma unclosed_labels_panic: "\<exists>m. parse_metric_line ''hits{path 3'' = Inl (Panic m)"
  by (simp add: parse_metric_line_def index_of_def Let_def)

text \<open>The key \<open>flush\<close> of the cache cannot be looked at: its path belongs to the other route.\<close>

lemma flush_key_unreachable: "admin_routes decode ''GET'' ''/cache/flush'' = Inl MethodNotAllowed"
  by (simp add: admin_routes_def is_get_def Let_def)

end
