(* ===== verification/Cli.thy ===== *)
theory Cli
  imports Listeners Admin_Api
begin

text \<open>
  The command line: the commands of \<open>rinfra-plugins/src/cli/mod.rs\<close>, their handlers
  (\<open>handlers.rs\<close>), the options and the dispatch of \<open>runner.rs\<close>, and the HTTP client that asks a running
  server (\<open>client.rs\<close>), with \<open>rinfra-core/src/cli/mod.rs\<close>. Parsing the arguments is the work of the
  library clap; a command is what it gives. Running a command gives what it writes, in order, and
  the status the process exits with when the command ends it.
\<close>

section \<open>Commands\<close>

datatype output_format = Pretty | JsonFormat

datatype config_command = Show bool | Validate | Init string bool

datatype cache_command = CacheGet string | CacheFlush

datatype cluster_command = Nodes | ClusterInfo | ClusterCacheGet string | ClusterCacheFlush bool

datatype command =
    ServerStart
  | ConfigCommand config_command
  | PluginList
  | CacheCommand cache_command
  | ClusterCommand "string option" cluster_command
  | External "string list"

record cli =
  cli_command :: "command option"
  cli_config :: string
  cli_format :: output_format

section \<open>What commands do\<close>

text \<open>A value is printed as its Rust \<open>Debug\<close> form or as JSON, both of which render the fields of its
  JSON document.\<close>

datatype effect =
    Printed output_format json | Out string | ErrOut string | WroteFile string string

text \<open>The effects of a command and the status given to \<open>process::exit\<close>, if it is called.\<close>

type_synonym outcome = "effect list \<times> nat option"

definition fail_with :: "string list \<Rightarrow> outcome" where
  "fail_with msgs = (map ErrOut msgs, Some 1)"

record 'w cli_env =
  ci_runtime :: "'w rt_env"
  ci_example :: string
  ci_write :: "string \<Rightarrow> string + unit"
  ci_yaml_text :: "rinfra_config \<Rightarrow> string + string"
  ci_http :: "string \<Rightarrow> string \<Rightarrow> string option \<Rightarrow> string + (nat \<times> (string + string))"
  ci_status_text :: "nat \<Rightarrow> string"
  ci_json_parse :: "string \<Rightarrow> string + json"
  ci_run :: "'w application \<Rightarrow> unit res"

section \<open>Handlers\<close>

definition load_config :: "'w rt_env \<Rightarrow> string \<Rightarrow> rinfra_config res" where
  "load_config env path =
     bind_res
       (if re_exists env path
        then load_with_env (re_host env) (re_yaml env) (re_serde_error env) (re_vars env) path (re_read env path)
        else Ok (apply_env_overrides (re_host env) (re_vars env) (rinfra_config_default (re_host env))))
       (\<lambda>cfg. Ok (cfg\<lparr>rinfra_config_path := path\<rparr>))"

definition collect_enabled :: "rinfra_config \<Rightarrow> string list" where
  "collect_enabled config =
     (let p = rinfra_plugins config in
      when_on (stdout_log_enabled (logs_stdout (plugins_log p))) ''log.stdout'' @
      map (\<lambda>l. ''net.'' @ listener_name l) (net_listeners (plugins_net p)) @
      when_on (postgres_enabled (stores_postgres (plugins_store p))) ''store.postgres'' @
      when_on (memory_cache_enabled (caches_memory (plugins_cache p))) ''cache.memory'' @
      when_on (redis_cache_enabled (caches_redis (plugins_cache p))) ''cache.redis'' @
      when_on (multilevel_cache_enabled (caches_multilevel (plugins_cache p))) ''cache.multilevel'' @
      when_on (memory_rate_limit_enabled (rate_limits_memory (plugins_ratelimit p))) ''ratelimit.memory'' @
      when_on (redis_rate_limit_enabled (rate_limits_redis (plugins_ratelimit p))) ''ratelimit.redis'' @
      when_on (aes_gcm_enabled (cryptos_aesgcm (plugins_crypto p))) ''crypto.aesgcm'' @
      (case mqs_backend (plugins_mq p) of
         Memory \<Rightarrow> [''mq.memory''] | Nats \<Rightarrow> [''mq.nats''] | RedisStreams \<Rightarrow> [''mq.redis_streams''] | NoMq \<Rightarrow> []) @
      when_on (wasm_script_enabled (scripts_wasm (plugins_script p))) ''script.wasm'' @
      when_on (is_cluster (plugins_cluster p)) ''cluster'' @
      (if admin_enabled (plugins_admin p)
       then [if admin_auth_enabled (admin_auth (plugins_admin p)) then ''admin (auth)'' else ''admin'']
       else []))"

definition strings_json :: "string list \<Rightarrow> json" where
  "strings_json xs = JArr (map JStr xs)"

definition config_output :: "rinfra_config \<Rightarrow> json" where
  "config_output config =
     (let p = rinfra_plugins config; sd = runtime_shutdown (rinfra_runtime config) in
      JObj
        [(''app'', JObj [(''name'', JStr (app_name (rinfra_app config))),
                          (''version'', JStr (app_version (rinfra_app config)))]),
         (''runtime'', JObj [(''grace_period_secs'', enc_u64 (shutdown_grace_period_secs sd)),
                              (''component_timeout_secs'', enc_u64 (shutdown_component_timeout_secs sd))]),
         (''plugins'', JObj
            [(''listeners'', JArr (map (\<lambda>l. JObj
                [(''name'', JStr (listener_name l)), (''protocol'', JStr (protocol_debug (listener_protocol l))),
                 (''bind'', JStr (listener_bind l))]) (net_listeners (plugins_net p)))),
             (''cluster_mode'', JStr (cluster_mode (plugins_cluster p))),
             (''cluster_role'', JStr (cluster_role (plugins_cluster p))),
             (''enabled'', strings_json (collect_enabled config))])])"

definition fault_text :: "fault \<Rightarrow> string" where
  "fault_text e = (case e of Fail err \<Rightarrow> app_error_display err | Panic m \<Rightarrow> m)"

definition load_failure :: "fault \<Rightarrow> outcome" where
  "load_failure e = fail_with [''Error loading config: '' @ fault_text e]"

definition handle_config_show :: "'w cli_env \<Rightarrow> string \<Rightarrow> output_format \<Rightarrow> outcome" where
  "handle_config_show env path format =
     (case load_config (ci_runtime env) path of
        Inr config \<Rightarrow> ([Printed format (config_output config)], None)
      | Inl e \<Rightarrow> load_failure e)"

definition validate_result :: "bool \<Rightarrow> string \<Rightarrow> string \<Rightarrow> json" where
  "validate_result valid msg path =
     JObj [(''valid'', JBool valid), (''message'', JStr msg), (''config_path'', JStr path)]"

definition handle_config_validate :: "'w cli_env \<Rightarrow> string \<Rightarrow> output_format \<Rightarrow> outcome" where
  "handle_config_validate env path format =
     (let (result, exit_code) =
        (case load_config (ci_runtime env) path of
           Inr _ \<Rightarrow> (validate_result True ''configuration is valid'' path, 0)
         | Inl e \<Rightarrow> (validate_result False (fault_text e) path, 1))
      in ([Printed format result], if exit_code \<noteq> 0 then Some exit_code else None))"

definition handle_config_init :: "'w cli_env \<Rightarrow> string \<Rightarrow> bool \<Rightarrow> outcome" where
  "handle_config_init env output_path force =
     (if re_exists (ci_runtime env) output_path \<and> \<not> force
      then fail_with [''File '' @ quoted output_path @ '' already exists. Use --force to overwrite.'']
      else
        (case ci_write env output_path of
           Inl e \<Rightarrow> fail_with [''Failed to write config file: '' @ e]
         | Inr _ \<Rightarrow>
             ([WroteFile output_path (ci_example env),
               Out (''Reference configuration written to: '' @ output_path),
               Out ''Edit the file and save as your config.yaml (or pass --config <path>) to use it.''], None)))"

definition handle_config_show_defaults :: "'w cli_env \<Rightarrow> string \<Rightarrow> outcome" where
  "handle_config_show_defaults env path =
     (case load_config (ci_runtime env) path of
        Inl e \<Rightarrow> load_failure e
      | Inr config \<Rightarrow>
          (case ci_yaml_text env config of
             Inr yaml \<Rightarrow> ([Out yaml], None)
           | Inl e \<Rightarrow> fail_with [''Error serializing config: '' @ e]))"

definition cli_plugins :: "rinfra_config \<Rightarrow> (string \<times> string \<times> bool) list" where
  "cli_plugins config =
     (let p = rinfra_plugins config in
      [(''log.stdout'', ''logging'', stdout_log_enabled (logs_stdout (plugins_log p))),
       (''store.postgres'', ''storage'', postgres_enabled (stores_postgres (plugins_store p))),
       (''cache.memory'', ''cache'', memory_cache_enabled (caches_memory (plugins_cache p))),
       (''cache.redis'', ''cache'', redis_cache_enabled (caches_redis (plugins_cache p))),
       (''cache.multilevel'', ''cache'', multilevel_cache_enabled (caches_multilevel (plugins_cache p))),
       (''ratelimit.memory'', ''ratelimit'', memory_rate_limit_enabled (rate_limits_memory (plugins_ratelimit p))),
       (''ratelimit.redis'', ''ratelimit'', redis_rate_limit_enabled (rate_limits_redis (plugins_ratelimit p))),
       (''crypto.aesgcm'', ''crypto'', aes_gcm_enabled (cryptos_aesgcm (plugins_crypto p))),
       (''codec.json'', ''codec'', True),
       (''codec.msgpack'', ''codec'', True),
       (''codec.protobuf'', ''codec'', True),
       (''mq.memory'', ''messaging'', mqs_backend (plugins_mq p) = Memory),
       (''script.wasm'', ''scripting'', wasm_script_enabled (scripts_wasm (plugins_script p))),
       (''cluster'', ''cluster'', is_cluster (plugins_cluster p)),
       (''admin'', ''admin'', admin_enabled (plugins_admin p))]
      @ map (\<lambda>l. (listener_name l, ''network'', True)) (net_listeners (plugins_net p)))"

definition plugin_json :: "string \<times> string \<times> bool \<Rightarrow> json" where
  "plugin_json q =
     (case q of (nm, category, enabled) \<Rightarrow>
        JObj [(''name'', JStr nm), (''category'', JStr category),
              (''status'', JStr (if enabled then ''enabled'' else ''available''))])"

definition handle_plugin_list :: "'w cli_env \<Rightarrow> string \<Rightarrow> output_format \<Rightarrow> outcome" where
  "handle_plugin_list env path format =
     (case load_config (ci_runtime env) path of
        Inl e \<Rightarrow> load_failure e
      | Inr config \<Rightarrow> ([Printed format (JArr (map plugin_json (cli_plugins config)))], None))"

section \<open>The client\<close>

record cli_client =
  cc_base_url :: string
  cc_token :: string

definition find_http_bind :: "rinfra_config \<Rightarrow> string" where
  "find_http_bind config =
     (let bind = (case find (\<lambda>l. listener_protocol l = Http) (net_listeners (plugins_net (rinfra_plugins config))) of
                    Some l \<Rightarrow> listener_bind l
                  | None \<Rightarrow> ''127.0.0.1:8080'')
      in (case strip_prefix bind ''0.0.0.0'' of Some r \<Rightarrow> ''127.0.0.1'' @ r | None \<Rightarrow> bind))"

definition client_for_local :: "rinfra_config \<Rightarrow> cli_client" where
  "client_for_local config =
     \<lparr>cc_base_url = ''http://'' @ find_http_bind config,
      cc_token = cluster_cluster_token (plugins_cluster (rinfra_plugins config))\<rparr>"

definition client_for_cluster :: "rinfra_config \<Rightarrow> string option \<Rightarrow> cli_client" where
  "client_for_cluster config target_override =
     (let main = cluster_main_address (plugins_cluster (rinfra_plugins config));
          addr = (case target_override of
                    Some t \<Rightarrow> t
                  | None \<Rightarrow> if main \<noteq> [] then main else find_http_bind config);
          base_url = (if starts_with addr ''http://'' \<or> starts_with addr ''https://''
                      then addr else ''http://'' @ addr)
      in \<lparr>cc_base_url = base_url,
          cc_token = cluster_cluster_token (plugins_cluster (rinfra_plugins config))\<rparr>)"

definition client_json :: "'w cli_env \<Rightarrow> cli_client \<Rightarrow> string \<Rightarrow> string \<Rightarrow> string + json" where
  "client_json env client verb url =
     (case ci_http env verb url (if cc_token client \<noteq> [] then Some (cc_token client) else None) of
        Inl e \<Rightarrow> Inl (''connection failed: '' @ e)
      | Inr (stat, body) \<Rightarrow>
          (case body of
             Inl e \<Rightarrow> Inl (''failed to read response: '' @ e)
           | Inr txt \<Rightarrow>
               if \<not> (200 \<le> stat \<and> stat < 300)
               then Inl (''HTTP '' @ ci_status_text env stat @ '': '' @ txt)
               else (case ci_json_parse env txt of
                       Inl e \<Rightarrow> Inl (''invalid JSON response: '' @ e)
                     | Inr v \<Rightarrow> Inr v)))"

definition get_json :: "'w cli_env \<Rightarrow> cli_client \<Rightarrow> string \<Rightarrow> string + json" where
  "get_json env client url = client_json env client ''GET'' url"

definition post_json :: "'w cli_env \<Rightarrow> cli_client \<Rightarrow> string \<Rightarrow> string + json" where
  "post_json env client url = client_json env client ''POST'' url"

definition print_error :: "string \<Rightarrow> output_format \<Rightarrow> outcome" where
  "print_error msg format = ([Printed format (JObj [(''error'', JStr msg)])], Some 1)"

definition show_answer :: "output_format \<Rightarrow> string + json \<Rightarrow> outcome" where
  "show_answer format got =
     (case got of Inr v \<Rightarrow> ([Printed format v], None) | Inl e \<Rightarrow> print_error e format)"

definition cache_get_path :: "string \<Rightarrow> string" where
  "cache_get_path key = ''/api/admin/cache/'' @ key"

definition client_cache_get :: "'w cli_env \<Rightarrow> cli_client \<Rightarrow> string \<Rightarrow> output_format \<Rightarrow> outcome" where
  "client_cache_get env client key format =
     show_answer format (get_json env client (cc_base_url client @ cache_get_path key))"

definition client_cache_flush :: "'w cli_env \<Rightarrow> cli_client \<Rightarrow> output_format \<Rightarrow> outcome" where
  "client_cache_flush env client format =
     show_answer format (post_json env client (cc_base_url client @ ''/api/admin/cache/flush''))"

definition client_cluster_nodes :: "'w cli_env \<Rightarrow> cli_client \<Rightarrow> output_format \<Rightarrow> outcome" where
  "client_cluster_nodes env client format =
     show_answer format (get_json env client (cc_base_url client @ ''/api/admin/cluster/nodes''))"

definition client_cluster_info :: "'w cli_env \<Rightarrow> cli_client \<Rightarrow> output_format \<Rightarrow> outcome" where
  "client_cluster_info env client format =
     show_answer format (get_json env client (cc_base_url client @ ''/api/admin/health''))"

definition client_cluster_cache_get :: "'w cli_env \<Rightarrow> cli_client \<Rightarrow> string \<Rightarrow> output_format \<Rightarrow> outcome" where
  "client_cluster_cache_get env client key format =
     show_answer format (get_json env client (cc_base_url client @ cache_get_path key))"

definition client_cluster_cache_flush :: "'w cli_env \<Rightarrow> cli_client \<Rightarrow> output_format \<Rightarrow> outcome" where
  "client_cluster_cache_flush env client format =
     show_answer format (post_json env client (cc_base_url client @ ''/api/admin/cache/flush''))"

section \<open>The options and the dispatch\<close>

record 'w run_options =
  ro_plugins :: "plugin list"
  ro_http_routers :: "(string \<times> 'w http_router_fn) list"
  ro_ws_handlers :: "(string \<times> 'w ws_handler) list"
  ro_tcp_handlers :: "(string \<times> (tcp_context, 'w) tcp_handler) list"
  ro_grpc_services :: "(string \<times> grpc_service_fn) list"
  ro_extra :: "(string list \<Rightarrow> rinfra_config \<Rightarrow> output_format \<Rightarrow> bool) option"
  ro_node_metadata :: metadata

definition run_options_new :: "'w run_options" where
  "run_options_new =
     \<lparr>ro_plugins = [], ro_http_routers = [], ro_ws_handlers = [], ro_tcp_handlers = [],
      ro_grpc_services = [], ro_extra = None, ro_node_metadata = []\<rparr>"

definition opt_plugin :: "plugin \<Rightarrow> 'w run_options \<Rightarrow> 'w run_options" where
  "opt_plugin p o1 = o1\<lparr>ro_plugins := ro_plugins o1 @ [p]\<rparr>"

definition opt_http_router :: "string \<Rightarrow> 'w http_router_fn \<Rightarrow> 'w run_options \<Rightarrow> 'w run_options" where
  "opt_http_router l f o1 = o1\<lparr>ro_http_routers := ro_http_routers o1 @ [(l, f)]\<rparr>"

definition opt_ws_handler :: "string \<Rightarrow> 'w ws_handler \<Rightarrow> 'w run_options \<Rightarrow> 'w run_options" where
  "opt_ws_handler l h o1 = o1\<lparr>ro_ws_handlers := ro_ws_handlers o1 @ [(l, h)]\<rparr>"

definition opt_tcp_handler ::
  "string \<Rightarrow> (tcp_context, 'w) tcp_handler \<Rightarrow> 'w run_options \<Rightarrow> 'w run_options" where
  "opt_tcp_handler l h o1 = o1\<lparr>ro_tcp_handlers := ro_tcp_handlers o1 @ [(l, h)]\<rparr>"

definition opt_grpc_service :: "string \<Rightarrow> grpc_service_fn \<Rightarrow> 'w run_options \<Rightarrow> 'w run_options" where
  "opt_grpc_service l f o1 = o1\<lparr>ro_grpc_services := ro_grpc_services o1 @ [(l, f)]\<rparr>"

definition opt_metadata :: "(string \<times> string) list \<Rightarrow> 'w run_options \<Rightarrow> 'w run_options" where
  "opt_metadata pairs o1 =
     o1\<lparr>ro_node_metadata := foldl (\<lambda>m (k, v). hm_insert k v m) [] pairs\<rparr>"

definition opt_extra_commands ::
  "(string list \<Rightarrow> rinfra_config \<Rightarrow> output_format \<Rightarrow> bool) \<Rightarrow> 'w run_options \<Rightarrow> 'w run_options" where
  "opt_extra_commands f o1 = o1\<lparr>ro_extra := Some f\<rparr>"

definition example_candidates :: "string list" where
  "example_candidates =
     [''config/standalone.example.yaml'', ''../config/standalone.example.yaml'',
      ''../../config/standalone.example.yaml'']"

definition find_config :: "(string \<Rightarrow> bool) \<Rightarrow> string \<Rightarrow> string" where
  "find_config exists hint =
     (if exists hint then hint
      else (case find exists example_candidates of Some c \<Rightarrow> c | None \<Rightarrow> hint))"

definition options_builder :: "string \<Rightarrow> 'w run_options \<Rightarrow> 'w app_builder" where
  "options_builder path opts =
     (let b0 = with_config_path path app_builder_new;
          b1 = fold with_plugin (ro_plugins opts) b0;
          b2 = fold (\<lambda>(l, f). with_http_router l f) (ro_http_routers opts) b1;
          b3 = fold (\<lambda>(l, h). with_ws_handler l h) (ro_ws_handlers opts) b2;
          b4 = fold (\<lambda>(l, h). with_tcp_handler l h) (ro_tcp_handlers opts) b3;
          b5 = fold (\<lambda>(l, f). with_grpc_service l f) (ro_grpc_services opts) b4
      in if ro_node_metadata opts \<noteq> [] then with_node_metadata (ro_node_metadata opts) b5 else b5)"

definition run_server :: "'w cli_env \<Rightarrow> string \<Rightarrow> 'w run_options \<Rightarrow> outcome res" where
  "run_server env path opts =
     (case builder_build (ci_runtime env) (options_builder path opts) of
        Inl _ \<Rightarrow> Inl (Panic ''failed to build application'')
      | Inr app \<Rightarrow>
          (case ci_run env app of
             Inl (Panic m) \<Rightarrow> Inl (Panic m)
           | Inl (Fail e) \<Rightarrow> Ok (fail_with [''Application error: '' @ app_error_display e])
           | Inr _ \<Rightarrow> Ok ([], None)))"

definition with_loaded :: "'w cli_env \<Rightarrow> string \<Rightarrow> (rinfra_config \<Rightarrow> outcome) \<Rightarrow> outcome" where
  "with_loaded env path f =
     (case load_config (ci_runtime env) path of Inl e \<Rightarrow> load_failure e | Inr config \<Rightarrow> f config)"

definition unknown_command :: "string \<Rightarrow> outcome" where
  "unknown_command c =
     fail_with [''Error: unknown command '' @ quoted c, ''Run with --help for available commands.'']"

definition run_cluster_command ::
  "'w cli_env \<Rightarrow> cli_client \<Rightarrow> output_format \<Rightarrow> cluster_command \<Rightarrow> outcome" where
  "run_cluster_command env client format cmd =
     (case cmd of
        Nodes \<Rightarrow> client_cluster_nodes env client format
      | ClusterInfo \<Rightarrow> client_cluster_info env client format
      | ClusterCacheGet key \<Rightarrow> client_cluster_cache_get env client key format
      | ClusterCacheFlush yes \<Rightarrow>
          if \<not> yes
          then fail_with [''Warning: this will flush cache on all cluster nodes.'', ''Use --yes to confirm.'']
          else client_cluster_cache_flush env client format)"

definition run_with_cli :: "'w cli_env \<Rightarrow> cli \<Rightarrow> 'w run_options \<Rightarrow> outcome res" where
  "run_with_cli env c opts =
     (let path = find_config (re_exists (ci_runtime env)) (cli_config c);
          format = cli_format c
      in case cli_command c of
           None \<Rightarrow> run_server env path opts
         | Some ServerStart \<Rightarrow> run_server env path opts
         | Some (ConfigCommand (Show defaults)) \<Rightarrow>
             Ok (if defaults then handle_config_show_defaults env path else handle_config_show env path format)
         | Some (ConfigCommand Validate) \<Rightarrow> Ok (handle_config_validate env path format)
         | Some (ConfigCommand (Init output force)) \<Rightarrow> Ok (handle_config_init env output force)
         | Some PluginList \<Rightarrow> Ok (handle_plugin_list env path format)
         | Some (CacheCommand cmd) \<Rightarrow>
             Ok (with_loaded env path (\<lambda>config.
                   case cmd of
                     CacheGet key \<Rightarrow> client_cache_get env (client_for_local config) key format
                   | CacheFlush \<Rightarrow> client_cache_flush env (client_for_local config) format))
         | Some (ClusterCommand target cmd) \<Rightarrow>
             Ok (with_loaded env path (\<lambda>config.
                   run_cluster_command env (client_for_cluster config target) format cmd))
         | Some (External []) \<Rightarrow> Ok (fail_with [''Error: empty external subcommand''])
         | Some (External (arg # args)) \<Rightarrow>
             Ok (with_loaded env path (\<lambda>config.
                   case ro_extra opts of
                     Some handler \<Rightarrow>
                       if \<not> handler (arg # args) config format then unknown_command arg else ([], None)
                   | None \<Rightarrow> unknown_command arg)))"

section \<open>Lemmas\<close>

text \<open>What a step of the builder leaves alone is left alone by any number of them.\<close>

lemma fold_keeps: "(\<And>x b. g (f x b) = g b) \<Longrightarrow> g (fold f xs b) = g b"
  by (induction xs arbitrary: b) simp_all

lemmas builder_steps = with_plugin_def with_http_router_def with_ws_handler_def with_tcp_handler_def
  with_grpc_service_def with_node_metadata_def with_config_path_def app_builder_new_def

lemma builder_path_kept [simp]:
  "ab_config_path (options_builder path opts) = Some path" "ab_config (options_builder path opts) = None"
  by (simp_all add: options_builder_def Let_def builder_steps split_beta
      fold_keeps [of ab_config_path] fold_keeps [of ab_config])

text \<open>A server and the other commands read the same configuration; only the latter record the path
  they read it from.\<close>

lemma load_config_is_server_config:
  "load_config env path =
     bind_res (settle_config env (options_builder path opts)) (\<lambda>cfg. Ok (cfg\<lparr>rinfra_config_path := path\<rparr>))"
  by (simp add: load_config_def settle_config_def Let_def)

lemma bind_res_Inl_conv: "bind_res r f = Inl e \<longleftrightarrow> r = Inl e \<or> (\<exists>v. r = Inr v \<and> f v = Inl e)"
  by (cases r) (auto simp: bind_res_def)

lemma load_config_fails:
  "load_config env path = Inl e \<Longrightarrow> settle_config env (options_builder path opts) = Inl e"
  by (simp add: load_config_is_server_config [where opts = opts] bind_res_Inl_conv)

section \<open>Properties\<close>

text \<open>The commands that need a configuration, and what a failed load makes of each.\<close>

fun needs_config :: "command option \<Rightarrow> bool" where
  "needs_config (Some (ConfigCommand (Init output force))) = False"
| "needs_config (Some (External [])) = False"
| "needs_config _ = True"

definition broken_outcome :: "cli \<Rightarrow> string \<Rightarrow> fault \<Rightarrow> outcome res" where
  "broken_outcome c path e =
     (case cli_command c of
        None \<Rightarrow> Inl (Panic ''failed to build application'')
      | Some ServerStart \<Rightarrow> Inl (Panic ''failed to build application'')
      | Some (ConfigCommand Validate) \<Rightarrow>
          Ok ([Printed (cli_format c) (validate_result False (fault_text e) path)], Some 1)
      | Some _ \<Rightarrow> Ok ([ErrOut (''Error loading config: '' @ fault_text e)], Some 1))"

text \<open>
  A configuration that does not load stops every command that needs one: the process exits with
  status 1 after a message on the error stream alone (on the output for \<open>config validate\<close>, whose
  report it is), and a server panics while it is built. Nothing is sent to a running server and no
  file is written.
\<close>

theorem broken_configuration_stops_commands:
  assumes "load_config (ci_runtime env) path = Inl e"
    and "path = find_config (re_exists (ci_runtime env)) (cli_config c)" "needs_config (cli_command c)"
  shows "run_with_cli env c opts = broken_outcome c path e"
proof -
  have server: "run_server env path opts = Inl (Panic ''failed to build application'')"
    using load_config_fails [OF assms(1), of opts] by (simp add: run_server_def builder_build_def bind_res_def)
  have loaded: "with_loaded env path f = ([ErrOut (''Error loading config: '' @ fault_text e)], Some 1)" for f
    using assms(1) by (simp add: with_loaded_def load_failure_def fail_with_def)
  show ?thesis
  proof (cases "cli_command c")
    case None
    then show ?thesis using server by (simp add: run_with_cli_def broken_outcome_def Let_def flip: assms(2))
  next
    case (Some cmd)
    show ?thesis
    proof (cases cmd)
      case ServerStart
      then show ?thesis using server Some by (simp add: run_with_cli_def broken_outcome_def Let_def flip: assms(2))
    next
      case (ConfigCommand sub)
      then show ?thesis using assms(1,3) Some
        by (cases sub) (simp_all add: run_with_cli_def broken_outcome_def Let_def handle_config_show_def
            handle_config_show_defaults_def handle_config_validate_def load_failure_def fail_with_def flip: assms(2))
    next
      case PluginList
      then show ?thesis using assms(1) Some
        by (simp add: run_with_cli_def broken_outcome_def Let_def handle_plugin_list_def load_failure_def
            fail_with_def flip: assms(2))
    next
      case (CacheCommand sub)
      then show ?thesis using loaded Some by (simp add: run_with_cli_def broken_outcome_def Let_def flip: assms(2))
    next
      case (ClusterCommand target sub)
      then show ?thesis using loaded Some by (simp add: run_with_cli_def broken_outcome_def Let_def flip: assms(2))
    next
      case (External args)
      then show ?thesis using loaded Some assms(3)
        by (cases args) (simp_all add: run_with_cli_def broken_outcome_def Let_def flip: assms(2))
    qed
  qed
qed

definition demo_cli_env :: "unit cli_env" where
  "demo_cli_env =
     \<lparr>ci_runtime = demo_rt\<lparr>re_exists := (\<lambda>p. p = ''a.yaml''), re_read := (\<lambda>_. Inl ''permission denied'')\<rparr>,
      ci_example = [], ci_write = (\<lambda>_. Inr ()), ci_yaml_text = (\<lambda>_. Inl []), ci_http = (\<lambda>_ _ _. Inl []),
      ci_status_text = (\<lambda>_. []), ci_json_parse = (\<lambda>_. Inl []), ci_run = (\<lambda>_. Ok ())\<rparr>"

theorem broken_configuration_stops_commands_witness:
  "\<exists>e. run_with_cli demo_cli_env \<lparr>cli_command = Some PluginList, cli_config = ''a.yaml'', cli_format = Pretty\<rparr>
     run_options_new = Ok ([ErrOut (''Error loading config: '' @ fault_text e)], Some 1)"
proof -
  have found: "''a.yaml'' = find_config (re_exists (ci_runtime demo_cli_env)) ''a.yaml''"
    by (simp add: find_config_def demo_cli_env_def)
  obtain e where "load_config (ci_runtime demo_cli_env) ''a.yaml'' = Inl e"
    by (simp add: load_config_def load_with_env_def bind_res_def demo_cli_env_def)
  from broken_configuration_stops_commands [OF this, of "\<lparr>cli_command = Some PluginList, cli_config = ''a.yaml'', cli_format = Pretty\<rparr>" run_options_new]
  show ?thesis using found by (auto simp: broken_outcome_def)
qed

text \<open>What a builder gets from the options: the plugins in order, the routers and services of a
  listener in order, the last handler given for a listener.\<close>

lemma options_plugins: "ab_plugins (options_builder path opts) = ro_plugins opts"
proof -
  have pushed: "ab_plugins (fold with_plugin ps b) = ab_plugins b @ ps" for ps and b :: "'w app_builder"
    by (induction ps arbitrary: b) (simp_all add: with_plugin_def)
  show ?thesis
    by (simp add: pushed options_builder_def Let_def split_beta fold_keeps [of ab_plugins] with_http_router_def
        with_ws_handler_def with_tcp_handler_def with_grpc_service_def with_node_metadata_def with_config_path_def
        app_builder_new_def)
qed

text \<open>The path the client asks for is the route of the admin API for the key, but the key goes
  into it as it is, so that the server's decoding applies to it; \<open>flush\<close> and keys with a slash
  have no route.\<close>

lemma cache_get_reaches_route:
  assumes "key \<noteq> []" "CHR ''/'' \<notin> set key" "key \<noteq> ''flush''"
  shows "map_option (admin_routes decode ''GET'') (strip_prefix (cache_get_path key) ''/api/admin'') =
    Some (Inr (ApiCacheGet (decode key)))"
proof -
  have "strip_prefix (cache_get_path key) ''/api/admin'' = Some (''/cache/'' @ key)"
    by (simp add: strip_prefix_Some cache_get_path_def)
  moreover have "strip_prefix (''/cache/'' @ key) ''/cache/'' = Some key"
    by (rule strip_prefix_append)
  ultimately show ?thesis using assms by (simp add: admin_routes_def is_get_def Let_def)
qed

text \<open>The token the client sends is the cluster token. The admin API checks it against its own
  records: without a live record for that very text every request is refused, and the command
  fails with the server's answer.\<close>

lemma cluster_token_refused:
  assumes "\<forall>p \<in> set (as_exclude_paths svc). \<not> starts_with (rq_path rq) p"
    and "rq_x_admin_token rq = Absent" "rq_authorization rq = Text (''Bearer '' @ cc_token client)"
    and "\<forall>r \<in> set (ts_tokens (ad_store s)). \<not> live ar now (cc_token client) r"
  shows "fst (admin_call ar uuid now svc inner rq s) = Unauthorized"
proof -
  have "find (live ar now (cc_token client)) (ts_tokens (ad_store s)) = None"
    using assms(4) by (simp add: find_None_iff)
  then have "fst (token_verify ar now (cc_token client) (ad_store s)) = None"
    by (simp add: fst_token_verify verify_records_find)
  moreover have "extract_token rq = Some (cc_token client)"
    using assms(2,3) strip_prefix_append [of "''Bearer ''" "cc_token client"] by (simp add: extract_token_def)
  ultimately show ?thesis
    using assms(1) by (auto simp: admin_call_def split: prod.splits)
qed

lemma refused_request_exits:
  "ci_http env verb url tok = Inr (401, Inr body) \<Longrightarrow>
     tok = (if cc_token client \<noteq> [] then Some (cc_token client) else None) \<Longrightarrow>
     show_answer format (client_json env client verb url) =
       ([Printed format (JObj [(''error'', JStr (''HTTP '' @ ci_status_text env 401 @ '': '' @ body))])], Some 1)"
  by (simp add: client_json_def show_answer_def print_error_def)

text \<open>A configuration file that does not exist is not an error: another one is used in its place, or
  the defaults are, and \<open>config validate\<close> calls it valid.\<close>

lemma missing_config_uses_example:
  "\<not> exists hint \<Longrightarrow> exists ''config/standalone.example.yaml'' \<Longrightarrow>
     find_config exists hint = ''config/standalone.example.yaml''"
  by (simp add: find_config_def example_candidates_def)

lemma missing_config_validates:
  "\<not> re_exists (ci_runtime env) path \<Longrightarrow>
     handle_config_validate env path format =
       ([Printed format (validate_result True ''configuration is valid'' path)], None)"
  by (simp add: handle_config_validate_def load_config_def bind_res_def)

text \<open>The list of plugins knows one of the three message buses only, so that a configured NATS or
  Redis bus is in \<open>config show\<close> and not in \<open>plugin list\<close>.\<close>

lemma nats_not_listed:
  assumes "mqs_backend (plugins_mq (rinfra_plugins config)) = Nats"
    and "\<forall>l \<in> set (net_listeners (plugins_net (rinfra_plugins config))). listener_name l \<noteq> ''mq.nats''"
  shows "''mq.nats'' \<in> set (collect_enabled config) \<and> ''mq.nats'' \<notin> fst ` set (cli_plugins config)"
  using assms by (auto simp: collect_enabled_def cli_plugins_def Let_def)

end
