(* ===== verification/Example_Nodes.thy ===== *)
theory Example_Nodes
  imports Cli Cluster_Join Proxy
begin

text \<open>
  The example programs of \<open>rinfra-examples\<close>: the page of the web node (\<open>src/web.rs\<close>), the router of
  the proxy (\<open>src/proxy.rs\<close>) and the three binaries (\<open>src/bin/\<close>), each a set of options for the
  command line's \<open>run\<close>. They put most of the library together, and so does the property here: from
  the options of the web node over builder, configuration, registration and the registry of the
  main node to the backends the proxy chooses.
\<close>

section \<open>The page of the web node\<close>

text \<open>The pieces of the template between its arguments.\<close>

definition page_start :: string where
  \<open>page_start =
    ''<!DOCTYPE html>
<html lang="en">
<head>
    <meta charset="UTF-8">
    <meta name="viewport" content="width=device-width, initial-scale=1.0">
    <title>''\<close>

definition page_style :: string where
  \<open>page_style =
    ''</title>
    <style>
        * { margin: 0; padding: 0; box-sizing: border-box; }
        body {
            font-family: -apple-system, BlinkMacSystemFont, 'Segoe UI', Roboto, sans-serif;
            background: linear-gradient(135deg, #667eea 0%, #764ba2 100%);
            min-height: 100vh;
            display: flex;
            align-items: center;
            justify-content: center;
            color: #333;
        }
        .card {
            background: white;
            border-radius: 16px;
            padding: 48px;
            box-shadow: 0 20px 60px rgba(0,0,0,0.2);
            max-width: 480px;
            width: 90%;
            text-align: center;
        }
        h1 { font-size: 2rem; margin-bottom: 8px; color: #1a1a2e; }
        .subtitle { color: #888; margin-bottom: 32px; font-size: 0.95rem; }
        .info { text-align: left; }
        .info-row {
            display: flex;
            justify-content: space-between;
            padding: 12px 0;
            border-bottom: 1px solid #eee;
            font-size: 0.9rem;
        }
        .info-row:last-child { border-bottom: none; }
        .label { color: #888; }
        .value { font-weight: 600; color: #1a1a2e; }
        .badge {
            display: inline-block;
            background: #e8f5e9;
            color: #2e7d32;
            padding: 2px 10px;
            border-radius: 12px;
            font-size: 0.8rem;
        }
    </style>
</head>
<body>
    <div class="card">
        <h1>rinfra</h1>
        <p class="subtitle">Modular Rust Infrastructure Framework</p>
        <div class="info">
            <div class="info-row">
                <span class="label">Service</span>
                <span class="value">''\<close>

definition page_version :: string where
  \<open>page_version =
    ''</span>
            </div>
            <div class="info-row">
                <span class="label">Version</span>
                <span class="value">''\<close>

definition page_node :: string where
  \<open>page_node =
    ''</span>
            </div>
            <div class="info-row">
                <span class="label">Node ID</span>
                <span class="value">''\<close>

definition page_uptime :: string where
  \<open>page_uptime =
    ''</span>
            </div>
            <div class="info-row">
                <span class="label">Uptime</span>
                <span class="value">''\<close>

definition page_end :: string where
  \<open>page_end =
    ''</span>
            </div>
            <div class="info-row">
                <span class="label">Status</span>
                <span class="value"><span class="badge">Online</span></span>
            </div>
        </div>
    </div>
</body>
</html>''\<close>

text \<open>\<open>{:.0?}\<close> of a \<open>Duration\<close>: the largest unit below it, rounded to a whole number, halves to even.\<close>

definition round_half_even :: "nat \<Rightarrow> nat \<Rightarrow> nat" where
  "round_half_even n u =
     (let q = n div u; r = n mod u
      in if 2 * r > u \<or> (2 * r = u \<and> odd q) then q + 1 else q)"

definition show_duration :: "nat \<Rightarrow> string" where
  "show_duration ns =
     (if 10 ^ 9 \<le> ns then show_nat (round_half_even ns (10 ^ 9)) @ ''s''
      else if 10 ^ 6 \<le> ns then show_nat (round_half_even ns (10 ^ 6)) @ ''ms''
      else if 10 ^ 3 \<le> ns then show_nat (round_half_even ns (10 ^ 3)) @ [CHR 0xC2, CHR 0xB5] @ ''s''
      else show_nat ns @ ''ns'')"

definition index_page :: "string \<Rightarrow> string \<Rightarrow> string \<Rightarrow> nat \<Rightarrow> string" where
  "index_page name version node uptime =
     page_start @ name @ page_style @ name @ page_version @ version @ page_node @ node @ page_uptime @
       show_duration uptime @ page_end"

definition html_response :: "string \<Rightarrow> http_response" where
  "html_response page =
     \<lparr>hp_status = 200, hp_headers = [(''content-type'', ''text/html; charset=utf-8'')],
      hp_body = BodyBytes (map (\<lambda>c. of_nat (of_char c)) page)\<rparr>"

definition index_handler :: "'w http_env \<Rightarrow> app_state \<Rightarrow> 'w service" where
  "index_handler env state rq w =
     (case he_clock env w of
        (now, w1) \<Rightarrow>
          (Ok (html_response (index_page (app_name (rinfra_app (as_config state))) (app_version (rinfra_app (as_config state)))
             (cluster_node_id (plugins_cluster (rinfra_plugins (as_config state)))) (now - as_started_at state))), w1))"

text \<open>\<open>get(handler)\<close>: the handler serves \<open>GET\<close> and, without the body, \<open>HEAD\<close>.\<close>

definition get_only :: "'w service \<Rightarrow> 'w service" where
  "get_only svc rq w =
     (if hq_method rq = ''GET'' then svc rq w
      else if hq_method rq = ''HEAD''
      then (case svc rq w of (r, w1) \<Rightarrow> (map_sum id (\<lambda>p. p\<lparr>hp_body := BodyBytes []\<rparr>) r, w1))
      else (Ok \<lparr>hp_status = 405, hp_headers = [(''allow'', ''GET,HEAD'')], hp_body = BodyBytes []\<rparr>, w))"

definition web_router :: "'w http_env \<Rightarrow> app_state \<Rightarrow> 'w axum_router res" where
  "web_router env state = add_route ''/'' (get_only (index_handler env state)) router_new"

section \<open>The router of the proxy\<close>

text \<open>The list of nodes and the counter are shared with the requests that run; the query is not part of
  a request here.\<close>

record 'w proxy_env =
  pe_send :: "'w upstream"
  pe_nodes :: "'w \<Rightarrow> node_info list"
  pe_counter :: "'w \<Rightarrow> u64"
  pe_set_counter :: "u64 \<Rightarrow> 'w \<Rightarrow> 'w"
  pe_query :: "http_request \<Rightarrow> string option"

definition proxy_service :: "'w proxy_env \<Rightarrow> 'w service" where
  "proxy_service px rq w =
     (case proxy_handler (pe_send px) (pe_nodes px w) (pe_counter px w)
        \<lparr>px_method = hq_method rq, px_path = hq_path rq, px_query = pe_query px rq, px_headers = hq_headers rq,
         px_body = BodyBytes (hq_body rq)\<rparr> w of
        (resp, counter, w1) \<Rightarrow> (Ok resp, pe_set_counter px counter w1))"

definition proxy_router :: "'w proxy_env \<Rightarrow> app_state \<Rightarrow> 'w axum_router res" where
  "proxy_router px state =
     (if state_get (TOther ''ClusterNodeList'') state = None
      then Inl (Panic ''ClusterNodeList not found in AppState; cluster mode required'')
      else bind_res (add_route ''/{*path}'' (proxy_service px) router_new) (add_route ''/'' (proxy_service px)))"

section \<open>The binaries\<close>

definition web_options :: "'w http_env \<Rightarrow> 'w run_options" where
  "web_options env = opt_metadata [(''service_type'', ''web'')] (opt_http_router ''main'' (web_router env) run_options_new)"

definition proxy_options :: "'w proxy_env \<Rightarrow> 'w run_options" where
  "proxy_options px = opt_metadata [(''service_type'', ''proxy'')] (opt_http_router ''main'' (proxy_router px) run_options_new)"

text \<open>The main node serves the admin service.\<close>

definition main_options :: "(app_state \<Rightarrow> 'w axum_router res) \<Rightarrow> 'w run_options" where
  "main_options admin = opt_http_router ''main'' admin run_options_new"

section \<open>Lemmas\<close>

lemmas web_builder_defs = options_builder_def web_options_def opt_metadata_def opt_http_router_def run_options_new_def
  with_http_router_def with_node_metadata_def with_config_path_def app_builder_new_def hm_insert_def

lemma web_metadata: "ab_node_metadata (options_builder path (web_options env)) = [(''service_type'', ''web'')]"
  by (simp add: web_builder_defs Let_def)

lemma built_metadata: "builder_build env b = Ok ap \<Longrightarrow> ap_node_metadata ap = ab_node_metadata b"
  by (auto simp: builder_build_def bind_res_Inr_iff)

text \<open>The HTTP endpoints of a registered web node are among the backends.\<close>

lemma registered_web_endpoint:
  assumes "hm_get md ''service_type'' = Some ''web''" and "e \<in> set es" and "ep_protocol e = ''http''"
  shows "ep_address e \<in> set (web_endpoints (hm_values (registry_register n role es md reg)))"
proof -
  obtain i where i: "hm_get (registry_register n role es md reg) n = Some i"
      "ni_status i = Online" "ni_metadata i = md" "ni_endpoints i = es"
    by simp
  then have "i \<in> set (hm_values (registry_register n role es md reg))" by (intro hm_values_get)
  then show ?thesis using i assms by (auto simp: web_endpoints_def is_web_node_def)
qed

lemma worker_connection_simps [simp]:
  "cc_metadata (worker_connection env ap) = ap_node_metadata ap"
  "cluster_connection.cc_token (worker_connection env ap) = cluster_cluster_token (plugins_cluster (rinfra_plugins (ap_config ap)))"
  "cc_endpoints (worker_connection env ap) =
     map (worker_endpoint (re_hostname env)) (net_listeners (plugins_net (rinfra_plugins (ap_config ap))))"
  by (simp_all add: worker_connection_def cluster_connection_new_def Let_def)

section \<open>Properties\<close>


text \<open>A web node with one listener, its configuration in a file.\<close>

definition web_listener :: listener_config where
  "web_listener = \<lparr>listener_name = ''main'', listener_protocol = Http, listener_bind = ''0.0.0.0:80'',
     listener_http = None, listener_tcp = None\<rparr>"

definition web_config :: rinfra_config where
  "web_config =
     (let d = rinfra_config_default ''host''; p = rinfra_plugins d
      in d\<lparr>rinfra_plugins := p\<lparr>plugins_net := \<lparr>net_listeners = [web_listener]\<rparr>,
           plugins_cluster := (plugins_cluster p)\<lparr>cluster_node_id := ''w1'', cluster_cluster_token := ''t''\<rparr>\<rparr>\<rparr>)"

definition web_rt :: "unit rt_env" where
  "web_rt = demo_rt\<lparr>re_exists := (\<lambda>p. p = ''a.yaml''), re_read := (\<lambda>_. Inr ''yaml''),
     re_yaml := (\<lambda>_. Inr (enc_rinfra_config web_config))\<rparr>"

definition web_worker :: cluster_connection where
  "web_worker = cluster_connection_new ''id'' ''w1'' (cluster_main_address (plugins_cluster (rinfra_plugins web_config))) ''t''
     (cluster_ping_interval_secs (plugins_cluster (rinfra_plugins web_config)))
     [worker_endpoint ''box'' web_listener] [(''service_type'', ''web'')]"

definition web_json :: serde_lib where
  "web_json = table_json (map enc_message
     [register_message None web_worker, RegisterAck True None, RegisterAck False (Some ''invalid token'')])"

lemma web_config_simps [simp]:
  "rinfra_config_path web_config = []"
  "metrics_enabled (plugins_metrics (rinfra_plugins web_config)) = False"
  "net_listeners (plugins_net (rinfra_plugins web_config)) = [web_listener]"
  "cluster_node_id (plugins_cluster (rinfra_plugins web_config)) = ''w1''"
  "cluster_cluster_token (plugins_cluster (rinfra_plugins web_config)) = ''t''"
  by (simp_all add: web_config_def Let_def rinfra_config_default_def plugin_configs_default_def
      metrics_config_default_def default_false_def)

lemma web_settles: "settle_config web_rt (options_builder ''a.yaml'' opts) = Ok web_config"
proof -
  have "ab_config_path (options_builder ''a.yaml'' opts) = Some ''a.yaml''" "ab_config (options_builder ''a.yaml'' opts) = None"
    by simp_all
  then show ?thesis
    by (simp add: settle_config_def web_rt_def demo_rt_def load_with_env_def dec_enc_rinfra_config Let_def)
qed

lemma web_builds: "\<exists>ap. builder_build web_rt (options_builder ''a.yaml'' (web_options he)) = Ok ap \<and> ap_config ap = web_config"
  unfolding builder_build_def web_settles
  by (simp add: web_rt_def demo_rt_def builtin_compressors_def transform_register_def register_named_def
      compressor_transform_def lz4_compressor_def gzip_compressor_def web_builder_defs Let_def hm_contains_def hm_get_def)

lemma web_endpoint: "worker_endpoint ''box'' web_listener = \<lparr>ep_protocol = ''http'', ep_address = ''box:80''\<rparr>"
  by code_simp


text \<open>The page shows the configuration's values as they are, the name twice.\<close>

lemma page_shows_values:
  "\<exists>a b c d. index_page name version node uptime = a @ name @ b @ name @ c @ version @ d" and
  "\<exists>a b. index_page name version node uptime = a @ node @ b" and
  "\<exists>a b. index_page name version node uptime = a @ show_duration uptime @ b"
  unfolding index_page_def by (metis append.assoc)+

lemma index_handler_get:
  "hq_method rq = ''GET'' \<Longrightarrow> he_clock env w = (now, w1) \<Longrightarrow>
     get_only (index_handler env state) rq w =
       (Ok (html_response (index_page (app_name (rinfra_app (as_config state))) (app_version (rinfra_app (as_config state)))
          (cluster_node_id (plugins_cluster (rinfra_plugins (as_config state)))) (now - as_started_at state))), w1)"
  by (simp add: get_only_def index_handler_def)

text \<open>The proxy's router needs the list of nodes, which only workers have.\<close>

lemma proxy_router_needs_nodes:
  "(\<exists>r. proxy_router px state = Ok r) \<longleftrightarrow> state_get (TOther ''ClusterNodeList'') state \<noteq> None"
  by (auto simp: proxy_router_def add_route_def router_new_def bind_res_def)

lemma workers_have_node_list:
  "ap_cluster_node_list ap \<Longrightarrow> state_get (TOther ''ClusterNodeList'') (runtime_state ap state) \<noteq> None"
  by (simp add: runtime_state_def Let_def state_map.look_put)

section \<open>Limits\<close>

text \<open>The race of a worker's start reaches the users of the proxy: when the main node notices the end of
  the first connection too late, the web node is active but its only request is answered 503.\<close>

lemma late_end_gives_503:
  assumes "tok = [] \<or> cluster_connection.cc_token c = tok"
    and "nodes = hm_values (cl_registry (server_run (start_events c False) (cluster_server_new tok)))"
  shows "proxy_handler send nodes counter req w = (text_response 503 ''no web backends available'', counter, w)"
proof -
  have "web_endpoints nodes = []"
    using assms
    by (auto simp: start_events_def server_run_def server_step_def cluster_server_new_def Let_def web_endpoints_def
        is_web_node_def await_step_def active_step_def handle_register_def register_message_def leave_def
        registry_register_def registry_unregister_def registry_set_status_def hm_insert_def hm_get_def hm_values_def)
  then show ?thesis by (rule no_backend_no_traffic)
qed

text \<open>The values are put into the page without escaping, so that a name can hold markup.\<close>

lemma name_is_not_escaped:
  "\<exists>a b. index_page ''<script>x()</script>'' version node uptime = a @ ''<script>x()</script>'' @ b"
  using page_shows_values(1) [of "''<script>x()</script>''" version node uptime] by blast

text \<open>A duration just below a unit is rounded up within the smaller one.\<close>

lemma uptime_1000ms: "show_duration 999600000 = ''1000ms''"
  by (simp add: show_duration_def round_half_even_def show_nat.simps digit_char_def Let_def) code_simp

end
