(* ===== verification/Spec2Isabelle.thy ===== *)
theory Spec2Isabelle
  imports Prelude Errors Circuit_Breaker Resilience Lock Timer F64 Rate_Limit Json Config_Model
    Config_Env Registries Tcp Message_Bus Cluster
    Decimal Store Repository Sql_Stores Store_Backends Derive Cache Crypto
    Audit_Log Admin_Auth Admin_Tokens
    I18n Codecs Text_Maps Config_Watch Plugins Builtin_Plugins Startup App_State Health
    Http_Middleware Http_Server WebSocket Trpc Trpc_Client
    Http_Client File_Store Stream_Bus Script_Engines Observability
    Cluster_Codec Serving Cluster_Join Proxy
    Runtime Listeners Admin_Api Admin_Metrics Cli Example_Nodes
begin

text \<open>
  This library models the Rust workspace rinfra, a framework for backend services, and proves what
  its parts do. The workspace has a core crate of interfaces and data (\<open>rinfra-core\<close>),
  the crate of their implementations and of the application that is put together from them
  (\<open>rinfra-plugins\<close>), the derive macros (\<open>rinfra-derive\<close>), the admin
  service (\<open>rinfra-admin/backend\<close>) and example programs
  (\<open>rinfra-examples\<close>). All paths below are relative to these crates' directories under
  \<open>src/\<close>.

  \<^bold>\<open>How the program works.\<close> An application reads its configuration, builds the
  plugins in a fixed order into a map of components that is indexed by type, starts the cluster
  connection and one server per configured listener, and on a signal shuts the servers and then the
  plugins down, in the opposite order. Requests reach handlers through middleware; handlers use the
  components: caches, stores, locks, timers, message buses, key providers, script engines, the audit
  log. The admin service and the command line look at a running application from outside.

  \<^bold>\<open>Conventions.\<close>
  \<^item> A struct is a record and an enum a datatype, with the source's names where HOL allows
    them. Machine integers are words of their width where arithmetic on them matters (release
    builds, so that they wrap); lengths and indices are natural numbers. Instants are nanoseconds.
    An \<open>f64\<close> is a rational number with rounding written out (\<open>F64\<close>).
  \<^item> A fallible function returns \<open>'a res\<close>: \<open>Ok v\<close>,
    \<open>Err code text\<close> for an \<open>AppError\<close>, or \<open>Inl (Panic m)\<close>
    where the code panics (\<open>Prelude\<close>, \<open>Errors\<close>).
  \<^item> A hash map is an association list with distinct keys (\<open>hm_get\<close>,
    \<open>hm_insert\<close>, \<open>hm_ok\<close>); what depends on the order of its iteration is
    stated for the order the list happens to have.
  \<^item> Shared mutable state and everything outside is a world \<open>'w\<close> that operations
    return updated. Tasks that run concurrently are step functions or inductive relations over
    events, and statements about them hold for every sequence of events. Loops over a socket or a
    channel are recursions over the list of what it gives. The loop that waits for a lock is
    a \<open>partial_function\<close>, with a theorem that it returns; the replacement of a
    pattern in a text (\<open>I18n\<close>) is the only definition with fuel, which is the length of the
    text and is enough because every step takes at least one character.
  \<^item> Code that is not in the repository (database drivers, Redis, NATS, reqwest, JSON and YAML
    text, Argon2, AES, UUIDs, the clock, the operating system) is a record of functions that the
    definitions take as an argument. What a proof needs of it is a hypothesis that states its
    documented behaviour, and the witness of the property gives a concrete instance.
  \<^item> All cargo features are on. Logging through \<open>tracing\<close> is not modelled.

  \<^bold>\<open>Foundations.\<close> \<open>Prelude\<close> holds results, hash maps, words, texts
  and their lemmas; \<open>Errors\<close> the error codes and \<open>ApiResponse\<close>
  (\<open>core error/\<close>, \<open>response/\<close>); \<open>F64\<close> rounding;
  \<open>Decimal\<close> numbers as text; \<open>Json\<close> the data model of
  \<open>serde_json\<close> with the shapes that derives give to structs; \<open>Text_Maps\<close>
  maps of texts.

  \<^bold>\<open>Resilience.\<close> \<open>Circuit_Breaker\<close>
  (\<open>core resilience/circuit_breaker.rs\<close>) is a state machine with 32-bit counters: its
  invariant, when it opens, how it recovers. \<open>Resilience\<close>
  (\<open>core resilience/retry.rs\<close>, \<open>plugins resilience/\<close>) has the retry loop
  and the wrappers; \<open>Http_Client\<close> (\<open>core http_client/\<close>,
  \<open>plugins http_client/\<close>) is shown equivalent to the generic retry.

  \<^bold>\<open>Coordination.\<close> \<open>Lock\<close> (\<open>core lock/\<close>,
  \<open>plugins lock/\<close>) states the lock's contract as a locale,
  interprets it for the lock in memory and proves it for the Redis lock over any server with the
  documented commands: mutual exclusion from the grant to the end of the time to live.
  \<open>Timer\<close> (\<open>core timer/\<close>, \<open>plugins timer/simple.rs\<close>)
  has the task loop with the cluster lock; a cluster task
  runs on one node at a time, by the lock's contract. \<open>Rate_Limit\<close>
  (\<open>core ratelimit/\<close>, \<open>plugins ratelimit/\<close>) bounds what token buckets
  admit, in floating point. \<open>Message_Bus\<close> and \<open>Stream_Bus\<close>
  (\<open>core mq/\<close>, \<open>plugins mq/\<close>) have the bus in memory and those over Redis
  Streams and NATS: order and completeness of delivery.

  \<^bold>\<open>Data.\<close> \<open>Store\<close> (\<open>core store/\<close>) has values, rows
  and specifications, which are shown equivalent to conditions with their values written in;
  \<open>Repository\<close> (\<open>plugins store/generic_repo.rs\<close>) the statements of the
  generic repository; \<open>Sql_Stores\<close> and \<open>Store_Backends\<close>
  (\<open>plugins store/\<close>) the three SQL stores, with a locale for a connection's life;
  \<open>Derive\<close> (\<open>rinfra-derive/src/lib.rs\<close>) the macros as functions from a
  struct to its generated code. \<open>Cache\<close> (\<open>core cache/\<close>,
  \<open>plugins cache/\<close>), \<open>Crypto\<close> (\<open>core crypto/\<close>,
  \<open>plugins crypto/\<close>), \<open>Codecs\<close> (\<open>plugins codec/\<close>,
  \<open>compress/\<close>), \<open>I18n\<close> (\<open>i18n/\<close>), \<open>File_Store\<close>
  (\<open>file_store/\<close>), \<open>Audit_Log\<close> (\<open>audit/\<close>) and
  \<open>Script_Engines\<close> (\<open>plugins script/\<close>) are one component each.
  \<open>Registries\<close> has the registries of named components (\<open>core net/\<close>,
  \<open>compress/\<close>, \<open>script/\<close>, \<open>timer/\<close>, \<open>codec/\<close>).

  \<^bold>\<open>Configuration.\<close> \<open>Config_Model\<close>
  (\<open>core config/model.rs\<close>) has every struct with its defaults, encoder and decoder;
  \<open>Config_Env\<close> (\<open>plugins config/mod.rs\<close>) loading and the environment;
  \<open>Config_Watch\<close> (\<open>core config/watch.rs\<close>,
  \<open>plugins config_watch/\<close>) the polling watcher.

  \<^bold>\<open>Application.\<close> \<open>Plugins\<close> (\<open>core plugin/\<close>,
  \<open>appstate.rs\<close>) has the map of components, the build context and the registry;
  \<open>Builtin_Plugins\<close> (\<open>plugins plugin/builtin.rs\<close>) each built-in plugin
  with the types it may touch; \<open>Startup\<close> refines the list of plugins to one function of
  the configuration and gives the exact condition for starting; \<open>App_State\<close> has the
  accessors of the state; \<open>Health\<close> (\<open>plugins health/\<close>) the probes.
  \<open>Runtime\<close> and \<open>Listeners\<close> (\<open>plugins runtime/mod.rs\<close>) have
  the builder, the start of cluster, plugins and listeners, refined to a function of configuration
  and builder, and the shutdown. \<open>Observability\<close> (\<open>plugins log/\<close>,
  \<open>telemetry/\<close>, \<open>rpc/grpc.rs\<close>) has what logging, telemetry and gRPC are
  set up with. \<open>Cli\<close> (\<open>core cli/\<close>, \<open>plugins cli/\<close>) has the
  commands.

  \<^bold>\<open>Networking.\<close> \<open>Http_Middleware\<close> and \<open>Http_Server\<close>
  (\<open>plugins net/http.rs\<close>, \<open>net/middleware/\<close>, \<open>metrics/\<close>) have
  services, the middleware and their chain; \<open>Tcp\<close> (\<open>plugins net/tcp.rs\<close>)
  the handling of a connection; \<open>WebSocket\<close> (\<open>net/ws.rs\<close>) connections and
  their counting; \<open>Trpc\<close> and \<open>Trpc_Client\<close>
  (\<open>plugins rpc/trpc/\<close>) the light RPC protocol with a step relation for the client;
  \<open>Serving\<close> the accept loops of the TCP, cluster and RPC servers, with a locale that
  two of them interpret. \<open>Cluster\<close> (\<open>core cluster/\<close>,
  \<open>plugins cluster/\<close>) has the protocol as state machines of both sides with an
  invariant on presence, \<open>Cluster_Codec\<close> its JSON form and framing,
  \<open>Cluster_Join\<close> a registration from the worker over the wire into the registry.
  \<open>Proxy\<close> (\<open>rinfra-examples/src/proxy.rs\<close>) deals requests out to the nodes
  of that registry. \<open>Example_Nodes\<close> (\<open>rinfra-examples/src/web.rs\<close>,
  \<open>src/bin/\<close>) has the web node's page and the three binaries, and follows a web node from the
  options of its binary through builder, registration and registry to the requests the proxy sends it.

  \<^bold>\<open>Admin service.\<close> \<open>Admin_Auth\<close> and \<open>Admin_Tokens\<close>
  (\<open>backend/src/auth/\<close>, \<open>routes.rs\<close>) have the token store with its file,
  the middleware and the token routes: who may manage tokens, what deletion and rotation leave, and
  the file as a refinement of the store. \<open>Admin_Api\<close> and \<open>Admin_Metrics\<close>
  (\<open>routes.rs\<close>, \<open>lib.rs\<close>, \<open>extensions.rs\<close>) have the read-only
  routes and the reading of Prometheus text, shown to invert its rendering.

  \<^bold>\<open>Sections called Limits\<close> hold lemmas that show, on concrete inputs, behaviour
  the source's documentation does not promise or that is a defect.

  \<^bold>\<open>Not modelled.\<close> System calls themselves (sockets, signals, files, processes)
  and the libraries named above; the recorder of metrics and what is counted; the frontend, its SDK
  and the serving of its files; module lists and re-exports; the tests. Drops of values and the \<open>Clone\<close> of handles have no counterpart unless the code
  gives them behaviour (\<open>worker_drop\<close>).
\<close>

end
